(* ===== verification/Prelude.thy ===== *)
theory Prelude
  imports Main "HOL-Library.List_Lexorder" "HOL-Library.Char_ord"
begin

text \<open>
  Shared vocabulary of the development.

  \<^item> The exceptions of the API (\<open>exn\<close>): one constructor per exception class the services
    throw, carrying the constant text of the message, interpolated values left out.
  \<^item> Two state-passing disciplines. A \<open>tx\<close> computation is the body of a database
    transaction: an exception discards the state (\<open>$transaction\<close> rolls back). A \<open>svc\<close>
    computation runs outside a transaction: an exception keeps what was written before it.
    \<open>runTx\<close> embeds the first into the second.
  \<^item> Tables as lists of rows in insertion order, with the relational operations the services
    call: filtered search ordered by a key, guarded update of the matching rows with the count of
    rows changed, sums over the matching rows.
  \<^item> Partial correctness (\<open>valid\<close>) and the lemmas the component proofs share.
\<close>

section \<open>Identifiers, exceptions, results\<close>

type_synonym ident = nat

datatype exn =
    BadRequest string
  | Unauthorized string
  | Forbidden string
  | NotFound string
  | Conflict string
  | TooManyRequests string
  | PlainError string
  | PrismaError string

type_synonym 'a result = "exn + 'a"

named_theorems run_defs "unfolding rules of the state-passing combinators"
named_theorems table_simps "facts on table operations"

text \<open>Computations that may throw and touch no state.\<close>

definition bindE :: "'e + 'a \<Rightarrow> ('a \<Rightarrow> 'e + 'b) \<Rightarrow> 'e + 'b" where
  "bindE m k = (case m of Inl e \<Rightarrow> Inl e | Inr x \<Rightarrow> k x)"

definition requireE :: "bool \<Rightarrow> 'e \<Rightarrow> 'e + unit" where
  "requireE b e = (if b then Inr () else Inl e)"

lemma bindE_simps [simp]: "bindE (Inl e) k = Inl e" "bindE (Inr x) k = k x"
  by (simp_all add: bindE_def)

lemma bindE_Inr: "bindE m k = Inr y \<longleftrightarrow> (\<exists>x. m = Inr x \<and> k x = Inr y)"
  by (auto simp: bindE_def split: sum.splits)

lemma requireE_Inr: "requireE b e = Inr u \<longleftrightarrow> b"
  by (auto simp: requireE_def)

text \<open>\<open>xs.map\<close> of a callback that may throw: the first exception wins.\<close>

primrec mapE :: "('a \<Rightarrow> 'e + 'b) \<Rightarrow> 'a list \<Rightarrow> 'e + 'b list" where
  "mapE f [] = Inr []"
| "mapE f (x # xs) = bindE (f x) (\<lambda>y. bindE (mapE f xs) (\<lambda>ys. Inr (y # ys)))"

lemma mapE_Inr: "mapE f xs = Inr ys \<longleftrightarrow> list_all2 (\<lambda>x y. f x = Inr y) xs ys"
  by (induction xs arbitrary: ys) (auto simp: bindE_Inr list_all2_Cons1)

lemma mapE_map:
  assumes "mapE f xs = Inr ys" and "\<And>x y. x \<in> set xs \<Longrightarrow> f x = Inr y \<Longrightarrow> g y = h x"
  shows "map g ys = map h xs"
  using assms by (induction xs arbitrary: ys) (auto simp: bindE_Inr)

lemma mapE_image: "mapE f xs = Inr ys \<Longrightarrow> y \<in> set ys \<Longrightarrow> \<exists>x \<in> set xs. f x = Inr y"
  by (induction xs arbitrary: ys) (auto simp: bindE_Inr)

lemma mapE_defined:
  assumes "mapE f xs = Inr ys" and "x \<in> set xs"
  obtains y where "f x = Inr y"
  using assms by (induction xs arbitrary: ys thesis) (auto simp: bindE_Inr)

lemma mapE_all:
  "mapE f xs = Inr ys \<Longrightarrow> (\<And>x y. x \<in> set xs \<Longrightarrow> f x = Inr y \<Longrightarrow> P y) \<Longrightarrow> \<forall>y \<in> set ys. P y"
  using mapE_image by metis

section \<open>Transactions\<close>

type_synonym ('s, 'a) tx = "'s \<Rightarrow> exn + ('a \<times> 's)"

definition returnT :: "'a \<Rightarrow> ('s, 'a) tx" where
  "returnT x s = Inr (x, s)"

definition throwT :: "exn \<Rightarrow> ('s, 'a) tx" where
  "throwT e s = Inl e"

definition bindT :: "('s, 'a) tx \<Rightarrow> ('a \<Rightarrow> ('s, 'b) tx) \<Rightarrow> ('s, 'b) tx" where
  "bindT m k s = (case m s of Inl e \<Rightarrow> Inl e | Inr (x, s') \<Rightarrow> k x s')"

definition thenT :: "('s, 'a) tx \<Rightarrow> ('s, 'b) tx \<Rightarrow> ('s, 'b) tx" where
  "thenT m k = bindT m (\<lambda>_. k)"

definition requireT :: "bool \<Rightarrow> exn \<Rightarrow> ('s, unit) tx" where
  "requireT b e s = (if b then Inr ((), s) else Inl e)"

definition getT :: "('s \<Rightarrow> 'a) \<Rightarrow> ('s, 'a) tx" where
  "getT f s = Inr (f s, s)"

definition modT :: "('s \<Rightarrow> 's) \<Rightarrow> ('s, unit) tx" where
  "modT f s = Inr ((), f s)"

definition stateT :: "('s \<Rightarrow> 'a \<times> 's) \<Rightarrow> ('s, 'a) tx" where
  "stateT f s = Inr (f s)"

text \<open>\<open>for (const x of xs) acc = await f(x, acc)\<close>.\<close>

primrec foldT :: "('x \<Rightarrow> 'a \<Rightarrow> ('s, 'a) tx) \<Rightarrow> 'x list \<Rightarrow> 'a \<Rightarrow> ('s, 'a) tx" where
  "foldT f [] acc = returnT acc"
| "foldT f (x # xs) acc = bindT (f x acc) (foldT f xs)"

text \<open>\<open>for (const x of xs) await f(x)\<close>.\<close>

primrec forT :: "('x \<Rightarrow> ('s, unit) tx) \<Rightarrow> 'x list \<Rightarrow> ('s, unit) tx" where
  "forT f [] = returnT ()"
| "forT f (x # xs) = thenT (f x) (forT f xs)"

text \<open>Lifting an operation on a part of the state to the whole state.\<close>

definition zoomT :: "('s \<Rightarrow> 't) \<Rightarrow> ('t \<Rightarrow> 's \<Rightarrow> 's) \<Rightarrow> ('t, 'a) tx \<Rightarrow> ('s, 'a) tx" where
  "zoomT g p m s = (case m (g s) of Inl e \<Rightarrow> Inl e | Inr (x, t) \<Rightarrow> Inr (x, p t s))"

lemmas tx_defs = returnT_def throwT_def requireT_def getT_def modT_def stateT_def

declare tx_defs [run_defs]

lemma bindT_Inr: "bindT m k s = Inr (y, s') \<longleftrightarrow> (\<exists>x s1. m s = Inr (x, s1) \<and> k x s1 = Inr (y, s'))"
  by (auto simp: bindT_def split: sum.splits)

lemma bindT_Inl: "bindT m k s = Inl e \<longleftrightarrow>
    m s = Inl e \<or> (\<exists>x s1. m s = Inr (x, s1) \<and> k x s1 = Inl e)"
  by (auto simp: bindT_def split: sum.splits)

lemma thenT_Inr: "thenT m k s = Inr (y, s') \<longleftrightarrow> (\<exists>x s1. m s = Inr (x, s1) \<and> k s1 = Inr (y, s'))"
  by (auto simp: thenT_def bindT_Inr)

lemma requireT_Inr: "requireT b e s = Inr (u, s') \<longleftrightarrow> b \<and> s' = s"
  by (auto simp: requireT_def)

lemma returnT_Inr: "returnT x s = Inr (y, s') \<longleftrightarrow> y = x \<and> s' = s"
  by (auto simp: returnT_def)

lemma throwT_Inr: "throwT e s = Inr r \<longleftrightarrow> False"
  by (simp add: throwT_def)

lemma getT_Inr: "getT f s = Inr (x, s') \<longleftrightarrow> x = f s \<and> s' = s"
  by (auto simp: getT_def)

lemma modT_Inr: "modT f s = Inr (x, s') \<longleftrightarrow> s' = f s"
  by (auto simp: modT_def)

lemma stateT_Inr: "stateT f s = Inr (x, s') \<longleftrightarrow> f s = (x, s')"
  by (auto simp: stateT_def)

lemma foldT_Cons_Inr: "foldT f (x # xs) acc s = Inr (y, s') \<longleftrightarrow>
    (\<exists>a s1. f x acc s = Inr (a, s1) \<and> foldT f xs a s1 = Inr (y, s'))"
  by (simp add: bindT_Inr)

lemma forT_Cons_Inr: "forT f (x # xs) s = Inr (u, s') \<longleftrightarrow>
    (\<exists>v s1. f x s = Inr (v, s1) \<and> forT f xs s1 = Inr (u, s'))"
  by (simp add: thenT_Inr)

lemma zoomT_Inr: "zoomT g p m s = Inr (x, s') \<longleftrightarrow> (\<exists>t. m (g s) = Inr (x, t) \<and> s' = p t s)"
  by (auto simp: zoomT_def split: sum.splits)

lemmas tx_Inr = bindT_Inr thenT_Inr requireT_Inr returnT_Inr throwT_Inr getT_Inr modT_Inr stateT_Inr

text \<open>A loop whose body only checks leaves the state alone.\<close>

lemma forT_pure:
  assumes "\<And>x u s s'. x \<in> set xs \<Longrightarrow> f x s = Inr (u, s') \<Longrightarrow> s' = s"
  shows "forT f xs s = Inr (u, s') \<Longrightarrow> s' = s"
  using assms
proof (induction xs arbitrary: s)
  case Nil
  then show ?case by (simp add: returnT_Inr)
next
  case (Cons x xs)
  from Cons.prems(1) obtain v s1 where "f x s = Inr (v, s1)" "forT f xs s1 = Inr (u, s')" by (auto simp: thenT_Inr)
  then show ?case using Cons.IH Cons.prems(2) by (metis list.set_intros)
qed

section \<open>Services outside a transaction\<close>

type_synonym ('s, 'a) svc = "'s \<Rightarrow> (exn + 'a) \<times> 's"

definition returnS :: "'a \<Rightarrow> ('s, 'a) svc" where
  "returnS x s = (Inr x, s)"

definition throwS :: "exn \<Rightarrow> ('s, 'a) svc" where
  "throwS e s = (Inl e, s)"

definition bindS :: "('s, 'a) svc \<Rightarrow> ('a \<Rightarrow> ('s, 'b) svc) \<Rightarrow> ('s, 'b) svc" where
  "bindS m k s = (case m s of (Inl e, s') \<Rightarrow> (Inl e, s') | (Inr x, s') \<Rightarrow> k x s')"

definition requireS :: "bool \<Rightarrow> exn \<Rightarrow> ('s, unit) svc" where
  "requireS b e s = (if b then (Inr (), s) else (Inl e, s))"

definition getS :: "('s \<Rightarrow> 'a) \<Rightarrow> ('s, 'a) svc" where
  "getS f s = (Inr (f s), s)"

definition modS :: "('s \<Rightarrow> 's) \<Rightarrow> ('s, unit) svc" where
  "modS f s = (Inr (), f s)"

definition runTx :: "('s, 'a) tx \<Rightarrow> ('s, 'a) svc" where
  "runTx m s = (case m s of Inl e \<Rightarrow> (Inl e, s) | Inr (x, s') \<Rightarrow> (Inr x, s'))"

lemmas svc_defs = returnS_def throwS_def bindS_def requireS_def getS_def modS_def runTx_def

lemma bindS_Inr: "bindS m k s = (Inr y, s') \<longleftrightarrow>
    (\<exists>x s1. m s = (Inr x, s1) \<and> k x s1 = (Inr y, s'))"
  by (auto simp: bindS_def split: prod.splits sum.splits)

lemma requireS_Inr: "requireS b e s = (Inr u, s') \<longleftrightarrow> b \<and> s' = s"
  by (auto simp: requireS_def)

lemma returnS_Inr: "returnS x s = (Inr y, s') \<longleftrightarrow> y = x \<and> s' = s"
  by (auto simp: returnS_def)

lemma throwS_Inr: "throwS e s = (Inr y, s') \<longleftrightarrow> False"
  by (simp add: throwS_def)

lemma getS_Inr: "getS f s = (Inr x, s') \<longleftrightarrow> x = f s \<and> s' = s"
  by (auto simp: getS_def)

lemma modS_Inr: "modS f s = (Inr x, s') \<longleftrightarrow> s' = f s"
  by (auto simp: modS_def)

lemma runTx_Inr: "runTx m s = (Inr x, s') \<longleftrightarrow> m s = Inr (x, s')"
  by (auto simp: runTx_def split: sum.splits)

lemma runTx_Inl: "runTx m s = (Inl e, s') \<longleftrightarrow> m s = Inl e \<and> s' = s"
  by (auto simp: runTx_def split: sum.splits)

lemmas svc_Inr = bindS_Inr requireS_Inr returnS_Inr throwS_Inr getS_Inr modS_Inr runTx_Inr

section \<open>Partial correctness of transactions\<close>

text \<open>
  \<open>valid P m Q\<close>: from a state with \<open>P\<close>, if \<open>m\<close> commits with \<open>x\<close> in \<open>s'\<close> then \<open>Q x s'\<close>.
\<close>

definition valid :: "('s \<Rightarrow> bool) \<Rightarrow> ('s, 'a) tx \<Rightarrow> ('a \<Rightarrow> 's \<Rightarrow> bool) \<Rightarrow> bool" where
  "valid P m Q \<longleftrightarrow> (\<forall>s x s'. P s \<longrightarrow> m s = Inr (x, s') \<longrightarrow> Q x s')"

lemma validD: "valid P m Q \<Longrightarrow> P s \<Longrightarrow> m s = Inr (x, s') \<Longrightarrow> Q x s'"
  by (auto simp: valid_def)

lemma validI: "(\<And>s x s'. P s \<Longrightarrow> m s = Inr (x, s') \<Longrightarrow> Q x s') \<Longrightarrow> valid P m Q"
  by (auto simp: valid_def)

lemma valid_bindT: "valid P m R \<Longrightarrow> (\<And>x. valid (R x) (k x) Q) \<Longrightarrow> valid P (bindT m k) Q"
  by (fastforce simp: valid_def bindT_Inr)

lemma valid_foldT:
  assumes "\<And>x acc. x \<in> set xs \<Longrightarrow> valid (I acc) (f x acc) I"
  shows "valid (I acc) (foldT f xs acc) I"
  using assms
proof (induction xs arbitrary: acc)
  case Nil
  then show ?case by (auto simp: valid_def returnT_def)
next
  case (Cons x xs)
  then show ?case
    by (auto intro!: valid_bindT [where R = I])
qed

lemma valid_forT:
  assumes "\<And>x. x \<in> set xs \<Longrightarrow> valid I (f x) (\<lambda>_. I)"
  shows "valid I (forT f xs) (\<lambda>_. I)"
  using assms
proof (induction xs)
  case Nil
  then show ?case by (auto simp: valid_def returnT_def)
next
  case (Cons x xs)
  then show ?case
    by (auto simp: thenT_def intro!: valid_bindT [where R = "\<lambda>_. I"])
qed

section \<open>Tables\<close>

definition update_many :: "('r \<Rightarrow> bool) \<Rightarrow> ('r \<Rightarrow> 'r) \<Rightarrow> 'r list \<Rightarrow> 'r list" where
  "update_many P f t = map (\<lambda>r. if P r then f r else r) t"

definition count_where :: "('r \<Rightarrow> bool) \<Rightarrow> 'r list \<Rightarrow> nat" where
  "count_where P t = length (filter P t)"

definition find_first :: "('r \<Rightarrow> bool) \<Rightarrow> 'r list \<Rightarrow> 'r option" where
  "find_first P t = List.find P t"

definition find_by :: "('r \<Rightarrow> 'k::linorder) \<Rightarrow> ('r \<Rightarrow> bool) \<Rightarrow> 'r list \<Rightarrow> 'r option" where
  "find_by key P t = (case sort_key key (filter P t) of [] \<Rightarrow> None | x # _ \<Rightarrow> Some x)"

definition sum_where :: "('r \<Rightarrow> int) \<Rightarrow> ('r \<Rightarrow> bool) \<Rightarrow> 'r list \<Rightarrow> int" where
  "sum_where m P t = sum_list (map m (filter P t))"

lemma find_first_Some: "find_first P t = Some r \<Longrightarrow> r \<in> set t \<and> P r"
  by (auto simp: find_first_def find_Some_iff)

lemma find_first_None: "find_first P t = None \<longleftrightarrow> (\<forall>r \<in> set t. \<not> P r)"
  by (auto simp: find_first_def find_None_iff)

lemma find_first_append_None:
  "find_first P t = None \<Longrightarrow> find_first P (t @ [r]) = (if P r then Some r else None)"
  by (induction t) (auto simp: find_first_def split: if_splits)

lemma find_first_append_Some: "find_first P t = Some r \<Longrightarrow> find_first P (t @ u) = Some r"
  by (induction t) (auto simp: find_first_def split: if_splits)

lemma find_by_Some: "find_by key P t = Some r \<Longrightarrow> r \<in> set t \<and> P r"
proof -
  assume "find_by key P t = Some r"
  then obtain rest where "sort_key key (filter P t) = r # rest"
    by (auto simp: find_by_def split: list.splits)
  then have "r \<in> set (sort_key key (filter P t))" by simp
  then show ?thesis by simp
qed

lemma find_by_None: "find_by key P t = None \<longleftrightarrow> (\<forall>r \<in> set t. \<not> P r)"
proof -
  have "find_by key P t = None \<longleftrightarrow> sort_key key (filter P t) = []"
    by (auto simp: find_by_def split: list.splits)
  also have "\<dots> \<longleftrightarrow> filter P t = []"
    by (metis set_empty set_sort)
  finally show ?thesis by (auto simp: filter_empty_conv)
qed

lemma length_update_many [simp]: "length (update_many P f t) = length t"
  by (simp add: update_many_def)

lemma update_many_Nil [simp]: "update_many P f [] = []"
  by (simp add: update_many_def)

lemma update_many_Cons: "update_many P f (r # t) = (if P r then f r else r) # update_many P f t"
  by (simp add: update_many_def)

lemma update_many_none: "count_where P t = 0 \<Longrightarrow> update_many P f t = t"
  by (induction t) (auto simp: update_many_def count_where_def split: if_splits)

lemma find_first_update_many:
  assumes "\<And>r. P (if Q r then f r else r) = P r"
  shows "find_first P (update_many Q f t) = map_option (\<lambda>r. if Q r then f r else r) (find_first P t)"
proof (induction t)
  case Nil
  then show ?case by (simp add: find_first_def)
next
  case (Cons r t)
  then show ?case using assms [of r] by (auto simp: find_first_def update_many_Cons)
qed

lemma count_where_one:
  assumes "P r" and "r \<in> set t" and "distinct (map k t)" and "\<And>q. q \<in> set t \<Longrightarrow> P q \<Longrightarrow> k q = k r"
  shows "count_where P t = 1"
proof -
  have t: "distinct t" "inj_on k (set t)" using assms(3) by (simp_all add: distinct_map)
  have "set (filter P t) = {r}" using assms(1,2,4) inj_onD [OF t(2)] by auto
  then show ?thesis using distinct_card [of "filter P t"] t(1) by (simp add: count_where_def)
qed

lemma map_update_many:
  "(\<And>r. P r \<Longrightarrow> g (f r) = g r) \<Longrightarrow> map g (update_many P f t) = map g t"
  by (induction t) (auto simp: update_many_def)

lemma in_update_many: "r \<in> set (update_many P f t) \<longleftrightarrow>
    (\<exists>q \<in> set t. r = (if P q then f q else q))"
  by (auto simp: update_many_def)

lemma sum_where_Nil [simp]: "sum_where m Q [] = 0"
  by (simp add: sum_where_def)

lemma sum_where_Cons: "sum_where m Q (r # t) = (if Q r then m r else 0) + sum_where m Q t"
  by (simp add: sum_where_def)

lemma sum_where_append [simp]: "sum_where m Q (t @ u) = sum_where m Q t + sum_where m Q u"
  by (simp add: sum_where_def)

lemma count_where_Cons: "count_where P (r # t) = (if P r then 1 else 0) + count_where P t"
  by (simp add: count_where_def)

text \<open>
  The effect of a guarded update on a sum: when every matching row is in the summed group and the
  update changes its measure by \<open>d\<close>, the sum changes by \<open>d\<close> times the number of rows changed.
\<close>

lemma sum_where_update_many:
  assumes "\<And>r. P r \<Longrightarrow> r \<in> set t \<Longrightarrow> Q r \<and> Q (f r) \<and> m (f r) = m r + d"
  shows "sum_where m Q (update_many P f t) = sum_where m Q t + d * int (count_where P t)"
  using assms
proof (induction t)
  case Nil
  then show ?case by (simp add: count_where_def)
next
  case (Cons r t)
  then have "sum_where m Q (update_many P f t) = sum_where m Q t + d * int (count_where P t)"
    by simp
  with Cons.prems [of r] show ?case
    by (auto simp: update_many_Cons sum_where_Cons count_where_Cons algebra_simps)
qed

lemma sum_where_update_many_other:
  assumes "\<And>r. P r \<Longrightarrow> r \<in> set t \<Longrightarrow> Q (f r) = Q r \<and> (Q r \<longrightarrow> m (f r) = m r)"
  shows "sum_where m Q (update_many P f t) = sum_where m Q t"
  using assms by (induction t) (auto simp: update_many_Cons sum_where_Cons)

lemma sum_where_cong:
  "(\<And>r. r \<in> set t \<Longrightarrow> P r = Q r) \<Longrightarrow> sum_where m P t = sum_where m Q t"
  by (induction t) (auto simp: sum_where_Cons)

lemma sum_where_nonneg: "(\<And>r. r \<in> set t \<Longrightarrow> Q r \<Longrightarrow> 0 \<le> m r) \<Longrightarrow> 0 \<le> sum_where m Q t"
  by (induction t) (auto simp: sum_where_Cons)

text \<open>Row-wise invariants of a table under insertion and guarded update.\<close>

lemma all_update_many:
  "(\<And>r. r \<in> set t \<Longrightarrow> I r) \<Longrightarrow> (\<And>r. r \<in> set t \<Longrightarrow> P r \<Longrightarrow> I r \<Longrightarrow> I (f r)) \<Longrightarrow>
   (\<forall>r \<in> set (update_many P f t). I r)"
  by (auto simp: in_update_many)

section \<open>Sorting with a comparator\<close>

text \<open>
  \<open>Array.prototype.sort\<close> is stable; on a consistent comparator every stable sort gives the same array.
  \<open>precedes x y\<close> stands for a comparator result that is not positive.
\<close>

primrec insertBy :: "('a \<Rightarrow> 'a \<Rightarrow> bool) \<Rightarrow> 'a \<Rightarrow> 'a list \<Rightarrow> 'a list" where
  "insertBy precedes x [] = [x]"
| "insertBy precedes x (y # ys) = (if precedes x y then x # y # ys else y # insertBy precedes x ys)"

definition sortBy :: "('a \<Rightarrow> 'a \<Rightarrow> bool) \<Rightarrow> 'a list \<Rightarrow> 'a list" where
  "sortBy precedes xs = foldr (insertBy precedes) xs []"

definition totalPreorder :: "('a \<Rightarrow> 'a \<Rightarrow> bool) \<Rightarrow> 'a set \<Rightarrow> bool" where
  "totalPreorder precedes A \<longleftrightarrow> (\<forall>x \<in> A. \<forall>y \<in> A. precedes x y \<or> precedes y x) \<and>
     (\<forall>x \<in> A. \<forall>y \<in> A. \<forall>z \<in> A. precedes x y \<longrightarrow> precedes y z \<longrightarrow> precedes x z)"

lemma totalPreorder_subset: "totalPreorder precedes B \<Longrightarrow> A \<subseteq> B \<Longrightarrow> totalPreorder precedes A"
  unfolding totalPreorder_def by (meson subsetD)

lemma totalPreorder_total: "totalPreorder precedes A \<Longrightarrow> x \<in> A \<Longrightarrow> y \<in> A \<Longrightarrow> \<not> precedes x y \<Longrightarrow> precedes y x"
  unfolding totalPreorder_def by meson

lemma totalPreorder_trans:
  "totalPreorder precedes A \<Longrightarrow> x \<in> A \<Longrightarrow> y \<in> A \<Longrightarrow> z \<in> A \<Longrightarrow> precedes x y \<Longrightarrow> precedes y z \<Longrightarrow> precedes x z"
  unfolding totalPreorder_def by meson

lemma set_insertBy [simp]: "set (insertBy precedes x xs) = insert x (set xs)"
  by (induction xs) auto

lemma set_sortBy [simp]: "set (sortBy precedes xs) = set xs"
  by (induction xs) (auto simp: sortBy_def)

lemma mset_insertBy: "count_list (insertBy precedes x xs) y = count_list (x # xs) y"
  by (induction xs) auto

lemma insertBy_sorted:
  assumes "totalPreorder precedes (insert x (set xs))" and "sorted_wrt precedes xs"
  shows "sorted_wrt precedes (insertBy precedes x xs)"
  using assms
proof (induction xs)
  case Nil
  then show ?case by simp
next
  case (Cons y ys)
  show ?case
  proof (cases "precedes x y")
    case True
    have "precedes x z" if "z \<in> set ys" for z
      by (rule totalPreorder_trans [OF Cons.prems(1), of x y z]) (use True Cons.prems(2) that in auto)
    with True Cons.prems show ?thesis by simp
  next
    case False
    then have "precedes y x" by (intro totalPreorder_total [OF Cons.prems(1)]) auto
    moreover have "totalPreorder precedes (insert x (set ys))"
      by (rule totalPreorder_subset [OF Cons.prems(1)]) auto
    ultimately show ?thesis using False Cons by auto
  qed
qed

lemma sortBy_Cons: "sortBy precedes (x # xs) = insertBy precedes x (sortBy precedes xs)"
  by (simp add: sortBy_def)

lemma sortBy_sorted: "totalPreorder precedes (set xs) \<Longrightarrow> sorted_wrt precedes (sortBy precedes xs)"
proof (induction xs)
  case Nil
  then show ?case by (simp add: sortBy_def)
next
  case (Cons x xs)
  have "totalPreorder precedes (set xs)" by (rule totalPreorder_subset [OF Cons.prems]) auto
  with Cons.IH have "sorted_wrt precedes (sortBy precedes xs)" by blast
  with Cons.prems show ?case unfolding sortBy_Cons by (intro insertBy_sorted) simp_all
qed

text \<open>The first element of a sorted array precedes all.\<close>

lemma sortBy_first:
  assumes "totalPreorder precedes (set xs)" and "sortBy precedes xs = x # rest"
  shows "x \<in> set xs \<and> (\<forall>y \<in> set xs. precedes x y)"
proof -
  have "set xs = insert x (set rest)" using assms(2) set_sortBy [of precedes xs] by simp
  moreover have "\<forall>y \<in> set rest. precedes x y" using sortBy_sorted [OF assms(1)] assms(2) by simp
  moreover have "precedes x x" using totalPreorder_total [OF assms(1), of x x] calculation(1) by auto
  ultimately show ?thesis by auto
qed

section \<open>Numbers of the language\<close>

text \<open>\<open>Number.isSafeInteger\<close> on an integral value: its absolute value is at most 2^53 - 1.\<close>

definition isSafeInteger :: "int \<Rightarrow> bool" where
  "isSafeInteger n \<longleftrightarrow> \<bar>n\<bar> \<le> 9007199254740991"

end
