(* ===== verification/LocationInventory.thy ===== *)
theory LocationInventory
  imports Prelude
begin

text \<open>
  The warehouse-location ledger, \<open>apps/api/src/common/location-inventory.ts\<close>.

  A product's stock in a warehouse is kept at three levels: the aggregate row (\<open>Inventory\<close>), one
  balance per storage location (\<open>InventoryLocationBalance\<close>) and, per location, one row per
  physical condition (\<open>InventoryConditionBalance\<close>). Orders hold stock through rows of
  \<open>InventoryReservation\<close>. The state \<open>stock\<close> holds these tables, a clock for the
  \<open>updatedAt\<close> and \<open>createdAt\<close> columns and a counter that stands for generated row ids.

  Every operation is a transaction body over \<open>stock\<close>. The aggregate row is read here and
  written by the callers, so the ledger's contract is how each operation moves the totals of the
  balances and of the AVAILABLE condition rows.
\<close>

section \<open>Rows and state\<close>

datatype condition = AVAILABLE | DAMAGED | QUARANTINE | LOST

fun condition_rank :: "condition \<Rightarrow> nat" where
  "condition_rank AVAILABLE = 0"
| "condition_rank DAMAGED = 1"
| "condition_rank QUARANTINE = 2"
| "condition_rank LOST = 3"

record location =
  loc_id :: ident
  loc_warehouse :: ident
  loc_code :: string
  loc_type :: string
  loc_isDefault :: bool
  loc_isActive :: bool

record inventory =
  inv_id :: ident
  inv_warehouse :: ident
  inv_product :: ident
  inv_quantity :: int
  inv_reserved :: int
  inv_available :: int

record balance =
  bal_id :: ident
  bal_warehouse :: ident
  bal_location :: ident
  bal_product :: ident
  bal_quantity :: int
  bal_reserved :: int
  bal_available :: int
  bal_updatedAt :: int

record cbalance =
  cb_id :: ident
  cb_warehouse :: ident
  cb_location :: ident
  cb_product :: ident
  cb_condition :: condition
  cb_quantity :: int

datatype reservation_status = ACTIVE | RELEASED | CONSUMED

record reservation =
  res_id :: ident
  res_warehouse :: ident
  res_location :: ident
  res_product :: ident
  res_sourceType :: string
  res_sourceId :: ident
  res_quantity :: int
  res_status :: reservation_status
  res_createdAt :: int

record stock =
  locations :: "location list"
  inventories :: "inventory list"
  balances :: "balance list"
  conditions :: "cbalance list"
  reservations :: "reservation list"
  now :: int
  next_id :: ident

type_synonym allocation = "ident \<times> int"

section \<open>Table operations of the ledger\<close>

definition freshT :: "(stock, ident) tx" where
  "freshT = stateT (\<lambda>s. (next_id s, s\<lparr>next_id := Suc (next_id s)\<rparr>))"

definition findInventory :: "ident \<Rightarrow> ident \<Rightarrow> stock \<Rightarrow> inventory option" where
  "findInventory w p s = find_first (\<lambda>i. inv_warehouse i = w \<and> inv_product i = p) (inventories s)"

definition balancesOf :: "ident \<Rightarrow> ident \<Rightarrow> stock \<Rightarrow> balance list" where
  "balancesOf w p s = filter (\<lambda>b. bal_warehouse b = w \<and> bal_product b = p) (balances s)"

definition conditionsOf :: "ident \<Rightarrow> ident \<Rightarrow> stock \<Rightarrow> cbalance list" where
  "conditionsOf w p s = filter (\<lambda>c. cb_warehouse c = w \<and> cb_product c = p) (conditions s)"

text \<open>\<open>updateMany\<close> on the balances; Prisma sets \<open>updatedAt\<close> on every row it changes.\<close>

definition updateBalances :: "(balance \<Rightarrow> bool) \<Rightarrow> (balance \<Rightarrow> balance) \<Rightarrow> (stock, nat) tx" where
  "updateBalances P f = stateT (\<lambda>s. (count_where P (balances s),
     s\<lparr>balances := update_many P (\<lambda>b. (f b)\<lparr>bal_updatedAt := now s\<rparr>) (balances s)\<rparr>))"

definition updateConditions :: "(cbalance \<Rightarrow> bool) \<Rightarrow> (cbalance \<Rightarrow> cbalance) \<Rightarrow> (stock, nat) tx" where
  "updateConditions P f = stateT (\<lambda>s. (count_where P (conditions s),
     s\<lparr>conditions := update_many P f (conditions s)\<rparr>))"

definition updateReservations ::
    "(reservation \<Rightarrow> bool) \<Rightarrow> (reservation \<Rightarrow> reservation) \<Rightarrow> (stock, nat) tx" where
  "updateReservations P f = stateT (\<lambda>s. (count_where P (reservations s),
     s\<lparr>reservations := update_many P f (reservations s)\<rparr>))"

text \<open>\<open>upsert\<close> on the unique key (location, product) of the balances.\<close>

definition upsertBalance ::
    "ident \<Rightarrow> ident \<Rightarrow> ident \<Rightarrow> int \<Rightarrow> int \<Rightarrow> int \<Rightarrow> (balance \<Rightarrow> balance) \<Rightarrow> (stock, balance) tx" where
  "upsertBalance w l p q r a f = bindT (getT balances) (\<lambda>bs.
     case find_first (\<lambda>b. bal_location b = l \<and> bal_product b = p) bs of
       Some b \<Rightarrow> bindT (updateBalances (\<lambda>b. bal_location b = l \<and> bal_product b = p) f) (\<lambda>_. returnT (f b))
     | None \<Rightarrow> bindT freshT (\<lambda>i. bindT (getT now) (\<lambda>t.
         let row = \<lparr>bal_id = i, bal_warehouse = w, bal_location = l, bal_product = p,
                    bal_quantity = q, bal_reserved = r, bal_available = a, bal_updatedAt = t\<rparr>
         in bindT (modT (\<lambda>s. s\<lparr>balances := balances s @ [row]\<rparr>)) (\<lambda>_. returnT row))))"

definition createCondition :: "ident \<Rightarrow> ident \<Rightarrow> ident \<Rightarrow> condition \<Rightarrow> int \<Rightarrow> (stock, unit) tx" where
  "createCondition w l p c q = bindT (getT conditions) (\<lambda>cs.
     if (\<exists>r \<in> set cs. cb_location r = l \<and> cb_product r = p \<and> cb_condition r = c)
     then throwT (PrismaError ''P2002'')
     else bindT freshT (\<lambda>i. modT (\<lambda>s. s\<lparr>conditions := conditions s @
            [\<lparr>cb_id = i, cb_warehouse = w, cb_location = l, cb_product = p, cb_condition = c, cb_quantity = q\<rparr>]\<rparr>)))"

definition upsertCondition :: "ident \<Rightarrow> ident \<Rightarrow> ident \<Rightarrow> condition \<Rightarrow> int \<Rightarrow> (stock, unit) tx" where
  "upsertCondition w l p c q = bindT (getT conditions) (\<lambda>cs.
     if (\<exists>r \<in> set cs. cb_location r = l \<and> cb_product r = p \<and> cb_condition r = c)
     then bindT (updateConditions (\<lambda>r. cb_location r = l \<and> cb_product r = p \<and> cb_condition r = c)
                  (\<lambda>r. r\<lparr>cb_quantity := cb_quantity r + q\<rparr>)) (\<lambda>_. returnT ())
     else createCondition w l p c q)"

definition createReservation ::
    "ident \<Rightarrow> ident \<Rightarrow> ident \<Rightarrow> string \<Rightarrow> ident \<Rightarrow> int \<Rightarrow> (stock, unit) tx" where
  "createReservation w l p st si q = bindT (getT reservations) (\<lambda>rs.
     if (\<exists>r \<in> set rs. res_sourceType r = st \<and> res_sourceId r = si \<and> res_location r = l \<and> res_product r = p)
     then throwT (PrismaError ''P2002'')
     else bindT freshT (\<lambda>i. modT (\<lambda>s. s\<lparr>reservations := reservations s @
            [\<lparr>res_id = i, res_warehouse = w, res_location = l, res_product = p, res_sourceType = st,
              res_sourceId = si, res_quantity = q, res_status = ACTIVE, res_createdAt = now s\<rparr>]\<rparr>)))"

section \<open>Locations\<close>

definition defaultLocation :: "ident \<Rightarrow> (stock, location) tx" where
  "defaultLocation w = bindT (getT locations) (\<lambda>ls.
     case find_by loc_code (\<lambda>l. loc_warehouse l = w \<and> loc_isActive l \<and> loc_isDefault l) ls of
       Some location \<Rightarrow> returnT location
     | None \<Rightarrow>
       (case find_by loc_code (\<lambda>l. loc_warehouse l = w \<and> loc_isActive l) ls of
          Some existing \<Rightarrow>
            bindT (modT (\<lambda>s. s\<lparr>locations := update_many
                (\<lambda>l. loc_warehouse l = w \<and> loc_id l \<noteq> loc_id existing \<and> loc_isDefault l)
                (\<lambda>l. l\<lparr>loc_isDefault := False\<rparr>) (locations s)\<rparr>)) (\<lambda>_.
            bindT (modT (\<lambda>s. s\<lparr>locations := update_many (\<lambda>l. loc_id l = loc_id existing)
                (\<lambda>l. l\<lparr>loc_isDefault := True\<rparr>) (locations s)\<rparr>)) (\<lambda>_.
            returnT (existing\<lparr>loc_isDefault := True\<rparr>)))
        | None \<Rightarrow>
            if (\<exists>l \<in> set ls. loc_warehouse l = w \<and> loc_code l = ''DEFAULT'')
            then throwT (PrismaError ''P2002'')
            else bindT freshT (\<lambda>i.
              let row = \<lparr>loc_id = i, loc_warehouse = w, loc_code = ''DEFAULT'', loc_type = ''PICK_FACE'',
                         loc_isDefault = True, loc_isActive = True\<rparr>
              in bindT (modT (\<lambda>s. s\<lparr>locations := locations s @ [row]\<rparr>)) (\<lambda>_. returnT row))))"

definition assertLocation :: "ident \<Rightarrow> ident \<Rightarrow> (stock, location) tx" where
  "assertLocation w l = bindT (getT locations) (\<lambda>ls.
     case find_first (\<lambda>x. loc_id x = l \<and> loc_warehouse x = w \<and> loc_isActive x) ls of
       None \<Rightarrow> throwT (BadRequest ''Lokasi inventory tidak aktif atau tidak berada pada gudang yang dipilih.'')
     | Some x \<Rightarrow> returnT x)"

section \<open>Materialisation and drift guards\<close>

definition prepareLocationInventory ::
    "ident \<Rightarrow> ident \<Rightarrow> (stock, inventory option \<times> location) tx" where
  "prepareLocationInventory w p =
     bindT (getT (findInventory w p)) (\<lambda>aggregate.
     bindT (getT (balancesOf w p)) (\<lambda>bs.
     if bs = [] then
       bindT (defaultLocation w) (\<lambda>location.
       bindT (case aggregate of
                None \<Rightarrow> returnT ()
              | Some i \<Rightarrow> bindT (upsertBalance w (loc_id location) p (inv_quantity i) (inv_reserved i) (inv_available i)
                  (\<lambda>b. b\<lparr>bal_warehouse := w, bal_quantity := inv_quantity i, bal_reserved := inv_reserved i,
                          bal_available := inv_available i\<rparr>)) (\<lambda>_. returnT ())) (\<lambda>_.
       returnT (aggregate, location)))
     else
       let expected = (case aggregate of None \<Rightarrow> (0, 0, 0)
                       | Some i \<Rightarrow> (inv_quantity i, inv_reserved i, inv_available i));
           totals = (sum_list (map bal_quantity bs), sum_list (map bal_reserved bs), sum_list (map bal_available bs))
       in bindT (requireT (totals = expected) (BadRequest ''LOCATION_INVENTORY_DRIFT'')) (\<lambda>_.
          bindT (defaultLocation w) (\<lambda>location. returnT (aggregate, location)))))"

text \<open>One location of the consistency check on already classified stock.\<close>

definition checkClassified :: "cbalance list \<Rightarrow> balance \<Rightarrow> (stock, unit) tx" where
  "checkClassified existing b =
     (let rows = filter (\<lambda>c. cb_location c = bal_location b) existing;
          classified = sum_list (map cb_quantity rows);
          sellable = (case find_first (\<lambda>c. cb_condition c = AVAILABLE) rows of None \<Rightarrow> 0 | Some c \<Rightarrow> cb_quantity c)
      in bindT (requireT (classified = bal_quantity b) (BadRequest ''INVENTORY_CONDITION_DRIFT'')) (\<lambda>_.
         requireT (\<not> (sellable < bal_reserved b \<or> sellable - bal_reserved b \<noteq> bal_available b))
           (BadRequest ''INVENTORY_CONDITION_AVAILABLE_DRIFT'')))"

definition prepareConditionInventory :: "ident \<Rightarrow> ident \<Rightarrow> (stock, cbalance list) tx" where
  "prepareConditionInventory w p =
     bindT (prepareLocationInventory w p) (\<lambda>(aggregate, _).
     bindT (getT (balancesOf w p)) (\<lambda>locs.
     bindT (getT (conditionsOf w p)) (\<lambda>existing.
     if existing = [] then
       bindT (forT (\<lambda>b. if bal_quantity b \<le> 0 then returnT ()
                        else createCondition w (bal_location b) p AVAILABLE (bal_quantity b)) locs) (\<lambda>_.
       getT (\<lambda>s. sort_key (\<lambda>c. cb_location c * 4 + condition_rank (cb_condition c)) (conditionsOf w p s)))
     else
       bindT (forT (checkClassified existing) locs) (\<lambda>_.
       bindT (requireT (sum_list (map cb_quantity existing) =
                          (case aggregate of None \<Rightarrow> 0 | Some i \<Rightarrow> inv_quantity i))
               (BadRequest ''INVENTORY_CONDITION_TOTAL_DRIFT'')) (\<lambda>_.
       returnT existing)))))"

definition incrementAvailableCondition :: "ident \<Rightarrow> ident \<Rightarrow> ident \<Rightarrow> int \<Rightarrow> (stock, unit) tx" where
  "incrementAvailableCondition w l p q = upsertCondition w l p AVAILABLE q"

definition decrementAvailableCondition :: "ident \<Rightarrow> ident \<Rightarrow> int \<Rightarrow> (stock, unit) tx" where
  "decrementAvailableCondition l p q =
     bindT (updateConditions
       (\<lambda>c. cb_location c = l \<and> cb_product c = p \<and> cb_condition c = AVAILABLE \<and> q \<le> cb_quantity c)
       (\<lambda>c. c\<lparr>cb_quantity := cb_quantity c - q\<rparr>)) (\<lambda>changed.
     requireT (changed = 1) (BadRequest ''Saldo kondisi AVAILABLE tidak mencukupi atau tidak sinkron.''))"

text \<open>
  The balances with free stock, oldest update first, the default location in front. The comparator
  of the source's \<open>sort\<close> puts the primary location first and leaves the rest in place.
\<close>

definition orderedAvailableBalances :: "ident \<Rightarrow> ident \<Rightarrow> (stock, balance list) tx" where
  "orderedAvailableBalances w p =
     bindT (prepareLocationInventory w p) (\<lambda>(_, primary).
     bindT (prepareConditionInventory w p) (\<lambda>_.
     bindT (getT (\<lambda>s. sort_key bal_updatedAt (sort_key bal_id
              (filter (\<lambda>b. 0 < bal_available b) (balancesOf w p s))))) (\<lambda>rows.
     returnT (filter (\<lambda>b. bal_location b = loc_id primary) rows @
              filter (\<lambda>b. bal_location b \<noteq> loc_id primary) rows))))"

section \<open>Deposits and free consumption\<close>

definition depositLocationStock ::
    "ident \<Rightarrow> ident \<Rightarrow> int \<Rightarrow> ident option \<Rightarrow> (stock, ident \<times> balance) tx" where
  "depositLocationStock w p q locationId =
     bindT (requireT (0 < q) (BadRequest ''Jumlah stock-in lokasi harus integer positif.'')) (\<lambda>_.
     bindT (prepareLocationInventory w p) (\<lambda>(_, primary).
     bindT (prepareConditionInventory w p) (\<lambda>_.
     bindT (case locationId of Some l \<Rightarrow> assertLocation w l | None \<Rightarrow> returnT primary) (\<lambda>location.
     bindT (upsertBalance w (loc_id location) p q 0 q
              (\<lambda>b. b\<lparr>bal_quantity := bal_quantity b + q, bal_available := bal_available b + q\<rparr>)) (\<lambda>row.
     bindT (incrementAvailableCondition w (loc_id location) p q) (\<lambda>_.
     returnT (loc_id location, row)))))))"

text \<open>One iteration of the stock-out loop; the accumulator is the remaining quantity and the allocations.\<close>

definition consumeStep ::
    "ident \<Rightarrow> balance \<Rightarrow> int \<times> allocation list \<Rightarrow> (stock, int \<times> allocation list) tx" where
  "consumeStep p row = (\<lambda>(remaining, allocations).
     if remaining \<le> 0 then returnT (remaining, allocations)
     else let take = min (bal_available row) remaining in
       bindT (updateBalances (\<lambda>b. bal_id b = bal_id row \<and> take \<le> bal_quantity b \<and> take \<le> bal_available b)
         (\<lambda>b. b\<lparr>bal_quantity := bal_quantity b - take, bal_available := bal_available b - take\<rparr>)) (\<lambda>changed.
       bindT (requireT (changed = 1) (BadRequest ''Saldo lokasi berubah saat stock-out. Ulangi transaksi.'')) (\<lambda>_.
       bindT (decrementAvailableCondition (bal_location row) p take) (\<lambda>_.
       returnT (remaining - take, allocations @ [(bal_location row, take)])))))"

definition consumeAvailableLocationStock :: "ident \<Rightarrow> ident \<Rightarrow> int \<Rightarrow> (stock, allocation list) tx" where
  "consumeAvailableLocationStock w p q =
     bindT (requireT (0 < q) (BadRequest ''Jumlah stock-out lokasi harus integer positif.'')) (\<lambda>_.
     bindT (orderedAvailableBalances w p) (\<lambda>rows.
     bindT (foldT (consumeStep p) rows (q, [])) (\<lambda>(remaining, allocations).
     bindT (requireT (remaining \<le> 0)
       (BadRequest ''Stok lokasi tidak mencukupi meskipun saldo gudang terlihat tersedia. Jalankan rekonsiliasi lokasi.'')) (\<lambda>_.
     returnT allocations))))"

section \<open>Reservations\<close>

definition activeReservations :: "string \<Rightarrow> ident \<Rightarrow> ident \<Rightarrow> stock \<Rightarrow> reservation list" where
  "activeReservations st si p s = filter (\<lambda>r. res_sourceType r = st \<and> res_sourceId r = si \<and>
     res_product r = p \<and> res_status r = ACTIVE) (reservations s)"

definition reserveStep ::
    "ident \<Rightarrow> ident \<Rightarrow> string \<Rightarrow> ident \<Rightarrow> balance \<Rightarrow> int \<times> allocation list \<Rightarrow>
     (stock, int \<times> allocation list) tx" where
  "reserveStep w p st si row = (\<lambda>(remaining, allocations).
     if remaining \<le> 0 then returnT (remaining, allocations)
     else let take = min (bal_available row) remaining in
       bindT (updateBalances (\<lambda>b. bal_id b = bal_id row \<and> take \<le> bal_available b)
         (\<lambda>b. b\<lparr>bal_reserved := bal_reserved b + take, bal_available := bal_available b - take\<rparr>)) (\<lambda>changed.
       bindT (requireT (changed = 1) (BadRequest ''Saldo lokasi berubah saat reservasi. Ulangi transaksi.'')) (\<lambda>_.
       bindT (createReservation w (bal_location row) p st si take) (\<lambda>_.
       returnT (remaining - take, allocations @ [(bal_location row, take)])))))"

definition reserveLocationStock ::
    "ident \<Rightarrow> ident \<Rightarrow> int \<Rightarrow> string \<Rightarrow> ident \<Rightarrow> (stock, allocation list) tx" where
  "reserveLocationStock w p q st si =
     bindT (requireT (0 < q) (BadRequest ''Jumlah reservasi lokasi harus integer positif.'')) (\<lambda>_.
     bindT (getT (activeReservations st si p)) (\<lambda>existing.
     if existing \<noteq> [] then
       bindT (requireT (sum_list (map res_quantity existing) = q)
         (BadRequest ''Reservasi lokasi existing tidak sama dengan quantity sumber.'')) (\<lambda>_.
       returnT (map (\<lambda>r. (res_location r, res_quantity r)) existing))
     else
       bindT (orderedAvailableBalances w p) (\<lambda>rows.
       bindT (foldT (reserveStep w p st si) rows (q, [])) (\<lambda>(remaining, allocations).
       bindT (requireT (remaining \<le> 0) (BadRequest ''Stok lokasi tidak mencukupi untuk reservasi pesanan.'')) (\<lambda>_.
       returnT allocations)))))"

text \<open>
  Stock reserved before reservations were tracked: the part of a balance's reserved quantity that
  no active reservation row accounts for.
\<close>

definition trackedReserved :: "ident \<Rightarrow> ident \<Rightarrow> stock \<Rightarrow> int" where
  "trackedReserved l p s = sum_where res_quantity
     (\<lambda>r. res_location r = l \<and> res_product r = p \<and> res_status r = ACTIVE) (reservations s)"

definition legacyStep ::
    "ident \<Rightarrow> bool \<Rightarrow> balance \<Rightarrow> int \<times> allocation list \<Rightarrow> (stock, int \<times> allocation list) tx" where
  "legacyStep p consume balance = (\<lambda>(remaining, allocations).
     if remaining \<le> 0 then returnT (remaining, allocations)
     else
       bindT (getT (trackedReserved (bal_location balance) p)) (\<lambda>tracked.
       let legacyReserved = max 0 (bal_reserved balance - tracked) in
       if legacyReserved = 0 then returnT (remaining, allocations)
       else let take = min legacyReserved remaining in
       bindT (updateBalances (\<lambda>b. bal_id b = bal_id balance \<and> take + tracked \<le> bal_reserved b \<and>
                (consume \<longrightarrow> take \<le> bal_quantity b))
         (if consume
          then (\<lambda>b. b\<lparr>bal_quantity := bal_quantity b - take, bal_reserved := bal_reserved b - take\<rparr>)
          else (\<lambda>b. b\<lparr>bal_reserved := bal_reserved b - take, bal_available := bal_available b + take\<rparr>))) (\<lambda>changed.
       bindT (requireT (changed = 1)
         (BadRequest ''Reservasi lokasi legacy berubah saat rekonsiliasi. Ulangi transaksi.'')) (\<lambda>_.
       bindT (if consume then decrementAvailableCondition (bal_location balance) p take else returnT ()) (\<lambda>_.
       returnT (remaining - take, allocations @ [(bal_location balance, take)]))))))"

definition mutateLegacyReservedStock ::
    "ident \<Rightarrow> ident \<Rightarrow> int \<Rightarrow> bool \<Rightarrow> (stock, allocation list) tx" where
  "mutateLegacyReservedStock w p q consume =
     bindT (prepareLocationInventory w p) (\<lambda>_.
     bindT (getT (\<lambda>s. sort_key bal_updatedAt (sort_key bal_id
              (filter (\<lambda>b. 0 < bal_reserved b) (balancesOf w p s))))) (\<lambda>rows.
     bindT (foldT (legacyStep p consume) rows (q, [])) (\<lambda>(remaining, allocations).
     bindT (requireT (remaining \<le> 0) (BadRequest ''Reservasi lokasi legacy tidak lengkap'')) (\<lambda>_.
     returnT allocations))))"

definition releaseStep :: "reservation \<Rightarrow> (stock, unit) tx" where
  "releaseStep row =
     bindT (updateBalances (\<lambda>b. bal_location b = res_location row \<and> bal_product b = res_product row \<and>
              res_quantity row \<le> bal_reserved b)
       (\<lambda>b. b\<lparr>bal_reserved := bal_reserved b - res_quantity row,
               bal_available := bal_available b + res_quantity row\<rparr>)) (\<lambda>changed.
     bindT (requireT (changed = 1) (BadRequest ''Reservasi lokasi tidak konsisten saat release.'')) (\<lambda>_.
     bindT (updateReservations (\<lambda>r. res_id r = res_id row) (\<lambda>r. r\<lparr>res_status := RELEASED\<rparr>)) (\<lambda>_.
     returnT ())))"

definition releaseLocationReservations ::
    "string \<Rightarrow> ident \<Rightarrow> ident \<Rightarrow> ident \<Rightarrow> int \<Rightarrow> (stock, allocation list) tx" where
  "releaseLocationReservations st si w p q =
     bindT (getT (activeReservations st si p)) (\<lambda>rows.
     if rows = [] then mutateLegacyReservedStock w p q False
     else
       bindT (requireT (sum_list (map res_quantity rows) = q)
         (BadRequest ''Reservasi lokasi existing tidak lengkap saat release'')) (\<lambda>_.
       bindT (forT releaseStep rows) (\<lambda>_.
       returnT (map (\<lambda>r. (res_location r, res_quantity r)) rows))))"

definition consumeReservationStep :: "reservation \<Rightarrow> (stock, unit) tx" where
  "consumeReservationStep row =
     bindT (updateBalances (\<lambda>b. bal_location b = res_location row \<and> bal_product b = res_product row \<and>
              res_quantity row \<le> bal_quantity b \<and> res_quantity row \<le> bal_reserved b)
       (\<lambda>b. b\<lparr>bal_quantity := bal_quantity b - res_quantity row,
               bal_reserved := bal_reserved b - res_quantity row\<rparr>)) (\<lambda>changed.
     bindT (requireT (changed = 1) (BadRequest ''Reservasi lokasi berubah saat fulfillment.'')) (\<lambda>_.
     bindT (decrementAvailableCondition (res_location row) (res_product row) (res_quantity row)) (\<lambda>_.
     bindT (updateReservations (\<lambda>r. res_id r = res_id row) (\<lambda>r. r\<lparr>res_status := CONSUMED\<rparr>)) (\<lambda>_.
     returnT ()))))"

definition consumeLocationReservations ::
    "string \<Rightarrow> ident \<Rightarrow> ident \<Rightarrow> ident \<Rightarrow> int \<Rightarrow> (stock, allocation list) tx" where
  "consumeLocationReservations st si w p q =
     bindT (prepareConditionInventory w p) (\<lambda>_.
     bindT (getT (\<lambda>s. sort_key res_createdAt (activeReservations st si p s))) (\<lambda>rows.
     if rows = [] then mutateLegacyReservedStock w p q True
     else
       bindT (requireT (sum_list (map res_quantity rows) = q)
         (BadRequest ''Reservasi lokasi tidak lengkap untuk fulfillment'')) (\<lambda>_.
       bindT (forT consumeReservationStep rows) (\<lambda>_.
       returnT (map (\<lambda>r. (res_location r, res_quantity r)) rows)))))"

section \<open>Adjustment and relocation\<close>

definition takeFree :: "ident \<Rightarrow> ident \<Rightarrow> int \<Rightarrow> exn \<Rightarrow> (stock, unit) tx" where
  "takeFree l p q e =
     bindT (updateBalances (\<lambda>b. bal_location b = l \<and> bal_product b = p \<and> q \<le> bal_quantity b \<and> q \<le> bal_available b)
       (\<lambda>b. b\<lparr>bal_quantity := bal_quantity b - q, bal_available := bal_available b - q\<rparr>)) (\<lambda>changed.
     bindT (requireT (changed = 1) e) (\<lambda>_.
     decrementAvailableCondition l p q))"

definition adjustLocationStock ::
    "ident \<Rightarrow> ident \<Rightarrow> int \<Rightarrow> ident option \<Rightarrow> (stock, ident option) tx" where
  "adjustLocationStock w p difference locationId =
     (if difference = 0 then returnT None
      else
        bindT (prepareLocationInventory w p) (\<lambda>(_, primary).
        bindT (case locationId of Some l \<Rightarrow> assertLocation w l | None \<Rightarrow> returnT primary) (\<lambda>location.
        if 0 < difference
        then bindT (depositLocationStock w p difference (Some (loc_id location))) (\<lambda>(l, _). returnT (Some l))
        else
          bindT (takeFree (loc_id location) p \<bar>difference\<bar>
            (BadRequest ''Stok bebas pada lokasi opname tidak mencukupi untuk adjustment negatif.'')) (\<lambda>_.
          returnT (Some (loc_id location))))))"

definition relocateLocationStock ::
    "ident \<Rightarrow> ident \<Rightarrow> ident \<Rightarrow> ident \<Rightarrow> int \<Rightarrow> (stock, unit) tx" where
  "relocateLocationStock w p source destination q =
     bindT (requireT (source \<noteq> destination) (BadRequest ''Lokasi asal dan tujuan harus berbeda.'')) (\<lambda>_.
     bindT (requireT (0 < q) (BadRequest ''Jumlah relokasi harus integer positif.'')) (\<lambda>_.
     bindT (prepareLocationInventory w p) (\<lambda>_.
     bindT (prepareConditionInventory w p) (\<lambda>_.
     bindT (assertLocation w source) (\<lambda>_.
     bindT (assertLocation w destination) (\<lambda>_.
     bindT (takeFree source p q (BadRequest ''Stok bebas lokasi asal tidak mencukupi untuk relokasi.'')) (\<lambda>_.
     bindT (upsertBalance w destination p q 0 q
              (\<lambda>b. b\<lparr>bal_quantity := bal_quantity b + q, bal_available := bal_available b + q\<rparr>)) (\<lambda>_.
     incrementAvailableCondition w destination p q))))))))"

end
