(* ===== verification/LocationLedger.thy ===== *)
theory LocationLedger
  imports LocationInventory
begin

text \<open>
  The contract of the location ledger. \<open>ledger k w p s\<close> abstracts the balances of a product in a
  warehouse to one number per level (quantity, reserved, available); before the first location-aware
  mutation it is the aggregate row. \<open>moves w p d s s'\<close> says that a transaction takes the abstract
  ledger of \<open>(w, p)\<close> from \<open>s\<close> to \<open>s'\<close> by the displacement \<open>d\<close>, leaves every other product and
  warehouse alone, does not touch the aggregate rows and keeps the tables well formed. Each
  operation of the ledger is a displacement of its own; displacements compose.
\<close>

section \<open>The abstract ledger\<close>

datatype level = Quantity | Reserved | Available

fun bal_level :: "level \<Rightarrow> balance \<Rightarrow> int" where
  "bal_level Quantity b = bal_quantity b"
| "bal_level Reserved b = bal_reserved b"
| "bal_level Available b = bal_available b"

fun inv_level :: "level \<Rightarrow> inventory \<Rightarrow> int" where
  "inv_level Quantity i = inv_quantity i"
| "inv_level Reserved i = inv_reserved i"
| "inv_level Available i = inv_available i"

fun displacement :: "int \<Rightarrow> int \<Rightarrow> int \<Rightarrow> level \<Rightarrow> int" where
  "displacement q r a Quantity = q"
| "displacement q r a Reserved = r"
| "displacement q r a Available = a"

definition aggregate :: "level \<Rightarrow> ident \<Rightarrow> ident \<Rightarrow> stock \<Rightarrow> int" where
  "aggregate k w p s = (case findInventory w p s of None \<Rightarrow> 0 | Some i \<Rightarrow> inv_level k i)"

definition balanceTotal :: "level \<Rightarrow> ident \<Rightarrow> ident \<Rightarrow> stock \<Rightarrow> int" where
  "balanceTotal k w p s = sum_where (bal_level k) (\<lambda>b. bal_warehouse b = w \<and> bal_product b = p) (balances s)"

definition ledger :: "level \<Rightarrow> ident \<Rightarrow> ident \<Rightarrow> stock \<Rightarrow> int" where
  "ledger k w p s = (if balancesOf w p s = [] then aggregate k w p s else balanceTotal k w p s)"

definition placed :: "stock \<Rightarrow> ident \<Rightarrow> ident \<Rightarrow> bool" where
  "placed s l w \<longleftrightarrow> (\<exists>x \<in> set (locations s). loc_id x = l \<and> loc_warehouse x = w)"

definition stock_wf :: "stock \<Rightarrow> bool" where
  "stock_wf s \<longleftrightarrow>
     distinct (map loc_id (locations s)) \<and> (\<forall>x \<in> set (locations s). loc_id x < next_id s) \<and>
     distinct (map bal_id (balances s)) \<and>
     distinct (map (\<lambda>b. (bal_location b, bal_product b)) (balances s)) \<and>
     (\<forall>b \<in> set (balances s). bal_id b < next_id s \<and> placed s (bal_location b) (bal_warehouse b)) \<and>
     (\<forall>r \<in> set (reservations s). placed s (res_location r) (res_warehouse r))"

definition moves :: "ident \<Rightarrow> ident \<Rightarrow> (level \<Rightarrow> int) \<Rightarrow> stock \<Rightarrow> stock \<Rightarrow> bool" where
  "moves w p d s s' \<longleftrightarrow> stock_wf s' \<and> inventories s' = inventories s \<and>
     (\<forall>k. ledger k w p s' = ledger k w p s + d k) \<and>
     (\<forall>k w' p'. (w', p') \<noteq> (w, p) \<longrightarrow> ledger k w' p' s' = ledger k w' p' s)"

abbreviation "stays w p \<equiv> moves w p (\<lambda>_. 0)"

named_theorems moves_intros

lemma moves_wf: "moves w p d s s' \<Longrightarrow> stock_wf s'"
  by (simp add: moves_def)

lemma moves_trans:
  "moves w p d s s1 \<Longrightarrow> moves w p d' s1 s2 \<Longrightarrow> moves w p (\<lambda>k. d k + d' k) s s2"
  by (simp add: moves_def add.assoc)

lemma moves_stays: "moves w p d s s1 \<Longrightarrow> stays w p s1 s2 \<Longrightarrow> moves w p d s s2"
  by (drule (1) moves_trans) simp

lemma stays_moves: "stays w p s s1 \<Longrightarrow> moves w p d s1 s2 \<Longrightarrow> moves w p d s s2"
  by (drule (1) moves_trans) simp

lemma stays_refl: "stock_wf s \<Longrightarrow> stays w p s s"
  by (simp add: moves_def)

lemma moves_cong: "moves w p d s s' \<Longrightarrow> (\<And>k. d k = d' k) \<Longrightarrow> moves w p d' s s'"
  by (simp add: moves_def)

lemma findInventory_cong: "inventories s' = inventories s \<Longrightarrow> findInventory w p s' = findInventory w p s"
  by (simp add: findInventory_def)

lemma aggregate_cong: "inventories s' = inventories s \<Longrightarrow> aggregate k w p s' = aggregate k w p s"
  by (simp add: aggregate_def findInventory_def)

lemma ledger_cong:
  "inventories s' = inventories s \<Longrightarrow> balances s' = balances s \<Longrightarrow> ledger k w p s' = ledger k w p s"
  by (simp add: ledger_def balancesOf_def balanceTotal_def aggregate_def findInventory_def)

text \<open>A step that leaves the balances and the aggregates alone and keeps the tables well formed.\<close>

lemma stays_frame:
  "inventories s' = inventories s \<Longrightarrow> balances s' = balances s \<Longrightarrow> stock_wf s' \<Longrightarrow> stays w p s s'"
  by (simp add: moves_def ledger_cong [of s' s])

lemma placed_unique: "stock_wf s \<Longrightarrow> placed s l w \<Longrightarrow> placed s l w' \<Longrightarrow> w' = w"
  by (auto simp: stock_wf_def placed_def distinct_map inj_on_def)

lemma bal_id_unique:
  "stock_wf s \<Longrightarrow> b \<in> set (balances s) \<Longrightarrow> c \<in> set (balances s) \<Longrightarrow> bal_id b = bal_id c \<Longrightarrow> b = c"
  by (auto simp: stock_wf_def distinct_map inj_on_def)

lemma balances_placed: "stock_wf s \<Longrightarrow> b \<in> set (balances s) \<Longrightarrow> placed s (bal_location b) (bal_warehouse b)"
  by (simp add: stock_wf_def)

section \<open>Displacements of the primitive steps\<close>

text \<open>A guarded update that changed exactly one balance, all of whose matches belong to \<open>(w, p)\<close>.\<close>

lemma updateBalances_effect:
  "updateBalances P f s = Inr (n, s') \<Longrightarrow>
     n = count_where P (balances s) \<and> inventories s' = inventories s \<and> locations s' = locations s \<and>
     reservations s' = reservations s \<and> conditions s' = conditions s \<and> next_id s' = next_id s \<and> now s' = now s \<and>
     balances s' = update_many P (\<lambda>b. (f b)\<lparr>bal_updatedAt := now s\<rparr>) (balances s)"
  by (auto simp: updateBalances_def stateT_def)

definition same_key :: "balance \<Rightarrow> balance \<Rightarrow> bool" where
  "same_key b c \<longleftrightarrow> bal_id b = bal_id c \<and> bal_warehouse b = bal_warehouse c \<and>
     bal_location b = bal_location c \<and> bal_product b = bal_product c"

lemma wf_update_many:
  assumes "stock_wf s" and "\<And>b. same_key (f b) b"
    and "balances s' = update_many P f (balances s)" and "locations s' = locations s"
    and "reservations s' = reservations s" and "next_id s' = next_id s"
  shows "stock_wf s'"
proof -
  have "map bal_id (balances s') = map bal_id (balances s)"
    using assms(2) by (simp add: assms(3) map_update_many same_key_def)
  moreover have "map (\<lambda>b. (bal_location b, bal_product b)) (balances s') =
                 map (\<lambda>b. (bal_location b, bal_product b)) (balances s)"
    using assms(2) by (simp add: assms(3) map_update_many same_key_def)
  moreover have "\<forall>b \<in> set (balances s'). bal_id b < next_id s' \<and> placed s' (bal_location b) (bal_warehouse b)"
    using assms by (auto simp: in_update_many stock_wf_def placed_def same_key_def)
  ultimately show ?thesis
    using assms by (simp add: stock_wf_def placed_def)
qed

lemma filter_update_many_empty:
  "(\<And>b. Q (f b) = Q b) \<Longrightarrow> filter Q (update_many P f t) = [] \<longleftrightarrow> filter Q t = []"
  by (induction t) (auto simp: update_many_Cons)

lemma moves_update_many:
  assumes wf: "stock_wf s" and key: "\<And>b. same_key (f b) b"
    and bal: "balances s' = update_many P f (balances s)" and rest: "locations s' = locations s"
      "reservations s' = reservations s" "next_id s' = next_id s" "inventories s' = inventories s"
    and one: "count_where P (balances s) = 1"
    and own: "\<And>b. b \<in> set (balances s) \<Longrightarrow> P b \<Longrightarrow> bal_warehouse b = w \<and> bal_product b = p"
    and lev: "\<And>k b. bal_level k (f b) = bal_level k b + d k"
  shows "moves w p d s s'"
proof -
  have wf': "stock_wf s'" using wf key bal rest(1,2,3) by (rule wf_update_many)
  have empty: "balancesOf w' p' s' = [] \<longleftrightarrow> balancesOf w' p' s = []" for w' p'
    unfolding balancesOf_def bal using key by (intro filter_update_many_empty) (simp add: same_key_def)
  from one obtain b where b: "b \<in> set (balances s)" "P b"
    unfolding count_where_def by (metis One_nat_def filter_empty_conv length_0_conv zero_neq_one)
  with own have ne: "balancesOf w p s \<noteq> []"
    by (auto simp: balancesOf_def filter_empty_conv)
  have "balanceTotal k w p s' = balanceTotal k w p s + d k * int (count_where P (balances s))" for k
    unfolding balanceTotal_def bal using key own
    by (intro sum_where_update_many) (auto simp: lev same_key_def)
  moreover have "balanceTotal k w' p' s' = balanceTotal k w' p' s" if "(w', p') \<noteq> (w, p)" for k w' p'
    unfolding balanceTotal_def bal using key own that
    by (intro sum_where_update_many_other) (auto simp: same_key_def)
  ultimately show ?thesis
    using wf' rest(4) one ne by (auto simp: moves_def ledger_def empty aggregate_cong [OF rest(4)])
qed

lemma moves_updateBalances:
  assumes "updateBalances P f s = Inr (n, s')" and "stock_wf s" and "n = 1"
    and "\<And>b. same_key (f b) b"
    and "\<And>b. b \<in> set (balances s) \<Longrightarrow> P b \<Longrightarrow> bal_warehouse b = w \<and> bal_product b = p"
    and "\<And>k b. bal_level k (f b) = bal_level k b + d k"
  shows "moves w p d s s'"
proof (rule moves_update_many [where P = P and f = "\<lambda>b. (f b)\<lparr>bal_updatedAt := now s\<rparr>"])
  show "same_key ((f b)\<lparr>bal_updatedAt := now s\<rparr>) b" for b
    using assms(4) [of b] by (simp add: same_key_def)
  show "bal_level k ((f b)\<lparr>bal_updatedAt := now s\<rparr>) = bal_level k b + d k" for k b
    using assms(6) [of k b] by (cases k) simp_all
qed (use assms updateBalances_effect [OF assms(1)] in auto)

lemma stays_updateConditions: "updateConditions P f s = Inr (n, s') \<Longrightarrow> stock_wf s \<Longrightarrow> stays w p s s'"
  by (rule stays_frame) (auto simp: updateConditions_def stateT_def stock_wf_def placed_def)

lemma stays_updateReservations:
  assumes "updateReservations P f s = Inr (n, s')" and "stock_wf s"
    and "\<And>r. res_location (f r) = res_location r \<and> res_warehouse (f r) = res_warehouse r"
  shows "stays w p s s'"
proof (rule stays_frame)
  have s': "s' = s\<lparr>reservations := update_many P f (reservations s)\<rparr>"
    using assms(1) by (simp add: updateReservations_def stateT_def)
  show "inventories s' = inventories s" "balances s' = balances s"
    by (simp_all add: s')
  show "stock_wf s'"
    using assms(2,3) unfolding s' stock_wf_def placed_def by (auto simp: in_update_many)
qed

lemma stays_fresh: "freshT s = Inr (i, s') \<Longrightarrow> stock_wf s \<Longrightarrow> stays w p s s'"
  by (rule stays_frame) (auto simp: freshT_def stateT_def stock_wf_def placed_def less_Suc_eq)

lemma stays_createCondition: "createCondition w' l p' c q s = Inr (u, s') \<Longrightarrow> stock_wf s \<Longrightarrow> stays w p s s'"
  by (rule stays_frame)
    (auto simp: createCondition_def freshT_def tx_Inr stock_wf_def placed_def less_Suc_eq split: if_splits)

lemma stays_upsertCondition: "upsertCondition w' l p' c q s = Inr (u, s') \<Longrightarrow> stock_wf s \<Longrightarrow> stays w p s s'"
  by (auto simp: upsertCondition_def tx_Inr split: if_splits
      intro: stays_updateConditions stays_createCondition)

lemma stays_decrementAvailable:
  "decrementAvailableCondition l p' q s = Inr (u, s') \<Longrightarrow> stock_wf s \<Longrightarrow> stays w p s s'"
  by (auto simp: decrementAvailableCondition_def tx_Inr dest: stays_updateConditions)

lemma stays_createReservation:
  assumes "createReservation w' l p' st si q s = Inr (u, s')" and "stock_wf s" and "placed s l w'"
  shows "stays w p s s'"
  using assms by (intro stays_frame)
    (auto simp: createReservation_def freshT_def tx_Inr stock_wf_def placed_def split: if_splits)

lemma assertLocation_placed:
  "assertLocation w l s = Inr (x, s') \<Longrightarrow> s' = s \<and> loc_id x = l \<and> placed s l w"
  by (auto simp: assertLocation_def tx_Inr placed_def split: option.splits dest!: find_first_Some)

lemma placed_cong: "locations s' = locations s \<Longrightarrow> placed s' l w = placed s l w"
  by (simp add: placed_def)

section \<open>Materialisation keeps the ledger\<close>

lemma placed_iff: "placed s l w \<longleftrightarrow> (l, w) \<in> set (map (\<lambda>x. (loc_id x, loc_warehouse x)) (locations s))"
  by (auto simp: placed_def)

lemma update_isDefault_placed:
  "placed (s\<lparr>locations := update_many P (\<lambda>l. l\<lparr>loc_isDefault := d\<rparr>) (locations s)\<rparr>) l w = placed s l w"
proof -
  have "map (\<lambda>x. (loc_id x, loc_warehouse x)) (update_many P (\<lambda>l. l\<lparr>loc_isDefault := d\<rparr>) (locations s)) =
        map (\<lambda>x. (loc_id x, loc_warehouse x)) (locations s)"
    by (rule map_update_many) simp
  then show ?thesis unfolding placed_iff by (simp del: set_map)
qed

lemma wf_update_isDefault:
  "stock_wf s \<Longrightarrow> stock_wf (s\<lparr>locations := update_many P (\<lambda>l. l\<lparr>loc_isDefault := d\<rparr>) (locations s)\<rparr>)"
  unfolding stock_wf_def update_isDefault_placed
  by (auto simp: map_update_many in_update_many)

lemma wf_add_location:
  assumes "stock_wf s" and "loc_id row = next_id s"
  shows "stock_wf (s\<lparr>next_id := Suc (next_id s), locations := locations s @ [row]\<rparr>)"
  using assms by (auto simp: stock_wf_def placed_def less_Suc_eq)

text \<open>\<open>defaultLocation\<close> returns a location of the warehouse and leaves the stock where it is.\<close>

lemma defaultLocation_stays:
  assumes "defaultLocation w s = Inr (x, s')" and wf: "stock_wf s"
  shows "stays w' p s s' \<and> placed s' (loc_id x) w \<and> balances s' = balances s \<and> conditions s' = conditions s \<and>
         inventories s' = inventories s \<and> reservations s' = reservations s \<and> (\<forall>l v. placed s l v \<longrightarrow> placed s' l v)"
proof -
  let ?d = "\<lambda>P d s. s\<lparr>locations := update_many P (\<lambda>l. l\<lparr>loc_isDefault := d\<rparr>) (locations s)\<rparr>"
  consider (found) "s' = s" "find_by loc_code (\<lambda>l. loc_warehouse l = w \<and> loc_isActive l \<and> loc_isDefault l) (locations s) = Some x"
    | (promoted) e where "find_by loc_code (\<lambda>l. loc_warehouse l = w \<and> loc_isActive l) (locations s) = Some e"
        "x = e\<lparr>loc_isDefault := True\<rparr>"
        "s' = ?d (\<lambda>l. loc_id l = loc_id e) True
               (?d (\<lambda>l. loc_warehouse l = w \<and> loc_id l \<noteq> loc_id e \<and> loc_isDefault l) False s)"
    | (created) "loc_id x = next_id s" "loc_warehouse x = w"
        "s' = s\<lparr>next_id := Suc (next_id s), locations := locations s @ [x]\<rparr>"
    using assms(1) unfolding defaultLocation_def freshT_def Let_def
    by (auto simp: tx_Inr split: option.splits if_splits)
  then have "stock_wf s' \<and> placed s' (loc_id x) w \<and> balances s' = balances s \<and> conditions s' = conditions s \<and>
             inventories s' = inventories s \<and> reservations s' = reservations s \<and> (\<forall>l v. placed s l v \<longrightarrow> placed s' l v)"
  proof cases
    case found
    then show ?thesis using wf by (auto simp: placed_def dest!: find_by_Some)
  next
    case promoted
    have "placed s (loc_id e) w" using find_by_Some [OF promoted(1)] by (auto simp: placed_def)
    then have "placed s' (loc_id x) w"
      unfolding promoted(2,3) by (simp only: update_isDefault_placed) simp
    moreover have "stock_wf s'"
      unfolding promoted(3) using wf by (intro wf_update_isDefault)
    moreover have "\<forall>l v. placed s l v \<longrightarrow> placed s' l v"
      unfolding promoted(3) by (simp only: update_isDefault_placed) simp
    ultimately show ?thesis by (simp add: promoted(3))
  next
    case created
    have "stock_wf s'" unfolding created(3) using wf created(1) by (rule wf_add_location)
    with created(1,2) show ?thesis by (subst (2 3 4 5 6) created(3)) (auto simp: placed_def created(3))
  qed
  then show ?thesis by (auto intro: stays_frame)
qed

text \<open>Adding a balance for a product that had none in the warehouse.\<close>

lemma upsertBalance_cases:
  assumes "upsertBalance w l p q r a f s = Inr (row, s')"
  obtains (update) b where "find_first (\<lambda>b. bal_location b = l \<and> bal_product b = p) (balances s) = Some b"
      "updateBalances (\<lambda>b. bal_location b = l \<and> bal_product b = p) f s =
         Inr (count_where (\<lambda>b. bal_location b = l \<and> bal_product b = p) (balances s), s')"
    | (create) "\<forall>b \<in> set (balances s). \<not> (bal_location b = l \<and> bal_product b = p)"
      "row = \<lparr>bal_id = next_id s, bal_warehouse = w, bal_location = l, bal_product = p, bal_quantity = q,
              bal_reserved = r, bal_available = a, bal_updatedAt = now s\<rparr>"
      "s' = s\<lparr>next_id := Suc (next_id s), balances := balances s @ [row]\<rparr>"
proof -
  have eq: "upsertBalance w l p q r a f s =
     (case find_first (\<lambda>b. bal_location b = l \<and> bal_product b = p) (balances s) of
        Some b \<Rightarrow> bindT (updateBalances (\<lambda>b. bal_location b = l \<and> bal_product b = p) f) (\<lambda>_. returnT (f b)) s
      | None \<Rightarrow> let row = \<lparr>bal_id = next_id s, bal_warehouse = w, bal_location = l, bal_product = p,
                    bal_quantity = q, bal_reserved = r, bal_available = a, bal_updatedAt = now s\<rparr>
         in Inr (row, s\<lparr>next_id := Suc (next_id s), balances := balances s @ [row]\<rparr>))"
    by (simp add: upsertBalance_def bindT_def tx_defs freshT_def Let_def split: option.splits)
  show thesis
  proof (cases "find_first (\<lambda>b. bal_location b = l \<and> bal_product b = p) (balances s)")
    case None
    then have nope: "\<forall>b \<in> set (balances s). \<not> (bal_location b = l \<and> bal_product b = p)"
      by (simp add: find_first_None)
    from assms eq None have row: "row = \<lparr>bal_id = next_id s, bal_warehouse = w, bal_location = l,
        bal_product = p, bal_quantity = q, bal_reserved = r, bal_available = a, bal_updatedAt = now s\<rparr>"
      by (simp add: Let_def)
    from assms eq None row have "s' = s\<lparr>next_id := Suc (next_id s), balances := balances s @ [row]\<rparr>"
      by (simp add: Let_def)
    with nope row show thesis by (rule create)
  next
    case (Some b)
    with assms eq update [OF Some] show thesis
      by (auto simp: bindT_Inr returnT_Inr updateBalances_def stateT_def)
  qed
qed

lemma wf_add_balance:
  assumes "stock_wf s" and "bal_id row = next_id s" and "placed s (bal_location row) (bal_warehouse row)"
    and "\<forall>b \<in> set (balances s). \<not> (bal_location b = bal_location row \<and> bal_product b = bal_product row)"
  shows "stock_wf (s\<lparr>next_id := Suc (next_id s), balances := balances s @ [row]\<rparr>)"
  using assms by (auto simp: stock_wf_def placed_def less_Suc_eq)

lemma balancesOf_add:
  "balancesOf w p (s\<lparr>next_id := n, balances := balances s @ [row]\<rparr>) =
     balancesOf w p s @ (if bal_warehouse row = w \<and> bal_product row = p then [row] else [])"
  by (simp add: balancesOf_def)

lemma balanceTotal_add:
  "balanceTotal k w p (s\<lparr>next_id := n, balances := balances s @ [row]\<rparr>) =
     balanceTotal k w p s + (if bal_warehouse row = w \<and> bal_product row = p then bal_level k row else 0)"
  by (simp add: balanceTotal_def sum_where_Cons)

lemma balanceTotal_empty: "balancesOf w p s = [] \<Longrightarrow> balanceTotal k w p s = 0"
  by (simp add: balancesOf_def balanceTotal_def sum_where_def)

lemma moves_add_balance:
  assumes wf: "stock_wf s" and "bal_id row = next_id s" and "placed s (bal_location row) w"
    and "bal_warehouse row = w" and "bal_product row = p"
    and new: "\<forall>b \<in> set (balances s). \<not> (bal_location b = bal_location row \<and> bal_product b = bal_product row)"
    and start: "\<And>k. balancesOf w p s = [] \<Longrightarrow> bal_level k row = aggregate k w p s + d k"
    and more: "\<And>k. balancesOf w p s \<noteq> [] \<Longrightarrow> bal_level k row = d k"
  shows "moves w p d s (s\<lparr>next_id := Suc (next_id s), balances := balances s @ [row]\<rparr>)"
proof -
  let ?s = "s\<lparr>next_id := Suc (next_id s), balances := balances s @ [row]\<rparr>"
  have "stock_wf ?s" using wf assms(2-4) new by (intro wf_add_balance) auto
  moreover have "ledger k w p ?s = ledger k w p s + d k" for k
    using assms(4,5) start [of k] more [of k]
    by (cases "balancesOf w p s = []")
      (simp_all add: ledger_def balancesOf_add balanceTotal_add balanceTotal_empty)
  moreover have "ledger k w' p' ?s = ledger k w' p' s" if "(w', p') \<noteq> (w, p)" for k w' p'
    using that assms(4,5) by (auto simp: ledger_def balancesOf_add balanceTotal_add aggregate_def findInventory_def)
  ultimately show ?thesis by (simp add: moves_def)
qed

lemma unique_key_count:
  assumes "distinct (map (\<lambda>b. (bal_location b, bal_product b)) bs)" and "b \<in> set bs"
    and "bal_location b = l" and "bal_product b = p"
  shows "count_where (\<lambda>b. bal_location b = l \<and> bal_product b = p) bs = 1"
  using assms
proof (induction bs)
  case Nil
  then show ?case by simp
next
  case (Cons c bs)
  show ?case
  proof (cases "bal_location c = l \<and> bal_product c = p")
    case True
    with Cons.prems(1) have "filter (\<lambda>b. bal_location b = l \<and> bal_product b = p) bs = []"
      by (auto simp: filter_empty_conv image_iff)
    with True show ?thesis by (simp add: count_where_def)
  next
    case False
    with Cons show ?thesis by (auto simp: count_where_def)
  qed
qed

text \<open>Upserting a balance at a location of the warehouse displaces the ledger by the row's values.\<close>

lemma upsertBalance_moves:
  assumes "upsertBalance w l p q r a f s = Inr (row, s')" and wf: "stock_wf s" and pl: "placed s l w"
    and key: "\<And>b. same_key (f b) b" and lev: "\<And>k b. bal_level k (f b) = bal_level k b + displacement q r a k"
    and start: "\<And>k. balancesOf w p s = [] \<Longrightarrow> aggregate k w p s = 0"
  shows "moves w p (displacement q r a) s s'"
  using assms(1)
proof (cases rule: upsertBalance_cases)
  case (update b)
  from find_first_Some [OF update(1)]
  have "count_where (\<lambda>b. bal_location b = l \<and> bal_product b = p) (balances s) = 1"
    using wf by (intro unique_key_count [of _ b]) (auto simp: stock_wf_def)
  with update(2) wf show ?thesis
  proof (rule moves_updateBalances)
    fix c assume "c \<in> set (balances s)" "bal_location c = l \<and> bal_product c = p"
    with balances_placed [OF wf this(1)] placed_unique [OF wf pl] show "bal_warehouse c = w \<and> bal_product c = p"
      by auto
  qed (use key lev in auto)
next
  case create
  have "moves w p (displacement q r a) s (s\<lparr>next_id := Suc (next_id s), balances := balances s @ [row]\<rparr>)"
  proof (rule moves_add_balance)
    show "bal_level k row = aggregate k w p s + displacement q r a k" if "balancesOf w p s = []" for k
      using start [OF that] by (cases k) (simp_all add: create(2))
    show "bal_level k row = displacement q r a k" for k
      by (cases k) (simp_all add: create(2))
  qed (use create wf pl in auto)
  then show ?thesis by (simp add: create(3))
qed

text \<open>Materialising the first balance of a product from its aggregate row.\<close>

lemma upsertBalance_materialise:
  assumes "upsertBalance w l p (inv_quantity i) (inv_reserved i) (inv_available i) f s = Inr (row, s')"
    and wf: "stock_wf s" and pl: "placed s l w" and none: "balancesOf w p s = []" and inv: "findInventory w p s = Some i"
  shows "stays w p s s' \<and> balancesOf w p s' \<noteq> []"
  using assms(1)
proof (cases rule: upsertBalance_cases)
  case (update b)
  from find_first_Some [OF this(1)] have "b \<in> set (balances s)" "bal_location b = l" "bal_product b = p" by auto
  with balances_placed [OF wf this(1)] placed_unique [OF wf pl] none show ?thesis
    by (auto simp: balancesOf_def filter_empty_conv)
next
  case create
  have "moves w p (\<lambda>_. 0) s (s\<lparr>next_id := Suc (next_id s), balances := balances s @ [row]\<rparr>)"
  proof (rule moves_add_balance)
    show "bal_level k row = aggregate k w p s + 0" for k
      using inv by (cases k) (simp_all add: create(2) aggregate_def)
  qed (use create wf pl none in auto)
  with create none show ?thesis by (simp add: balancesOf_add)
qed

lemma prepareLocation_stays:
  assumes "prepareLocationInventory w p s = Inr ((agg, x), s')" and wf: "stock_wf s"
  shows "stays w p s s' \<and> placed s' (loc_id x) w \<and> conditions s' = conditions s \<and> reservations s' = reservations s \<and>
         (balancesOf w p s' = [] \<longrightarrow> (\<forall>k. aggregate k w p s' = 0)) \<and> agg = findInventory w p s \<and>
         (\<forall>l v. placed s l v \<longrightarrow> placed s' l v)"
proof (cases "balancesOf w p s = []")
  case True
  then obtain s1 where d: "defaultLocation w s = Inr (x, s1)" and agg: "agg = findInventory w p s"
    and m: "(case agg of None \<Rightarrow> s' = s1
      | Some i \<Rightarrow> \<exists>row f. upsertBalance w (loc_id x) p (inv_quantity i) (inv_reserved i) (inv_available i) f s1 = Inr (row, s'))"
    using assms(1) unfolding prepareLocationInventory_def
    by (fastforce simp: tx_Inr split: option.splits)
  note d' = defaultLocation_stays [OF d wf, of w p]
  then have wf1: "stock_wf s1" by (auto dest: moves_wf)
  have none1: "balancesOf w p s1 = []" and agg1: "findInventory w p s1 = agg"
    using True d' agg by (simp_all add: balancesOf_def findInventory_def)
  show ?thesis
  proof (cases agg)
    case None
    with m d' agg agg1 show ?thesis by (auto simp: aggregate_def)
  next
    case (Some i)
    with m obtain row f where u:
      "upsertBalance w (loc_id x) p (inv_quantity i) (inv_reserved i) (inv_available i) f s1 = Inr (row, s')"
      by auto
    have pl1: "placed s1 (loc_id x) w" using d' by simp
    have "stays w p s1 s' \<and> balancesOf w p s' \<noteq> []"
      using u wf1 pl1 none1 agg1 Some by (intro upsertBalance_materialise) auto
    moreover have "conditions s' = conditions s1 \<and> reservations s' = reservations s1 \<and> locations s' = locations s1"
      using u by (cases rule: upsertBalance_cases) (auto dest: updateBalances_effect)
    ultimately show ?thesis
      using d' agg by (auto simp: placed_def dest: moves_stays)
  qed
next
  case False
  then have d: "defaultLocation w s = Inr (x, s')" and agg: "agg = findInventory w p s"
    using assms(1) unfolding prepareLocationInventory_def
    by (auto simp: tx_Inr Let_def)
  with defaultLocation_stays [OF d wf, of w p] False show ?thesis
    by (simp add: balancesOf_def)
qed

lemma forT_stays:
  assumes "forT f xs s = Inr (u, s')" and "stock_wf s"
    and "\<And>x t t' v. x \<in> set xs \<Longrightarrow> f x t = Inr (v, t') \<Longrightarrow> stock_wf t \<Longrightarrow>
           stays w p t t' \<and> balances t' = balances t \<and> locations t' = locations t \<and> reservations t' = reservations t"
  shows "stays w p s s' \<and> balances s' = balances s \<and> locations s' = locations s \<and> reservations s' = reservations s"
  using assms
proof (induction xs arbitrary: s)
  case Nil
  then show ?case by (auto simp: returnT_def intro: stays_refl)
next
  case (Cons x xs)
  from Cons.prems(1) obtain v s1 where 1: "f x s = Inr (v, s1)" and 2: "forT f xs s1 = Inr (u, s')"
    by (auto simp: thenT_Inr)
  from Cons.prems(3) [OF _ 1 Cons.prems(2)] have s1: "stays w p s s1 \<and> balances s1 = balances s \<and>
      locations s1 = locations s \<and> reservations s1 = reservations s" by simp
  then have "stock_wf s1" by (simp add: moves_def)
  with 2 have "stays w p s1 s' \<and> balances s' = balances s1 \<and>
      locations s' = locations s1 \<and> reservations s' = reservations s1"
    by (rule Cons.IH) (rule Cons.prems(3), simp_all)
  with s1 show ?case by (auto intro: moves_stays)
qed

lemma createCondition_frame:
  "createCondition w' l p' c q s = Inr (u, s') \<Longrightarrow>
     balances s' = balances s \<and> locations s' = locations s \<and> reservations s' = reservations s \<and> inventories s' = inventories s"
  by (auto simp: createCondition_def freshT_def tx_Inr split: if_splits)

lemma checkClassified_frame: "checkClassified existing b s = Inr (u, s') \<Longrightarrow> s' = s"
  by (auto simp: checkClassified_def tx_Inr Let_def)

lemma prepareCondition_stays:
  assumes "prepareConditionInventory w p s = Inr (rows, s')" and wf: "stock_wf s"
  shows "stays w p s s' \<and> reservations s' = reservations s \<and>
         (balancesOf w p s' = [] \<longrightarrow> (\<forall>k. aggregate k w p s' = 0)) \<and> (\<forall>l v. placed s l v \<longrightarrow> placed s' l v)"
proof -
  from assms(1) obtain agg x s1 where 1: "prepareLocationInventory w p s = Inr ((agg, x), s1)"
    and 2: "conditionsOf w p s1 = [] \<and> (\<exists>u. forT (\<lambda>b. if bal_quantity b \<le> 0 then returnT ()
               else createCondition w (bal_location b) p AVAILABLE (bal_quantity b)) (balancesOf w p s1) s1 = Inr (u, s')) \<or>
            (\<exists>u. forT (checkClassified (conditionsOf w p s1)) (balancesOf w p s1) s1 = Inr (u, s'))"
    unfolding prepareConditionInventory_def by (fastforce simp: tx_Inr split: if_splits)
  note 1 = prepareLocation_stays [OF 1 wf]
  then have wf1: "stock_wf s1" by (auto dest: moves_wf)
  from 2 have "stays w p s1 s' \<and> balances s' = balances s1 \<and> locations s' = locations s1 \<and> reservations s' = reservations s1"
  proof (elim disjE conjE exE)
    fix u assume "forT (\<lambda>b. if bal_quantity b \<le> 0 then returnT ()
        else createCondition w (bal_location b) p AVAILABLE (bal_quantity b)) (balancesOf w p s1) s1 = Inr (u, s')"
    then show ?thesis using wf1
      by (rule forT_stays) (auto simp: returnT_def stays_refl split: if_splits
          dest: createCondition_frame intro: stays_createCondition)
  next
    fix u assume "forT (checkClassified (conditionsOf w p s1)) (balancesOf w p s1) s1 = Inr (u, s')"
    then show ?thesis using wf1
      by (rule forT_stays) (auto dest: checkClassified_frame intro: stays_refl)
  qed
  moreover from this have "\<forall>l v. placed s1 l v \<longrightarrow> placed s' l v" by (simp add: placed_def)
  ultimately show ?thesis using 1
    by (auto simp: balancesOf_def aggregate_def findInventory_def moves_def)
qed

section \<open>Allocation loops\<close>

text \<open>
  The stock-out, reservation and legacy loops share one shape: each iteration looks at one row of a
  snapshot, takes at most the remaining quantity, displaces the ledger by a fixed unit per piece
  taken and records the piece. The interface states what one iteration promises; the loop's
  contract is proved once.
\<close>

definition snapshot :: "stock \<Rightarrow> balance \<Rightarrow> bool" where
  "snapshot s row \<longleftrightarrow> (\<forall>b \<in> set (balances s). bal_id b = bal_id row \<longrightarrow> same_key b row) \<and>
     placed s (bal_location row) (bal_warehouse row)"

locale allocation_loop =
  fixes step :: "balance \<Rightarrow> int \<times> allocation list \<Rightarrow> (stock, int \<times> allocation list) tx"
    and w p :: ident and unit :: "level \<Rightarrow> int" and row_ok :: "stock \<Rightarrow> balance \<Rightarrow> bool"
  assumes step_moves: "step row (rem, al) s = Inr ((rem', al'), s') \<Longrightarrow> stock_wf s \<Longrightarrow> row_ok s row \<Longrightarrow>
      0 \<le> rem \<Longrightarrow> 0 \<le> rem' \<and> rem' \<le> rem \<and> moves w p (\<lambda>k. (rem - rem') * unit k) s s'"
    and step_allocates: "step row (rem, al) s = Inr ((rem', al'), s') \<Longrightarrow> row_ok s row \<Longrightarrow> 0 \<le> rem \<Longrightarrow>
      \<exists>new. al' = al @ new \<and> sum_list (map snd new) = rem - rem' \<and> (\<forall>a \<in> set new. 0 < snd a)"
    and step_row_ok: "step row acc s = Inr (acc', s') \<Longrightarrow> row_ok s r \<Longrightarrow> row_ok s' r"
begin

lemma loop_moves:
  assumes "foldT step rows (rem, al) s = Inr ((rem', al'), s')" and "stock_wf s"
    and "\<forall>row \<in> set rows. row_ok s row" and "0 \<le> rem"
  shows "0 \<le> rem' \<and> rem' \<le> rem \<and> moves w p (\<lambda>k. (rem - rem') * unit k) s s' \<and>
    (\<exists>new. al' = al @ new \<and> sum_list (map snd new) = rem - rem' \<and> (\<forall>a \<in> set new. 0 < snd a))"
  using assms
proof (induction rows arbitrary: rem al s)
  case Nil
  then show ?case by (auto simp: returnT_def stays_refl)
next
  case (Cons row rows)
  from Cons.prems(1) obtain rem1 al1 s1 where 1: "step row (rem, al) s = Inr ((rem1, al1), s1)"
    and 2: "foldT step rows (rem1, al1) s1 = Inr ((rem', al'), s')"
    by (auto simp: bindT_Inr)
  have m: "0 \<le> rem1 \<and> rem1 \<le> rem \<and> moves w p (\<lambda>k. (rem - rem1) * unit k) s s1"
    using step_moves [OF 1] Cons.prems by simp
  have a: "\<exists>new. al1 = al @ new \<and> sum_list (map snd new) = rem - rem1 \<and> (\<forall>x \<in> set new. 0 < snd x)"
    using step_allocates [OF 1] Cons.prems by simp
  have ih: "0 \<le> rem' \<and> rem' \<le> rem1 \<and> moves w p (\<lambda>k. (rem1 - rem') * unit k) s1 s' \<and>
    (\<exists>new. al' = al1 @ new \<and> sum_list (map snd new) = rem1 - rem' \<and> (\<forall>a \<in> set new. 0 < snd a))"
    using Cons.IH [OF 2] m Cons.prems(3) step_row_ok [OF 1] by (auto simp: moves_def)
  from m ih have "moves w p (\<lambda>k. (rem - rem1) * unit k + (rem1 - rem') * unit k) s s'"
    by (auto intro: moves_trans)
  then have "moves w p (\<lambda>k. (rem - rem') * unit k) s s'"
    by (rule moves_cong) (simp add: algebra_simps)
  moreover from a ih have "\<exists>new. al' = al @ new \<and> sum_list (map snd new) = rem - rem' \<and> (\<forall>a \<in> set new. 0 < snd a)"
  proof (elim conjE exE)
    fix new new' assume "al1 = al @ new" "al' = al1 @ new'" "\<forall>x \<in> set new. 0 < snd x" "\<forall>a \<in> set new'. 0 < snd a"
      "sum_list (map snd new) = rem - rem1" "sum_list (map snd new') = rem1 - rem'"
    then show ?thesis by (intro exI [of _ "new @ new'"]) auto
  qed
  ultimately show ?case using m ih by auto
qed

text \<open>A loop that leaves nothing remaining has allocated and displaced exactly the quantity asked for.\<close>

lemma loop_exact:
  assumes "foldT step rows (q, []) s = Inr ((rem', al'), s')" and "stock_wf s"
    and "\<forall>row \<in> set rows. row_ok s row" and "0 \<le> q" and "rem' \<le> 0"
  shows "moves w p (\<lambda>k. q * unit k) s s' \<and> sum_list (map snd al') = q \<and> (\<forall>a \<in> set al'. 0 < snd a)"
  using loop_moves [OF assms(1-4)] assms(5) by auto

end

lemma snapshot_update:
  assumes "snapshot s r" and "\<And>b. same_key (f b) b" and "balances s' = update_many P f (balances s)"
    and "locations s' = locations s"
  shows "snapshot s' r"
  unfolding snapshot_def
proof (intro conjI ballI impI)
  fix b assume "b \<in> set (balances s')" and id: "bal_id b = bal_id r"
  then obtain c where c: "c \<in> set (balances s)" "b = (if P c then f c else c)"
    by (auto simp: assms(3) in_update_many)
  then have "same_key b c" using assms(2) by (simp add: same_key_def)
  with assms(1) c(1) id show "same_key b r" by (auto simp: snapshot_def same_key_def)
next
  show "placed s' (bal_location r) (bal_warehouse r)"
    using assms(1,4) by (simp add: snapshot_def placed_def)
qed

lemma snapshot_cong:
  "snapshot s r \<Longrightarrow> balances s' = balances s \<Longrightarrow> locations s' = locations s \<Longrightarrow> snapshot s' r"
  by (simp add: snapshot_def placed_def)

lemma snapshot_updateBalances:
  assumes "updateBalances P f s = Inr (n, s')" and "snapshot s r" and "\<And>b. same_key (f b) b"
  shows "snapshot s' r"
proof (rule snapshot_update)
  show "same_key ((f b)\<lparr>bal_updatedAt := now s\<rparr>) b" for b
    using assms(3) [of b] by (simp add: same_key_def)
qed (use assms(2) updateBalances_effect [OF assms(1)] in auto)

lemma snapshot_self: "stock_wf s \<Longrightarrow> b \<in> set (balances s) \<Longrightarrow> snapshot s b"
  by (auto simp: snapshot_def same_key_def dest: bal_id_unique balances_placed)

lemma decrementAvailable_frame:
  "decrementAvailableCondition l p q s = Inr (u, s') \<Longrightarrow>
     balances s' = balances s \<and> locations s' = locations s \<and> reservations s' = reservations s \<and> inventories s' = inventories s"
  by (auto simp: decrementAvailableCondition_def updateConditions_def tx_Inr)

lemma createReservation_frame:
  "createReservation w l p st si q s = Inr (u, s') \<Longrightarrow> balances s' = balances s \<and> locations s' = locations s"
  by (auto simp: createReservation_def freshT_def tx_Inr split: if_splits)

section \<open>The three loops are allocation loops\<close>

definition free_row :: "ident \<Rightarrow> ident \<Rightarrow> stock \<Rightarrow> balance \<Rightarrow> bool" where
  "free_row w p s row \<longleftrightarrow> snapshot s row \<and> bal_warehouse row = w \<and> bal_product row = p \<and> 0 < bal_available row"

text \<open>A guarded update by row id displaces the ledger of the row's warehouse and product.\<close>

lemma moves_by_id:
  assumes "updateBalances (\<lambda>b. bal_id b = bal_id row \<and> G b) f s = Inr (1, s')" and "stock_wf s"
    and "snapshot s row" and "bal_warehouse row = w" and "bal_product row = p"
    and "\<And>b. same_key (f b) b" and "\<And>k b. bal_level k (f b) = bal_level k b + d k"
  shows "moves w p d s s'"
  using assms(1,2)
proof (rule moves_updateBalances)
  fix b assume "b \<in> set (balances s)" "bal_id b = bal_id row \<and> G b"
  with assms(3) have "same_key b row" by (auto simp: snapshot_def)
  with assms(4,5) show "bal_warehouse b = w \<and> bal_product b = p" by (auto simp: same_key_def)
qed (use assms in auto)

lemma consumeStep_cases:
  assumes "consumeStep p row (rem, al) s = Inr ((rem', al'), s')"
  obtains (stop) "rem \<le> 0" "rem' = rem" "al' = al" "s' = s"
    | (take) take s1 u where "0 < rem" "take = min (bal_available row) rem" "rem' = rem - take"
      "al' = al @ [(bal_location row, take)]"
      "updateBalances (\<lambda>b. bal_id b = bal_id row \<and> take \<le> bal_quantity b \<and> take \<le> bal_available b)
         (\<lambda>b. b\<lparr>bal_quantity := bal_quantity b - take, bal_available := bal_available b - take\<rparr>) s = Inr (1, s1)"
      "decrementAvailableCondition (bal_location row) p take s1 = Inr (u, s')"
proof (cases "rem \<le> 0")
  case True
  with assms stop show thesis by (auto simp: consumeStep_def tx_Inr)
next
  case False
  with assms take show thesis by (fastforce simp: consumeStep_def tx_Inr Let_def)
qed

interpretation consume_loop: allocation_loop "consumeStep p" w p "displacement (-1) 0 (-1)" "free_row w p" for w p
proof
  fix row rem al s rem' al' s'
  assume step: "consumeStep p row (rem, al) s = Inr ((rem', al'), s')"
    and wf: "stock_wf s" and ok: "free_row w p s row" and rem: "0 \<le> rem"
  from step show "0 \<le> rem' \<and> rem' \<le> rem \<and> moves w p (\<lambda>k. (rem - rem') * displacement (-1) 0 (-1) k) s s'"
  proof (cases rule: consumeStep_cases)
    case stop
    with rem wf show ?thesis by (auto simp: stays_refl)
  next
    case (take take s1 u)
    have "moves w p (\<lambda>k. (rem - rem') * displacement (-1) 0 (-1) k) s s1"
      using take(5) wf
    proof (rule moves_by_id)
      fix k b
      show "bal_level k (b\<lparr>bal_quantity := bal_quantity b - take, bal_available := bal_available b - take\<rparr>) =
            bal_level k b + (rem - rem') * displacement (-1) 0 (-1) k"
        using take(3) by (cases k) simp_all
    qed (use ok in \<open>auto simp: free_row_def same_key_def\<close>)
    then have "moves w p (\<lambda>k. (rem - rem') * displacement (-1) 0 (-1) k) s s'"
      using stays_decrementAvailable [OF take(6)] by (auto dest: moves_wf intro: moves_stays)
    with take ok show ?thesis by (auto simp: free_row_def)
  qed
next
  fix row rem al s rem' al' s'
  assume "consumeStep p row (rem, al) s = Inr ((rem', al'), s')" and "free_row w p s row" and "(0::int) \<le> rem"
  then show "\<exists>new. al' = al @ new \<and> sum_list (map snd new) = rem - rem' \<and> (\<forall>a \<in> set new. 0 < snd a)"
    by (cases rule: consumeStep_cases) (auto simp: free_row_def)
next
  fix row acc s acc' s' r
  assume step: "consumeStep p row acc s = Inr (acc', s')" and ok: "free_row w p s r"
  obtain rem al rem' al' where acc: "acc = (rem, al)" "acc' = (rem', al')" by (cases acc, cases acc')
  from step [unfolded acc] show "free_row w p s' r"
  proof (cases rule: consumeStep_cases)
    case (take take s1 u)
    have "snapshot s1 r" using take(5) ok
      by (auto simp: free_row_def same_key_def elim: snapshot_updateBalances)
    with ok decrementAvailable_frame [OF take(6)] show ?thesis
      by (auto simp: free_row_def intro: snapshot_cong)
  qed (use ok in simp)
qed

lemma reserveStep_cases:
  assumes "reserveStep w p st si row (rem, al) s = Inr ((rem', al'), s')"
  obtains (stop) "rem \<le> 0" "rem' = rem" "al' = al" "s' = s"
    | (take) take s1 u where "0 < rem" "take = min (bal_available row) rem" "rem' = rem - take"
      "al' = al @ [(bal_location row, take)]"
      "updateBalances (\<lambda>b. bal_id b = bal_id row \<and> take \<le> bal_available b)
         (\<lambda>b. b\<lparr>bal_reserved := bal_reserved b + take, bal_available := bal_available b - take\<rparr>) s = Inr (1, s1)"
      "createReservation w (bal_location row) p st si take s1 = Inr (u, s')"
proof (cases "rem \<le> 0")
  case True
  with assms stop show thesis by (auto simp: reserveStep_def tx_Inr)
next
  case False
  with assms take show thesis by (fastforce simp: reserveStep_def tx_Inr Let_def)
qed

interpretation reserve_loop:
  allocation_loop "reserveStep w p st si" w p "displacement 0 1 (-1)" "free_row w p" for w p st si
proof
  fix row rem al s rem' al' s'
  assume step: "reserveStep w p st si row (rem, al) s = Inr ((rem', al'), s')"
    and wf: "stock_wf s" and ok: "free_row w p s row" and rem: "0 \<le> rem"
  from step show "0 \<le> rem' \<and> rem' \<le> rem \<and> moves w p (\<lambda>k. (rem - rem') * displacement 0 1 (-1) k) s s'"
  proof (cases rule: reserveStep_cases)
    case stop
    with rem wf show ?thesis by (auto simp: stays_refl)
  next
    case (take take s1 u)
    have m: "moves w p (\<lambda>k. (rem - rem') * displacement 0 1 (-1) k) s s1"
      using take(5) wf
    proof (rule moves_by_id)
      fix k b
      show "bal_level k (b\<lparr>bal_reserved := bal_reserved b + take, bal_available := bal_available b - take\<rparr>) =
            bal_level k b + (rem - rem') * displacement 0 1 (-1) k"
        using take(3) by (cases k) simp_all
    qed (use ok in \<open>auto simp: free_row_def same_key_def\<close>)
    have "placed s1 (bal_location row) w"
      using ok updateBalances_effect [OF take(5)] by (auto simp: free_row_def snapshot_def placed_def)
    with stays_createReservation [OF take(6)] m
    have "moves w p (\<lambda>k. (rem - rem') * displacement 0 1 (-1) k) s s'"
      by (auto dest: moves_wf intro: moves_stays)
    with take ok show ?thesis by (auto simp: free_row_def)
  qed
next
  fix row rem al s rem' al' s'
  assume "reserveStep w p st si row (rem, al) s = Inr ((rem', al'), s')" and "free_row w p s row" and "(0::int) \<le> rem"
  then show "\<exists>new. al' = al @ new \<and> sum_list (map snd new) = rem - rem' \<and> (\<forall>a \<in> set new. 0 < snd a)"
    by (cases rule: reserveStep_cases) (auto simp: free_row_def)
next
  fix row acc s acc' s' r
  assume step: "reserveStep w p st si row acc s = Inr (acc', s')" and ok: "free_row w p s r"
  obtain rem al rem' al' where acc: "acc = (rem, al)" "acc' = (rem', al')" by (cases acc, cases acc')
  from step [unfolded acc] show "free_row w p s' r"
  proof (cases rule: reserveStep_cases)
    case (take take s1 u)
    have "snapshot s1 r" using take(5) ok
      by (auto simp: free_row_def same_key_def elim: snapshot_updateBalances)
    with ok createReservation_frame [OF take(6)] show ?thesis
      by (auto simp: free_row_def intro: snapshot_cong)
  qed (use ok in simp)
qed

definition reserved_row :: "ident \<Rightarrow> ident \<Rightarrow> stock \<Rightarrow> balance \<Rightarrow> bool" where
  "reserved_row w p s row \<longleftrightarrow> snapshot s row \<and> bal_warehouse row = w \<and> bal_product row = p"

fun legacy_unit :: "bool \<Rightarrow> level \<Rightarrow> int" where
  "legacy_unit True k = displacement (-1) (-1) 0 k"
| "legacy_unit False k = displacement 0 (-1) 1 k"

lemma legacyStep_cases:
  assumes "legacyStep p consume row (rem, al) s = Inr ((rem', al'), s')"
  obtains (stop) "rem' = rem" "al' = al" "s' = s"
    | (take) take s1 u where "0 < rem" "0 < take" "take \<le> rem" "rem' = rem - take"
      "al' = al @ [(bal_location row, take)]"
      "updateBalances (\<lambda>b. bal_id b = bal_id row \<and> (take + trackedReserved (bal_location row) p s \<le> bal_reserved b \<and>
           (consume \<longrightarrow> take \<le> bal_quantity b)))
         (if consume
          then (\<lambda>b. b\<lparr>bal_quantity := bal_quantity b - take, bal_reserved := bal_reserved b - take\<rparr>)
          else (\<lambda>b. b\<lparr>bal_reserved := bal_reserved b - take, bal_available := bal_available b + take\<rparr>)) s = Inr (1, s1)"
      "(if consume then decrementAvailableCondition (bal_location row) p take else returnT ()) s1 = Inr (u, s')"
proof (cases "rem \<le> 0 \<or> max 0 (bal_reserved row - trackedReserved (bal_location row) p s) = 0")
  case True
  with assms stop show thesis
    by (auto simp: legacyStep_def tx_Inr Let_def bindT_def getT_def split: if_splits)
next
  case False
  define legacy where "legacy = max 0 (bal_reserved row - trackedReserved (bal_location row) p s)"
  from False have pos: "0 < rem" "0 < legacy" "legacy \<noteq> 0" by (auto simp: legacy_def)
  with assms obtain s1 u where "rem' = rem - min legacy rem" "al' = al @ [(bal_location row, min legacy rem)]"
    "updateBalances (\<lambda>b. bal_id b = bal_id row \<and> min legacy rem + trackedReserved (bal_location row) p s \<le> bal_reserved b \<and>
           (consume \<longrightarrow> min legacy rem \<le> bal_quantity b))
         (if consume
          then (\<lambda>b. b\<lparr>bal_quantity := bal_quantity b - min legacy rem, bal_reserved := bal_reserved b - min legacy rem\<rparr>)
          else (\<lambda>b. b\<lparr>bal_reserved := bal_reserved b - min legacy rem, bal_available := bal_available b + min legacy rem\<rparr>)) s = Inr (1, s1)"
    "(if consume then decrementAvailableCondition (bal_location row) p (min legacy rem) else returnT ()) s1 = Inr (u, s')"
    unfolding legacyStep_def Let_def legacy_def by (fastforce simp: tx_Inr)
  with pos show thesis by (intro take [of "min legacy rem" s1 u]) simp_all
qed

interpretation legacy_loop:
  allocation_loop "legacyStep p consume" w p "legacy_unit consume" "reserved_row w p" for w p consume
proof
  fix row rem al s rem' al' s'
  assume step: "legacyStep p consume row (rem, al) s = Inr ((rem', al'), s')"
    and wf: "stock_wf s" and ok: "reserved_row w p s row" and rem: "0 \<le> rem"
  from step show "0 \<le> rem' \<and> rem' \<le> rem \<and> moves w p (\<lambda>k. (rem - rem') * legacy_unit consume k) s s'"
  proof (cases rule: legacyStep_cases)
    case stop
    with rem wf show ?thesis by (auto simp: stays_refl)
  next
    case (take take s1 u)
    have m: "moves w p (\<lambda>k. (rem - rem') * legacy_unit consume k) s s1"
      using take(6) wf
    proof (rule moves_by_id)
      fix k b
      show "bal_level k ((if consume
          then (\<lambda>b. b\<lparr>bal_quantity := bal_quantity b - take, bal_reserved := bal_reserved b - take\<rparr>)
          else (\<lambda>b. b\<lparr>bal_reserved := bal_reserved b - take, bal_available := bal_available b + take\<rparr>)) b) =
            bal_level k b + (rem - rem') * legacy_unit consume k"
        using take(4) by (cases k; cases consume) simp_all
    qed (use ok in \<open>auto simp: reserved_row_def same_key_def\<close>)
    have "stays w p s1 s'"
      using take(7) moves_wf [OF m]
      by (cases consume) (auto simp: returnT_def stays_refl intro: stays_decrementAvailable)
    with m have "moves w p (\<lambda>k. (rem - rem') * legacy_unit consume k) s s'" by (rule moves_stays)
    with take show ?thesis by auto
  qed
next
  fix row rem al s rem' al' s'
  assume "legacyStep p consume row (rem, al) s = Inr ((rem', al'), s')" and "reserved_row w p s row" and "(0::int) \<le> rem"
  then show "\<exists>new. al' = al @ new \<and> sum_list (map snd new) = rem - rem' \<and> (\<forall>a \<in> set new. 0 < snd a)"
    by (cases rule: legacyStep_cases) auto
next
  fix row acc s acc' s' r
  assume step: "legacyStep p consume row acc s = Inr (acc', s')" and ok: "reserved_row w p s r"
  obtain rem al rem' al' where acc: "acc = (rem, al)" "acc' = (rem', al')" by (cases acc, cases acc')
  from step [unfolded acc] show "reserved_row w p s' r"
  proof (cases rule: legacyStep_cases)
    case (take take s1 u)
    have "snapshot s1 r"
      using ok by (intro snapshot_updateBalances [OF take(6)]) (auto simp: reserved_row_def same_key_def)
    moreover have "balances s' = balances s1 \<and> locations s' = locations s1"
      using take(7) by (cases consume) (auto simp: returnT_def dest: decrementAvailable_frame)
    ultimately show ?thesis using ok
      by (auto simp: reserved_row_def intro: snapshot_cong)
  qed (use ok in simp)
qed

section \<open>The contract of the operations\<close>

lemma orderedAvailable_rows:
  assumes "orderedAvailableBalances w p s = Inr (rows, s')" and wf: "stock_wf s"
  shows "stays w p s s' \<and> reservations s' = reservations s \<and> (\<forall>row \<in> set rows. free_row w p s' row)"
proof -
  let ?rows = "\<lambda>s. sort_key bal_updatedAt (sort_key bal_id (filter (\<lambda>b. 0 < bal_available b) (balancesOf w p s)))"
  from assms(1) obtain agg x s1 cs where 1: "prepareLocationInventory w p s = Inr ((agg, x), s1)"
    and 2: "prepareConditionInventory w p s1 = Inr (cs, s')"
    and rows: "rows = filter (\<lambda>b. bal_location b = loc_id x) (?rows s') @ filter (\<lambda>b. bal_location b \<noteq> loc_id x) (?rows s')"
    unfolding orderedAvailableBalances_def by (auto simp: tx_Inr)
  note 1 = prepareLocation_stays [OF 1 wf]
  then have wf1: "stock_wf s1" by (auto dest: moves_wf)
  note 2 = prepareCondition_stays [OF 2 wf1]
  then have wf': "stock_wf s'" by (auto dest: moves_wf)
  have "\<forall>row \<in> set rows. free_row w p s' row"
    using rows wf' by (auto simp: free_row_def balancesOf_def intro: snapshot_self)
  with 1 2 show ?thesis by (auto intro: moves_stays)
qed

lemma upsertBalance_frame:
  assumes "upsertBalance w l p q r a f s = Inr (row, s')"
  shows "locations s' = locations s \<and> reservations s' = reservations s \<and> conditions s' = conditions s \<and>
         inventories s' = inventories s"
  using assms by (cases rule: upsertBalance_cases) (auto dest: updateBalances_effect)

lemma upsertCondition_frame:
  "upsertCondition w l p c q s = Inr (u, s') \<Longrightarrow>
     balances s' = balances s \<and> locations s' = locations s \<and> reservations s' = reservations s \<and> inventories s' = inventories s"
  by (auto simp: upsertCondition_def updateConditions_def tx_Inr split: if_splits dest: createCondition_frame)

text \<open>Adding free stock at a location: the balance and the AVAILABLE condition row together.\<close>

lemma addFree_moves:
  assumes "upsertBalance w l p q 0 q
      (\<lambda>b. b\<lparr>bal_quantity := bal_quantity b + q, bal_available := bal_available b + q\<rparr>) s = Inr (row, s1)"
    and "incrementAvailableCondition w l p q s1 = Inr (u, s')"
    and wf: "stock_wf s" and pl: "placed s l w" and start: "\<And>k. balancesOf w p s = [] \<Longrightarrow> aggregate k w p s = 0"
  shows "moves w p (displacement q 0 q) s s' \<and> placed s' l w"
proof -
  have "moves w p (displacement q 0 q) s s1"
    using assms(1) wf pl
  proof (rule upsertBalance_moves)
    fix k b
    show "bal_level k (b\<lparr>bal_quantity := bal_quantity b + q, bal_available := bal_available b + q\<rparr>) =
          bal_level k b + displacement q 0 q k"
      by (cases k) simp_all
  qed (simp_all add: same_key_def start)
  moreover from this have "stays w p s1 s'"
    using assms(2) unfolding incrementAvailableCondition_def by (blast intro: stays_upsertCondition dest: moves_wf)
  moreover have "placed s' l w"
    using pl upsertBalance_frame [OF assms(1)] upsertCondition_frame [OF assms(2) [unfolded incrementAvailableCondition_def]]
    by (simp add: placed_def)
  ultimately show ?thesis by (blast intro: moves_stays)
qed

text \<open>Taking free stock from a location.\<close>

lemma takeFree_moves:
  assumes "takeFree l p q e s = Inr (u, s')" and wf: "stock_wf s" and pl: "placed s l w"
  shows "moves w p (displacement (-q) 0 (-q)) s s' \<and> balancesOf w p s' \<noteq> [] \<and> locations s' = locations s"
proof -
  from assms(1) obtain s1 where
    1: "updateBalances (\<lambda>b. bal_location b = l \<and> bal_product b = p \<and> q \<le> bal_quantity b \<and> q \<le> bal_available b)
       (\<lambda>b. b\<lparr>bal_quantity := bal_quantity b - q, bal_available := bal_available b - q\<rparr>) s = Inr (1, s1)"
    and 2: "decrementAvailableCondition l p q s1 = Inr (u, s')"
    unfolding takeFree_def by (auto simp: tx_Inr)
  have own: "bal_warehouse b = w \<and> bal_product b = p"
    if "b \<in> set (balances s)" "bal_location b = l \<and> bal_product b = p \<and> q \<le> bal_quantity b \<and> q \<le> bal_available b" for b
    using that balances_placed [OF wf that(1)] placed_unique [OF wf pl] by auto
  have "moves w p (displacement (-q) 0 (-q)) s s1"
    using 1 wf
  proof (rule moves_updateBalances)
    fix k b
    show "bal_level k (b\<lparr>bal_quantity := bal_quantity b - q, bal_available := bal_available b - q\<rparr>) =
          bal_level k b + displacement (-q) 0 (-q) k"
      by (cases k) simp_all
  qed (use own in \<open>simp_all add: same_key_def\<close>)
  with stays_decrementAvailable [OF 2] have "moves w p (displacement (-q) 0 (-q)) s s'"
    by (auto dest: moves_wf intro: moves_stays)
  moreover have "balancesOf w p s \<noteq> []"
  proof
    assume "balancesOf w p s = []"
    then have "count_where (\<lambda>b. bal_location b = l \<and> bal_product b = p \<and> q \<le> bal_quantity b \<and> q \<le> bal_available b) (balances s) = 0"
      using own by (auto simp: balancesOf_def count_where_def filter_empty_conv)
    with updateBalances_effect [OF 1] show False by simp
  qed
  then have "balancesOf w p s1 \<noteq> []"
    using updateBalances_effect [OF 1] by (simp add: balancesOf_def filter_update_many_empty)
  ultimately show ?thesis
    using updateBalances_effect [OF 1] decrementAvailable_frame [OF 2] by (simp add: balancesOf_def)
qed

text \<open>
  Lemmas \<open>deposit_moves\<close> to \<open>relocate_moves\<close>: one displacement for each exported operation.
\<close>

lemma deposit_moves:
  assumes "depositLocationStock w p q locationId s = Inr ((l, row), s')" and wf: "stock_wf s"
  shows "moves w p (displacement q 0 q) s s' \<and> 0 < q \<and> placed s' l w \<and> (\<forall>x. locationId = Some x \<longrightarrow> l = x)"
proof -
  from assms(1) obtain agg x s1 cs s2 y s3 s4 u where q: "0 < q"
    and 1: "prepareLocationInventory w p s = Inr ((agg, x), s1)"
    and 2: "prepareConditionInventory w p s1 = Inr (cs, s2)"
    and 3: "(case locationId of Some l \<Rightarrow> assertLocation w l | None \<Rightarrow> returnT x) s2 = Inr (y, s3)"
    and 4: "upsertBalance w (loc_id y) p q 0 q
              (\<lambda>b. b\<lparr>bal_quantity := bal_quantity b + q, bal_available := bal_available b + q\<rparr>) s3 = Inr (row, s4)"
    and 5: "incrementAvailableCondition w (loc_id y) p q s4 = Inr (u, s')" and l: "l = loc_id y"
    unfolding depositLocationStock_def by (auto simp: tx_Inr)
  note 1 = prepareLocation_stays [OF 1 wf]
  then have wf1: "stock_wf s1" by (auto dest: moves_wf)
  note 2 = prepareCondition_stays [OF 2 wf1]
  then have wf2: "stock_wf s2" by (auto dest: moves_wf)
  have y: "s3 = s2 \<and> placed s2 (loc_id y) w \<and> (\<forall>l. locationId = Some l \<longrightarrow> loc_id y = l)"
    using 3 1 2 by (auto simp: returnT_def split: option.splits dest: assertLocation_placed)
  have "moves w p (displacement q 0 q) s2 s' \<and> placed s' (loc_id y) w"
    using 4 5 wf2 y 2 by (intro addFree_moves) auto
  with 1 2 q l y show ?thesis by (blast intro: stays_moves)
qed

lemma consume_moves:
  assumes "consumeAvailableLocationStock w p q s = Inr (al, s')" and wf: "stock_wf s"
  shows "moves w p (displacement (-q) 0 (-q)) s s' \<and> 0 < q \<and> sum_list (map snd al) = q \<and> (\<forall>a \<in> set al. 0 < snd a)"
proof -
  from assms(1) obtain rows s1 rem where q: "0 < q" and 1: "orderedAvailableBalances w p s = Inr (rows, s1)"
    and 2: "foldT (consumeStep p) rows (q, []) s1 = Inr ((rem, al), s')" and rem: "rem \<le> 0"
    unfolding consumeAvailableLocationStock_def by (auto simp: tx_Inr)
  note 1 = orderedAvailable_rows [OF 1 wf]
  then have "moves w p (\<lambda>k. q * displacement (-1) 0 (-1) k) s1 s' \<and> sum_list (map snd al) = q \<and> (\<forall>a \<in> set al. 0 < snd a)"
    using q by (intro consume_loop.loop_exact [OF 2 _ _ _ rem]) (auto dest: moves_wf)
  moreover have "q * displacement (-1) 0 (-1) k = displacement (-q) 0 (-q) k" for k
    by (cases k) simp_all
  ultimately show ?thesis using 1 q by (auto intro: stays_moves)
qed

lemma reserve_moves:
  assumes "reserveLocationStock w p q st si s = Inr (al, s')" and wf: "stock_wf s"
    and new: "activeReservations st si p s = []"
  shows "moves w p (displacement 0 q (-q)) s s' \<and> 0 < q \<and> sum_list (map snd al) = q \<and> (\<forall>a \<in> set al. 0 < snd a)"
proof -
  from assms(1) new obtain rows s1 rem where q: "0 < q" and 1: "orderedAvailableBalances w p s = Inr (rows, s1)"
    and 2: "foldT (reserveStep w p st si) rows (q, []) s1 = Inr ((rem, al), s')" and rem: "rem \<le> 0"
    unfolding reserveLocationStock_def by (auto simp: tx_Inr)
  note 1 = orderedAvailable_rows [OF 1 wf]
  then have "moves w p (\<lambda>k. q * displacement 0 1 (-1) k) s1 s' \<and> sum_list (map snd al) = q \<and> (\<forall>a \<in> set al. 0 < snd a)"
    using q by (intro reserve_loop.loop_exact [OF 2 _ _ _ rem]) (auto dest: moves_wf)
  moreover have "q * displacement 0 1 (-1) k = displacement 0 q (-q) k" for k
    by (cases k) simp_all
  ultimately show ?thesis using 1 q by (auto intro: stays_moves)
qed

text \<open>A reservation that already exists is returned as it is, and nothing moves.\<close>

lemma reserve_replay:
  "reserveLocationStock w p q st si s = Inr (al, s') \<Longrightarrow> activeReservations st si p s \<noteq> [] \<Longrightarrow>
     s' = s \<and> sum_list (map snd al) = q"
  by (auto simp: reserveLocationStock_def tx_Inr comp_def)

lemma legacy_moves:
  assumes "mutateLegacyReservedStock w p q consume s = Inr (al, s')" and wf: "stock_wf s" and q: "0 \<le> q"
  shows "moves w p (\<lambda>k. q * legacy_unit consume k) s s' \<and> sum_list (map snd al) = q \<and> (\<forall>a \<in> set al. 0 < snd a)"
proof -
  let ?rows = "\<lambda>s. sort_key bal_updatedAt (sort_key bal_id (filter (\<lambda>b. 0 < bal_reserved b) (balancesOf w p s)))"
  from assms(1) obtain agg x s1 rem where 1: "prepareLocationInventory w p s = Inr ((agg, x), s1)"
    and 2: "foldT (legacyStep p consume) (?rows s1) (q, []) s1 = Inr ((rem, al), s')" and rem: "rem \<le> 0"
    unfolding mutateLegacyReservedStock_def by (auto simp: tx_Inr)
  note 1 = prepareLocation_stays [OF 1 wf]
  then have wf1: "stock_wf s1" by (auto dest: moves_wf)
  then have "\<forall>row \<in> set (?rows s1). reserved_row w p s1 row"
    by (auto simp: reserved_row_def balancesOf_def intro: snapshot_self)
  with 2 wf1 have "moves w p (\<lambda>k. q * legacy_unit consume k) s1 s' \<and> sum_list (map snd al) = q \<and> (\<forall>a \<in> set al. 0 < snd a)"
    using q rem by (rule legacy_loop.loop_exact)
  with 1 show ?thesis by (auto intro: stays_moves)
qed

text \<open>
  Settling the reservations of a source, row by row: releasing them or consuming them for
  fulfilment. The interface states what settling one reservation does.
\<close>

locale settlement_loop =
  fixes settle :: "reservation \<Rightarrow> (stock, unit) tx" and w p :: ident and unit :: "level \<Rightarrow> int"
  assumes settle_moves: "settle row s = Inr (u, s') \<Longrightarrow> stock_wf s \<Longrightarrow> placed s (res_location row) w \<Longrightarrow>
      res_product row = p \<Longrightarrow> moves w p (\<lambda>k. res_quantity row * unit k) s s' \<and> locations s' = locations s"
begin

lemma settle_all:
  assumes "forT settle rows s = Inr (u, s')" and "stock_wf s"
    and "\<forall>row \<in> set rows. placed s (res_location row) w \<and> res_product row = p"
  shows "moves w p (\<lambda>k. sum_list (map res_quantity rows) * unit k) s s'"
  using assms
proof (induction rows arbitrary: s)
  case Nil
  then show ?case by (auto simp: returnT_def stays_refl)
next
  case (Cons row rows)
  from Cons.prems(1) obtain v s1 where 1: "settle row s = Inr (v, s1)" and 2: "forT settle rows s1 = Inr (u, s')"
    by (auto simp: thenT_Inr)
  have m: "moves w p (\<lambda>k. res_quantity row * unit k) s s1" "locations s1 = locations s"
    using settle_moves [OF 1] Cons.prems by auto
  then have "moves w p (\<lambda>k. sum_list (map res_quantity rows) * unit k) s1 s'"
    using Cons.prems(3) by (intro Cons.IH [OF 2]) (auto simp: placed_def dest: moves_wf)
  with m(1) have "moves w p (\<lambda>k. res_quantity row * unit k + sum_list (map res_quantity rows) * unit k) s s'"
    by (rule moves_trans)
  then show ?case by (rule moves_cong) (simp add: algebra_simps)
qed

end

lemma own_by_location:
  "stock_wf s \<Longrightarrow> placed s l w \<Longrightarrow> b \<in> set (balances s) \<Longrightarrow> bal_location b = l \<Longrightarrow> bal_warehouse b = w"
  using placed_unique [of s l w "bal_warehouse b"] balances_placed [of s b] by auto

interpretation release_loop: settlement_loop releaseStep w p "displacement 0 (-1) 1" for w p
proof
  fix row s u s'
  assume "releaseStep row s = Inr (u, s')" and wf: "stock_wf s" and pl: "placed s (res_location row) w"
    and pr: "res_product row = p"
  then obtain s1 n where
    1: "updateBalances (\<lambda>b. bal_location b = res_location row \<and> bal_product b = res_product row \<and>
              res_quantity row \<le> bal_reserved b)
       (\<lambda>b. b\<lparr>bal_reserved := bal_reserved b - res_quantity row,
               bal_available := bal_available b + res_quantity row\<rparr>) s = Inr (1, s1)"
    and 2: "updateReservations (\<lambda>r. res_id r = res_id row) (\<lambda>r. r\<lparr>res_status := RELEASED\<rparr>) s1 = Inr (n, s')"
    unfolding releaseStep_def by (auto simp: tx_Inr)
  have "moves w p (\<lambda>k. res_quantity row * displacement 0 (-1) 1 k) s s1"
    using 1 wf
  proof (rule moves_updateBalances)
    fix k b
    show "bal_level k (b\<lparr>bal_reserved := bal_reserved b - res_quantity row,
               bal_available := bal_available b + res_quantity row\<rparr>) =
          bal_level k b + res_quantity row * displacement 0 (-1) 1 k"
      by (cases k) simp_all
  qed (use wf pl pr own_by_location in \<open>simp_all add: same_key_def\<close>)
  with stays_updateReservations [OF 2]
  have "moves w p (\<lambda>k. res_quantity row * displacement 0 (-1) 1 k) s s'"
    by (auto dest: moves_wf intro: moves_stays)
  moreover have "locations s' = locations s"
    using updateBalances_effect [OF 1] 2 by (auto simp: updateReservations_def stateT_def)
  ultimately show "moves w p (\<lambda>k. res_quantity row * displacement 0 (-1) 1 k) s s' \<and> locations s' = locations s"
    by simp
qed

interpretation fulfil_loop: settlement_loop consumeReservationStep w p "displacement (-1) (-1) 0" for w p
proof
  fix row s u s'
  assume "consumeReservationStep row s = Inr (u, s')" and wf: "stock_wf s" and pl: "placed s (res_location row) w"
    and pr: "res_product row = p"
  then obtain s1 s2 v n where
    1: "updateBalances (\<lambda>b. bal_location b = res_location row \<and> bal_product b = res_product row \<and>
              res_quantity row \<le> bal_quantity b \<and> res_quantity row \<le> bal_reserved b)
       (\<lambda>b. b\<lparr>bal_quantity := bal_quantity b - res_quantity row,
               bal_reserved := bal_reserved b - res_quantity row\<rparr>) s = Inr (1, s1)"
    and 2: "decrementAvailableCondition (res_location row) (res_product row) (res_quantity row) s1 = Inr (v, s2)"
    and 3: "updateReservations (\<lambda>r. res_id r = res_id row) (\<lambda>r. r\<lparr>res_status := CONSUMED\<rparr>) s2 = Inr (n, s')"
    unfolding consumeReservationStep_def by (auto simp: tx_Inr)
  have "moves w p (\<lambda>k. res_quantity row * displacement (-1) (-1) 0 k) s s1"
    using 1 wf
  proof (rule moves_updateBalances)
    fix k b
    show "bal_level k (b\<lparr>bal_quantity := bal_quantity b - res_quantity row,
               bal_reserved := bal_reserved b - res_quantity row\<rparr>) =
          bal_level k b + res_quantity row * displacement (-1) (-1) 0 k"
      by (cases k) simp_all
  qed (use wf pl pr own_by_location in \<open>simp_all add: same_key_def\<close>)
  moreover from this have s2: "stays w p s1 s2"
    using stays_decrementAvailable [OF 2] by (auto dest: moves_wf)
  ultimately have "moves w p (\<lambda>k. res_quantity row * displacement (-1) (-1) 0 k) s s2" by (rule moves_stays)
  moreover have "stays w p s2 s'" using stays_updateReservations [OF 3 moves_wf [OF s2]] by simp
  ultimately have "moves w p (\<lambda>k. res_quantity row * displacement (-1) (-1) 0 k) s s'" by (rule moves_stays)
  moreover have "locations s' = locations s"
    using updateBalances_effect [OF 1] decrementAvailable_frame [OF 2] 3
    by (auto simp: updateReservations_def stateT_def)
  ultimately show "moves w p (\<lambda>k. res_quantity row * displacement (-1) (-1) 0 k) s s' \<and> locations s' = locations s"
    by simp
qed

lemma active_placed:
  assumes "stock_wf s" and "\<forall>r \<in> set (activeReservations st si p s). res_warehouse r = w"
    and "row \<in> set (activeReservations st si p s)"
  shows "placed s (res_location row) w \<and> res_product row = p"
  using assms by (auto simp: stock_wf_def activeReservations_def)

text \<open>
  Releasing gives the reserved stock back as available, whether it is tracked by reservation rows or
  stems from before they were kept. The hypothesis on the warehouse is what the callers guarantee:
  a source document reserves in one warehouse.
\<close>

lemma release_moves:
  assumes "releaseLocationReservations st si w p q s = Inr (al, s')" and wf: "stock_wf s" and q: "0 \<le> q"
    and one: "\<forall>r \<in> set (activeReservations st si p s). res_warehouse r = w"
  shows "moves w p (displacement 0 (-q) q) s s' \<and> sum_list (map snd al) = q"
proof -
  have unit: "q * displacement 0 (-1) 1 k = displacement 0 (-q) q k" for k by (cases k) simp_all
  show ?thesis
  proof (cases "activeReservations st si p s = []")
    case True
    with assms(1) have "mutateLegacyReservedStock w p q False s = Inr (al, s')"
      by (simp add: releaseLocationReservations_def bindT_def getT_def)
    from legacy_moves [OF this wf q] show ?thesis by (simp add: unit)
  next
    case False
    with assms(1) obtain u where "forT releaseStep (activeReservations st si p s) s = Inr (u, s')"
      and "sum_list (map res_quantity (activeReservations st si p s)) = q"
      and "al = map (\<lambda>r. (res_location r, res_quantity r)) (activeReservations st si p s)"
      by (auto simp: releaseLocationReservations_def tx_Inr)
    with release_loop.settle_all [OF this(1) wf, of w p] active_placed [OF wf one] show ?thesis
      by (simp add: unit comp_def)
  qed
qed

lemma fulfil_moves:
  assumes "consumeLocationReservations st si w p q s = Inr (al, s')" and wf: "stock_wf s" and q: "0 \<le> q"
    and one: "\<forall>r \<in> set (activeReservations st si p s). res_warehouse r = w"
  shows "moves w p (displacement (-q) (-q) 0) s s' \<and> sum_list (map snd al) = q"
proof -
  have unit: "q * displacement (-1) (-1) 0 k = displacement (-q) (-q) 0 k" for k by (cases k) simp_all
  let ?rows = "\<lambda>s. sort_key res_createdAt (activeReservations st si p s)"
  from assms(1) obtain cs s1 where 1: "prepareConditionInventory w p s = Inr (cs, s1)"
    and 2: "(if ?rows s1 = [] then mutateLegacyReservedStock w p q True
        else bindT (requireT (sum_list (map res_quantity (?rows s1)) = q)
               (BadRequest ''Reservasi lokasi tidak lengkap untuk fulfillment'')) (\<lambda>_.
             bindT (forT consumeReservationStep (?rows s1)) (\<lambda>_.
             returnT (map (\<lambda>r. (res_location r, res_quantity r)) (?rows s1))))) s1 = Inr (al, s')"
    unfolding consumeLocationReservations_def by (auto simp: bindT_Inr getT_Inr)
  note 1 = prepareCondition_stays [OF 1 wf]
  then have wf1: "stock_wf s1" by (auto dest: moves_wf)
  from 1 one have one1: "\<forall>r \<in> set (activeReservations st si p s1). res_warehouse r = w"
    by (simp add: activeReservations_def)
  have "moves w p (displacement (-q) (-q) 0) s1 s' \<and> sum_list (map snd al) = q"
  proof (cases "?rows s1 = []")
    case True
    with 2 have "mutateLegacyReservedStock w p q True s1 = Inr (al, s')" by simp
    from legacy_moves [OF this wf1 q] show ?thesis by (simp add: unit)
  next
    case False
    with 2 obtain u where f: "forT consumeReservationStep (?rows s1) s1 = Inr (u, s')"
      and "sum_list (map res_quantity (?rows s1)) = q"
      and "al = map (\<lambda>r. (res_location r, res_quantity r)) (?rows s1)"
      by (auto simp: tx_Inr)
    with fulfil_loop.settle_all [OF f wf1, of w p] active_placed [OF wf1 one1] show ?thesis
      by (simp add: unit comp_def)
  qed
  with 1 show ?thesis by (auto intro: stays_moves)
qed

lemma adjust_moves:
  assumes "adjustLocationStock w p d locationId s = Inr (r, s')" and wf: "stock_wf s"
  shows "moves w p (displacement d 0 d) s s' \<and> (r = None \<longleftrightarrow> d = 0)"
proof (cases "d = 0")
  case True
  have "displacement 0 0 0 k = 0" for k by (cases k) simp_all
  then have "displacement 0 0 0 = (\<lambda>_. 0)" by (rule ext)
  with True assms show ?thesis by (simp add: adjustLocationStock_def returnT_def stays_refl)
next
  case False
  from assms(1) False obtain agg x s1 y s2 where 1: "prepareLocationInventory w p s = Inr ((agg, x), s1)"
    and 2: "(case locationId of Some l \<Rightarrow> assertLocation w l | None \<Rightarrow> returnT x) s1 = Inr (y, s2)"
    and 3: "(if 0 < d then bindT (depositLocationStock w p d (Some (loc_id y))) (\<lambda>(l, _). returnT (Some l))
        else bindT (takeFree (loc_id y) p \<bar>d\<bar>
            (BadRequest ''Stok bebas pada lokasi opname tidak mencukupi untuk adjustment negatif.'')) (\<lambda>_.
          returnT (Some (loc_id y)))) s2 = Inr (r, s')"
    by (auto simp: adjustLocationStock_def bindT_Inr)
  note 1 = prepareLocation_stays [OF 1 wf]
  then have wf1: "stock_wf s1" by (auto dest: moves_wf)
  have y: "s2 = s1 \<and> placed s1 (loc_id y) w"
    using 2 1 by (auto simp: returnT_def split: option.splits dest: assertLocation_placed)
  have "moves w p (displacement d 0 d) s1 s' \<and> r \<noteq> None"
  proof (cases "0 < d")
    case True
    with 3 y obtain l row where "depositLocationStock w p d (Some (loc_id y)) s1 = Inr ((l, row), s')" "r = Some l"
      by (auto simp: tx_Inr)
    with deposit_moves [OF this(1) wf1] show ?thesis by simp
  next
    case neg: False
    with 3 y obtain u where "takeFree (loc_id y) p (- d)
            (BadRequest ''Stok bebas pada lokasi opname tidak mencukupi untuk adjustment negatif.'') s1 = Inr (u, s')"
      and "r = Some (loc_id y)"
      using False by (auto simp: tx_Inr)
    with takeFree_moves [OF this(1) wf1, of w] y show ?thesis by simp
  qed
  with 1 False show ?thesis by (auto intro: stays_moves)
qed

lemma relocate_moves:
  assumes "relocateLocationStock w p source destination q s = Inr (u, s')" and wf: "stock_wf s"
  shows "stays w p s s' \<and> source \<noteq> destination \<and> 0 < q"
proof -
  from assms(1) obtain a s1 cs s2 x t2 y u2 s3 v s4 b where sd: "source \<noteq> destination" "0 < q"
    and 1: "prepareLocationInventory w p s = Inr (a, s1)" and 2: "prepareConditionInventory w p s1 = Inr (cs, s2)"
    and 3: "assertLocation w source s2 = Inr (x, t2)" and 4: "assertLocation w destination t2 = Inr (y, u2)"
    and 5: "takeFree source p q (BadRequest ''Stok bebas lokasi asal tidak mencukupi untuk relokasi.'') u2 = Inr (v, s3)"
    and 6: "upsertBalance w destination p q 0 q
              (\<lambda>b. b\<lparr>bal_quantity := bal_quantity b + q, bal_available := bal_available b + q\<rparr>) s3 = Inr (b, s4)"
    and 7: "incrementAvailableCondition w destination p q s4 = Inr (u, s')"
    unfolding relocateLocationStock_def by (auto simp: tx_Inr)
  have t: "t2 = s2" "u2 = s2" using assertLocation_placed [OF 3] assertLocation_placed [OF 4] by auto
  obtain agg z where "a = (agg, z)" by (cases a)
  note 1 = prepareLocation_stays [OF 1 [unfolded this] wf]
  then have wf1: "stock_wf s1" by (auto dest: moves_wf)
  note 2 = prepareCondition_stays [OF 2 wf1]
  then have wf2: "stock_wf s2" by (auto dest: moves_wf)
  note 5 = takeFree_moves [OF 5 [unfolded t] wf2, of w]
  have m: "moves w p (displacement (-q) 0 (-q)) s2 s3" using 5 assertLocation_placed [OF 3] by simp
  have "moves w p (displacement q 0 q) s3 s'"
    using 6 7 moves_wf [OF m] 5 assertLocation_placed [OF 3] assertLocation_placed [OF 4] t
    by (intro conjunct1 [OF addFree_moves]) (auto simp: placed_def)
  with m have "moves w p (\<lambda>k. displacement (-q) 0 (-q) k + displacement q 0 q k) s2 s'" by (rule moves_trans)
  then have "stays w p s2 s'"
  proof (rule moves_cong)
    show "displacement (-q) 0 (-q) k + displacement q 0 q k = 0" for k by (cases k) simp_all
  qed
  with 1 2 sd show ?thesis by (auto intro: moves_stays)
qed

end
