(* ===== verification/LocationProperties.thy ===== *)
theory LocationProperties
  imports LocationLedger
begin

text \<open>
  The properties of the location ledger (\<open>apps/api/src/common/location-inventory.ts\<close>): every
  operation refines one displacement of the abstract ledger, allocations add up to the quantity asked
  for, and relocation conserves the stock. The witnesses run the operations on a small warehouse.
\<close>

section \<open>A small warehouse\<close>

definition exLocation :: "ident \<Rightarrow> string \<Rightarrow> bool \<Rightarrow> location" where
  "exLocation i c d = \<lparr>loc_id = i, loc_warehouse = 1, loc_code = c, loc_type = ''BIN'', loc_isDefault = d, loc_isActive = True\<rparr>"

definition exBalance :: "ident \<Rightarrow> ident \<Rightarrow> int \<Rightarrow> int \<Rightarrow> int \<Rightarrow> balance" where
  "exBalance i l q r t = \<lparr>bal_id = i, bal_warehouse = 1, bal_location = l, bal_product = 5,
     bal_quantity = q, bal_reserved = r, bal_available = q - r, bal_updatedAt = t\<rparr>"

definition exCondition :: "ident \<Rightarrow> ident \<Rightarrow> int \<Rightarrow> cbalance" where
  "exCondition i l q = \<lparr>cb_id = i, cb_warehouse = 1, cb_location = l, cb_product = 5, cb_condition = AVAILABLE, cb_quantity = q\<rparr>"

definition exReservation :: reservation where
  "exReservation = \<lparr>res_id = 50, res_warehouse = 1, res_location = 11, res_product = 5, res_sourceType = ''Order'',
     res_sourceId = 7, res_quantity = 2, res_status = ACTIVE, res_createdAt = 3\<rparr>"

definition exStock :: stock where
  "exStock = \<lparr>locations = [exLocation 10 ''A'' True, exLocation 11 ''B'' False],
     inventories = [\<lparr>inv_id = 20, inv_warehouse = 1, inv_product = 5, inv_quantity = 8, inv_reserved = 2, inv_available = 6\<rparr>],
     balances = [exBalance 30 10 5 0 4, exBalance 31 11 3 2 2],
     conditions = [exCondition 40 10 5, exCondition 41 11 3],
     reservations = [exReservation], now = 9, next_id = 100\<rparr>"

text \<open>The same warehouse before the location ledger was introduced: the aggregate row only.\<close>

definition exLegacyStock :: stock where
  "exLegacyStock = exStock\<lparr>balances := [], conditions := [], reservations := []\<rparr>"

lemmas ex_defs = exStock_def exLegacyStock_def exLocation_def exBalance_def exCondition_def exReservation_def

lemma exStock_wf: "stock_wf exStock"
  by (simp add: ex_defs stock_wf_def placed_def)

lemma exLegacyStock_wf: "stock_wf exLegacyStock"
  by (simp add: ex_defs stock_wf_def placed_def)

lemmas ledger_run = prepareLocationInventory_def prepareConditionInventory_def defaultLocation_def assertLocation_def
  checkClassified_def balancesOf_def conditionsOf_def findInventory_def find_first_def find_by_def bindT_def tx_defs
  upsertBalance_def updateBalances_def updateConditions_def updateReservations_def upsertCondition_def createCondition_def
  createReservation_def incrementAvailableCondition_def decrementAvailableCondition_def freshT_def
  orderedAvailableBalances_def activeReservations_def update_many_def count_where_def sum_where_def thenT_def Let_def

text \<open>The legacy warehouse holds three reserved pieces no reservation row accounts for.\<close>

lemma run_deposit: "\<exists>row s'. depositLocationStock 1 5 4 None exLegacyStock = Inr ((10, row), s')"
  by (simp add: ex_defs ledger_run depositLocationStock_def)

lemma run_consume: "\<exists>s'. consumeAvailableLocationStock 1 5 6 exStock = Inr ([(10, 5), (11, 1)], s')"
  by (simp add: ex_defs ledger_run consumeAvailableLocationStock_def consumeStep_def)

lemma run_reserve: "\<exists>s'. reserveLocationStock 1 5 6 ''Order'' 8 exStock = Inr ([(10, 5), (11, 1)], s')"
  by (simp add: ex_defs ledger_run reserveLocationStock_def reserveStep_def)

lemma run_release: "\<exists>s'. releaseLocationReservations ''Order'' 7 1 5 2 exStock = Inr ([(11, 2)], s')"
  by (simp add: ex_defs ledger_run releaseLocationReservations_def releaseStep_def)

lemma run_fulfil: "\<exists>s'. consumeLocationReservations ''Order'' 7 1 5 2 exStock = Inr ([(11, 2)], s')"
  by (simp add: ex_defs ledger_run consumeLocationReservations_def consumeReservationStep_def)

lemma run_fulfil_legacy: "\<exists>s'. consumeLocationReservations ''Order'' 7 1 5 2 exLegacyStock = Inr ([(10, 2)], s')"
  by (simp add: ex_defs ledger_run consumeLocationReservations_def mutateLegacyReservedStock_def legacyStep_def
      trackedReserved_def)

lemma run_relocate: "\<exists>s'. relocateLocationStock 1 5 10 11 3 exStock = Inr ((), s')"
  by (simp add: ex_defs ledger_run relocateLocationStock_def takeFree_def)

lemma run_adjust: "\<exists>s'. adjustLocationStock 1 5 (-1) (Some 10) exStock = Inr (Some 10, s')"
  by (simp add: ex_defs ledger_run adjustLocationStock_def takeFree_def)

section \<open>Properties\<close>

text \<open>
  C19. Consuming free stock takes exactly the quantity asked for: when the stock-out commits,
  the ledger of the product loses that quantity in both its quantity and its available level, its
  reserved level and every other product or warehouse keep theirs, and the returned allocations are
  positive and add up to the quantity.
\<close>

theorem consume_refines_ledger:
  assumes "stock_wf s" and "consumeAvailableLocationStock w p q s = Inr (al, s')"
  shows "moves w p (displacement (-q) 0 (-q)) s s' \<and> sum_list (map snd al) = q \<and> (\<forall>a \<in> set al. 0 < snd a)"
  using consume_moves [OF assms(2,1)] by simp

theorem consume_refines_ledger_witness:
  "\<exists>s'. consumeAvailableLocationStock 1 5 6 exStock = Inr ([(10, 5), (11, 1)], s') \<and>
        moves 1 5 (displacement (-6) 0 (-6)) exStock s'"
  using run_consume consume_refines_ledger [OF exStock_wf, of 1 5 6] by blast

text \<open>
  C21. Reserving stock for a source that holds no active reservation moves exactly the
  quantity from available to reserved, whatever the number of locations it is spread over, and the
  allocations are positive and add up to the quantity.
\<close>

theorem reserve_refines_ledger:
  assumes "stock_wf s" and "activeReservations st si p s = []"
    and "reserveLocationStock w p q st si s = Inr (al, s')"
  shows "moves w p (displacement 0 q (-q)) s s' \<and> sum_list (map snd al) = q \<and> (\<forall>a \<in> set al. 0 < snd a)"
  using reserve_moves [OF assms(3,1,2)] by simp

theorem reserve_refines_ledger_witness:
  "\<exists>s'. reserveLocationStock 1 5 6 ''Order'' 8 exStock = Inr ([(10, 5), (11, 1)], s') \<and>
        moves 1 5 (displacement 0 6 (-6)) exStock s'"
proof -
  have none: "activeReservations ''Order'' 8 5 exStock = []"
    by (simp add: activeReservations_def ex_defs)
  show ?thesis using run_reserve reserve_refines_ledger [OF exStock_wf none, of 1 6] by blast
qed

text \<open>
  Releasing the reservations of a source returns exactly the quantity from reserved to
  available, also for stock reserved before reservation rows existed; the quantity in the warehouse
  does not change.
\<close>

theorem release_refines_ledger:
  assumes "stock_wf s" and "0 \<le> q"
    and "\<forall>r \<in> set (activeReservations st si p s). res_warehouse r = w"
    and "releaseLocationReservations st si w p q s = Inr (al, s')"
  shows "moves w p (displacement 0 (-q) q) s s' \<and> sum_list (map snd al) = q"
  using release_moves [OF assms(4,1,2,3)] .

theorem release_refines_ledger_witness:
  "\<exists>s'. releaseLocationReservations ''Order'' 7 1 5 2 exStock = Inr ([(11, 2)], s') \<and>
        moves 1 5 (displacement 0 (-2) 2) exStock s'"
proof -
  have one: "\<forall>r \<in> set (activeReservations ''Order'' 7 5 exStock). res_warehouse r = 1"
    by (simp add: activeReservations_def ex_defs)
  have two: "(0::int) \<le> 2" by simp
  show ?thesis using run_release release_refines_ledger [OF exStock_wf two one] by blast
qed

text \<open>
  Consuming the reservations of a source for fulfilment takes exactly the quantity out
  of quantity and reserved and leaves the available level alone, with or without reservation rows.
\<close>

theorem fulfil_refines_ledger:
  assumes "stock_wf s" and "0 \<le> q"
    and "\<forall>r \<in> set (activeReservations st si p s). res_warehouse r = w"
    and "consumeLocationReservations st si w p q s = Inr (al, s')"
  shows "moves w p (displacement (-q) (-q) 0) s s' \<and> sum_list (map snd al) = q"
  using fulfil_moves [OF assms(4,1,2,3)] .

theorem fulfil_refines_ledger_witness:
  "\<exists>s'. consumeLocationReservations ''Order'' 7 1 5 2 exLegacyStock = Inr ([(10, 2)], s') \<and>
        moves 1 5 (displacement (-2) (-2) 0) exLegacyStock s'"
proof -
  have one: "\<forall>r \<in> set (activeReservations ''Order'' 7 5 exLegacyStock). res_warehouse r = 1"
    by (simp add: activeReservations_def ex_defs)
  have two: "(0::int) \<le> 2" by simp
  show ?thesis using run_fulfil_legacy fulfil_refines_ledger [OF exLegacyStock_wf two one] by blast
qed

text \<open>
  Relocating stock between two locations of a warehouse leaves the ledger of every
  product in every warehouse where it was, and only distinct locations and positive quantities commit.
\<close>

theorem relocate_conserves_ledger:
  assumes "stock_wf s" and "relocateLocationStock w p source destination q s = Inr (u, s')"
  shows "(\<forall>k w' p'. ledger k w' p' s' = ledger k w' p' s) \<and> source \<noteq> destination \<and> 0 < q \<and> stock_wf s'"
proof -
  have m: "stays w p s s'" and rest: "source \<noteq> destination" "0 < q"
    using relocate_moves [OF assms(2,1)] by auto
  have "ledger k w' p' s' = ledger k w' p' s" for k w' p'
    using m by (cases "(w', p') = (w, p)") (auto simp: moves_def)
  with m rest show ?thesis by (simp add: moves_def)
qed

theorem relocate_conserves_ledger_witness:
  "\<exists>s'. relocateLocationStock 1 5 10 11 3 exStock = Inr ((), s') \<and> ledger Available 1 5 s' = ledger Available 1 5 exStock"
  using run_relocate relocate_conserves_ledger [OF exStock_wf, of 1 5 10 11 3] by blast

text \<open>
  A stock-count adjustment at a location displaces quantity and available by exactly the
  signed difference, and is a no-op precisely for a zero difference.
\<close>

theorem adjust_refines_ledger:
  assumes "stock_wf s" and "adjustLocationStock w p d l s = Inr (r, s')"
  shows "moves w p (displacement d 0 d) s s' \<and> (r = None \<longleftrightarrow> d = 0)"
  using adjust_moves [OF assms(2,1)] .

theorem adjust_refines_ledger_witness:
  "\<exists>s'. adjustLocationStock 1 5 (-1) (Some 10) exStock = Inr (Some 10, s') \<and>
        moves 1 5 (displacement (-1) 0 (-1)) exStock s'"
  using run_adjust adjust_refines_ledger [OF exStock_wf, of 1 5 "-1"] by blast

text \<open>
  A negative adjustment of stock whose conditions were never classified is
  refused although the location holds enough free stock: of the ledger's operations only this path
  skips the classification of the product's conditions, so the guard on the AVAILABLE row cannot match.
  A positive adjustment of the same stock goes through.
\<close>

theorem adjust_unclassified_refused:
  "adjustLocationStock 1 5 (-1) (Some 10) exLegacyStock =
     Inl (BadRequest ''Saldo kondisi AVAILABLE tidak mencukupi atau tidak sinkron.'') \<and>
   ledger Available 1 5 exLegacyStock = 6 \<and>
   (\<exists>s'. adjustLocationStock 1 5 1 (Some 10) exLegacyStock = Inr (Some 10, s'))"
proof (intro conjI)
  show "adjustLocationStock 1 5 (-1) (Some 10) exLegacyStock =
     Inl (BadRequest ''Saldo kondisi AVAILABLE tidak mencukupi atau tidak sinkron.'')"
    by (simp add: ex_defs ledger_run adjustLocationStock_def takeFree_def)
  show "ledger Available 1 5 exLegacyStock = 6"
    by (simp add: ex_defs ledger_run ledger_def aggregate_def)
  show "\<exists>s'. adjustLocationStock 1 5 1 (Some 10) exLegacyStock = Inr (Some 10, s')"
    by (simp add: ex_defs ledger_run adjustLocationStock_def depositLocationStock_def)
qed

end
