(* ===== verification/JsNumber.thy ===== *)
theory JsNumber
  imports Prelude "HOL-Library.Log_Nat"
begin

text \<open>
  The numbers of the language: IEEE 754 double precision. A value is a finite double, given by the
  rational it denotes, an infinity or NaN; the two zeros are one value (no modelled code tells them
  apart). An operation computes the exact rational and rounds it to the nearest double, ties to even,
  with gradual underflow and overflow to an infinity.
\<close>

section \<open>Rounding to a double\<close>

datatype js_number = NaN | PosInf | NegInf | Fin rat

definition pow2 :: "int \<Rightarrow> rat" where
  "pow2 e = (if 0 \<le> e then of_int (2 ^ nat e) else 1 / of_int (2 ^ nat (- e)))"

text \<open>The exponent \<open>k\<close> with \<open>2^k \<le> x < 2^(k+1)\<close> of a positive rational.\<close>

definition binaryExponent :: "rat \<Rightarrow> int" where
  "binaryExponent x = (case quotient_of x of (p, q) \<Rightarrow>
     let k = bitlen p - bitlen q in if pow2 k \<le> x then k else k - 1)"

definition roundHalfEven :: "rat \<Rightarrow> int" where
  "roundHalfEven x = (let n = \<lfloor>x\<rfloor>; d = x - of_int n in
     if d < 1 / 2 then n else if 1 / 2 < d then n + 1 else if even n then n else n + 1)"

definition roundPositive :: "rat \<Rightarrow> rat" where
  "roundPositive x = (let e = max (binaryExponent x - 52) (- 1074) in of_int (roundHalfEven (x / pow2 e)) * pow2 e)"

definition double :: "rat \<Rightarrow> js_number" where
  "double x = (if x = 0 then Fin 0
     else let y = roundPositive \<bar>x\<bar> in
       if pow2 1024 \<le> y then (if x < 0 then NegInf else PosInf) else Fin (if x < 0 then - y else y))"

section \<open>Arithmetic\<close>

fun signOf :: "js_number \<Rightarrow> int" where
  "signOf (Fin x) = (if x < 0 then - 1 else if x = 0 then 0 else 1)"
| "signOf PosInf = 1"
| "signOf NegInf = - 1"
| "signOf NaN = 0"

definition infinite_sign :: "int \<Rightarrow> js_number" where
  "infinite_sign s = (if s = 0 then NaN else if s < 0 then NegInf else PosInf)"

fun jneg :: "js_number \<Rightarrow> js_number" where
  "jneg (Fin x) = Fin (- x)"
| "jneg PosInf = NegInf"
| "jneg NegInf = PosInf"
| "jneg NaN = NaN"

fun jadd :: "js_number \<Rightarrow> js_number \<Rightarrow> js_number" where
  "jadd (Fin x) (Fin y) = double (x + y)"
| "jadd NaN _ = NaN"
| "jadd _ NaN = NaN"
| "jadd PosInf NegInf = NaN"
| "jadd NegInf PosInf = NaN"
| "jadd PosInf _ = PosInf"
| "jadd NegInf _ = NegInf"
| "jadd (Fin _) y = y"

definition jsub :: "js_number \<Rightarrow> js_number \<Rightarrow> js_number" where
  "jsub x y = jadd x (jneg y)"

fun jmul :: "js_number \<Rightarrow> js_number \<Rightarrow> js_number" where
  "jmul (Fin x) (Fin y) = double (x * y)"
| "jmul NaN _ = NaN"
| "jmul _ NaN = NaN"
| "jmul x y = infinite_sign (signOf x * signOf y)"

fun jdiv :: "js_number \<Rightarrow> js_number \<Rightarrow> js_number" where
  "jdiv (Fin x) (Fin y) = (if y = 0 then infinite_sign (signOf (Fin x)) else double (x / y))"
| "jdiv NaN _ = NaN"
| "jdiv _ NaN = NaN"
| "jdiv (Fin _) _ = Fin 0"
| "jdiv x (Fin y) = infinite_sign (signOf x * (if y < 0 then - 1 else 1))"
| "jdiv _ _ = NaN"

fun jabs :: "js_number \<Rightarrow> js_number" where
  "jabs (Fin x) = Fin \<bar>x\<bar>"
| "jabs NaN = NaN"
| "jabs _ = PosInf"

fun jless :: "js_number \<Rightarrow> js_number \<Rightarrow> bool" where
  "jless (Fin x) (Fin y) = (x < y)"
| "jless NaN _ = False"
| "jless _ NaN = False"
| "jless NegInf y = (y \<noteq> NegInf)"
| "jless _ PosInf = True"
| "jless PosInf _ = False"
| "jless (Fin _) NegInf = False"

fun mapFin :: "(rat \<Rightarrow> rat) \<Rightarrow> js_number \<Rightarrow> js_number" where
  "mapFin f (Fin x) = Fin (f x)"
| "mapFin f n = n"

text \<open>\<open>Math.round\<close> takes ties upwards; it, \<open>Math.floor\<close> and \<open>Math.ceil\<close> are exact on doubles.\<close>

definition mathRound :: "js_number \<Rightarrow> js_number" where
  "mathRound = mapFin (\<lambda>x. of_int \<lfloor>x + 1 / 2\<rfloor>)"

definition mathFloor :: "js_number \<Rightarrow> js_number" where
  "mathFloor = mapFin (\<lambda>x. of_int \<lfloor>x\<rfloor>)"

definition mathCeil :: "js_number \<Rightarrow> js_number" where
  "mathCeil = mapFin (\<lambda>x. of_int \<lceil>x\<rceil>)"

definition mathMax :: "js_number \<Rightarrow> js_number \<Rightarrow> js_number" where
  "mathMax x y = (if x = NaN \<or> y = NaN then NaN else if jless x y then y else x)"

definition mathMin :: "js_number \<Rightarrow> js_number \<Rightarrow> js_number" where
  "mathMin x y = (if x = NaN \<or> y = NaN then NaN else if jless y x then y else x)"

fun isFinite :: "js_number \<Rightarrow> bool" where
  "isFinite (Fin _) = True"
| "isFinite _ = False"

lemma isFinite_iff: "isFinite n \<longleftrightarrow> (\<exists>x. n = Fin x)"
  by (cases n) simp_all

text \<open>\<open>Number.EPSILON\<close>, and the two-decimal rounding several services use.\<close>

definition jsEpsilon :: rat where
  "jsEpsilon = pow2 (- 52)"

definition money :: "js_number \<Rightarrow> js_number" where
  "money value = jdiv (mathRound (jmul (jadd value (Fin jsEpsilon)) (Fin 100))) (Fin 100)"

section \<open>Facts on rounding\<close>

lemma pow2_pos [simp]: "0 < pow2 e"
  by (simp add: pow2_def)

lemma roundHalfEven_int [simp]: "roundHalfEven (of_int n) = n"
  by (simp add: roundHalfEven_def)

lemma roundHalfEven_nonneg: "0 \<le> x \<Longrightarrow> 0 \<le> roundHalfEven x"
  by (auto simp: roundHalfEven_def Let_def)

lemma roundHalfEven_near: "\<bar>of_int (roundHalfEven x) - x\<bar> \<le> 1 / 2"
proof -
  have "of_int \<lfloor>x\<rfloor> \<le> x" "x < of_int \<lfloor>x\<rfloor> + 1" by linarith+
  moreover define n where "n = \<lfloor>x\<rfloor>"
  ultimately have "of_int n \<le> x" "x < of_int n + 1" by simp_all
  then show ?thesis unfolding roundHalfEven_def Let_def n_def [symmetric] by (auto simp: abs_le_iff)
qed

lemma roundPositive_nonneg: "0 \<le> x \<Longrightarrow> 0 \<le> roundPositive x"
  by (simp add: roundPositive_def Let_def roundHalfEven_nonneg less_imp_le [OF pow2_pos])

definition jnonneg :: "js_number \<Rightarrow> bool" where
  "jnonneg n \<longleftrightarrow> (case n of Fin x \<Rightarrow> 0 \<le> x | PosInf \<Rightarrow> True | _ \<Rightarrow> False)"

lemma double_nonneg: "0 \<le> x \<Longrightarrow> jnonneg (double x)"
  by (auto simp: double_def jnonneg_def Let_def roundPositive_nonneg)

text \<open>Integers up to 2^53 are doubles, so integer arithmetic within that range is exact.\<close>

lemma pow2_nonpos_int: "e \<le> 0 \<Longrightarrow> x / pow2 e = x * of_int (2 ^ nat (- e))"
  by (cases "e = 0") (simp_all add: pow2_def)

lemma roundPositive_int:
  assumes "0 < n" and "n < 2 ^ 53"
  shows "roundPositive (of_int n) = of_int n"
proof -
  have "bitlen n \<le> 53" using assms by (simp add: bitlen_le_iff_power)
  moreover have "quotient_of (of_int n) = (n, 1)" by (simp add: quotient_of_int of_int_rat [symmetric])
  moreover have bitlen_1: "bitlen 1 = 1" by (simp add: bitlen_def floorlog_def)
  ultimately have "binaryExponent (of_int n) \<le> 52"
    by (simp add: binaryExponent_def Let_def bitlen_1)
  then have e: "max (binaryExponent (of_int n) - 52) (- 1074) \<le> 0" (is "?e \<le> 0") by simp
  have "of_int n / pow2 ?e = (of_int (n * 2 ^ nat (- ?e)) :: rat)"
    using pow2_nonpos_int [OF e, of "of_int n"] by simp
  then have "roundHalfEven (of_int n / pow2 ?e) = n * 2 ^ nat (- ?e)"
    by (simp only: roundHalfEven_int)
  moreover have "(of_int (n * 2 ^ nat (- ?e)) :: rat) * pow2 ?e = of_int n"
    using e by (cases "?e = 0") (simp_all add: pow2_def)
  ultimately show ?thesis by (simp add: roundPositive_def Let_def)
qed

lemma double_int:
  assumes "\<bar>n\<bar> < 2 ^ 53"
  shows "double (of_int n) = Fin (of_int n)"
proof (cases "n = 0")
  case True
  then show ?thesis by (simp add: double_def)
next
  case False
  then have "roundPositive (of_int \<bar>n\<bar>) = of_int \<bar>n\<bar>" using assms by (intro roundPositive_int) auto
  moreover have "(of_int \<bar>n\<bar> :: rat) < pow2 1024"
  proof -
    have "\<bar>n\<bar> < 2 ^ 1024" using assms by (rule order.strict_trans) simp
    then show ?thesis by (simp add: pow2_def del: of_int_abs)
  qed
  ultimately show ?thesis using False
    by (auto simp: double_def Let_def simp flip: of_int_abs)
qed

text \<open>A difference of at least one stays a difference after rounding.\<close>

lemma pow2_powi: "pow2 e = 2 powi e"
  by (simp add: pow2_def power_int_def inverse_eq_divide power_one_over)

lemma roundHalfEven_pos: "1 \<le> x \<Longrightarrow> 1 \<le> roundHalfEven x"
  by (auto simp: roundHalfEven_def Let_def)

lemma binaryExponent_upper:
  assumes "0 < x"
  shows "pow2 (binaryExponent x) \<le> 2 * x"
proof -
  obtain p q where pq: "quotient_of x = (p, q)" by force
  have q: "0 < q" using quotient_of_denom_pos [OF pq] .
  have x: "x = of_int p / of_int q" using quotient_of_div [OF pq] .
  then have p: "0 < p" using assms q by (simp add: zero_less_divide_iff)
  let ?k = "bitlen p - bitlen q"
  have "(2 powi (bitlen p - 1) :: rat) \<le> of_int p"
  proof -
    have "1 \<le> bitlen p" using p bitlen_nonneg [of p] bitlen_eq_zero_iff [of p] by linarith
    moreover have "(of_int (2 ^ nat (bitlen p - 1)) :: rat) \<le> of_int p"
      using bitlen_bounds [OF p] by (simp only: of_int_le_iff)
    ultimately show ?thesis by (simp add: power_int_def)
  qed
  moreover have "of_int q \<le> (2 powi (bitlen q) :: rat)"
  proof -
    have "(of_int q :: rat) \<le> of_int (2 ^ nat (bitlen q))"
      using bitlen_bounds [OF q] by (simp only: of_int_le_iff less_imp_le)
    then show ?thesis using bitlen_nonneg [of q] by (simp add: power_int_def)
  qed
  ultimately have "2 powi (bitlen p - 1) / 2 powi (bitlen q) \<le> x"
    unfolding x using p q by (intro frac_le) simp_all
  moreover have "(2 powi ?k :: rat) = 2 * (2 powi (bitlen p - 1) / 2 powi (bitlen q))"
    by (simp add: power_int_diff)
  ultimately have k: "pow2 ?k \<le> 2 * x" by (simp add: pow2_powi)
  have "pow2 (?k - 1) \<le> pow2 ?k" unfolding pow2_powi by (intro power_int_increasing) simp_all
  then show ?thesis using k by (simp add: binaryExponent_def pq Let_def)
qed

lemma roundPositive_pos:
  assumes "1 \<le> x"
  shows "0 < roundPositive x"
proof -
  let ?k = "binaryExponent x"
  have "pow2 (max (?k - 52) (- 1074)) \<le> x"
  proof (cases "?k - 52 \<le> - 1074")
    case True
    have "pow2 (- 1074) \<le> 1" by (simp add: pow2_def)
    with True assms show ?thesis by (simp add: max_def)
  next
    case False
    have "pow2 (?k - 52) = pow2 ?k / 2 ^ 52" by (simp add: pow2_powi power_int_diff)
    also have "\<dots> \<le> x" using binaryExponent_upper [of x] assms by simp
    finally show ?thesis using False by (simp add: max_def)
  qed
  then have "1 \<le> x / pow2 (max (?k - 52) (- 1074))" by (simp add: pos_le_divide_eq)
  from roundHalfEven_pos [OF this] show ?thesis by (simp add: roundPositive_def Let_def)
qed

lemma double_sign: "1 \<le> \<bar>x\<bar> \<Longrightarrow> double x \<noteq> NaN \<and> double x \<noteq> Fin 0 \<and> (jless (double x) (Fin 0) \<longleftrightarrow> x < 0)"
  using roundPositive_pos [of "\<bar>x\<bar>"] by (auto simp: double_def Let_def)

end
