(* ===== verification/JsText.thy ===== *)
theory JsText
  imports Prelude
begin

text \<open>
  The text and calendar functions of the language the services use: decimal rendering of integers,
  \<open>padStart\<close>, \<open>trim\<close>, \<open>toUpperCase\<close> (on ASCII text), and the UTC year, month and day of an instant.
  An instant (\<open>Date\<close>) is its number of milliseconds since the epoch. Field extraction uses the proleptic
  Gregorian calendar over 400-year eras, as \<open>getUTCFullYear\<close> and its kin are specified.
\<close>

section \<open>Decimal text\<close>

definition digitChar :: "nat \<Rightarrow> char" where
  "digitChar d = char_of (48 + d)"

fun natText :: "nat \<Rightarrow> string" where
  "natText n = (if n < 10 then [digitChar n] else natText (n div 10) @ [digitChar (n mod 10)])"

declare natText.simps [simp del]

definition intText :: "int \<Rightarrow> string" where
  "intText n = (if n < 0 then ''-'' @ natText (nat (- n)) else natText (nat n))"

lemma digitChars:
  "digitChar 0 = CHR ''0''" "digitChar 1 = CHR ''1''" "digitChar (Suc 0) = CHR ''1''" "digitChar 2 = CHR ''2''"
  "digitChar 3 = CHR ''3''" "digitChar 4 = CHR ''4''" "digitChar 5 = CHR ''5''" "digitChar 6 = CHR ''6''"
  "digitChar 7 = CHR ''7''" "digitChar 8 = CHR ''8''" "digitChar 9 = CHR ''9''"
  by code_simp+

definition digitValue :: "char \<Rightarrow> nat" where
  "digitValue c = of_char c - 48"

definition decimalValue :: "string \<Rightarrow> nat" where
  "decimalValue s = foldl (\<lambda>v c. 10 * v + digitValue c) 0 s"

definition isDigit :: "char \<Rightarrow> bool" where
  "isDigit c \<longleftrightarrow> 48 \<le> (of_char c :: nat) \<and> (of_char c :: nat) \<le> 57"

lemma digitChar_code: "d < 10 \<Longrightarrow> of_char (digitChar d) = 48 + d"
  by (simp add: digitChar_def)

lemma digitChar_digit: "d < 10 \<Longrightarrow> isDigit (digitChar d) \<and> digitValue (digitChar d) = d"
  by (simp add: isDigit_def digitValue_def digitChar_code)

lemma isDigit_not_dash: "isDigit c \<Longrightarrow> c \<noteq> CHR ''-''"
  by (auto simp: isDigit_def)

lemma natText_digits: "\<forall>c \<in> set (natText n). isDigit c"
proof (induction n rule: natText.induct)
  case (1 n)
  then show ?case
    by (cases "n < 10") (auto simp: natText.simps [of n] digitChar_digit)
qed

lemma decimalValue_snoc: "decimalValue (s @ [c]) = 10 * decimalValue s + digitValue c"
  by (simp add: decimalValue_def)

text \<open>Reading the decimal text back gives the number.\<close>

lemma decimalValue_natText: "decimalValue (natText n) = n"
proof (induction n rule: natText.induct)
  case (1 n)
  show ?case
  proof (cases "n < 10")
    case True
    then show ?thesis by (simp add: natText.simps [of n] decimalValue_def digitChar_digit)
  next
    case False
    with 1 show ?thesis by (simp add: natText.simps [of n] decimalValue_snoc digitChar_digit)
  qed
qed

definition padStart :: "nat \<Rightarrow> char \<Rightarrow> string \<Rightarrow> string" where
  "padStart n c s = replicate (n - length s) c @ s"

lemma decimalValue_zeros: "decimalValue (replicate k CHR ''0'' @ s) = decimalValue s"
  by (induction k) (simp_all add: decimalValue_def digitValue_def)

lemma decimalValue_padStart: "decimalValue (padStart k CHR ''0'' s) = decimalValue s"
  by (simp add: padStart_def decimalValue_zeros)

lemma padStart_digits: "\<forall>c \<in> set s. isDigit c \<Longrightarrow> \<forall>c \<in> set (padStart k CHR ''0'' s). isDigit c"
  by (auto simp: padStart_def isDigit_def)

text \<open>Text without a dash after the last dash of a string determines both parts.\<close>

lemma split_last_dash:
  assumes "a @ ''-'' @ x = b @ ''-'' @ y" and "CHR ''-'' \<notin> set x" and "CHR ''-'' \<notin> set y"
  shows "a = b \<and> x = y"
proof -
  have "x = y"
    using assms
  proof (induction x arbitrary: y rule: rev_induct)
    case Nil
    then show ?case by (cases y rule: rev_cases) auto
  next
    case (snoc c x)
    then show ?case by (cases y rule: rev_cases) auto
  qed
  with assms(1) show ?thesis by simp
qed

section \<open>Trimming and case\<close>

definition isSpace :: "char \<Rightarrow> bool" where
  "isSpace c \<longleftrightarrow> (of_char c :: nat) \<in> {9, 10, 11, 12, 13, 32, 160}"

definition trim :: "string \<Rightarrow> string" where
  "trim s = rev (dropWhile isSpace (rev (dropWhile isSpace s)))"

definition upperChar :: "char \<Rightarrow> char" where
  "upperChar c = (if 97 \<le> (of_char c :: nat) \<and> (of_char c :: nat) \<le> 122 then char_of ((of_char c :: nat) - 32) else c)"

definition toUpperCase :: "string \<Rightarrow> string" where
  "toUpperCase = map upperChar"

definition lowerChar :: "char \<Rightarrow> char" where
  "lowerChar c = (if 65 \<le> (of_char c :: nat) \<and> (of_char c :: nat) \<le> 90 then char_of ((of_char c :: nat) + 32) else c)"

definition toLowerCase :: "string \<Rightarrow> string" where
  "toLowerCase = map lowerChar"

text \<open>Identifiers rendered into keys and messages.\<close>

definition identText :: "ident \<Rightarrow> string" where
  "identText i = natText i"

lemma identText_inject [simp]: "identText i = identText j \<longleftrightarrow> i = j"
  by (metis decimalValue_natText identText_def)

section \<open>UTC calendar\<close>

definition dayMs :: int where
  "dayMs = 86400000"

definition utcDayNumber :: "int \<Rightarrow> int" where
  "utcDayNumber t = t div dayMs"

definition civilFields :: "int \<Rightarrow> int \<times> int \<times> int" where
  "civilFields day =
     (let z = day + 719468; era = z div 146097; doe = z mod 146097;
          yoe = (doe - doe div 1460 + doe div 36524 - doe div 146096) div 365;
          doy = doe - (365 * yoe + yoe div 4 - yoe div 100);
          mp = (5 * doy + 2) div 153;
          month = (if mp < 10 then mp + 3 else mp - 9)
      in (yoe + era * 400 + (if month \<le> 2 then 1 else 0), month, doy - (153 * mp + 2) div 5 + 1))"

definition utcYear :: "int \<Rightarrow> int" where
  "utcYear t = fst (civilFields (utcDayNumber t))"

definition utcMonth :: "int \<Rightarrow> int" where
  "utcMonth t = fst (snd (civilFields (utcDayNumber t)))"

definition utcDate :: "int \<Rightarrow> int" where
  "utcDate t = snd (snd (civilFields (utcDayNumber t)))"

text \<open>\<open>Date.UTC(year, month, day)\<close> as a day number, months counted from 1.\<close>

definition civilDay :: "int \<Rightarrow> int \<Rightarrow> int \<Rightarrow> int" where
  "civilDay year month day =
     (let y = (if month \<le> 2 then year - 1 else year); era = y div 400; yoe = y mod 400;
          doy = (153 * ((month + 9) mod 12) + 2) div 5 + day - 1;
          doe = yoe * 365 + yoe div 4 - yoe div 100 + doy
      in era * 146097 + doe - 719468)"

lemma civil_epoch: "civilFields 0 = (1970, 1, 1)"
  by code_simp

lemma civil_leap_day: "civilFields 19782 = (2024, 2, 29) \<and> civilDay 2024 2 29 = 19782"
  by code_simp

end
