(* ===== verification/PayrollFormula.thy ===== *)
theory PayrollFormula
  imports JsNumber JsText
begin

text \<open>
  The payroll formula language, \<open>apps/api/src/payroll/payroll-formula.ts\<close>: tokenizer, recursive-descent
  evaluator and function table. The parser's index into the token array is modelled by the tokens left from
  it; its methods are the modes of one recursive function \<open>run\<close> whose value \<open>None\<close> would be a run that
  never returns. Errors carry the constant part of the message.
\<close>

section \<open>Tokens\<close>

datatype operator = Plus | Minus | Times | Divide

datatype token = NumberTok rat | IdentifierTok string | OperatorTok operator | LParen | RParen | Comma

definition MAX_EXPRESSION_LENGTH :: nat where
  "MAX_EXPRESSION_LENGTH = 256"

definition MAX_TOKENS :: nat where
  "MAX_TOKENS = 128"

definition pushToken :: "token list \<Rightarrow> token \<Rightarrow> exn + token list" where
  "pushToken tokens t =
     (if MAX_TOKENS < length (tokens @ [t]) then Inl (PlainError ''formula-too-complex'') else Inr (tokens @ [t]))"

definition isNumberChar :: "char \<Rightarrow> bool" where
  "isNumberChar c \<longleftrightarrow> isDigit c \<or> c = CHR ''.''"

definition isIdentStart :: "char \<Rightarrow> bool" where
  "isIdentStart c \<longleftrightarrow> (65 \<le> (of_char c :: nat) \<and> (of_char c :: nat) \<le> 90) \<or>
     (97 \<le> (of_char c :: nat) \<and> (of_char c :: nat) \<le> 122) \<or> c = CHR ''_''"

definition isIdentChar :: "char \<Rightarrow> bool" where
  "isIdentChar c \<longleftrightarrow> isIdentStart c \<or> isDigit c \<or> c = CHR ''.''"

text \<open>\<open>Number(text)\<close> on digits with at most one dot.\<close>

definition numberOfText :: "string \<Rightarrow> js_number" where
  "numberOfText s =
     (let whole = takeWhile (\<lambda>c. c \<noteq> CHR ''.'') s; frac = drop 1 (dropWhile (\<lambda>c. c \<noteq> CHR ''.'') s)
      in if whole = [] \<and> frac = [] then NaN
         else double (of_nat (decimalValue (whole @ frac)) / 10 ^ length frac))"

definition punctuation :: "char \<Rightarrow> token option" where
  "punctuation c =
     (if c = CHR ''+'' then Some (OperatorTok Plus) else if c = CHR ''-'' then Some (OperatorTok Minus)
      else if c = CHR ''*'' then Some (OperatorTok Times) else if c = CHR ''/'' then Some (OperatorTok Divide)
      else if c = CHR ''('' then Some LParen else if c = CHR '')'' then Some RParen
      else if c = CHR '','' then Some Comma else None)"

function tokenizeLoop :: "string \<Rightarrow> token list \<Rightarrow> exn + token list" where
  "tokenizeLoop [] tokens = Inr tokens"
| "tokenizeLoop (c # cs) tokens =
     (if isSpace c then tokenizeLoop cs tokens
      else if isNumberChar c then
        (let text = c # takeWhile isNumberChar cs in
         if 1 < length (filter (\<lambda>x. x = CHR ''.'') text) then Inl (PlainError ''invalid-number'')
         else case numberOfText text of
             Fin v \<Rightarrow> (case pushToken tokens (NumberTok v) of
                 Inl e \<Rightarrow> Inl e
               | Inr tokens' \<Rightarrow> tokenizeLoop (dropWhile isNumberChar cs) tokens')
           | _ \<Rightarrow> Inl (PlainError ''invalid-number''))
      else if isIdentStart c then
        (case pushToken tokens (IdentifierTok (c # takeWhile isIdentChar cs)) of
           Inl e \<Rightarrow> Inl e
         | Inr tokens' \<Rightarrow> tokenizeLoop (dropWhile isIdentChar cs) tokens')
      else case punctuation c of
          None \<Rightarrow> Inl (PlainError ''invalid-token:'')
        | Some t \<Rightarrow> (case pushToken tokens t of Inl e \<Rightarrow> Inl e | Inr tokens' \<Rightarrow> tokenizeLoop cs tokens'))"
  by pat_completeness auto
termination
  by (relation "measure (\<lambda>(s, _). length s)") (auto simp: less_Suc_eq_le length_dropWhile_le)

definition tokenize :: "string \<Rightarrow> exn + token list" where
  "tokenize expression =
     (if trim expression = '''' then Inl (PlainError ''formula-empty'')
      else if MAX_EXPRESSION_LENGTH < length expression then Inl (PlainError ''formula-too-long'')
      else tokenizeLoop expression [])"

section \<open>Values, variables and functions\<close>

definition checked :: "js_number \<Rightarrow> exn + rat" where
  "checked value = (case value of
     Fin x \<Rightarrow> if 1000000000000 < \<bar>x\<bar> then Inl (PlainError ''result-out-of-range'') else Inr x
   | _ \<Rightarrow> Inl (PlainError ''non-finite-result''))"

type_synonym variables = "string \<Rightarrow> js_number option"

text \<open>
  The names every object inherits. \<open>token.value in this.variables\<close> finds them too; their values are
  functions or objects, on which \<open>Number.isFinite\<close> is false.
\<close>

definition objectPrototypeKeys :: "string list" where
  "objectPrototypeKeys = [''constructor'', ''__defineGetter__'', ''__defineSetter__'', ''hasOwnProperty'',
     ''__lookupGetter__'', ''__lookupSetter__'', ''isPrototypeOf'', ''propertyIsEnumerable'', ''toString'',
     ''valueOf'', ''__proto__'', ''toLocaleString'']"

definition lookupVariable :: "variables \<Rightarrow> string \<Rightarrow> exn + rat" where
  "lookupVariable vars x = (case vars x of
     Some v \<Rightarrow> checked v
   | None \<Rightarrow> if List.member objectPrototypeKeys x then Inl (PlainError ''non-finite-result'')
             else Inl (PlainError ''unknown-variable:''))"

text \<open>
  \<open>FUNCTIONS[name]\<close>: the six functions, and the two inherited names in lower case, of which
  \<open>constructor\<close> (\<open>Object\<close>) returns an object and \<open>__proto__\<close> is no function.
\<close>

definition functionTable :: "string \<Rightarrow> (rat list \<Rightarrow> exn + js_number) option" where
  "functionTable name =
     (if name = ''min'' then Some (\<lambda>args. Inr (Fin (foldl min (hd args) (tl args))))
      else if name = ''max'' then Some (\<lambda>args. Inr (Fin (foldl max (hd args) (tl args))))
      else if name = ''round'' then Some (\<lambda>args. Inr (mathRound (Fin (hd args))))
      else if name = ''floor'' then Some (\<lambda>args. Inr (mathFloor (Fin (hd args))))
      else if name = ''ceil'' then Some (\<lambda>args. Inr (mathCeil (Fin (hd args))))
      else if name = ''abs'' then Some (\<lambda>args. Inr (jabs (Fin (hd args))))
      else if name = ''constructor'' then Some (\<lambda>args. Inl (PlainError ''non-finite-result''))
      else if name = ''__proto__'' then Some (\<lambda>args. Inl (PlainError ''fn is not a function''))
      else None)"

definition arityOk :: "string \<Rightarrow> nat \<Rightarrow> bool" where
  "arityOk name n \<longleftrightarrow> (List.member [''round'', ''floor'', ''ceil'', ''abs''] name \<longrightarrow> n = 1) \<and>
     (List.member [''min'', ''max''] name \<longrightarrow> 1 \<le> n)"

definition applyFunction :: "string \<Rightarrow> rat list \<Rightarrow> exn + rat" where
  "applyFunction name args = (case functionTable (toLowerCase name) of
     None \<Rightarrow> Inl (PlainError ''unknown-function:'')
   | Some fn \<Rightarrow>
       (if \<not> arityOk (toLowerCase name) (length args) then Inl (PlainError ''invalid-arity:'')
        else (case fn args of Inl e \<Rightarrow> Inl e | Inr v \<Rightarrow> checked v)))"

fun arithmetic :: "operator \<Rightarrow> rat \<Rightarrow> rat \<Rightarrow> exn + rat" where
  "arithmetic Plus x y = checked (jadd (Fin x) (Fin y))"
| "arithmetic Minus x y = checked (jsub (Fin x) (Fin y))"
| "arithmetic Times x y = checked (jmul (Fin x) (Fin y))"
| "arithmetic Divide x y =
     (if y = 0 then Inl (PlainError ''division-by-zero'') else checked (jdiv (Fin x) (Fin y)))"

section \<open>The parser\<close>

text \<open>
  One mode per method. \<open>expression\<close> and \<open>term\<close> are a first operand followed by a \<open>while\<close> loop over operators
  of their level; \<open>Loop level v\<close> is that loop with the value so far, \<open>Arguments\<close> the \<open>do\<close> loop of
  \<open>functionCall\<close> with the arguments so far.
\<close>

datatype level = Additive | Multiplicative

datatype mode = Expression | Term | Unary | Primary | Loop level rat | Arguments string "rat list"

fun operandMode :: "level \<Rightarrow> mode" where
  "operandMode Additive = Term"
| "operandMode Multiplicative = Unary"

type_synonym outcome = "(exn + rat \<times> token list) option"

definition bindR :: "outcome \<Rightarrow> (rat \<Rightarrow> token list \<Rightarrow> outcome) \<Rightarrow> outcome" where
  "bindR m k = Option.bind m (\<lambda>r. case r of Inl e \<Rightarrow> Some (Inl e) | Inr (v, rest) \<Rightarrow> k v rest)"

lemma bindR_mono [partial_function_mono]:
  assumes "mono_option B" and "\<And>v rest. mono_option (\<lambda>f. C v rest f)"
  shows "mono_option (\<lambda>f. bindR (B f) (\<lambda>v rest. C v rest f))"
  unfolding bindR_def
proof (rule bind_mono [OF assms(1)])
  fix r :: "exn + rat \<times> token list"
  show "mono_option (\<lambda>f. case r of Inl e \<Rightarrow> Some (Inl e) | Inr (v, rest) \<Rightarrow> C v rest f)"
  proof (cases r)
    case (Inl e)
    then show ?thesis by (simp add: option.const_mono)
  next
    case (Inr p)
    then show ?thesis using assms(2) by (cases p) simp
  qed
qed

text \<open>\<open>return value\<close> and \<open>throw\<close> of a parser method, from a computed result.\<close>

definition giveR :: "exn + rat \<Rightarrow> token list \<Rightarrow> outcome" where
  "giveR r rest = (case r of Inl e \<Rightarrow> Some (Inl e) | Inr v \<Rightarrow> Some (Inr (v, rest)))"

definition failR :: "string \<Rightarrow> outcome" where
  "failR msg = Some (Inl (PlainError msg))"

definition nextIs :: "token \<Rightarrow> token list \<Rightarrow> bool" where
  "nextIs t tokens \<longleftrightarrow> tokens \<noteq> [] \<and> hd tokens = t"

fun matchOperator :: "level \<Rightarrow> token list \<Rightarrow> operator option" where
  "matchOperator Additive tokens =
     (if nextIs (OperatorTok Plus) tokens then Some Plus
      else if nextIs (OperatorTok Minus) tokens then Some Minus else None)"
| "matchOperator Multiplicative tokens =
     (if nextIs (OperatorTok Times) tokens then Some Times
      else if nextIs (OperatorTok Divide) tokens then Some Divide else None)"

definition finishCall :: "string \<Rightarrow> rat list \<Rightarrow> token list \<Rightarrow> outcome" where
  "finishCall name args tokens =
     (if nextIs RParen tokens then giveR (applyFunction name args) (tl tokens) else failR ''missing-rparen'')"

definition finishGroup :: "rat \<Rightarrow> token list \<Rightarrow> outcome" where
  "finishGroup v tokens = (if nextIs RParen tokens then giveR (Inr v) (tl tokens) else failR ''missing-rparen'')"

partial_function (option) run :: "variables \<Rightarrow> mode \<Rightarrow> token list \<Rightarrow> outcome" where
  "run vars m tokens = (case m of
     Expression \<Rightarrow> bindR (run vars Term tokens) (\<lambda>v rest. run vars (Loop Additive v) rest)
   | Term \<Rightarrow> bindR (run vars Unary tokens) (\<lambda>v rest. run vars (Loop Multiplicative v) rest)
   | Loop level v \<Rightarrow> (case matchOperator level tokens of
         None \<Rightarrow> giveR (Inr v) tokens
       | Some op \<Rightarrow> bindR (run vars (operandMode level) (tl tokens)) (\<lambda>w rest.
           bindR (giveR (arithmetic op v w) rest) (\<lambda>u rest. run vars (Loop level u) rest)))
   | Unary \<Rightarrow>
       if nextIs (OperatorTok Plus) tokens then run vars Unary (tl tokens)
       else if nextIs (OperatorTok Minus) tokens
         then bindR (run vars Unary (tl tokens)) (\<lambda>v rest. giveR (checked (jneg (Fin v))) rest)
       else run vars Primary tokens
   | Primary \<Rightarrow> (case tokens of
         [] \<Rightarrow> failR ''unexpected-end''
       | t # rest \<Rightarrow> (case t of
             NumberTok v \<Rightarrow> giveR (Inr v) rest
           | LParen \<Rightarrow> bindR (run vars Expression rest) finishGroup
           | IdentifierTok x \<Rightarrow>
               if \<not> nextIs LParen rest then giveR (lookupVariable vars x) rest
               else if functionTable (toLowerCase x) = None then failR ''unknown-function:''
               else if nextIs RParen (tl rest) then finishCall x [] (tl rest)
               else run vars (Arguments x []) (tl rest)
           | _ \<Rightarrow> failR ''unexpected-token''))
   | Arguments name args \<Rightarrow> bindR (run vars Expression tokens) (\<lambda>v rest.
       if nextIs Comma rest then run vars (Arguments name (args @ [v])) (tl rest)
       else finishCall name (args @ [v]) rest))"

definition parseTokens :: "variables \<Rightarrow> token list \<Rightarrow> (exn + rat) option" where
  "parseTokens vars tokens = Option.bind (run vars Expression tokens) (\<lambda>r. case r of
     Inl e \<Rightarrow> Some (Inl e)
   | Inr (v, rest) \<Rightarrow> if rest \<noteq> [] then Some (Inl (PlainError ''unexpected-token'')) else Some (checked (Fin v)))"

definition evaluatePayrollFormula :: "string \<Rightarrow> variables \<Rightarrow> (exn + rat) option" where
  "evaluatePayrollFormula expression vars = (case tokenize expression of
     Inl e \<Rightarrow> Some (Inl e)
   | Inr tokens \<Rightarrow> parseTokens vars tokens)"

section \<open>Every run returns\<close>

lemmas run_Expression = run.simps [where m = Expression, unfolded mode.case]
  and run_Term = run.simps [where m = Term, unfolded mode.case]
  and run_Unary = run.simps [where m = Unary, unfolded mode.case]
  and run_Primary = run.simps [where m = Primary, unfolded mode.case]
  and run_Loop = run.simps [where m = "Loop level v", unfolded mode.case] for level v
lemmas run_Arguments = run.simps [where m = "Arguments name args", unfolded mode.case] for name args

lemma bindR_Some [simp]:
  "bindR (Some (Inl e)) k = Some (Inl e)" "bindR (Some (Inr (v, rest))) k = k v rest"
  by (simp_all add: bindR_def)

lemma giveR_simps [simp]:
  "giveR (Inl e) rest = Some (Inl e)" "giveR (Inr v) rest = Some (Inr (v, rest))"
  by (simp_all add: giveR_def)

fun modeRank :: "mode \<Rightarrow> nat" where
  "modeRank (Loop _ _) = 0"
| "modeRank Primary = 0"
| "modeRank Unary = 1"
| "modeRank Term = 2"
| "modeRank Expression = 3"
| "modeRank (Arguments _ _) = 4"

fun consumes :: "mode \<Rightarrow> nat" where
  "consumes (Loop _ _) = 0"
| "consumes _ = 1"

text \<open>\<open>returns m tokens r\<close>: \<open>r\<close> is an outcome, and the tokens it leaves are fewer, except for a loop that stops at once.\<close>

definition returns :: "nat \<Rightarrow> nat \<Rightarrow> outcome \<Rightarrow> bool" where
  "returns c n r \<longleftrightarrow> r \<noteq> None \<and> (\<forall>v rest. r = Some (Inr (v, rest)) \<longrightarrow> length rest + c \<le> n)"

lemma returns_bindR:
  assumes "returns c n m" and "\<And>v rest. m = Some (Inr (v, rest)) \<Longrightarrow> length rest + c \<le> n \<Longrightarrow> returns c' n' (k v rest)"
  shows "returns c' n' (bindR m k)"
proof -
  from assms(1) obtain r where r: "m = Some r" by (auto simp: returns_def)
  show ?thesis
  proof (cases r)
    case (Inl e)
    then show ?thesis by (simp add: r returns_def)
  next
    case (Inr p)
    obtain v rest where p: "p = (v, rest)" by force
    have "length rest + c \<le> n" using assms(1) by (simp add: r Inr p returns_def)
    then show ?thesis using assms(2) [of v rest] by (simp add: r Inr p)
  qed
qed

lemma returns_giveR: "length rest + c \<le> n \<Longrightarrow> returns c n (giveR r rest)"
  by (cases r) (auto simp: returns_def)

lemma returns_failR [simp]: "returns c n (failR msg)"
  by (simp add: returns_def failR_def)

lemma nextIs_length: "nextIs t tokens \<Longrightarrow> Suc (length (tl tokens)) = length tokens"
  by (cases tokens) (auto simp: nextIs_def)

lemma matchOperator_length: "matchOperator level tokens = Some op \<Longrightarrow> Suc (length (tl tokens)) = length tokens"
  by (cases level) (auto split: if_splits dest: nextIs_length)

lemma returns_finishCall: "length tokens + c \<le> Suc n \<Longrightarrow> returns c n (finishCall name args tokens)"
  by (auto simp: finishCall_def intro!: returns_giveR dest!: nextIs_length)

lemma returns_finishGroup: "length tokens + c \<le> Suc n \<Longrightarrow> returns c n (finishGroup v tokens)"
  by (auto simp: finishGroup_def simp del: giveR_simps intro!: returns_giveR dest!: nextIs_length)

lemma returns_weaken: "returns c n r \<Longrightarrow> n + c' \<le> n' + c \<Longrightarrow> returns c' n' r"
  by (fastforce simp: returns_def)

lemma run_returns: "returns (consumes m) (length tokens) (run vars m tokens)"
proof (induction "5 * length tokens + modeRank m" arbitrary: m tokens rule: less_induct)
  case less
  have IH: "returns (consumes m') (length ts) (run vars m' ts)"
    if "5 * length ts + modeRank m' < 5 * length tokens + modeRank m" for m' ts
    using less that by blast
  show ?case
  proof (cases m)
    case Expression
    show ?thesis
      unfolding Expression run_Expression
      by (rule returns_bindR [OF IH]) (auto simp: Expression intro: returns_weaken [OF IH])
  next
    case Term
    show ?thesis
      unfolding Term run_Term
      by (rule returns_bindR [OF IH]) (auto simp: Term intro: returns_weaken [OF IH])
  next
    case (Loop level v)
    show ?thesis
    proof (cases "matchOperator level tokens")
      case None
      then show ?thesis by (simp add: Loop run_Loop returns_def)
    next
      case (Some op)
      note n = matchOperator_length [OF Some]
      have rank: "modeRank (operandMode level) \<le> 2" "consumes (operandMode level) = 1" by (cases level; simp)+
      have 1: "returns 1 (length (tl tokens)) (run vars (operandMode level) (tl tokens))"
        using IH [of "tl tokens" "operandMode level"] rank n by (simp add: Loop)
      have 2: "returns 0 (length tokens) (bindR (giveR (arithmetic op v w) rest) (\<lambda>u rest. run vars (Loop level u) rest))"
        if "length rest + 1 \<le> length (tl tokens)" for w rest
      proof (rule returns_bindR [OF returns_giveR [of rest 1 "length tokens"]])
        show "length rest + 1 \<le> length tokens" using that n by simp
        fix u and rest' :: "token list"
        assume "length rest' + 1 \<le> length tokens"
        then show "returns 0 (length tokens) (run vars (Loop level u) rest')"
          using IH [of rest' "Loop level u"] by (auto simp: Loop intro: returns_weaken)
      qed
      show ?thesis
        unfolding Loop consumes.simps
        by (subst run_Loop) (simp only: Some option.case, rule returns_bindR [OF 1], rule 2)
    qed
  next
    case Unary
    show ?thesis
      unfolding Unary by (subst run_Unary) (auto simp: Unary intro!: returns_bindR [OF IH] returns_giveR intro: returns_weaken [OF IH] dest!: nextIs_length)
  next
    case Primary
    show ?thesis
    proof (cases tokens)
      case Nil
      then show ?thesis by (simp add: Primary run_Primary)
    next
      case (Cons t rest)
      then show ?thesis
        unfolding Primary run_Primary
        by (auto simp: Primary simp del: giveR_simps split: token.splits dest!: nextIs_length
            intro!: returns_giveR returns_finishCall returns_bindR [OF IH] returns_finishGroup
            intro: returns_weaken [OF IH])
    qed
  next
    case (Arguments name args)
    show ?thesis
      unfolding Arguments by (subst run_Arguments, rule returns_bindR [OF IH])
        (auto simp: Arguments intro!: returns_finishCall intro: returns_weaken [OF IH] dest!: nextIs_length)
  qed
qed

section \<open>Formulas and their meaning\<close>

text \<open>
  The reference semantics: formulas as trees, evaluated left to right, and their rendering into tokens with
  the parentheses that precedence and left associativity need.
\<close>

datatype formula = NumF rat | VarF string | CallF string "formula list" | PosF formula | NegF formula
  | BinF operator formula formula

fun eval :: "variables \<Rightarrow> formula \<Rightarrow> exn + rat" and evalArgs :: "variables \<Rightarrow> formula list \<Rightarrow> exn + rat list" where
  "eval vars (NumF v) = Inr v"
| "eval vars (VarF x) = lookupVariable vars x"
| "eval vars (CallF name args) =
     (if functionTable (toLowerCase name) = None then Inl (PlainError ''unknown-function:'')
      else bindE (evalArgs vars args) (applyFunction name))"
| "eval vars (PosF f) = eval vars f"
| "eval vars (NegF f) = bindE (eval vars f) (\<lambda>v. checked (jneg (Fin v)))"
| "eval vars (BinF op l r) = bindE (eval vars l) (\<lambda>v. bindE (eval vars r) (arithmetic op v))"
| "evalArgs vars [] = Inr []"
| "evalArgs vars (f # fs) = bindE (eval vars f) (\<lambda>v. bindE (evalArgs vars fs) (\<lambda>vs. Inr (v # vs)))"

fun operatorLevel :: "operator \<Rightarrow> nat" where
  "operatorLevel Plus = 0"
| "operatorLevel Minus = 0"
| "operatorLevel Times = 1"
| "operatorLevel Divide = 1"

fun levelOf :: "formula \<Rightarrow> nat" where
  "levelOf (BinF op l r) = operatorLevel op"
| "levelOf (PosF f) = 2"
| "levelOf (NegF f) = 2"
| "levelOf _ = 3"

definition bracket :: "bool \<Rightarrow> token list \<Rightarrow> token list" where
  "bracket b ts = (if b then LParen # ts @ [RParen] else ts)"

fun render :: "formula \<Rightarrow> token list" and renderArgs :: "formula list \<Rightarrow> token list" where
  "render (NumF v) = [NumberTok v]"
| "render (VarF x) = [IdentifierTok x]"
| "render (CallF name args) = IdentifierTok name # LParen # renderArgs args @ [RParen]"
| "render (PosF f) = OperatorTok Plus # bracket (levelOf f < 2) (render f)"
| "render (NegF f) = OperatorTok Minus # bracket (levelOf f < 2) (render f)"
| "render (BinF op l r) = bracket (levelOf l < operatorLevel op) (render l) @
     OperatorTok op # bracket (levelOf r \<le> operatorLevel op) (render r)"
| "renderArgs [] = []"
| "renderArgs [f] = render f"
| "renderArgs (f # g # fs) = render f @ Comma # renderArgs (g # fs)"

section \<open>The parser computes the meaning\<close>

text \<open>
  What each parser method does on the tokens of an operand whose meaning is \<open>r\<close>, whatever follows, as long as
  it is neither an opening parenthesis nor, for \<open>expression\<close>, an operator that binds tighter.
\<close>

definition primaryOk :: "variables \<Rightarrow> token list \<Rightarrow> exn + rat \<Rightarrow> bool" where
  "primaryOk vars ts r \<longleftrightarrow> (\<forall>rest. \<not> nextIs LParen rest \<longrightarrow> run vars Primary (ts @ rest) = giveR r rest) \<and>
     ts \<noteq> [] \<and> (\<forall>op. \<not> nextIs (OperatorTok op) ts)"

definition unaryOk :: "variables \<Rightarrow> token list \<Rightarrow> exn + rat \<Rightarrow> bool" where
  "unaryOk vars ts r \<longleftrightarrow> (\<forall>rest. \<not> nextIs LParen rest \<longrightarrow> run vars Unary (ts @ rest) = giveR r rest)"

definition termOk :: "variables \<Rightarrow> token list \<Rightarrow> exn + rat \<Rightarrow> bool" where
  "termOk vars ts r \<longleftrightarrow> (\<forall>rest. \<not> nextIs LParen rest \<longrightarrow>
     run vars Term (ts @ rest) = bindR (giveR r rest) (\<lambda>v. run vars (Loop Multiplicative v)))"

definition expressionOk :: "variables \<Rightarrow> token list \<Rightarrow> exn + rat \<Rightarrow> bool" where
  "expressionOk vars ts r \<longleftrightarrow> (\<forall>rest. \<not> nextIs LParen rest \<longrightarrow> matchOperator Multiplicative rest = None \<longrightarrow>
     run vars Expression (ts @ rest) = bindR (giveR r rest) (\<lambda>v. run vars (Loop Additive v)))"

lemma nextIs_simps [simp]: "nextIs t (u # ts) = (u = t)" "\<not> nextIs t []"
  by (auto simp: nextIs_def)

lemma nextIs_append: "ts \<noteq> [] \<Longrightarrow> nextIs t (ts @ us) = nextIs t ts"
  by (cases ts) simp_all

lemma run_Loop_stop: "matchOperator level ts = None \<Longrightarrow> run vars (Loop level v) ts = giveR (Inr v) ts"
  by (subst run_Loop) simp

lemma unary_of_primary: "primaryOk vars ts r \<Longrightarrow> unaryOk vars ts r"
  by (auto simp: primaryOk_def unaryOk_def nextIs_append run_Unary [of vars "ts @ _"])

lemma term_of_unary: "unaryOk vars ts r \<Longrightarrow> termOk vars ts r"
  by (auto simp: unaryOk_def termOk_def run_Term)

lemma expression_of_term: "termOk vars ts r \<Longrightarrow> expressionOk vars ts r"
  by (cases r) (auto simp: termOk_def expressionOk_def run_Expression run_Loop_stop)

lemma primary_of_expression:
  assumes "expressionOk vars ts r"
  shows "primaryOk vars (LParen # ts @ [RParen]) r"
proof -
  have "run vars Primary (LParen # ts @ RParen # rest) = giveR r rest" for rest
  proof -
    have "run vars Expression (ts @ RParen # rest) = giveR r (RParen # rest)"
      using assms by (cases r) (simp_all add: expressionOk_def run_Loop_stop)
    then show ?thesis by (cases r) (simp_all add: run_Primary finishGroup_def)
  qed
  then show ?thesis by (simp add: primaryOk_def)
qed

lemma expression_binary:
  assumes "expressionOk vars l rl" and "termOk vars r rr" and "operatorLevel op = 0"
  shows "expressionOk vars (l @ OperatorTok op # r) (bindE rl (\<lambda>v. bindE rr (arithmetic op v)))"
  unfolding expressionOk_def
proof (intro allI impI)
  fix rest
  assume rest: "\<not> nextIs LParen rest" "matchOperator Multiplicative rest = None"
  have op: "matchOperator Additive (OperatorTok op # ts) = Some op" "matchOperator Multiplicative (OperatorTok op # ts) = None" for ts
    using assms(3) by (cases op; simp)+
  have l: "run vars Expression (l @ OperatorTok op # r @ rest) =
      bindR (giveR rl (OperatorTok op # r @ rest)) (\<lambda>v. run vars (Loop Additive v))"
    using assms(1) op(2) by (simp add: expressionOk_def del: matchOperator.simps)
  have r: "run vars Term (r @ rest) = giveR rr rest"
    using assms(2) rest by (cases rr) (simp_all add: termOk_def run_Loop_stop)
  have loop: "run vars (Loop Additive v) (OperatorTok op # r @ rest) =
      bindR (giveR (bindE rr (arithmetic op v)) rest) (\<lambda>v. run vars (Loop Additive v))" for v
    by (subst run_Loop) (cases rr; simp add: op r del: matchOperator.simps)
  show "run vars Expression ((l @ OperatorTok op # r) @ rest) =
      bindR (giveR (bindE rl (\<lambda>v. bindE rr (arithmetic op v))) rest) (\<lambda>v. run vars (Loop Additive v))"
    using l loop by (cases rl) simp_all
qed

lemma term_binary:
  assumes "termOk vars l rl" and "unaryOk vars r rr" and "operatorLevel op = 1"
  shows "termOk vars (l @ OperatorTok op # r) (bindE rl (\<lambda>v. bindE rr (arithmetic op v)))"
  unfolding termOk_def
proof (intro allI impI)
  fix rest
  assume rest: "\<not> nextIs LParen rest"
  have op: "matchOperator Multiplicative (OperatorTok op # ts) = Some op" for ts
    using assms(3) by (cases op; simp)
  have l: "run vars Term (l @ OperatorTok op # r @ rest) =
      bindR (giveR rl (OperatorTok op # r @ rest)) (\<lambda>v. run vars (Loop Multiplicative v))"
    using assms(1) by (simp add: termOk_def)
  have r: "run vars Unary (r @ rest) = giveR rr rest"
    using assms(2) rest by (simp add: unaryOk_def)
  have loop: "run vars (Loop Multiplicative v) (OperatorTok op # r @ rest) =
      bindR (giveR (bindE rr (arithmetic op v)) rest) (\<lambda>v. run vars (Loop Multiplicative v))" for v
    by (subst run_Loop) (cases rr; simp add: op r del: matchOperator.simps)
  show "run vars Term ((l @ OperatorTok op # r) @ rest) =
      bindR (giveR (bindE rl (\<lambda>v. bindE rr (arithmetic op v))) rest) (\<lambda>v. run vars (Loop Multiplicative v))"
    using l loop by (cases rl) simp_all
qed

definition parsesAs :: "variables \<Rightarrow> formula \<Rightarrow> bool" where
  "parsesAs vars f \<longleftrightarrow>
     (if levelOf f = 0 then expressionOk vars (render f) (eval vars f)
      else if levelOf f = 1 then termOk vars (render f) (eval vars f)
      else if levelOf f = 2 then unaryOk vars (render f) (eval vars f)
      else primaryOk vars (render f) (eval vars f))"

lemma parses_expression: "parsesAs vars f \<Longrightarrow> expressionOk vars (render f) (eval vars f)"
  by (auto simp: parsesAs_def split: if_splits intro: expression_of_term term_of_unary unary_of_primary)

lemma parses_bracket: "parsesAs vars f \<Longrightarrow> primaryOk vars (bracket True (render f)) (eval vars f)"
  using primary_of_expression [OF parses_expression] by (simp add: bracket_def)

lemma parses_term: "parsesAs vars f \<Longrightarrow> termOk vars (bracket (levelOf f \<le> 0) (render f)) (eval vars f)"
proof (cases "levelOf f \<le> 0")
  case True
  then show "parsesAs vars f \<Longrightarrow> ?thesis"
    using parses_bracket [of vars f] term_of_unary [OF unary_of_primary] by fastforce
qed (auto simp: parsesAs_def bracket_def split: if_splits intro: term_of_unary unary_of_primary)

lemma parses_unary: "parsesAs vars f \<Longrightarrow> unaryOk vars (bracket (levelOf f < 2) (render f)) (eval vars f)"
proof (cases "levelOf f < 2")
  case True
  then show "parsesAs vars f \<Longrightarrow> ?thesis"
    using parses_bracket [of vars f] unary_of_primary by fastforce
qed (auto simp: parsesAs_def bracket_def split: if_splits intro: unary_of_primary)

lemma parses_unary_one: "parsesAs vars f \<Longrightarrow> unaryOk vars (bracket (levelOf f \<le> 1) (render f)) (eval vars f)"
  using parses_unary [of vars f] by (simp add: numeral_2_eq_2 less_Suc_eq_le)

lemma parses_term_one: "parsesAs vars f \<Longrightarrow> termOk vars (bracket (levelOf f < 1) (render f)) (eval vars f)"
  using parses_term [of vars f] by (simp add: less_Suc_eq_le)

lemma render_start: "render f \<noteq> [] \<and> \<not> nextIs RParen (render f @ ts)"
  by (induction f arbitrary: ts rule: render_renderArgs.induct(1) [where Q = "\<lambda>_. True"]) (auto simp: bracket_def)

lemma renderArgs_start: "fs \<noteq> [] \<Longrightarrow> \<not> nextIs RParen (renderArgs fs @ ts)"
  using render_start by (cases fs rule: renderArgs.cases) auto

definition argumentsOk :: "variables \<Rightarrow> formula list \<Rightarrow> bool" where
  "argumentsOk vars fs \<longleftrightarrow> (\<forall>name before rest. fs \<noteq> [] \<longrightarrow>
     run vars (Arguments name before) (renderArgs fs @ RParen # rest) =
       giveR (bindE (evalArgs vars fs) (\<lambda>vs. applyFunction name (before @ vs))) rest)"

lemma argument_run:
  assumes "expressionOk vars ts r" and "t = RParen \<or> t = Comma"
  shows "run vars Expression (ts @ t # rest) = giveR r (t # rest)"
  using assms by (cases r) (auto simp: expressionOk_def run_Loop_stop)

lemma arguments_one:
  assumes "expressionOk vars (render f) (eval vars f)"
  shows "argumentsOk vars [f]"
  unfolding argumentsOk_def
proof (intro allI impI)
  fix name before rest
  show "run vars (Arguments name before) (renderArgs [f] @ RParen # rest) =
      giveR (bindE (evalArgs vars [f]) (\<lambda>vs. applyFunction name (before @ vs))) rest"
    by (subst run_Arguments) (cases "eval vars f"; simp add: argument_run [OF assms] finishCall_def)
qed

lemma arguments_more:
  assumes "expressionOk vars (render f) (eval vars f)" and "argumentsOk vars (g # fs)"
  shows "argumentsOk vars (f # g # fs)"
  unfolding argumentsOk_def
proof (intro allI impI)
  fix name before rest
  have more: "run vars (Arguments name b) (renderArgs (g # fs) @ RParen # rest) =
      giveR (bindE (evalArgs vars (g # fs)) (\<lambda>vs. applyFunction name (b @ vs))) rest" for b
    using assms(2) by (simp add: argumentsOk_def)
  show "run vars (Arguments name before) (renderArgs (f # g # fs) @ RParen # rest) =
      giveR (bindE (evalArgs vars (f # g # fs)) (\<lambda>vs. applyFunction name (before @ vs))) rest"
  proof (cases "eval vars f")
    case (Inl e)
    then show ?thesis by (subst run_Arguments) (simp add: argument_run [OF assms(1)])
  next
    case (Inr v)
    then have "run vars (Arguments name before) (renderArgs (f # g # fs) @ RParen # rest) =
        run vars (Arguments name (before @ [v])) (renderArgs (g # fs) @ RParen # rest)"
      by (subst run_Arguments) (simp add: argument_run [OF assms(1)])
    also have "\<dots> = giveR (bindE (evalArgs vars (f # g # fs)) (\<lambda>vs. applyFunction name (before @ vs))) rest"
      by (cases "evalArgs vars (g # fs)") (simp_all add: more Inr del: evalArgs.simps(2), simp_all add: Inr)
    finally show ?thesis .
  qed
qed

lemma call_primary:
  assumes "argumentsOk vars args"
  shows "primaryOk vars (render (CallF name args)) (eval vars (CallF name args))"
proof -
  have "run vars Primary (IdentifierTok name # LParen # renderArgs args @ RParen # rest) = giveR (eval vars (CallF name args)) rest" for rest
  proof (cases "functionTable (toLowerCase name) = None")
    case True
    then show ?thesis by (simp add: run_Primary failR_def)
  next
    case False
    then obtain fn where fn: "functionTable (toLowerCase name) = Some fn" by auto
    show ?thesis
    proof (cases "args = []")
      case True
      with fn show ?thesis by (simp add: run_Primary finishCall_def)
    next
      case args: False
      with assms have "run vars (Arguments name []) (renderArgs args @ RParen # rest) =
          giveR (bindE (evalArgs vars args) (applyFunction name)) rest" by (simp add: argumentsOk_def)
      with fn args renderArgs_start [OF args] show ?thesis by (simp add: run_Primary)
    qed
  qed
  then show ?thesis by (simp add: primaryOk_def)
qed

lemma variable_primary: "primaryOk vars [IdentifierTok x] (lookupVariable vars x)"
  by (simp add: primaryOk_def run_Primary)

lemma number_primary: "primaryOk vars [NumberTok v] (Inr v)"
  by (simp add: primaryOk_def run_Primary)

lemma call_parses: "argumentsOk vars args \<Longrightarrow> parsesAs vars (CallF name args)"
  using call_primary by (simp add: parsesAs_def)

lemma parses_all: "parsesAs vars f" and "argumentsOk vars fs"
proof (induction f and fs rule: render_renderArgs.induct)
  case (1 v)
  show ?case by (simp add: parsesAs_def number_primary)
next
  case (2 x)
  show ?case by (simp add: parsesAs_def variable_primary)
next
  case (3 name args)
  then show ?case by (rule call_parses)
next
  case (4 f)
  have "run vars Unary (OperatorTok Plus # ts @ rest) = run vars Unary (ts @ rest)" for ts rest
    by (subst run_Unary) simp
  with parses_unary [OF 4] show ?case by (simp add: parsesAs_def unaryOk_def)
next
  case (5 f)
  have "run vars Unary (OperatorTok Minus # ts @ rest) =
      bindR (run vars Unary (ts @ rest)) (\<lambda>v rest. giveR (checked (jneg (Fin v))) rest)" for ts rest
    by (subst run_Unary) simp
  with parses_unary [OF 5] show ?case
    by (cases "eval vars f") (auto simp: parsesAs_def unaryOk_def)
next
  case (6 op l r)
  show ?case
  proof (cases "operatorLevel op = 0")
    case True
    then have "expressionOk vars (bracket (levelOf l < operatorLevel op) (render l)) (eval vars l)"
      using parses_expression [OF 6(1)] by (simp add: bracket_def)
    from expression_binary [OF this _ True, of "bracket (levelOf r \<le> 0) (render r)" "eval vars r"] parses_term [OF 6(2)] True
    show ?thesis by (simp add: parsesAs_def)
  next
    case False
    then have one: "operatorLevel op = 1" by (cases op) simp_all
    from term_binary [OF parses_term_one [OF 6(1)] parses_unary_one [OF 6(2)] one] one
    show ?thesis by (simp add: parsesAs_def)
  qed
next
  case 7
  show ?case by (simp add: argumentsOk_def)
next
  case (8 f)
  then show ?case by (intro arguments_one parses_expression)
next
  case (9 f g fs)
  then show ?case by (intro arguments_more parses_expression)
qed

section \<open>Properties\<close>

lemma checked_bound: "checked v = Inr x \<Longrightarrow> \<bar>x\<bar> \<le> 1000000000000"
  by (auto simp: checked_def split: js_number.splits if_splits)

lemma parseTokens_returns: "\<exists>x. parseTokens vars ts = Some x \<and> (\<forall>v. x = Inr v \<longrightarrow> \<bar>v\<bar> \<le> 1000000000000)"
proof -
  obtain r where r: "run vars Expression ts = Some r"
    using run_returns [of Expression ts vars] by (auto simp: returns_def)
  show ?thesis
  proof (cases r)
    case (Inl e)
    then show ?thesis by (simp add: parseTokens_def r)
  next
    case (Inr p)
    obtain v rest where "p = (v, rest)" by force
    then show ?thesis using checked_bound Inr by (cases "rest = []") (auto simp: parseTokens_def r)
  qed
qed

lemma pushToken_bound: "pushToken tokens t = Inr tokens' \<Longrightarrow> length tokens' \<le> MAX_TOKENS"
  by (auto simp: pushToken_def split: if_splits)

lemma tokenizeLoop_bound: "length tokens \<le> MAX_TOKENS \<Longrightarrow> tokenizeLoop s tokens = Inr ts \<Longrightarrow> length ts \<le> MAX_TOKENS"
  by (induction s tokens rule: tokenizeLoop.induct)
    (auto simp: Let_def split: if_splits js_number.splits sum.splits option.splits dest: pushToken_bound)

text \<open>
  C29. A formula always returns: on every text and every set of variables the evaluation ends, and
  when it ends with a number its absolute value is at most 10^12 and the text had at most 256 characters and
  128 tokens. Whatever the text, no run of the parser fails to return.
\<close>

theorem formula_total_and_bounded:
  "\<exists>r. evaluatePayrollFormula expression vars = Some r \<and>
     (case r of Inl _ \<Rightarrow> True
      | Inr v \<Rightarrow> \<bar>v\<bar> \<le> 1000000000000 \<and> length expression \<le> 256 \<and>
          (\<exists>ts. tokenize expression = Inr ts \<and> length ts \<le> 128))"
proof (cases "tokenize expression")
  case (Inl e)
  then show ?thesis by (simp add: evaluatePayrollFormula_def)
next
  case (Inr ts)
  have limits: "length expression \<le> 256" "length ts \<le> 128"
    using Inr tokenizeLoop_bound [of "[]" expression ts]
    by (auto simp: tokenize_def MAX_EXPRESSION_LENGTH_def MAX_TOKENS_def split: if_splits)
  obtain x where x: "evaluatePayrollFormula expression vars = Some x" "\<forall>v. x = Inr v \<longrightarrow> \<bar>v\<bar> \<le> 1000000000000"
    using Inr parseTokens_returns [of vars ts] by (auto simp: evaluatePayrollFormula_def)
  then show ?thesis using Inr limits by (cases x) auto
qed

text \<open>
  C9. The parser implements the language: the tokens of any formula, parenthesised only where
  precedence and left associativity need it, evaluate to the meaning of its tree, errors and their order
  included, followed by the final range check.
\<close>

theorem formula_parse_render:
  "parseTokens vars (render f) = Some (bindE (eval vars f) (\<lambda>v. checked (Fin v)))"
proof -
  have "run vars Expression (render f @ []) = bindR (giveR (eval vars f) []) (\<lambda>v. run vars (Loop Additive v))"
    using parses_expression [OF parses_all(1) [of vars f], unfolded expressionOk_def, THEN spec, of "[]"] by simp
  then show ?thesis
    by (cases "eval vars f") (simp_all add: parseTokens_def run_Loop_stop)
qed

end
