(* ===== verification/PayrollMethods.thy ===== *)
theory PayrollMethods
  imports JsNumber JsText
begin

text \<open>
  Payroll tax methods and date proration, \<open>apps/api/src/payroll/payroll-method-engine.ts\<close>. Amounts are
  doubles; the tax calculator, a callback of the payroll service, is an argument. An instant is its number
  of milliseconds; \<open>Date.UTC\<close> of an instant's own UTC year, month and day is the first instant of its day.
\<close>

section \<open>Days\<close>

record effective_range =
  effectiveFrom :: int
  effectiveTo :: "int option"

record date_proration =
  factor :: js_number
  activeDays :: int
  periodDays :: int
  activeFrom :: int
  activeTo :: int

definition utcDayStart :: "int \<Rightarrow> int" where
  "utcDayStart t = utcDayNumber t * dayMs"

definition inclusiveUtcDays :: "int \<Rightarrow> int \<Rightarrow> int" where
  "inclusiveUtcDays start end' =
     (let from' = utcDayStart start; to' = utcDayStart end'
      in if to' < from' then 0 else (to' - from') div dayMs + 1)"

definition dateProration :: "int \<Rightarrow> int \<Rightarrow> effective_range \<Rightarrow> date_proration option" where
  "dateProration periodStart periodEnd rng =
     (let start = utcDayStart periodStart; end' = utcDayStart periodEnd;
          effectiveStart = utcDayStart (effectiveFrom rng);
          effectiveEnd = (case effectiveTo rng of Some t \<Rightarrow> utcDayStart t | None \<Rightarrow> end');
          from' = (if start < effectiveStart then effectiveStart else start);
          to' = (if effectiveEnd < end' then effectiveEnd else end');
          period = inclusiveUtcDays start end';
          active = inclusiveUtcDays from' to'
      in if period = 0 \<or> active = 0 then None
         else Some \<lparr>factor = jdiv (Fin (of_int active)) (Fin (of_int period)), activeDays = active,
                    periodDays = period, activeFrom = from', activeTo = to'\<rparr>)"

section \<open>Tax methods\<close>

record gross_up =
  gu_allowance :: js_number
  gu_tax :: js_number
  gu_iterations :: nat

record tax_method_result =
  tm_method :: string
  taxPayable :: js_number
  employeeTaxDeduction :: js_number
  employerBorneTax :: js_number
  grossAdjustment :: js_number
  taxableAdjustment :: js_number
  netAfterTax :: js_number
  grossEquivalentAdjustment :: js_number
  iterations :: nat

definition roundedTax :: "(js_number \<Rightarrow> js_number) \<Rightarrow> js_number \<Rightarrow> js_number" where
  "roundedTax taxCalculator x = money (mathMax (Fin 0) (taxCalculator x))"

text \<open>The \<open>for\<close> loop, with the number of iterations left.\<close>

fun grossUpLoop :: "nat \<Rightarrow> nat \<Rightarrow> js_number \<Rightarrow> (js_number \<Rightarrow> js_number) \<Rightarrow> js_number \<Rightarrow> exn + gross_up" where
  "grossUpLoop 0 i income calc allowance = Inl (PlainError ''gross-up-does-not-converge'')"
| "grossUpLoop (Suc n) i income calc allowance =
     (let tax = roundedTax calc (jadd income allowance) in
      if jless (jabs (jsub tax allowance)) (double (5 / 1000))
      then Inr \<lparr>gu_allowance = tax, gu_tax = tax, gu_iterations = i\<rparr>
      else grossUpLoop n (i + 1) income calc tax)"

definition solveGrossUp :: "js_number \<Rightarrow> (js_number \<Rightarrow> js_number) \<Rightarrow> exn + gross_up" where
  "solveGrossUp taxableIncome taxCalculator =
     (if jless taxableIncome (Fin 0) \<or> taxableIncome = Fin 0
      then Inr \<lparr>gu_allowance = Fin 0, gu_tax = Fin 0, gu_iterations = 0\<rparr>
      else grossUpLoop 100 1 taxableIncome taxCalculator (roundedTax taxCalculator taxableIncome))"

definition applyPayrollTaxMethod ::
    "string \<Rightarrow> js_number \<Rightarrow> js_number \<Rightarrow> (js_number \<Rightarrow> js_number) \<Rightarrow> exn + tax_method_result" where
  "applyPayrollTaxMethod method income netBeforeTax taxCalculator =
     (if \<not> List.member [''GROSS'', ''GROSS_UP'', ''NET''] method
      then Inl (PlainError ''unsupported-tax-method:'')
      else let taxableIncome = mathMax (Fin 0) income in
        if method = ''GROSS_UP'' then
          bindE (solveGrossUp taxableIncome taxCalculator) (\<lambda>solved. Inr
            \<lparr>tm_method = method, taxPayable = gu_tax solved, employeeTaxDeduction = gu_tax solved,
             employerBorneTax = Fin 0, grossAdjustment = gu_allowance solved,
             taxableAdjustment = gu_allowance solved,
             netAfterTax = money (jsub (jadd netBeforeTax (gu_allowance solved)) (gu_tax solved)),
             grossEquivalentAdjustment = gu_allowance solved, iterations = gu_iterations solved\<rparr>)
        else let tax = roundedTax taxCalculator taxableIncome in
          if method = ''NET'' then Inr
            \<lparr>tm_method = method, taxPayable = tax, employeeTaxDeduction = Fin 0, employerBorneTax = tax,
             grossAdjustment = Fin 0, taxableAdjustment = Fin 0, netAfterTax = money netBeforeTax,
             grossEquivalentAdjustment = tax, iterations = 1\<rparr>
          else Inr
            \<lparr>tm_method = method, taxPayable = tax, employeeTaxDeduction = tax, employerBorneTax = Fin 0,
             grossAdjustment = Fin 0, taxableAdjustment = Fin 0, netAfterTax = money (jsub netBeforeTax tax),
             grossEquivalentAdjustment = Fin 0, iterations = 1\<rparr>)"

section \<open>Proration\<close>

text \<open>The days of the period on which the range is in force.\<close>

definition daysInForce :: "int \<Rightarrow> int \<Rightarrow> effective_range \<Rightarrow> int set" where
  "daysInForce periodStart periodEnd rng =
     {utcDayNumber periodStart..utcDayNumber periodEnd} \<inter>
     {d. utcDayNumber (effectiveFrom rng) \<le> d \<and> (\<forall>t. effectiveTo rng = Some t \<longrightarrow> d \<le> utcDayNumber t)}"

lemma utcDayNumber_start [simp]: "utcDayNumber (utcDayStart t) = utcDayNumber t"
  by (simp add: utcDayStart_def utcDayNumber_def dayMs_def)

lemma utcDayStart_idem [simp]: "utcDayStart (utcDayStart t) = utcDayStart t"
  by (simp add: utcDayStart_def utcDayNumber_def dayMs_def)

lemma utcDayStart_mono: "utcDayStart s < utcDayStart t \<longleftrightarrow> utcDayNumber s < utcDayNumber t"
  by (simp add: utcDayStart_def dayMs_def)

lemma inclusiveUtcDays_card:
  "inclusiveUtcDays s t = int (card {utcDayNumber s..utcDayNumber t})"
proof -
  have "(utcDayStart t - utcDayStart s) div dayMs = utcDayNumber t - utcDayNumber s"
    unfolding utcDayStart_def left_diff_distrib [symmetric] dayMs_def by simp
  then show ?thesis
    by (simp add: inclusiveUtcDays_def Let_def utcDayStart_mono)
qed

lemma daysInForce_interval:
  "daysInForce s e rng =
     {max (utcDayNumber s) (utcDayNumber (effectiveFrom rng))..
      (case effectiveTo rng of None \<Rightarrow> utcDayNumber e | Some t \<Rightarrow> min (utcDayNumber e) (utcDayNumber t))}"
  by (auto simp: daysInForce_def split: option.splits)

section \<open>The gross-up iteration\<close>

lemma grossUpLoop_result:
  assumes "grossUpLoop n i income calc a = Inr g"
  shows "gu_allowance g = gu_tax g \<and> gu_iterations g < i + n \<and> i \<le> gu_iterations g \<and>
    (\<exists>a'. gu_tax g = roundedTax calc (jadd income a') \<and> jless (jabs (jsub (gu_tax g) a')) (double (5 / 1000)))"
  using assms
proof (induction n i income calc a rule: grossUpLoop.induct)
  case (1 i income calc allowance)
  then show ?case by simp
next
  case (2 n i income calc allowance)
  then show ?case
    by (cases "jless (jabs (jsub (roundedTax calc (jadd income allowance)) allowance)) (double (5 / 1000))")
      (auto simp: Let_def)
qed

lemma money_nonneg: "jnonneg x \<Longrightarrow> jnonneg (money x)"
proof (cases x)
  case (Fin v)
  assume "jnonneg x"
  then have v: "0 \<le> v + jsEpsilon" by (simp add: Fin jnonneg_def jsEpsilon_def less_imp_le add_nonneg_nonneg)
  have mul: "jnonneg y \<Longrightarrow> jnonneg (jmul y (Fin 100))" for y
    by (cases y) (auto simp: jnonneg_def infinite_sign_def double_nonneg [unfolded jnonneg_def])
  have round: "jnonneg y \<Longrightarrow> jnonneg (mathRound y)" for y
    by (cases y) (auto simp: jnonneg_def mathRound_def)
  have div: "jnonneg y \<Longrightarrow> jnonneg (jdiv y (Fin 100))" for y
    by (cases y) (auto simp: jnonneg_def infinite_sign_def double_nonneg [unfolded jnonneg_def])
  show ?thesis
    unfolding money_def Fin by (intro div round mul) (simp add: double_nonneg [OF v])
next
  case PosInf
  then show ?thesis by (simp add: money_def mathRound_def jnonneg_def infinite_sign_def)
qed (auto simp: jnonneg_def)

lemma roundedTax_nonneg: "roundedTax calc x = NaN \<or> jnonneg (roundedTax calc x)"
proof (cases "calc x = NaN")
  case True
  then show ?thesis by (simp add: roundedTax_def money_def mathMax_def mathRound_def)
next
  case False
  then have "jnonneg (mathMax (Fin 0) (calc x))"
    by (cases "calc x") (auto simp: mathMax_def jnonneg_def)
  then show ?thesis by (simp add: roundedTax_def money_nonneg)
qed

section \<open>Properties\<close>

text \<open>
  Proration counts days: it yields nothing exactly when the range is in force on no day of the
  period, and otherwise the days in force over the days of the period, with the first and last day in force.
\<close>

theorem dateProration_counts_days:
  "(dateProration s e rng = None \<longleftrightarrow> daysInForce s e rng = {}) \<and>
   (case dateProration s e rng of
      None \<Rightarrow> True
    | Some p \<Rightarrow> activeDays p = int (card (daysInForce s e rng)) \<and>
        periodDays p = int (card {utcDayNumber s..utcDayNumber e}) \<and>
        1 \<le> activeDays p \<and> activeDays p \<le> periodDays p \<and>
        factor p = jdiv (Fin (of_int (activeDays p))) (Fin (of_int (periodDays p))) \<and>
        daysInForce s e rng = {utcDayNumber (activeFrom p)..utcDayNumber (activeTo p)})"
proof -
  define start where "start = (if utcDayStart s < utcDayStart (effectiveFrom rng) then utcDayStart (effectiveFrom rng) else utcDayStart s)"
  define until where "until = (case effectiveTo rng of Some t \<Rightarrow> utcDayStart t | None \<Rightarrow> utcDayStart e)"
  define stop where "stop = (if until < utcDayStart e then until else utcDayStart e)"
  define active where "active = inclusiveUtcDays start stop"
  define period where "period = inclusiveUtcDays (utcDayStart s) (utcDayStart e)"
  let ?p = "\<lparr>factor = jdiv (Fin (of_int active)) (Fin (of_int period)), activeDays = active, periodDays = period,
     activeFrom = start, activeTo = stop\<rparr>"
  have eq: "dateProration s e rng = (if period = 0 \<or> active = 0 then None else Some ?p)"
    unfolding dateProration_def Let_def start_def until_def stop_def active_def period_def ..
  have "utcDayNumber start = max (utcDayNumber s) (utcDayNumber (effectiveFrom rng))"
    by (simp add: start_def utcDayStart_mono)
  moreover have "utcDayNumber stop =
      (case effectiveTo rng of None \<Rightarrow> utcDayNumber e | Some t \<Rightarrow> min (utcDayNumber e) (utcDayNumber t))"
    by (auto simp: stop_def until_def utcDayStart_mono split: option.splits)
  ultimately have days: "daysInForce s e rng = {utcDayNumber start..utcDayNumber stop}"
    by (simp add: daysInForce_interval)
  have a: "active = int (card (daysInForce s e rng))" and p: "period = int (card {utcDayNumber s..utcDayNumber e})"
    by (simp_all only: active_def period_def inclusiveUtcDays_card days utcDayNumber_start)
  have sub: "daysInForce s e rng \<subseteq> {utcDayNumber s..utcDayNumber e}" by (auto simp: daysInForce_def)
  then have le: "card (daysInForce s e rng) \<le> card {utcDayNumber s..utcDayNumber e}" by (intro card_mono) auto
  have fin: "finite (daysInForce s e rng)" using sub finite_subset by blast
  show ?thesis
  proof (cases "daysInForce s e rng = {}")
    case True
    then have "dateProration s e rng = None" unfolding eq a by simp
    with True show ?thesis by simp
  next
    case False
    then have "0 < card (daysInForce s e rng)" using fin by (simp add: card_gt_0_iff)
    with a p le have pos: "1 \<le> active" "active \<le> period" by linarith+
    then have "dateProration s e rng = Some ?p" unfolding eq by simp
    with False pos a p days show ?thesis by (simp del: card_atLeastAtMost_int)
  qed
qed

text \<open>
  Who bears the tax: under GROSS the employee's deduction is the whole tax, under NET the
  employer bears it and the employee's net is untouched, and under GROSS_UP the allowance equals the tax
  deducted, which is the tax on the income with an allowance less than half a cent away, found within 100
  rounds. The tax is never negative.
\<close>

theorem tax_method_split:
  assumes "applyPayrollTaxMethod method income net calc = Inr r"
  shows "tm_method r = method \<and> (taxPayable r = NaN \<or> jnonneg (taxPayable r)) \<and> iterations r \<le> 100 \<and>
   (method = ''GROSS'' \<longrightarrow> employeeTaxDeduction r = taxPayable r \<and> employerBorneTax r = Fin 0 \<and>
      taxPayable r = roundedTax calc (mathMax (Fin 0) income) \<and> netAfterTax r = money (jsub net (taxPayable r))) \<and>
   (method = ''NET'' \<longrightarrow> employeeTaxDeduction r = Fin 0 \<and> employerBorneTax r = taxPayable r \<and>
      taxPayable r = roundedTax calc (mathMax (Fin 0) income) \<and> netAfterTax r = money net) \<and>
   (method = ''GROSS_UP'' \<longrightarrow> employeeTaxDeduction r = taxPayable r \<and> grossAdjustment r = taxPayable r \<and>
      employerBorneTax r = Fin 0 \<and>
      (mathMax (Fin 0) income = Fin 0 \<and> taxPayable r = Fin 0 \<or>
       (\<exists>a. taxPayable r = roundedTax calc (jadd (mathMax (Fin 0) income) a) \<and>
            jless (jabs (jsub (taxPayable r) a)) (double (5 / 1000)))))"
proof (cases "method = ''GROSS_UP''")
  case True
  let ?x = "mathMax (Fin 0) income"
  from assms True obtain g where g: "solveGrossUp ?x calc = Inr g"
    and r: "tm_method r = method" "taxPayable r = gu_tax g" "employeeTaxDeduction r = gu_tax g" "employerBorneTax r = Fin 0"
      "grossAdjustment r = gu_allowance g" "iterations r = gu_iterations g"
    by (auto simp: applyPayrollTaxMethod_def Let_def bindE_Inr)
  have nonneg: "\<not> jless ?x (Fin 0)" by (cases income) (auto simp: mathMax_def)
  show ?thesis
  proof (cases "?x = Fin 0")
    case True
    then show ?thesis using g r \<open>method = _\<close> by (auto simp: solveGrossUp_def jnonneg_def)
  next
    case False
    then have "grossUpLoop 100 1 ?x calc (roundedTax calc ?x) = Inr g"
      using g nonneg by (simp add: solveGrossUp_def)
    note res = grossUpLoop_result [OF this]
    then have "gu_tax g = NaN \<or> jnonneg (gu_tax g)" using roundedTax_nonneg by metis
    with res r \<open>method = _\<close> show ?thesis by auto
  qed
next
  case False
  with assms show ?thesis
    using roundedTax_nonneg [of calc "mathMax (Fin 0) income"]
    by (auto simp: applyPayrollTaxMethod_def Let_def split: if_splits)
qed

theorem tax_method_split_witness:
  "\<exists>r. applyPayrollTaxMethod ''GROSS_UP'' (Fin 1000) (Fin 900) (\<lambda>x. jmul x (double (1 / 10))) = Inr r \<and>
       employeeTaxDeduction r = grossAdjustment r"
proof -
  have "case applyPayrollTaxMethod ''GROSS_UP'' (Fin 1000) (Fin 900) (\<lambda>x. jmul x (double (1 / 10))) of
      Inl e \<Rightarrow> False | Inr r \<Rightarrow> True"
    by code_simp
  then obtain r where "applyPayrollTaxMethod ''GROSS_UP'' (Fin 1000) (Fin 900) (\<lambda>x. jmul x (double (1 / 10))) = Inr r"
    by (auto split: sum.splits)
  with tax_method_split [OF this] show ?thesis by simp
qed

end
