(* ===== verification/SerializableTx.thy ===== *)
theory SerializableTx
  imports JsText
begin

text \<open>
  The retry wrapper of serializable transactions, \<open>apps/api/src/common/serializable-tx.ts\<close>. What the
  database does with an attempt is an argument: \<open>env i\<close> is the code with which it aborts attempt \<open>i\<close>, if it
  does (a write conflict, a timeout, a connection limit). The wait between attempts takes time and changes
  no state; its length is \<open>backoffMs\<close>.
\<close>

definition MAX_RETRY :: nat where
  "MAX_RETRY = 3"

definition RETRYABLE :: "string list" where
  "RETRYABLE = [''P2034'', ''P2002'', ''P2024'', ''P2028'']"

text \<open>
  Only errors of the database client are retried; the text of such an error here is its five-character code
  followed by its message.
\<close>

definition containsText :: "string \<Rightarrow> string \<Rightarrow> bool" where
  "containsText part s \<longleftrightarrow> list_ex (\<lambda>i. take (length part) (drop i s) = part) [0..<Suc (length s)]"

fun isRetryable :: "exn \<Rightarrow> bool" where
  "isRetryable (PrismaError text) =
     (List.member RETRYABLE (take 5 text) \<or> containsText ''timeout'' (toLowerCase (drop 5 text)))"
| "isRetryable _ = False"

definition busyError :: exn where
  "busyError = Conflict ''Transaksi sibuk karena permintaan bersamaan; ulangi sesaat lagi.''"

definition backoffMs :: "nat \<Rightarrow> nat \<Rightarrow> nat" where
  "backoffMs attempt jitter = 50 * 3 ^ (attempt - 1) + jitter"

text \<open>One attempt: the body in a transaction that the database may abort instead of committing.\<close>

definition attemptTx :: "exn option \<Rightarrow> ('s, 'a) tx \<Rightarrow> ('s, 'a) tx" where
  "attemptTx abort fn s = (case abort of Some e \<Rightarrow> Inl e | None \<Rightarrow> fn s)"

text \<open>The \<open>while (true)\<close> loop, with the attempts made so far.\<close>

partial_function (option) retryLoop ::
    "nat \<Rightarrow> (nat \<Rightarrow> exn option) \<Rightarrow> nat \<Rightarrow> ('s, 'a) tx \<Rightarrow> 's \<Rightarrow> ((exn + 'a) \<times> 's \<times> nat) option" where
  "retryLoop maxRetry env attempt fn s = (case attemptTx (env attempt) fn s of
     Inr (x, s') \<Rightarrow> Some (Inr x, s', attempt + 1)
   | Inl e \<Rightarrow>
       if maxRetry < attempt + 1 \<or> \<not> isRetryable e
       then Some (Inl (if isRetryable e then busyError else e), s, attempt + 1)
       else retryLoop maxRetry env (attempt + 1) fn s)"

definition serializableTx ::
    "nat option \<Rightarrow> (nat \<Rightarrow> exn option) \<Rightarrow> ('s, 'a) tx \<Rightarrow> 's \<Rightarrow> ((exn + 'a) \<times> 's \<times> nat) option" where
  "serializableTx maxRetry env fn s =
     retryLoop (case maxRetry of Some n \<Rightarrow> n | None \<Rightarrow> MAX_RETRY) env 0 fn s"

section \<open>Retrying\<close>

definition failsRetryably :: "exn option \<Rightarrow> ('s, 'a) tx \<Rightarrow> 's \<Rightarrow> bool" where
  "failsRetryably abort fn s = (case attemptTx abort fn s of Inl e \<Rightarrow> isRetryable e | Inr _ \<Rightarrow> False)"

text \<open>How a run of \<open>n\<close> attempts ends: on a commit, on an error that is not retried, or out of retries.\<close>

definition endsWith :: "nat \<Rightarrow> (nat \<Rightarrow> exn option) \<Rightarrow> nat \<Rightarrow> ('s, 'a) tx \<Rightarrow> 's \<Rightarrow> exn + 'a \<Rightarrow> 's \<Rightarrow> bool" where
  "endsWith m env n fn s r s' = (case r of
     Inr x \<Rightarrow> fn s = Inr (x, s') \<and> env (n - 1) = None
   | Inl e \<Rightarrow> s' = s \<and>
       (if failsRetryably (env (n - 1)) fn s then e = busyError \<and> n = m + 1
        else attemptTx (env (n - 1)) fn s = Inl e))"

lemma retryLoop_returns:
  "attempt \<le> m \<Longrightarrow> \<exists>r s' n. retryLoop m env attempt fn s = Some (r, s', n) \<and> n \<le> m + 1 \<and> attempt < n \<and>
     list_all (\<lambda>i. failsRetryably (env i) fn s) [attempt..<n - 1] \<and> endsWith m env n fn s r s'"
proof (induction "m - attempt" arbitrary: attempt)
  case 0
  then have m: "attempt = m" by simp
  show ?case
  proof (cases "attemptTx (env m) fn s")
    case (Inl e)
    then show ?thesis unfolding m
      by (subst retryLoop.simps) (simp add: endsWith_def failsRetryably_def)
  next
    case (Inr p)
    then show ?thesis unfolding m
      by (subst retryLoop.simps) (cases p; cases "env m"; auto simp: attemptTx_def endsWith_def)
  qed
next
  case (Suc k)
  show ?case
  proof (cases "attemptTx (env attempt) fn s")
    case (Inr p)
    then show ?thesis using Suc.prems
      by (subst retryLoop.simps) (cases p; cases "env attempt"; auto simp: attemptTx_def endsWith_def)
  next
    case (Inl e)
    show ?thesis
    proof (cases "isRetryable e")
      case False
      with Inl Suc.prems show ?thesis
        by (subst retryLoop.simps) (simp add: endsWith_def failsRetryably_def)
    next
      case True
      have k: "k = m - (attempt + 1)" "attempt + 1 \<le> m" using Suc.hyps(2) by simp_all
      have next': "retryLoop m env attempt fn s = retryLoop m env (attempt + 1) fn s"
        by (subst retryLoop.simps) (use Inl True k in simp)
      from Suc.hyps(1) [OF k] obtain r s' n where r: "retryLoop m env (attempt + 1) fn s = Some (r, s', n)"
        "n \<le> m + 1" "attempt + 1 < n" "list_all (\<lambda>i. failsRetryably (env i) fn s) [attempt + 1..<n - 1]"
        "endsWith m env n fn s r s'"
        by blast
      moreover have "[attempt..<n - 1] = attempt # [attempt + 1..<n - 1]" using r(3) by (subst upt_rec) simp
      moreover have "failsRetryably (env attempt) fn s" using Inl True by (simp add: failsRetryably_def)
      ultimately show ?thesis by (intro exI [of _ r] exI [of _ s'] exI [of _ n]) (simp add: next')
    qed
  qed
qed

text \<open>
  C28. The wrapper always returns, after at most \<open>maxRetry + 1\<close> attempts, all but the last of which
  failed with a retryable error; when it returns a value the body committed exactly once, from the state of
  the call; when it throws the state is untouched and the error is the last attempt's, or the busy error
  when that one was retryable too.
\<close>

theorem serializableTx_atomic:
  "\<exists>r s' n. serializableTx maxRetry env fn s = Some (r, s', n) \<and>
     1 \<le> n \<and> n \<le> (case maxRetry of Some k \<Rightarrow> k | None \<Rightarrow> 3) + 1 \<and>
     list_all (\<lambda>i. failsRetryably (env i) fn s) [0..<n - 1] \<and>
     endsWith (case maxRetry of Some k \<Rightarrow> k | None \<Rightarrow> 3) env n fn s r s'"
proof -
  define m where "m = (case maxRetry of Some k \<Rightarrow> k | None \<Rightarrow> 3)"
  have "serializableTx maxRetry env fn s = retryLoop m env 0 fn s"
    by (simp add: serializableTx_def m_def MAX_RETRY_def split: option.splits)
  with retryLoop_returns [of 0 m env fn s] show ?thesis
    unfolding m_def [symmetric] by (auto simp: Suc_le_eq)
qed

end
