(* ===== verification/JsConvert.thy ===== *)
theory JsConvert
  imports JsNumber JsText
begin

text \<open>
  Conversions of the language: \<open>Number(text)\<close>, \<open>Number(value)\<close> on JSON values, \<open>Number.isInteger\<close>.
\<close>

section \<open>Number of a text\<close>

definition pow10 :: "int \<Rightarrow> rat" where
  "pow10 k = (if 0 \<le> k then 10 ^ nat k else 1 / 10 ^ nat (- k))"

definition exponentOf :: "string \<Rightarrow> int option" where
  "exponentOf s = (case s of
     [] \<Rightarrow> Some 0
   | c # r \<Rightarrow>
       if c \<noteq> CHR ''e'' \<and> c \<noteq> CHR ''E'' then None
       else let (neg, ds) = (case r of [] \<Rightarrow> (False, [])
              | d # r' \<Rightarrow> if d = CHR ''-'' then (True, r') else if d = CHR ''+'' then (False, r') else (False, r))
            in if ds = [] \<or> \<not> list_all isDigit ds then None
               else Some (if neg then - int (decimalValue ds) else int (decimalValue ds)))"

definition unsignedDecimal :: "string \<Rightarrow> js_number" where
  "unsignedDecimal s =
     (if s = ''Infinity'' then PosInf
      else let whole = takeWhile isDigit s; r1 = dropWhile isDigit s;
               dotted = (r1 \<noteq> [] \<and> hd r1 = CHR ''.'');
               frac = (if dotted then takeWhile isDigit (tl r1) else []);
               r2 = (if dotted then dropWhile isDigit (tl r1) else r1)
           in if whole = [] \<and> frac = [] then NaN
              else case exponentOf r2 of
                  None \<Rightarrow> NaN
                | Some e \<Rightarrow> double (of_nat (decimalValue (whole @ frac)) * pow10 (e - int (length frac))))"

definition digitOfBase :: "nat \<Rightarrow> char \<Rightarrow> nat option" where
  "digitOfBase base c =
     (let n = of_char c :: nat;
          d = (if 48 \<le> n \<and> n \<le> 57 then n - 48 else if 97 \<le> n \<and> n \<le> 102 then n - 87
               else if 65 \<le> n \<and> n \<le> 70 then n - 55 else base)
      in if d < base then Some d else None)"

definition baseNumber :: "nat \<Rightarrow> string \<Rightarrow> js_number" where
  "baseNumber base ds =
     (if ds = [] \<or> list_ex (\<lambda>c. digitOfBase base c = None) ds then NaN
      else double (of_nat (foldl (\<lambda>v c. base * v + the (digitOfBase base c)) 0 ds)))"

definition numberOfString :: "string \<Rightarrow> js_number" where
  "numberOfString text =
     (let s = trim text in
      if s = '''' then Fin 0
      else if take 2 s = ''0x'' \<or> take 2 s = ''0X'' then baseNumber 16 (drop 2 s)
      else if take 2 s = ''0o'' \<or> take 2 s = ''0O'' then baseNumber 8 (drop 2 s)
      else if take 2 s = ''0b'' \<or> take 2 s = ''0B'' then baseNumber 2 (drop 2 s)
      else if hd s = CHR ''-'' then jneg (unsignedDecimal (tl s))
      else if hd s = CHR ''+'' then unsignedDecimal (tl s)
      else unsignedDecimal s)"

fun isInteger :: "js_number \<Rightarrow> bool" where
  "isInteger (Fin x) = (of_int \<lfloor>x\<rfloor> = x)"
| "isInteger _ = False"

section \<open>Number of a JSON value\<close>

datatype json = JNull | JBool bool | JNumber js_number | JString string | JArray "json list"
  | JObject "(string \<times> json) list"

text \<open>
  An array converts through its text: an empty one is the empty string, one element is that element's text,
  more put a comma in it.
\<close>

fun elementNumber :: "json \<Rightarrow> js_number" where
  "elementNumber JNull = Fin 0"
| "elementNumber (JBool b) = NaN"
| "elementNumber (JNumber n) = n"
| "elementNumber (JString s) = numberOfString s"
| "elementNumber (JArray []) = Fin 0"
| "elementNumber (JArray [x]) = elementNumber x"
| "elementNumber (JArray (x # y # zs)) = NaN"
| "elementNumber (JObject fs) = NaN"

fun toNumber :: "json \<Rightarrow> js_number" where
  "toNumber (JBool b) = Fin (if b then 1 else 0)"
| "toNumber v = elementNumber v"

text \<open>Property access on a value that came from JSON; \<open>None\<close> is \<open>undefined\<close>.\<close>

fun jsonField :: "string \<Rightarrow> json \<Rightarrow> json option" where
  "jsonField name (JObject fs) = map_of fs name"
| "jsonField name _ = None"

text \<open>\<open>x ?? 0\<close> under \<open>Number\<close>.\<close>

definition numberOrZero :: "json option \<Rightarrow> js_number" where
  "numberOrZero v = (case v of None \<Rightarrow> Fin 0 | Some JNull \<Rightarrow> Fin 0 | Some x \<Rightarrow> toNumber x)"

lemma numberOfString_examples:
  "numberOfString ''2.5'' = double (5 / 2)" "numberOfString '' 7 '' = Fin 7" "numberOfString ''0x1F'' = Fin 31"
  "numberOfString ''-.5'' = double (- 1 / 2)" "numberOfString ''7a'' = NaN"
  by code_simp+

end
