(* ===== verification/Pagination.thy ===== *)
theory Pagination
  imports JsConvert
begin

text \<open>
  Cursor pages, \<open>apps/api/src/common/pagination.ts\<close>. The cursor text (Base64 of JSON) is the argument
  \<open>encodeCursor\<close>; \<open>readCursor\<close> is what decoding it and parsing the JSON yields, \<open>None\<close> when that throws. The listings
  built on it are in the theories of their services.
\<close>

section \<open>Operations\<close>

definition DEFAULT_PAGE_LIMIT :: int where
  "DEFAULT_PAGE_LIMIT = 50"

definition MAX_PUBLIC_PAGE_LIMIT :: int where
  "MAX_PUBLIC_PAGE_LIMIT = 100"

definition parsePageLimit :: "string option \<Rightarrow> int \<Rightarrow> exn + int" where
  "parsePageLimit value maximum =
     (if value = None \<or> value = Some '''' then Inr DEFAULT_PAGE_LIMIT
      else let parsed = numberOfString (the value) in
        if \<not> isInteger parsed \<or> jless parsed (Fin 1)
        then Inl (BadRequest ''limit harus berupa bilangan bulat positif.'')
        else case parsed of Fin x \<Rightarrow> Inr (min \<lfloor>x\<rfloor> maximum) | _ \<Rightarrow> Inr maximum)"

record ('a, 'c) cursor_page =
  pg_items :: "'a list"
  pg_limit :: nat
  pg_hasMore :: bool
  pg_nextCursor :: "'c option"

definition decodeCursor :: "(string \<Rightarrow> json option) \<Rightarrow> string option \<Rightarrow> exn + json option" where
  "decodeCursor readCursor cursor = (case cursor of
     None \<Rightarrow> Inr None
   | Some [] \<Rightarrow> Inr None
   | Some c \<Rightarrow> (case readCursor c of
        Some (JObject fs) \<Rightarrow> Inr (Some (JObject fs))
      | _ \<Rightarrow> Inl (BadRequest ''cursor tidak valid.'')))"

definition toCursorPage :: "('k \<Rightarrow> 'c) \<Rightarrow> 'a list \<Rightarrow> nat \<Rightarrow> ('a \<Rightarrow> 'k) \<Rightarrow> ('a, 'c) cursor_page" where
  "toCursorPage encodeCursor rows limit cursorOf =
     (let hasMore = limit < length rows;
          items = (if hasMore then take limit rows else rows)
      in \<lparr>pg_items = items, pg_limit = limit, pg_hasMore = hasMore,
          pg_nextCursor = (if hasMore \<and> items \<noteq> [] then Some (encodeCursor (cursorOf (last items))) else None)\<rparr>)"

section \<open>Walking the pages\<close>

text \<open>
  A client that follows the cursors of a listing: it asks with the cursor it was given until it is given none.
  The walk is \<open>None\<close> when a request fails or the fuel runs out before the last page.
\<close>

fun walkPages :: "nat \<Rightarrow> (string option \<Rightarrow> exn + ('a, string) cursor_page) \<Rightarrow> string option \<Rightarrow> 'a list list option" where
  "walkPages 0 fetch cursor = None"
| "walkPages (Suc n) fetch cursor = (case fetch cursor of
     Inl e \<Rightarrow> None
   | Inr page \<Rightarrow> (case pg_nextCursor page of
        None \<Rightarrow> Some [pg_items page]
      | Some c \<Rightarrow> map_option (\<lambda>pages. pg_items page # pages) (walkPages n fetch (Some c))))"

text \<open>The pages a list should be shown in: full ones, and a last one with what is left.\<close>

function pagesOf :: "nat \<Rightarrow> 'a list \<Rightarrow> 'a list list" where
  "pagesOf limit rows = (if limit = 0 \<or> length rows \<le> limit then [rows] else take limit rows # pagesOf limit (drop limit rows))"
  by pat_completeness auto
termination by (relation "measure (\<lambda>(limit, rows). length rows)") auto

declare pagesOf.simps [simp del]

lemma concat_pagesOf: "concat (pagesOf limit rows) = rows"
proof (induction limit rows rule: pagesOf.induct)
  case (1 limit rows)
  then show ?case by (simp add: pagesOf.simps [of limit rows])
qed

lemma length_pagesOf:
  assumes "1 \<le> limit"
  shows "length (pagesOf limit rows) = Suc ((length rows - 1) div limit)"
  using assms
proof (induction limit rows rule: pagesOf.induct)
  case (1 limit rows)
  show ?case
  proof (cases "length rows \<le> limit")
    case True
    then show ?thesis using "1.prems" by (simp add: pagesOf.simps [of limit rows])
  next
    case False
    then have "length rows - 1 = (length rows - limit - 1) + limit" by simp
    moreover have "((length rows - limit - 1) + limit) div limit = Suc ((length rows - limit - 1) div limit)" using "1.prems" by simp
    ultimately have "(length rows - 1) div limit = Suc ((length rows - limit - 1) div limit)" by argo
    moreover have "pagesOf limit rows = take limit rows # pagesOf limit (drop limit rows)"
      using False "1.prems" by (simp add: pagesOf.simps [of limit rows])
    ultimately show ?thesis using "1.IH" "1.prems" False by simp
  qed
qed

lemma pagesOf_nonempty: "pagesOf limit rows \<noteq> []"
  by (subst pagesOf.simps) simp

lemma pagesOf_full: "page \<in> set (butlast (pagesOf limit rows)) \<Longrightarrow> length page = limit"
proof (induction limit rows rule: pagesOf.induct)
  case (1 limit rows)
  show ?case
  proof (cases "limit = 0 \<or> length rows \<le> limit")
    case True
    then show ?thesis using "1.prems" by (simp add: pagesOf.simps [of limit rows])
  next
    case False
    have "page = take limit rows \<or> page \<in> set (butlast (pagesOf limit (drop limit rows)))"
      using "1.prems" False by (simp add: pagesOf.simps [of limit rows] pagesOf_nonempty)
    then show ?thesis using "1.IH" [OF False] False by auto
  qed
qed

text \<open>
  A listing answers the first rows of what its query finds: the whole list without a cursor, the rows that
  follow the cursor's row with one. Its pages are then the pages of the list.
\<close>

lemma walkPages_exact:
  assumes page: "fetch None = Inr (toCursorPage (\<lambda>c. c) (take (limit + 1) rows) limit cursorText)"
    and onward: "\<And>r. r \<in> set rows \<Longrightarrow>
      fetch (Some (cursorText r)) = Inr (toCursorPage (\<lambda>c. c) (take (limit + 1) (filter (follows r) rows)) limit cursorText)"
    and ordered: "sorted_wrt follows rows" and asym: "\<And>a b. follows a b \<Longrightarrow> \<not> follows b a"
    and limit: "1 \<le> limit"
  shows "walkPages n fetch None = (if length (pagesOf limit rows) \<le> n then Some (pagesOf limit rows) else None)"
proof -
  have walk: "walkPages n fetch cursor = (if length (pagesOf limit rest) \<le> n then Some (pagesOf limit rest) else None)"
    if "rows = before @ rest" and "fetch cursor = Inr (toCursorPage (\<lambda>c. c) (take (limit + 1) rest) limit cursorText)" for n before rest cursor
    using that
  proof (induction n arbitrary: before rest cursor)
    case 0
    then show ?case using pagesOf_nonempty [of limit rest] by simp
  next
    case (Suc n)
    show ?case
    proof (cases "length rest \<le> limit")
      case True
      then show ?thesis using Suc.prems(2) limit by (simp add: pagesOf.simps [of limit rest] toCursorPage_def)
    next
      case False
      obtain us r where ur: "take limit rest = us @ [r]" using False limit by (metis rev_exhaust take_eq_Nil not_one_le_zero list.size(3) zero_le)
      then have split: "rows = (before @ us) @ r # drop limit rest"
        using Suc.prems(1) append_take_drop_id [of limit rest] by (metis append.assoc append_Cons append_Nil)
      then have "filter (follows r) rows = drop limit rest"
        using ordered asym by (auto simp: sorted_wrt_append filter_empty_conv filter_id_conv)
      then have "fetch (Some (cursorText r)) = Inr (toCursorPage (\<lambda>c. c) (take (limit + 1) (drop limit rest)) limit cursorText)"
        using onward [of r] split by simp
      moreover have "rows = (before @ us @ [r]) @ drop limit rest" using split by simp
      moreover have pages: "pagesOf limit rest = take limit rest # pagesOf limit (drop limit rest)"
        using False limit by (simp add: pagesOf.simps [of limit rest])
      ultimately have "walkPages n fetch (Some (cursorText r)) =
          (if length (pagesOf limit (drop limit rest)) \<le> n then Some (pagesOf limit (drop limit rest)) else None)"
        by (intro Suc.IH)
      moreover have "pg_items p = take limit rest \<and> pg_nextCursor p = Some (cursorText r)"
        if "p = toCursorPage (\<lambda>c. c) (take (limit + 1) rest) limit cursorText" for p
        using that False ur by (simp add: toCursorPage_def Let_def min_def)
      ultimately show ?thesis using Suc.prems(2) pages by simp
    qed
  qed
  show ?thesis by (rule walk [of "[]"]) (use page in simp_all)
qed

end
