(* ===== verification/LoyaltyTier.thy ===== *)
theory LoyaltyTier
  imports JsConvert
begin

text \<open>
  Loyalty tiers, \<open>apps/api/src/common/loyalty-tier.ts\<close>: the tiers come from a company setting of unknown
  shape. \<open>collate a b\<close> stands for \<open>a.localeCompare(b)\<close>, whose collation the host's locale decides.
\<close>

section \<open>Operations\<close>

record tier =
  tr_code :: string
  tr_minPoints :: js_number
  tr_discountPct :: js_number

definition memberTier :: tier where
  "memberTier = \<lparr>tr_code = ''MEMBER'', tr_minPoints = Fin 0, tr_discountPct = Fin 0\<rparr>"

text \<open>One element of the setting: dropped unless it is an object with a code and usable numbers.\<close>

definition normalizeTier :: "json \<Rightarrow> tier option" where
  "normalizeTier value = (case value of
     JObject fs \<Rightarrow>
       let code = (case jsonField ''code'' value of Some (JString c) \<Rightarrow> toUpperCase (trim c) | _ \<Rightarrow> '''');
           minPoints = numberOrZero (jsonField ''minPoints'' value);
           discountPct = numberOrZero (jsonField ''discountPct'' value)
       in if code = '''' \<or> \<not> isFinite minPoints \<or> jless minPoints (Fin 0) \<or> \<not> isFinite discountPct then None
          else Some \<lparr>tr_code = code, tr_minPoints = mathFloor minPoints,
                     tr_discountPct = mathMin (Fin 50) (mathMax (Fin 0) discountPct)\<rparr>
   | _ \<Rightarrow> None)"

text \<open>The comparator \<open>b.minPoints - a.minPoints || a.code.localeCompare(b.code)\<close>, when it is not positive.\<close>

definition tierPrecedes :: "(string \<Rightarrow> string \<Rightarrow> int) \<Rightarrow> tier \<Rightarrow> tier \<Rightarrow> bool" where
  "tierPrecedes collate a b =
     (let d = jsub (tr_minPoints b) (tr_minPoints a) in
      if d = Fin 0 \<or> d = NaN then collate (tr_code a) (tr_code b) \<le> 0 else jless d (Fin 0))"

definition lifetimeOf :: "js_number \<Rightarrow> js_number" where
  "lifetimeOf lifetimePoints = (if isFinite lifetimePoints then mathMax (Fin 0) (mathFloor lifetimePoints) else Fin 0)"

definition candidateTiers :: "json \<Rightarrow> js_number \<Rightarrow> tier list" where
  "candidateTiers tiersValue lifetime =
     filter (\<lambda>t. \<not> jless lifetime (tr_minPoints t))
       (List.map_filter normalizeTier (case tiersValue of JArray xs \<Rightarrow> xs | _ \<Rightarrow> []))"

definition resolveLoyaltyTier :: "(string \<Rightarrow> string \<Rightarrow> int) \<Rightarrow> json \<Rightarrow> js_number \<Rightarrow> tier" where
  "resolveLoyaltyTier collate tiersValue lifetimePoints =
     (case sortBy (tierPrecedes collate) (candidateTiers tiersValue (lifetimeOf lifetimePoints)) of
        [] \<Rightarrow> memberTier
      | t # _ \<Rightarrow> t)"

section \<open>Normalised tiers\<close>

definition tierOk :: "tier \<Rightarrow> bool" where
  "tierOk t \<longleftrightarrow> (\<exists>p d. tr_minPoints t = Fin (of_int p) \<and> 0 \<le> p \<and> tr_discountPct t = Fin d \<and> 0 \<le> d \<and> d \<le> 50) \<and>
     tr_code t \<noteq> ''''"

lemma normalizeTier_ok: "normalizeTier v = Some t \<Longrightarrow> tierOk t"
proof (cases v)
  case (JObject fs)
  assume a: "normalizeTier v = Some t"
  define m where "m = numberOrZero (jsonField ''minPoints'' v)"
  define d where "d = numberOrZero (jsonField ''discountPct'' v)"
  from a JObject have f: "isFinite m" "\<not> jless m (Fin 0)" "isFinite d"
    and t: "tr_minPoints t = mathFloor m" "tr_discountPct t = mathMin (Fin 50) (mathMax (Fin 0) d)" "tr_code t \<noteq> ''''"
    unfolding m_def d_def by (auto simp: normalizeTier_def Let_def split: if_splits)
  from f obtain x y where m: "m = Fin x" and d: "d = Fin y" by (auto simp: isFinite_iff)
  then have "0 \<le> \<lfloor>x\<rfloor>" using f by simp
  moreover have "tr_minPoints t = Fin (of_int \<lfloor>x\<rfloor>)" using t m by (simp add: mathFloor_def)
  moreover have "\<exists>z. tr_discountPct t = Fin z \<and> 0 \<le> z \<and> z \<le> 50"
    unfolding t d by (simp add: mathMin_def mathMax_def)
  ultimately show "tierOk t" using t(3) unfolding tierOk_def by blast
qed (simp_all add: normalizeTier_def)

lemma candidate_ok:
  assumes "t \<in> set (candidateTiers v lifetime)"
  shows "tierOk t \<and> \<not> jless lifetime (tr_minPoints t)"
  using assms normalizeTier_ok by (auto simp: candidateTiers_def List.map_filter_def)

lemma tierPrecedes_int:
  assumes "tr_minPoints a = Fin (of_int p)" and "tr_minPoints b = Fin (of_int q)"
  shows "tierPrecedes collate a b \<longleftrightarrow> (if p = q then collate (tr_code a) (tr_code b) \<le> 0 else q < p)"
proof (cases "p = q")
  case True
  then show ?thesis by (simp add: tierPrecedes_def assms jsub_def double_def)
next
  case False
  then have "1 \<le> \<bar>of_int q - of_int p :: rat\<bar>"
  proof -
    have "1 \<le> \<bar>q - p\<bar>" using False by arith
    then have "(of_int 1 :: rat) \<le> of_int \<bar>q - p\<bar>" by (simp only: of_int_le_iff)
    then show ?thesis by simp
  qed
  from double_sign [OF this] False show ?thesis
    by (auto simp: tierPrecedes_def assms jsub_def Let_def)
qed

text \<open>A comparison of texts that is total and transitive, as \<open>localeCompare\<close> is documented to be.\<close>

definition collation :: "(string \<Rightarrow> string \<Rightarrow> int) \<Rightarrow> bool" where
  "collation collate \<longleftrightarrow> totalPreorder (\<lambda>a b. collate a b \<le> 0) UNIV"

lemma tierPrecedes_preorder:
  assumes "collation collate" and "\<forall>t \<in> A. tierOk t"
  shows "totalPreorder (tierPrecedes collate) A"
proof -
  have p: "\<exists>p. tr_minPoints t = Fin (of_int p)" if "t \<in> A" for t using assms(2) that by (auto simp: tierOk_def)
  have "tierPrecedes collate x y \<or> tierPrecedes collate y x" if "x \<in> A" "y \<in> A" for x y
    using p [OF that(1)] p [OF that(2)] totalPreorder_total [OF assms(1) [unfolded collation_def]]
    by (auto simp: tierPrecedes_int)
  moreover have "tierPrecedes collate x z"
    if "x \<in> A" "y \<in> A" "z \<in> A" "tierPrecedes collate x y" "tierPrecedes collate y z" for x y z
    using p [OF that(1)] p [OF that(2)] p [OF that(3)] that(4,5) totalPreorder_trans [OF assms(1) [unfolded collation_def]]
    by (auto simp: tierPrecedes_int split: if_splits)
  ultimately show ?thesis unfolding totalPreorder_def by blast
qed

section \<open>Properties\<close>

text \<open>
  Whatever the setting holds, the tier of a customer is the highest configured tier the lifetime
  points reach, or the plain member when they reach none, and its discount lies between 0 and 50 per cent.
\<close>

theorem loyalty_tier_highest:
  assumes "collation collate"
  shows "let t = resolveLoyaltyTier collate tiers points; candidates = candidateTiers tiers (lifetimeOf points) in
    (if candidates = [] then t = memberTier
     else t \<in> set candidates \<and> (\<forall>c. c \<in> set candidates \<longrightarrow> \<not> jless (tr_minPoints t) (tr_minPoints c))) \<and>
    (\<exists>d. tr_discountPct t = Fin d \<and> 0 \<le> d \<and> d \<le> 50)"
proof -
  let ?cs = "candidateTiers tiers (lifetimeOf points)"
  have ok: "\<forall>t \<in> set ?cs. tierOk t" using candidate_ok by blast
  show ?thesis
  proof (cases "sortBy (tierPrecedes collate) ?cs")
    case Nil
    then have "?cs = []" using set_sortBy [of "tierPrecedes collate" ?cs] by simp
    with Nil show ?thesis by (simp add: resolveLoyaltyTier_def memberTier_def)
  next
    case (Cons t rest)
    from sortBy_first [OF tierPrecedes_preorder [OF assms ok] Cons]
    have t: "t \<in> set ?cs" and first: "\<forall>c \<in> set ?cs. tierPrecedes collate t c" by auto
    then obtain p d where p: "tr_minPoints t = Fin (of_int p)" "tr_discountPct t = Fin d" "0 \<le> d" "d \<le> 50"
      using ok by (auto simp: tierOk_def)
    have "\<not> jless (tr_minPoints t) (tr_minPoints c)" if c: "c \<in> set ?cs" for c
    proof -
      obtain q where "tr_minPoints c = Fin (of_int q)" using c ok by (auto simp: tierOk_def)
      then show ?thesis using first c p by (auto simp: tierPrecedes_int split: if_splits)
    qed
    with t p Cons show ?thesis by (auto simp: resolveLoyaltyTier_def Let_def)
  qed
qed

definition exTiers :: json where
  "exTiers = JArray [JObject [(''code'', JString '' silver''), (''minPoints'', JNumber (Fin 100)), (''discountPct'', JString ''5'')],
     JObject [(''code'', JString ''GOLD''), (''minPoints'', JNumber (Fin 500)), (''discountPct'', JNumber (Fin 90))], JNull]"

definition exCollate :: "string \<Rightarrow> string \<Rightarrow> int" where
  "exCollate a b = (if a < b then - 1 else if a = b then 0 else 1)"

theorem loyalty_tier_highest_witness:
  "tr_discountPct (resolveLoyaltyTier exCollate exTiers (Fin 700)) = Fin 50 \<and>
   (\<exists>d. tr_discountPct (resolveLoyaltyTier exCollate exTiers (Fin 700)) = Fin d \<and> d \<le> 50)"
proof -
  have "collation exCollate"
    by (auto simp: collation_def totalPreorder_def exCollate_def split: if_splits)
  from loyalty_tier_highest [OF this, of exTiers "Fin 700"]
  have "\<exists>d. tr_discountPct (resolveLoyaltyTier exCollate exTiers (Fin 700)) = Fin d \<and> d \<le> 50"
    unfolding Let_def by blast
  moreover have "tr_discountPct (resolveLoyaltyTier exCollate exTiers (Fin 700)) = Fin 50" by code_simp
  ultimately show ?thesis by blast
qed

end
