(* ===== verification/Totp.thy ===== *)
theory Totp
  imports JsText "HOL-Library.Word"
begin

unbundle bit_operations_syntax

text \<open>
  One-time passwords and recovery codes, \<open>apps/api/src/auth/totp.ts\<close>. A \<open>Buffer\<close> is a list of bytes;
  \<open>hmac\<close> is the SHA-1 HMAC of \<open>node:crypto\<close>, an argument, of which the code relies on the digest having 20
  bytes. Random bytes are arguments too.
\<close>

section \<open>Base32\<close>

type_synonym byte = "8 word"

definition ALPHABET :: string where
  "ALPHABET = ''ABCDEFGHIJKLMNOPQRSTUVWXYZ234567''"

text \<open>\<open>n.toString(2).padStart(k, '0')\<close> for \<open>n < 2^k\<close>, and \<open>Number.parseInt(bits, 2)\<close>.\<close>

primrec bitText :: "nat \<Rightarrow> nat \<Rightarrow> bool list" where
  "bitText 0 n = []"
| "bitText (Suc k) n = bitText k (n div 2) @ [odd n]"

definition parseBits :: "bool list \<Rightarrow> nat" where
  "parseBits bs = foldl (\<lambda>v b. 2 * v + of_bool b) 0 bs"

definition padEndBits :: "nat \<Rightarrow> bool list \<Rightarrow> bool list" where
  "padEndBits k bs = bs @ replicate (k - length bs) False"

function chunks5 :: "bool list \<Rightarrow> bool list list" where
  "chunks5 bs = (if bs = [] then [] else padEndBits 5 (take 5 bs) # chunks5 (drop 5 bs))"
  by pat_completeness auto
termination
  by (relation "measure length") auto

function chunks8 :: "bool list \<Rightarrow> bool list list" where
  "chunks8 bs = (if length bs < 8 then [] else take 8 bs # chunks8 (drop 8 bs))"
  by pat_completeness auto
termination
  by (relation "measure length") auto

declare chunks5.simps [simp del] chunks8.simps [simp del]

definition base32Encode :: "byte list \<Rightarrow> string" where
  "base32Encode input = map (\<lambda>chunk. ALPHABET ! parseBits chunk) (chunks5 (concat (map (\<lambda>b. bitText 8 (unat b)) input)))"

definition indexOf :: "string \<Rightarrow> char \<Rightarrow> nat option" where
  "indexOf s c = (let i = length (takeWhile (\<lambda>x. x \<noteq> c) s) in if i < length s then Some i else None)"

definition normalizeBase32 :: "string \<Rightarrow> string" where
  "normalizeBase32 input =
     filter (\<lambda>c. \<not> isSpace c) (rev (dropWhile (\<lambda>c. c = CHR ''='') (rev (toUpperCase input))))"

fun charBits :: "string \<Rightarrow> exn + bool list" where
  "charBits [] = Inr []"
| "charBits (c # cs) = (case indexOf ALPHABET c of
     None \<Rightarrow> Inl (PlainError ''Base32 secret tidak valid.'')
   | Some v \<Rightarrow> bindE (charBits cs) (\<lambda>bits. Inr (bitText 5 v @ bits)))"

definition base32Decode :: "string \<Rightarrow> exn + byte list" where
  "base32Decode input = bindE (charBits (normalizeBase32 input)) (\<lambda>bits.
     Inr (map (\<lambda>chunk. word_of_nat (parseBits chunk)) (chunks8 bits)))"

definition generateTotpSecret :: "byte list \<Rightarrow> string" where
  "generateTotpSecret random = base32Encode random"

section \<open>Codes\<close>

type_synonym hmac = "byte list \<Rightarrow> byte list \<Rightarrow> byte list"

definition bigEndian64 :: "nat \<Rightarrow> byte list" where
  "bigEndian64 n = map (\<lambda>i. word_of_nat (n div 256 ^ (7 - i))) [0..<8]"

definition truncated :: "byte list \<Rightarrow> 32 word" where
  "truncated digest =
     (let offset = unat (last digest AND 0x0f)
      in push_bit 24 (ucast (digest ! offset AND 0x7f)) OR push_bit 16 (ucast (digest ! (offset + 1)))
         OR push_bit 8 (ucast (digest ! (offset + 2))) OR ucast (digest ! (offset + 3)))"

text \<open>\<open>writeBigUInt64BE\<close> throws on a negative counter.\<close>

definition hotp :: "hmac \<Rightarrow> string \<Rightarrow> int \<Rightarrow> nat \<Rightarrow> exn + string" where
  "hotp hmac secret counter digits =
     bindE (base32Decode secret) (\<lambda>key.
     if counter < 0 then Inl (PlainError ''The value of \"value\" is out of range.'')
     else let digest = hmac key (bigEndian64 (nat counter))
          in Inr (padStart digits CHR ''0'' (natText (unat (truncated digest) mod 10 ^ digits))))"

fun anyCode :: "hmac \<Rightarrow> string \<Rightarrow> string \<Rightarrow> int list \<Rightarrow> exn + bool" where
  "anyCode hmac secret supplied [] = Inr False"
| "anyCode hmac secret supplied (c # cs) = bindE (hotp hmac secret c 6) (\<lambda>candidate.
     if candidate = supplied then Inr True else anyCode hmac secret supplied cs)"

definition verifyTotp :: "hmac \<Rightarrow> string \<Rightarrow> string \<Rightarrow> int \<Rightarrow> int \<Rightarrow> exn + bool" where
  "verifyTotp hmac secret code now window =
     (let normalized = filter (\<lambda>c. \<not> isSpace c) code in
      if \<not> (length normalized = 6 \<and> list_all isDigit normalized) then Inr False
      else let counter = now div 30000
           in anyCode hmac secret normalized (map (\<lambda>drift. counter + drift) [- window..window]))"

definition hexDigit :: "nat \<Rightarrow> char" where
  "hexDigit d = (if d < 10 then digitChar d else char_of (55 + d))"

definition percentByte :: "nat \<Rightarrow> string" where
  "percentByte n = [CHR ''%'', hexDigit (n div 16), hexDigit (n mod 16)]"

definition isUnreserved :: "char \<Rightarrow> bool" where
  "isUnreserved c \<longleftrightarrow> isDigit c \<or> (let n = of_char c :: nat in (65 \<le> n \<and> n \<le> 90) \<or> (97 \<le> n \<and> n \<le> 122)) \<or>
     List.member [CHR ''-'', CHR ''_'', CHR ''.'', CHR ''!'', CHR ''~'', CHR ''*'', CHR 0x27, CHR ''('', CHR '')''] c"

text \<open>Characters up to \<open>U+00FF\<close>: one byte of UTF-8 below 128, two from there on.\<close>

definition encodeURIComponent :: "string \<Rightarrow> string" where
  "encodeURIComponent s = concat (map (\<lambda>c. let n = of_char c :: nat in
     if isUnreserved c then [c] else if n < 128 then percentByte n
     else percentByte (192 + n div 64) @ percentByte (128 + n mod 64)) s)"

definition buildTotpUri :: "string \<Rightarrow> string \<Rightarrow> string \<Rightarrow> string" where
  "buildTotpUri secret email issuer =
     ''otpauth://totp/'' @ encodeURIComponent (issuer @ '':'' @ email) @ ''?secret='' @ encodeURIComponent secret @
     ''&issuer='' @ encodeURIComponent issuer @ ''&algorithm=SHA1&digits=6&period=30''"

definition isUpperAlnum :: "char \<Rightarrow> bool" where
  "isUpperAlnum c \<longleftrightarrow> isDigit c \<or> (65 \<le> (of_char c :: nat) \<and> (of_char c :: nat) \<le> 90)"

definition normalizeRecoveryCode :: "string \<Rightarrow> string" where
  "normalizeRecoveryCode code = filter isUpperAlnum (toUpperCase (trim code))"

text \<open>One generated code, from the Base64url text of nine random bytes.\<close>

definition recoveryCode :: "string \<Rightarrow> string" where
  "recoveryCode random =
     (let kept = filter isUpperAlnum (toUpperCase random);
          raw = take 12 (kept @ replicate (12 - length kept) CHR ''X'')
      in take 4 raw @ ''-'' @ take 4 (drop 4 raw) @ ''-'' @ drop 8 raw)"

definition generateRecoveryCodes :: "string list \<Rightarrow> string list" where
  "generateRecoveryCodes randoms = map recoveryCode randoms"

section \<open>Base32 round trip\<close>

lemma length_bitText [simp]: "length (bitText k n) = k"
  by (induction k arbitrary: n) simp_all

lemma parseBits_snoc: "parseBits (bs @ [b]) = 2 * parseBits bs + of_bool b"
  by (simp add: parseBits_def)

lemma parseBits_bitText: "parseBits (bitText k n) = n mod 2 ^ k"
proof (induction k arbitrary: n)
  case 0
  then show ?case by (simp add: parseBits_def)
next
  case (Suc k)
  have "2 * (n div 2 mod 2 ^ k) + of_bool (odd n) = n mod 2 ^ Suc k"
    using mod_mult2_eq [of n 2 "2 ^ k"] by (simp add: mod_2_eq_odd)
  then show ?case by (simp add: parseBits_snoc Suc)
qed

lemma bitText_parseBits: "length bs = k \<Longrightarrow> bitText k (parseBits bs) = bs"
proof (induction bs arbitrary: k rule: rev_induct)
  case Nil
  then show ?case by simp
next
  case (snoc b bs)
  then show ?case by (cases k) (auto simp: parseBits_snoc)
qed

lemma parseBits_less: "parseBits bs < 2 ^ length bs"
proof (induction bs rule: rev_induct)
  case Nil
  then show ?case by (simp add: parseBits_def)
next
  case (snoc b bs)
  then show ?case by (simp add: parseBits_snoc)
qed

lemma alphabet_facts: "length ALPHABET = 32" "list_all (\<lambda>i. indexOf ALPHABET (ALPHABET ! i) = Some i) [0..<32]"
  "list_all (\<lambda>c. toUpperCase [c] = [c] \<and> c \<noteq> CHR ''='' \<and> \<not> isSpace c) ALPHABET"
  by code_simp+

lemma indexOf_alphabet: "i < 32 \<Longrightarrow> indexOf ALPHABET (ALPHABET ! i) = Some i"
  using alphabet_facts(2) by (simp add: list_all_iff)

lemma alphabet_char: "i < 32 \<Longrightarrow> upperChar (ALPHABET ! i) = ALPHABET ! i \<and> ALPHABET ! i \<noteq> CHR ''='' \<and> \<not> isSpace (ALPHABET ! i)"
  using alphabet_facts(1,3) by (auto simp: list_all_iff toUpperCase_def)

lemma chunks5_length: "\<forall>c \<in> set (chunks5 bs). length c = 5"
proof (induction bs rule: chunks5.induct)
  case (1 bs)
  then show ?case by (subst chunks5.simps) (auto simp: padEndBits_def)
qed

lemma chunks5_concat: "\<exists>k < 5. concat (chunks5 bs) = bs @ replicate k False"
proof (induction bs rule: chunks5.induct)
  case (1 bs)
  show ?case
  proof (cases "length bs \<le> 5")
    case True
    show ?thesis
    proof (cases "bs = []")
      case True
      then show ?thesis by (intro exI [of _ 0]) (simp add: chunks5.simps)
    next
      case False
      with True have "chunks5 bs = [padEndBits 5 bs]" by (simp add: chunks5.simps [of bs] chunks5.simps [of "[]"])
      moreover have "5 - length bs < 5" using False by (cases bs) auto
      ultimately show ?thesis by (intro exI [of _ "5 - length bs"]) (simp add: padEndBits_def)
    qed
  next
    case False
    then have "bs \<noteq> []" by auto
    from 1 [OF this] obtain k where k: "k < 5" "concat (chunks5 (drop 5 bs)) = drop 5 bs @ replicate k False" by blast
    have "chunks5 bs = take 5 bs # chunks5 (drop 5 bs)"
      using False \<open>bs \<noteq> []\<close> by (subst chunks5.simps) (simp add: padEndBits_def)
    with k show ?thesis by (intro exI [of _ k]) (simp flip: append_assoc)
  qed
qed

lemma charBits_chunks:
  assumes "\<forall>c \<in> set cs. length c = 5"
  shows "charBits (map (\<lambda>c. ALPHABET ! parseBits c) cs) = Inr (concat cs)"
  using assms
proof (induction cs)
  case Nil
  then show ?case by simp
next
  case (Cons c cs)
  have "parseBits c < 32" using parseBits_less [of c] Cons.prems by simp
  with Cons show ?case by (simp add: indexOf_alphabet bitText_parseBits)
qed

lemma normalize_encoded:
  assumes "\<forall>c \<in> set cs. length c = 5"
  shows "normalizeBase32 (map (\<lambda>c. ALPHABET ! parseBits c) cs) = map (\<lambda>c. ALPHABET ! parseBits c) cs"
proof -
  let ?s = "map (\<lambda>c. ALPHABET ! parseBits c) cs"
  have s: "upperChar c = c \<and> c \<noteq> CHR ''='' \<and> \<not> isSpace c" if "c \<in> set ?s" for c
  proof -
    from that obtain x where "x \<in> set cs" "c = ALPHABET ! parseBits x" by auto
    with parseBits_less [of x] assms show ?thesis by (simp add: alphabet_char)
  qed
  then have "toUpperCase ?s = ?s" unfolding toUpperCase_def by (intro map_idI) blast
  moreover have "dropWhile (\<lambda>c. c = CHR ''='') (rev ?s) = rev ?s"
  proof (cases "rev ?s")
    case Nil
    then show ?thesis by simp
  next
    case (Cons c r)
    then have "c \<in> set (rev ?s)" by (metis list.set_intros(1))
    then have "c \<noteq> CHR ''=''" using s set_rev by metis
    with Cons show ?thesis by (simp only: dropWhile.simps if_False)
  qed
  moreover have "filter (\<lambda>c. \<not> isSpace c) ?s = ?s" using s by (simp add: filter_id_conv)
  ultimately show ?thesis by (simp only: normalizeBase32_def rev_rev_ident)
qed

lemma chunks8_bytes:
  assumes "k < 8"
  shows "chunks8 (concat (map (\<lambda>b. bitText 8 (unat b)) bytes) @ replicate k False) = map (\<lambda>b. bitText 8 (unat b)) bytes"
proof (induction bytes)
  case Nil
  then show ?case using assms by (simp add: chunks8.simps)
next
  case (Cons b bytes)
  then show ?case by (subst chunks8.simps) simp
qed

text \<open>Decoding an encoded buffer gives the buffer back, so a secret survives its transport text.\<close>

lemma base32_decode_encode: "base32Decode (base32Encode bytes) = Inr bytes"
proof -
  let ?bits = "concat (map (\<lambda>b. bitText 8 (unat b)) bytes)"
  obtain k where k: "k < 5" "concat (chunks5 ?bits) = ?bits @ replicate k False" using chunks5_concat by blast
  have "charBits (normalizeBase32 (base32Encode bytes)) = Inr (?bits @ replicate k False)"
    using normalize_encoded [OF chunks5_length] charBits_chunks [OF chunks5_length] k(2)
    by (simp add: base32Encode_def)
  moreover have "chunks8 (?bits @ replicate k False) = map (\<lambda>b. bitText 8 (unat b)) bytes"
    using k(1) by (intro chunks8_bytes) simp
  moreover have "word_of_nat (parseBits (bitText 8 (unat b))) = b" for b :: byte
    using unsigned_less [of b, where ?'a = nat] by (simp add: parseBits_bitText)
  ultimately show ?thesis by (simp add: base32Decode_def comp_def)
qed

section \<open>Codes\<close>

lemma natText_length: "n < 10 ^ Suc k \<Longrightarrow> length (natText n) \<le> Suc k"
proof (induction k arbitrary: n)
  case 0
  then show ?case by (simp add: natText.simps)
next
  case (Suc k)
  show ?case
  proof (cases "n < 10")
    case True
    then show ?thesis by (simp add: natText.simps)
  next
    case False
    have "n div 10 < 10 ^ Suc k" using Suc.prems by (simp add: less_mult_imp_div_less)
    from Suc.IH [OF this] False show ?thesis by (subst natText.simps) simp
  qed
qed

lemma hotp_format:
  assumes "hotp hmac secret counter 6 = Inr code"
  shows "length code = 6 \<and> list_all isDigit code"
proof -
  from assms obtain n :: nat where code: "code = padStart 6 CHR ''0'' (natText n)" and n: "n < 10 ^ 6"
    by (auto simp: hotp_def bindE_Inr Let_def split: if_splits)
  have "length (natText n) \<le> 6" using natText_length [of n 5] n by simp
  moreover have "\<forall>c \<in> set code. isDigit c" unfolding code by (intro padStart_digits natText_digits)
  ultimately show ?thesis by (simp add: code padStart_def list_all_iff)
qed

lemma hotp_returns: "base32Decode secret = Inr key \<Longrightarrow> 0 \<le> counter \<Longrightarrow> \<exists>code. hotp hmac secret counter 6 = Inr code"
  by (simp add: hotp_def Let_def)

lemma anyCode_iff:
  assumes "base32Decode secret = Inr key" and "\<forall>c \<in> set cs. 0 \<le> c"
  shows "anyCode hmac secret supplied cs = Inr (\<exists>c \<in> set cs. hotp hmac secret c 6 = Inr supplied)"
  using assms(2)
proof (induction cs)
  case Nil
  then show ?case by simp
next
  case (Cons c cs)
  then obtain code where "hotp hmac secret c 6 = Inr code" using hotp_returns [OF assms(1), of c hmac] by auto
  with Cons show ?case by auto
qed

lemma isSpace_not_digit: "isDigit c \<Longrightarrow> \<not> isSpace c"
  by (auto simp: isDigit_def isSpace_def)

section \<open>Recovery codes\<close>

lemma upper_lower: "upperChar (lowerChar c) = upperChar c"
proof (cases "65 \<le> (of_char c :: nat) \<and> (of_char c :: nat) \<le> 90")
  case True
  then have "(of_char (char_of ((of_char c :: nat) + 32)) :: nat) = of_char c + 32" by simp
  with True show ?thesis by (simp add: upperChar_def lowerChar_def)
next
  case False
  then have "lowerChar c = c" unfolding lowerChar_def by (rule if_not_P)
  then show ?thesis by simp
qed

lemma upper_alnum: "isUpperAlnum c \<Longrightarrow> upperChar c = c"
  by (auto simp: isUpperAlnum_def upperChar_def isDigit_def)

lemma isUpperAlnum_dash [simp]: "\<not> isUpperAlnum CHR ''-''"
  by (simp add: isUpperAlnum_def isDigit_def)

lemma upper_dash [simp]: "upperChar CHR ''-'' = CHR ''-''"
  by (simp add: upperChar_def)

lemma space_not_alnum: "isSpace c \<Longrightarrow> \<not> isUpperAlnum (upperChar c)"
  by (auto simp: isSpace_def isUpperAlnum_def upperChar_def isDigit_def)

lemma filter_dropWhile_space:
  "filter isUpperAlnum (map upperChar (dropWhile isSpace s)) = filter isUpperAlnum (map upperChar s)"
  by (induction s) (auto simp: space_not_alnum)

lemma normalizeRecoveryCode_all: "normalizeRecoveryCode s = filter isUpperAlnum (map upperChar s)"
proof -
  have "filter isUpperAlnum (map upperChar (rev (dropWhile isSpace (rev t)))) = filter isUpperAlnum (map upperChar t)" for t
    using filter_dropWhile_space [of "rev t"] by (metis rev_filter rev_map rev_rev_ident)
  then show ?thesis by (simp add: normalizeRecoveryCode_def trim_def toUpperCase_def filter_dropWhile_space)
qed

lemma recoveryCode_groups:
  "\<exists>a b c. recoveryCode random = a @ ''-'' @ b @ ''-'' @ c \<and> length a = 4 \<and> length b = 4 \<and> length c = 4 \<and>
     list_all isUpperAlnum (a @ b @ c)"
proof -
  define kept where "kept = filter isUpperAlnum (toUpperCase random)"
  define raw where "raw = take 12 (kept @ replicate (12 - length kept) CHR ''X'')"
  have len: "length raw = 12" by (simp add: raw_def)
  have "list_all isUpperAlnum (kept @ replicate (12 - length kept) CHR ''X'')"
    by (auto simp: kept_def list_all_iff isUpperAlnum_def)
  then have raw: "\<forall>c \<in> set raw. isUpperAlnum c" by (auto simp: raw_def list_all_iff dest: in_set_takeD)
  then have "list_all isUpperAlnum (take 4 raw @ take 4 (drop 4 raw) @ drop 8 raw)"
    by (auto simp: list_all_iff dest: in_set_takeD in_set_dropD)
  moreover have "recoveryCode random = take 4 raw @ ''-'' @ take 4 (drop 4 raw) @ ''-'' @ drop 8 raw"
    by (simp only: recoveryCode_def Let_def kept_def raw_def)
  moreover have "length (take 4 raw) = 4" "length (take 4 (drop 4 raw)) = 4" "length (drop 8 raw) = 4"
    using len by simp_all
  ultimately show ?thesis by blast
qed

section \<open>Properties\<close>

text \<open>
  C26. A one-time password is accepted exactly in its window: for a generated secret, whatever the
  digest function, a text is accepted at an instant if and only if, spaces removed, it is the code of one of
  the 30-second steps at most \<open>window\<close> away. (The first minutes of the epoch, where a step would be
  negative, are excluded.)
\<close>

theorem totp_window:
  assumes "0 \<le> now div 30000 - window"
  shows "verifyTotp hmac (generateTotpSecret random) code now window =
    Inr (\<exists>step. now div 30000 - window \<le> step \<and> step \<le> now div 30000 + window \<and>
         hotp hmac (generateTotpSecret random) step 6 = Inr (filter (\<lambda>c. \<not> isSpace c) code))"
proof -
  let ?secret = "generateTotpSecret random" and ?code = "filter (\<lambda>c. \<not> isSpace c) code" and ?n = "now div 30000"
  have dec: "base32Decode ?secret = Inr random" by (simp add: generateTotpSecret_def base32_decode_encode)
  have steps: "set (map (\<lambda>drift. ?n + drift) [- window..window]) = {?n - window..?n + window}"
    by (auto simp: image_iff)
  have nonneg: "\<forall>c \<in> set (map (\<lambda>drift. ?n + drift) [- window..window]). 0 \<le> c" using assms by auto
  have iff: "anyCode hmac ?secret ?code (map (\<lambda>drift. ?n + drift) [- window..window]) =
      Inr (\<exists>step \<in> {?n - window..?n + window}. hotp hmac ?secret step 6 = Inr ?code)"
    using anyCode_iff [OF dec nonneg, of hmac ?code] by (simp only: steps)
  show ?thesis
  proof (cases "length ?code = 6 \<and> list_all isDigit ?code")
    case True
    then show ?thesis using iff by (auto simp: verifyTotp_def Let_def)
  next
    case False
    then have "hotp hmac ?secret step 6 \<noteq> Inr ?code" for step using hotp_format by blast
    then show ?thesis using False by (auto simp: verifyTotp_def Let_def)
  qed
qed

text \<open>The secret of the last byte only, a digest that repeats the counter's last byte.\<close>

definition exHmac :: hmac where
  "exHmac key message = replicate 20 (last message)"

theorem totp_window_witness:
  "verifyTotp exHmac (generateTotpSecret [1, 2, 3]) ''12 34 56'' 90000 1 =
    Inr (\<exists>step. 2 \<le> step \<and> step \<le> 4 \<and> hotp exHmac (generateTotpSecret [1, 2, 3]) step 6 = Inr ''123456'')"
  using totp_window [of 90000 1 exHmac "[1, 2, 3]" "''12 34 56''"] by (simp add: isSpace_def)

text \<open>
  C37. Recovery codes are matched in any spelling: lower case, spaces around the code and any
  separators do not change what a code normalises to, and a generated code keeps its twelve characters.
\<close>

theorem recovery_code_spelling:
  "normalizeRecoveryCode (toLowerCase code) = normalizeRecoveryCode code \<and>
   normalizeRecoveryCode (filter (\<lambda>c. isUpperAlnum (upperChar c)) code) = normalizeRecoveryCode code \<and>
   length (recoveryCode random) = 14 \<and> length (normalizeRecoveryCode (recoveryCode random)) = 12"
proof (intro conjI)
  show "normalizeRecoveryCode (toLowerCase code) = normalizeRecoveryCode code"
    by (simp add: normalizeRecoveryCode_all toLowerCase_def upper_lower comp_def)
  show "normalizeRecoveryCode (filter (\<lambda>c. isUpperAlnum (upperChar c)) code) = normalizeRecoveryCode code"
    by (simp add: normalizeRecoveryCode_all filter_map comp_def)
  obtain a b c where r: "recoveryCode random = a @ ''-'' @ b @ ''-'' @ c" "length a = 4" "length b = 4" "length c = 4"
    and alnum: "list_all isUpperAlnum (a @ b @ c)"
    using recoveryCode_groups by blast
  then show "length (recoveryCode random) = 14" by simp
  have "map upperChar (a @ b @ c) = a @ b @ c" using alnum by (intro map_idI) (auto simp: list_all_iff upper_alnum)
  then have "filter isUpperAlnum (map upperChar (recoveryCode random)) = a @ b @ c"
    using alnum by (simp add: r isUpperAlnum_dash filter_id_conv list_all_iff)
  then show "length (normalizeRecoveryCode (recoveryCode random)) = 12"
    using r by (simp add: normalizeRecoveryCode_all)
qed

end
