(* ===== verification/RateLimit.thy ===== *)
theory RateLimit
  imports JsText
begin

text \<open>
  The rate limiter, \<open>apps/api/src/auth/distributed-rate-limit.service.ts\<close>: one bucket per scope and hashed
  identity. \<open>digest\<close> stands for SHA-256. Registering a failure is a serializable transaction tried up to five
  times; \<open>env i\<close> is the error with which the database aborts attempt \<open>i\<close>, if it does.
\<close>

section \<open>Buckets\<close>

record bucket =
  bk_id :: ident
  bk_scope :: string
  bk_keyHash :: string
  bk_windowStart :: int
  bk_count :: nat
  bk_blockedUntil :: "int option"
  bk_updatedAt :: int

record rate_limits =
  rl_buckets :: "bucket list"
  rl_now :: int
  rl_nextId :: ident

record rate_rule =
  rr_limit :: nat
  rr_windowMs :: int
  rr_blockMs :: int

definition keyHash :: "(string \<Rightarrow> string) \<Rightarrow> string \<Rightarrow> string" where
  "keyHash digest identity = digest (toLowerCase (trim identity))"

definition bucketKey :: "string \<Rightarrow> string \<Rightarrow> bucket \<Rightarrow> bool" where
  "bucketKey scope key b \<longleftrightarrow> bk_scope b = scope \<and> bk_keyHash b = key"

definition findBucket :: "string \<Rightarrow> string \<Rightarrow> rate_limits \<Rightarrow> bucket option" where
  "findBucket scope key s = find_first (bucketKey scope key) (rl_buckets s)"

definition blockedAt :: "int \<Rightarrow> bucket \<Rightarrow> bool" where
  "blockedAt t b \<longleftrightarrow> (case bk_blockedUntil b of None \<Rightarrow> False | Some until \<Rightarrow> t < until)"

section \<open>Operations\<close>

definition assertAllowed :: "(string \<Rightarrow> string) \<Rightarrow> string \<Rightarrow> string \<Rightarrow> (rate_limits, unit) svc" where
  "assertAllowed digest scope identity =
     bindS (getS (findBucket scope (keyHash digest identity))) (\<lambda>row.
     bindS (getS rl_now) (\<lambda>t.
     requireS (case row of None \<Rightarrow> True | Some b \<Rightarrow> \<not> blockedAt t b)
       (TooManyRequests ''Terlalu banyak percobaan. Coba lagi nanti.'')))"

definition registerTx :: "string \<Rightarrow> string \<Rightarrow> rate_rule \<Rightarrow> (rate_limits, unit) tx" where
  "registerTx scope key rule =
     bindT (getT rl_now) (\<lambda>t.
     bindT (getT (findBucket scope key)) (\<lambda>row.
     case row of
       None \<Rightarrow> modT (\<lambda>s. s\<lparr>rl_buckets := rl_buckets s @
          [\<lparr>bk_id = rl_nextId s, bk_scope = scope, bk_keyHash = key, bk_windowStart = t, bk_count = 1,
            bk_blockedUntil = None, bk_updatedAt = t\<rparr>], rl_nextId := Suc (rl_nextId s)\<rparr>)
     | Some b \<Rightarrow>
         if blockedAt t b then returnT ()
         else
           let expiredWindow = rr_windowMs rule \<le> t - bk_windowStart b;
               nextCount = (if expiredWindow then 1 else bk_count b + 1);
               blockedUntil = (if rr_limit rule \<le> nextCount then Some (t + rr_blockMs rule) else None);
               same = (\<lambda>q. bk_id q = bk_id b \<and> bk_count q = bk_count b \<and> bk_windowStart q = bk_windowStart b \<and>
                           bk_updatedAt q = bk_updatedAt b)
           in bindT (stateT (\<lambda>s. (count_where same (rl_buckets s),
                s\<lparr>rl_buckets := update_many same (\<lambda>q. q\<lparr>bk_windowStart := (if expiredWindow then t else bk_windowStart b),
                    bk_count := nextCount, bk_blockedUntil := blockedUntil, bk_updatedAt := t\<rparr>) (rl_buckets s)\<rparr>)))
              (\<lambda>updated. requireT (updated = 1) (PlainError ''RATE_LIMIT_CONFLICT''))))"

fun retriesFailure :: "exn \<Rightarrow> bool" where
  "retriesFailure (PrismaError text) = List.member [''P2002'', ''P2034''] (take 5 text)"
| "retriesFailure (PlainError msg) = (msg = ''RATE_LIMIT_CONFLICT'')"
| "retriesFailure _ = False"

text \<open>The \<open>for\<close> loop from attempt \<open>i\<close> on, with the number of attempts left.\<close>

fun registerLoop :: "nat \<Rightarrow> nat \<Rightarrow> (nat \<Rightarrow> exn option) \<Rightarrow> (rate_limits, unit) tx \<Rightarrow> (rate_limits, unit) svc" where
  "registerLoop 0 i env body s = (Inr (), s)"
| "registerLoop (Suc n) i env body s =
     (case (case env i of Some e \<Rightarrow> Inl e | None \<Rightarrow> body s) of
        Inr (u, s') \<Rightarrow> (Inr (), s')
      | Inl e \<Rightarrow> if retriesFailure e \<and> i < 4 then registerLoop n (i + 1) env body s else (Inl e, s))"

definition registerFailure ::
    "(string \<Rightarrow> string) \<Rightarrow> (nat \<Rightarrow> exn option) \<Rightarrow> string \<Rightarrow> string \<Rightarrow> rate_rule \<Rightarrow> (rate_limits, unit) svc" where
  "registerFailure digest env scope identity rule =
     registerLoop 5 0 env (registerTx scope (keyHash digest identity) rule)"

definition clearBucket :: "(string \<Rightarrow> string) \<Rightarrow> string \<Rightarrow> string \<Rightarrow> (rate_limits, unit) svc" where
  "clearBucket digest scope identity = modS (\<lambda>s. s\<lparr>rl_buckets :=
     filter (\<lambda>b. \<not> bucketKey scope (keyHash digest identity) b) (rl_buckets s)\<rparr>)"

definition pruneBuckets :: "(rate_limits, unit) svc" where
  "pruneBuckets = modS (\<lambda>s. s\<lparr>rl_buckets := filter (\<lambda>b.
     \<not> (bk_updatedAt b < rl_now s - 24 * 60 * 60000 \<and>
        (bk_blockedUntil b = None \<or> (case bk_blockedUntil b of None \<Rightarrow> False | Some until \<Rightarrow> until < rl_now s))))
     (rl_buckets s)\<rparr>)"

section \<open>Counting failures\<close>

definition buckets_wf :: "rate_limits \<Rightarrow> bool" where
  "buckets_wf s \<longleftrightarrow> distinct (map bk_id (rl_buckets s)) \<and> (\<forall>b \<in> set (rl_buckets s). bk_id b < rl_nextId s) \<and>
     distinct (map (\<lambda>b. (bk_scope b, bk_keyHash b)) (rl_buckets s))"

text \<open>A run of failures at the given instants, none of them aborted.\<close>

fun failAt :: "(string \<Rightarrow> string) \<Rightarrow> string \<Rightarrow> string \<Rightarrow> rate_rule \<Rightarrow> int list \<Rightarrow> rate_limits \<Rightarrow> rate_limits" where
  "failAt digest scope identity rule [] s = s"
| "failAt digest scope identity rule (t # ts) s =
     failAt digest scope identity rule ts
       (snd (registerFailure digest (\<lambda>_. None) scope identity rule (s\<lparr>rl_now := t\<rparr>)))"

lemma register_commit:
  "registerTx scope (keyHash digest identity) rule s = Inr (u, s') \<Longrightarrow>
   registerFailure digest (\<lambda>_. None) scope identity rule s = (Inr (), s')"
  by (simp add: registerFailure_def numeral_eq_Suc)

lemma register_first:
  assumes "findBucket scope key s = None" and "buckets_wf s"
  shows "\<exists>b s'. registerTx scope key rule s = Inr ((), s') \<and> buckets_wf s' \<and> findBucket scope key s' = Some b \<and>
    bk_windowStart b = rl_now s \<and> bk_count b = 1 \<and> bk_blockedUntil b = None"
proof -
  have none: "\<forall>b \<in> set (rl_buckets s). \<not> bucketKey scope key b"
    using assms(1) by (simp add: findBucket_def find_first_None)
  let ?b = "\<lparr>bk_id = rl_nextId s, bk_scope = scope, bk_keyHash = key, bk_windowStart = rl_now s, bk_count = 1,
     bk_blockedUntil = None, bk_updatedAt = rl_now s\<rparr>"
  let ?s = "s\<lparr>rl_buckets := rl_buckets s @ [?b], rl_nextId := Suc (rl_nextId s)\<rparr>"
  have "registerTx scope key rule s = Inr ((), ?s)"
    using assms(1) by (simp add: registerTx_def bindT_def getT_def modT_def)
  moreover have "buckets_wf ?s" using assms(2) none by (auto simp: buckets_wf_def bucketKey_def less_Suc_eq)
  moreover have "findBucket scope key ?s = Some ?b"
    using assms(1) by (simp add: findBucket_def find_first_append_None bucketKey_def)
  ultimately show ?thesis by fastforce
qed

lemma register_next:
  assumes "findBucket scope key s = Some b" and "buckets_wf s" and "\<not> blockedAt (rl_now s) b"
    and "rl_now s - bk_windowStart b < rr_windowMs rule"
  shows "\<exists>b' s'. registerTx scope key rule s = Inr ((), s') \<and> buckets_wf s' \<and> findBucket scope key s' = Some b' \<and>
    bk_windowStart b' = bk_windowStart b \<and> bk_count b' = bk_count b + 1 \<and>
    bk_blockedUntil b' = (if rr_limit rule \<le> bk_count b + 1 then Some (rl_now s + rr_blockMs rule) else None)"
proof -
  let ?P = "\<lambda>q. bk_id q = bk_id b \<and> bk_count q = bk_count b \<and> bk_windowStart q = bk_windowStart b \<and> bk_updatedAt q = bk_updatedAt b"
  let ?f = "\<lambda>q. q\<lparr>bk_windowStart := bk_windowStart b, bk_count := bk_count b + 1,
     bk_blockedUntil := (if rr_limit rule \<le> bk_count b + 1 then Some (rl_now s + rr_blockMs rule) else None), bk_updatedAt := rl_now s\<rparr>"
  let ?s = "s\<lparr>rl_buckets := update_many ?P ?f (rl_buckets s)\<rparr>"
  have b: "b \<in> set (rl_buckets s)" "bucketKey scope key b" using assms(1) by (auto simp: findBucket_def dest: find_first_Some)
  have one: "count_where ?P (rl_buckets s) = 1"
    by (rule count_where_one [OF _ b(1), of _ bk_id]) (use assms(2) in \<open>auto simp: buckets_wf_def\<close>)
  have "registerTx scope key rule s = Inr ((), ?s)"
    using assms(1,3,4) one by (simp add: registerTx_def bindT_def tx_defs Let_def)
  moreover have "buckets_wf ?s"
  proof -
    have "map bk_id (update_many ?P ?f (rl_buckets s)) = map bk_id (rl_buckets s)"
      "map (\<lambda>b. (bk_scope b, bk_keyHash b)) (update_many ?P ?f (rl_buckets s)) = map (\<lambda>b. (bk_scope b, bk_keyHash b)) (rl_buckets s)"
      by (intro map_update_many; simp)+
    moreover have "\<forall>q \<in> set (update_many ?P ?f (rl_buckets s)). bk_id q < rl_nextId s"
      by (rule all_update_many) (use assms(2) in \<open>auto simp: buckets_wf_def\<close>)
    ultimately show ?thesis using assms(2) by (simp add: buckets_wf_def)
  qed
  moreover have "findBucket scope key ?s = Some (?f b)"
  proof -
    have "find_first (bucketKey scope key) (update_many ?P ?f (rl_buckets s)) =
        map_option (\<lambda>q. if ?P q then ?f q else q) (find_first (bucketKey scope key) (rl_buckets s))"
      by (rule find_first_update_many) (simp add: bucketKey_def)
    then show ?thesis using assms(1) by (simp add: findBucket_def)
  qed
  ultimately show ?thesis by (intro exI [of _ "?f b"] exI [of _ ?s]) simp
qed

text \<open>The bucket after some failures in one window, short of the limit.\<close>

lemma failAt_count:
  assumes "findBucket scope (keyHash digest identity) s = Some b" and "buckets_wf s" and "bk_blockedUntil b = None"
    and "\<forall>t \<in> set ts. t - bk_windowStart b < rr_windowMs rule" and "bk_count b + length ts < rr_limit rule"
  shows "\<exists>b'. findBucket scope (keyHash digest identity) (failAt digest scope identity rule ts s) = Some b' \<and>
    buckets_wf (failAt digest scope identity rule ts s) \<and> bk_windowStart b' = bk_windowStart b \<and>
    bk_count b' = bk_count b + length ts \<and> bk_blockedUntil b' = None"
  using assms
proof (induction ts arbitrary: s b)
  case Nil
  then show ?case by simp
next
  case (Cons t ts)
  let ?s = "s\<lparr>rl_now := t\<rparr>"
  have pre: "findBucket scope (keyHash digest identity) ?s = Some b" "buckets_wf ?s" "\<not> blockedAt (rl_now ?s) b"
    "rl_now ?s - bk_windowStart b < rr_windowMs rule"
    using Cons.prems by (simp_all add: findBucket_def buckets_wf_def blockedAt_def)
  from register_next [OF pre] obtain b' s' where r: "registerTx scope (keyHash digest identity) rule ?s = Inr ((), s')"
    and b': "buckets_wf s'" "findBucket scope (keyHash digest identity) s' = Some b'" "bk_windowStart b' = bk_windowStart b"
      "bk_count b' = bk_count b + 1" "bk_blockedUntil b' = None"
    using Cons.prems(5) by auto
  from Cons.IH [OF b'(2,1,5)] Cons.prems b' register_commit [OF r] show ?case by simp
qed

section \<open>Properties\<close>

text \<open>
  C25. The limiter blocks at the limit and not before: a scope and identity with no bucket that
  fail at instants within one window are still allowed as long as the failures are fewer than the limit, and
  after as many failures as the limit are refused at every instant until the block has run out, counted from
  the last failure. (The first failure never blocks, so a limit is at least two.)
\<close>

theorem rate_limit_blocks:
  assumes "buckets_wf s" and "findBucket scope (keyHash digest identity) s = None" and "2 \<le> rr_limit rule"
    and "\<forall>t \<in> set (t0 # ts @ [t1]). t - t0 < rr_windowMs rule"
  shows "(length ts + 1 < rr_limit rule \<longrightarrow>
      fst (assertAllowed digest scope identity (failAt digest scope identity rule (t0 # ts) s)) = Inr ()) \<and>
    (length ts + 2 = rr_limit rule \<longrightarrow>
      fst (assertAllowed digest scope identity ((failAt digest scope identity rule (t0 # ts @ [t1]) s)\<lparr>rl_now := t\<rparr>)) =
        (if t < t1 + rr_blockMs rule then Inl (TooManyRequests ''Terlalu banyak percobaan. Coba lagi nanti.'') else Inr ()))"
proof -
  let ?key = "keyHash digest identity" and ?fail = "failAt digest scope identity rule"
  have "findBucket scope ?key (s\<lparr>rl_now := t0\<rparr>) = None" "buckets_wf (s\<lparr>rl_now := t0\<rparr>)"
    using assms(1,2) by (simp_all add: findBucket_def buckets_wf_def)
  from register_first [OF this] obtain b s1 where r: "registerTx scope ?key rule (s\<lparr>rl_now := t0\<rparr>) = Inr ((), s1)"
    and b: "buckets_wf s1" "findBucket scope ?key s1 = Some b" "bk_windowStart b = t0" "bk_count b = 1" "bk_blockedUntil b = None"
    by fastforce
  have first: "?fail (t0 # us) s = ?fail us s1" for us using register_commit [OF r] by simp
  have counted: "\<exists>b'. findBucket scope ?key (?fail ts s1) = Some b' \<and> buckets_wf (?fail ts s1) \<and>
      bk_windowStart b' = t0 \<and> bk_count b' = 1 + length ts \<and> bk_blockedUntil b' = None"
    if "length ts + 1 < rr_limit rule"
    using failAt_count [OF b(2,1,5), of ts rule] b assms(4) that by simp
  show ?thesis
  proof (intro conjI impI)
    assume "length ts + 1 < rr_limit rule"
    from counted [OF this] obtain b' where "findBucket scope ?key (?fail ts s1) = Some b'" "bk_blockedUntil b' = None" by blast
    then show "fst (assertAllowed digest scope identity (?fail (t0 # ts) s)) = Inr ()"
      unfolding first by (simp add: assertAllowed_def bindS_def getS_def requireS_def blockedAt_def)
  next
    assume lim: "length ts + 2 = rr_limit rule"
    then obtain b' where b': "findBucket scope ?key (?fail ts s1) = Some b'" "buckets_wf (?fail ts s1)"
      "bk_windowStart b' = t0" "bk_count b' = 1 + length ts" "bk_blockedUntil b' = None"
      using counted by auto
    let ?s = "(?fail ts s1)\<lparr>rl_now := t1\<rparr>"
    have pre: "findBucket scope ?key ?s = Some b'" "buckets_wf ?s" "\<not> blockedAt (rl_now ?s) b'"
      "rl_now ?s - bk_windowStart b' < rr_windowMs rule"
      using b' assms(4) by (simp_all add: findBucket_def buckets_wf_def blockedAt_def)
    from register_next [OF pre] lim b' obtain b2 s2 where
      r2: "registerTx scope ?key rule ?s = Inr ((), s2)" and b2: "findBucket scope ?key s2 = Some b2"
        "bk_blockedUntil b2 = Some (t1 + rr_blockMs rule)" by auto
    have app: "?fail (us @ [t1]) q = snd (registerFailure digest (\<lambda>_. None) scope identity rule ((?fail us q)\<lparr>rl_now := t1\<rparr>))" for us q
      by (induction us arbitrary: q) simp_all
    have "findBucket scope ?key (s2\<lparr>rl_now := t\<rparr>) = Some b2" using b2(1) by (simp add: findBucket_def)
    then show "fst (assertAllowed digest scope identity ((?fail (t0 # ts @ [t1]) s)\<lparr>rl_now := t\<rparr>)) =
        (if t < t1 + rr_blockMs rule then Inl (TooManyRequests ''Terlalu banyak percobaan. Coba lagi nanti.'') else Inr ())"
      using register_commit [OF r2] b2(2) unfolding first app
      by (simp add: assertAllowed_def bindS_def getS_def requireS_def blockedAt_def)
  qed
qed

definition exLimits :: rate_limits where
  "exLimits = \<lparr>rl_buckets = [], rl_now = 0, rl_nextId = 1\<rparr>"

definition exRule :: rate_rule where
  "exRule = \<lparr>rr_limit = 3, rr_windowMs = 1000, rr_blockMs = 5000\<rparr>"

theorem rate_limit_blocks_witness:
  "fst (assertAllowed (\<lambda>x. x) ''login'' ''A@b'' ((failAt (\<lambda>x. x) ''login'' ''A@b'' exRule [10, 20, 30] exLimits)\<lparr>rl_now := 5029\<rparr>)) =
     Inl (TooManyRequests ''Terlalu banyak percobaan. Coba lagi nanti.'')"
proof -
  have "buckets_wf exLimits" "findBucket ''login'' (keyHash (\<lambda>x. x) ''A@b'') exLimits = None"
    by (simp_all add: exLimits_def buckets_wf_def findBucket_def find_first_def)
  from rate_limit_blocks [OF this, of exRule 10 "[20]" 30 5029] show ?thesis by (simp add: exRule_def)
qed

end
