(* ===== verification/Numbering.thy ===== *)
theory Numbering
  imports JsText
begin

text \<open>
  Document numbering, \<open>apps/api/src/common/numbering.ts\<close>: one counter row per company, branch and
  document type, advanced by a guarded update inside the caller's transaction, and the rendering of
  the number. The state holds the branches and companies the scope code is read from, the sequence
  rows, the current instant and the generated-id counter.
\<close>

section \<open>State\<close>

datatype reset_policy = MONTHLY | YEARLY | NEVER

record branch =
  br_id :: ident
  br_company :: ident
  br_code :: string
  br_isActive :: bool
  br_address :: "string option"

record company =
  co_id :: ident
  co_slug :: "string option"

record sequence =
  seq_id :: ident
  seq_company :: ident
  seq_branch :: "ident option"
  seq_documentType :: string
  seq_prefix :: string
  seq_nextNumber :: nat
  seq_resetPolicy :: reset_policy
  seq_lastResetAt :: "int option"

record numbering =
  branches :: "branch list"
  companies :: "company list"
  sequences :: "sequence list"
  num_now :: int
  num_nextId :: ident

record numbering_opts =
  op_company :: ident
  op_branch :: "ident option"
  op_documentType :: string
  op_prefix :: string
  op_padding :: "nat option"
  op_resetPolicy :: "reset_policy option"

section \<open>Operations\<close>

definition resolveDocumentScopeCode :: "ident \<Rightarrow> ident option \<Rightarrow> (numbering, string) tx" where
  "resolveDocumentScopeCode companyId branchId =
     (case branchId of
        Some b \<Rightarrow> bindT (getT (\<lambda>s. find_first (\<lambda>r. br_id r = b \<and> br_company r = companyId) (branches s))) (\<lambda>found.
          case found of
            None \<Rightarrow> throwT (PlainError ''Branch nomor dokumen tidak ditemukan pada company yang diminta.'')
          | Some r \<Rightarrow> returnT (br_code r))
      | None \<Rightarrow> bindT (getT (\<lambda>s. find_first (\<lambda>c. co_id c = companyId) (companies s))) (\<lambda>found.
          case found of
            None \<Rightarrow> throwT (PlainError ''Company nomor dokumen tidak ditemukan.'')
          | Some c \<Rightarrow> returnT (case co_slug c of
                None \<Rightarrow> identText companyId
              | Some slug \<Rightarrow> if trim slug = '''' then identText companyId else trim slug)))"

definition yearText :: "int \<Rightarrow> string" where
  "yearText t = intText (utcYear t)"

definition monthText :: "int \<Rightarrow> string" where
  "monthText t = padStart 2 CHR ''0'' (natText (nat (utcMonth t)))"

definition formatNumber :: "string \<Rightarrow> string \<Rightarrow> int \<Rightarrow> nat \<Rightarrow> nat \<Rightarrow> string" where
  "formatNumber prefix scopeCode t seq padding =
     prefix @ ''-'' @ scopeCode @ ''-'' @ yearText t @ monthText t @ ''-'' @ padStart padding CHR ''0'' (natText seq)"

definition periodOf :: "reset_policy option \<Rightarrow> int \<Rightarrow> string" where
  "periodOf policy t = (case policy of
     Some NEVER \<Rightarrow> ''ALL'' | Some YEARLY \<Rightarrow> yearText t | _ \<Rightarrow> yearText t @ monthText t)"

definition rowPeriodOf :: "reset_policy option \<Rightarrow> int \<Rightarrow> string" where
  "rowPeriodOf policy t = (if policy = Some YEARLY then yearText t else yearText t @ monthText t)"

definition sequenceKey :: "numbering_opts \<Rightarrow> sequence \<Rightarrow> bool" where
  "sequenceKey opts r \<longleftrightarrow> seq_company r = op_company opts \<and> seq_branch r = op_branch opts \<and>
     seq_documentType r = op_documentType opts"

definition findOrCreateSequence :: "numbering_opts \<Rightarrow> (numbering, sequence) tx" where
  "findOrCreateSequence opts = bindT (getT (\<lambda>s. find_first (sequenceKey opts) (sequences s))) (\<lambda>found.
     case found of
       Some r \<Rightarrow> returnT r
     | None \<Rightarrow> stateT (\<lambda>s.
         let r = \<lparr>seq_id = num_nextId s, seq_company = op_company opts, seq_branch = op_branch opts,
                  seq_documentType = op_documentType opts, seq_prefix = op_prefix opts, seq_nextNumber = 1,
                  seq_resetPolicy = (case op_resetPolicy opts of None \<Rightarrow> MONTHLY | Some p \<Rightarrow> p),
                  seq_lastResetAt = Some (num_now s)\<rparr>
         in (r, s\<lparr>sequences := sequences s @ [r], num_nextId := Suc (num_nextId s)\<rparr>)))"

definition currentNumber :: "numbering_opts \<Rightarrow> sequence \<Rightarrow> int \<Rightarrow> nat" where
  "currentNumber opts row t =
     (let period = periodOf (op_resetPolicy opts) t in
      case seq_lastResetAt row of
        Some at \<Rightarrow> if period \<noteq> ''ALL'' \<and> rowPeriodOf (op_resetPolicy opts) at \<noteq> period
                     then 1 else seq_nextNumber row
      | None \<Rightarrow> seq_nextNumber row)"

definition sequenceConflict :: "numbering_opts \<Rightarrow> exn" where
  "sequenceConflict opts = PlainError (''Konflik sequence '' @ op_documentType opts @ ''; ulangi transaksi.'')"

definition nextDocumentNumber :: "numbering_opts \<Rightarrow> (numbering, string) tx" where
  "nextDocumentNumber opts =
     bindT (getT num_now) (\<lambda>t.
     bindT (resolveDocumentScopeCode (op_company opts) (op_branch opts)) (\<lambda>scopeCode.
     bindT (findOrCreateSequence opts) (\<lambda>row.
     let current = currentNumber opts row t in
     bindT (stateT (\<lambda>s. (count_where (\<lambda>r. seq_id r = seq_id row \<and> seq_nextNumber r = current) (sequences s),
        s\<lparr>sequences := update_many (\<lambda>r. seq_id r = seq_id row \<and> seq_nextNumber r = current)
            (\<lambda>r. r\<lparr>seq_nextNumber := current + 1, seq_lastResetAt := Some t\<rparr>) (sequences s)\<rparr>))) (\<lambda>bumped.
     bindT (requireT (bumped = 1) (sequenceConflict opts)) (\<lambda>_.
     returnT (formatNumber (op_prefix opts) scopeCode t current (case op_padding opts of None \<Rightarrow> 6 | Some k \<Rightarrow> k)))))))"

text \<open>The fallback without a tenant; the random draw of the source is an argument in \<open>[0, 900000)\<close>.\<close>

definition documentNumber :: "string \<Rightarrow> int \<Rightarrow> nat \<Rightarrow> string" where
  "documentNumber prefix t draw =
     prefix @ ''-'' @ padStart 4 CHR ''0'' (natText (nat (utcYear t))) @ monthText t @
     padStart 2 CHR ''0'' (natText (nat (utcDate t))) @ ''-'' @ natText (100000 + draw)"

section \<open>Rendering\<close>

lemma monthText_digits: "\<forall>c \<in> set (monthText t). isDigit c"
  unfolding monthText_def by (intro padStart_digits natText_digits)

lemma civil_year_nonneg:
  assumes "0 \<le> d"
  shows "0 \<le> fst (civilFields d)"
proof -
  define doe where "doe = (d + 719468) mod 146097"
  define yoe where "yoe = (doe - doe div 1460 + doe div 36524 - doe div 146096) div 365"
  have doe: "0 \<le> doe" by (simp add: doe_def)
  then have "doe div 1460 \<le> doe" "doe div 146096 \<le> doe div 36524" by linarith+
  then have "0 \<le> doe - doe div 1460 + doe div 36524 - doe div 146096" by linarith
  then have yoe: "0 \<le> yoe" unfolding yoe_def by (intro div_int_pos_iff [THEN iffD2]) simp
  define era where "era = (d + 719468) div 146097"
  have era: "0 \<le> era" using assms by (simp add: era_def)
  define leap where "leap = (if fst (snd (civilFields d)) \<le> 2 then 1 else (0::int))"
  have "fst (civilFields d) = yoe + era * 400 + leap"
    unfolding civilFields_def Let_def doe_def yoe_def era_def leap_def by (simp only: fst_conv snd_conv)
  moreover have "0 \<le> leap" by (simp add: leap_def)
  ultimately show ?thesis using yoe era by linarith
qed

lemma utcYear_nonneg: "0 \<le> t \<Longrightarrow> 0 \<le> utcYear t"
  by (simp add: utcYear_def utcDayNumber_def dayMs_def civil_year_nonneg)

lemma yearText_digits: "0 \<le> t \<Longrightarrow> \<forall>c \<in> set (yearText t). isDigit c"
  using natText_digits [of "nat (utcYear t)"] utcYear_nonneg [of t] by (simp add: yearText_def intText_def)

lemma no_dash: "\<forall>c \<in> set s. isDigit c \<Longrightarrow> CHR ''-'' \<notin> set s"
  using isDigit_not_dash by blast

text \<open>Two rendered numbers of one prefix and padding agree only where scope, period and counter agree.\<close>

lemma formatNumber_parts:
  assumes "formatNumber prefix c1 t1 n1 k = formatNumber prefix c2 t2 n2 k" and "0 \<le> t1" and "0 \<le> t2"
  shows "c1 = c2 \<and> yearText t1 @ monthText t1 = yearText t2 @ monthText t2 \<and> n1 = n2"
proof -
  let ?ym = "\<lambda>t. yearText t @ monthText t" and ?n = "\<lambda>n. padStart k CHR ''0'' (natText n)"
  have d: "CHR ''-'' \<notin> set (?n n)" for n by (intro no_dash padStart_digits natText_digits)
  have e: "CHR ''-'' \<notin> set (?ym t)" if "0 \<le> t" for t
    using no_dash [OF yearText_digits [OF that]] no_dash [OF monthText_digits] by simp
  from assms(1) have "(c1 @ ''-'' @ ?ym t1) @ ''-'' @ ?n n1 = (c2 @ ''-'' @ ?ym t2) @ ''-'' @ ?n n2"
    by (simp add: formatNumber_def)
  from split_last_dash [OF this d d] have 1: "c1 @ ''-'' @ ?ym t1 = c2 @ ''-'' @ ?ym t2" and 2: "?n n1 = ?n n2"
    by simp_all
  from 2 have "decimalValue (?n n1) = decimalValue (?n n2)" by simp
  then have "n1 = n2" by (simp add: decimalValue_padStart decimalValue_natText)
  with split_last_dash [OF 1 e [OF assms(2)] e [OF assms(3)]] show ?thesis by simp
qed

section \<open>The counter\<close>

definition numbering_wf :: "numbering \<Rightarrow> bool" where
  "numbering_wf s \<longleftrightarrow> distinct (map seq_id (sequences s)) \<and> (\<forall>r \<in> set (sequences s). seq_id r < num_nextId s) \<and>
     distinct (map (\<lambda>r. (seq_company r, seq_branch r, seq_documentType r)) (sequences s))"

text \<open>The row that serves \<open>opts\<close>, or the counter a first call would create.\<close>

definition counterOf :: "numbering_opts \<Rightarrow> numbering \<Rightarrow> nat" where
  "counterOf opts s = (case find_first (sequenceKey opts) (sequences s) of None \<Rightarrow> 1 | Some r \<Rightarrow> seq_nextNumber r)"

lemma findOrCreate_cases:
  assumes "findOrCreateSequence opts s = Inr (row, s')"
  obtains (found) "find_first (sequenceKey opts) (sequences s) = Some row" "s' = s"
    | (created) "find_first (sequenceKey opts) (sequences s) = None" "seq_id row = num_nextId s" "sequenceKey opts row"
      "seq_nextNumber row = 1" "seq_lastResetAt row = Some (num_now s)"
      "s' = s\<lparr>sequences := sequences s @ [row], num_nextId := Suc (num_nextId s)\<rparr>"
proof (cases "find_first (sequenceKey opts) (sequences s)")
  case None
  show thesis
    by (rule created) (use None assms in \<open>auto simp: findOrCreateSequence_def bindT_def getT_def stateT_def Let_def sequenceKey_def\<close>)
next
  case (Some r)
  show thesis
    by (rule found) (use Some assms in \<open>auto simp: findOrCreateSequence_def bindT_def getT_def returnT_def\<close>)
qed

lemma resolve_state: "resolveDocumentScopeCode c b s = Inr (x, s') \<Longrightarrow> s' = s"
  by (auto simp: resolveDocumentScopeCode_def tx_Inr split: option.splits)

lemma findOrCreate_wf:
  assumes "findOrCreateSequence opts s = Inr (row, s')" and "numbering_wf s"
  shows "numbering_wf s' \<and> row \<in> set (sequences s') \<and> find_first (sequenceKey opts) (sequences s') = Some row"
  using assms(1)
proof (cases rule: findOrCreate_cases)
  case found
  with assms(2) show ?thesis by (auto dest: find_first_Some)
next
  case created
  then have "\<forall>r \<in> set (sequences s). \<not> sequenceKey opts r" by (simp add: find_first_None)
  moreover from this created(3,6) have "distinct (map (\<lambda>r. (seq_company r, seq_branch r, seq_documentType r)) (sequences s'))"
    using assms(2) by (auto simp: numbering_wf_def sequenceKey_def)
  ultimately show ?thesis
    using created assms(2) find_first_append_None [OF created(1), of row]
    by (auto simp: numbering_wf_def less_Suc_eq)
qed

text \<open>What a successful call does: the number it renders is the counter's value, which it advances by one.\<close>

lemma nextDocumentNumber_effect:
  assumes "nextDocumentNumber opts s = Inr (n, s')" and wf: "numbering_wf s"
  shows "\<exists>scope. resolveDocumentScopeCode (op_company opts) (op_branch opts) s = Inr (scope, s) \<and>
     n = formatNumber (op_prefix opts) scope (num_now s) (counterOf opts s)
           (case op_padding opts of None \<Rightarrow> 6 | Some k \<Rightarrow> k) \<and>
     counterOf opts s' = Suc (counterOf opts s) \<and>
     (\<forall>opts'. (op_company opts', op_branch opts', op_documentType opts') \<noteq>
              (op_company opts, op_branch opts, op_documentType opts) \<longrightarrow> counterOf opts' s' = counterOf opts' s) \<and>
     numbering_wf s' \<and> branches s' = branches s \<and> companies s' = companies s \<and> num_now s' = num_now s"
proof -
  define cur where "cur row = currentNumber opts row (num_now s)" for row :: sequence
  define P where "P row = (\<lambda>r::sequence. seq_id r = seq_id row \<and> seq_nextNumber r = cur row)" for row :: sequence
  define f where "f row = (\<lambda>r::sequence. r\<lparr>seq_nextNumber := cur row + 1, seq_lastResetAt := Some (num_now s)\<rparr>)"
    for row :: sequence
  from assms(1) obtain scope s0 row s1 where 0: "resolveDocumentScopeCode (op_company opts) (op_branch opts) s = Inr (scope, s0)"
    and 1: "findOrCreateSequence opts s0 = Inr (row, s1)" and one: "count_where (P row) (sequences s1) = 1"
    and s': "s' = s1\<lparr>sequences := update_many (P row) (f row) (sequences s1)\<rparr>"
    and n: "n = formatNumber (op_prefix opts) scope (num_now s) (cur row)
                  (case op_padding opts of None \<Rightarrow> 6 | Some k \<Rightarrow> k)"
    unfolding nextDocumentNumber_def P_def f_def cur_def by (auto simp: tx_Inr Let_def)
  from resolve_state [OF 0] have s0: "s0 = s" .
  note wf1 = findOrCreate_wf [OF 1 [unfolded s0] wf]
  then have wfs: "numbering_wf s1" and row: "row \<in> set (sequences s1)"
    and first: "find_first (sequenceKey opts) (sequences s1) = Some row" by auto
  have key: "sequenceKey opts row" using first by (auto dest: find_first_Some)
  have by_id: "r = row" if "r \<in> set (sequences s1)" "seq_id r = seq_id row" for r
    using wfs row that by (auto simp: numbering_wf_def distinct_map inj_on_def)
  from one obtain r where "r \<in> set (sequences s1)" "P row r"
    unfolding count_where_def by (metis One_nat_def filter_empty_conv length_0_conv zero_neq_one)
  with by_id have cur: "seq_nextNumber row = cur row" by (auto simp: P_def)
  have same: "sequenceKey o' (if P row r then f row r else r) = sequenceKey o' r" for o' r
    by (simp add: sequenceKey_def f_def)
  have find: "find_first (sequenceKey o') (sequences s') =
      map_option (\<lambda>r. if P row r then f row r else r) (find_first (sequenceKey o') (sequences s1))" for o'
    unfolding s' using find_first_update_many [of "sequenceKey o'" "P row" "f row" "sequences s1"] same by simp
  have "counterOf opts s = seq_nextNumber row"
    using 1 [unfolded s0] by (cases rule: findOrCreate_cases) (simp_all add: counterOf_def)
  moreover have "counterOf opts s' = Suc (seq_nextNumber row)"
    using find [of opts] first cur by (simp add: counterOf_def P_def f_def)
  moreover have "counterOf o' s' = counterOf o' s"
    if d: "(op_company o', op_branch o', op_documentType o') \<noteq> (op_company opts, op_branch opts, op_documentType opts)" for o'
  proof -
    have notrow: "\<not> sequenceKey o' row" using d key by (auto simp: sequenceKey_def)
    have "find_first (sequenceKey o') (sequences s') = find_first (sequenceKey o') (sequences s1)"
    proof (cases "find_first (sequenceKey o') (sequences s1)")
      case None
      then show ?thesis using find [of o'] by simp
    next
      case (Some r)
      then have "r \<noteq> row" "r \<in> set (sequences s1)" using notrow by (auto dest: find_first_Some)
      then have "\<not> P row r" using by_id by (auto simp: P_def)
      then show ?thesis using find [of o'] Some by simp
    qed
    moreover have "find_first (sequenceKey o') (sequences s1) = find_first (sequenceKey o') (sequences s)"
      using 1 [unfolded s0]
    proof (cases rule: findOrCreate_cases)
      case found
      then show ?thesis by simp
    next
      case created
      show ?thesis unfolding created(6)
        by (cases "find_first (sequenceKey o') (sequences s)")
          (simp_all add: find_first_append_None notrow find_first_append_Some)
    qed
    ultimately show ?thesis by (simp add: counterOf_def)
  qed
  moreover have "numbering_wf s'"
  proof -
    have "map seq_id (sequences s') = map seq_id (sequences s1)"
      and "map (\<lambda>r. (seq_company r, seq_branch r, seq_documentType r)) (sequences s') =
           map (\<lambda>r. (seq_company r, seq_branch r, seq_documentType r)) (sequences s1)"
      unfolding s' by (simp_all add: f_def map_update_many)
    moreover have "\<forall>r \<in> set (sequences s'). seq_id r < num_nextId s1"
      using wfs unfolding s' by (auto simp: numbering_wf_def in_update_many f_def)
    ultimately show ?thesis using wfs by (simp add: numbering_wf_def s')
  qed
  moreover have "branches s' = branches s \<and> companies s' = companies s \<and> num_now s' = num_now s"
    using 1 [unfolded s0] by (cases rule: findOrCreate_cases) (simp_all add: s')
  ultimately show ?thesis using 0 s0 n cur by auto
qed

section \<open>Histories\<close>

text \<open>
  A history of calls and of the clock moving. A call that throws rolls its transaction back and issues no
  number; the others append theirs.
\<close>

datatype numbering_event = Issue numbering_opts | ClockTo int

fun issueAll :: "numbering_event list \<Rightarrow> numbering \<Rightarrow> (numbering_opts \<times> string) list" where
  "issueAll [] s = []"
| "issueAll (ClockTo t # es) s = issueAll es (s\<lparr>num_now := t\<rparr>)"
| "issueAll (Issue opts # es) s = (case nextDocumentNumber opts s of
      Inl e \<Rightarrow> issueAll es s
    | Inr (n, s') \<Rightarrow> (opts, n) # issueAll es s')"

definition uniqueBranches :: "numbering \<Rightarrow> bool" where
  "uniqueBranches s \<longleftrightarrow> distinct (map br_id (branches s)) \<and> distinct (map br_code (branches s))"

text \<open>A number already issued by branch row \<open>b\<close>: its counter value lies below the branch's counter.\<close>

definition spent :: "numbering_opts \<Rightarrow> numbering \<Rightarrow> string \<Rightarrow> bool" where
  "spent kind s n \<longleftrightarrow> (\<exists>b \<in> set (branches s). \<exists>t \<ge> 0. \<exists>i.
     n = formatNumber (op_prefix kind) (br_code b) t i (case op_padding kind of None \<Rightarrow> 6 | Some k \<Rightarrow> k) \<and>
     i < counterOf (kind\<lparr>op_company := br_company b, op_branch := Some (br_id b)\<rparr>) s)"

definition sameKind :: "numbering_opts \<Rightarrow> numbering_opts \<Rightarrow> bool" where
  "sameKind kind opts \<longleftrightarrow> op_prefix opts = op_prefix kind \<and> op_padding opts = op_padding kind \<and>
     op_documentType opts = op_documentType kind \<and> op_branch opts \<noteq> None"

fun clockOk :: "numbering_event \<Rightarrow> bool" where
  "clockOk (Issue opts) = True"
| "clockOk (ClockTo t) = (0 \<le> t)"

definition numbersOf :: "numbering_opts \<Rightarrow> (numbering_opts \<times> string) list \<Rightarrow> string list" where
  "numbersOf kind issued = map snd (filter (\<lambda>(opts, _). sameKind kind opts) issued)"

lemma counterOf_cong:
  "op_company a = op_company b \<Longrightarrow> op_branch a = op_branch b \<Longrightarrow> op_documentType a = op_documentType b \<Longrightarrow>
   counterOf a s = counterOf b s"
proof -
  assume "op_company a = op_company b" "op_branch a = op_branch b" "op_documentType a = op_documentType b"
  then have "sequenceKey a = sequenceKey b" by (auto simp: sequenceKey_def)
  then show ?thesis by (simp add: counterOf_def)
qed

lemma resolve_branch:
  assumes "resolveDocumentScopeCode c (Some b) s = Inr (code, s')"
  shows "\<exists>r \<in> set (branches s). br_id r = b \<and> br_company r = c \<and> code = br_code r"
  using assms by (auto simp: resolveDocumentScopeCode_def tx_Inr dest!: find_first_Some split: option.splits)

lemma counterOf_mono:
  assumes "nextDocumentNumber opts s = Inr (n, s')" and "numbering_wf s"
  shows "counterOf o' s \<le> counterOf o' s'"
proof (cases "(op_company o', op_branch o', op_documentType o') = (op_company opts, op_branch opts, op_documentType opts)")
  case True
  then have "counterOf o' s1 = counterOf opts s1" for s1 by (intro counterOf_cong) simp_all
  then show ?thesis using nextDocumentNumber_effect [OF assms] by auto
next
  case False
  then have "counterOf o' s' = counterOf o' s" using nextDocumentNumber_effect [OF assms] by blast
  then show ?thesis by simp
qed

lemma spent_mono:
  assumes "nextDocumentNumber opts s = Inr (n, s')" and "numbering_wf s" and "spent kind s m"
  shows "spent kind s' m"
proof -
  have "branches s' = branches s" using nextDocumentNumber_effect [OF assms(1,2)] by blast
  with assms(3) counterOf_mono [OF assms(1,2)] show ?thesis
    unfolding spent_def by (fastforce intro: order_less_le_trans)
qed

lemma spent_effect:
  assumes eff: "nextDocumentNumber opts s = Inr (n, s')" and wf: "numbering_wf s" and kind: "sameKind kind opts"
    and b: "uniqueBranches s" and t: "0 \<le> num_now s"
  shows "spent kind s' n \<and> \<not> spent kind s n"
proof -
  let ?pad = "case op_padding kind of None \<Rightarrow> 6 | Some k \<Rightarrow> k"
  let ?at = "\<lambda>r. kind\<lparr>op_company := br_company r, op_branch := Some (br_id r)\<rparr>"
  obtain bid where bid: "op_branch opts = Some bid" using kind by (auto simp: sameKind_def)
  from nextDocumentNumber_effect [OF eff wf] obtain scope where
    0: "resolveDocumentScopeCode (op_company opts) (Some bid) s = Inr (scope, s)"
    and n: "n = formatNumber (op_prefix kind) scope (num_now s) (counterOf opts s) ?pad"
    and up: "counterOf opts s' = Suc (counterOf opts s)" and br: "branches s' = branches s"
    using kind bid by (auto simp: sameKind_def)
  from resolve_branch [OF 0] obtain r where r: "r \<in> set (branches s)" "br_id r = bid" "br_company r = op_company opts"
    "scope = br_code r" by auto
  have here: "counterOf (?at r) s1 = counterOf opts s1" for s1
    using kind r bid by (intro counterOf_cong) (simp_all add: sameKind_def)
  have "spent kind s' n"
    unfolding spent_def br n r(4) using r(1) t here up by (metis lessI)
  moreover have "\<not> spent kind s n"
  proof
    assume "spent kind s n"
    then obtain q t' i where q: "q \<in> set (branches s)" "0 \<le> t'" "i < counterOf (?at q) s"
      and eq: "n = formatNumber (op_prefix kind) (br_code q) t' i ?pad" unfolding spent_def by blast
    from formatNumber_parts [OF eq [unfolded n] t q(2)] r(4) have "br_code q = br_code r" "i = counterOf opts s" by auto
    with b q(1) r(1) have "q = r" by (auto simp: uniqueBranches_def distinct_map inj_on_def)
    with q(3) here \<open>i = _\<close> show False by simp
  qed
  ultimately show ?thesis by blast
qed

lemma issueAll_fresh:
  assumes "numbering_wf s" and "uniqueBranches s" and "0 \<le> num_now s" and "\<forall>e \<in> set es. clockOk e"
  shows "distinct (numbersOf kind (issueAll es s)) \<and> (\<forall>n \<in> set (numbersOf kind (issueAll es s)). \<not> spent kind s n)"
  using assms
proof (induction es s rule: issueAll.induct)
  case (1 s)
  then show ?case by (simp add: numbersOf_def)
next
  case (2 t es s)
  have "numbering_wf (s\<lparr>num_now := t\<rparr>)" "uniqueBranches (s\<lparr>num_now := t\<rparr>)"
    using 2 by (simp_all add: numbering_wf_def uniqueBranches_def)
  moreover have "spent kind (s\<lparr>num_now := t\<rparr>) n = spent kind s n" for n
    by (simp add: spent_def counterOf_def)
  ultimately show ?case using 2 by simp
next
  case (3 opts es s)
  show ?case
  proof (cases "nextDocumentNumber opts s")
    case (Inl e)
    with 3 show ?thesis by simp
  next
    case (Inr r)
    obtain n s' where r: "r = (n, s')" by force
    with Inr have eff: "nextDocumentNumber opts s = Inr (n, s')" by simp
    have "numbering_wf s'" "uniqueBranches s'" "0 \<le> num_now s'"
      using nextDocumentNumber_effect [OF eff 3(3)] 3(4,5) by (auto simp: uniqueBranches_def)
    moreover have "\<forall>e \<in> set es. clockOk e" using 3(6) by simp
    ultimately have IH: "distinct (numbersOf kind (issueAll es s'))"
      "\<forall>n \<in> set (numbersOf kind (issueAll es s')). \<not> spent kind s' n"
      using 3(2) [OF Inr r [symmetric]] by auto
    have "\<not> spent kind s m" if "m \<in> set (numbersOf kind (issueAll es s'))" for m
      using that IH(2) spent_mono [OF eff 3(3)] by blast
    with IH spent_effect [OF eff 3(3) _ 3(4,5), of kind] show ?thesis
      using eff by (auto simp: numbersOf_def)
  qed
qed

section \<open>A company with a counter\<close>

definition exNumbering :: numbering where
  "exNumbering = \<lparr>branches = [\<lparr>br_id = 1, br_company = 9, br_code = ''BDG'', br_isActive = True, br_address = None\<rparr>, \<lparr>br_id = 2, br_company = 9, br_code = ''JKT'', br_isActive = True, br_address = None\<rparr>],
     companies = [\<lparr>co_id = 9, co_slug = Some ''toko''\<rparr>],
     sequences = [\<lparr>seq_id = 3, seq_company = 9, seq_branch = Some 1, seq_documentType = ''SALE'', seq_prefix = ''SL'',
        seq_nextNumber = 41, seq_resetPolicy = MONTHLY, seq_lastResetAt = Some (20000 * dayMs)\<rparr>],
     num_now = 20005 * dayMs, num_nextId = 4\<rparr>"

definition exOpts :: "ident \<Rightarrow> numbering_opts" where
  "exOpts b = \<lparr>op_company = 9, op_branch = Some b, op_documentType = ''SALE'', op_prefix = ''SL'',
     op_padding = None, op_resetPolicy = None\<rparr>"

lemma exNumbering_ok: "numbering_wf exNumbering \<and> uniqueBranches exNumbering \<and> 0 \<le> num_now exNumbering"
  by (simp add: exNumbering_def numbering_wf_def uniqueBranches_def dayMs_def)

definition exHistory :: "numbering_event list" where
  "exHistory = [Issue (exOpts 1), Issue (exOpts 2), ClockTo (20006 * dayMs), Issue (exOpts 1)]"

lemma exPeriod: "yearText (20005 * dayMs) = ''2024''" "monthText (20005 * dayMs) = ''10''"
  "yearText (20006 * dayMs) = ''2024''" "monthText (20006 * dayMs) = ''10''"
  "yearText (20000 * dayMs) = ''2024''" "monthText (20000 * dayMs) = ''10''"
  "yearText (20035 * dayMs) = ''2024''" "monthText (20035 * dayMs) = ''11''"
proof -
  have "civilFields 20005 = (2024, 10, 9)" "civilFields 20006 = (2024, 10, 10)" "civilFields 20000 = (2024, 10, 4)"
    "civilFields 20035 = (2024, 11, 8)" by code_simp+
  moreover have "natText 2024 = ''2024''" "natText 10 = ''10''" "natText 11 = ''11''"
    by (simp_all add: natText.simps digitChars)
  ultimately show "yearText (20005 * dayMs) = ''2024''" "monthText (20005 * dayMs) = ''10''"
    "yearText (20006 * dayMs) = ''2024''" "monthText (20006 * dayMs) = ''10''"
    "yearText (20000 * dayMs) = ''2024''" "monthText (20000 * dayMs) = ''10''"
    "yearText (20035 * dayMs) = ''2024''" "monthText (20035 * dayMs) = ''11''"
    by (simp_all add: yearText_def monthText_def utcYear_def utcMonth_def utcDayNumber_def intText_def padStart_def dayMs_def)
qed

lemma exCounters: "natText 41 = ''41''" "natText 42 = ''42''" "natText 1 = ''1''" "natText (Suc 0) = ''1''"
  by (simp_all add: natText.simps digitChars)

lemma exZeros: "replicate 4 CHR ''0'' = ''0000''" "replicate 5 CHR ''0'' = ''00000''"
  by (simp_all add: numeral_eq_Suc)

lemma exIssue: "map snd (issueAll exHistory exNumbering) =
    [''SL-BDG-202410-000041'', ''SL-JKT-202410-000001'', ''SL-BDG-202410-000042'']"
  by (simp add: exHistory_def exNumbering_def exOpts_def nextDocumentNumber_def resolveDocumentScopeCode_def
      findOrCreateSequence_def bindT_def tx_defs find_first_def sequenceKey_def currentNumber_def periodOf_def
      rowPeriodOf_def count_where_def update_many_def formatNumber_def exPeriod exCounters padStart_def Let_def exZeros)

section \<open>Properties\<close>

text \<open>
  C27. No number is issued twice: whatever calls for whatever documents succeed, fail and interleave
  while the clock moves, the numbers a document type of one prefix hands out over all branches of all
  companies are pairwise different, given that branch codes are unique (as the schema declares them).
\<close>

theorem issued_numbers_distinct:
  assumes "numbering_wf s" and "uniqueBranches s" and "0 \<le> num_now s" and "\<forall>e \<in> set es. clockOk e"
  shows "distinct (numbersOf kind (issueAll es s))"
  using issueAll_fresh [OF assms] by blast

theorem issued_numbers_distinct_witness:
  "distinct (numbersOf (exOpts 1) (issueAll exHistory exNumbering)) \<and> length (issueAll exHistory exNumbering) = 3"
proof -
  have "\<forall>e \<in> set exHistory. clockOk e" by (simp add: exHistory_def dayMs_def)
  moreover have "length (issueAll exHistory exNumbering) = 3" using arg_cong [OF exIssue, of length] by simp
  ultimately show ?thesis using issued_numbers_distinct exNumbering_ok by blast
qed

section \<open>A period that has ended\<close>

text \<open>The tables after a history of calls and clock moves; a call that throws is rolled back.\<close>

fun numberingAfter :: "numbering_event list \<Rightarrow> numbering \<Rightarrow> numbering" where
  "numberingAfter [] s = s"
| "numberingAfter (ClockTo t # es) s = numberingAfter es (s\<lparr>num_now := t\<rparr>)"
| "numberingAfter (Issue opts # es) s = (case nextDocumentNumber opts s of Inl e \<Rightarrow> numberingAfter es s | Inr (n, s') \<Rightarrow> numberingAfter es s')"

definition sameCounter :: "numbering_opts \<Rightarrow> numbering_opts \<Rightarrow> bool" where
  "sameCounter opts other \<longleftrightarrow> op_company other = op_company opts \<and> op_branch other = op_branch opts \<and>
     op_documentType other = op_documentType opts"

text \<open>The clock stays out of the period of \<open>at\<close>, and the callers of the counter agree on the reset policy.\<close>

fun pastPeriod :: "numbering_opts \<Rightarrow> int \<Rightarrow> numbering_event \<Rightarrow> bool" where
  "pastPeriod opts at (ClockTo t) = (0 \<le> t \<and> rowPeriodOf (op_resetPolicy opts) at \<noteq> periodOf (op_resetPolicy opts) t)"
| "pastPeriod opts at (Issue other) = (sameCounter opts other \<longrightarrow> op_resetPolicy other = op_resetPolicy opts)"

lemma period_not_all:
  assumes "policy \<noteq> Some NEVER" and "0 \<le> t"
  shows "periodOf policy t \<noteq> ''ALL''"
proof
  assume "periodOf policy t = ''ALL''"
  moreover have "\<forall>c \<in> set (periodOf policy t). isDigit c"
    using assms(1) yearText_digits [OF assms(2)] monthText_digits [of t]
    by (auto simp: periodOf_def split: option.splits reset_policy.splits)
  ultimately show False by (simp add: isDigit_def)
qed

lemma ended_period_throws:
  assumes "find_first (sequenceKey opts) (sequences s) = Some row" and "seq_lastResetAt row = Some at"
    and "op_resetPolicy opts \<noteq> Some NEVER" and "pastPeriod opts at (ClockTo (num_now s))"
    and "seq_nextNumber row \<noteq> 1" and "numbering_wf s"
    and "resolveDocumentScopeCode (op_company opts) (op_branch opts) s = Inr (scope, s)"
  shows "nextDocumentNumber opts s = Inl (sequenceConflict opts)"
proof -
  have row: "row \<in> set (sequences s)" using find_first_Some [OF assms(1)] by blast
  have cur: "currentNumber opts row (num_now s) = 1"
    using assms(2,4) period_not_all [OF assms(3)] by (simp add: currentNumber_def)
  have "r = row" if "r \<in> set (sequences s)" "seq_id r = seq_id row" for r
    using assms(6) row that by (auto simp: numbering_wf_def distinct_map inj_on_def)
  then have "count_where (\<lambda>r. seq_id r = seq_id row \<and> seq_nextNumber r = 1) (sequences s) = 0"
    using assms(5) by (auto simp: count_where_def filter_empty_conv)
  then show ?thesis using assms(1,7) cur
    by (simp add: nextDocumentNumber_def bindT_def getT_def findOrCreateSequence_def returnT_def stateT_def requireT_def)
qed

lemma find_first_update_other:
  "\<forall>x \<in> set xs. Q x \<longrightarrow> \<not> P x \<and> \<not> P (f x) \<Longrightarrow> find_first P (update_many Q f xs) = find_first P xs"
  by (induction xs) (auto simp: find_first_def update_many_def)

text \<open>A call on another counter leaves the row.\<close>

lemma other_counter_keeps:
  assumes "nextDocumentNumber other s = Inr (n, s')" and "numbering_wf s" and "\<not> sameCounter opts other"
    and "find_first (sequenceKey opts) (sequences s) = Some row"
  shows "find_first (sequenceKey opts) (sequences s') = Some row"
proof -
  from assms(1) obtain r s1 where f: "findOrCreateSequence other s = Inr (r, s1)"
    and s': "sequences s' = update_many (\<lambda>x. seq_id x = seq_id r \<and> seq_nextNumber x = currentNumber other r (num_now s))
      (\<lambda>x. x\<lparr>seq_nextNumber := currentNumber other r (num_now s) + 1, seq_lastResetAt := Some (num_now s)\<rparr>) (sequences s1)"
    by (auto simp: nextDocumentNumber_def tx_Inr Let_def dest: resolve_state)
  note first = findOrCreate_wf [OF f assms(2)]
  then have wf: "numbering_wf s1" "r \<in> set (sequences s1)" by simp_all
  have key: "sequenceKey other r" using first find_first_Some [of "sequenceKey other" "sequences s1" r] by simp
  have no: "\<not> sequenceKey opts r" using key assms(3) by (auto simp: sequenceKey_def sameCounter_def)
  have "find_first (sequenceKey opts) (sequences s1) = Some row"
    using f by (cases rule: findOrCreate_cases) (use assms(4) in \<open>simp_all add: find_first_append_Some\<close>)
  moreover have "x = r" if "x \<in> set (sequences s1)" "seq_id x = seq_id r" for x
    using wf that by (auto simp: numbering_wf_def distinct_map inj_on_def)
  then have "\<forall>x \<in> set (sequences s1). seq_id x = seq_id r \<longrightarrow> \<not> sequenceKey opts x" using no by blast
  then have "find_first (sequenceKey opts) (sequences s') = find_first (sequenceKey opts) (sequences s1)"
    unfolding s' by (intro find_first_update_other) (auto simp: sequenceKey_def)
  ultimately show ?thesis by simp
qed

lemma resolve_cong:
  "branches s' = branches s \<Longrightarrow> companies s' = companies s \<Longrightarrow> resolveDocumentScopeCode c b s = Inr (scope, s) \<Longrightarrow>
   resolveDocumentScopeCode c b s' = Inr (scope, s')"
  by (auto simp: resolveDocumentScopeCode_def bindT_def tx_defs split: option.splits)

text \<open>
  C35. After the first number of a period, the period's end blocks the document type for good. Once the row of a
  counter was last used in another month (or year, under the yearly policy) and stands past 1, every call for
  it throws the conflict that asks for a retry, and leaves the row as it is: after any history of calls for this
  and other counters and of clock moves, the row is still there unchanged, no number of the counter has been
  issued, and the next call throws the conflict again. The clock does not return to the row's period, and
  the callers of the counter use its reset policy.
\<close>

theorem rollover_never_recovers:
  assumes "find_first (sequenceKey opts) (sequences s) = Some row" and "seq_lastResetAt row = Some at"
    and "op_resetPolicy opts \<noteq> Some NEVER" and "seq_nextNumber row \<noteq> 1" and "numbering_wf s"
    and "resolveDocumentScopeCode (op_company opts) (op_branch opts) s = Inr (scope, s)"
    and "pastPeriod opts at (ClockTo (num_now s))" and "\<forall>e \<in> set es. pastPeriod opts at e"
  shows "nextDocumentNumber opts (numberingAfter es s) = Inl (sequenceConflict opts) \<and>
    find_first (sequenceKey opts) (sequences (numberingAfter es s)) = Some row \<and>
    (\<forall>(other, n) \<in> set (issueAll es s). \<not> sameCounter opts other)"
  using assms
proof (induction es s rule: issueAll.induct)
  case (1 s)
  then show ?case by (simp add: ended_period_throws)
next
  case (2 t es s)
  have "resolveDocumentScopeCode (op_company opts) (op_branch opts) (s\<lparr>num_now := t\<rparr>) = Inr (scope, s\<lparr>num_now := t\<rparr>)"
    by (rule resolve_cong [OF _ _ 2(7)]) simp_all
  then show ?case using 2 by (simp add: numbering_wf_def)
next
  case (3 other es s)
  have at: "pastPeriod opts at (ClockTo (num_now s))" by (rule 3(9))
  show ?case
  proof (cases "nextDocumentNumber other s")
    case (Inl e)
    then show ?thesis using 3 by simp
  next
    case (Inr r)
    obtain n s' where r: "r = (n, s')" by force
    with Inr have eff: "nextDocumentNumber other s = Inr (n, s')" by simp
    have other: "\<not> sameCounter opts other"
    proof
      assume same: "sameCounter opts other"
      then have "op_resetPolicy other = op_resetPolicy opts" using 3(10) by simp
      moreover have "sequenceKey other = sequenceKey opts" using same by (auto simp: sequenceKey_def sameCounter_def)
      ultimately have "nextDocumentNumber other s = Inl (sequenceConflict other)"
        using 3(3-8) at same by (intro ended_period_throws [where row = row and at = at and scope = scope]) (simp_all add: sameCounter_def)
      then show False using eff by simp
    qed
    note e = nextDocumentNumber_effect [OF eff 3(7)]
    have "branches s' = branches s" "companies s' = companies s" "num_now s' = num_now s" "numbering_wf s'" using e by blast+
    moreover have "find_first (sequenceKey opts) (sequences s') = Some row" by (rule other_counter_keeps [OF eff 3(7) other 3(3)])
    moreover have "resolveDocumentScopeCode (op_company opts) (op_branch opts) s' = Inr (scope, s')"
      by (rule resolve_cong [OF _ _ 3(8)]) (use e in blast)+
    ultimately show ?thesis using 3(2) [OF Inr r [symmetric]] 3(4-6,9,10) eff other by auto
  qed
qed

text \<open>A month later, with calls of the other branch and of this one in between.\<close>

definition exRollover :: "numbering_event list" where
  "exRollover = [Issue (exOpts 1), Issue (exOpts 2), ClockTo (20035 * dayMs), Issue (exOpts 1)]"

theorem rollover_never_recovers_witness:
  "nextDocumentNumber (exOpts 1) (numberingAfter exRollover (exNumbering\<lparr>num_now := 20035 * dayMs\<rparr>)) =
     Inl (PlainError ''Konflik sequence SALE; ulangi transaksi.'') \<and>
   find_first (sequenceKey (exOpts 1)) (sequences (numberingAfter exRollover (exNumbering\<lparr>num_now := 20035 * dayMs\<rparr>))) =
     Some (hd (sequences exNumbering))"
proof -
  let ?s = "exNumbering\<lparr>num_now := 20035 * dayMs\<rparr>"
  have "find_first (sequenceKey (exOpts 1)) (sequences ?s) = Some (hd (sequences exNumbering))"
    and "seq_lastResetAt (hd (sequences exNumbering)) = Some (20000 * dayMs)" and "seq_nextNumber (hd (sequences exNumbering)) \<noteq> 1"
    by (simp_all add: exNumbering_def exOpts_def sequenceKey_def find_first_def)
  moreover have "numbering_wf ?s" using exNumbering_ok by (simp add: numbering_wf_def)
  moreover have "resolveDocumentScopeCode (op_company (exOpts 1)) (op_branch (exOpts 1)) ?s = Inr (''BDG'', ?s)"
    by (simp add: exNumbering_def exOpts_def resolveDocumentScopeCode_def bindT_def tx_defs find_first_def)
  moreover have "pastPeriod (exOpts 1) (20000 * dayMs) (ClockTo (num_now ?s))" and "\<forall>e \<in> set exRollover. pastPeriod (exOpts 1) (20000 * dayMs) e"
    by (simp_all add: exRollover_def rowPeriodOf_def periodOf_def exOpts_def exPeriod dayMs_def [THEN arg_cong, of "\<lambda>d. 0 \<le> d"])
  moreover have "op_resetPolicy (exOpts 1) \<noteq> Some NEVER" by (simp add: exOpts_def)
  ultimately show ?thesis
    using rollover_never_recovers [of "exOpts 1" ?s "hd (sequences exNumbering)" "20000 * dayMs" "''BDG''" exRollover]
    by (simp add: sequenceConflict_def exOpts_def)
qed

end
