(* ===== verification/Idempotency.thy ===== *)
theory Idempotency
  imports Prelude
begin

text \<open>
  Idempotency receipts, \<open>apps/api/src/common/idempotency.ts\<close>: a receipt per company, scope and key, opened
  before a mutation, completed with its response, released when it failed. \<open>hashPayload\<close> (SHA-256 of the
  JSON text) is outside the model: operations take the request hash. Responses are of any type.
\<close>

section \<open>Receipts\<close>

datatype receipt_status = PROCESSING | COMPLETED

record 'r receipt =
  rc_id :: ident
  rc_company :: ident
  rc_scope :: string
  rc_key :: string
  rc_hash :: string
  rc_status :: receipt_status
  rc_response :: "'r option"
  rc_expiresAt :: "int option"
  rc_createdAt :: int

record 'r receipts =
  rcs_rows :: "'r receipt list"
  rcs_now :: int
  rcs_nextId :: ident

record receipt_opts =
  ro_company :: ident
  ro_scope :: string
  ro_key :: string
  ro_hash :: string

definition receiptKey :: "receipt_opts \<Rightarrow> 'r receipt \<Rightarrow> bool" where
  "receiptKey opts r \<longleftrightarrow> rc_company r = ro_company opts \<and> rc_scope r = ro_scope opts \<and> rc_key r = ro_key opts"

datatype 'r begin_result = Proceed | Replay "'r option"

definition processingTtlMs :: int where
  "processingTtlMs = 10 * 60 * 1000"

definition conflictError :: exn where
  "conflictError = BadRequest ''Idempotency key dipakai ulang dengan payload berbeda.''"

definition inProgressError :: exn where
  "inProgressError = Conflict ''Permintaan dengan idempotency key ini masih diproses;''"

section \<open>Operations\<close>

text \<open>
  \<open>raced\<close> are the receipts other transactions commit between the lookup and the insertion; under
  serializable isolation there are none.
\<close>

definition beginIdempotent ::
    "'r receipt list \<Rightarrow> receipt_opts \<Rightarrow> ('r receipts, 'r begin_result) tx" where
  "beginIdempotent raced opts =
     bindT (getT (\<lambda>s. find_first (receiptKey opts) (rcs_rows s))) (\<lambda>existing.
     bindT (getT rcs_now) (\<lambda>t.
     case existing of
       Some r \<Rightarrow>
         if rc_hash r \<noteq> ro_hash opts then throwT conflictError
         else if rc_status r = COMPLETED then returnT (Replay (rc_response r))
         else if (case rc_expiresAt r of Some e \<Rightarrow> e | None \<Rightarrow> rc_createdAt r + processingTtlMs) \<le> t then
           bindT (stateT (\<lambda>s. (count_where (\<lambda>q. rc_id q = rc_id r \<and> rc_status q = PROCESSING \<and> rc_hash q = ro_hash opts) (rcs_rows s),
              s\<lparr>rcs_rows := update_many (\<lambda>q. rc_id q = rc_id r \<and> rc_status q = PROCESSING \<and> rc_hash q = ro_hash opts)
                  (\<lambda>q. q\<lparr>rc_expiresAt := Some (t + processingTtlMs)\<rparr>) (rcs_rows s)\<rparr>))) (\<lambda>reclaimed.
           if reclaimed = 1 then returnT Proceed else throwT inProgressError)
         else throwT inProgressError
     | None \<Rightarrow>
         bindT (modT (\<lambda>s. s\<lparr>rcs_rows := rcs_rows s @ raced\<rparr>)) (\<lambda>_.
         bindT (getT (\<lambda>s. find_first (receiptKey opts) (rcs_rows s))) (\<lambda>dup.
         case dup of
           None \<Rightarrow> bindT (modT (\<lambda>s. s\<lparr>rcs_rows := rcs_rows s @
                [\<lparr>rc_id = rcs_nextId s, rc_company = ro_company opts, rc_scope = ro_scope opts, rc_key = ro_key opts,
                  rc_hash = ro_hash opts, rc_status = PROCESSING, rc_response = None,
                  rc_expiresAt = Some (t + processingTtlMs), rc_createdAt = t\<rparr>], rcs_nextId := Suc (rcs_nextId s)\<rparr>))
              (\<lambda>_. returnT Proceed)
         | Some d \<Rightarrow>
             if rc_hash d \<noteq> ro_hash opts then throwT conflictError
             else if rc_status d = COMPLETED then returnT (Replay (rc_response d))
             else throwT inProgressError))))"

definition completeIdempotent :: "receipt_opts \<Rightarrow> 'r option \<Rightarrow> ('r receipts, unit) tx" where
  "completeIdempotent opts response = modT (\<lambda>s. s\<lparr>rcs_rows := update_many
     (\<lambda>r. receiptKey opts r \<and> rc_status r = PROCESSING)
     (\<lambda>r. r\<lparr>rc_status := COMPLETED, rc_response := response\<rparr>) (rcs_rows s)\<rparr>)"

definition releaseIdempotent :: "receipt_opts \<Rightarrow> ('r receipts, unit) tx" where
  "releaseIdempotent opts = modT (\<lambda>s. s\<lparr>rcs_rows := filter
     (\<lambda>r. \<not> (receiptKey opts r \<and> rc_status r = PROCESSING)) (rcs_rows s)\<rparr>)"

section \<open>The pattern of the services\<close>

text \<open>
  Every service that takes an idempotency key opens the receipt, returns the stored response on a replay,
  and otherwise does its work and completes the receipt, all in one serializable transaction. The state is
  the receipts and the tables the work changes.
\<close>

definition onReceipts :: "('r receipts, 'a) tx \<Rightarrow> ('r receipts \<times> 'w, 'a) tx" where
  "onReceipts = zoomT fst (\<lambda>t s. (t, snd s))"

definition onWorld :: "('w, 'a) tx \<Rightarrow> ('r receipts \<times> 'w, 'a) tx" where
  "onWorld = zoomT snd (\<lambda>t s. (fst s, t))"

definition idempotentTx :: "receipt_opts \<Rightarrow> ('w, 'r) tx \<Rightarrow> ('r receipts \<times> 'w, 'r option) tx" where
  "idempotentTx opts work =
     bindT (onReceipts (beginIdempotent [] opts)) (\<lambda>b. case b of
       Replay response \<Rightarrow> returnT response
     | Proceed \<Rightarrow>
         bindT (onWorld work) (\<lambda>r.
         bindT (onReceipts (completeIdempotent opts (Some r))) (\<lambda>_.
         returnT (Some r))))"

section \<open>Keys are unique\<close>

definition receipts_wf :: "'r receipts \<Rightarrow> bool" where
  "receipts_wf s \<longleftrightarrow> distinct (map (\<lambda>r. (rc_company r, rc_scope r, rc_key r)) (rcs_rows s)) \<and>
     distinct (map rc_id (rcs_rows s)) \<and> (\<forall>r \<in> set (rcs_rows s). rc_id r < rcs_nextId s)"

definition sameKey :: "receipt_opts \<Rightarrow> receipt_opts \<Rightarrow> bool" where
  "sameKey a b \<longleftrightarrow> ro_company a = ro_company b \<and> ro_scope a = ro_scope b \<and> ro_key a = ro_key b"

definition receiptOf :: "receipt_opts \<Rightarrow> 'r receipts \<Rightarrow> 'r receipt option" where
  "receiptOf opts s = find_first (receiptKey opts) (rcs_rows s)"

definition answered :: "receipt_opts \<Rightarrow> 'r option \<Rightarrow> 'r receipts \<Rightarrow> bool" where
  "answered opts response s \<longleftrightarrow> (\<exists>r. receiptOf opts s = Some r \<and> rc_hash r = ro_hash opts \<and>
     rc_status r = COMPLETED \<and> rc_response r = response)"

lemma receiptKey_sameKey: "sameKey a b \<Longrightarrow> receiptKey a = receiptKey b"
  by (auto simp: sameKey_def receiptKey_def)

lemma receiptKey_other: "\<not> sameKey a b \<Longrightarrow> receiptKey a r \<Longrightarrow> \<not> receiptKey b r"
  by (auto simp: sameKey_def receiptKey_def)

lemma receiptOf_unique:
  assumes "receipts_wf s" and "r \<in> set (rcs_rows s)" and "receiptKey opts r"
  shows "receiptOf opts s = Some r"
proof -
  obtain q where q: "receiptOf opts s = Some q"
    using assms(2,3) find_first_None [of "receiptKey opts" "rcs_rows s"] by (cases "receiptOf opts s") (auto simp: receiptOf_def)
  then have "q \<in> set (rcs_rows s)" "receiptKey opts q" by (auto simp: receiptOf_def dest: find_first_Some)
  then have "q = r" using assms by (auto simp: receipts_wf_def distinct_map inj_on_def receiptKey_def)
  with q show ?thesis by simp
qed

lemma update_receipts_wf:
  assumes "receipts_wf s" and "\<And>r. (rc_id (f r), rc_company (f r), rc_scope (f r), rc_key (f r)) = (rc_id r, rc_company r, rc_scope r, rc_key r)"
  shows "receipts_wf (s\<lparr>rcs_rows := update_many P f (rcs_rows s)\<rparr>)"
proof -
  have "map (\<lambda>r. (rc_company r, rc_scope r, rc_key r)) (update_many P f (rcs_rows s)) =
      map (\<lambda>r. (rc_company r, rc_scope r, rc_key r)) (rcs_rows s)"
    and "map rc_id (update_many P f (rcs_rows s)) = map rc_id (rcs_rows s)"
    using assms(2) by (intro map_update_many; simp)+
  with assms show ?thesis by (auto simp: receipts_wf_def in_update_many)
qed

lemma receiptOf_update_other:
  assumes "\<And>r. P r \<Longrightarrow> \<not> receiptKey opts r" and "\<And>r. receiptKey opts (f r) = receiptKey opts r"
  shows "receiptOf opts (s\<lparr>rcs_rows := update_many P f (rcs_rows s)\<rparr>) = receiptOf opts s"
proof -
  have "find_first (receiptKey opts) (update_many P f t) = find_first (receiptKey opts) t" for t
    using assms by (induction t) (auto simp: find_first_def update_many_def)
  then show ?thesis by (simp add: receiptOf_def)
qed

text \<open>What opening a receipt can do, from a state with unique keys.\<close>

lemma begin_cases:
  assumes "beginIdempotent [] opts s = Inr (b, s')" and "receipts_wf s"
  obtains (replayed) r where "receiptOf opts s = Some r" "b = Replay (rc_response r)" "rc_status r = COMPLETED"
      "rc_hash r = ro_hash opts" "s' = s"
    | (proceeds) r where "b = Proceed" "receipts_wf s'" "receiptOf opts s' = Some r" "rc_status r = PROCESSING"
      "rc_hash r = ro_hash opts" "\<And>o'. \<not> sameKey o' opts \<Longrightarrow> receiptOf o' s' = receiptOf o' s"
      "\<And>x. \<not> answered opts x s"
proof (cases "receiptOf opts s")
  case (Some r)
  then have r: "r \<in> set (rcs_rows s)" "receiptKey opts r" by (auto simp: receiptOf_def dest: find_first_Some)
  define P where "P q \<longleftrightarrow> rc_id q = rc_id r \<and> rc_status q = PROCESSING \<and> rc_hash q = ro_hash opts" for q :: "'a receipt"
  let ?f = "\<lambda>q. q\<lparr>rc_expiresAt := Some (rcs_now s + processingTtlMs)\<rparr>"
  have byid: "q = r" if "q \<in> set (rcs_rows s)" "rc_id q = rc_id r" for q
    using assms(2) r that by (auto simp: receipts_wf_def distinct_map inj_on_def)
  show thesis
  proof (cases "rc_status r")
    case COMPLETED
    with assms(1) Some show thesis
      by (intro replayed [of r]) (auto simp: beginIdempotent_def receiptOf_def tx_Inr split: if_splits)
  next
    case PROCESSING
    with assms(1) Some have hash: "rc_hash r = ro_hash opts" and b: "b = Proceed"
      and s': "s' = s\<lparr>rcs_rows := update_many P ?f (rcs_rows s)\<rparr>"
      unfolding P_def by (auto simp: beginIdempotent_def receiptOf_def tx_Inr split: if_splits option.splits)
    have wf': "receipts_wf s'" unfolding s' by (rule update_receipts_wf [OF assms(2)]) simp
    have "?f r \<in> set (rcs_rows s')" using r PROCESSING hash by (auto simp: s' in_update_many P_def)
    then have "receiptOf opts s' = Some (?f r)" using receiptOf_unique [OF wf'] r(2) by (simp add: receiptKey_def)
    moreover have "receiptOf o' s' = receiptOf o' s" if "\<not> sameKey o' opts" for o'
    proof -
      have "find_first (receiptKey o') (rcs_rows s') =
          map_option (\<lambda>q. if P q then ?f q else q) (find_first (receiptKey o') (rcs_rows s))"
        unfolding s' by (simp add: find_first_update_many [where P = "receiptKey o'"] receiptKey_def)
      moreover have "\<not> P q" if "find_first (receiptKey o') (rcs_rows s) = Some q" for q
        using find_first_Some [OF that] byid [of q] receiptKey_other [OF \<open>\<not> sameKey o' opts\<close>, of q] r(2)
        by (auto simp: P_def)
      ultimately show ?thesis by (cases "find_first (receiptKey o') (rcs_rows s)") (auto simp: receiptOf_def)
    qed
    moreover have "\<not> answered opts x s" for x using Some PROCESSING by (auto simp: answered_def)
    ultimately show thesis using proceeds [of "?f r"] b wf' PROCESSING hash by simp
  qed
next
  case None
  let ?r = "\<lparr>rc_id = rcs_nextId s, rc_company = ro_company opts, rc_scope = ro_scope opts, rc_key = ro_key opts,
     rc_hash = ro_hash opts, rc_status = PROCESSING, rc_response = None,
     rc_expiresAt = Some (rcs_now s + processingTtlMs), rc_createdAt = rcs_now s\<rparr>"
  from None assms(1) have b: "b = Proceed"
    and s': "s' = s\<lparr>rcs_rows := rcs_rows s @ [?r], rcs_nextId := Suc (rcs_nextId s)\<rparr>"
    by (auto simp: beginIdempotent_def receiptOf_def tx_Inr)
  have key: "receiptKey opts ?r" by (simp add: receiptKey_def)
  have none: "\<forall>r \<in> set (rcs_rows s). \<not> receiptKey opts r" using None by (simp add: receiptOf_def find_first_None)
  then have wf': "receipts_wf s'" using assms(2)
    by (auto simp: receipts_wf_def s' receiptKey_def less_Suc_eq)
  have "receiptOf o' s' = receiptOf o' s" if "\<not> sameKey o' opts" for o'
  proof -
    have "\<not> receiptKey o' ?r" using that key receiptKey_other by blast
    then show ?thesis
      by (cases "find_first (receiptKey o') (rcs_rows s)")
        (simp_all add: s' receiptOf_def find_first_append_None find_first_append_Some)
  qed
  moreover have "receiptOf opts s' = Some ?r" using None key by (simp add: s' receiptOf_def find_first_append_None)
  moreover have "\<not> answered opts x s" for x using None by (simp add: answered_def)
  ultimately show thesis using proceeds [of ?r] b wf' by simp
qed

lemma complete_answers:
  assumes "receipts_wf s" and "receiptOf opts s = Some r" and "rc_status r = PROCESSING" and "rc_hash r = ro_hash opts"
    and "completeIdempotent opts x s = Inr (u, s')"
  shows "receipts_wf s' \<and> answered opts x s' \<and> (\<forall>o'. \<not> sameKey o' opts \<longrightarrow> receiptOf o' s' = receiptOf o' s)"
proof -
  let ?P = "\<lambda>r. receiptKey opts r \<and> rc_status r = PROCESSING" and ?f = "\<lambda>r. r\<lparr>rc_status := COMPLETED, rc_response := x\<rparr>"
  have s': "s' = s\<lparr>rcs_rows := update_many ?P ?f (rcs_rows s)\<rparr>"
    using assms(5) by (simp add: completeIdempotent_def modT_Inr)
  have wf': "receipts_wf s'" unfolding s' by (rule update_receipts_wf [OF assms(1)]) simp
  have r: "r \<in> set (rcs_rows s)" "receiptKey opts r" using assms(2) by (auto simp: receiptOf_def dest: find_first_Some)
  then have "?f r \<in> set (rcs_rows s')" using assms(3) by (auto simp: s' in_update_many)
  then have "receiptOf opts s' = Some (?f r)" using receiptOf_unique [OF wf'] r(2) by (simp add: receiptKey_def)
  then have "answered opts x s'" using assms(4) by (simp add: answered_def)
  moreover have "receiptOf o' s' = receiptOf o' s" if "\<not> sameKey o' opts" for o'
    unfolding s' by (rule receiptOf_update_other) (use that receiptKey_other in \<open>auto simp: receiptKey_def sameKey_def\<close>)
  ultimately show ?thesis using wf' by blast
qed

section \<open>Histories of calls\<close>

lemma idempotentTx_step:
  assumes "idempotentTx opts work (s, w) = Inr (x, (s', w'))" and "receipts_wf s"
  shows "receipts_wf s' \<and> answered opts x s' \<and> (\<forall>o'. \<not> sameKey o' opts \<longrightarrow> receiptOf o' s' = receiptOf o' s) \<and>
     (answered opts y s \<longrightarrow> x = y \<and> s' = s \<and> w' = w)"
proof -
  from assms(1) obtain b s1 where b: "beginIdempotent [] opts s = Inr (b, s1)"
    and rest: "(case b of Replay response \<Rightarrow> returnT response
       | Proceed \<Rightarrow> bindT (onWorld work) (\<lambda>r. bindT (onReceipts (completeIdempotent opts (Some r))) (\<lambda>_. returnT (Some r)))) (s1, w) =
       Inr (x, (s', w'))"
    by (auto simp: idempotentTx_def bindT_Inr onReceipts_def zoomT_Inr)
  from b assms(2) show ?thesis
  proof (cases rule: begin_cases)
    case (replayed r)
    then show ?thesis using rest assms(2) by (auto simp: returnT_Inr answered_def)
  next
    case (proceeds r)
    from rest proceeds(1) obtain v where c: "completeIdempotent opts (Some v) s1 = Inr ((), s')" and x: "x = Some v"
      by (auto simp: bindT_Inr returnT_Inr onWorld_def onReceipts_def zoomT_Inr)
    from complete_answers [OF proceeds(2-5) c] proceeds(6,7) x show ?thesis by auto
  qed
qed

lemma begin_answered:
  assumes "answered opts x s"
  shows "beginIdempotent raced opts s = Inr (Replay x, s)"
proof -
  from assms obtain r where "find_first (receiptKey opts) (rcs_rows s) = Some r" "rc_hash r = ro_hash opts"
    "rc_status r = COMPLETED" "rc_response r = x" by (auto simp: answered_def receiptOf_def)
  then show ?thesis by (simp add: beginIdempotent_def bindT_def getT_def returnT_def)
qed

lemma begin_altered:
  assumes "answered opts x s" and "sameKey o' opts" and "ro_hash o' \<noteq> ro_hash opts"
  shows "beginIdempotent raced o' s = Inl conflictError"
proof -
  from assms obtain r where "find_first (receiptKey o') (rcs_rows s) = Some r" "rc_hash r \<noteq> ro_hash o'"
    by (auto simp: answered_def receiptOf_def receiptKey_sameKey [OF assms(2)])
  then show ?thesis by (simp add: beginIdempotent_def bindT_def getT_def throwT_def)
qed

lemma answered_altered:
  assumes "answered opts x s" and "sameKey o' opts" and "ro_hash o' \<noteq> ro_hash opts"
  shows "idempotentTx o' work (s, w) = Inl conflictError"
  using begin_altered [OF assms, of "[]"] by (simp add: idempotentTx_def onReceipts_def zoomT_def bindT_def)

lemma answered_replay:
  assumes "answered opts x s"
  shows "idempotentTx opts work (s, w) = Inr (x, (s, w))"
  using begin_answered [OF assms, of "[]"] by (simp add: idempotentTx_def onReceipts_def zoomT_def bindT_def returnT_def)

text \<open>Calls in the order their transactions commit; one that throws leaves the state as it was.\<close>

primrec runCalls :: "(receipt_opts \<times> ('w, 'r) tx) list \<Rightarrow> 'r receipts \<times> 'w \<Rightarrow> 'r receipts \<times> 'w" where
  "runCalls [] s = s"
| "runCalls (c # cs) s = runCalls cs (snd (runTx (idempotentTx (fst c) (snd c)) s))"

lemma answered_kept:
  assumes "answered opts x s" and "receipts_wf s"
  shows "answered opts x (fst (snd (runTx (idempotentTx o' work) (s, w)))) \<and>
    receipts_wf (fst (snd (runTx (idempotentTx o' work) (s, w))))"
proof (cases "idempotentTx o' work (s, w)")
  case (Inl e)
  then show ?thesis using assms by (simp add: runTx_def)
next
  case (Inr r)
  obtain y s' w' where "r = (y, (s', w'))" by (metis surj_pair)
  with Inr have eff: "idempotentTx o' work (s, w) = Inr (y, (s', w'))" by simp
  note step = idempotentTx_step [OF eff assms(2)]
  show ?thesis
  proof (cases "sameKey o' opts")
    case True
    have "ro_hash o' = ro_hash opts"
    proof (rule ccontr)
      assume "ro_hash o' \<noteq> ro_hash opts"
      from answered_altered [OF assms(1) True this, of work w] eff show False by simp
    qed
    then have "answered o' x s" using assms(1) by (simp add: answered_def receiptOf_def receiptKey_sameKey [OF True])
    with step [of x] assms eff show ?thesis by (simp add: runTx_def)
  next
    case False
    then have "\<not> sameKey opts o'" by (auto simp: sameKey_def)
    with step have "receiptOf opts s' = receiptOf opts s" by blast
    with step assms eff show ?thesis by (simp add: runTx_def answered_def)
  qed
qed

lemma answered_runCalls:
  assumes "answered opts x (fst s)" and "receipts_wf (fst s)"
  shows "answered opts x (fst (runCalls cs s))"
  using assms
proof (induction cs arbitrary: s)
  case Nil
  then show ?case by simp
next
  case (Cons c cs)
  obtain a w where "s = (a, w)" by force
  with Cons answered_kept [of opts x a "fst c" "snd c" w] show ?case by simp
qed

section \<open>Properties\<close>

text \<open>
  C24. A mutation runs once per key: after a call that committed, whatever calls of whatever keys
  follow, the same request returns the very same response and changes nothing, neither receipts nor tables,
  and a request with the same key and another payload is refused.
\<close>

theorem idempotent_once:
  assumes "receipts_wf s" and "idempotentTx opts work (s, w) = Inr (x, s1)"
  shows "idempotentTx opts work' (runCalls cs s1) = Inr (x, runCalls cs s1) \<and>
    (sameKey o' opts \<and> ro_hash o' \<noteq> ro_hash opts \<longrightarrow> idempotentTx o' work' (runCalls cs s1) = Inl conflictError)"
proof -
  obtain a b where s1: "s1 = (a, b)" by force
  from idempotentTx_step [OF assms(2) [unfolded s1] assms(1)] have "receipts_wf a" "answered opts x a" by auto
  then have ans: "answered opts x (fst (runCalls cs s1))" by (intro answered_runCalls) (simp_all add: s1)
  obtain c d where cd: "runCalls cs s1 = (c, d)" by force
  show ?thesis using answered_replay [of opts x c work' d] answered_altered [of opts x c o' work' d] ans by (simp add: cd)
qed

definition exReceipts :: "nat receipts" where
  "exReceipts = \<lparr>rcs_rows = [], rcs_now = 1000, rcs_nextId = 1\<rparr>"

definition exReceiptOpts :: "string \<Rightarrow> string \<Rightarrow> receipt_opts" where
  "exReceiptOpts key hash = \<lparr>ro_company = 1, ro_scope = ''SALE'', ro_key = key, ro_hash = hash\<rparr>"

definition exCount :: "(nat, nat) tx" where
  "exCount = stateT (\<lambda>n. (n + 7, n + 1))"

lemma exFirst: "\<exists>s1. idempotentTx (exReceiptOpts ''k'' ''h'') exCount (exReceipts, 0) = Inr (Some 7, s1) \<and> snd s1 = 1"
  by (simp add: idempotentTx_def onReceipts_def onWorld_def zoomT_def beginIdempotent_def bindT_def tx_defs exReceipts_def
      exReceiptOpts_def exCount_def completeIdempotent_def find_first_def)

theorem idempotent_once_witness:
  "\<exists>s1. idempotentTx (exReceiptOpts ''k'' ''h'') exCount (exReceipts, 0) = Inr (Some 7, s1) \<and>
     idempotentTx (exReceiptOpts ''k'' ''h'') exCount (runCalls [(exReceiptOpts ''j'' ''h'', exCount)] s1) =
       Inr (Some 7, runCalls [(exReceiptOpts ''j'' ''h'', exCount)] s1)"
proof -
  have wf: "receipts_wf exReceipts" by (simp add: receipts_wf_def exReceipts_def)
  from exFirst obtain s1 where s1: "idempotentTx (exReceiptOpts ''k'' ''h'') exCount (exReceipts, 0) = Inr (Some 7, s1)" by blast
  from idempotent_once [OF wf s1, of exCount] s1 show ?thesis by blast
qed

end
