(* ===== verification/Database.thy ===== *)
theory Database
  imports LocationInventory Numbering Idempotency JsConvert
begin

text \<open>
  What the services share: the signed-in user and the tenant scope, the base tables (stock ledger, document
  numbers, receipts, audit log, outbox, warehouses, products), the refusal of foreign tenants, and decimal
  arithmetic.

  Service states extend \<open>base_db\<close> by the tables of their module. The clock and the generated-id counter of
  the database are those of its parts: \<open>onStock\<close>, \<open>onNumbering\<close> and \<open>onReceiptTable\<close> run an operation of a part at
  the database's instant. The JSON payloads of audit and outbox rows are not modelled.

  A \<open>Decimal\<close> is the rational it denotes; the arithmetic of decimal.js, which rounds to a precision, is an
  argument \<open>dec\<close>, as is \<open>new Decimal(n)\<close> of a double, the shortest decimal that reads as \<open>n\<close>; comparisons are exact.
\<close>

section \<open>Users and scopes\<close>

record auth_user =
  us_sub :: ident
  us_company :: "ident option"
  us_branch :: "ident option"

record tenant_scope =
  sc_company :: ident
  sc_branch :: ident

definition requireTenantScope :: "auth_user \<Rightarrow> exn + tenant_scope" where
  "requireTenantScope user = (case (us_company user, us_branch user) of
     (Some c, Some b) \<Rightarrow> Inr \<lparr>sc_company = c, sc_branch = b\<rparr>
   | _ \<Rightarrow> Inl (Forbidden ''Pengguna belum memiliki company dan branch yang valid.''))"

section \<open>Base tables\<close>

record audit =
  ad_company :: ident
  ad_user :: "ident option"
  ad_action :: string
  ad_entityType :: string
  ad_entityId :: "ident option"

record outbox_event =
  ob_company :: ident
  ob_eventType :: string
  ob_aggregateType :: string
  ob_aggregateId :: ident

record warehouse =
  wh_id :: ident
  wh_branch :: ident
  wh_company :: ident
  wh_isActive :: bool
  wh_isDefault :: bool
  wh_code :: string
  wh_name :: string
  wh_address :: "string option"

record product =
  pr_id :: ident
  pr_company :: ident
  pr_sku :: string
  pr_name :: string
  pr_isActive :: bool
  pr_trackBatch :: bool
  pr_trackExpiry :: bool
  pr_trackSerial :: bool
  pr_costPrice :: rat
  pr_minStock :: int
  pr_unit :: string
  pr_purchaseTaxCode :: "ident option"
  pr_salesTaxCode :: "ident option"
  pr_salePrice :: rat
  pr_allowNegative :: bool

record movement =
  mv_warehouse :: ident
  mv_product :: ident
  mv_location :: "ident option"
  mv_type :: string
  mv_quantity :: int
  mv_balanceAfter :: int
  mv_referenceType :: string
  mv_referenceId :: string

record stock_batch =
  bt_id :: ident
  bt_warehouse :: ident
  bt_product :: ident
  bt_number :: string
  bt_produced :: "int option"
  bt_expiry :: "int option"
  bt_quantity :: int
  bt_reserved :: int

record serial =
  sn_id :: ident
  sn_warehouse :: ident
  sn_product :: ident
  sn_number :: string
  sn_status :: string
  sn_referenceType :: string
  sn_referenceId :: string

record base_db =
  db_now :: int
  db_nextId :: ident
  db_stock :: stock
  db_numbering :: numbering
  db_receipts :: "ident receipts"
  db_audits :: "audit list"
  db_outbox :: "outbox_event list"
  db_warehouses :: "warehouse list"
  db_products :: "product list"
  db_movements :: "movement list"
  db_batches :: "stock_batch list"
  db_serials :: "serial list"

text \<open>The relation filter \<open>branch: { companyId }\<close> on rows of the scope's branch.\<close>

definition branchInCompany :: "tenant_scope \<Rightarrow> 'b base_db_scheme \<Rightarrow> bool" where
  "branchInCompany scope s \<longleftrightarrow> list_ex (\<lambda>b. br_id b = sc_branch scope \<and> br_company b = sc_company scope)
     (branches (db_numbering s))"

section \<open>Running the operations of a part\<close>

definition onStock :: "(stock, 'a) tx \<Rightarrow> ('b base_db_scheme, 'a) tx" where
  "onStock = zoomT (\<lambda>s. (db_stock s)\<lparr>now := db_now s\<rparr>) (\<lambda>t s. s\<lparr>db_stock := t\<rparr>)"

definition onNumbering :: "(numbering, 'a) tx \<Rightarrow> ('b base_db_scheme, 'a) tx" where
  "onNumbering = zoomT (\<lambda>s. (db_numbering s)\<lparr>num_now := db_now s\<rparr>) (\<lambda>t s. s\<lparr>db_numbering := t\<rparr>)"

definition onReceiptTable :: "(ident receipts, 'a) tx \<Rightarrow> ('b base_db_scheme, 'a) tx" where
  "onReceiptTable = zoomT (\<lambda>s. (db_receipts s)\<lparr>rcs_now := db_now s\<rparr>) (\<lambda>t s. s\<lparr>db_receipts := t\<rparr>)"

definition newIdT :: "('b base_db_scheme, ident) tx" where
  "newIdT = stateT (\<lambda>s. (db_nextId s, s\<lparr>db_nextId := Suc (db_nextId s)\<rparr>))"

definition nowT :: "('b base_db_scheme, int) tx" where
  "nowT = getT db_now"

definition auditT :: "tenant_scope \<Rightarrow> auth_user \<Rightarrow> string \<Rightarrow> string \<Rightarrow> ident option \<Rightarrow> ('b base_db_scheme, unit) tx" where
  "auditT scope user action entityType entityId = modT (\<lambda>s. s\<lparr>db_audits := db_audits s @
     [\<lparr>ad_company = sc_company scope, ad_user = Some (us_sub user), ad_action = action, ad_entityType = entityType,
       ad_entityId = entityId\<rparr>]\<rparr>)"

definition outboxT :: "ident \<Rightarrow> string \<Rightarrow> string \<Rightarrow> ident \<Rightarrow> ('b base_db_scheme, unit) tx" where
  "outboxT companyId eventType aggregateType aggregateId = modT (\<lambda>s. s\<lparr>db_outbox := db_outbox s @
     [\<lparr>ob_company = companyId, ob_eventType = eventType, ob_aggregateType = aggregateType,
       ob_aggregateId = aggregateId\<rparr>]\<rparr>)"

definition deniedError :: exn where
  "deniedError = Forbidden ''TENANT_ACCESS_DENIED''"

text \<open>
  \<open>denyTenantAccess\<close> writes an audit row and throws. With the plain client the row stays; inside a
  transaction the exception rolls it back with everything else.
\<close>

definition denyT :: "tenant_scope \<Rightarrow> auth_user \<Rightarrow> string \<Rightarrow> ident option \<Rightarrow> ('b base_db_scheme, 'a) tx" where
  "denyT scope user entityType entityId =
     bindT (auditT scope user ''TENANT_ACCESS_DENIED'' entityType entityId) (\<lambda>_. throwT deniedError)"

definition auditS :: "tenant_scope \<Rightarrow> auth_user \<Rightarrow> string \<Rightarrow> string \<Rightarrow> ident option \<Rightarrow> ('b base_db_scheme, unit) svc" where
  "auditS scope user action entityType entityId = runTx (auditT scope user action entityType entityId)"

definition denyS :: "tenant_scope \<Rightarrow> auth_user \<Rightarrow> string \<Rightarrow> ident option \<Rightarrow> ('b base_db_scheme, 'a) svc" where
  "denyS scope user entityType entityId =
     bindS (auditS scope user ''TENANT_ACCESS_DENIED'' entityType entityId) (\<lambda>_. throwS deniedError)"

definition liftE :: "exn + 'a \<Rightarrow> ('s, 'a) tx" where
  "liftE r s = (case r of Inl e \<Rightarrow> Inl e | Inr x \<Rightarrow> Inr (x, s))"

definition liftS :: "exn + 'a \<Rightarrow> ('s, 'a) svc" where
  "liftS r s = (case r of Inl e \<Rightarrow> (Inl e, s) | Inr x \<Rightarrow> (Inr x, s))"

lemma liftE_Inr: "liftE r s = Inr (x, s') \<longleftrightarrow> r = Inr x \<and> s' = s"
  by (auto simp: liftE_def split: sum.splits)

lemma denyT_Inr [simp]: "denyT scope user t i s = Inr r \<longleftrightarrow> False"
  by (cases r) (simp add: denyT_def tx_Inr)

lemma onStock_Inr: "onStock m s = Inr (x, s') \<longleftrightarrow> (\<exists>t. m ((db_stock s)\<lparr>now := db_now s\<rparr>) = Inr (x, t) \<and> s' = s\<lparr>db_stock := t\<rparr>)"
  by (simp add: onStock_def zoomT_Inr)

lemma onNumbering_Inr: "onNumbering m s = Inr (x, s') \<longleftrightarrow>
    (\<exists>t. m ((db_numbering s)\<lparr>num_now := db_now s\<rparr>) = Inr (x, t) \<and> s' = s\<lparr>db_numbering := t\<rparr>)"
  by (simp add: onNumbering_def zoomT_Inr)

lemma onReceiptTable_Inr: "onReceiptTable m s = Inr (x, s') \<longleftrightarrow>
    (\<exists>t. m ((db_receipts s)\<lparr>rcs_now := db_now s\<rparr>) = Inr (x, t) \<and> s' = s\<lparr>db_receipts := t\<rparr>)"
  by (simp add: onReceiptTable_def zoomT_Inr)

lemma newIdT_Inr: "newIdT s = Inr (x, s') \<longleftrightarrow> x = db_nextId s \<and> s' = s\<lparr>db_nextId := Suc (db_nextId s)\<rparr>"
  by (auto simp: newIdT_def stateT_def)

lemma nowT_Inr: "nowT s = Inr (x, s') \<longleftrightarrow> x = db_now s \<and> s' = s"
  by (auto simp: nowT_def getT_def)

lemma auditT_Inr: "auditT scope user action t i s = Inr (x, s') \<longleftrightarrow> s' = s\<lparr>db_audits := db_audits s @
     [\<lparr>ad_company = sc_company scope, ad_user = Some (us_sub user), ad_action = action, ad_entityType = t, ad_entityId = i\<rparr>]\<rparr>"
  by (auto simp: auditT_def modT_def)

lemma outboxT_Inr: "outboxT c e t i s = Inr (x, s') \<longleftrightarrow> s' = s\<lparr>db_outbox := db_outbox s @
     [\<lparr>ob_company = c, ob_eventType = e, ob_aggregateType = t, ob_aggregateId = i\<rparr>]\<rparr>"
  by (auto simp: outboxT_def modT_def)

lemmas db_Inr = onStock_Inr onNumbering_Inr onReceiptTable_Inr newIdT_Inr nowT_Inr auditT_Inr outboxT_Inr liftE_Inr

section \<open>Decimal arithmetic\<close>

record decimal_ops =
  d_add :: "rat \<Rightarrow> rat \<Rightarrow> rat"
  d_sub :: "rat \<Rightarrow> rat \<Rightarrow> rat"
  d_mul :: "rat \<Rightarrow> rat \<Rightarrow> rat"
  d_div :: "rat \<Rightarrow> rat \<Rightarrow> rat"
  d_places :: "nat \<Rightarrow> rat \<Rightarrow> rat"
  d_ofNumber :: "js_number \<Rightarrow> rat"

text \<open>
  What decimal.js documents at a configured precision of \<open>p\<close> significant digits (20 unless set otherwise). Every
  operation returns the exact result rounded to that precision, so a sum or a difference of numbers of \<open>k\<close>
  decimal places is exact as long as it has at most \<open>p\<close> digits, and a product or a quotient is within one unit
  of its last digit; \<open>toDecimalPlaces\<close> rounds half up, by default, to the places asked for.
\<close>

definition hasPlaces :: "nat \<Rightarrow> rat \<Rightarrow> bool" where
  "hasPlaces k x \<longleftrightarrow> of_int \<lfloor>x * 10 ^ k\<rfloor> = x * 10 ^ k"

definition decimalLaws :: "nat \<Rightarrow> decimal_ops \<Rightarrow> bool" where
  "decimalLaws p dec \<longleftrightarrow>
     (\<forall>k x y. hasPlaces k x \<longrightarrow> hasPlaces k y \<longrightarrow> \<bar>x + y\<bar> * 10 ^ k < 10 ^ p \<longrightarrow> d_add dec x y = x + y) \<and>
     (\<forall>k x y. hasPlaces k x \<longrightarrow> hasPlaces k y \<longrightarrow> \<bar>x - y\<bar> * 10 ^ k < 10 ^ p \<longrightarrow> d_sub dec x y = x - y) \<and>
     (\<forall>x y. \<bar>d_mul dec x y - x * y\<bar> \<le> \<bar>x * y\<bar> / 10 ^ (p - 1)) \<and>
     (\<forall>x y. y \<noteq> 0 \<longrightarrow> \<bar>d_div dec x y - x / y\<bar> \<le> \<bar>x / y\<bar> / 10 ^ (p - 1)) \<and>
     (\<forall>k x. hasPlaces k (d_places dec k x) \<and> \<bar>d_places dec k x - x\<bar> \<le> 1 / (2 * 10 ^ k))"

lemma hasPlaces_iff: "hasPlaces k x \<longleftrightarrow> x * 10 ^ k \<in> \<int>"
  by (metis Ints_cases Ints_of_int floor_of_int hasPlaces_def)

lemma hasPlaces_of_int [simp]: "hasPlaces k (of_int n)"
  by (simp add: hasPlaces_iff)

lemma hasPlaces_0 [simp]: "hasPlaces k 0" and hasPlaces_1 [simp]: "hasPlaces k 1"
  by (simp_all add: hasPlaces_iff)

lemma hasPlaces_add: "hasPlaces k x \<Longrightarrow> hasPlaces k y \<Longrightarrow> hasPlaces k (x + y)"
  by (simp add: hasPlaces_iff distrib_right)

lemma hasPlaces_more: "hasPlaces k x \<Longrightarrow> k \<le> n \<Longrightarrow> hasPlaces n x"
proof -
  assume a: "hasPlaces k x" "k \<le> n"
  then have "x * 10 ^ n = x * 10 ^ k * 10 ^ (n - k)" by (simp flip: power_add)
  moreover have "x * 10 ^ k * 10 ^ (n - k) \<in> \<int>"
    using a(1) unfolding hasPlaces_iff by (rule Ints_mult) simp
  ultimately show ?thesis unfolding hasPlaces_iff by argo
qed

lemma exact_add: "decimalLaws p dec \<Longrightarrow> hasPlaces k x \<Longrightarrow> hasPlaces k y \<Longrightarrow> \<bar>x + y\<bar> * 10 ^ k < 10 ^ p \<Longrightarrow> d_add dec x y = x + y"
  by (auto simp: decimalLaws_def)

lemma exact_sub: "decimalLaws p dec \<Longrightarrow> hasPlaces k x \<Longrightarrow> hasPlaces k y \<Longrightarrow> \<bar>x - y\<bar> * 10 ^ k < 10 ^ p \<Longrightarrow> d_sub dec x y = x - y"
  by (auto simp: decimalLaws_def)

lemma mul_near: "decimalLaws p dec \<Longrightarrow> \<bar>d_mul dec x y - x * y\<bar> \<le> \<bar>x * y\<bar> / 10 ^ (p - 1)"
  by (simp add: decimalLaws_def)

lemma div_near: "decimalLaws p dec \<Longrightarrow> y \<noteq> 0 \<Longrightarrow> \<bar>d_div dec x y - x / y\<bar> \<le> \<bar>x / y\<bar> / 10 ^ (p - 1)"
  by (simp add: decimalLaws_def)

lemma places_near: "decimalLaws p dec \<Longrightarrow> hasPlaces k (d_places dec k x) \<and> \<bar>d_places dec k x - x\<bar> \<le> 1 / (2 * 10 ^ k)"
  by (simp add: decimalLaws_def)

definition d_sum :: "decimal_ops \<Rightarrow> rat list \<Rightarrow> rat" where
  "d_sum dec xs = foldl (d_add dec) 0 xs"

text \<open>A running sum of non-negative amounts is exact when its total fits: no partial sum is longer.\<close>

lemma d_sum_exact:
  assumes "decimalLaws p dec" and "\<forall>x \<in> set xs. hasPlaces k x \<and> 0 \<le> x" and "sum_list xs * 10 ^ k < 10 ^ p"
  shows "d_sum dec xs = sum_list xs"
proof -
  have "foldl (d_add dec) x ys = x + sum_list ys"
    if "hasPlaces k x" "0 \<le> x" "\<forall>y \<in> set ys. hasPlaces k y \<and> 0 \<le> y" "(x + sum_list ys) * 10 ^ k < 10 ^ p" for x ys
    using that
  proof (induction ys arbitrary: x)
    case (Cons y ys)
    have "0 \<le> sum_list ys" using Cons.prems by (intro sum_list_nonneg) simp
    then have "(x + y) * 10 ^ k \<le> (x + sum_list (y # ys)) * 10 ^ k" by (intro mult_right_mono) simp_all
    also have "\<dots> < 10 ^ p" by (rule Cons.prems)
    finally have "\<bar>x + y\<bar> * 10 ^ k < 10 ^ p" using Cons.prems by simp
    then have "d_add dec x y = x + y" using Cons.prems by (intro exact_add [OF assms(1)]) simp_all
    with Cons show ?case by (auto simp: hasPlaces_add add.assoc)
  qed simp
  from this [of 0 xs] assms show ?thesis by (simp add: d_sum_def)
qed

text \<open>Exact rational arithmetic with half-up rounding, an instance of the promises.\<close>

definition rationalDecimal :: decimal_ops where
  "rationalDecimal = \<lparr>d_add = (\<lambda>x y. x + y), d_sub = (\<lambda>x y. x - y), d_mul = (\<lambda>x y. x * y), d_div = (\<lambda>x y. x / y),
     d_places = (\<lambda>k x. of_int \<lfloor>x * 10 ^ k + 1 / 2\<rfloor> / 10 ^ k),
     d_ofNumber = (\<lambda>n. case n of Fin x \<Rightarrow> of_int \<lfloor>x * 10 ^ 6 + 1 / 2\<rfloor> / 10 ^ 6 | _ \<Rightarrow> 0)\<rparr>"

lemma rationalDecimal_laws: "decimalLaws p rationalDecimal"
proof -
  have "\<bar>of_int \<lfloor>x * 10 ^ k + 1 / 2\<rfloor> / 10 ^ k - x\<bar> \<le> 1 / (2 * 10 ^ k)" for k and x :: rat
  proof -
    let ?n = "of_int \<lfloor>x * 10 ^ k + 1 / 2\<rfloor> :: rat"
    have "?n / 10 ^ k - x = (?n - x * 10 ^ k) / 10 ^ k" by (simp add: field_simps)
    moreover have "\<bar>?n - x * 10 ^ k\<bar> \<le> 1 / 2" unfolding abs_le_iff by linarith
    ultimately show ?thesis by (simp add: abs_divide divide_le_cancel field_simps)
  qed
  then show ?thesis by (simp add: decimalLaws_def rationalDecimal_def hasPlaces_iff)
qed

section \<open>Ordered search\<close>

definition find_ordered :: "('r \<Rightarrow> 'r \<Rightarrow> bool) \<Rightarrow> ('r \<Rightarrow> bool) \<Rightarrow> 'r list \<Rightarrow> 'r option" where
  "find_ordered precedes P t = (case sortBy precedes (filter P t) of [] \<Rightarrow> None | r # _ \<Rightarrow> Some r)"

lemma find_ordered_Some: "find_ordered precedes P t = Some r \<Longrightarrow> r \<in> set t \<and> P r"
proof -
  assume "find_ordered precedes P t = Some r"
  then obtain rest where "sortBy precedes (filter P t) = r # rest" by (auto simp: find_ordered_def split: list.splits)
  then have "r \<in> set (sortBy precedes (filter P t))" by simp
  then show ?thesis by simp
qed

lemma find_ordered_None: "find_ordered precedes P t = None \<longleftrightarrow> (\<forall>r \<in> set t. \<not> P r)"
proof -
  have "find_ordered precedes P t = None \<longleftrightarrow> sortBy precedes (filter P t) = []"
    by (auto simp: find_ordered_def split: list.splits)
  also have "\<dots> \<longleftrightarrow> filter P t = []" by (metis set_empty set_sortBy)
  finally show ?thesis by (simp add: filter_empty_conv)
qed

end
