(* ===== verification/EffectiveRows.thy ===== *)
theory EffectiveRows
  imports Prelude
begin

text \<open>
  Versioned configuration with effective dates. Tax codes, posting rules and close controls are tables whose
  active rows of one key must not overlap in time; each service checks for an overlapping active row before it
  activates one. The contract: if a row is only made active after that check, and only on a well-formed range,
  active rows of one key never overlap, so at any instant at most one of them is in force.
\<close>

section \<open>Ranges\<close>

definition inRange :: "int option \<Rightarrow> int option \<Rightarrow> int \<Rightarrow> bool" where
  "inRange from until t \<longleftrightarrow> (case from of None \<Rightarrow> True | Some f \<Rightarrow> f \<le> t) \<and> (case until of None \<Rightarrow> True | Some u \<Rightarrow> t \<le> u)"

text \<open>The overlap condition of the queries: each bound only constrains when it is set.\<close>

definition rangesOverlap :: "int option \<Rightarrow> int option \<Rightarrow> int option \<Rightarrow> int option \<Rightarrow> bool" where
  "rangesOverlap from until from' until' \<longleftrightarrow>
     (case from of None \<Rightarrow> True | Some f \<Rightarrow> (case until' of None \<Rightarrow> True | Some u \<Rightarrow> f \<le> u)) \<and>
     (case until of None \<Rightarrow> True | Some u \<Rightarrow> (case from' of None \<Rightarrow> True | Some f \<Rightarrow> f \<le> u))"

lemma common_instant_overlaps:
  "inRange from until t \<Longrightarrow> inRange from' until' t \<Longrightarrow> rangesOverlap from until from' until'"
  by (auto simp: inRange_def rangesOverlap_def split: option.splits)

lemma rangesOverlap_sym: "rangesOverlap from until from' until' = rangesOverlap from' until' from until"
  by (auto simp: rangesOverlap_def split: option.splits)

section \<open>The contract\<close>

locale effective_rows =
  fixes rowId :: "'r \<Rightarrow> ident"
    and rowKey :: "'r \<Rightarrow> 'k"
    and rowActive :: "'r \<Rightarrow> bool"
    and rowFrom :: "'r \<Rightarrow> int option"
    and rowUntil :: "'r \<Rightarrow> int option"
    and clashing :: "ident option \<Rightarrow> 'k \<Rightarrow> int option \<Rightarrow> int option \<Rightarrow> 'r list \<Rightarrow> 'r option"
  assumes clash_found: "clashing excluded k from until t = None \<Longrightarrow> r \<in> set t \<Longrightarrow> rowActive r \<Longrightarrow> rowKey r = k \<Longrightarrow>
      excluded \<noteq> Some (rowId r) \<Longrightarrow> \<not> rangesOverlap from until (rowFrom r) (rowUntil r)"
begin

definition disjointRows :: "'r list \<Rightarrow> bool" where
  "disjointRows t \<longleftrightarrow> (\<forall>r \<in> set t. \<forall>q \<in> set t. rowActive r \<longrightarrow> rowActive q \<longrightarrow> rowKey r = rowKey q \<longrightarrow> rowId r \<noteq> rowId q \<longrightarrow>
     \<not> rangesOverlap (rowFrom r) (rowUntil r) (rowFrom q) (rowUntil q))"

lemma in_force_unique:
  assumes "disjointRows t" and "r \<in> set t" and "q \<in> set t" and "rowActive r" and "rowActive q" and "rowKey r = rowKey q"
    and "inRange (rowFrom r) (rowUntil r) at" and "inRange (rowFrom q) (rowUntil q) at"
  shows "rowId r = rowId q"
  using assms common_instant_overlaps unfolding disjointRows_def by metis

lemma disjoint_insert:
  assumes "disjointRows t" and "rowActive r \<Longrightarrow> clashing None (rowKey r) (rowFrom r) (rowUntil r) t = None"
  shows "disjointRows (t @ [r])"
proof -
  have "\<not> rangesOverlap (rowFrom r) (rowUntil r) (rowFrom q) (rowUntil q)"
    if "q \<in> set t" "rowActive r" "rowActive q" "rowKey r = rowKey q" for q
    using clash_found [OF assms(2) [OF that(2)] that(1,3) that(4) [symmetric]] by simp
  with assms(1) show ?thesis
    unfolding disjointRows_def by (auto simp: rangesOverlap_sym)
qed

lemma disjoint_update:
  assumes "disjointRows t" and same: "\<And>r. rowId (f r) = rowId r"
    and new: "\<And>r. r \<in> set t \<Longrightarrow> rowId r = i \<Longrightarrow> rowActive (f r) \<Longrightarrow>
      clashing (Some i) (rowKey (f r)) (rowFrom (f r)) (rowUntil (f r)) t = None"
  shows "disjointRows (update_many (\<lambda>r. rowId r = i) f t)"
proof -
  have clash: "\<not> rangesOverlap (rowFrom (f r)) (rowUntil (f r)) (rowFrom q) (rowUntil q)"
    if "r \<in> set t" "rowId r = i" "rowActive (f r)" "q \<in> set t" "rowId q \<noteq> i" "rowActive q" "rowKey (f r) = rowKey q" for r q
    by (rule clash_found [OF new [OF that(1-3)] that(4,6)]) (use that in auto)
  then have clash': "\<not> rangesOverlap (rowFrom q) (rowUntil q) (rowFrom (f r)) (rowUntil (f r))"
    if "r \<in> set t" "rowId r = i" "rowActive (f r)" "q \<in> set t" "rowId q \<noteq> i" "rowActive q" "rowKey q = rowKey (f r)" for r q
    using that by (metis rangesOverlap_sym)
  show ?thesis
    unfolding disjointRows_def
  proof (intro ballI impI)
    fix a b
    assume ab: "a \<in> set (update_many (\<lambda>r. rowId r = i) f t)" "b \<in> set (update_many (\<lambda>r. rowId r = i) f t)"
      "rowActive a" "rowActive b" "rowKey a = rowKey b" "rowId a \<noteq> rowId b"
    from ab(1,2) obtain r q where r: "r \<in> set t" "a = (if rowId r = i then f r else r)"
      and q: "q \<in> set t" "b = (if rowId q = i then f q else q)" by (auto simp: in_update_many)
    show "\<not> rangesOverlap (rowFrom a) (rowUntil a) (rowFrom b) (rowUntil b)"
    proof (cases "rowId r = i")
      case True
      then have "rowId q \<noteq> i" using ab(6) r(2) q(2) same by auto
      then show ?thesis using clash [OF r(1) True _ q(1)] True r(2) q(2) ab by simp
    next
      case r_other: False
      show ?thesis
      proof (cases "rowId q = i")
        case True
        then show ?thesis using clash' [OF q(1) True _ r(1)] r_other r(2) q(2) ab by simp
      next
        case False
        then show ?thesis using assms(1) r q r_other ab unfolding disjointRows_def by simp
      qed
    qed
  qed
qed

end

end
