(* ===== verification/Accounting.thy ===== *)
theory Accounting
  imports Database EffectiveRows
begin

text \<open>
  The accounting core, \<open>apps/api/src/accounting-core/accounting-core.service.ts\<close>: chart of accounts, tax codes,
  posting rules, close controls, tax calculation, and the posting of operational events as balanced journals.
  Statuses are the source's string literals. JSON columns that the code stores and does not read (conditions,
  context, dimensions, calculation rules) are not modelled. A date of a request is its instant, \<open>None\<close> when it
  is absent; \<open>None\<close> in the place of a mandatory date is an invalid one.
\<close>

section \<open>Tables\<close>

datatype account_type = ASSET | LIABILITY | EQUITY | REVENUE | EXPENSE

record account =
  ac_id :: ident
  ac_branch :: ident
  ac_code :: string
  ac_name :: string
  ac_type :: account_type
  ac_isActive :: bool

record tax_code =
  tx_id :: ident
  tx_company :: ident
  tx_code :: string
  tx_version :: nat
  tx_name :: string
  tx_scope :: string
  tx_rate :: rat
  tx_inclusive :: bool
  tx_recoverable :: bool
  tx_payableAccount :: "string option"
  tx_receivableAccount :: "string option"
  tx_expenseAccount :: "string option"
  tx_effectiveFrom :: "int option"
  tx_effectiveTo :: "int option"
  tx_status :: string

record rule_line =
  rl_accountCode :: "string option"
  rl_accountCodeKey :: "string option"
  rl_side :: string
  rl_amountKey :: string
  rl_skipIfZero :: "bool option"

record posting_rule =
  ru_id :: ident
  ru_company :: ident
  ru_code :: string
  ru_version :: nat
  ru_name :: string
  ru_eventType :: string
  ru_priority :: int
  ru_status :: string
  ru_effectiveFrom :: "int option"
  ru_effectiveTo :: "int option"
  ru_lines :: "rule_line list"

record close_control =
  cc_id :: ident
  cc_company :: ident
  cc_branch :: "ident option"
  cc_module :: string
  cc_start :: int
  cc_end :: int
  cc_status :: string
  cc_closedBy :: "ident option"
  cc_closedAt :: "int option"
  cc_reopenReason :: "string option"

record fiscal_period =
  fp_id :: ident
  fp_company :: ident
  fp_branch :: "ident option"
  fp_start :: int
  fp_end :: int
  fp_status :: string

record event_line =
  el_itemType :: "string option"
  el_itemId :: "ident option"
  el_quantity :: rat
  el_unitAmount :: rat
  el_netAmount :: rat
  el_taxAmount :: rat
  el_grossAmount :: rat
  el_taxCode :: "ident option"

record accounting_event =
  ev_id :: ident
  ev_company :: ident
  ev_branch :: ident
  ev_eventType :: string
  ev_sourceType :: string
  ev_sourceId :: string
  ev_idempotencyKey :: string
  ev_businessDate :: int
  ev_currency :: string
  ev_net :: rat
  ev_tax :: rat
  ev_gross :: rat
  ev_status :: string
  ev_journalEntry :: "ident option"
  ev_lines :: "event_line list"

record journal_line =
  jl_account :: ident
  jl_debit :: rat
  jl_credit :: rat

record journal_entry =
  je_id :: ident
  je_number :: string
  je_date :: int
  je_referenceType :: string
  je_referenceId :: string
  je_lines :: "journal_line list"

record posting =
  po_event :: ident
  po_rule :: ident
  po_journalEntry :: ident

record tax_transaction =
  tt_company :: ident
  tt_branch :: ident
  tt_event :: ident
  tt_sourceType :: string
  tt_sourceId :: string
  tt_taxCode :: ident
  tt_direction :: string
  tt_date :: int
  tt_period :: string
  tt_base :: rat
  tt_amount :: rat
  tt_status :: string

record accounting_db = base_db +
  db_accounts :: "account list"
  db_taxCodes :: "tax_code list"
  db_rules :: "posting_rule list"
  db_closeControls :: "close_control list"
  db_fiscalPeriods :: "fiscal_period list"
  db_events :: "accounting_event list"
  db_journals :: "journal_entry list"
  db_postings :: "posting list"
  db_taxTransactions :: "tax_transaction list"

section \<open>Requests\<close>

record tax_code_dto =
  td_company :: "ident option"
  td_code :: string
  td_version :: "nat option"
  td_name :: string
  td_scope :: string
  td_rate :: rat
  td_inclusive :: "bool option"
  td_recoverable :: "bool option"
  td_payableAccount :: "string option"
  td_receivableAccount :: "string option"
  td_expenseAccount :: "string option"
  td_effectiveFrom :: "int option"
  td_effectiveTo :: "int option"
  td_status :: "string option"

record posting_rule_dto =
  rd_company :: "ident option"
  rd_code :: string
  rd_name :: string
  rd_eventType :: string
  rd_version :: "nat option"
  rd_priority :: "int option"
  rd_status :: "string option"
  rd_effectiveFrom :: "int option"
  rd_effectiveTo :: "int option"
  rd_lines :: "rule_line list"

record close_control_dto =
  cd_module :: "string option"
  cd_start :: "int option"
  cd_end :: "int option"

record account_dto =
  acd_code :: string
  acd_name :: string
  acd_type :: account_type

record account_update_dto =
  aud_name :: "string option"
  aud_type :: "account_type option"
  aud_isActive :: "bool option"

record tax_line =
  tl_taxCode :: ident
  tl_direction :: string
  tl_base :: rat
  tl_amount :: rat

record post_input =
  pi_company :: ident
  pi_branch :: ident
  pi_eventType :: string
  pi_sourceType :: string
  pi_sourceId :: string
  pi_idempotencyKey :: string
  pi_businessDate :: "int option"
  pi_currency :: "string option"
  pi_amounts :: "(string \<times> rat) list"
  pi_accountCodes :: "(string \<times> string) list"
  pi_lines :: "event_line list"
  pi_taxLines :: "tax_line list"

section \<open>Scope\<close>

definition assertRequestedScope ::
    "auth_user \<Rightarrow> tenant_scope \<Rightarrow> ident option \<Rightarrow> ident option \<Rightarrow> string \<Rightarrow> ('b base_db_scheme, unit) svc" where
  "assertRequestedScope user scope requestedCompany requestedBranch entityType =
     (if (requestedCompany \<noteq> None \<and> requestedCompany \<noteq> Some (sc_company scope)) \<or>
         (requestedBranch \<noteq> None \<and> requestedBranch \<noteq> Some (sc_branch scope))
      then denyS scope user entityType None else returnS ())"

section \<open>Close controls\<close>

definition moduleName :: "close_control_dto \<Rightarrow> string" where
  "moduleName dto = toUpperCase (trim (case cd_module dto of
     Some m \<Rightarrow> if m = '''' then ''ACCOUNTING'' else m | None \<Rightarrow> ''ACCOUNTING''))"

definition createCloseControl :: "close_control_dto \<Rightarrow> auth_user \<Rightarrow> ('b accounting_db_scheme, close_control) svc" where
  "createCloseControl dto user =
     bindS (liftS (requireTenantScope user)) (\<lambda>scope.
     bindS (requireS (moduleName dto \<noteq> '''') (BadRequest ''Module close control wajib diisi.'')) (\<lambda>_.
     case (cd_start dto, cd_end dto) of
       (Some start, Some stop) \<Rightarrow>
         if stop < start then throwS (BadRequest ''Rentang AccountingCloseControl tidak valid.'')
         else runTx (
           bindT (getT (\<lambda>s. find_first (\<lambda>c. cc_company c = sc_company scope \<and> cc_branch c = Some (sc_branch scope) \<and>
                    cc_module c = moduleName dto \<and> cc_start c \<le> stop \<and> start \<le> cc_end c) (db_closeControls s))) (\<lambda>overlap.
           bindT (requireT (overlap = None) (BadRequest ''Close control bertumpang tindih dengan periode yang sudah ada.'')) (\<lambda>_.
           bindT newIdT (\<lambda>i.
           let row = \<lparr>cc_id = i, cc_company = sc_company scope, cc_branch = Some (sc_branch scope), cc_module = moduleName dto,
                      cc_start = start, cc_end = stop, cc_status = ''OPEN'', cc_closedBy = None, cc_closedAt = None,
                      cc_reopenReason = None\<rparr>
           in bindT (modT (\<lambda>s. s\<lparr>db_closeControls := db_closeControls s @ [row]\<rparr>)) (\<lambda>_.
              bindT (auditT scope user ''CREATE_ACCOUNTING_CLOSE_CONTROL'' ''AccountingCloseControl'' (Some i)) (\<lambda>_.
              returnT row))))))
     | _ \<Rightarrow> throwS (BadRequest ''Rentang AccountingCloseControl tidak valid.'')))"

definition controlVisible :: "tenant_scope \<Rightarrow> ident \<Rightarrow> close_control \<Rightarrow> bool" where
  "controlVisible scope i c \<longleftrightarrow> cc_id c = i \<and> cc_company c = sc_company scope \<and>
     (cc_branch c = Some (sc_branch scope) \<or> cc_branch c = None)"

definition closeControl :: "ident \<Rightarrow> auth_user \<Rightarrow> ('b accounting_db_scheme, close_control) svc" where
  "closeControl i user =
     bindS (liftS (requireTenantScope user)) (\<lambda>scope. runTx (
       bindT (getT (\<lambda>s. find_first (controlVisible scope i) (db_closeControls s))) (\<lambda>found.
       case found of
         None \<Rightarrow> denyT scope user ''AccountingCloseControl'' (Some i)
       | Some row \<Rightarrow>
           if cc_status row = ''CLOSED'' then returnT row
           else bindT nowT (\<lambda>t.
             let f = (\<lambda>c. c\<lparr>cc_status := ''CLOSED'', cc_closedBy := Some (us_sub user), cc_closedAt := Some t, cc_reopenReason := None\<rparr>)
             in bindT (modT (\<lambda>s. s\<lparr>db_closeControls := update_many (\<lambda>c. cc_id c = i) f (db_closeControls s)\<rparr>)) (\<lambda>_.
                bindT (auditT scope user ''CLOSE_ACCOUNTING_CONTROL'' ''AccountingCloseControl'' (Some i)) (\<lambda>_.
                returnT (f row)))))))"

definition reopenCloseControl :: "ident \<Rightarrow> string \<Rightarrow> auth_user \<Rightarrow> ('b accounting_db_scheme, close_control) svc" where
  "reopenCloseControl i reason user =
     bindS (liftS (requireTenantScope user)) (\<lambda>scope.
     bindS (requireS (trim reason \<noteq> '''') (BadRequest ''Alasan reopen wajib diisi.'')) (\<lambda>_. runTx (
       bindT (getT (\<lambda>s. find_first (controlVisible scope i) (db_closeControls s))) (\<lambda>found.
       case found of
         None \<Rightarrow> denyT scope user ''AccountingCloseControl'' (Some i)
       | Some row \<Rightarrow>
           bindT (requireT (cc_status row = ''CLOSED'')
                    (BadRequest ''Hanya AccountingCloseControl CLOSED yang dapat direopen.'')) (\<lambda>_.
           let f = (\<lambda>c. c\<lparr>cc_status := ''OPEN'', cc_closedBy := None, cc_closedAt := None, cc_reopenReason := Some (trim reason)\<rparr>)
           in bindT (modT (\<lambda>s. s\<lparr>db_closeControls := update_many (\<lambda>c. cc_id c = i) f (db_closeControls s)\<rparr>)) (\<lambda>_.
              bindT (auditT scope user ''REOPEN_ACCOUNTING_CONTROL'' ''AccountingCloseControl'' (Some i)) (\<lambda>_.
              returnT (f row))))))))"

definition listCloseControls :: "auth_user \<Rightarrow> ('b accounting_db_scheme, close_control list) svc" where
  "listCloseControls user = bindS (liftS (requireTenantScope user)) (\<lambda>scope.
     getS (\<lambda>s. sortBy (\<lambda>a b. cc_end b < cc_end a \<or> (cc_end a = cc_end b \<and> cc_module a \<le> cc_module b))
       (filter (\<lambda>c. cc_company c = sc_company scope \<and> (cc_branch c = Some (sc_branch scope) \<or> cc_branch c = None))
         (db_closeControls s))))"

section \<open>Accounts\<close>

definition listAccounts :: "auth_user \<Rightarrow> ('b accounting_db_scheme, account list) svc" where
  "listAccounts user = bindS (liftS (requireTenantScope user)) (\<lambda>scope.
     getS (\<lambda>s. sort_key ac_code (sort_key ac_id (filter (\<lambda>a. ac_branch a = sc_branch scope \<and> branchInCompany scope s) (db_accounts s)))))"

definition createAccount :: "account_dto \<Rightarrow> auth_user \<Rightarrow> ('b accounting_db_scheme, account) svc" where
  "createAccount dto user =
     bindS (liftS (requireTenantScope user)) (\<lambda>scope.
     let code = toUpperCase (trim (acd_code dto)); name = trim (acd_name dto) in
     bindS (requireS (code \<noteq> '''' \<and> name \<noteq> '''') (BadRequest ''Kode dan nama akun wajib diisi.'')) (\<lambda>_. runTx (
       bindT (getT (\<lambda>s. find_first (\<lambda>a. ac_branch a = sc_branch scope \<and> ac_code a = code) (db_accounts s))) (\<lambda>duplicate.
       bindT (requireT (duplicate = None) (BadRequest ''Akun sudah ada pada branch ini.'')) (\<lambda>_.
       bindT newIdT (\<lambda>i.
       let row = \<lparr>ac_id = i, ac_branch = sc_branch scope, ac_code = code, ac_name = name, ac_type = acd_type dto,
                  ac_isActive = True\<rparr>
       in bindT (modT (\<lambda>s. s\<lparr>db_accounts := db_accounts s @ [row]\<rparr>)) (\<lambda>_.
          bindT (auditT scope user ''CREATE_ACCOUNT'' ''Account'' (Some i)) (\<lambda>_.
          returnT row))))))))"

definition updateAccount :: "ident \<Rightarrow> account_update_dto \<Rightarrow> auth_user \<Rightarrow> ('b accounting_db_scheme, account) svc" where
  "updateAccount i dto user =
     bindS (liftS (requireTenantScope user)) (\<lambda>scope. runTx (
       bindT (getT (\<lambda>s. find_first (\<lambda>a. ac_id a = i \<and> ac_branch a = sc_branch scope \<and> branchInCompany scope s) (db_accounts s))) (\<lambda>found.
       case found of
         None \<Rightarrow> denyT scope user ''Account'' (Some i)
       | Some acct \<Rightarrow>
           bindT (getT (\<lambda>s. if aud_type dto \<noteq> None \<and> aud_type dto \<noteq> Some (ac_type acct)
                    then length (filter (\<lambda>l. jl_account l = i) (concat (map je_lines (db_journals s)))) else 0)) (\<lambda>usage.
           bindT (requireT (usage = 0)
                    (BadRequest ''Tipe akun yang sudah memiliki histori jurnal tidak boleh diubah.'')) (\<lambda>_.
           bindT (getT (\<lambda>s. aud_isActive dto = Some False \<and>
                    list_ex (\<lambda>r. ru_company r = sc_company scope \<and> ru_status r = ''ACTIVE'' \<and>
                                 list_ex (\<lambda>l. rl_accountCode l = Some (ac_code acct)) (ru_lines r)) (db_rules s))) (\<lambda>used.
           bindT (requireT (\<not> used) (BadRequest ''Akun masih dipakai posting rule ACTIVE.'')) (\<lambda>_.
           let f = (\<lambda>a. a\<lparr>ac_name := (case aud_name dto of Some n \<Rightarrow> trim n | None \<Rightarrow> ac_name a),
                          ac_type := (case aud_type dto of Some k \<Rightarrow> k | None \<Rightarrow> ac_type a),
                          ac_isActive := (case aud_isActive dto of Some b \<Rightarrow> b | None \<Rightarrow> ac_isActive a)\<rparr>)
           in bindT (modT (\<lambda>s. s\<lparr>db_accounts := update_many (\<lambda>a. ac_id a = i) f (db_accounts s)\<rparr>)) (\<lambda>_.
              bindT (auditT scope user ''UPDATE_ACCOUNT'' ''Account'' (Some i)) (\<lambda>_.
              returnT (f acct))))))))))"

section \<open>An empty database\<close>

text \<open>One company with one branch, no rows of any other table: the database the witnesses start from.\<close>

definition emptyAccounting :: accounting_db where
  "emptyAccounting = \<lparr>db_now = 0, db_nextId = 1,
     db_stock = \<lparr>locations = [], inventories = [], balances = [], conditions = [], reservations = [], now = 0, next_id = 1\<rparr>,
     db_numbering = \<lparr>branches = [\<lparr>br_id = 1, br_company = 1, br_code = ''B'', br_isActive = True, br_address = None\<rparr>], companies = [\<lparr>co_id = 1, co_slug = None\<rparr>],
       sequences = [], num_now = 0, num_nextId = 1\<rparr>,
     db_receipts = \<lparr>rcs_rows = [], rcs_now = 0, rcs_nextId = 1\<rparr>,
     db_audits = [], db_outbox = [], db_warehouses = [], db_products = [], db_movements = [], db_batches = [], db_serials = [],
     db_accounts = [], db_taxCodes = [], db_rules = [], db_closeControls = [], db_fiscalPeriods = [], db_events = [],
     db_journals = [], db_postings = [], db_taxTransactions = []\<rparr>"

definition exampleUser :: auth_user where
  "exampleUser = \<lparr>us_sub = 7, us_company = Some 1, us_branch = Some 1\<rparr>"

definition exampleScope :: tenant_scope where
  "exampleScope = \<lparr>sc_company = 1, sc_branch = 1\<rparr>"

lemma exampleScope_of_user [simp]: "requireTenantScope exampleUser = Inr exampleScope"
  by (simp add: requireTenantScope_def exampleUser_def exampleScope_def)

end
