(* ===== verification/AccountingPosting.thy ===== *)
theory AccountingPosting
  imports Accounting
begin

text \<open>
  Tax calculation and the posting of operational events in \<open>accounting-core.service.ts\<close>: an event is recorded
  once per idempotency key, its amounts run through the active posting rule, and the journal that results is
  written only if it balances, on active accounts, in an open period.

  The amounts and account codes of an event are association lists; their keys are not the names of
  \<open>Object.prototype\<close>.
\<close>

section \<open>Tax calculation\<close>

record tax_result =
  tr_taxCode :: "tax_code option"
  tr_net :: rat
  tr_tax :: rat
  tr_gross :: rat

definition calculateTax ::
    "decimal_ops \<Rightarrow> ident option \<Rightarrow> rat \<Rightarrow> ident option \<Rightarrow> int \<Rightarrow> string list \<Rightarrow> ('b accounting_db_scheme, tax_result) tx" where
  "calculateTax dec taxCodeId amount companyId effectiveAt expectedScopes = (case taxCodeId of
     None \<Rightarrow> returnT \<lparr>tr_taxCode = None, tr_net = amount, tr_tax = 0, tr_gross = amount\<rparr>
   | Some i \<Rightarrow>
       bindT (getT (\<lambda>s. find_first (\<lambda>t. tx_id t = i \<and> (companyId = None \<or> companyId = Some (tx_company t))) (db_taxCodes s))) (\<lambda>found.
       case found of
         None \<Rightarrow> throwT (NotFound ''Tax code tidak ditemukan.'')
       | Some t \<Rightarrow>
           bindT (requireT (tx_status t = ''ACTIVE'') (BadRequest ''Tax code belum ACTIVE.'')) (\<lambda>_.
           bindT (requireT (case tx_effectiveFrom t of None \<Rightarrow> True | Some f \<Rightarrow> f \<le> effectiveAt)
                    (BadRequest ''Tax code belum berlaku pada tanggal transaksi.'')) (\<lambda>_.
           bindT (requireT (case tx_effectiveTo t of None \<Rightarrow> True | Some u \<Rightarrow> effectiveAt \<le> u)
                    (BadRequest ''Tax code sudah tidak berlaku pada tanggal transaksi.'')) (\<lambda>_.
           bindT (requireT (expectedScopes = [] \<or> List.member expectedScopes (tx_scope t))
                    (BadRequest ''Tax code scope tidak sesuai transaksi ini.'')) (\<lambda>_.
           bindT (requireT (0 \<le> tx_rate t) (BadRequest ''Tarif pajak tidak valid.'')) (\<lambda>_.
           if tx_inclusive t \<and> 0 < tx_rate t then
             let net = d_places dec 2 (d_div dec amount (d_add dec 1 (tx_rate t)))
             in returnT \<lparr>tr_taxCode = Some t, tr_net = net, tr_tax = d_sub dec amount net, tr_gross = amount\<rparr>
           else
             let tax = d_places dec 2 (d_mul dec amount (tx_rate t))
             in returnT \<lparr>tr_taxCode = Some t, tr_net = amount, tr_tax = tax, tr_gross = d_add dec amount tax\<rparr>)))))))"

definition previewTax :: "decimal_ops \<Rightarrow> ident \<Rightarrow> rat \<Rightarrow> auth_user \<Rightarrow> ('b accounting_db_scheme, tax_result) svc" where
  "previewTax dec taxCodeId amount user = bindS (liftS (requireTenantScope user)) (\<lambda>scope. bindS (getS db_now) (\<lambda>t.
     runTx (calculateTax dec (Some taxCodeId) amount (Some (sc_company scope)) t [])))"

section \<open>The checks before a posting\<close>

definition allowedScopes :: "string \<Rightarrow> string list" where
  "allowedScopes direction =
     (if direction = ''OUTPUT'' then [''SALE'', ''SHIPPING'', ''OTHER'']
      else if direction = ''INPUT'' then [''PURCHASE'', ''EXPENSE'', ''ASSET'', ''SHIPPING'', ''OTHER'']
      else if direction = ''WITHHOLDING'' then [''WITHHOLDING'', ''PAYROLL'', ''OTHER'']
      else if direction = ''SELF_ASSESSED'' then [''PURCHASE'', ''EXPENSE'', ''ASSET'', ''OTHER'']
      else [])"

definition checkTaxLine :: "ident \<Rightarrow> int \<Rightarrow> tax_line \<Rightarrow> ('b accounting_db_scheme, unit) tx" where
  "checkTaxLine companyId businessDate line =
     bindT (getT (\<lambda>s. find_first (\<lambda>t. tx_id t = tl_taxCode line \<and> tx_company t = companyId) (db_taxCodes s))) (\<lambda>found.
     case found of
       None \<Rightarrow> throwT (BadRequest ''Tax code event tidak tersedia untuk company transaksi.'')
     | Some t \<Rightarrow>
         bindT (requireT (tx_status t = ''ACTIVE'') (BadRequest ''Tax code belum ACTIVE.'')) (\<lambda>_.
         bindT (requireT (case tx_effectiveFrom t of None \<Rightarrow> True | Some f \<Rightarrow> f \<le> businessDate)
                  (BadRequest ''Tax code belum berlaku pada tanggal transaksi.'')) (\<lambda>_.
         bindT (requireT (case tx_effectiveTo t of None \<Rightarrow> True | Some u \<Rightarrow> businessDate \<le> u)
                  (BadRequest ''Tax code sudah tidak berlaku pada tanggal transaksi.'')) (\<lambda>_.
         requireT (List.member (allowedScopes (tl_direction line)) (tx_scope t))
           (BadRequest ''Tax code scope tidak sesuai arah pajak.'')))))"

definition activeRule :: "ident \<Rightarrow> string \<Rightarrow> int \<Rightarrow> posting_rule list \<Rightarrow> posting_rule option" where
  "activeRule companyId eventType businessDate = find_ordered
     (\<lambda>a b. ru_priority a < ru_priority b \<or> (ru_priority a = ru_priority b \<and> ru_version b \<le> ru_version a))
     (\<lambda>r. ru_company r = companyId \<and> ru_eventType r = eventType \<and> ru_status r = ''ACTIVE'' \<and>
          inRange (ru_effectiveFrom r) (ru_effectiveTo r) businessDate)"

definition closingControl :: "ident \<Rightarrow> ident \<Rightarrow> string \<Rightarrow> int \<Rightarrow> close_control list \<Rightarrow> close_control option" where
  "closingControl companyId branchId eventType businessDate = find_first (\<lambda>c. cc_company c = companyId \<and> cc_status c = ''CLOSED'' \<and>
     cc_start c \<le> businessDate \<and> businessDate \<le> cc_end c \<and> List.member [''ACCOUNTING'', eventType] (cc_module c) \<and>
     (cc_branch c = Some branchId \<or> cc_branch c = None))"

definition periodAt :: "ident \<Rightarrow> ident \<Rightarrow> int \<Rightarrow> fiscal_period list \<Rightarrow> fiscal_period option" where
  "periodAt companyId branchId businessDate = find_ordered (\<lambda>a b. fp_start b \<le> fp_start a)
     (\<lambda>p. fp_company p = companyId \<and> fp_branch p = Some branchId \<and> fp_start p \<le> businessDate \<and> businessDate \<le> fp_end p)"

section \<open>Amounts and journal lines\<close>

definition firstAmount :: "(string \<times> rat) list \<Rightarrow> string list \<Rightarrow> rat option" where
  "firstAmount amounts keys = (case find_first (\<lambda>k. map_of amounts k \<noteq> None) keys of
     None \<Rightarrow> None | Some k \<Rightarrow> map_of amounts k)"

definition orElse :: "'a option \<Rightarrow> 'a \<Rightarrow> 'a" where
  "orElse x d = (case x of None \<Rightarrow> d | Some v \<Rightarrow> v)"

definition amountOf :: "(string \<times> rat) list \<Rightarrow> rule_line \<Rightarrow> rat" where
  "amountOf amounts line = orElse (map_of amounts (rl_amountKey line)) 0"

definition usableLines :: "(string \<times> rat) list \<Rightarrow> rule_line list \<Rightarrow> rule_line list" where
  "usableLines amounts = filter (\<lambda>line. \<not> orElse (rl_skipIfZero line) True \<or> amountOf amounts line \<noteq> 0)"

text \<open>\<open>line.accountCodeKey ? input.accountCodes?.[line.accountCodeKey] : line.accountCode\<close>, the empty text being falsy.\<close>

definition resolveAccountCode :: "(string \<times> string) list \<Rightarrow> rule_line \<Rightarrow> exn + rule_line \<times> string" where
  "resolveAccountCode accountCodes line =
     (let code = (if rl_accountCodeKey line \<noteq> None \<and> rl_accountCodeKey line \<noteq> Some ''''
                  then map_of accountCodes (the (rl_accountCodeKey line)) else rl_accountCode line)
      in case code of
           None \<Rightarrow> Inl (BadRequest ''Account code untuk baris belum dikonfigurasi.'')
         | Some c \<Rightarrow> if c = '''' then Inl (BadRequest ''Account code untuk baris belum dikonfigurasi.'') else Inr (line, c))"

definition activeAccount :: "ident \<Rightarrow> string \<Rightarrow> account list \<Rightarrow> account option" where
  "activeAccount branchId code = find_first (\<lambda>a. ac_branch a = branchId \<and> ac_code a = code \<and> ac_isActive a)"

definition journalLine :: "ident \<Rightarrow> account list \<Rightarrow> (string \<times> rat) list \<Rightarrow> rule_line \<times> string \<Rightarrow> exn + journal_line" where
  "journalLine branchId accounts amounts lc =
     (let amount = amountOf amounts (fst lc); side = rl_side (fst lc) in
      if amount < 0 then Inl (BadRequest ''Nilai tidak boleh negatif.'')
      else case activeAccount branchId (snd lc) accounts of
        None \<Rightarrow> Inl (BadRequest ''Akun belum dikonfigurasi.'')
      | Some a \<Rightarrow> Inr \<lparr>jl_account = ac_id a, jl_debit = (if side = ''DEBIT'' then amount else 0),
                       jl_credit = (if side = ''CREDIT'' then amount else 0)\<rparr>)"

text \<open>The totals the balance check compares: whatever is not \<open>DEBIT\<close> counts as credit.\<close>

definition debitTotal :: "decimal_ops \<Rightarrow> (string \<times> rat) list \<Rightarrow> rule_line list \<Rightarrow> rat" where
  "debitTotal dec amounts ls = d_sum dec (map (amountOf amounts) (filter (\<lambda>l. rl_side l = ''DEBIT'') ls))"

definition creditTotal :: "decimal_ops \<Rightarrow> (string \<times> rat) list \<Rightarrow> rule_line list \<Rightarrow> rat" where
  "creditTotal dec amounts ls = d_sum dec (map (amountOf amounts) (filter (\<lambda>l. rl_side l \<noteq> ''DEBIT'') ls))"

text \<open>The journal lines of a rule: usable lines, their account codes, the accounts, the amounts, the balance.\<close>

definition buildJournal ::
    "decimal_ops \<Rightarrow> post_input \<Rightarrow> account list \<Rightarrow> posting_rule \<Rightarrow> exn + journal_line list" where
  "buildJournal dec input accounts rule =
     (let usable = usableLines (pi_amounts input) (ru_lines rule) in
      bindE (requireE (usable \<noteq> []) (BadRequest ''Aturan tidak menghasilkan jurnal.'')) (\<lambda>_.
      bindE (mapE (resolveAccountCode (pi_accountCodes input)) usable) (\<lambda>resolved.
      bindE (requireE (list_all (\<lambda>lc. activeAccount (pi_branch input) (snd lc) accounts \<noteq> None) resolved)
               (BadRequest ''Akun belum dikonfigurasi.'')) (\<lambda>_.
      bindE (mapE (journalLine (pi_branch input) accounts (pi_amounts input)) resolved) (\<lambda>journalLines.
      bindE (requireE (debitTotal dec (pi_amounts input) usable = creditTotal dec (pi_amounts input) usable)
               (BadRequest ''Jurnal tidak seimbang.'')) (\<lambda>_.
      Inr journalLines))))))"

section \<open>Posting\<close>

definition sameIdentity :: "post_input \<Rightarrow> accounting_event \<Rightarrow> bool" where
  "sameIdentity input ev \<longleftrightarrow> ev_branch ev = pi_branch input \<and> ev_eventType ev = pi_eventType input \<and>
     ev_sourceType ev = pi_sourceType input \<and> ev_sourceId ev = pi_sourceId input"

definition newEvent :: "decimal_ops \<Rightarrow> post_input \<Rightarrow> int \<Rightarrow> ident \<Rightarrow> accounting_event" where
  "newEvent dec input businessDate i =
     (let amounts = pi_amounts input;
          netAmount = orElse (firstAmount amounts [''net'', ''revenue'', ''inventory'', ''expense'', ''asset'', ''gain'', ''loss'']) 0;
          taxAmount = orElse (firstAmount amounts [''tax'', ''outputTax'', ''inputTax'']) 0;
          grossAmount = orElse (firstAmount amounts [''gross'', ''cash'', ''bank'', ''payable'', ''receivable''])
            (d_add dec netAmount taxAmount)
      in \<lparr>ev_id = i, ev_company = pi_company input, ev_branch = pi_branch input, ev_eventType = pi_eventType input,
          ev_sourceType = pi_sourceType input, ev_sourceId = pi_sourceId input, ev_idempotencyKey = pi_idempotencyKey input,
          ev_businessDate = businessDate, ev_currency = orElse (pi_currency input) ''IDR'', ev_net = netAmount, ev_tax = taxAmount,
          ev_gross = grossAmount, ev_status = ''VALIDATED'', ev_journalEntry = None, ev_lines = pi_lines input\<rparr>)"

definition journalNumberOpts :: "post_input \<Rightarrow> numbering_opts" where
  "journalNumberOpts input = \<lparr>op_company = pi_company input, op_branch = Some (pi_branch input), op_documentType = ''JOURNAL'',
     op_prefix = ''JRN'', op_padding = None, op_resetPolicy = None\<rparr>"

definition taxTransaction :: "post_input \<Rightarrow> int \<Rightarrow> ident \<Rightarrow> tax_line \<Rightarrow> tax_transaction" where
  "taxTransaction input businessDate eventId line =
     \<lparr>tt_company = pi_company input, tt_branch = pi_branch input, tt_event = eventId, tt_sourceType = pi_sourceType input,
      tt_sourceId = pi_sourceId input, tt_taxCode = tl_taxCode line, tt_direction = tl_direction line, tt_date = businessDate,
      tt_period = yearText businessDate @ ''-'' @ monthText businessDate, tt_base = tl_base line, tt_amount = tl_amount line,
      tt_status = ''POSTED''\<rparr>"

definition eventOfKey :: "ident \<Rightarrow> string \<Rightarrow> accounting_event list \<Rightarrow> accounting_event option" where
  "eventOfKey companyId key = find_first (\<lambda>e. ev_company e = companyId \<and> ev_idempotencyKey e = key)"

text \<open>The guards of a posting: the tax lines, the rule, the close control and the fiscal period.\<close>

definition postingGuards :: "post_input \<Rightarrow> int \<Rightarrow> ('b accounting_db_scheme, posting_rule) tx" where
  "postingGuards input businessDate =
     bindT (forT (checkTaxLine (pi_company input) businessDate) (pi_taxLines input)) (\<lambda>_.
     bindT (getT (\<lambda>s. activeRule (pi_company input) (pi_eventType input) businessDate (db_rules s))) (\<lambda>found.
     case found of
       None \<Rightarrow> throwT (BadRequest ''Accounting posting rule ACTIVE belum dikonfigurasi.'')
     | Some rule \<Rightarrow>
         bindT (getT (\<lambda>s. closingControl (pi_company input) (pi_branch input) (pi_eventType input) businessDate (db_closeControls s)))
           (\<lambda>control.
         bindT (requireT (control = None) (BadRequest ''Accounting close control menutup posting pada periode.'')) (\<lambda>_.
         bindT (getT (\<lambda>s. periodAt (pi_company input) (pi_branch input) businessDate (db_fiscalPeriods s))) (\<lambda>period.
         bindT (requireT (case period of None \<Rightarrow> True | Some p \<Rightarrow> fp_status p = ''OPEN'')
                  (BadRequest ''Periode fiskal tidak OPEN; posting jurnal ke periode ini tidak diizinkan.'')) (\<lambda>_.
         returnT rule))))))"

text \<open>\<open>JournalEntry.number\<close> is unique over all companies.\<close>

definition createJournal :: "post_input \<Rightarrow> int \<Rightarrow> journal_line list \<Rightarrow> ('b accounting_db_scheme, journal_entry) tx" where
  "createJournal input businessDate ls =
     bindT (onNumbering (nextDocumentNumber (journalNumberOpts input))) (\<lambda>number.
     bindT (getT (\<lambda>s. find_first (\<lambda>j. je_number j = number) (db_journals s))) (\<lambda>taken.
     bindT (requireT (taken = None) (PrismaError ''P2002'')) (\<lambda>_.
     bindT newIdT (\<lambda>i.
     let journal = \<lparr>je_id = i, je_number = number, je_date = businessDate, je_referenceType = pi_sourceType input,
                    je_referenceId = pi_sourceId input, je_lines = ls\<rparr>
     in bindT (modT (\<lambda>s. s\<lparr>db_journals := db_journals s @ [journal]\<rparr>)) (\<lambda>_. returnT journal)))))"

definition postNewEvent :: "decimal_ops \<Rightarrow> post_input \<Rightarrow> int \<Rightarrow> ('b accounting_db_scheme, accounting_event) tx" where
  "postNewEvent dec input businessDate =
     bindT (postingGuards input businessDate) (\<lambda>rule.
     bindT newIdT (\<lambda>eventId.
     let event = newEvent dec input businessDate eventId in
     bindT (modT (\<lambda>s. s\<lparr>db_events := db_events s @ [event]\<rparr>)) (\<lambda>_.
     bindT (getT db_accounts) (\<lambda>accounts.
     bindT (liftE (buildJournal dec input accounts rule)) (\<lambda>journalLines.
     bindT (createJournal input businessDate journalLines) (\<lambda>journal.
     bindT (modT (\<lambda>s. s\<lparr>db_taxTransactions := db_taxTransactions s @ map (taxTransaction input businessDate eventId) (pi_taxLines input)\<rparr>)) (\<lambda>_.
     bindT (modT (\<lambda>s. s\<lparr>db_postings := db_postings s @
              [\<lparr>po_event = eventId, po_rule = ru_id rule, po_journalEntry = je_id journal\<rparr>]\<rparr>)) (\<lambda>_.
     bindT (modT (\<lambda>s. s\<lparr>db_events := update_many (\<lambda>e. ev_id e = eventId)
              (\<lambda>e. e\<lparr>ev_status := ''POSTED'', ev_journalEntry := Some (je_id journal)\<rparr>) (db_events s)\<rparr>)) (\<lambda>_.
     returnT (event\<lparr>ev_status := ''POSTED'', ev_journalEntry := Some (je_id journal)\<rparr>))))))))))"

definition postOperationalEvent :: "decimal_ops \<Rightarrow> post_input \<Rightarrow> ('b accounting_db_scheme, accounting_event) tx" where
  "postOperationalEvent dec input =
     bindT (getT (\<lambda>s. eventOfKey (pi_company input) (pi_idempotencyKey input) (db_events s))) (\<lambda>existing.
     case existing of
       Some ev \<Rightarrow>
         bindT (requireT (sameIdentity input ev)
                  (BadRequest ''Idempotency key sudah digunakan untuk event atau branch yang berbeda.'')) (\<lambda>_. returnT ev)
     | None \<Rightarrow> bindT nowT (\<lambda>t. postNewEvent dec input (orElse (pi_businessDate input) t)))"

section \<open>Manual posting\<close>

record manual_event_dto =
  me_company :: "ident option"
  me_branch :: "ident option"
  me_eventType :: string
  me_sourceType :: string
  me_sourceId :: string
  me_idempotencyKey :: string
  me_currency :: "string option"
  me_businessDate :: "int option"
  me_amounts :: "(string \<times> rat) list"
  me_accountCodes :: "(string \<times> string) list"
  me_lines :: "event_line list"
  me_taxLines :: "tax_line list"

definition manualTaxCodes :: "manual_event_dto \<Rightarrow> ident list" where
  "manualTaxCodes dto = remdups (List.map_filter el_taxCode (me_lines dto) @ map tl_taxCode (me_taxLines dto))"

definition manualInput :: "tenant_scope \<Rightarrow> manual_event_dto \<Rightarrow> post_input" where
  "manualInput scope dto = \<lparr>pi_company = sc_company scope, pi_branch = sc_branch scope, pi_eventType = me_eventType dto,
     pi_sourceType = me_sourceType dto, pi_sourceId = me_sourceId dto, pi_idempotencyKey = me_idempotencyKey dto,
     pi_businessDate = me_businessDate dto, pi_currency = me_currency dto, pi_amounts = me_amounts dto,
     pi_accountCodes = me_accountCodes dto, pi_lines = me_lines dto, pi_taxLines = me_taxLines dto\<rparr>"

definition postManualTx ::
    "decimal_ops \<Rightarrow> tenant_scope \<Rightarrow> manual_event_dto \<Rightarrow> auth_user \<Rightarrow> ('b accounting_db_scheme, accounting_event) tx" where
  "postManualTx dec scope dto user =
     bindT (getT (\<lambda>s. find_first (\<lambda>i. \<not> list_ex (\<lambda>t. tx_id t = i \<and> tx_company t = sc_company scope) (db_taxCodes s))
              (manualTaxCodes dto))) (\<lambda>foreign.
     bindT (case foreign of Some i \<Rightarrow> denyT scope user ''TaxCode'' (Some i) | None \<Rightarrow> returnT ()) (\<lambda>_.
     bindT (getT (\<lambda>s. eventOfKey (sc_company scope) (me_idempotencyKey dto) (db_events s))) (\<lambda>existing.
     case existing of
       Some ev \<Rightarrow> if ev_branch ev \<noteq> sc_branch scope then denyT scope user ''AccountingEvent'' (Some (ev_id ev)) else returnT ev
     | None \<Rightarrow>
         bindT (postOperationalEvent dec (manualInput scope dto)) (\<lambda>event.
         bindT (auditT scope user ''POST_MANUAL_ACCOUNTING_EVENT'' ''AccountingEvent'' (Some (ev_id event))) (\<lambda>_.
         returnT event)))))"

definition postManual :: "decimal_ops \<Rightarrow> manual_event_dto \<Rightarrow> auth_user \<Rightarrow> ('b accounting_db_scheme, accounting_event) svc" where
  "postManual dec dto user =
     bindS (liftS (requireTenantScope user)) (\<lambda>scope.
     bindS (assertRequestedScope user scope (me_company dto) (me_branch dto) ''AccountingEvent'') (\<lambda>_.
     runTx (postManualTx dec scope dto user)))"

end
