(* ===== verification/AccountingConfig.thy ===== *)
theory AccountingConfig
  imports Accounting
begin

text \<open>
  Versioned accounting configuration of \<open>accounting-core.service.ts\<close>: tax codes and posting rules, their
  validation, creation and activation, and the invariant that active versions of one key never overlap in
  time (the contract of \<open>EffectiveRows\<close>, interpreted on both tables).
\<close>

section \<open>Texts\<close>

text \<open>\<open>x?.trim().toUpperCase()\<close>, and the same \<open>|| null\<close>.\<close>

definition cleanCode :: "string option \<Rightarrow> string option" where
  "cleanCode x = (case x of None \<Rightarrow> None | Some c \<Rightarrow> if toUpperCase (trim c) = '''' then None else Some (toUpperCase (trim c)))"

definition statusOr :: "string option \<Rightarrow> string" where
  "statusOr x = (case x of None \<Rightarrow> ''DRAFT'' | Some st \<Rightarrow> st)"

definition backwards :: "int option \<Rightarrow> int option \<Rightarrow> bool" where
  "backwards from until \<longleftrightarrow> (case (from, until) of (Some f, Some u) \<Rightarrow> u < f | _ \<Rightarrow> False)"

section \<open>Tax codes\<close>

text \<open>One of the three account rules: no code, or an active account of the branch of the right type.\<close>

definition checkTaxAccount :: "tenant_scope \<Rightarrow> string option \<times> account_type \<Rightarrow> ('b accounting_db_scheme, unit) tx" where
  "checkTaxAccount scope rule = (case cleanCode (fst rule) of
     None \<Rightarrow> returnT ()
   | Some code \<Rightarrow>
       bindT (getT (\<lambda>s. find_first (\<lambda>a. ac_branch a = sc_branch scope \<and> branchInCompany scope s \<and> ac_code a = code \<and> ac_isActive a)
                (db_accounts s))) (\<lambda>found.
       case found of
         None \<Rightarrow> throwT (BadRequest ''Akun pajak belum aktif/tersedia pada branch ini.'')
       | Some a \<Rightarrow> requireT (ac_type a = snd rule) (BadRequest ''Akun pajak salah tipe.'')))"

definition clashingTaxCode ::
    "ident option \<Rightarrow> ident \<times> string \<Rightarrow> int option \<Rightarrow> int option \<Rightarrow> tax_code list \<Rightarrow> tax_code option" where
  "clashingTaxCode excluded key from until = find_first (\<lambda>t. tx_company t = fst key \<and> tx_code t = snd key \<and>
     tx_status t = ''ACTIVE'' \<and> excluded \<noteq> Some (tx_id t) \<and>
     rangesOverlap from until (tx_effectiveFrom t) (tx_effectiveTo t))"

definition validateTaxCodeDefinition ::
    "tenant_scope \<Rightarrow> tax_code_dto \<Rightarrow> ident option \<Rightarrow> ('b accounting_db_scheme, unit) tx" where
  "validateTaxCodeDefinition scope dto excludeId =
     (let code = toUpperCase (trim (td_code dto)) in
     bindT (requireT (code \<noteq> '''' \<and> trim (td_name dto) \<noteq> '''') (BadRequest ''Kode dan nama pajak wajib diisi.'')) (\<lambda>_.
     bindT (requireT (\<not> backwards (td_effectiveFrom dto) (td_effectiveTo dto))
              (BadRequest ''Tanggal efektif tax code tidak valid.'')) (\<lambda>_.
     bindT (forT (checkTaxAccount scope) [(td_payableAccount dto, LIABILITY), (td_receivableAccount dto, ASSET),
              (td_expenseAccount dto, EXPENSE)]) (\<lambda>_.
     if statusOr (td_status dto) = ''ACTIVE'' then
       bindT (getT (\<lambda>s. clashingTaxCode excludeId (sc_company scope, code) (td_effectiveFrom dto) (td_effectiveTo dto)
                (db_taxCodes s))) (\<lambda>overlap.
       requireT (overlap = None) (BadRequest ''Tax code ACTIVE memiliki periode efektif yang bertumpang tindih.''))
     else returnT ()))))"

definition taxCodeData :: "tax_code_dto \<Rightarrow> tax_code \<Rightarrow> tax_code" where
  "taxCodeData dto t = t\<lparr>tx_name := trim (td_name dto), tx_scope := td_scope dto, tx_rate := td_rate dto,
     tx_inclusive := (td_inclusive dto = Some True), tx_recoverable := (td_recoverable dto = Some True),
     tx_payableAccount := cleanCode (td_payableAccount dto), tx_receivableAccount := cleanCode (td_receivableAccount dto),
     tx_expenseAccount := cleanCode (td_expenseAccount dto), tx_effectiveFrom := td_effectiveFrom dto,
     tx_effectiveTo := td_effectiveTo dto, tx_status := statusOr (td_status dto)\<rparr>"

definition newTaxCode :: "ident \<Rightarrow> ident \<Rightarrow> string \<Rightarrow> nat \<Rightarrow> tax_code" where
  "newTaxCode i company code version = \<lparr>tx_id = i, tx_company = company, tx_code = code, tx_version = version,
     tx_name = '''', tx_scope = '''', tx_rate = 0, tx_inclusive = False, tx_recoverable = False, tx_payableAccount = None,
     tx_receivableAccount = None, tx_expenseAccount = None, tx_effectiveFrom = None, tx_effectiveTo = None, tx_status = ''DRAFT''\<rparr>"

definition createTaxCodeTx ::
    "tenant_scope \<Rightarrow> tax_code_dto \<Rightarrow> auth_user \<Rightarrow> ('b accounting_db_scheme, tax_code) tx" where
  "createTaxCodeTx scope dto user =
     (let code = toUpperCase (trim (td_code dto)); version = (case td_version dto of None \<Rightarrow> 1 | Some v \<Rightarrow> v) in
     bindT (getT (\<lambda>s. find_first (\<lambda>t. tx_company t = sc_company scope \<and> tx_code t = code \<and> tx_version t = version)
              (db_taxCodes s))) (\<lambda>existing.
     bindT (getT (\<lambda>s. case existing of None \<Rightarrow> False | Some t \<Rightarrow>
              tx_status t \<noteq> ''DRAFT'' \<or> list_ex (\<lambda>u. tt_taxCode u = tx_id t) (db_taxTransactions s))) (\<lambda>history.
     bindT (requireT (\<not> history) (BadRequest ''Tax code sudah menjadi histori. Buat version baru.'')) (\<lambda>_.
     bindT (validateTaxCodeDefinition scope dto (map_option tx_id existing)) (\<lambda>_.
     bindT (case existing of
              Some t \<Rightarrow> bindT (modT (\<lambda>s. s\<lparr>db_taxCodes := update_many (\<lambda>u. tx_id u = tx_id t) (taxCodeData dto) (db_taxCodes s)\<rparr>))
                 (\<lambda>_. returnT (taxCodeData dto t))
            | None \<Rightarrow> bindT newIdT (\<lambda>i.
                 let row = taxCodeData dto (newTaxCode i (sc_company scope) code version)
                 in bindT (modT (\<lambda>s. s\<lparr>db_taxCodes := db_taxCodes s @ [row]\<rparr>)) (\<lambda>_. returnT row))) (\<lambda>row.
     bindT (auditT scope user ''UPSERT_TAX_CODE'' ''TaxCode'' (Some (tx_id row))) (\<lambda>_.
     returnT row)))))))"

definition createTaxCode :: "tax_code_dto \<Rightarrow> auth_user \<Rightarrow> ('b accounting_db_scheme, tax_code) svc" where
  "createTaxCode dto user =
     bindS (liftS (requireTenantScope user)) (\<lambda>scope.
     bindS (assertRequestedScope user scope (td_company dto) None ''TaxCode'') (\<lambda>_.
     runTx (createTaxCodeTx scope dto user)))"

definition taxCodeAsDto :: "tax_code \<Rightarrow> tax_code_dto" where
  "taxCodeAsDto t = \<lparr>td_company = None, td_code = tx_code t, td_version = Some (tx_version t), td_name = tx_name t,
     td_scope = tx_scope t, td_rate = tx_rate t, td_inclusive = Some (tx_inclusive t), td_recoverable = Some (tx_recoverable t),
     td_payableAccount = tx_payableAccount t, td_receivableAccount = tx_receivableAccount t,
     td_expenseAccount = tx_expenseAccount t, td_effectiveFrom = tx_effectiveFrom t, td_effectiveTo = tx_effectiveTo t,
     td_status = Some ''ACTIVE''\<rparr>"

definition updateTaxCodeStatusTx ::
    "tenant_scope \<Rightarrow> ident \<Rightarrow> string \<Rightarrow> auth_user \<Rightarrow> ('b accounting_db_scheme, tax_code) tx" where
  "updateTaxCodeStatusTx scope i status user =
     bindT (getT (\<lambda>s. find_first (\<lambda>t. tx_id t = i \<and> tx_company t = sc_company scope) (db_taxCodes s))) (\<lambda>found.
     case found of
       None \<Rightarrow> denyT scope user ''TaxCode'' (Some i)
     | Some t \<Rightarrow>
         bindT (requireT (\<not> (status = ''DRAFT'' \<and> tx_status t \<noteq> ''DRAFT''))
                  (BadRequest ''Tax code yang sudah pernah ACTIVE/INACTIVE tidak boleh kembali menjadi DRAFT.'')) (\<lambda>_.
         bindT (if status = ''ACTIVE'' then validateTaxCodeDefinition scope (taxCodeAsDto t) (Some (tx_id t)) else returnT ()) (\<lambda>_.
         bindT (modT (\<lambda>s. s\<lparr>db_taxCodes := update_many (\<lambda>u. tx_id u = i) (\<lambda>u. u\<lparr>tx_status := status\<rparr>) (db_taxCodes s)\<rparr>)) (\<lambda>_.
         bindT (auditT scope user ''UPDATE_TAX_CODE_STATUS'' ''TaxCode'' (Some i)) (\<lambda>_.
         returnT (t\<lparr>tx_status := status\<rparr>))))))"

definition updateTaxCodeStatus :: "ident \<Rightarrow> string \<Rightarrow> auth_user \<Rightarrow> ('b accounting_db_scheme, tax_code) svc" where
  "updateTaxCodeStatus i status user =
     bindS (liftS (requireTenantScope user)) (\<lambda>scope. runTx (updateTaxCodeStatusTx scope i status user))"

definition listTaxCodes :: "auth_user \<Rightarrow> ident option \<Rightarrow> ('b accounting_db_scheme, tax_code list) svc" where
  "listTaxCodes user requestedCompany =
     bindS (liftS (requireTenantScope user)) (\<lambda>scope.
     bindS (assertRequestedScope user scope requestedCompany None ''TaxCode'') (\<lambda>_.
     getS (\<lambda>s. sort_key tx_scope (sort_key tx_code (sortBy (\<lambda>a b. tx_version b \<le> tx_version a)
       (filter (\<lambda>t. tx_company t = sc_company scope) (db_taxCodes s)))))))"

section \<open>Posting rules\<close>

definition textPresent :: "string option \<Rightarrow> bool" where
  "textPresent x \<longleftrightarrow> (case x of None \<Rightarrow> False | Some c \<Rightarrow> trim c \<noteq> '''')"

definition checkRuleLine :: "rule_line \<Rightarrow> exn + unit" where
  "checkRuleLine l =
     (if textPresent (rl_accountCode l) = textPresent (rl_accountCodeKey l)
      then Inl (BadRequest ''Setiap baris posting rule harus memakai tepat satu accountCode atau accountCodeKey.'')
      else if trim (rl_amountKey l) = '''' then Inl (BadRequest ''amountKey posting rule wajib diisi.'')
      else Inr ())"

definition literalCodes :: "rule_line list \<Rightarrow> string list" where
  "literalCodes ls = List.map_filter (\<lambda>l. if textPresent (rl_accountCode l) then cleanCode (rl_accountCode l) else None) ls"

definition clashingRule ::
    "ident option \<Rightarrow> ident \<times> string \<times> int \<Rightarrow> int option \<Rightarrow> int option \<Rightarrow> posting_rule list \<Rightarrow> posting_rule option" where
  "clashingRule excluded key from until = find_first (\<lambda>r. ru_company r = fst key \<and> ru_eventType r = fst (snd key) \<and>
     ru_priority r = snd (snd key) \<and> ru_status r = ''ACTIVE'' \<and> excluded \<noteq> Some (ru_id r) \<and>
     rangesOverlap from until (ru_effectiveFrom r) (ru_effectiveTo r))"

definition priorityOr :: "int option \<Rightarrow> int" where
  "priorityOr p = (case p of None \<Rightarrow> 100 | Some x \<Rightarrow> x)"

definition validatePostingRuleDefinition ::
    "tenant_scope \<Rightarrow> posting_rule_dto \<Rightarrow> ident option \<Rightarrow> ('b accounting_db_scheme, unit) tx" where
  "validatePostingRuleDefinition scope dto excludeRuleId =
     bindT (requireT (rd_lines dto \<noteq> []) (BadRequest ''Aturan jurnal harus memiliki baris.'')) (\<lambda>_.
     bindT (requireT (list_ex (\<lambda>l. rl_side l = ''DEBIT'') (rd_lines dto) \<and> list_ex (\<lambda>l. rl_side l = ''CREDIT'') (rd_lines dto))
              (BadRequest ''Posting rule wajib memiliki minimal satu baris DEBIT dan satu baris CREDIT.'')) (\<lambda>_.
     bindT (requireT (\<not> backwards (rd_effectiveFrom dto) (rd_effectiveTo dto))
              (BadRequest ''Tanggal efektif posting rule tidak valid.'')) (\<lambda>_.
     bindT (forT (\<lambda>l. liftE (checkRuleLine l)) (rd_lines dto)) (\<lambda>_.
     bindT (getT (\<lambda>s. list_all (\<lambda>c. list_ex (\<lambda>a. ac_branch a = sc_branch scope \<and> branchInCompany scope s \<and> ac_code a = c \<and>
              ac_isActive a) (db_accounts s)) (literalCodes (rd_lines dto)))) (\<lambda>found.
     bindT (requireT found (BadRequest ''Akun posting rule belum aktif/tersedia pada branch ini.'')) (\<lambda>_.
     if statusOr (rd_status dto) = ''ACTIVE'' then
       bindT (getT (\<lambda>s. clashingRule excludeRuleId (sc_company scope, rd_eventType dto, priorityOr (rd_priority dto))
                (rd_effectiveFrom dto) (rd_effectiveTo dto) (db_rules s))) (\<lambda>overlapping.
       requireT (overlapping = None) (BadRequest ''Posting rule ACTIVE bertumpang tindih untuk eventType/priority yang sama.''))
     else returnT ()))))))"

definition ruleData :: "posting_rule_dto \<Rightarrow> posting_rule \<Rightarrow> posting_rule" where
  "ruleData dto r = r\<lparr>ru_name := rd_name dto, ru_eventType := rd_eventType dto, ru_priority := priorityOr (rd_priority dto),
     ru_status := statusOr (rd_status dto), ru_effectiveFrom := rd_effectiveFrom dto, ru_effectiveTo := rd_effectiveTo dto,
     ru_lines := map (\<lambda>l. l\<lparr>rl_accountCode := map_option (\<lambda>c. toUpperCase (trim c)) (rl_accountCode l)\<rparr>) (rd_lines dto)\<rparr>"

definition newRule :: "ident \<Rightarrow> ident \<Rightarrow> string \<Rightarrow> nat \<Rightarrow> posting_rule" where
  "newRule i company code version = \<lparr>ru_id = i, ru_company = company, ru_code = code, ru_version = version, ru_name = '''',
     ru_eventType = '''', ru_priority = 100, ru_status = ''DRAFT'', ru_effectiveFrom = None, ru_effectiveTo = None, ru_lines = []\<rparr>"

text \<open>The existing version is looked up by the code as sent; a new one is stored with the code in upper case.\<close>

definition createPostingRuleTx ::
    "tenant_scope \<Rightarrow> posting_rule_dto \<Rightarrow> auth_user \<Rightarrow> ('b accounting_db_scheme, posting_rule) tx" where
  "createPostingRuleTx scope dto user =
     (let version = (case rd_version dto of None \<Rightarrow> 1 | Some v \<Rightarrow> v); code = toUpperCase (trim (rd_code dto)) in
     bindT (getT (\<lambda>s. find_first (\<lambda>r. ru_company r = sc_company scope \<and> ru_code r = rd_code dto \<and> ru_version r = version)
              (db_rules s))) (\<lambda>existing.
     bindT (getT (\<lambda>s. case existing of None \<Rightarrow> False | Some r \<Rightarrow>
              ru_status r \<noteq> ''DRAFT'' \<or> list_ex (\<lambda>p. po_rule p = ru_id r) (db_postings s))) (\<lambda>history.
     bindT (requireT (\<not> history) (BadRequest ''Posting rule sudah menjadi histori. Buat version baru.'')) (\<lambda>_.
     bindT (validatePostingRuleDefinition scope dto (map_option ru_id existing)) (\<lambda>_.
     bindT (requireT (List.member [''DRAFT'', ''ACTIVE'', ''INACTIVE''] (statusOr (rd_status dto)))
              (PrismaError ''Invalid value for argument status.'')) (\<lambda>_.
     bindT (case existing of
              Some r \<Rightarrow> bindT (modT (\<lambda>s. s\<lparr>db_rules := update_many (\<lambda>q. ru_id q = ru_id r) (ruleData dto) (db_rules s)\<rparr>))
                 (\<lambda>_. returnT (ruleData dto r))
            | None \<Rightarrow>
                 bindT (getT (\<lambda>s. find_first (\<lambda>r. ru_company r = sc_company scope \<and> ru_code r = code \<and> ru_version r = version)
                          (db_rules s))) (\<lambda>dup.
                 bindT (requireT (dup = None) (PrismaError ''P2002'')) (\<lambda>_.
                 bindT newIdT (\<lambda>i.
                 let row = ruleData dto (newRule i (sc_company scope) code version)
                 in bindT (modT (\<lambda>s. s\<lparr>db_rules := db_rules s @ [row]\<rparr>)) (\<lambda>_. returnT row))))) (\<lambda>row.
     bindT (auditT scope user ''UPSERT_ACCOUNTING_POSTING_RULE'' ''AccountingPostingRule'' (Some (ru_id row))) (\<lambda>_.
     returnT row))))))))"

definition createPostingRule :: "posting_rule_dto \<Rightarrow> auth_user \<Rightarrow> ('b accounting_db_scheme, posting_rule) svc" where
  "createPostingRule dto user =
     bindS (liftS (requireTenantScope user)) (\<lambda>scope.
     bindS (assertRequestedScope user scope (rd_company dto) None ''AccountingPostingRule'') (\<lambda>_.
     runTx (createPostingRuleTx scope dto user)))"

definition ruleAsDto :: "posting_rule \<Rightarrow> posting_rule_dto" where
  "ruleAsDto r = \<lparr>rd_company = None, rd_code = ru_code r, rd_name = ru_name r, rd_eventType = ru_eventType r,
     rd_version = Some (ru_version r), rd_priority = Some (ru_priority r), rd_status = Some ''ACTIVE'',
     rd_effectiveFrom = ru_effectiveFrom r, rd_effectiveTo = ru_effectiveTo r, rd_lines = ru_lines r\<rparr>"

definition updatePostingRuleStatusTx ::
    "tenant_scope \<Rightarrow> ident \<Rightarrow> string \<Rightarrow> auth_user \<Rightarrow> ('b accounting_db_scheme, posting_rule) tx" where
  "updatePostingRuleStatusTx scope i status user =
     bindT (getT (\<lambda>s. find_first (\<lambda>r. ru_id r = i \<and> ru_company r = sc_company scope) (db_rules s))) (\<lambda>found.
     case found of
       None \<Rightarrow> denyT scope user ''AccountingPostingRule'' (Some i)
     | Some r \<Rightarrow>
         bindT (requireT (\<not> (status = ''DRAFT'' \<and> ru_status r \<noteq> ''DRAFT''))
                  (BadRequest ''Rule yang sudah pernah ACTIVE/INACTIVE tidak boleh kembali menjadi DRAFT.'')) (\<lambda>_.
         bindT (if status = ''ACTIVE'' then validatePostingRuleDefinition scope (ruleAsDto r) (Some (ru_id r)) else returnT ()) (\<lambda>_.
         bindT (modT (\<lambda>s. s\<lparr>db_rules := update_many (\<lambda>q. ru_id q = i) (\<lambda>q. q\<lparr>ru_status := status\<rparr>) (db_rules s)\<rparr>)) (\<lambda>_.
         bindT (auditT scope user ''UPDATE_ACCOUNTING_POSTING_RULE_STATUS'' ''AccountingPostingRule'' (Some i)) (\<lambda>_.
         returnT (r\<lparr>ru_status := status\<rparr>))))))"

definition updatePostingRuleStatus :: "ident \<Rightarrow> string \<Rightarrow> auth_user \<Rightarrow> ('b accounting_db_scheme, posting_rule) svc" where
  "updatePostingRuleStatus i status user =
     bindS (liftS (requireTenantScope user)) (\<lambda>scope. runTx (updatePostingRuleStatusTx scope i status user))"

definition listPostingRules :: "auth_user \<Rightarrow> string option \<Rightarrow> ident option \<Rightarrow> ('b accounting_db_scheme, posting_rule list) svc" where
  "listPostingRules user eventType requestedCompany =
     bindS (liftS (requireTenantScope user)) (\<lambda>scope.
     bindS (assertRequestedScope user scope requestedCompany None ''AccountingPostingRule'') (\<lambda>_.
     getS (\<lambda>s. sort_key ru_eventType (sort_key ru_priority (sortBy (\<lambda>a b. ru_version b \<le> ru_version a)
       (filter (\<lambda>r. ru_company r = sc_company scope \<and> (eventType = None \<or> eventType = Some '''' \<or> eventType = Some (ru_eventType r)))
         (db_rules s)))))))"

section \<open>Active versions do not overlap\<close>

interpretation tax_rows: effective_rows tx_id "\<lambda>t. (tx_company t, tx_code t)" "\<lambda>t. tx_status t = ''ACTIVE''"
  tx_effectiveFrom tx_effectiveTo clashingTaxCode
  by unfold_locales (auto simp: clashingTaxCode_def find_first_None)

interpretation rule_rows: effective_rows ru_id "\<lambda>r. (ru_company r, ru_eventType r, ru_priority r)"
  "\<lambda>r. ru_status r = ''ACTIVE''" ru_effectiveFrom ru_effectiveTo clashingRule
  by unfold_locales (auto simp: clashingRule_def find_first_None)

definition configOk :: "'b accounting_db_scheme \<Rightarrow> bool" where
  "configOk s \<longleftrightarrow> tax_rows.disjointRows (db_taxCodes s) \<and> rule_rows.disjointRows (db_rules s) \<and>
     distinct (map tx_id (db_taxCodes s)) \<and> distinct (map ru_id (db_rules s)) \<and>
     (\<forall>t \<in> set (db_taxCodes s). tx_id t < db_nextId s \<and> toUpperCase (trim (tx_code t)) = tx_code t) \<and>
     (\<forall>r \<in> set (db_rules s). ru_id r < db_nextId s)"

lemma upperChar_lower:
  assumes "97 \<le> (of_char c :: nat) \<and> (of_char c :: nat) \<le> 122"
  shows "\<exists>n. 65 \<le> n \<and> n \<le> 90 \<and> (of_char (upperChar c) :: nat) = n \<and> (of_char c :: nat) = n + 32"
proof -
  have "(of_char c :: nat) - 32 < 256" using assms by linarith
  then have "(of_char (upperChar c) :: nat) = of_char c - 32" using assms by (simp add: upperChar_def mod_less)
  then show ?thesis using assms by (intro exI [of _ "(of_char c :: nat) - 32"]) linarith
qed

lemma upperChar_other: "\<not> (97 \<le> (of_char c :: nat) \<and> (of_char c :: nat) \<le> 122) \<Longrightarrow> upperChar c = c"
  unfolding upperChar_def by (rule if_not_P)

lemma upper_space: "isSpace (upperChar c) = isSpace c"
proof (cases "97 \<le> (of_char c :: nat) \<and> (of_char c :: nat) \<le> 122")
  case True
  then obtain n where "65 \<le> n" "n \<le> 90" "(of_char (upperChar c) :: nat) = n" "(of_char c :: nat) = n + 32"
    using upperChar_lower by blast
  then show ?thesis unfolding isSpace_def by simp
qed (simp add: upperChar_other)

lemma upper_upper: "upperChar (upperChar c) = upperChar c"
proof (cases "97 \<le> (of_char c :: nat) \<and> (of_char c :: nat) \<le> 122")
  case True
  then obtain n where "n \<le> 90" "(of_char (upperChar c) :: nat) = n" using upperChar_lower by blast
  then show ?thesis by (intro upperChar_other) simp
qed (simp add: upperChar_other)

lemma trim_ends: "trim s = [] \<or> \<not> isSpace (hd (trim s)) \<and> \<not> isSpace (last (trim s))"
proof -
  let ?a = "dropWhile isSpace s"
  let ?b = "dropWhile isSpace (rev ?a)"
  have "trim s = rev ?b" by (simp add: trim_def)
  moreover have "?b \<noteq> [] \<Longrightarrow> \<not> isSpace (hd ?b)" using hd_dropWhile by blast
  moreover have "?b \<noteq> [] \<Longrightarrow> \<not> isSpace (last ?b)"
  proof -
    assume b: "?b \<noteq> []"
    then have "last ?b = last (rev ?a)" by (metis dropWhile_eq_drop last_drop length_drop not_less_eq_eq drop_eq_Nil not_le)
    moreover have "?a \<noteq> []" using b by (metis dropWhile.simps(1) rev.simps(1))
    ultimately show ?thesis using hd_dropWhile [of isSpace s] by (simp add: last_rev)
  qed
  ultimately show ?thesis by (cases "?b = []") (simp_all add: hd_rev last_rev)
qed

lemma trim_id:
  assumes "s = [] \<or> \<not> isSpace (hd s) \<and> \<not> isSpace (last s)"
  shows "trim s = s"
proof (cases "s = []")
  case True
  then show ?thesis by (simp add: trim_def)
next
  case False
  then have "dropWhile isSpace s = s" using assms by (cases s) auto
  moreover have "dropWhile isSpace (rev s) = rev s" using False assms by (metis dropWhile_eq_self_iff hd_rev)
  ultimately show ?thesis by (simp add: trim_def)
qed

lemma clean_idem: "toUpperCase (trim (toUpperCase (trim c))) = toUpperCase (trim c)"
proof -
  have "trim (toUpperCase (trim c)) = toUpperCase (trim c)"
    using trim_ends [of c] by (intro trim_id) (auto simp: toUpperCase_def upper_space hd_map last_map)
  then show ?thesis by (simp add: toUpperCase_def upper_upper)
qed

lemma checkTaxAccount_pure: "checkTaxAccount scope r s = Inr (u, s') \<Longrightarrow> s' = s"
  by (auto simp: checkTaxAccount_def tx_Inr split: option.splits)

lemma validateTaxCode_effect:
  assumes "validateTaxCodeDefinition scope dto ex s = Inr (u, s')"
  shows "s' = s \<and> (statusOr (td_status dto) = ''ACTIVE'' \<longrightarrow>
     clashingTaxCode ex (sc_company scope, toUpperCase (trim (td_code dto))) (td_effectiveFrom dto) (td_effectiveTo dto) (db_taxCodes s) = None)"
proof -
  from assms obtain v s1 where loop: "forT (checkTaxAccount scope) [(td_payableAccount dto, LIABILITY),
      (td_receivableAccount dto, ASSET), (td_expenseAccount dto, EXPENSE)] s = Inr (v, s1)"
    and rest: "(if statusOr (td_status dto) = ''ACTIVE'' then
       bindT (getT (\<lambda>s. clashingTaxCode ex (sc_company scope, toUpperCase (trim (td_code dto))) (td_effectiveFrom dto) (td_effectiveTo dto)
                (db_taxCodes s))) (\<lambda>overlap.
       requireT (overlap = None) (BadRequest ''Tax code ACTIVE memiliki periode efektif yang bertumpang tindih.''))
     else returnT ()) s1 = Inr (u, s')"
    unfolding validateTaxCodeDefinition_def Let_def bindT_Inr requireT_Inr by blast
  have "s1 = s" by (rule forT_pure [OF _ loop]) (rule checkTaxAccount_pure)
  with rest show ?thesis by (auto simp: tx_Inr split: if_splits)
qed

lemma validateRule_effect:
  assumes "validatePostingRuleDefinition scope dto ex s = Inr (u, s')"
  shows "s' = s \<and> (statusOr (rd_status dto) = ''ACTIVE'' \<longrightarrow>
     clashingRule ex (sc_company scope, rd_eventType dto, priorityOr (rd_priority dto)) (rd_effectiveFrom dto) (rd_effectiveTo dto)
       (db_rules s) = None)"
proof -
  from assms obtain v s1 where loop: "forT (\<lambda>l. liftE (checkRuleLine l)) (rd_lines dto) s = Inr (v, s1)"
    and rest: "(if statusOr (rd_status dto) = ''ACTIVE'' then
       bindT (getT (\<lambda>s. clashingRule ex (sc_company scope, rd_eventType dto, priorityOr (rd_priority dto))
                (rd_effectiveFrom dto) (rd_effectiveTo dto) (db_rules s))) (\<lambda>overlapping.
       requireT (overlapping = None) (BadRequest ''Posting rule ACTIVE bertumpang tindih untuk eventType/priority yang sama.''))
     else returnT ()) s1 = Inr (u, s')"
    unfolding validatePostingRuleDefinition_def bindT_Inr requireT_Inr getT_Inr by blast
  have "s1 = s" by (rule forT_pure [OF _ loop]) (simp add: liftE_Inr)
  with rest show ?thesis by (auto simp: tx_Inr split: if_splits)
qed

lemma same_id: "distinct (map f t) \<Longrightarrow> r \<in> set t \<Longrightarrow> q \<in> set t \<Longrightarrow> f r = f q \<Longrightarrow> r = q"
  by (simp add: distinct_map inj_on_def)

lemma taxCodeData_keeps [simp]: "tx_id (taxCodeData dto t) = tx_id t" "tx_company (taxCodeData dto t) = tx_company t"
    "tx_code (taxCodeData dto t) = tx_code t" "tx_status (taxCodeData dto t) = statusOr (td_status dto)"
    "tx_effectiveFrom (taxCodeData dto t) = td_effectiveFrom dto" "tx_effectiveTo (taxCodeData dto t) = td_effectiveTo dto"
  by (simp_all add: taxCodeData_def)

lemma newTaxCode_keeps [simp]: "tx_id (newTaxCode i c k v) = i" "tx_company (newTaxCode i c k v) = c" "tx_code (newTaxCode i c k v) = k"
  by (simp_all add: newTaxCode_def)

lemma ruleData_keeps [simp]: "ru_id (ruleData dto r) = ru_id r" "ru_company (ruleData dto r) = ru_company r"
    "ru_eventType (ruleData dto r) = rd_eventType dto" "ru_priority (ruleData dto r) = priorityOr (rd_priority dto)"
    "ru_status (ruleData dto r) = statusOr (rd_status dto)" "ru_effectiveFrom (ruleData dto r) = rd_effectiveFrom dto"
    "ru_effectiveTo (ruleData dto r) = rd_effectiveTo dto"
  by (simp_all add: ruleData_def)

lemma newRule_keeps [simp]: "ru_id (newRule i c k v) = i" "ru_company (newRule i c k v) = c"
  by (simp_all add: newRule_def)

text \<open>The table changes an operation may make without breaking the invariant.\<close>

lemma configOk_newTaxCode:
  assumes "configOk s" and "tx_id row = db_nextId s" and "toUpperCase (trim (tx_code row)) = tx_code row"
    and "tx_status row = ''ACTIVE'' \<Longrightarrow> clashingTaxCode None (tx_company row, tx_code row) (tx_effectiveFrom row) (tx_effectiveTo row)
      (db_taxCodes s) = None"
  shows "configOk (s\<lparr>db_nextId := Suc (db_nextId s), db_taxCodes := db_taxCodes s @ [row]\<rparr>)"
  using assms tax_rows.disjoint_insert [of "db_taxCodes s" row] unfolding configOk_def by (auto simp: less_Suc_eq)

lemma configOk_updateTaxCode:
  assumes "configOk s" and "t \<in> set (db_taxCodes s)" and keeps: "\<And>u. tx_id (f u) = tx_id u" "\<And>u. tx_code (f u) = tx_code u"
    and new: "tx_status (f t) = ''ACTIVE'' \<Longrightarrow> clashingTaxCode (Some (tx_id t)) (tx_company (f t), tx_code (f t))
      (tx_effectiveFrom (f t)) (tx_effectiveTo (f t)) (db_taxCodes s) = None"
  shows "configOk (s\<lparr>db_taxCodes := update_many (\<lambda>u. tx_id u = tx_id t) f (db_taxCodes s)\<rparr>)"
proof -
  have only: "u = t" if "u \<in> set (db_taxCodes s)" "tx_id u = tx_id t" for u
    using same_id that assms(1,2) unfolding configOk_def by metis
  have "tax_rows.disjointRows (update_many (\<lambda>u. tx_id u = tx_id t) f (db_taxCodes s))"
    by (rule tax_rows.disjoint_update) (use assms(1) keeps new only in \<open>auto simp: configOk_def\<close>)
  then show ?thesis
    using assms(1,2) keeps unfolding configOk_def by (auto simp: in_update_many map_update_many [of _ tx_id])
qed

lemma configOk_newRule:
  assumes "configOk s" and "ru_id row = db_nextId s"
    and "ru_status row = ''ACTIVE'' \<Longrightarrow> clashingRule None (ru_company row, ru_eventType row, ru_priority row)
      (ru_effectiveFrom row) (ru_effectiveTo row) (db_rules s) = None"
  shows "configOk (s\<lparr>db_nextId := Suc (db_nextId s), db_rules := db_rules s @ [row]\<rparr>)"
  using assms rule_rows.disjoint_insert [of "db_rules s" row] unfolding configOk_def by (auto simp: less_Suc_eq)

lemma configOk_updateRule:
  assumes "configOk s" and "t \<in> set (db_rules s)" and keeps: "\<And>u. ru_id (f u) = ru_id u"
    and new: "ru_status (f t) = ''ACTIVE'' \<Longrightarrow> clashingRule (Some (ru_id t)) (ru_company (f t), ru_eventType (f t), ru_priority (f t))
      (ru_effectiveFrom (f t)) (ru_effectiveTo (f t)) (db_rules s) = None"
  shows "configOk (s\<lparr>db_rules := update_many (\<lambda>u. ru_id u = ru_id t) f (db_rules s)\<rparr>)"
proof -
  have only: "u = t" if "u \<in> set (db_rules s)" "ru_id u = ru_id t" for u
    using same_id that assms(1,2) unfolding configOk_def by metis
  have "rule_rows.disjointRows (update_many (\<lambda>u. ru_id u = ru_id t) f (db_rules s))"
    by (rule rule_rows.disjoint_update) (use assms(1) keeps new only in \<open>auto simp: configOk_def\<close>)
  then show ?thesis
    using assms(1,2) keeps unfolding configOk_def by (auto simp: in_update_many map_update_many [of _ ru_id])
qed

text \<open>What the invariant does not read.\<close>

lemma configOk_audits [simp]: "configOk (s\<lparr>db_audits := a\<rparr>) = configOk s"
  by (simp add: configOk_def)

section \<open>Every operation preserves the invariant\<close>

lemma createTaxCodeTx_configOk:
  assumes "configOk s" and "createTaxCodeTx scope dto user s = Inr (row, s')"
  shows "configOk s'"
proof -
  let ?code = "toUpperCase (trim (td_code dto))"
  let ?version = "case td_version dto of None \<Rightarrow> 1 | Some v \<Rightarrow> v"
  let ?found = "find_first (\<lambda>t. tx_company t = sc_company scope \<and> tx_code t = ?code \<and> tx_version t = ?version) (db_taxCodes s)"
  from assms(2) obtain u s1 where v: "validateTaxCodeDefinition scope dto (map_option tx_id ?found) s = Inr (u, s1)"
    and rest: "bindT (case ?found of
              Some t \<Rightarrow> bindT (modT (\<lambda>s. s\<lparr>db_taxCodes := update_many (\<lambda>u. tx_id u = tx_id t) (taxCodeData dto) (db_taxCodes s)\<rparr>))
                 (\<lambda>_. returnT (taxCodeData dto t))
            | None \<Rightarrow> bindT newIdT (\<lambda>i.
                 let row = taxCodeData dto (newTaxCode i (sc_company scope) ?code ?version)
                 in bindT (modT (\<lambda>s. s\<lparr>db_taxCodes := db_taxCodes s @ [row]\<rparr>)) (\<lambda>_. returnT row))) (\<lambda>row.
          bindT (auditT scope user ''UPSERT_TAX_CODE'' ''TaxCode'' (Some (tx_id row))) (\<lambda>_. returnT row)) s1 = Inr (row, s')"
    unfolding createTaxCodeTx_def Let_def bindT_Inr requireT_Inr getT_Inr by blast
  note e = validateTaxCode_effect [OF v]
  show ?thesis
  proof (cases ?found)
    case None
    have "configOk (s\<lparr>db_nextId := Suc (db_nextId s), db_taxCodes := db_taxCodes s @ [taxCodeData dto (newTaxCode (db_nextId s) (sc_company scope) ?code ?version)]\<rparr>)"
      by (rule configOk_newTaxCode) (use assms(1) e None in \<open>auto simp: clean_idem\<close>)
    then show ?thesis using rest e None by (auto simp: tx_Inr db_Inr Let_def)
  next
    case (Some t)
    note t = find_first_Some [OF Some]
    have "configOk (s\<lparr>db_taxCodes := update_many (\<lambda>u. tx_id u = tx_id t) (taxCodeData dto) (db_taxCodes s)\<rparr>)"
      by (rule configOk_updateTaxCode) (use assms(1) e Some t in auto)
    then show ?thesis using rest e Some by (auto simp: tx_Inr db_Inr Let_def)
  qed
qed

lemma taxCodeAsDto_simps [simp]: "td_code (taxCodeAsDto t) = tx_code t" "td_status (taxCodeAsDto t) = Some ''ACTIVE''"
    "td_effectiveFrom (taxCodeAsDto t) = tx_effectiveFrom t" "td_effectiveTo (taxCodeAsDto t) = tx_effectiveTo t"
  by (simp_all add: taxCodeAsDto_def)

lemma ruleAsDto_simps [simp]: "rd_status (ruleAsDto r) = Some ''ACTIVE''" "rd_eventType (ruleAsDto r) = ru_eventType r"
    "rd_priority (ruleAsDto r) = Some (ru_priority r)"
    "rd_effectiveFrom (ruleAsDto r) = ru_effectiveFrom r" "rd_effectiveTo (ruleAsDto r) = ru_effectiveTo r"
  by (simp_all add: ruleAsDto_def)

lemma statusOr_Some [simp]: "statusOr (Some x) = x" and priorityOr_Some [simp]: "priorityOr (Some y) = y"
  by (simp_all add: statusOr_def priorityOr_def)

lemma updateTaxCodeStatusTx_configOk:
  assumes "configOk s" and "updateTaxCodeStatusTx scope i status user s = Inr (row, s')"
  shows "configOk s'"
proof -
  from assms(2) obtain t where found: "find_first (\<lambda>t. tx_id t = i \<and> tx_company t = sc_company scope) (db_taxCodes s) = Some t"
    by (auto simp: updateTaxCodeStatusTx_def tx_Inr split: option.splits)
  note t = find_first_Some [OF found]
  from assms(2) obtain u s1 where
      v: "(if status = ''ACTIVE'' then validateTaxCodeDefinition scope (taxCodeAsDto t) (Some (tx_id t)) else returnT ()) s = Inr (u, s1)"
    and s': "s' = (let s2 = s1\<lparr>db_taxCodes := update_many (\<lambda>u. tx_id u = i) (\<lambda>u. u\<lparr>tx_status := status\<rparr>) (db_taxCodes s1)\<rparr>
      in s2\<lparr>db_audits := db_audits s2 @ [\<lparr>ad_company = sc_company scope, ad_user = Some (us_sub user),
        ad_action = ''UPDATE_TAX_CODE_STATUS'', ad_entityType = ''TaxCode'', ad_entityId = Some i\<rparr>]\<rparr>)"
    by (auto simp: updateTaxCodeStatusTx_def tx_Inr db_Inr found)
  have e: "s1 = s \<and> (status = ''ACTIVE'' \<longrightarrow>
      clashingTaxCode (Some (tx_id t)) (tx_company t, tx_code t) (tx_effectiveFrom t) (tx_effectiveTo t) (db_taxCodes s) = None)"
    using v t assms(1) validateTaxCode_effect [of scope "taxCodeAsDto t" "Some (tx_id t)" s u s1]
    by (auto simp: configOk_def tx_Inr split: if_splits)
  have "configOk (s\<lparr>db_taxCodes := update_many (\<lambda>u. tx_id u = tx_id t) (\<lambda>u. u\<lparr>tx_status := status\<rparr>) (db_taxCodes s)\<rparr>)"
    by (rule configOk_updateTaxCode) (use assms(1) e t in auto)
  then show ?thesis using s' e t by (simp add: Let_def)
qed

lemma createPostingRuleTx_configOk:
  assumes "configOk s" and "createPostingRuleTx scope dto user s = Inr (row, s')"
  shows "configOk s'"
proof -
  let ?code = "toUpperCase (trim (rd_code dto))"
  let ?version = "case rd_version dto of None \<Rightarrow> 1 | Some v \<Rightarrow> v"
  let ?found = "find_first (\<lambda>r. ru_company r = sc_company scope \<and> ru_code r = rd_code dto \<and> ru_version r = ?version) (db_rules s)"
  from assms(2) obtain u s1 where v: "validatePostingRuleDefinition scope dto (map_option ru_id ?found) s = Inr (u, s1)"
    and rest: "bindT (case ?found of
              Some r \<Rightarrow> bindT (modT (\<lambda>s. s\<lparr>db_rules := update_many (\<lambda>q. ru_id q = ru_id r) (ruleData dto) (db_rules s)\<rparr>))
                 (\<lambda>_. returnT (ruleData dto r))
            | None \<Rightarrow>
                 bindT (getT (\<lambda>s. find_first (\<lambda>r. ru_company r = sc_company scope \<and> ru_code r = ?code \<and> ru_version r = ?version)
                          (db_rules s))) (\<lambda>dup.
                 bindT (requireT (dup = None) (PrismaError ''P2002'')) (\<lambda>_.
                 bindT newIdT (\<lambda>i.
                 let row = ruleData dto (newRule i (sc_company scope) ?code ?version)
                 in bindT (modT (\<lambda>s. s\<lparr>db_rules := db_rules s @ [row]\<rparr>)) (\<lambda>_. returnT row))))) (\<lambda>row.
     bindT (auditT scope user ''UPSERT_ACCOUNTING_POSTING_RULE'' ''AccountingPostingRule'' (Some (ru_id row))) (\<lambda>_.
     returnT row)) s1 = Inr (row, s')"
    unfolding createPostingRuleTx_def Let_def bindT_Inr requireT_Inr getT_Inr by blast
  note e = validateRule_effect [OF v]
  show ?thesis
  proof (cases ?found)
    case None
    have "configOk (s\<lparr>db_nextId := Suc (db_nextId s), db_rules := db_rules s @ [ruleData dto (newRule (db_nextId s) (sc_company scope) ?code ?version)]\<rparr>)"
      by (rule configOk_newRule) (use assms(1) e None in auto)
    then show ?thesis using rest e None by (auto simp: tx_Inr db_Inr Let_def)
  next
    case (Some t)
    note t = find_first_Some [OF Some]
    have "configOk (s\<lparr>db_rules := update_many (\<lambda>u. ru_id u = ru_id t) (ruleData dto) (db_rules s)\<rparr>)"
      by (rule configOk_updateRule) (use assms(1) e Some t in auto)
    then show ?thesis using rest e Some by (auto simp: tx_Inr db_Inr Let_def)
  qed
qed

lemma updatePostingRuleStatusTx_configOk:
  assumes "configOk s" and "updatePostingRuleStatusTx scope i status user s = Inr (row, s')"
  shows "configOk s'"
proof -
  from assms(2) obtain t where found: "find_first (\<lambda>r. ru_id r = i \<and> ru_company r = sc_company scope) (db_rules s) = Some t"
    by (auto simp: updatePostingRuleStatusTx_def tx_Inr split: option.splits)
  note t = find_first_Some [OF found]
  from assms(2) obtain u s1 where
      v: "(if status = ''ACTIVE'' then validatePostingRuleDefinition scope (ruleAsDto t) (Some (ru_id t)) else returnT ()) s = Inr (u, s1)"
    and s': "s' = (let s2 = s1\<lparr>db_rules := update_many (\<lambda>q. ru_id q = i) (\<lambda>q. q\<lparr>ru_status := status\<rparr>) (db_rules s1)\<rparr>
      in s2\<lparr>db_audits := db_audits s2 @ [\<lparr>ad_company = sc_company scope, ad_user = Some (us_sub user),
        ad_action = ''UPDATE_ACCOUNTING_POSTING_RULE_STATUS'', ad_entityType = ''AccountingPostingRule'', ad_entityId = Some i\<rparr>]\<rparr>)"
    by (auto simp: updatePostingRuleStatusTx_def tx_Inr db_Inr found)
  have e: "s1 = s \<and> (status = ''ACTIVE'' \<longrightarrow>
      clashingRule (Some (ru_id t)) (ru_company t, ru_eventType t, ru_priority t) (ru_effectiveFrom t) (ru_effectiveTo t) (db_rules s) = None)"
    using v t validateRule_effect [of scope "ruleAsDto t" "Some (ru_id t)" s u s1]
    by (auto simp: tx_Inr split: if_splits)
  have "configOk (s\<lparr>db_rules := update_many (\<lambda>u. ru_id u = ru_id t) (\<lambda>u. u\<lparr>ru_status := status\<rparr>) (db_rules s)\<rparr>)"
    by (rule configOk_updateRule) (use assms(1) e t in auto)
  then show ?thesis using s' e t by (simp add: Let_def)
qed

section \<open>Runs of the configuration services\<close>

text \<open>Any request by any user, whatever its outcome, and the passing of time.\<close>

inductive config_step :: "accounting_db \<Rightarrow> accounting_db \<Rightarrow> bool" where
  step_createTaxCode: "createTaxCode dto user s = (r, s') \<Longrightarrow> config_step s s'"
| step_taxCodeStatus: "updateTaxCodeStatus i status user s = (r, s') \<Longrightarrow> config_step s s'"
| step_createRule: "createPostingRule dto user s = (r, s') \<Longrightarrow> config_step s s'"
| step_ruleStatus: "updatePostingRuleStatus i status user s = (r, s') \<Longrightarrow> config_step s s'"
| step_clock: "config_step s (s\<lparr>db_now := t\<rparr>)"

lemma requestedScope_configOk: "assertRequestedScope user scope c b t s = (r, s') \<Longrightarrow> configOk s' = configOk s"
  by (auto simp: assertRequestedScope_def denyS_def auditS_def bindS_def runTx_def auditT_def modT_def throwS_def returnS_def
      split: if_splits)

lemma scoped_configOk:
  assumes "bindS (liftS (requireTenantScope user)) f s = (r, s')" and "configOk s"
    and "\<And>scope. f scope s = (r, s') \<Longrightarrow> configOk s'"
  shows "configOk s'"
  using assms by (auto simp: bindS_def liftS_def split: sum.splits)

lemma runTx_configOk:
  assumes "runTx m s = (r, s')" and "configOk s" and "\<And>x. m s = Inr (x, s') \<Longrightarrow> configOk s'"
  shows "configOk s'"
  using assms by (auto simp: runTx_def split: sum.splits)

lemma requested_configOk:
  assumes "bindS (assertRequestedScope user scope c b t) (\<lambda>_. runTx m) s = (r, s')" and "configOk s"
    and "\<And>s x. configOk s \<Longrightarrow> m s = Inr (x, s') \<Longrightarrow> configOk s'"
  shows "configOk s'"
proof -
  obtain v s1 where v: "assertRequestedScope user scope c b t s = (v, s1)" by (rule prod.exhaust)
  then have s1: "configOk s1" using assms(2) requestedScope_configOk by blast
  show ?thesis
  proof (cases v)
    case Inl
    then show ?thesis using assms(1) v s1 by (auto simp: bindS_def)
  next
    case Inr
    then have "runTx m s1 = (r, s')" using assms(1) v by (simp add: bindS_def)
    then show ?thesis using s1 assms(3) runTx_configOk by metis
  qed
qed

lemma config_step_configOk: "config_step s s' \<Longrightarrow> configOk s \<Longrightarrow> configOk s'"
proof (induction rule: config_step.induct)
  case (step_createTaxCode dto user s r s')
  show ?case
    by (rule scoped_configOk [OF step_createTaxCode.hyps [unfolded createTaxCode_def] step_createTaxCode.prems],
        erule requested_configOk [OF _ step_createTaxCode.prems]) (rule createTaxCodeTx_configOk)
next
  case (step_taxCodeStatus i status user s r s')
  show ?case
    by (rule scoped_configOk [OF step_taxCodeStatus.hyps [unfolded updateTaxCodeStatus_def] step_taxCodeStatus.prems],
        erule runTx_configOk [OF _ step_taxCodeStatus.prems]) (rule updateTaxCodeStatusTx_configOk [OF step_taxCodeStatus.prems])
next
  case (step_createRule dto user s r s')
  show ?case
    by (rule scoped_configOk [OF step_createRule.hyps [unfolded createPostingRule_def] step_createRule.prems],
        erule requested_configOk [OF _ step_createRule.prems]) (rule createPostingRuleTx_configOk)
next
  case (step_ruleStatus i status user s r s')
  show ?case
    by (rule scoped_configOk [OF step_ruleStatus.hyps [unfolded updatePostingRuleStatus_def] step_ruleStatus.prems],
        erule runTx_configOk [OF _ step_ruleStatus.prems]) (rule updatePostingRuleStatusTx_configOk [OF step_ruleStatus.prems])
next
  case (step_clock s t)
  then show ?case by (simp add: configOk_def)
qed

lemma config_run_configOk:
  assumes "config_step\<^sup>*\<^sup>* s s'" and "configOk s"
  shows "configOk s'"
  using assms by (induction rule: rtranclp_induct) (auto intro: config_step_configOk)

text \<open>In force at an instant.\<close>

definition taxCodeInForce :: "int \<Rightarrow> tax_code \<Rightarrow> bool" where
  "taxCodeInForce instant t \<longleftrightarrow> tx_status t = ''ACTIVE'' \<and> inRange (tx_effectiveFrom t) (tx_effectiveTo t) instant"

definition ruleInForce :: "int \<Rightarrow> posting_rule \<Rightarrow> bool" where
  "ruleInForce instant r \<longleftrightarrow> ru_status r = ''ACTIVE'' \<and> inRange (ru_effectiveFrom r) (ru_effectiveTo r) instant"

lemma configOk_unique:
  assumes "configOk s"
  shows "(\<forall>t \<in> set (db_taxCodes s). \<forall>q \<in> set (db_taxCodes s). taxCodeInForce instant t \<longrightarrow> taxCodeInForce instant q \<longrightarrow>
          tx_company t = tx_company q \<longrightarrow> tx_code t = tx_code q \<longrightarrow> t = q) \<and>
       (\<forall>r \<in> set (db_rules s). \<forall>q \<in> set (db_rules s). ruleInForce instant r \<longrightarrow> ruleInForce instant q \<longrightarrow>
          ru_company r = ru_company q \<longrightarrow> ru_eventType r = ru_eventType q \<longrightarrow> ru_priority r = ru_priority q \<longrightarrow> r = q)"
  (is "?tax \<and> ?rule")
proof
  have c: "tax_rows.disjointRows (db_taxCodes s)" "rule_rows.disjointRows (db_rules s)"
    "distinct (map tx_id (db_taxCodes s))" "distinct (map ru_id (db_rules s))" using assms by (simp_all add: configOk_def)
  show ?tax
    using tax_rows.in_force_unique [OF c(1)] same_id [OF c(3)] unfolding taxCodeInForce_def by (metis (no_types, lifting))
  show ?rule
    using rule_rows.in_force_unique [OF c(2)] same_id [OF c(4)] unfolding ruleInForce_def by (metis (no_types, lifting))
qed

text \<open>
  C5. Whatever requests the configuration services serve, starting from empty tables, at any instant at most
  one version of a tax code of a company is in force, and at most one posting rule of a company for an event
  type and priority: activation checks, drafts edited in place and status changes never let two overlap.
\<close>

theorem config_in_force_unique:
  assumes "config_step\<^sup>*\<^sup>* s s'" and "db_taxCodes s = []" and "db_rules s = []"
  shows "(\<forall>t \<in> set (db_taxCodes s'). \<forall>q \<in> set (db_taxCodes s'). taxCodeInForce instant t \<longrightarrow> taxCodeInForce instant q \<longrightarrow>
          tx_company t = tx_company q \<longrightarrow> tx_code t = tx_code q \<longrightarrow> t = q) \<and>
       (\<forall>r \<in> set (db_rules s'). \<forall>q \<in> set (db_rules s'). ruleInForce instant r \<longrightarrow> ruleInForce instant q \<longrightarrow>
          ru_company r = ru_company q \<longrightarrow> ru_eventType r = ru_eventType q \<longrightarrow> ru_priority r = ru_priority q \<longrightarrow> r = q)"
proof -
  have "configOk s" using assms(2,3) by (simp add: configOk_def tax_rows.disjointRows_def rule_rows.disjointRows_def)
  with assms(1) have "configOk s'" by (rule config_run_configOk)
  then show ?thesis by (rule configOk_unique)
qed

text \<open>Two consecutive versions of a code of the same company, both activated.\<close>

definition exampleTaxDto :: "nat \<Rightarrow> int \<Rightarrow> int \<Rightarrow> tax_code_dto" where
  "exampleTaxDto version from until = \<lparr>td_company = None, td_code = ''V'', td_version = Some version, td_name = ''V'',
     td_scope = ''SALE'', td_rate = 1 / 10, td_inclusive = None, td_recoverable = None, td_payableAccount = None,
     td_receivableAccount = None, td_expenseAccount = None, td_effectiveFrom = Some from, td_effectiveTo = Some until,
     td_status = Some ''ACTIVE''\<rparr>"

definition exampleTaxes :: accounting_db where
  "exampleTaxes = snd (createTaxCode (exampleTaxDto 2 11 20) exampleUser
     (snd (createTaxCode (exampleTaxDto 1 0 10) exampleUser emptyAccounting)))"

lemma exampleTaxes_run: "config_step\<^sup>*\<^sup>* emptyAccounting exampleTaxes"
proof -
  have "config_step emptyAccounting (snd (createTaxCode (exampleTaxDto 1 0 10) exampleUser emptyAccounting))"
    by (rule step_createTaxCode) (rule prod.collapse [symmetric])
  moreover have "config_step (snd (createTaxCode (exampleTaxDto 1 0 10) exampleUser emptyAccounting)) exampleTaxes"
    unfolding exampleTaxes_def by (rule step_createTaxCode) (rule prod.collapse [symmetric])
  ultimately show ?thesis by simp
qed

lemma exampleTaxes_rows: "map (\<lambda>t. (tx_id t, tx_company t, tx_code t)) (db_taxCodes exampleTaxes) = [(1, 1, ''V''), (2, 1, ''V'')]"
  by code_simp

theorem config_in_force_unique_witness:
  "\<exists>t q. db_taxCodes exampleTaxes = [t, q] \<and> \<not> (taxCodeInForce 15 t \<and> taxCodeInForce 15 q)"
proof -
  obtain t q where rows: "db_taxCodes exampleTaxes = [t, q]" using exampleTaxes_rows by auto
  then have "tx_id t \<noteq> tx_id q" "tx_company t = tx_company q" "tx_code t = tx_code q" using exampleTaxes_rows by auto
  moreover have "db_taxCodes emptyAccounting = []" "db_rules emptyAccounting = []" by (simp_all add: emptyAccounting_def)
  ultimately show ?thesis using config_in_force_unique [OF exampleTaxes_run, of 15] rows by (metis list.set_intros)
qed

end
