(* ===== verification/AccountingProperties.thy ===== *)
theory AccountingProperties
  imports AccountingPosting AccountingConfig
begin

text \<open>
  What a posting does to the books: one journal on active accounts of the branch, balanced up to the lines whose
  side is neither \<open>DEBIT\<close> nor \<open>CREDIT\<close>, in an open period, once per idempotency key; and what a tax
  calculation yields within the precision of the decimal arithmetic.
\<close>

section \<open>The journal a rule produces\<close>

definition totalDebit :: "journal_line list \<Rightarrow> rat" where
  "totalDebit ls = sum_list (map jl_debit ls)"

definition totalCredit :: "journal_line list \<Rightarrow> rat" where
  "totalCredit ls = sum_list (map jl_credit ls)"

definition strayAmount :: "(string \<times> rat) list \<Rightarrow> rule_line list \<Rightarrow> rat" where
  "strayAmount amounts ls = sum_list (map (amountOf amounts) (filter (\<lambda>l. rl_side l \<notin> {''DEBIT'', ''CREDIT''}) (usableLines amounts ls)))"

lemma resolve_fst: "resolveAccountCode codes l = Inr y \<Longrightarrow> fst y = l"
  by (auto simp: resolveAccountCode_def Let_def split: option.splits if_splits)

lemma journalLine_Inr: "journalLine branch accounts amounts lc = Inr l \<Longrightarrow>
    0 \<le> amountOf amounts (fst lc) \<and> jl_debit l = (if rl_side (fst lc) = ''DEBIT'' then amountOf amounts (fst lc) else 0) \<and>
    jl_credit l = (if rl_side (fst lc) = ''CREDIT'' then amountOf amounts (fst lc) else 0) \<and>
    (\<exists>a \<in> set accounts. ac_id a = jl_account l \<and> ac_branch a = branch \<and> ac_isActive a)"
  by (auto simp: journalLine_def Let_def activeAccount_def dest: find_first_Some split: option.splits if_splits)

lemma buildJournal_parts:
  assumes "buildJournal dec input accounts rule = Inr ls"
  obtains resolved where "map fst resolved = usableLines (pi_amounts input) (ru_lines rule)"
    and "usableLines (pi_amounts input) (ru_lines rule) \<noteq> []"
    and "mapE (journalLine (pi_branch input) accounts (pi_amounts input)) resolved = Inr ls"
    and "debitTotal dec (pi_amounts input) (usableLines (pi_amounts input) (ru_lines rule)) =
         creditTotal dec (pi_amounts input) (usableLines (pi_amounts input) (ru_lines rule))"
proof -
  from assms obtain resolved where r: "mapE (resolveAccountCode (pi_accountCodes input)) (usableLines (pi_amounts input) (ru_lines rule)) = Inr resolved"
    and rest: "usableLines (pi_amounts input) (ru_lines rule) \<noteq> []"
      "mapE (journalLine (pi_branch input) accounts (pi_amounts input)) resolved = Inr ls"
      "debitTotal dec (pi_amounts input) (usableLines (pi_amounts input) (ru_lines rule)) =
       creditTotal dec (pi_amounts input) (usableLines (pi_amounts input) (ru_lines rule))"
    by (auto simp: buildJournal_def Let_def bindE_Inr requireE_Inr)
  have "map fst resolved = map id (usableLines (pi_amounts input) (ru_lines rule))"
    by (rule mapE_map [OF r]) (simp add: resolve_fst)
  with rest show ?thesis using that by simp
qed

lemma side_split:
  fixes f :: "rule_line \<Rightarrow> rat"
  shows "sum_list (map f (filter (\<lambda>l. rl_side l \<noteq> ''DEBIT'') ls)) =
     sum_list (map f (filter (\<lambda>l. rl_side l = ''CREDIT'') ls)) + sum_list (map f (filter (\<lambda>l. rl_side l \<notin> {''DEBIT'', ''CREDIT''}) ls))"
  by (induction ls) auto

text \<open>The amounts of an event fit the precision: \<open>k\<close> decimal places, and a sum of as many as the rule has lines.\<close>

definition amountsFit :: "nat \<Rightarrow> nat \<Rightarrow> rat \<Rightarrow> (string \<times> rat) list \<Rightarrow> posting_rule \<Rightarrow> bool" where
  "amountsFit p k bound amounts rule \<longleftrightarrow> 0 \<le> bound \<and> (\<forall>(key, a) \<in> set amounts. hasPlaces k a \<and> a \<le> bound) \<and>
     of_nat (length (ru_lines rule)) * bound * 10 ^ k < 10 ^ p"

lemma amountOf_fits: "amountsFit p k bound amounts rule \<Longrightarrow> hasPlaces k (amountOf amounts l) \<and> amountOf amounts l \<le> bound"
  by (cases "map_of amounts (rl_amountKey l)") (auto simp: amountsFit_def amountOf_def orElse_def dest: map_of_SomeD)

lemma sum_le_length: "\<forall>x \<in> set xs. x \<le> (b :: rat) \<Longrightarrow> sum_list xs \<le> of_nat (length xs) * b"
  by (induction xs) (auto simp: distrib_right intro: add_mono)

lemma total_exact:
  assumes "decimalLaws p dec" and "amountsFit p k bound amounts rule"
    and "\<forall>l \<in> set (usableLines amounts (ru_lines rule)). 0 \<le> amountOf amounts l"
  shows "d_sum dec (map (amountOf amounts) (filter P (usableLines amounts (ru_lines rule)))) =
    sum_list (map (amountOf amounts) (filter P (usableLines amounts (ru_lines rule))))"
proof (rule d_sum_exact [OF assms(1), of _ k])
  let ?us = "filter P (usableLines amounts (ru_lines rule))"
  show "\<forall>x \<in> set (map (amountOf amounts) ?us). hasPlaces k x \<and> 0 \<le> x" using assms(3) amountOf_fits [OF assms(2)] by auto
  have "length ?us \<le> length (ru_lines rule)"
    unfolding usableLines_def by (intro order_trans [OF length_filter_le] length_filter_le)
  moreover have "sum_list (map (amountOf amounts) ?us) \<le> of_nat (length ?us) * bound"
    using sum_le_length [of "map (amountOf amounts) ?us" bound] amountOf_fits [OF assms(2)] by auto
  ultimately have "sum_list (map (amountOf amounts) ?us) \<le> of_nat (length (ru_lines rule)) * bound"
    using assms(2) by (elim order_trans) (intro mult_right_mono, auto simp: amountsFit_def)
  then have "sum_list (map (amountOf amounts) ?us) * 10 ^ k \<le> of_nat (length (ru_lines rule)) * bound * 10 ^ k"
    by (intro mult_right_mono) simp_all
  also have "\<dots> < 10 ^ p" using assms(2) by (simp add: amountsFit_def)
  finally show "sum_list (map (amountOf amounts) ?us) * 10 ^ k < 10 ^ p" .
qed

text \<open>Debit and credit of the journal differ by the amounts of the lines whose side is neither.\<close>

lemma buildJournal_difference:
  assumes "decimalLaws p dec" and "amountsFit p k bound (pi_amounts input) rule" and "buildJournal dec input accounts rule = Inr ls"
  shows "totalDebit ls = totalCredit ls + strayAmount (pi_amounts input) (ru_lines rule) \<and> ls \<noteq> [] \<and>
    (\<forall>l \<in> set ls. 0 \<le> jl_debit l \<and> 0 \<le> jl_credit l \<and>
       (\<exists>a \<in> set accounts. ac_id a = jl_account l \<and> ac_branch a = pi_branch input \<and> ac_isActive a))"
proof -
  let ?am = "amountOf (pi_amounts input)"
  let ?us = "usableLines (pi_amounts input) (ru_lines rule)"
  obtain resolved where r: "map fst resolved = ?us" "?us \<noteq> []"
    and j: "mapE (journalLine (pi_branch input) accounts (pi_amounts input)) resolved = Inr ls"
    and bal: "debitTotal dec (pi_amounts input) ?us = creditTotal dec (pi_amounts input) ?us"
    by (rule buildJournal_parts [OF assms(3)])
  have "map jl_debit ls = map (\<lambda>lc. if rl_side (fst lc) = ''DEBIT'' then ?am (fst lc) else 0) resolved"
    by (rule mapE_map [OF j]) (use journalLine_Inr in blast)
  then have d: "totalDebit ls = sum_list (map ?am (filter (\<lambda>l. rl_side l = ''DEBIT'') ?us))"
    unfolding totalDebit_def r(1) [symmetric] by (simp add: sum_list_map_filter' filter_map o_def)
  have "map jl_credit ls = map (\<lambda>lc. if rl_side (fst lc) = ''CREDIT'' then ?am (fst lc) else 0) resolved"
    by (rule mapE_map [OF j]) (use journalLine_Inr in blast)
  then have c: "totalCredit ls = sum_list (map ?am (filter (\<lambda>l. rl_side l = ''CREDIT'') ?us))"
    unfolding totalCredit_def r(1) [symmetric] by (simp add: sum_list_map_filter' filter_map o_def)
  have "length ls = length resolved" using j list_all2_lengthD unfolding mapE_Inr by metis
  then have "ls \<noteq> []" using r by auto
  have "\<forall>lc \<in> set resolved. 0 \<le> ?am (fst lc)" by (rule ballI, rule mapE_defined [OF j], assumption) (blast dest: journalLine_Inr)
  then have nonneg: "\<forall>l \<in> set ?us. 0 \<le> ?am l" unfolding r(1) [symmetric] by simp
  note \<open>ls \<noteq> []\<close>
  moreover have "\<forall>l \<in> set ls. 0 \<le> jl_debit l \<and> 0 \<le> jl_credit l \<and>
       (\<exists>a \<in> set accounts. ac_id a = jl_account l \<and> ac_branch a = pi_branch input \<and> ac_isActive a)"
    by (rule mapE_all [OF j]) (use journalLine_Inr in auto)
  moreover have "totalDebit ls = totalCredit ls + strayAmount (pi_amounts input) (ru_lines rule)"
    using bal d c unfolding debitTotal_def creditTotal_def total_exact [OF assms(1,2) nonneg] side_split strayAmount_def by simp
  ultimately show ?thesis by blast
qed

section \<open>The effect of a posting\<close>

lemma checkTaxLine_pure: "checkTaxLine c d l s = Inr (u, s') \<Longrightarrow> s' = s"
  by (auto simp: checkTaxLine_def tx_Inr split: option.splits)

lemma postingGuards_effect:
  assumes "postingGuards input d s = Inr (rule, s')"
  shows "s' = s \<and> rule \<in> set (db_rules s) \<and> ru_status rule = ''ACTIVE'' \<and> ru_company rule = pi_company input \<and>
    ru_eventType rule = pi_eventType input \<and>
    closingControl (pi_company input) (pi_branch input) (pi_eventType input) d (db_closeControls s) = None \<and>
    (\<forall>p. periodAt (pi_company input) (pi_branch input) d (db_fiscalPeriods s) = Some p \<longrightarrow> fp_status p = ''OPEN'')"
proof -
  from assms obtain v s1 where loop: "forT (checkTaxLine (pi_company input) d) (pi_taxLines input) s = Inr (v, s1)"
    by (auto simp: postingGuards_def tx_Inr)
  have "s1 = s" by (rule forT_pure [OF _ loop]) (rule checkTaxLine_pure)
  with loop assms show ?thesis
    by (auto simp: postingGuards_def tx_Inr activeRule_def dest: find_ordered_Some split: option.splits)
qed

lemma createJournal_effect:
  assumes "createJournal input d ls s = Inr (j, s')"
  shows "\<exists>numbering. s' = s\<lparr>db_numbering := numbering, db_nextId := Suc (db_nextId s), db_journals := db_journals s @ [j]\<rparr> \<and>
     je_id j = db_nextId s \<and> je_lines j = ls \<and> je_date j = d \<and> je_referenceType j = pi_sourceType input \<and>
     je_referenceId j = pi_sourceId input \<and> je_number j \<notin> je_number ` set (db_journals s)"
  using assms by (auto simp: createJournal_def tx_Inr db_Inr Let_def find_first_None)

text \<open>The rows a posting adds.\<close>

definition posted :: "decimal_ops \<Rightarrow> post_input \<Rightarrow> int \<Rightarrow> posting_rule \<Rightarrow> journal_entry \<Rightarrow> accounting_event \<Rightarrow>
    'b accounting_db_scheme \<Rightarrow> 'b accounting_db_scheme \<Rightarrow> bool" where
  "posted dec input d rule journal ev s s' \<longleftrightarrow>
     ev = (newEvent dec input d (db_nextId s))\<lparr>ev_status := ''POSTED'', ev_journalEntry := Some (je_id journal)\<rparr> \<and>
     buildJournal dec input (db_accounts s) rule = Inr (je_lines journal) \<and>
     db_journals s' = db_journals s @ [journal] \<and> db_events s' = db_events s @ [ev] \<and>
     db_postings s' = db_postings s @ [\<lparr>po_event = ev_id ev, po_rule = ru_id rule, po_journalEntry = je_id journal\<rparr>] \<and>
     db_taxTransactions s' = db_taxTransactions s @ map (taxTransaction input d (ev_id ev)) (pi_taxLines input) \<and>
     db_accounts s' = db_accounts s \<and> db_rules s' = db_rules s \<and> db_taxCodes s' = db_taxCodes s \<and>
     db_closeControls s' = db_closeControls s \<and> db_fiscalPeriods s' = db_fiscalPeriods s \<and> db_stock s' = db_stock s \<and>
     je_number journal \<notin> je_number ` set (db_journals s) \<and> je_date journal = d"

lemma newEvent_simps [simp]: "ev_id (newEvent dec input d i) = i" "ev_company (newEvent dec input d i) = pi_company input"
    "ev_idempotencyKey (newEvent dec input d i) = pi_idempotencyKey input" "ev_branch (newEvent dec input d i) = pi_branch input"
    "ev_eventType (newEvent dec input d i) = pi_eventType input" "ev_sourceType (newEvent dec input d i) = pi_sourceType input"
    "ev_sourceId (newEvent dec input d i) = pi_sourceId input"
  by (simp_all add: newEvent_def Let_def)

definition eventsFresh :: "'b accounting_db_scheme \<Rightarrow> bool" where
  "eventsFresh s \<longleftrightarrow> (\<forall>e \<in> set (db_events s). ev_id e < db_nextId s)"

lemma update_last:
  assumes "\<forall>r \<in> set t. \<not> P r" and "P r"
  shows "update_many P f (t @ [r]) = t @ [f r]"
  using assms by (induction t) (auto simp: update_many_def)

lemma postNewEvent_effect:
  assumes "postNewEvent dec input d s = Inr (ev, s')" and "eventsFresh s"
  shows "\<exists>rule journal. postingGuards input d s = Inr (rule, s) \<and> posted dec input d rule journal ev s s'"
proof -
  from assms(1) obtain rule s1 ls where g: "postingGuards input d s = Inr (rule, s1)"
    and b: "buildJournal dec input (db_accounts s1) rule = Inr ls"
    and c: "\<exists>j s2. createJournal input d ls (s1\<lparr>db_nextId := Suc (db_nextId s1),
          db_events := db_events s1 @ [newEvent dec input d (db_nextId s1)]\<rparr>) = Inr (j, s2) \<and>
        ev = (newEvent dec input d (db_nextId s1))\<lparr>ev_status := ''POSTED'', ev_journalEntry := Some (je_id j)\<rparr> \<and>
        s' = s2\<lparr>db_taxTransactions := db_taxTransactions s2 @ map (taxTransaction input d (db_nextId s1)) (pi_taxLines input),
          db_postings := db_postings s2 @ [\<lparr>po_event = db_nextId s1, po_rule = ru_id rule, po_journalEntry = je_id j\<rparr>],
          db_events := update_many (\<lambda>e. ev_id e = db_nextId s1)
            (\<lambda>e. e\<lparr>ev_status := ''POSTED'', ev_journalEntry := Some (je_id j)\<rparr>) (db_events s2)\<rparr>"
    by (auto simp: postNewEvent_def tx_Inr db_Inr Let_def)
  have s1: "s1 = s" using postingGuards_effect [OF g] by simp
  from c obtain j s2 where j: "createJournal input d ls (s\<lparr>db_nextId := Suc (db_nextId s),
          db_events := db_events s @ [newEvent dec input d (db_nextId s)]\<rparr>) = Inr (j, s2)"
    and ev: "ev = (newEvent dec input d (db_nextId s))\<lparr>ev_status := ''POSTED'', ev_journalEntry := Some (je_id j)\<rparr>"
    and s': "s' = s2\<lparr>db_taxTransactions := db_taxTransactions s2 @ map (taxTransaction input d (db_nextId s)) (pi_taxLines input),
          db_postings := db_postings s2 @ [\<lparr>po_event = db_nextId s, po_rule = ru_id rule, po_journalEntry = je_id j\<rparr>],
          db_events := update_many (\<lambda>e. ev_id e = db_nextId s)
            (\<lambda>e. e\<lparr>ev_status := ''POSTED'', ev_journalEntry := Some (je_id j)\<rparr>) (db_events s2)\<rparr>"
    unfolding s1 by blast
  from createJournal_effect [OF j] obtain numbering where
    s2: "s2 = s\<lparr>db_events := db_events s @ [newEvent dec input d (db_nextId s)], db_numbering := numbering,
        db_nextId := Suc (Suc (db_nextId s)), db_journals := db_journals s @ [j]\<rparr>"
    and jf: "je_lines j = ls" "je_date j = d" "je_number j \<notin> je_number ` set (db_journals s)" by auto
  have old: "\<forall>e \<in> set (db_events s). \<not> ev_id e = db_nextId s" using assms(2) by (auto simp: eventsFresh_def)
  have "posted dec input d rule j ev s s'"
    unfolding posted_def s' s2 ev using jf b s1 update_last [OF old, of "newEvent dec input d (db_nextId s)"] by simp
  with g s1 show ?thesis by blast
qed

section \<open>Properties\<close>

text \<open>
  C1. A posting that commits under a fresh idempotency key writes exactly one journal from an active rule of the
  company for the event's type. Its debits equal its credits whenever every line of that rule has the side \<open>DEBIT\<close>
  or \<open>CREDIT\<close>; in general the debits exceed the credits by exactly the amounts of the rule's usable lines
  with any other side, which the balance check counts as credits and the journal carries as neither. The
  journal's lines are non-negative and lie on active accounts of the event's branch, the event is recorded once
  as posted with that journal, and the business date lies outside every closed accounting control and in no
  fiscal period that is not open. The decimals are rounded to \<open>p\<close> significant digits, as decimal.js documents,
  and the amounts fit that precision: each has at most \<open>k\<close> places, and a sum of as many as a rule has lines at
  most \<open>p\<close> digits.
\<close>

theorem posting_balanced:
  assumes "postOperationalEvent dec input s = Inr (ev, s')"
    and "eventOfKey (pi_company input) (pi_idempotencyKey input) (db_events s) = None"
    and "eventsFresh s" and "decimalLaws p dec" and "\<forall>r \<in> set (db_rules s). amountsFit p k bound (pi_amounts input) r"
  shows "\<exists>rule journal. rule \<in> set (db_rules s) \<and> ru_status rule = ''ACTIVE'' \<and> ru_company rule = pi_company input \<and>
      ru_eventType rule = pi_eventType input \<and> db_journals s' = db_journals s @ [journal] \<and>
      totalDebit (je_lines journal) = totalCredit (je_lines journal) + strayAmount (pi_amounts input) (ru_lines rule) \<and>
      ((\<forall>l \<in> set (ru_lines rule). rl_side l \<in> {''DEBIT'', ''CREDIT''}) \<longrightarrow> totalDebit (je_lines journal) = totalCredit (je_lines journal)) \<and>
      je_lines journal \<noteq> [] \<and> je_date journal = orElse (pi_businessDate input) (db_now s) \<and>
      (\<forall>l \<in> set (je_lines journal). 0 \<le> jl_debit l \<and> 0 \<le> jl_credit l \<and>
         (\<exists>a \<in> set (db_accounts s). ac_id a = jl_account l \<and> ac_branch a = pi_branch input \<and> ac_isActive a)) \<and>
      db_events s' = db_events s @ [ev] \<and> ev_status ev = ''POSTED'' \<and> ev_journalEntry ev = Some (je_id journal) \<and>
      closingControl (pi_company input) (pi_branch input) (pi_eventType input) (je_date journal) (db_closeControls s) = None \<and>
      (\<forall>q. periodAt (pi_company input) (pi_branch input) (je_date journal) (db_fiscalPeriods s) = Some q \<longrightarrow> fp_status q = ''OPEN'')"
proof -
  let ?d = "orElse (pi_businessDate input) (db_now s)"
  from assms(1,2) have "postNewEvent dec input ?d s = Inr (ev, s')" by (auto simp: postOperationalEvent_def tx_Inr nowT_Inr)
  then obtain rule journal where g: "postingGuards input ?d s = Inr (rule, s)" and p: "posted dec input ?d rule journal ev s s'"
    using postNewEvent_effect assms(3) by blast
  note g' = postingGuards_effect [OF g]
  from p have b: "buildJournal dec input (db_accounts s) rule = Inr (je_lines journal)" by (simp add: posted_def)
  have fits: "amountsFit p k bound (pi_amounts input) rule" using assms(5) g' by blast
  have "strayAmount (pi_amounts input) (ru_lines rule) = 0" if "\<forall>l \<in> set (ru_lines rule). rl_side l \<in> {''DEBIT'', ''CREDIT''}"
  proof -
    have "filter (\<lambda>l. rl_side l \<notin> {''DEBIT'', ''CREDIT''}) (usableLines (pi_amounts input) (ru_lines rule)) = []"
      using that by (auto simp: filter_empty_conv usableLines_def)
    then show ?thesis by (simp add: strayAmount_def)
  qed
  with buildJournal_difference [OF assms(4) fits b] g' p show ?thesis
    by (intro exI [of _ rule] exI [of _ journal]) (simp add: posted_def)
qed

lemma posted_once:
  assumes "postOperationalEvent dec input s = Inr (ev, s')" and "eventsFresh s"
  shows "eventOfKey (pi_company input) (pi_idempotencyKey input) (db_events s') = Some ev \<and> sameIdentity input ev"
proof (cases "eventOfKey (pi_company input) (pi_idempotencyKey input) (db_events s)")
  case None
  then have "postNewEvent dec input (orElse (pi_businessDate input) (db_now s)) s = Inr (ev, s')"
    using assms(1) by (auto simp: postOperationalEvent_def tx_Inr nowT_Inr)
  then obtain rule journal where p: "posted dec input (orElse (pi_businessDate input) (db_now s)) rule journal ev s s'"
    using postNewEvent_effect assms(2) by blast
  have "db_events s' = db_events s @ [ev]" using p by (simp add: posted_def)
  moreover have "ev_company ev = pi_company input" "ev_idempotencyKey ev = pi_idempotencyKey input" "sameIdentity input ev"
    using p by (simp_all add: posted_def sameIdentity_def)
  ultimately show ?thesis using None unfolding eventOfKey_def by (simp add: find_first_append_None)
next
  case (Some e)
  then show ?thesis using assms(1) by (auto simp: postOperationalEvent_def tx_Inr)
qed

text \<open>
  C2. Posting is idempotent: once an event has been posted, the same call returns that event and changes
  nothing, at any later time, and a call that reuses the key for another event or branch is refused.
\<close>

theorem posting_idempotent:
  assumes "postOperationalEvent dec input s = Inr (ev, s')" and "eventsFresh s"
  shows "postOperationalEvent dec input (s'\<lparr>db_now := t\<rparr>) = Inr (ev, s'\<lparr>db_now := t\<rparr>) \<and>
    (\<forall>other. pi_company other = pi_company input \<longrightarrow> pi_idempotencyKey other = pi_idempotencyKey input \<longrightarrow> \<not> sameIdentity other ev \<longrightarrow>
       postOperationalEvent dec other s' = Inl (BadRequest ''Idempotency key sudah digunakan untuk event atau branch yang berbeda.''))"
proof -
  have "eventOfKey (pi_company input) (pi_idempotencyKey input) (db_events s') = Some ev \<and> sameIdentity input ev"
    by (rule posted_once [OF assms])
  then show ?thesis by (auto simp: postOperationalEvent_def bindT_def getT_def requireT_def returnT_def)
qed

section \<open>Tax amounts\<close>

text \<open>
  The amount and the rate of a tax fit the precision, at \<open>k\<close> decimal places: every number of the calculation,
  at most \<open>(3 \<bar>amount\<bar> + 2) (1 + rate)\<close>, has at most \<open>p\<close> digits.
\<close>

definition taxFits :: "nat \<Rightarrow> nat \<Rightarrow> rat \<Rightarrow> rat \<Rightarrow> bool" where
  "taxFits p k amount rate \<longleftrightarrow> 2 \<le> k \<and> hasPlaces k amount \<and> hasPlaces k rate \<and>
     (3 * \<bar>amount\<bar> + 2) * (1 + rate) * 10 ^ k < 10 ^ p"

text \<open>What is below that bound is below the precision.\<close>

lemma taxFits_below:
  assumes "taxFits p k amount rate" and "0 \<le> rate" and "x \<le> 3 * \<bar>amount\<bar> + 2 + 2 * \<bar>amount * rate\<bar> + rate"
  shows "x * 10 ^ k < 10 ^ p"
proof -
  have "\<bar>amount * rate\<bar> = \<bar>amount\<bar> * rate" and "0 \<le> \<bar>amount\<bar> * rate" using assms(2) by (simp_all add: abs_mult)
  then have "x \<le> (3 * \<bar>amount\<bar> + 2) * (1 + rate)" using assms(2,3) unfolding distrib_left distrib_right by linarith
  then have "x * 10 ^ k \<le> (3 * \<bar>amount\<bar> + 2) * (1 + rate) * 10 ^ k" by (intro mult_right_mono) simp_all
  then show ?thesis using assms(1) unfolding taxFits_def by linarith
qed

lemma rounded_near:
  assumes "decimalLaws p dec" and "\<bar>q - x\<bar> \<le> \<bar>x\<bar> / 10 ^ (p - 1)"
  shows "\<bar>d_places dec 2 q - x\<bar> \<le> 1 / 200 + \<bar>x\<bar> / 10 ^ (p - 1)" and "\<bar>d_places dec 2 q\<bar> \<le> 1 + 2 * \<bar>x\<bar>"
proof -
  have c: "\<bar>d_places dec 2 q - q\<bar> \<le> 1 / 200" using places_near [OF assms(1), of 2 q] by simp
  then show "\<bar>d_places dec 2 q - x\<bar> \<le> 1 / 200 + \<bar>x\<bar> / 10 ^ (p - 1)" using assms(2) by linarith
  have "\<bar>x\<bar> / 10 ^ (p - 1) \<le> \<bar>x\<bar> / 1" by (rule divide_left_mono) simp_all
  then show "\<bar>d_places dec 2 q\<bar> \<le> 1 + 2 * \<bar>x\<bar>" using c assms(2) by linarith
qed

lemma places_fit: "decimalLaws p dec \<Longrightarrow> 2 \<le> k \<Longrightarrow> hasPlaces k (d_places dec 2 q)"
  using places_near hasPlaces_more by blast

text \<open>An exclusive code: the rounded product is added to the amount.\<close>

lemma exclusive_tax:
  assumes "decimalLaws p dec" and "taxFits p k amount rate" and "0 \<le> rate"
  shows "d_add dec amount (d_places dec 2 (d_mul dec amount rate)) = amount + d_places dec 2 (d_mul dec amount rate)"
proof (rule exact_add [OF assms(1), of k])
  have "\<bar>d_places dec 2 (d_mul dec amount rate)\<bar> \<le> 1 + 2 * \<bar>amount * rate\<bar>"
    by (rule rounded_near(2) [OF assms(1) mul_near [OF assms(1)]])
  then show "\<bar>amount + d_places dec 2 (d_mul dec amount rate)\<bar> * 10 ^ k < 10 ^ p"
    using assms(3) by (intro taxFits_below [OF assms(2,3)]) linarith
qed (use assms places_fit in \<open>auto simp: taxFits_def\<close>)

text \<open>An inclusive one: the rounded quotient is taken from it.\<close>

lemma inclusive_tax:
  assumes "decimalLaws p dec" and "taxFits p k amount rate" and "0 \<le> rate"
  shows "d_add dec 1 rate = 1 + rate"
    and "d_sub dec amount (d_places dec 2 (d_div dec amount (1 + rate))) = amount - d_places dec 2 (d_div dec amount (1 + rate))"
proof -
  show "d_add dec 1 rate = 1 + rate"
    using assms by (intro exact_add [OF assms(1), of k] taxFits_below [OF assms(2,3)]) (auto simp: taxFits_def)
  have "\<bar>amount / (1 + rate)\<bar> \<le> \<bar>amount\<bar> / 1" unfolding abs_divide using assms(3) by (intro divide_left_mono) simp_all
  moreover have "\<bar>d_places dec 2 (d_div dec amount (1 + rate))\<bar> \<le> 1 + 2 * \<bar>amount / (1 + rate)\<bar>"
    by (rule rounded_near(2) [OF assms(1) div_near [OF assms(1)]]) (use assms(3) in simp)
  ultimately have "\<bar>amount - d_places dec 2 (d_div dec amount (1 + rate))\<bar> \<le> 3 * \<bar>amount\<bar> + 2 + 2 * \<bar>amount * rate\<bar> + rate"
    using assms(3) by linarith
  then show "d_sub dec amount (d_places dec 2 (d_div dec amount (1 + rate))) = amount - d_places dec 2 (d_div dec amount (1 + rate))"
    using assms by (intro exact_sub [OF assms(1), of k] taxFits_below [OF assms(2,3)] places_fit) (auto simp: taxFits_def)
qed

text \<open>
  C15. A tax calculation with an active code in force reads the database only and answers net, tax and gross with
  net plus tax equal to gross, the amount being the gross of an inclusive code with a positive rate and the
  net otherwise. The tax has two decimal places and differs from the exact tax by at most half a cent plus one
  unit in the last of the \<open>p\<close> digits of the product or quotient it is rounded from. The amount and the rates of
  the tax codes fit the precision of the decimals.
\<close>

theorem calculateTax_exact:
  assumes "calculateTax dec (Some i) amount companyId effectiveAt scopes s = Inr (r, s')"
    and "decimalLaws p dec" and "\<forall>t \<in> set (db_taxCodes s). taxFits p k amount (tx_rate t)"
  shows "s' = s \<and> tr_net r + tr_tax r = tr_gross r \<and>
    (\<exists>t \<in> set (db_taxCodes s). tr_taxCode r = Some t \<and> tx_id t = i \<and> tx_status t = ''ACTIVE'' \<and>
       inRange (tx_effectiveFrom t) (tx_effectiveTo t) effectiveAt \<and>
       (if tx_inclusive t \<and> 0 < tx_rate t
        then tr_gross r = amount \<and> hasPlaces 2 (tr_net r) \<and>
          \<bar>tr_tax r - amount * tx_rate t / (1 + tx_rate t)\<bar> \<le> 1 / 200 + \<bar>amount / (1 + tx_rate t)\<bar> / 10 ^ (p - 1)
        else tr_net r = amount \<and> hasPlaces 2 (tr_tax r) \<and>
          \<bar>tr_tax r - amount * tx_rate t\<bar> \<le> 1 / 200 + \<bar>amount * tx_rate t\<bar> / 10 ^ (p - 1)))"
proof -
  from assms(1) obtain t where f: "find_first (\<lambda>t. tx_id t = i \<and> (companyId = None \<or> companyId = Some (tx_company t))) (db_taxCodes s) = Some t"
    by (auto simp: calculateTax_def tx_Inr split: option.splits)
  note t = find_first_Some [OF f]
  from assms(1) f have g: "tx_status t = ''ACTIVE''" "inRange (tx_effectiveFrom t) (tx_effectiveTo t) effectiveAt" "0 \<le> tx_rate t"
    by (auto simp: calculateTax_def tx_Inr inRange_def)
  have fits: "taxFits p k amount (tx_rate t)" using assms(3) t by blast
  note two = places_near [OF assms(2), of 2, THEN conjunct1]
  show ?thesis
  proof (cases "tx_inclusive t \<and> 0 < tx_rate t")
    case True
    let ?q = "d_div dec amount (1 + tx_rate t)"
    have r: "s' = s" "tr_taxCode r = Some t" "tr_net r = d_places dec 2 ?q" "tr_tax r = amount - d_places dec 2 ?q" "tr_gross r = amount"
      using assms(1) f True by (auto simp: calculateTax_def tx_Inr Let_def inclusive_tax [OF assms(2) fits g(3)])
    have "amount * tx_rate t / (1 + tx_rate t) = amount - amount / (1 + tx_rate t)"
      using g(3) by (simp add: field_simps)
    moreover have "\<bar>d_places dec 2 ?q - amount / (1 + tx_rate t)\<bar> \<le> 1 / 200 + \<bar>amount / (1 + tx_rate t)\<bar> / 10 ^ (p - 1)"
      by (rule rounded_near(1) [OF assms(2) div_near [OF assms(2)]]) (use g(3) in simp)
    ultimately have "\<bar>tr_tax r - amount * tx_rate t / (1 + tx_rate t)\<bar> \<le> 1 / 200 + \<bar>amount / (1 + tx_rate t)\<bar> / 10 ^ (p - 1)"
      unfolding r by linarith
    then show ?thesis using r t g True two by auto
  next
    case False
    let ?q = "d_mul dec amount (tx_rate t)"
    have r: "s' = s" "tr_taxCode r = Some t" "tr_net r = amount" "tr_tax r = d_places dec 2 ?q" "tr_gross r = amount + d_places dec 2 ?q"
      using assms(1) f False by (auto simp: calculateTax_def tx_Inr Let_def exclusive_tax [OF assms(2) fits g(3)] split: if_splits)
    have "\<bar>tr_tax r - amount * tx_rate t\<bar> \<le> 1 / 200 + \<bar>amount * tx_rate t\<bar> / 10 ^ (p - 1)"
      unfolding r by (rule rounded_near(1) [OF assms(2) mul_near [OF assms(2)]])
    then show ?thesis using r t g False two by auto
  qed
qed

theorem calculateTax_exact_witness:
  "\<exists>r. calculateTax rationalDecimal (Some 1) 111 None 5 [] exampleTaxes = Inr (r, exampleTaxes) \<and> tr_net r + tr_tax r = tr_gross r"
proof -
  have "(case calculateTax rationalDecimal (Some 1) 111 None 5 [] exampleTaxes of Inl e \<Rightarrow> False | Inr x \<Rightarrow> True)"
    by code_simp
  then obtain r s' where c: "calculateTax rationalDecimal (Some 1) 111 None 5 [] exampleTaxes = Inr (r, s')"
    by (auto split: sum.splits)
  have fits: "\<forall>t \<in> set (db_taxCodes exampleTaxes). taxFits 20 2 111 (tx_rate t)" by code_simp
  show ?thesis
    using calculateTax_exact [OF c rationalDecimal_laws, of 20 2] c by (auto simp: fits)
qed

section \<open>A shop's books\<close>

definition cash :: account where
  "cash = \<lparr>ac_id = 31, ac_branch = 1, ac_code = ''11'', ac_name = ''Kas'', ac_type = ASSET, ac_isActive = True\<rparr>"

definition income :: account where
  "income = \<lparr>ac_id = 32, ac_branch = 1, ac_code = ''41'', ac_name = ''Pendapatan'', ac_type = REVENUE, ac_isActive = True\<rparr>"

definition ruleLine :: "string \<Rightarrow> string \<Rightarrow> string \<Rightarrow> rule_line" where
  "ruleLine code side key = \<lparr>rl_accountCode = Some code, rl_accountCodeKey = None, rl_side = side, rl_amountKey = key, rl_skipIfZero = None\<rparr>"

definition saleRule :: "rule_line list \<Rightarrow> posting_rule" where
  "saleRule ls = \<lparr>ru_id = 40, ru_company = 1, ru_code = ''S'', ru_version = 1, ru_name = ''S'', ru_eventType = ''SALE'', ru_priority = 100,
     ru_status = ''ACTIVE'', ru_effectiveFrom = None, ru_effectiveTo = None, ru_lines = ls\<rparr>"

definition shopBooks :: "rule_line list \<Rightarrow> accounting_db" where
  "shopBooks ls = emptyAccounting\<lparr>db_now := 20005 * dayMs, db_nextId := 50, db_accounts := [cash, income], db_rules := [saleRule ls]\<rparr>"

definition saleInput :: post_input where
  "saleInput = \<lparr>pi_company = 1, pi_branch = 1, pi_eventType = ''SALE'', pi_sourceType = ''Sale'', pi_sourceId = ''3'', pi_idempotencyKey = ''k'',
     pi_businessDate = None, pi_currency = None, pi_amounts = [(''cash'', 250), (''revenue'', 250)], pi_accountCodes = [], pi_lines = [],
     pi_taxLines = []\<rparr>"

lemma shopBooks_simps [simp]: "db_now (shopBooks ls) = 20005 * dayMs" "db_nextId (shopBooks ls) = 50" "db_accounts (shopBooks ls) = [cash, income]"
    "db_rules (shopBooks ls) = [saleRule ls]" "db_events (shopBooks ls) = []" "db_journals (shopBooks ls) = []"
    "db_closeControls (shopBooks ls) = []" "db_fiscalPeriods (shopBooks ls) = []" "db_taxCodes (shopBooks ls) = []"
    "db_numbering (shopBooks ls) = db_numbering emptyAccounting"
  by (simp_all add: shopBooks_def emptyAccounting_def)

lemma firstJournalNumber:
  "\<exists>t. nextDocumentNumber (journalNumberOpts saleInput) ((db_numbering emptyAccounting)\<lparr>num_now := 20005 * dayMs\<rparr>) =
     Inr (''JRN-B-202410-000001'', t)"
  by (simp add: emptyAccounting_def journalNumberOpts_def saleInput_def nextDocumentNumber_def resolveDocumentScopeCode_def
      findOrCreateSequence_def bindT_def tx_defs find_first_def sequenceKey_def currentNumber_def periodOf_def
      rowPeriodOf_def count_where_def update_many_def formatNumber_def exPeriod exCounters padStart_def Let_def exZeros)

text \<open>A posting on these books commits as soon as the rule yields a journal.\<close>

lemma shop_posts:
  assumes "buildJournal dec saleInput [cash, income] (saleRule ls) = Inr js"
  shows "\<exists>ev s'. postOperationalEvent dec saleInput (shopBooks ls) = Inr (ev, s')"
proof -
  obtain t where t: "nextDocumentNumber (journalNumberOpts saleInput) ((db_numbering emptyAccounting)\<lparr>num_now := 20005 * dayMs\<rparr>) =
     Inr (''JRN-B-202410-000001'', t)" using firstJournalNumber by blast
  have "postingGuards saleInput (20005 * dayMs) (shopBooks ls) = Inr (saleRule ls, shopBooks ls)"
    by (simp add: postingGuards_def bindT_def tx_defs saleInput_def activeRule_def find_ordered_def sortBy_def saleRule_def
        inRange_def closingControl_def find_first_def periodAt_def)
  moreover have "pi_businessDate saleInput = None" "pi_taxLines saleInput = []" by (simp_all add: saleInput_def)
  ultimately show ?thesis
    using assms t
    by (simp add: postOperationalEvent_def bindT_def tx_defs eventOfKey_def find_first_def nowT_def orElse_def postNewEvent_def
        newIdT_def Let_def liftE_def createJournal_def onNumbering_def zoomT_def)
qed

definition properLines :: "rule_line list" where
  "properLines = [ruleLine ''11'' ''DEBIT'' ''cash'', ruleLine ''41'' ''CREDIT'' ''revenue'']"

lemma proper_journal: "buildJournal rationalDecimal saleInput [cash, income] (saleRule properLines) =
    Inr [\<lparr>jl_account = 31, jl_debit = 250, jl_credit = 0\<rparr>, \<lparr>jl_account = 32, jl_debit = 0, jl_credit = 250\<rparr>]"
  by code_simp

lemma shop_fresh: "eventOfKey (pi_company saleInput) (pi_idempotencyKey saleInput) (db_events (shopBooks ls)) = None \<and> eventsFresh (shopBooks ls)"
  by (simp add: eventOfKey_def find_first_def eventsFresh_def)

theorem posting_balanced_witness:
  "\<exists>ev s' journal. postOperationalEvent rationalDecimal saleInput (shopBooks properLines) = Inr (ev, s') \<and> db_journals s' = [journal] \<and>
     totalDebit (je_lines journal) = totalCredit (je_lines journal)"
proof -
  obtain ev s' where p: "postOperationalEvent rationalDecimal saleInput (shopBooks properLines) = Inr (ev, s')"
    using shop_posts [OF proper_journal] by blast
  have "\<forall>r \<in> set (db_rules (shopBooks properLines)). amountsFit 20 2 250 (pi_amounts saleInput) r" by code_simp
  note all = posting_balanced [OF p shop_fresh [THEN conjunct1] shop_fresh [THEN conjunct2] rationalDecimal_laws this]
  from all obtain rule journal where "rule \<in> set (db_rules (shopBooks properLines))"
    and "db_journals s' = db_journals (shopBooks properLines) @ [journal]"
    and "(\<forall>l \<in> set (ru_lines rule). rl_side l \<in> {''DEBIT'', ''CREDIT''}) \<longrightarrow> totalDebit (je_lines journal) = totalCredit (je_lines journal)"
    by (elim exE conjE) iprover
  moreover have "\<forall>r \<in> set (db_rules (shopBooks properLines)). \<forall>l \<in> set (ru_lines r). rl_side l \<in> {''DEBIT'', ''CREDIT''}"
    by (simp add: saleRule_def properLines_def ruleLine_def)
  ultimately show ?thesis using p by auto
qed

theorem posting_idempotent_witness:
  "\<exists>ev s'. postOperationalEvent rationalDecimal saleInput (shopBooks properLines) = Inr (ev, s') \<and>
     postOperationalEvent rationalDecimal saleInput (s'\<lparr>db_now := 0\<rparr>) = Inr (ev, s'\<lparr>db_now := 0\<rparr>)"
proof -
  obtain ev s' where p: "postOperationalEvent rationalDecimal saleInput (shopBooks properLines) = Inr (ev, s')"
    using shop_posts [OF proper_journal] by blast
  from posting_idempotent [OF p] shop_fresh p show ?thesis by blast
qed

end
