(* ===== verification/Keeps.thy ===== *)
theory Keeps
  imports Database LocationLedger
begin

text \<open>
  Invariants of transactions. \<open>keeps I m\<close>: a commit of \<open>m\<close> from a state with \<open>I\<close> ends in a state with \<open>I\<close>. The
  introduction rules \<open>keeps\<close> follow the structure of a handler, so that a proof about a handler is the proof
  for its few operations that touch the part of the state the invariant reads.
\<close>

definition keeps :: "('s \<Rightarrow> bool) \<Rightarrow> ('s, 'a) tx \<Rightarrow> bool" where
  "keeps I m \<longleftrightarrow> (\<forall>s x s'. I s \<longrightarrow> m s = Inr (x, s') \<longrightarrow> I s')"

named_theorems keeps_rules "introduction rules for keeps"

lemma keepsI: "(\<And>s x s'. I s \<Longrightarrow> m s = Inr (x, s') \<Longrightarrow> I s') \<Longrightarrow> keeps I m"
  by (auto simp: keeps_def)

lemma keepsD: "keeps I m \<Longrightarrow> m s = Inr (x, s') \<Longrightarrow> I s \<Longrightarrow> I s'"
  by (auto simp: keeps_def)

lemma keeps_bind [keeps_rules]: "keeps I m \<Longrightarrow> (\<And>x. keeps I (k x)) \<Longrightarrow> keeps I (bindT m k)"
  unfolding keeps_def bindT_Inr by blast

lemma keeps_then [keeps_rules]: "keeps I m \<Longrightarrow> keeps I k \<Longrightarrow> keeps I (thenT m k)"
  unfolding keeps_def thenT_Inr by blast

lemma keeps_return [keeps_rules]: "keeps I (returnT x)"
  by (simp add: keeps_def returnT_Inr)

lemma keeps_throw [keeps_rules]: "keeps I (throwT e)"
  by (simp add: keeps_def throwT_Inr)

lemma keeps_require [keeps_rules]: "keeps I (requireT b e)"
  by (simp add: keeps_def requireT_Inr)

lemma keeps_get [keeps_rules]: "keeps I (getT f)"
  by (simp add: keeps_def getT_Inr)

lemma keeps_mod: "(\<And>s. I s \<Longrightarrow> I (f s)) \<Longrightarrow> keeps I (modT f)"
  by (auto simp: keeps_def modT_Inr)

lemma keeps_state: "(\<And>s. I s \<Longrightarrow> I (snd (f s))) \<Longrightarrow> keeps I (stateT f)"
  by (auto simp: keeps_def stateT_Inr dest!: arg_cong [of _ _ snd])

lemma keeps_for [keeps_rules]: "(\<And>x. keeps I (f x)) \<Longrightarrow> keeps I (forT f xs)"
  by (induction xs) (auto intro: keeps_rules)

lemma keeps_fold [keeps_rules]: "(\<And>x acc. keeps I (f x acc)) \<Longrightarrow> keeps I (foldT f xs acc)"
  by (induction xs arbitrary: acc) (auto intro: keeps_rules)

lemma keeps_if [keeps_rules]: "keeps I m \<Longrightarrow> keeps I k \<Longrightarrow> keeps I (if b then m else k)"
  by simp

lemma keeps_option [keeps_rules]: "keeps I m \<Longrightarrow> (\<And>x. keeps I (k x)) \<Longrightarrow> keeps I (case v of None \<Rightarrow> m | Some x \<Rightarrow> k x)"
  by (simp split: option.split)

lemma keeps_prod [keeps_rules]: "(\<And>x y. keeps I (k x y)) \<Longrightarrow> keeps I (case v of (x, y) \<Rightarrow> k x y)"
  by (simp split: prod.split)

lemma keeps_let [keeps_rules]: "(\<And>x. keeps I (k x)) \<Longrightarrow> keeps I (Let v k)"
  by (simp add: Let_def)

lemma keeps_lift [keeps_rules]: "keeps I (liftE r)"
  by (simp add: keeps_def liftE_Inr)

text \<open>An update of something the invariant does not read.\<close>

lemma keeps_frame: "(\<And>s. I (f s) = I s) \<Longrightarrow> keeps I (modT f)"
  by (rule keeps_mod) simp

lemma keeps_deny [keeps_rules]: "keeps I (denyT scope user t i)"
  by (simp add: keeps_def)

text \<open>The same for a service outside a transaction, whatever its outcome.\<close>

definition keepsS :: "('s \<Rightarrow> bool) \<Rightarrow> ('s, 'a) svc \<Rightarrow> bool" where
  "keepsS I m \<longleftrightarrow> (\<forall>s r s'. I s \<longrightarrow> m s = (r, s') \<longrightarrow> I s')"

lemma keepsSD: "keepsS I m \<Longrightarrow> m s = (r, s') \<Longrightarrow> I s \<Longrightarrow> I s'"
  by (auto simp: keepsS_def)

lemma keepsS_bind [keeps_rules]:
  assumes "keepsS I m" and "\<And>x. keepsS I (k x)"
  shows "keepsS I (bindS m k)"
  unfolding keepsS_def
proof (intro allI impI)
  fix s r s'
  assume s: "I s" and run: "bindS m k s = (r, s')"
  obtain v s1 where v: "m s = (v, s1)" by (rule prod.exhaust)
  have s1: "I s1" by (rule keepsSD [OF assms(1) v s])
  show "I s'"
  proof (cases v)
    case Inl
    then show ?thesis using run v s1 by (simp add: bindS_def)
  next
    case (Inr x)
    then have "k x s1 = (r, s')" using run v by (simp add: bindS_def)
    then show ?thesis using keepsSD [OF assms(2)] s1 by blast
  qed
qed

lemma keepsS_return [keeps_rules]: "keepsS I (returnS x)"
  by (simp add: keepsS_def returnS_def)

lemma keepsS_throw [keeps_rules]: "keepsS I (throwS e)"
  by (simp add: keepsS_def throwS_def)

lemma keepsS_require [keeps_rules]: "keepsS I (requireS b e)"
  by (simp add: keepsS_def requireS_def)

lemma keepsS_get [keeps_rules]: "keepsS I (getS f)"
  by (simp add: keepsS_def getS_def)

lemma keepsS_lift [keeps_rules]: "keepsS I (liftS r)"
  by (simp add: keepsS_def liftS_def split: sum.splits)

lemma keepsS_run [keeps_rules]: "keeps I m \<Longrightarrow> keepsS I (runTx m)"
  by (auto simp: keepsS_def keeps_def runTx_def split: sum.splits)

lemma keepsS_if [keeps_rules]: "keepsS I m \<Longrightarrow> keepsS I k \<Longrightarrow> keepsS I (if b then m else k)"
  by simp

lemma keepsS_option [keeps_rules]: "keepsS I m \<Longrightarrow> (\<And>x. keepsS I (k x)) \<Longrightarrow> keepsS I (case v of None \<Rightarrow> m | Some x \<Rightarrow> k x)"
  by (simp split: option.split)

lemma keepsS_prod [keeps_rules]: "(\<And>x y. keepsS I (k x y)) \<Longrightarrow> keepsS I (case v of (x, y) \<Rightarrow> k x y)"
  by (simp split: prod.split)

lemma keepsS_let [keeps_rules]: "(\<And>x. keepsS I (k x)) \<Longrightarrow> keepsS I (Let v k)"
  by (simp add: Let_def)

section \<open>Invariants of the stock ledger\<close>

text \<open>
  The stock tables reconcile: they are well formed, each product has one aggregate row per warehouse, and the
  balances of its locations, once there are any, add up to that row at every level. This is what the drift
  check of \<open>prepareLocationInventory\<close> demands before any stock operation.
\<close>

definition reconciled :: "stock \<Rightarrow> bool" where
  "reconciled s \<longleftrightarrow> stock_wf s \<and> distinct (map (\<lambda>i. (inv_warehouse i, inv_product i)) (inventories s)) \<and>
     (\<forall>k w p. ledger k w p s = aggregate k w p s)"

lemma stock_wf_now [simp]: "stock_wf (s\<lparr>now := t\<rparr>) = stock_wf s"
  by (simp add: stock_wf_def placed_def)

lemma ledger_now [simp]: "ledger k w p (s\<lparr>now := t\<rparr>) = ledger k w p s" "aggregate k w p (s\<lparr>now := t\<rparr>) = aggregate k w p s"
  by (simp_all add: ledger_def aggregate_def balanceTotal_def balancesOf_def findInventory_def)

lemma reconciled_now [simp]: "reconciled (s\<lparr>now := t\<rparr>) = reconciled s"
  by (simp add: reconciled_def)

lemma keeps_stock:
  assumes "keeps reconciled m"
  shows "keeps (\<lambda>s. reconciled (db_stock s)) (onStock m)"
proof (rule keepsI)
  fix s x s'
  assume s: "reconciled (db_stock s)" and run: "onStock m s = Inr (x, s')"
  obtain t where t: "m ((db_stock s)\<lparr>now := db_now s\<rparr>) = Inr (x, t)" and s': "s' = s\<lparr>db_stock := t\<rparr>"
    using run unfolding onStock_Inr by blast
  have "reconciled t" by (rule keepsD [OF assms t]) (simp add: s)
  then show "reconciled (db_stock s')" unfolding s' by simp
qed

text \<open>Operations that move nothing between the balances.\<close>

lemma stays_reconciled: "stays w p s s' \<Longrightarrow> reconciled s \<Longrightarrow> reconciled s'"
proof -
  assume m: "stays w p s s'" and r: "reconciled s"
  have inv: "inventories s' = inventories s" using m by (simp add: moves_def)
  have "ledger k w' p' s' = aggregate k w' p' s'" for k w' p'
    using m r by (cases "(w', p') = (w, p)") (auto simp: moves_def reconciled_def aggregate_cong [OF inv])
  then show ?thesis using m r by (simp add: reconciled_def moves_def)
qed

section \<open>Aggregate rows\<close>

text \<open>
  The aggregate row of a product in a warehouse: \<open>upsert\<close> with increments, and \<open>update\<close> of an existing row. The
  row an operation updates by its id is the one it found under the unique key of warehouse and product.
\<close>

definition inventoryOf :: "ident \<Rightarrow> ident \<Rightarrow> inventory \<Rightarrow> bool" where
  "inventoryOf w p i \<longleftrightarrow> inv_warehouse i = w \<and> inv_product i = p"

definition addLevels :: "int \<Rightarrow> int \<Rightarrow> int \<Rightarrow> inventory \<Rightarrow> inventory" where
  "addLevels q r a i = i\<lparr>inv_quantity := inv_quantity i + q, inv_reserved := inv_reserved i + r, inv_available := inv_available i + a\<rparr>"

definition upsertInventory :: "ident \<Rightarrow> ident \<Rightarrow> int \<Rightarrow> int \<Rightarrow> (stock, inventory) tx" where
  "upsertInventory w p q a = bindT (getT (findInventory w p)) (\<lambda>found. case found of
     Some i \<Rightarrow> bindT (modT (\<lambda>s. s\<lparr>inventories := update_many (inventoryOf w p) (addLevels q 0 a) (inventories s)\<rparr>)) (\<lambda>_.
               returnT (addLevels q 0 a i))
   | None \<Rightarrow> bindT freshT (\<lambda>n.
       let row = \<lparr>inv_id = n, inv_warehouse = w, inv_product = p, inv_quantity = q, inv_reserved = 0, inv_available = a\<rparr>
       in bindT (modT (\<lambda>s. s\<lparr>inventories := inventories s @ [row]\<rparr>)) (\<lambda>_. returnT row)))"

definition updateInventory :: "ident \<Rightarrow> ident \<Rightarrow> int \<Rightarrow> int \<Rightarrow> int \<Rightarrow> (stock, inventory) tx" where
  "updateInventory w p q r a = bindT (getT (findInventory w p)) (\<lambda>found. case found of
     None \<Rightarrow> throwT (PrismaError ''P2025'')
   | Some i \<Rightarrow> bindT (modT (\<lambda>s. s\<lparr>inventories := update_many (inventoryOf w p) (addLevels q r a) (inventories s)\<rparr>)) (\<lambda>_.
               returnT (addLevels q r a i)))"

lemma findInventory_update:
  "findInventory w' p' (s\<lparr>inventories := update_many (inventoryOf w p) (addLevels q r a) (inventories s)\<rparr>) =
   map_option (\<lambda>i. if w' = w \<and> p' = p then addLevels q r a i else i) (findInventory w' p' s)"
proof -
  have "find_first (\<lambda>i. inv_warehouse i = w' \<and> inv_product i = p') (update_many (inventoryOf w p) (addLevels q r a) (inventories s)) =
      map_option (\<lambda>i. if inventoryOf w p i then addLevels q r a i else i) (findInventory w' p' s)"
    unfolding findInventory_def by (rule find_first_update_many) (simp add: addLevels_def)
  moreover have "inventoryOf w p i \<longleftrightarrow> w' = w \<and> p' = p" if "findInventory w' p' s = Some i" for i
    using find_first_Some [OF that [unfolded findInventory_def]] by (auto simp: inventoryOf_def)
  ultimately show ?thesis by (cases "findInventory w' p' s") (simp_all add: findInventory_def)
qed

lemma inv_level_add: "inv_level k (addLevels q r a i) = inv_level k i + displacement q r a k"
  by (cases k) (simp_all add: addLevels_def)

text \<open>The effect of either on the aggregates: the row of the product moves by the increments, nothing else moves.\<close>

definition aggregateMoves :: "ident \<Rightarrow> ident \<Rightarrow> (level \<Rightarrow> int) \<Rightarrow> stock \<Rightarrow> stock \<Rightarrow> bool" where
  "aggregateMoves w p d s s' \<longleftrightarrow> balances s' = balances s \<and> (stock_wf s \<longrightarrow> stock_wf s') \<and>
     (\<forall>k w' p'. aggregate k w' p' s' = aggregate k w' p' s + (if w' = w \<and> p' = p then d k else 0)) \<and>
     (distinct (map (\<lambda>i. (inv_warehouse i, inv_product i)) (inventories s)) \<longrightarrow>
      distinct (map (\<lambda>i. (inv_warehouse i, inv_product i)) (inventories s')))"

lemma update_aggregateMoves:
  assumes "findInventory w p s = Some i"
  shows "aggregateMoves w p (displacement q r a) s (s\<lparr>inventories := update_many (inventoryOf w p) (addLevels q r a) (inventories s)\<rparr>)"
    (is "aggregateMoves _ _ _ _ ?s")
proof -
  have "aggregate k w' p' ?s = aggregate k w' p' s + (if w' = w \<and> p' = p then displacement q r a k else 0)" for k w' p'
    using assms unfolding aggregate_def findInventory_update
    by (cases "findInventory w' p' s") (auto simp: inv_level_add)
  moreover have "map (\<lambda>i. (inv_warehouse i, inv_product i)) (inventories ?s) = map (\<lambda>i. (inv_warehouse i, inv_product i)) (inventories s)"
    by (simp add: map_update_many addLevels_def)
  ultimately show ?thesis by (simp add: aggregateMoves_def stock_wf_def placed_def)
qed

lemma updateInventory_moves:
  assumes "updateInventory w p q r a s = Inr (row, s')"
  shows "aggregateMoves w p (displacement q r a) s s' \<and> inv_quantity row = aggregate Quantity w p s'"
proof -
  obtain i where i: "findInventory w p s = Some i"
    and s': "s' = s\<lparr>inventories := update_many (inventoryOf w p) (addLevels q r a) (inventories s)\<rparr>" "row = addLevels q r a i"
    using assms by (auto simp: updateInventory_def tx_Inr split: option.splits)
  show ?thesis using update_aggregateMoves [OF i, of q r a] i unfolding s' by (simp add: aggregate_def findInventory_update)
qed

lemma upsertInventory_moves:
  assumes "upsertInventory w p q a s = Inr (row, s')"
  shows "aggregateMoves w p (displacement q 0 a) s s' \<and> inv_quantity row = aggregate Quantity w p s'"
proof (cases "findInventory w p s")
  case (Some i)
  then have s': "s' = s\<lparr>inventories := update_many (inventoryOf w p) (addLevels q 0 a) (inventories s)\<rparr>" "row = addLevels q 0 a i"
    using assms by (auto simp: upsertInventory_def tx_Inr)
  show ?thesis using update_aggregateMoves [OF Some, of q 0 a] Some unfolding s' by (simp add: aggregate_def findInventory_update)
next
  case None
  define n where "n = next_id s"
  from None have row: "row = \<lparr>inv_id = n, inv_warehouse = w, inv_product = p, inv_quantity = q, inv_reserved = 0, inv_available = a\<rparr>"
    and s': "s' = s\<lparr>next_id := Suc n, inventories := inventories s @ [row]\<rparr>"
    using assms by (auto simp: upsertInventory_def tx_Inr freshT_def Let_def n_def)
  have find: "findInventory w' p' s' = (if w' = w \<and> p' = p then Some row else findInventory w' p' s)" for w' p'
  proof (cases "findInventory w' p' s")
    case (Some i)
    then have i: "find_first (\<lambda>i. inv_warehouse i = w' \<and> inv_product i = p') (inventories s) = Some i"
      by (simp add: findInventory_def)
    have "\<not> (w' = w \<and> p' = p)" using None Some by auto
    then show ?thesis using find_first_append_Some [OF i, of "[row]"] Some by (auto simp: findInventory_def s')
  next
    case n: None
    then show ?thesis using find_first_append_None [OF n [unfolded findInventory_def], of row] unfolding findInventory_def s' row by auto
  qed
  have "aggregate k w' p' s' = aggregate k w' p' s + (if w' = w \<and> p' = p then displacement q 0 a k else 0)" for k w' p'
    using None unfolding aggregate_def find by (cases k) (auto simp: row)
  moreover have "(w, p) \<notin> set (map (\<lambda>i. (inv_warehouse i, inv_product i)) (inventories s))"
    using None by (auto simp: findInventory_def find_first_None)
  moreover have "stock_wf s \<longrightarrow> stock_wf s'" by (auto simp: s' n_def stock_wf_def placed_def less_Suc_eq)
  ultimately show ?thesis using find [of w p] by (simp add: aggregateMoves_def s' row aggregate_def)
qed

text \<open>A displacement of the balances followed by the same displacement of the aggregate.\<close>

lemma moves_then_aggregate:
  assumes "reconciled s" and m: "moves w p d s s1" and a: "aggregateMoves w p d s1 s2"
  shows "reconciled s2"
proof -
  have "ledger k w' p' s2 = aggregate k w' p' s2" for k w' p'
  proof -
    have l1: "ledger k w' p' s1 = aggregate k w' p' s1 + (if w' = w \<and> p' = p then d k else 0)"
      using assms(1) m aggregate_cong [of s1 s] unfolding reconciled_def moves_def by (cases "w' = w \<and> p' = p") auto
    have a2: "aggregate k w' p' s2 = aggregate k w' p' s1 + (if w' = w \<and> p' = p then d k else 0)"
      using a by (simp add: aggregateMoves_def)
    have b: "balances s2 = balances s1" using a by (simp add: aggregateMoves_def)
    show ?thesis
    proof (cases "balancesOf w' p' s1 = []")
      case True
      then show ?thesis using b by (simp add: ledger_def balancesOf_def)
    next
      case False
      then have "ledger k w' p' s2 = ledger k w' p' s1" using b by (simp add: ledger_def balancesOf_def balanceTotal_def)
      then show ?thesis using l1 a2 by simp
    qed
  qed
  moreover have "inventories s1 = inventories s" "stock_wf s1" using m by (simp_all add: moves_def)
  ultimately show ?thesis using a assms(1) by (simp add: reconciled_def aggregateMoves_def)
qed

end
