(* ===== verification/StockOps.thy ===== *)
theory StockOps
  imports AccountingPosting Keeps
begin

text \<open>
  Transfers between warehouses, stock counts (opname), relocation and condition changes:
  \<open>apps/api/src/advanced-inventory/advanced-inventory.service.ts\<close>. The listings that only read are left out, those
  that materialise location or condition rows are in. A quantity of a request is a positive (or non-negative)
  integer, as the validation of its DTO demands. \<open>randomUUID\<close> is the next generated id. The identifiers the code
  joins into texts (\<open>transfer.id:sequence\<close>) are rendered by \<open>identText\<close>.
\<close>

section \<open>Tables and requests\<close>

record stock_transfer =
  st_id :: ident
  st_number :: string
  st_source :: ident
  st_destination :: ident
  st_status :: string
  st_requestedBy :: "ident option"
  st_approvedBy :: "ident option"
  st_shippedAt :: "int option"
  st_receivedAt :: "int option"

record transfer_item =
  ti_id :: ident
  ti_transfer :: ident
  ti_product :: ident
  ti_quantity :: int
  ti_shipped :: int
  ti_received :: int
  ti_batch :: "string option"
  ti_serials :: "string list"

record opname =
  on_id :: ident
  on_number :: string
  on_warehouse :: ident
  on_location :: "ident option"
  on_status :: string
  on_createdBy :: "ident option"
  on_approvedBy :: "ident option"
  on_completedAt :: "int option"

record opname_item =
  oi_id :: ident
  oi_opname :: ident
  oi_product :: ident
  oi_batch :: "string option"
  oi_system :: int
  oi_counted :: "int option"
  oi_difference :: "int option"
  oi_reason :: "string option"

record condition_movement =
  cm_id :: ident
  cm_warehouse :: ident
  cm_location :: ident
  cm_product :: ident
  cm_from :: condition
  cm_to :: condition
  cm_quantity :: int
  cm_createdBy :: ident

record inventory_db = accounting_db +
  db_transfers :: "stock_transfer list"
  db_transferItems :: "transfer_item list"
  db_opnames :: "opname list"
  db_opnameItems :: "opname_item list"
  db_conditionMovements :: "condition_movement list"

record transfer_item_dto =
  tid_product :: ident
  tid_quantity :: int
  tid_batch :: "string option"
  tid_serials :: "string list"

record transfer_dto =
  trd_source :: ident
  trd_destination :: ident
  trd_items :: "transfer_item_dto list"

record receive_item_dto =
  rid_item :: ident
  rid_quantity :: int
  rid_serials :: "string list"

record opname_dto =
  opd_warehouse :: ident
  opd_location :: "ident option"

record count_item_dto =
  cid_item :: ident
  cid_counted :: int
  cid_reason :: "string option"

record relocate_dto =
  rld_warehouse :: ident
  rld_product :: ident
  rld_source :: ident
  rld_destination :: ident
  rld_quantity :: int

record condition_dto =
  cnd_warehouse :: ident
  cnd_location :: ident
  cnd_product :: ident
  cnd_from :: condition
  cnd_to :: condition
  cnd_quantity :: int

section \<open>Scope\<close>

datatype access_mode = ByBranch | ByCompany

definition companyOfBranch :: "ident \<Rightarrow> ident \<Rightarrow> 'b base_db_scheme \<Rightarrow> bool" where
  "companyOfBranch b c s \<longleftrightarrow> list_ex (\<lambda>x. br_id x = b \<and> br_company x = c) (branches (db_numbering s))"

definition findWarehouse :: "tenant_scope \<Rightarrow> ident \<Rightarrow> access_mode \<Rightarrow> bool \<Rightarrow> 'b base_db_scheme \<Rightarrow> warehouse option" where
  "findWarehouse scope i mode requireActive s = find_first (\<lambda>w. wh_id w = i \<and> (mode = ByBranch \<longrightarrow> wh_branch w = sc_branch scope) \<and>
     companyOfBranch (wh_branch w) (sc_company scope) s \<and> (requireActive \<longrightarrow> wh_isActive w)) (db_warehouses s)"

definition warehouseT ::
    "auth_user \<Rightarrow> tenant_scope \<Rightarrow> ident \<Rightarrow> access_mode \<Rightarrow> bool \<Rightarrow> ('b base_db_scheme, warehouse) tx" where
  "warehouseT user scope i mode requireActive = bindT (getT (findWarehouse scope i mode requireActive)) (\<lambda>found. case found of
     None \<Rightarrow> denyT scope user ''Warehouse'' (Some i) | Some w \<Rightarrow> returnT w)"

definition warehouseS ::
    "auth_user \<Rightarrow> tenant_scope \<Rightarrow> ident \<Rightarrow> access_mode \<Rightarrow> bool \<Rightarrow> ('b base_db_scheme, warehouse) svc" where
  "warehouseS user scope i mode requireActive = bindS (getS (findWarehouse scope i mode requireActive)) (\<lambda>found. case found of
     None \<Rightarrow> denyS scope user ''Warehouse'' (Some i) | Some w \<Rightarrow> returnS w)"

definition itemsOf :: "ident \<Rightarrow> 'b inventory_db_scheme \<Rightarrow> transfer_item list" where
  "itemsOf i s = filter (\<lambda>t. ti_transfer t = i) (db_transferItems s)"

definition transferT ::
    "auth_user \<Rightarrow> tenant_scope \<Rightarrow> ident \<Rightarrow> bool \<Rightarrow> ('b inventory_db_scheme, stock_transfer \<times> transfer_item list \<times> warehouse \<times> warehouse) tx" where
  "transferT user scope i atSource =
     bindT (getT (\<lambda>s. find_first (\<lambda>t. st_id t = i) (db_transfers s))) (\<lambda>found. case found of
       None \<Rightarrow> denyT scope user ''StockTransfer'' (Some i)
     | Some row \<Rightarrow>
         bindT (getT (itemsOf i)) (\<lambda>items.
         bindT (warehouseT user scope (st_source row) (if atSource then ByBranch else ByCompany) False) (\<lambda>source.
         bindT (warehouseT user scope (st_destination row) (if atSource then ByCompany else ByBranch) False) (\<lambda>destination.
         returnT (row, items, source, destination)))))"

definition transferS ::
    "auth_user \<Rightarrow> tenant_scope \<Rightarrow> ident \<Rightarrow> bool \<Rightarrow> ('b inventory_db_scheme, stock_transfer) svc" where
  "transferS user scope i atSource =
     bindS (getS (\<lambda>s. find_first (\<lambda>t. st_id t = i) (db_transfers s))) (\<lambda>found. case found of
       None \<Rightarrow> denyS scope user ''StockTransfer'' (Some i)
     | Some row \<Rightarrow>
         bindS (warehouseS user scope (st_source row) (if atSource then ByBranch else ByCompany) False) (\<lambda>_.
         bindS (warehouseS user scope (st_destination row) (if atSource then ByCompany else ByBranch) False) (\<lambda>_.
         returnS row)))"

definition opnameT ::
    "auth_user \<Rightarrow> tenant_scope \<Rightarrow> ident \<Rightarrow> ('b inventory_db_scheme, opname \<times> opname_item list \<times> warehouse) tx" where
  "opnameT user scope i =
     bindT (getT (\<lambda>s. find_first (\<lambda>t. on_id t = i) (db_opnames s))) (\<lambda>found. case found of
       None \<Rightarrow> denyT scope user ''StockOpname'' (Some i)
     | Some row \<Rightarrow>
         bindT (getT (\<lambda>s. filter (\<lambda>t. oi_opname t = i) (db_opnameItems s))) (\<lambda>items.
         bindT (warehouseT user scope (on_warehouse row) ByBranch False) (\<lambda>w. returnT (row, items, w))))"

definition opnameS ::
    "auth_user \<Rightarrow> tenant_scope \<Rightarrow> ident \<Rightarrow> ('b inventory_db_scheme, opname \<times> opname_item list) svc" where
  "opnameS user scope i =
     bindS (getS (\<lambda>s. find_first (\<lambda>t. on_id t = i) (db_opnames s))) (\<lambda>found. case found of
       None \<Rightarrow> denyS scope user ''StockOpname'' (Some i)
     | Some row \<Rightarrow>
         bindS (getS (\<lambda>s. filter (\<lambda>t. oi_opname t = i) (db_opnameItems s))) (\<lambda>items.
         bindS (warehouseS user scope (on_warehouse row) ByBranch False) (\<lambda>_. returnS (row, items))))"

section \<open>Texts of a request\<close>

text \<open>\<open>x?.trim() || undefined\<close> and \<open>(xs ?? []).map(trim).filter(Boolean)\<close>.\<close>

definition cleanText :: "string option \<Rightarrow> string option" where
  "cleanText x = (case x of None \<Rightarrow> None | Some t \<Rightarrow> if trim t = '''' then None else Some (trim t))"

definition cleanSerials :: "string list \<Rightarrow> string list" where
  "cleanSerials xs = filter (\<lambda>x. x \<noteq> '''') (map trim xs)"

definition present :: "string option \<Rightarrow> bool" where
  "present x \<longleftrightarrow> x \<noteq> None \<and> x \<noteq> Some ''''"

section \<open>Movements, batches and serial numbers\<close>

definition movementT ::
    "ident \<Rightarrow> ident \<Rightarrow> ident option \<Rightarrow> string \<Rightarrow> int \<Rightarrow> int \<Rightarrow> string \<Rightarrow> string \<Rightarrow> ('b base_db_scheme, unit) tx" where
  "movementT w p l kind quantity balanceAfter referenceType referenceId = modT (\<lambda>s. s\<lparr>db_movements := db_movements s @
     [\<lparr>mv_warehouse = w, mv_product = p, mv_location = l, mv_type = kind, mv_quantity = quantity, mv_balanceAfter = balanceAfter,
       mv_referenceType = referenceType, mv_referenceId = referenceId\<rparr>]\<rparr>)"

definition findBatch :: "ident \<Rightarrow> ident \<Rightarrow> string \<Rightarrow> 'b base_db_scheme \<Rightarrow> stock_batch option" where
  "findBatch w p n s = find_first (\<lambda>b. bt_warehouse b = w \<and> bt_product b = p \<and> bt_number b = n) (db_batches s)"

text \<open>Free, unexpired units of a batch leave the source warehouse.\<close>

definition shipBatch :: "ident \<Rightarrow> transfer_item \<Rightarrow> ('b base_db_scheme, unit) tx" where
  "shipBatch w item = (if \<not> present (ti_batch item) then returnT () else
     bindT (getT (findBatch w (ti_product item) (the (ti_batch item)))) (\<lambda>found. case found of
       None \<Rightarrow> throwT (BadRequest ''Stok batch tidak mencukupi untuk transfer.'')
     | Some b \<Rightarrow>
         bindT (requireT (ti_quantity item \<le> bt_quantity b - bt_reserved b) (BadRequest ''Stok batch tidak mencukupi untuk transfer.'')) (\<lambda>_.
         bindT nowT (\<lambda>t.
         bindT (requireT (case bt_expiry b of None \<Rightarrow> True | Some e \<Rightarrow> t < e)
                  (BadRequest ''Batch sudah kedaluwarsa dan tidak boleh dikirim sebagai stok AVAILABLE.'')) (\<lambda>_.
         bindT (getT (\<lambda>s. count_where (\<lambda>x. bt_id x = bt_id b \<and> ti_quantity item + bt_reserved b \<le> bt_quantity x) (db_batches s))) (\<lambda>changed.
         bindT (modT (\<lambda>s. s\<lparr>db_batches := update_many (\<lambda>x. bt_id x = bt_id b \<and> ti_quantity item + bt_reserved b \<le> bt_quantity x)
                  (\<lambda>x. x\<lparr>bt_quantity := bt_quantity x - ti_quantity item\<rparr>) (db_batches s)\<rparr>)) (\<lambda>_.
         requireT (changed = 1) (BadRequest ''Saldo batch berubah saat transfer diproses.''))))))))"

definition shipSerials :: "ident \<Rightarrow> transfer_item \<Rightarrow> ('b base_db_scheme, unit) tx" where
  "shipSerials w item = (let serialNumbers = cleanSerials (ti_serials item) in if serialNumbers = [] then returnT () else
     let matching = (\<lambda>x. List.member serialNumbers (sn_number x) \<and> sn_warehouse x = w \<and> sn_product x = ti_product item \<and>
                     sn_status x = ''AVAILABLE'') in
     bindT (getT (\<lambda>s. map sn_id (filter matching (db_serials s)))) (\<lambda>serials.
     bindT (requireT (length serials = length serialNumbers) (BadRequest ''Satu atau lebih serial transfer tidak tersedia pada gudang asal.'')) (\<lambda>_.
     bindT (getT (\<lambda>s. count_where (\<lambda>x. List.member serials (sn_id x) \<and> sn_status x = ''AVAILABLE'') (db_serials s))) (\<lambda>claimed.
     bindT (modT (\<lambda>s. s\<lparr>db_serials := update_many (\<lambda>x. List.member serials (sn_id x) \<and> sn_status x = ''AVAILABLE'')
              (\<lambda>x. x\<lparr>sn_status := ''IN_TRANSIT'', sn_referenceType := ''StockTransfer'', sn_referenceId := identText (ti_transfer item)\<rparr>)
              (db_serials s)\<rparr>)) (\<lambda>_.
     requireT (claimed = length serialNumbers) (BadRequest ''Status serial berubah saat transfer dikirim. Ulangi proses.''))))))"

section \<open>Transfers\<close>

definition checkTransferItem :: "product list \<Rightarrow> transfer_item_dto \<Rightarrow> exn + unit" where
  "checkTransferItem products item = (case find_first (\<lambda>p. pr_id p = tid_product item) products of
     None \<Rightarrow> Inl (PlainError ''TypeError'')
   | Some p \<Rightarrow>
       let batchNumber = cleanText (tid_batch item); serialNumbers = cleanSerials (tid_serials item) in
       bindE (requireE (\<not> (pr_trackBatch p \<and> batchNumber = None)) (BadRequest ''Batch wajib untuk transfer produk.'')) (\<lambda>_.
       bindE (requireE (\<not> (\<not> pr_trackBatch p \<and> batchNumber \<noteq> None)) (BadRequest ''Produk tidak memakai batch.'')) (\<lambda>_.
       bindE (requireE (\<not> (pr_trackSerial p \<and> int (length serialNumbers) \<noteq> tid_quantity item))
                (BadRequest ''Jumlah serial transfer harus sama dengan quantity.'')) (\<lambda>_.
       bindE (requireE (\<not> (\<not> pr_trackSerial p \<and> serialNumbers \<noteq> [])) (BadRequest ''Produk tidak memakai serial.'')) (\<lambda>_.
       requireE (distinct serialNumbers) (BadRequest ''Serial transfer tidak boleh duplikat.''))))))"

definition companyProducts :: "ident \<Rightarrow> bool \<Rightarrow> ident list \<Rightarrow> 'b base_db_scheme \<Rightarrow> product list" where
  "companyProducts c requireActive ids s =
     filter (\<lambda>p. List.member ids (pr_id p) \<and> pr_company p = c \<and> (requireActive \<longrightarrow> pr_isActive p)) (db_products s)"

text \<open>The products of a request: all of them active and of the company, or the request is refused.\<close>

definition requestedProducts :: "auth_user \<Rightarrow> tenant_scope \<Rightarrow> ident list \<Rightarrow> ('b base_db_scheme, product list) svc" where
  "requestedProducts user scope ids =
     bindS (getS (companyProducts (sc_company scope) True ids)) (\<lambda>products.
     if length products = length ids then returnS products
     else
       let missing = filter (\<lambda>i. \<not> list_ex (\<lambda>p. pr_id p = i) products) ids in
       bindS (getS (\<lambda>s. find_first (\<lambda>p. List.member missing (pr_id p)) (db_products s))) (\<lambda>crossTenant.
       case crossTenant of
         Some p \<Rightarrow> denyS scope user ''Product'' (Some (pr_id p))
       | None \<Rightarrow> throwS (BadRequest ''Satu atau lebih produk tidak ditemukan.'')))"

definition numberT :: "tenant_scope \<Rightarrow> string \<Rightarrow> string \<Rightarrow> ('b base_db_scheme, string) tx" where
  "numberT scope documentType prefix = onNumbering (nextDocumentNumber
     \<lparr>op_company = sc_company scope, op_branch = Some (sc_branch scope), op_documentType = documentType, op_prefix = prefix,
      op_padding = None, op_resetPolicy = None\<rparr>)"

definition addTransferItems :: "ident \<Rightarrow> transfer_item_dto list \<Rightarrow> ('b inventory_db_scheme, unit) tx" where
  "addTransferItems transferId = forT (\<lambda>item.
     bindT newIdT (\<lambda>i. modT (\<lambda>s. s\<lparr>db_transferItems := db_transferItems s @
       [\<lparr>ti_id = i, ti_transfer = transferId, ti_product = tid_product item, ti_quantity = tid_quantity item, ti_shipped = 0,
         ti_received = 0, ti_batch = cleanText (tid_batch item), ti_serials = cleanSerials (tid_serials item)\<rparr>]\<rparr>)))"

definition createTransferTx ::
    "tenant_scope \<Rightarrow> transfer_dto \<Rightarrow> warehouse \<Rightarrow> warehouse \<Rightarrow> auth_user \<Rightarrow> ('b inventory_db_scheme, stock_transfer) tx" where
  "createTransferTx scope dto source destination user =
     bindT (numberT scope ''STOCK_TRANSFER'' ''TRF'') (\<lambda>number.
     bindT (getT (\<lambda>s. find_first (\<lambda>t. st_number t = number) (db_transfers s))) (\<lambda>taken.
     bindT (requireT (taken = None) (PrismaError ''P2002'')) (\<lambda>_.
     bindT newIdT (\<lambda>i.
     let row = \<lparr>st_id = i, st_number = number, st_source = wh_id source, st_destination = wh_id destination, st_status = ''REQUESTED'',
                st_requestedBy = Some (us_sub user), st_approvedBy = None, st_shippedAt = None, st_receivedAt = None\<rparr>
     in bindT (modT (\<lambda>s. s\<lparr>db_transfers := db_transfers s @ [row]\<rparr>)) (\<lambda>_.
        bindT (addTransferItems i (trd_items dto)) (\<lambda>_.
        bindT (auditT scope user ''CREATE_STOCK_TRANSFER'' ''StockTransfer'' (Some i)) (\<lambda>_.
        returnT row)))))))"

definition createTransfer :: "transfer_dto \<Rightarrow> auth_user \<Rightarrow> ('b inventory_db_scheme, stock_transfer) svc" where
  "createTransfer dto user =
     bindS (liftS (requireTenantScope user)) (\<lambda>scope.
     bindS (requireS (trd_source dto \<noteq> trd_destination dto) (BadRequest ''Gudang asal dan tujuan harus berbeda.'')) (\<lambda>_.
     bindS (requireS (trd_items dto \<noteq> []) (BadRequest ''Transfer harus memiliki barang.'')) (\<lambda>_.
     bindS (warehouseS user scope (trd_source dto) ByBranch True) (\<lambda>source.
     bindS (warehouseS user scope (trd_destination dto) ByCompany True) (\<lambda>destination.
     bindS (requestedProducts user scope (remdups (map tid_product (trd_items dto)))) (\<lambda>products.
     bindS (liftS (mapE (checkTransferItem products) (trd_items dto))) (\<lambda>_.
     runTx (createTransferTx scope dto source destination user))))))))"

definition setTransfer :: "ident \<Rightarrow> (stock_transfer \<Rightarrow> stock_transfer) \<Rightarrow> ('b inventory_db_scheme, unit) tx" where
  "setTransfer i f = modT (\<lambda>s. s\<lparr>db_transfers := update_many (\<lambda>t. st_id t = i) f (db_transfers s)\<rparr>)"

definition approveTransfer :: "ident \<Rightarrow> auth_user \<Rightarrow> ('b inventory_db_scheme, stock_transfer) svc" where
  "approveTransfer i user =
     bindS (liftS (requireTenantScope user)) (\<lambda>scope.
     bindS (transferS user scope i True) (\<lambda>row.
     bindS (requireS (List.member [''DRAFT'', ''REQUESTED''] (st_status row)) (BadRequest ''Transfer sudah diproses.'')) (\<lambda>_.
     let f = (\<lambda>t. t\<lparr>st_status := ''APPROVED'', st_approvedBy := Some (us_sub user)\<rparr>) in
     runTx (
       bindT (setTransfer i f) (\<lambda>_.
       bindT (auditT scope user ''APPROVE_STOCK_TRANSFER'' ''StockTransfer'' (Some i)) (\<lambda>_.
       returnT (f row)))))))"

text \<open>The quantity leaves the locations, then the aggregate; one movement for each location.\<close>

definition issueStock ::
    "ident \<Rightarrow> ident \<Rightarrow> int \<Rightarrow> string \<Rightarrow> string \<Rightarrow> string \<Rightarrow> ('b base_db_scheme, unit) tx" where
  "issueStock w p quantity kind referenceType referenceId =
     bindT (onStock (bindT (consumeAvailableLocationStock w p quantity) (\<lambda>allocations.
              bindT (updateInventory w p (- quantity) 0 (- quantity)) (\<lambda>updated. returnT (allocations, updated))))) (\<lambda>(allocations, updated).
     forT (\<lambda>a. movementT w p (Some (fst a)) kind (- snd a) (inv_quantity updated) referenceType referenceId) allocations)"

definition setTransferItem :: "ident \<Rightarrow> (transfer_item \<Rightarrow> transfer_item) \<Rightarrow> ('b inventory_db_scheme, unit) tx" where
  "setTransferItem i f = modT (\<lambda>s. s\<lparr>db_transferItems := update_many (\<lambda>t. ti_id t = i) f (db_transferItems s)\<rparr>)"

definition shipItem :: "ident \<Rightarrow> transfer_item \<Rightarrow> ('b inventory_db_scheme, unit) tx" where
  "shipItem w item =
     bindT (getT (\<lambda>s. findInventory w (ti_product item) (db_stock s))) (\<lambda>inventory.
     bindT (requireT (case inventory of None \<Rightarrow> False | Some i \<Rightarrow> ti_quantity item \<le> inv_available i)
              (BadRequest ''Stok produk tidak mencukupi.'')) (\<lambda>_.
     bindT (shipBatch w item) (\<lambda>_.
     bindT (shipSerials w item) (\<lambda>_.
     bindT (issueStock w (ti_product item) (ti_quantity item) ''TRANSFER_OUT'' ''StockTransfer'' (identText (ti_transfer item))) (\<lambda>_.
     setTransferItem (ti_id item) (\<lambda>t. t\<lparr>ti_shipped := ti_quantity item\<rparr>))))))"

text \<open>The cost of the units of a document, at the products' current cost prices.\<close>

definition costOf :: "product list \<Rightarrow> ident \<Rightarrow> rat" where
  "costOf products i = (case find_first (\<lambda>p. pr_id p = i) products of None \<Rightarrow> 0 | Some p \<Rightarrow> pr_costPrice p)"

definition stockValue :: "decimal_ops \<Rightarrow> product list \<Rightarrow> (ident \<times> int) list \<Rightarrow> rat" where
  "stockValue dec products units = foldl (\<lambda>total u. d_add dec total (d_mul dec (costOf products (fst u)) (of_int (snd u)))) 0 units"

definition companyProductsT ::
    "auth_user \<Rightarrow> tenant_scope \<Rightarrow> ident list \<Rightarrow> string \<Rightarrow> ident \<Rightarrow> ('b base_db_scheme, product list) tx" where
  "companyProductsT user scope ids entityType entityId =
     bindT (getT (companyProducts (sc_company scope) False ids)) (\<lambda>products.
     if length products \<noteq> length ids then denyT scope user entityType (Some entityId) else returnT products)"

definition stockEvent ::
    "tenant_scope \<Rightarrow> ident \<Rightarrow> string \<Rightarrow> string \<Rightarrow> string \<Rightarrow> string \<Rightarrow> (string \<times> rat) list \<Rightarrow> (string \<times> string) list \<Rightarrow> post_input" where
  "stockEvent scope branchId eventType sourceType sourceId idempotencyKey amounts accountCodes =
     \<lparr>pi_company = sc_company scope, pi_branch = branchId, pi_eventType = eventType, pi_sourceType = sourceType, pi_sourceId = sourceId,
      pi_idempotencyKey = idempotencyKey, pi_businessDate = None, pi_currency = None, pi_amounts = amounts,
      pi_accountCodes = accountCodes, pi_lines = [], pi_taxLines = []\<rparr>"

text \<open>After the items: the journal of the value shipped, the event, the audit row, the status.\<close>

definition finishShipment ::
    "decimal_ops \<Rightarrow> tenant_scope \<Rightarrow> ident \<Rightarrow> auth_user \<Rightarrow> stock_transfer \<Rightarrow> transfer_item list \<Rightarrow> warehouse \<Rightarrow>
     ('b inventory_db_scheme, stock_transfer) tx" where
  "finishShipment dec scope i user transfer items source =
     bindT (companyProductsT user scope (remdups (map ti_product items)) ''StockTransferProduct'' i) (\<lambda>products.
     let total = stockValue dec products (map (\<lambda>t. (ti_product t, ti_quantity t)) items) in
     bindT (if 0 < total
            then bindT (postOperationalEvent dec (stockEvent scope (wh_branch source) ''STOCK_TRANSFER_SHIPPED'' ''StockTransfer'' (identText i)
                   (''stock-transfer-shipped:'' @ identText i) [(''gross'', total)] [(''debit'', ''1302''), (''credit'', ''1301'')])) (\<lambda>_. returnT ())
            else returnT ()) (\<lambda>_.
     bindT (outboxT (sc_company scope) ''inventory.transfer.shipped'' ''StockTransfer'' i) (\<lambda>_.
     bindT (auditT scope user ''SHIP_STOCK_TRANSFER'' ''StockTransfer'' (Some i)) (\<lambda>_.
     bindT nowT (\<lambda>t.
     let f = (\<lambda>x. x\<lparr>st_status := ''SHIPPED'', st_shippedAt := Some t\<rparr>) in
     bindT (setTransfer i f) (\<lambda>_. returnT (f transfer)))))))"

definition shipTransferTx :: "decimal_ops \<Rightarrow> tenant_scope \<Rightarrow> ident \<Rightarrow> auth_user \<Rightarrow> ('b inventory_db_scheme, stock_transfer) tx" where
  "shipTransferTx dec scope i user =
     bindT (transferT user scope i True) (\<lambda>(transfer, items, source, _).
     bindT (requireT (st_status transfer = ''APPROVED'') (BadRequest ''Transfer harus disetujui sebelum dikirim.'')) (\<lambda>_.
     bindT (forT (shipItem (wh_id source)) items) (\<lambda>_.
     finishShipment dec scope i user transfer items source)))"

definition shipTransfer :: "decimal_ops \<Rightarrow> ident \<Rightarrow> auth_user \<Rightarrow> ('b inventory_db_scheme, stock_transfer) svc" where
  "shipTransfer dec i user = bindS (liftS (requireTenantScope user)) (\<lambda>scope. runTx (shipTransferTx dec scope i user))"

end
