(* ===== verification/StockMoves.thy ===== *)
theory StockMoves
  imports StockOps
begin

text \<open>
  The rest of \<open>advanced-inventory.service.ts\<close>: receiving a transfer, relocation between locations, changes of
  condition, and stock counts from the snapshot to the adjustment.
\<close>

section \<open>Receiving a transfer\<close>

definition receiveBatch :: "ident \<Rightarrow> ident \<Rightarrow> transfer_item \<Rightarrow> int \<Rightarrow> ('b base_db_scheme, unit) tx" where
  "receiveBatch source destination item quantity = (if \<not> present (ti_batch item) then returnT () else
     let p = ti_product item; n = the (ti_batch item) in
     bindT (getT (findBatch source p n)) (\<lambda>found. case found of
       None \<Rightarrow> throwT (BadRequest ''Metadata batch tidak ditemukan pada gudang asal.'')
     | Some sourceBatch \<Rightarrow>
         bindT (getT (findBatch destination p n)) (\<lambda>existing. case existing of
           Some b \<Rightarrow> modT (\<lambda>s. s\<lparr>db_batches := update_many (\<lambda>x. bt_warehouse x = destination \<and> bt_product x = p \<and> bt_number x = n)
                       (\<lambda>x. x\<lparr>bt_quantity := bt_quantity x + quantity\<rparr>) (db_batches s)\<rparr>)
         | None \<Rightarrow> bindT newIdT (\<lambda>i. modT (\<lambda>s. s\<lparr>db_batches := db_batches s @
                     [\<lparr>bt_id = i, bt_warehouse = destination, bt_product = p, bt_number = n, bt_produced = bt_produced sourceBatch,
                       bt_expiry = bt_expiry sourceBatch, bt_quantity = quantity, bt_reserved = 0\<rparr>]\<rparr>)))))"

definition inTransit :: "ident \<Rightarrow> transfer_item \<Rightarrow> string list \<Rightarrow> serial \<Rightarrow> bool" where
  "inTransit source item numbers x \<longleftrightarrow> List.member numbers (sn_number x) \<and> sn_warehouse x = source \<and> sn_product x = ti_product item \<and>
     sn_status x = ''IN_TRANSIT'' \<and> sn_referenceType x = ''StockTransfer'' \<and> sn_referenceId x = identText (ti_transfer item)"

definition receiveSerials :: "ident \<Rightarrow> ident \<Rightarrow> transfer_item \<Rightarrow> receive_item_dto \<Rightarrow> int \<Rightarrow> ('b base_db_scheme, unit) tx" where
  "receiveSerials source destination item input remaining =
     (let manifest = cleanSerials (ti_serials item); requested = cleanSerials (rid_serials input); quantity = rid_quantity input in
      if manifest = [] then returnT ()
      else
        bindT (getT (\<lambda>s. if requested = [] \<and> quantity = remaining
                 then take (nat quantity) (sort_key (\<lambda>x. x) (map sn_number (filter (inTransit source item manifest) (db_serials s))))
                 else requested)) (\<lambda>receive.
        bindT (requireT (int (length receive) = quantity)
                 (BadRequest ''Penerimaan parsial produk serial wajib menyebut serialNumbers tepat sejumlah receivedQty.'')) (\<lambda>_.
        bindT (requireT (list_all (\<lambda>n. List.member manifest n) receive)
                 (BadRequest ''Serial penerimaan bukan bagian dari manifest transfer.'')) (\<lambda>_.
        bindT (getT (\<lambda>s. count_where (inTransit source item receive) (db_serials s))) (\<lambda>moved.
        bindT (modT (\<lambda>s. s\<lparr>db_serials := update_many (inTransit source item receive)
                 (\<lambda>x. x\<lparr>sn_warehouse := destination, sn_status := ''AVAILABLE'', sn_referenceType := ''StockTransferReceipt'',
                        sn_referenceId := identText (ti_transfer item) @ '':'' @ identText (ti_id item)\<rparr>) (db_serials s)\<rparr>)) (\<lambda>_.
        requireT (int moved = quantity) (BadRequest ''Serial in-transit tidak lengkap atau sudah diterima sebelumnya.'')))))))"

text \<open>The quantity enters the default location and the aggregate; one movement.\<close>

definition depositStock ::
    "ident \<Rightarrow> ident \<Rightarrow> int \<Rightarrow> string \<Rightarrow> string \<Rightarrow> string \<Rightarrow> ('b base_db_scheme, unit) tx" where
  "depositStock w p quantity kind referenceType referenceId =
     bindT (onStock (bindT (depositLocationStock w p quantity None) (\<lambda>(l, _).
              bindT (upsertInventory w p quantity quantity) (\<lambda>row. returnT (l, row))))) (\<lambda>(l, row).
     movementT w p (Some l) kind quantity (inv_quantity row) referenceType referenceId)"

text \<open>The items are the ones read when the transaction began: the guard does not see what an earlier line received.\<close>

definition receiveItem ::
    "ident \<Rightarrow> warehouse \<Rightarrow> warehouse \<Rightarrow> transfer_item list \<Rightarrow> receive_item_dto \<Rightarrow> ('b inventory_db_scheme, unit) tx" where
  "receiveItem i source destination items input = (case find_first (\<lambda>t. ti_id t = rid_item input) items of
     None \<Rightarrow> throwT (BadRequest ''Item transfer tidak ditemukan.'')
   | Some item \<Rightarrow>
       let remaining = ti_shipped item - ti_received item in
       bindT (requireT (rid_quantity input \<le> remaining) (BadRequest ''Jumlah diterima melebihi jumlah dalam perjalanan.'')) (\<lambda>_.
       if rid_quantity input = 0 then returnT ()
       else
         bindT (receiveBatch (wh_id source) (wh_id destination) item (rid_quantity input)) (\<lambda>_.
         bindT (receiveSerials (wh_id source) (wh_id destination) item input remaining) (\<lambda>_.
         bindT (depositStock (wh_id destination) (ti_product item) (rid_quantity input) ''TRANSFER_IN'' ''StockTransfer'' (identText i)) (\<lambda>_.
         setTransferItem (ti_id item) (\<lambda>t. t\<lparr>ti_received := ti_received t + rid_quantity input\<rparr>))))))"

definition productOfItem :: "transfer_item list \<Rightarrow> ident \<Rightarrow> ident" where
  "productOfItem items i = (case find_first (\<lambda>t. ti_id t = i) items of None \<Rightarrow> 0 | Some t \<Rightarrow> ti_product t)"

definition finishReceipt ::
    "decimal_ops \<Rightarrow> tenant_scope \<Rightarrow> ident \<Rightarrow> receive_item_dto list \<Rightarrow> auth_user \<Rightarrow> stock_transfer \<Rightarrow> transfer_item list \<Rightarrow> warehouse \<Rightarrow>
     ('b inventory_db_scheme, stock_transfer) tx" where
  "finishReceipt dec scope i inputs user transfer items destination =
     bindT (getT (itemsOf i)) (\<lambda>updatedItems.
     let complete = list_all (\<lambda>t. ti_shipped t \<le> ti_received t) updatedItems;
         received = filter (\<lambda>x. 0 < rid_quantity x) inputs;
         ids = remdups (map ti_product (filter (\<lambda>t. list_ex (\<lambda>x. rid_item x = ti_id t) received) items)) in
     bindT (companyProductsT user scope ids ''StockTransferProduct'' i) (\<lambda>products.
     let total = stockValue dec products (map (\<lambda>x. (productOfItem items (rid_item x), rid_quantity x)) received);
         reference = identText i @ '':'' @ intText (sum_list (map ti_received updatedItems)) in
     bindT (if 0 < total
            then bindT (postOperationalEvent dec (stockEvent scope (wh_branch destination) ''STOCK_TRANSFER_RECEIVED'' ''StockTransferReceipt'' reference
                   (''stock-transfer-received:'' @ reference) [(''gross'', total)] [(''debit'', ''1301''), (''credit'', ''1302'')])) (\<lambda>_. returnT ())
            else returnT ()) (\<lambda>_.
     bindT (outboxT (sc_company scope) (if complete then ''inventory.transfer.received'' else ''inventory.transfer.partially_received'')
              ''StockTransfer'' i) (\<lambda>_.
     bindT (auditT scope user ''RECEIVE_STOCK_TRANSFER'' ''StockTransfer'' (Some i)) (\<lambda>_.
     bindT nowT (\<lambda>t.
     let f = (\<lambda>x. x\<lparr>st_status := (if complete then ''RECEIVED'' else ''PARTIALLY_RECEIVED''),
                      st_receivedAt := (if complete then Some t else st_receivedAt x)\<rparr>) in
     bindT (setTransfer i f) (\<lambda>_. returnT (f transfer))))))))"

definition receiveTransferTx ::
    "decimal_ops \<Rightarrow> tenant_scope \<Rightarrow> ident \<Rightarrow> receive_item_dto list \<Rightarrow> auth_user \<Rightarrow> ('b inventory_db_scheme, stock_transfer) tx" where
  "receiveTransferTx dec scope i inputs user =
     bindT (transferT user scope i False) (\<lambda>(transfer, items, source, destination).
     bindT (requireT (List.member [''SHIPPED'', ''PARTIALLY_RECEIVED''] (st_status transfer))
              (BadRequest ''Transfer belum dikirim atau sudah selesai.'')) (\<lambda>_.
     bindT (forT (receiveItem i source destination items) inputs) (\<lambda>_.
     finishReceipt dec scope i inputs user transfer items destination)))"

definition receiveTransfer ::
    "decimal_ops \<Rightarrow> ident \<Rightarrow> receive_item_dto list \<Rightarrow> auth_user \<Rightarrow> ('b inventory_db_scheme, stock_transfer) svc" where
  "receiveTransfer dec i inputs user = bindS (liftS (requireTenantScope user)) (\<lambda>scope. runTx (receiveTransferTx dec scope i inputs user))"

section \<open>Relocation\<close>

definition activeProduct :: "tenant_scope \<Rightarrow> ident \<Rightarrow> 'b base_db_scheme \<Rightarrow> bool" where
  "activeProduct scope p s \<longleftrightarrow> list_ex (\<lambda>x. pr_id x = p \<and> pr_company x = sc_company scope \<and> pr_isActive x) (db_products s)"

definition relocateTx :: "tenant_scope \<Rightarrow> relocate_dto \<Rightarrow> ident \<Rightarrow> ident \<Rightarrow> auth_user \<Rightarrow> ('b base_db_scheme, ident) tx" where
  "relocateTx scope dto w referenceId user =
     bindT (onStock (relocateLocationStock w (rld_product dto) (rld_source dto) (rld_destination dto) (rld_quantity dto))) (\<lambda>_.
     bindT (getT (\<lambda>s. aggregate Quantity w (rld_product dto) (db_stock s))) (\<lambda>balanceAfter.
     bindT (movementT w (rld_product dto) (Some (rld_source dto)) ''LOCATION_MOVE_OUT'' (- rld_quantity dto) balanceAfter
              ''LocationRelocation'' (identText referenceId)) (\<lambda>_.
     bindT (movementT w (rld_product dto) (Some (rld_destination dto)) ''LOCATION_MOVE_IN'' (rld_quantity dto) balanceAfter
              ''LocationRelocation'' (identText referenceId)) (\<lambda>_.
     bindT (auditT scope user ''RELOCATE_INVENTORY_LOCATION'' ''InventoryLocationBalance'' (Some referenceId)) (\<lambda>_.
     bindT (outboxT (sc_company scope) ''inventory.location.relocated'' ''InventoryLocationBalance'' referenceId) (\<lambda>_.
     returnT referenceId))))))"

definition relocateLocation :: "relocate_dto \<Rightarrow> auth_user \<Rightarrow> ('b base_db_scheme, ident) svc" where
  "relocateLocation dto user =
     bindS (liftS (requireTenantScope user)) (\<lambda>scope.
     bindS (warehouseS user scope (rld_warehouse dto) ByBranch True) (\<lambda>w.
     bindS (getS (activeProduct scope (rld_product dto))) (\<lambda>found.
     bindS (requireS found (BadRequest ''Produk tidak ditemukan atau tidak aktif.'')) (\<lambda>_.
     bindS (runTx newIdT) (\<lambda>referenceId.
     runTx (relocateTx scope dto (wh_id w) referenceId user))))))"

section \<open>Conditions\<close>

definition findCondition :: "ident \<Rightarrow> ident \<Rightarrow> condition \<Rightarrow> stock \<Rightarrow> cbalance option" where
  "findCondition l p c s = find_first (\<lambda>r. cb_location r = l \<and> cb_product r = p \<and> cb_condition r = c) (conditions s)"

definition isBalanceAt :: "ident \<Rightarrow> ident \<Rightarrow> balance \<Rightarrow> bool" where
  "isBalanceAt l p b \<longleftrightarrow> bal_location b = l \<and> bal_product b = p"

text \<open>Free stock leaves the sellable levels, or returns to them, with the condition.\<close>

definition takeSellable :: "ident \<Rightarrow> ident \<Rightarrow> ident \<Rightarrow> int \<Rightarrow> (stock, unit) tx" where
  "takeSellable w l p q =
     bindT (updateBalances (\<lambda>b. isBalanceAt l p b \<and> q \<le> bal_available b) (\<lambda>b. b\<lparr>bal_available := bal_available b - q\<rparr>)) (\<lambda>locationChanged.
     bindT (getT (\<lambda>s. count_where (\<lambda>i. inventoryOf w p i \<and> q \<le> inv_available i) (inventories s))) (\<lambda>inventoryChanged.
     bindT (requireT (locationChanged = 1 \<and> inventoryChanged = 1)
              (BadRequest ''Saldo sellable berubah saat perubahan kondisi. Ulangi transaksi.'')) (\<lambda>_.
     bindT (updateInventory w p 0 0 (- q)) (\<lambda>_. returnT ()))))"

definition returnSellable :: "ident \<Rightarrow> ident \<Rightarrow> ident \<Rightarrow> int \<Rightarrow> (stock, unit) tx" where
  "returnSellable w l p q =
     bindT (updateBalances (isBalanceAt l p) (\<lambda>b. b\<lparr>bal_available := bal_available b + q\<rparr>)) (\<lambda>changed.
     bindT (requireT (0 < changed) (PrismaError ''P2025'')) (\<lambda>_.
     bindT (updateInventory w p 0 0 q) (\<lambda>_. returnT ())))"

definition moveConditionStock :: "condition_dto \<Rightarrow> (stock, unit) tx" where
  "moveConditionStock dto =
     (let w = cnd_warehouse dto; l = cnd_location dto; p = cnd_product dto; q = cnd_quantity dto in
      bindT (prepareConditionInventory w p) (\<lambda>_.
      bindT (assertLocation w l) (\<lambda>_.
      bindT (getT (findCondition l p (cnd_from dto))) (\<lambda>found. case found of
        None \<Rightarrow> throwT (BadRequest ''Saldo kondisi tidak mencukupi.'')
      | Some source \<Rightarrow>
          bindT (requireT (q \<le> cb_quantity source) (BadRequest ''Saldo kondisi tidak mencukupi.'')) (\<lambda>_.
          bindT (getT (\<lambda>s. find_first (isBalanceAt l p) (balances s))) (\<lambda>free.
          bindT (requireT (cnd_from dto = AVAILABLE \<longrightarrow> (case free of None \<Rightarrow> False | Some b \<Rightarrow> q \<le> bal_available b))
                   (BadRequest ''Stok AVAILABLE yang bebas reservasi tidak mencukupi untuk perubahan kondisi.'')) (\<lambda>_.
          bindT (updateConditions (\<lambda>c. cb_id c = cb_id source \<and> q \<le> cb_quantity c) (\<lambda>c. c\<lparr>cb_quantity := cb_quantity c - q\<rparr>)) (\<lambda>reduced.
          bindT (requireT (reduced = 1) (BadRequest ''Saldo kondisi berubah saat diproses. Ulangi transaksi.'')) (\<lambda>_.
          bindT (upsertCondition w l p (cnd_to dto) q) (\<lambda>_.
          if cnd_from dto = AVAILABLE then takeSellable w l p q
          else if cnd_to dto = AVAILABLE then returnSellable w l p q
          else returnT ()))))))))))"

definition moveConditionTx :: "tenant_scope \<Rightarrow> condition_dto \<Rightarrow> ident \<Rightarrow> auth_user \<Rightarrow> ('b inventory_db_scheme, condition_movement) tx" where
  "moveConditionTx scope dto referenceId user =
     bindT (onStock (moveConditionStock dto)) (\<lambda>_.
     let row = \<lparr>cm_id = referenceId, cm_warehouse = cnd_warehouse dto, cm_location = cnd_location dto, cm_product = cnd_product dto,
                cm_from = cnd_from dto, cm_to = cnd_to dto, cm_quantity = cnd_quantity dto, cm_createdBy = us_sub user\<rparr>
     in bindT (modT (\<lambda>s. s\<lparr>db_conditionMovements := db_conditionMovements s @ [row]\<rparr>)) (\<lambda>_.
        bindT (auditT scope user ''MOVE_INVENTORY_CONDITION'' ''InventoryConditionMovement'' (Some referenceId)) (\<lambda>_.
        bindT (outboxT (sc_company scope) ''inventory.condition.moved'' ''InventoryConditionMovement'' referenceId) (\<lambda>_.
        returnT row))))"

definition moveCondition :: "condition_dto \<Rightarrow> auth_user \<Rightarrow> ('b inventory_db_scheme, condition_movement) svc" where
  "moveCondition dto user =
     bindS (liftS (requireTenantScope user)) (\<lambda>scope.
     bindS (requireS (cnd_from dto \<noteq> cnd_to dto) (BadRequest ''Kondisi asal dan tujuan harus berbeda.'')) (\<lambda>_.
     bindS (warehouseS user scope (cnd_warehouse dto) ByBranch True) (\<lambda>_.
     bindS (getS (activeProduct scope (cnd_product dto))) (\<lambda>found.
     bindS (requireS found (BadRequest ''Produk tidak ditemukan atau tidak aktif.'')) (\<lambda>_.
     bindS (runTx newIdT) (\<lambda>referenceId.
     runTx (moveConditionTx scope dto referenceId user)))))))"

section \<open>Materialising listings\<close>

definition listLocationBalances :: "auth_user \<Rightarrow> ident \<Rightarrow> ident option \<Rightarrow> ('b base_db_scheme, (balance \<times> location option) list) svc" where
  "listLocationBalances user w productId =
     bindS (liftS (requireTenantScope user)) (\<lambda>scope.
     bindS (warehouseS user scope w ByBranch False) (\<lambda>_. runTx (
       bindT (getT (\<lambda>s. map inv_product (filter (\<lambda>i. inv_warehouse i = w \<and> (productId = None \<or> productId = Some (inv_product i)))
                (inventories (db_stock s))))) (\<lambda>ps.
       bindT (forT (\<lambda>p. bindT (onStock (prepareLocationInventory w p)) (\<lambda>_. returnT ())) ps) (\<lambda>_.
       getT (\<lambda>s. map (\<lambda>b. (b, find_first (\<lambda>l. loc_id l = bal_location b \<and> loc_warehouse l = w) (locations (db_stock s))))
         (sort_key bal_location (sort_key bal_product (filter (\<lambda>b. bal_warehouse b = w \<and>
            (productId = None \<or> productId = Some (bal_product b))) (balances (db_stock s)))))))))))"

definition listConditionBalances :: "auth_user \<Rightarrow> ident \<Rightarrow> ident \<Rightarrow> ('b base_db_scheme, (cbalance \<times> location option) list) svc" where
  "listConditionBalances user w p =
     bindS (liftS (requireTenantScope user)) (\<lambda>scope.
     bindS (warehouseS user scope w ByBranch False) (\<lambda>_.
     bindS (getS (\<lambda>s. list_ex (\<lambda>x. pr_id x = p \<and> pr_company x = sc_company scope) (db_products s))) (\<lambda>found.
     bindS (requireS found (BadRequest ''Produk tidak ditemukan dalam company aktif.'')) (\<lambda>_. runTx (
       bindT (onStock (prepareConditionInventory w p)) (\<lambda>_.
       getT (\<lambda>s. map (\<lambda>c. (c, find_first (\<lambda>l. loc_id l = cb_location c \<and> loc_warehouse l = w) (locations (db_stock s))))
         (sort_key cb_location (sort_key (\<lambda>c. condition_rank (cb_condition c))
           (filter (\<lambda>c. cb_warehouse c = w \<and> cb_product c = p \<and> 0 < cb_quantity c) (conditions (db_stock s))))))))))))"

section \<open>Stock counts\<close>

definition tracksBatch :: "ident \<Rightarrow> 'b base_db_scheme \<Rightarrow> bool" where
  "tracksBatch p s \<longleftrightarrow> list_ex (\<lambda>x. pr_id x = p \<and> pr_trackBatch x) (db_products s)"

text \<open>Batches by expiry date, those without one last, then by number.\<close>

definition batchPrecedes :: "stock_batch \<Rightarrow> stock_batch \<Rightarrow> bool" where
  "batchPrecedes a b \<longleftrightarrow> (case (bt_expiry a, bt_expiry b) of
     (Some x, Some y) \<Rightarrow> x < y \<or> (x = y \<and> bt_number a \<le> bt_number b)
   | (Some _, None) \<Rightarrow> True | (None, Some _) \<Rightarrow> False | (None, None) \<Rightarrow> bt_number a \<le> bt_number b)"

definition snapshotOf :: "ident \<Rightarrow> inventory \<Rightarrow> (ident \<times> string option \<times> int) list \<Rightarrow>
    ('b base_db_scheme, (ident \<times> string option \<times> int) list) tx" where
  "snapshotOf w i acc =
     bindT (getT (tracksBatch (inv_product i))) (\<lambda>tracks.
     if \<not> tracks then returnT (acc @ [(inv_product i, None, inv_quantity i)])
     else
       bindT (getT (\<lambda>s. sortBy batchPrecedes (filter (\<lambda>b. bt_warehouse b = w \<and> bt_product b = inv_product i) (db_batches s)))) (\<lambda>batches.
       bindT (requireT (sum_list (map bt_quantity batches) = inv_quantity i) (BadRequest ''BATCH_INVENTORY_DRIFT'')) (\<lambda>_.
       returnT (acc @ map (\<lambda>b. (inv_product i, Some (bt_number b), bt_quantity b)) batches))))"

definition addOpnameItems :: "ident \<Rightarrow> (ident \<times> string option \<times> int) list \<Rightarrow> ('b inventory_db_scheme, unit) tx" where
  "addOpnameItems opnameId = forT (\<lambda>(p, batch, systemQty).
     bindT newIdT (\<lambda>i. modT (\<lambda>s. s\<lparr>db_opnameItems := db_opnameItems s @
       [\<lparr>oi_id = i, oi_opname = opnameId, oi_product = p, oi_batch = batch, oi_system = systemQty, oi_counted = None,
         oi_difference = None, oi_reason = None\<rparr>]\<rparr>)))"

definition createOpnameTx :: "tenant_scope \<Rightarrow> opname_dto \<Rightarrow> ident \<Rightarrow> auth_user \<Rightarrow> ('b inventory_db_scheme, opname) tx" where
  "createOpnameTx scope dto w user =
     bindT (getT (\<lambda>s. filter (\<lambda>i. inv_warehouse i = w) (inventories (db_stock s)))) (\<lambda>warehouseInventories.
     bindT (forT (\<lambda>i. bindT (onStock (prepareLocationInventory w (inv_product i))) (\<lambda>_. returnT ())) warehouseInventories) (\<lambda>_.
     bindT (case opd_location dto of
              Some l \<Rightarrow> getT (\<lambda>s. map (\<lambda>b. (bal_product b, None, bal_quantity b))
                (filter (\<lambda>b. bal_warehouse b = w \<and> bal_location b = l) (balances (db_stock s))))
            | None \<Rightarrow> foldT (snapshotOf w) warehouseInventories []) (\<lambda>snapshotItems.
     bindT (numberT scope ''STOCK_OPNAME'' ''SO'') (\<lambda>number.
     bindT (getT (\<lambda>s. find_first (\<lambda>t. on_number t = number) (db_opnames s))) (\<lambda>taken.
     bindT (requireT (taken = None) (PrismaError ''P2002'')) (\<lambda>_.
     bindT newIdT (\<lambda>i.
     let row = \<lparr>on_id = i, on_number = number, on_warehouse = w, on_location = opd_location dto, on_status = ''COUNTING'',
                on_createdBy = Some (us_sub user), on_approvedBy = None, on_completedAt = None\<rparr>
     in bindT (modT (\<lambda>s. s\<lparr>db_opnames := db_opnames s @ [row]\<rparr>)) (\<lambda>_.
        bindT (addOpnameItems i snapshotItems) (\<lambda>_.
        bindT (auditT scope user ''CREATE_STOCK_OPNAME'' ''StockOpname'' (Some i)) (\<lambda>_.
        returnT row))))))))))"

definition createOpname :: "opname_dto \<Rightarrow> auth_user \<Rightarrow> ('b inventory_db_scheme, opname) svc" where
  "createOpname dto user =
     bindS (liftS (requireTenantScope user)) (\<lambda>scope.
     bindS (warehouseS user scope (opd_warehouse dto) ByBranch True) (\<lambda>w.
     bindS (getS (\<lambda>s. case opd_location dto of None \<Rightarrow> True
              | Some l \<Rightarrow> list_ex (\<lambda>x. loc_id x = l \<and> loc_warehouse x = wh_id w \<and> loc_isActive x) (locations (db_stock s)))) (\<lambda>found.
     if \<not> found then denyS scope user ''WarehouseLocation'' (opd_location dto)
     else runTx (createOpnameTx scope dto (wh_id w) user))))"

definition countItem :: "ident \<Rightarrow> count_item_dto \<Rightarrow> ('b inventory_db_scheme, unit) tx" where
  "countItem i input =
     bindT (getT (\<lambda>s. find_first (\<lambda>t. oi_id t = cid_item input \<and> oi_opname t = i) (db_opnameItems s))) (\<lambda>found. case found of
       None \<Rightarrow> throwT (BadRequest ''Item opname tidak ditemukan.'')
     | Some item \<Rightarrow> modT (\<lambda>s. s\<lparr>db_opnameItems := update_many (\<lambda>t. oi_id t = oi_id item)
         (\<lambda>t. t\<lparr>oi_counted := Some (cid_counted input), oi_difference := Some (cid_counted input - oi_system item),
                 oi_reason := (case cid_reason input of None \<Rightarrow> oi_reason t | Some r \<Rightarrow> Some r)\<rparr>) (db_opnameItems s)\<rparr>))"

definition countOpname :: "ident \<Rightarrow> count_item_dto list \<Rightarrow> auth_user \<Rightarrow> ('b inventory_db_scheme, opname) svc" where
  "countOpname i inputs user =
     bindS (liftS (requireTenantScope user)) (\<lambda>scope.
     bindS (opnameS user scope i) (\<lambda>(row, _).
     bindS (requireS (on_status row = ''COUNTING'') (BadRequest ''Stock opname tidak dalam proses penghitungan.'')) (\<lambda>_. runTx (
       bindT (forT (countItem i) inputs) (\<lambda>_.
       bindT (auditT scope user ''COUNT_STOCK_OPNAME'' ''StockOpname'' (Some i)) (\<lambda>_.
       returnT row))))))"

definition setOpname :: "ident \<Rightarrow> (opname \<Rightarrow> opname) \<Rightarrow> ('b inventory_db_scheme, unit) tx" where
  "setOpname i f = modT (\<lambda>s. s\<lparr>db_opnames := update_many (\<lambda>t. on_id t = i) f (db_opnames s)\<rparr>)"

text \<open>The only condition is that every item has been counted.\<close>

definition submitOpname :: "ident \<Rightarrow> auth_user \<Rightarrow> ('b inventory_db_scheme, opname) svc" where
  "submitOpname i user =
     bindS (liftS (requireTenantScope user)) (\<lambda>scope.
     bindS (opnameS user scope i) (\<lambda>(row, items).
     bindS (requireS (\<not> list_ex (\<lambda>t. oi_counted t = None) items) (BadRequest ''Semua barang harus dihitung sebelum diajukan.'')) (\<lambda>_.
     let f = (\<lambda>x. x\<lparr>on_status := ''WAITING_APPROVAL''\<rparr>) in
     runTx (
       bindT (setOpname i f) (\<lambda>_.
       bindT (auditT scope user ''SUBMIT_STOCK_OPNAME'' ''StockOpname'' (Some i)) (\<lambda>_.
       returnT (f row)))))))"

definition adjustBatch :: "ident \<Rightarrow> opname_item \<Rightarrow> int \<Rightarrow> ('b base_db_scheme, unit) tx" where
  "adjustBatch w item difference = (if \<not> present (oi_batch item) then returnT () else
     bindT (getT (findBatch w (oi_product item) (the (oi_batch item)))) (\<lambda>found. case found of
       None \<Rightarrow> throwT (BadRequest ''Batch pada opname tidak ditemukan.'')
     | Some b \<Rightarrow>
         bindT (requireT (\<not> (difference < 0 \<and> bt_quantity b - bt_reserved b < \<bar>difference\<bar>))
                  (BadRequest ''Stok bebas batch tidak cukup untuk adjustment opname.'')) (\<lambda>_.
         modT (\<lambda>s. s\<lparr>db_batches := update_many (\<lambda>x. bt_id x = bt_id b)
           (\<lambda>x. x\<lparr>bt_quantity := bt_quantity x + difference\<rparr>) (db_batches s)\<rparr>))))"

text \<open>
  The locations first, then the aggregate. The new values of the aggregate are computed from the row read in the
  same transaction, so setting them is adding the difference.
\<close>

definition adjustStock :: "ident \<Rightarrow> ident \<Rightarrow> ident option \<Rightarrow> int \<Rightarrow> (stock, allocation list \<times> inventory) tx" where
  "adjustStock w p locationId difference =
     bindT (case locationId of
              Some l \<Rightarrow> bindT (adjustLocationStock w p difference (Some l)) (\<lambda>change.
                returnT (case change of None \<Rightarrow> [] | Some x \<Rightarrow> [(x, \<bar>difference\<bar>)]))
            | None \<Rightarrow>
                if 0 < difference then bindT (depositLocationStock w p difference None) (\<lambda>(l, _). returnT [(l, difference)])
                else consumeAvailableLocationStock w p \<bar>difference\<bar>) (\<lambda>changes.
     bindT (getT (\<lambda>s. (aggregate Quantity w p s + difference, aggregate Available w p s + difference))) (\<lambda>(nextQuantity, nextAvailable).
     bindT (requireT (0 \<le> nextQuantity \<and> 0 \<le> nextAvailable)
              (BadRequest ''Adjustment opname membuat stok aggregate negatif atau mengurangi stok yang sedang direservasi.'')) (\<lambda>_.
     bindT (upsertInventory w p difference difference) (\<lambda>row. returnT (changes, row)))))"

definition completeItem ::
    "decimal_ops \<Rightarrow> product list \<Rightarrow> opname \<Rightarrow> ident \<Rightarrow> opname_item \<Rightarrow> rat \<times> rat \<Rightarrow> ('b base_db_scheme, rat \<times> rat) tx" where
  "completeItem dec products opn w item = (\<lambda>(gain, loss).
     let difference = (case oi_counted item of None \<Rightarrow> 0 | Some c \<Rightarrow> c - oi_system item) in
     if difference = 0 then returnT (gain, loss)
     else
       let adjustment = d_mul dec (costOf products (oi_product item)) (of_int \<bar>difference\<bar>) in
       bindT (adjustBatch w item difference) (\<lambda>_.
       bindT (onStock (adjustStock w (oi_product item) (on_location opn) difference)) (\<lambda>(changes, row).
       bindT (forT (\<lambda>c. movementT w (oi_product item) (Some (fst c)) (if 0 < difference then ''ADJUSTMENT_IN'' else ''ADJUSTMENT_OUT'')
                (if 0 < difference then snd c else - snd c) (inv_quantity row) ''StockOpname'' (identText (on_id opn))) changes) (\<lambda>_.
       returnT (if 0 < difference then (d_add dec gain adjustment, loss) else (gain, d_add dec loss adjustment))))))"

definition completeOpnameTx :: "decimal_ops \<Rightarrow> tenant_scope \<Rightarrow> ident \<Rightarrow> auth_user \<Rightarrow> ('b inventory_db_scheme, opname) tx" where
  "completeOpnameTx dec scope i user =
     bindT (opnameT user scope i) (\<lambda>(opn, items, w).
     bindT (requireT (on_status opn = ''WAITING_APPROVAL'') (BadRequest ''Stock opname belum diajukan untuk persetujuan.'')) (\<lambda>_.
     bindT (companyProductsT user scope (remdups (map oi_product items)) ''StockOpnameProduct'' i) (\<lambda>products.
     bindT (foldT (completeItem dec products opn (wh_id w)) items (0, 0)) (\<lambda>(gain, loss).
     bindT (if 0 < gain \<or> 0 < loss
            then bindT (postOperationalEvent dec (stockEvent scope (sc_branch scope) ''STOCK_OPNAME_ADJUSTMENT'' ''StockOpname'' (identText i)
                   (''stock-opname:'' @ identText i)
                   [(''inventoryGain'', gain), (''gain'', gain), (''loss'', loss), (''inventoryLoss'', loss)]
                   [(''inventoryGain'', ''1301''), (''gain'', ''4201''), (''loss'', ''5102''), (''inventoryLoss'', ''1301'')])) (\<lambda>_. returnT ())
            else returnT ()) (\<lambda>_.
     bindT (outboxT (sc_company scope) ''inventory.opname.completed'' ''StockOpname'' i) (\<lambda>_.
     bindT (auditT scope user ''COMPLETE_STOCK_OPNAME'' ''StockOpname'' (Some i)) (\<lambda>_.
     bindT nowT (\<lambda>t.
     let f = (\<lambda>x. x\<lparr>on_status := ''COMPLETED'', on_approvedBy := Some (us_sub user), on_completedAt := Some t\<rparr>) in
     bindT (setOpname i f) (\<lambda>_. returnT (f opn))))))))))"

definition completeOpname :: "decimal_ops \<Rightarrow> ident \<Rightarrow> auth_user \<Rightarrow> ('b inventory_db_scheme, opname) svc" where
  "completeOpname dec i user = bindS (liftS (requireTenantScope user)) (\<lambda>scope. runTx (completeOpnameTx dec scope i user))"

end
