(* ===== verification/Frames.thy ===== *)
theory Frames
  imports Keeps AccountingPosting
begin

text \<open>
  What every handler does besides its own tables: ids, numbers, audit rows, outbox events, movements, journals.
  An invariant that reads none of these tables, and of the id counter no more than that it grows, is kept by all
  of it; the locale states that once, and each invariant is an interpretation.
\<close>

locale bystander =
  fixes I :: "'b accounting_db_scheme \<Rightarrow> bool"
  assumes nextId: "I s \<Longrightarrow> I (s\<lparr>db_nextId := Suc (db_nextId s)\<rparr>)"
    and numbering: "I (s\<lparr>db_numbering := m\<rparr>) = I s"
    and receipts: "I (s\<lparr>db_receipts := r\<rparr>) = I s"
    and audits: "I (s\<lparr>db_audits := a\<rparr>) = I s"
    and outbox: "I (s\<lparr>db_outbox := e\<rparr>) = I s"
    and movements: "I (s\<lparr>db_movements := v\<rparr>) = I s"
    and batches: "I (s\<lparr>db_batches := b\<rparr>) = I s"
    and serials: "I (s\<lparr>db_serials := l\<rparr>) = I s"
    and events: "I (s\<lparr>db_events := ev\<rparr>) = I s"
    and journals: "I (s\<lparr>db_journals := j\<rparr>) = I s"
    and postings: "I (s\<lparr>db_postings := p\<rparr>) = I s"
    and taxes: "I (s\<lparr>db_taxTransactions := t\<rparr>) = I s"
begin

lemmas frames = numbering receipts audits outbox movements batches serials events journals postings taxes

lemma newId_keeps [keeps_rules]: "keeps I newIdT"
  by (auto simp: keeps_def newIdT_Inr intro: nextId)

lemma now_keeps [keeps_rules]: "keeps I nowT"
  by (simp add: keeps_def nowT_Inr)

lemma audit_keeps [keeps_rules]: "keeps I (auditT scope user a t i)"
  by (simp add: keeps_def auditT_Inr frames)

lemma denyS_keeps [keeps_rules]: "keepsS I (denyS scope user t i)"
  unfolding denyS_def auditS_def by (intro keeps_rules)

lemma outbox_keeps [keeps_rules]: "keeps I (outboxT c e t i)"
  by (simp add: keeps_def outboxT_Inr frames)

lemma numbering_keeps [keeps_rules]: "keeps I (onNumbering x)"
  by (auto simp: keeps_def onNumbering_Inr frames)

lemma receipts_keeps [keeps_rules]: "keeps I (onReceiptTable x)"
  by (auto simp: keeps_def onReceiptTable_Inr frames)

lemma checkTaxLine_keeps [keeps_rules]: "keeps I (checkTaxLine c d l)"
  unfolding checkTaxLine_def by (intro keeps_rules)

lemma calculateTax_keeps [keeps_rules]: "keeps I (calculateTax dec taxCode amount c d x)"
  unfolding calculateTax_def by (intro keeps_rules)

lemma postOperationalEvent_keeps [keeps_rules]: "keeps I (postOperationalEvent dec input)"
  unfolding postOperationalEvent_def postNewEvent_def postingGuards_def createJournal_def
  by (intro keeps_rules keeps_frame) (simp_all add: frames)

lemma requestedScope_keeps [keeps_rules]: "keepsS I (assertRequestedScope user scope c b t)"
  unfolding assertRequestedScope_def by (intro keeps_rules)

end

text \<open>The stock tables are a bystander of all of these.\<close>

abbreviation stockKept :: "'b accounting_db_scheme \<Rightarrow> bool" where
  "stockKept \<equiv> (\<lambda>s. reconciled (db_stock s))"

interpretation stock_frame: bystander stockKept
  by unfold_locales simp_all

end
