(* ===== verification/StockProperties.thy ===== *)
theory StockProperties
  imports StockMoves Frames LocationProperties
begin

text \<open>
  The stock operations keep the locations and the aggregates reconciled: whatever requests are served, the
  balances of a product's locations add up to its row of the warehouse. And what they do to the units: transfers
  neither create nor lose any. And what two of the guards let through.
\<close>

section \<open>The operations on the stock tables\<close>

lemma prepareLocation_keeps: "keeps reconciled (prepareLocationInventory w p)"
  by (rule keepsI) (metis prepareLocation_stays stays_reconciled reconciled_def surj_pair)

lemma prepareCondition_keeps: "keeps reconciled (prepareConditionInventory w p)"
  by (rule keepsI) (metis prepareCondition_stays stays_reconciled reconciled_def)

lemma relocate_keeps: "keeps reconciled (relocateLocationStock w p l l' q)"
  by (rule keepsI) (metis relocate_moves stays_reconciled reconciled_def)

lemma issue_keeps:
  "keeps reconciled (bindT (consumeAvailableLocationStock w p q) (\<lambda>al. bindT (updateInventory w p (- q) 0 (- q)) (\<lambda>u. returnT (al, u))))"
proof (rule keepsI)
  fix s x s'
  assume s: "reconciled s" and run: "bindT (consumeAvailableLocationStock w p q) (\<lambda>al. bindT (updateInventory w p (- q) 0 (- q)) (\<lambda>u. returnT (al, u))) s = Inr (x, s')"
  obtain al s1 u where 1: "consumeAvailableLocationStock w p q s = Inr (al, s1)" and 2: "updateInventory w p (- q) 0 (- q) s1 = Inr (u, s')"
    using run by (auto simp: tx_Inr)
  have wf: "stock_wf s" using s by (simp add: reconciled_def)
  show "reconciled s'"
    using moves_then_aggregate [OF s] consume_moves [OF 1 wf] updateInventory_moves [OF 2] by blast
qed

lemma deposit_keeps:
  "keeps reconciled (bindT (depositLocationStock w p q l) (\<lambda>(l, _). bindT (upsertInventory w p q q) (\<lambda>row. returnT (l, row))))"
proof (rule keepsI)
  fix s x s'
  assume s: "reconciled s" and run: "bindT (depositLocationStock w p q l) (\<lambda>(l, _). bindT (upsertInventory w p q q) (\<lambda>row. returnT (l, row))) s = Inr (x, s')"
  obtain l' b s1 u where 1: "depositLocationStock w p q l s = Inr ((l', b), s1)" and 2: "upsertInventory w p q q s1 = Inr (u, s')"
    using run by (auto simp: tx_Inr)
  have wf: "stock_wf s" using s by (simp add: reconciled_def)
  show "reconciled s'"
    using moves_then_aggregate [OF s] deposit_moves [OF 1 wf] upsertInventory_moves [OF 2] by blast
qed

lemma adjustStock_moves:
  assumes "adjustStock w p l d s = Inr ((changes, row), s')" and "stock_wf s" and "d \<noteq> 0"
  shows "\<exists>s1. moves w p (displacement d 0 d) s s1 \<and> aggregateMoves w p (displacement d 0 d) s1 s'"
proof -
  obtain s1 where m: "moves w p (displacement d 0 d) s s1" and u: "upsertInventory w p d d s1 = Inr (row, s')"
  proof (cases l)
    case (Some x)
    then obtain r s1 where "adjustLocationStock w p d (Some x) s = Inr (r, s1)" "upsertInventory w p d d s1 = Inr (row, s')"
      using assms(1) by (auto simp: adjustStock_def tx_Inr)
    then show ?thesis using adjust_moves assms(2) that by blast
  next
    case None
    show ?thesis
    proof (cases "0 < d")
      case True
      then obtain y b s1 where "depositLocationStock w p d None s = Inr ((y, b), s1)" "upsertInventory w p d d s1 = Inr (row, s')"
        using assms(1) None by (auto simp: adjustStock_def tx_Inr)
      then show ?thesis using deposit_moves assms(2) that by blast
    next
      case False
      then obtain al s1 where c: "consumeAvailableLocationStock w p (- d) s = Inr (al, s1)" and u: "upsertInventory w p d d s1 = Inr (row, s')"
        using assms(1,3) None by (auto simp: adjustStock_def tx_Inr)
      show ?thesis using consume_moves [OF c assms(2)] by (intro that [OF _ u]) simp
    qed
  qed
  then show ?thesis using upsertInventory_moves by blast
qed

lemma adjustStock_keeps:
  assumes "d \<noteq> 0"
  shows "keeps reconciled (adjustStock w p l d)"
proof (rule keepsI)
  fix s x s'
  assume s: "reconciled s" and run: "adjustStock w p l d s = Inr (x, s')"
  obtain changes row where x: "x = (changes, row)" by (rule prod.exhaust)
  obtain s1 where "moves w p (displacement d 0 d) s s1" "aggregateMoves w p (displacement d 0 d) s1 s'"
    using adjustStock_moves [OF run [unfolded x] _ assms] s by (auto simp: reconciled_def)
  then show "reconciled s'" using moves_then_aggregate [OF s] by blast
qed

text \<open>Sellable stock of one balance: the guarded update matches the row of the location, which is of the warehouse.\<close>

lemma sellable_moves:
  assumes "updateBalances (\<lambda>b. isBalanceAt l p b \<and> Q b) (\<lambda>b. b\<lparr>bal_available := bal_available b + d\<rparr>) s = Inr (n, s1)"
    and "n \<noteq> 0" and "stock_wf s" and "placed s l w"
  shows "moves w p (displacement 0 0 d) s s1"
proof (rule moves_updateBalances [OF assms(1,3)])
  have c: "n = count_where (\<lambda>b. isBalanceAt l p b \<and> Q b) (balances s)" using updateBalances_effect [OF assms(1)] by simp
  obtain b where b: "b \<in> set (balances s)" "isBalanceAt l p b \<and> Q b"
    using assms(2) unfolding c count_where_def by (metis (mono_tags, lifting) filter_empty_conv length_0_conv)
  have "count_where (\<lambda>b. isBalanceAt l p b \<and> Q b) (balances s) = 1"
    by (rule count_where_one [of _ b _ "\<lambda>b. (bal_location b, bal_product b)"])
      (use b assms(3) in \<open>auto simp: stock_wf_def isBalanceAt_def\<close>)
  then show "n = 1" using c by simp
next
  fix b k
  show "same_key (b\<lparr>bal_available := bal_available b + d\<rparr>) b" by (simp add: same_key_def)
  show "bal_level k (b\<lparr>bal_available := bal_available b + d\<rparr>) = bal_level k b + displacement 0 0 d k" by (cases k) simp_all
  assume "b \<in> set (balances s)" "isBalanceAt l p b \<and> Q b"
  then show "bal_warehouse b = w \<and> bal_product b = p"
    using balances_placed [OF assms(3)] placed_unique [OF assms(3,4)] by (auto simp: isBalanceAt_def)
qed

lemma takeSellable_keeps:
  assumes "takeSellable w l p q s = Inr (u, s')" and "reconciled s" and "placed s l w"
  shows "reconciled s'"
proof -
  obtain n s1 row where 1: "updateBalances (\<lambda>b. isBalanceAt l p b \<and> q \<le> bal_available b) (\<lambda>b. b\<lparr>bal_available := bal_available b - q\<rparr>) s = Inr (n, s1)"
    and n: "n = 1" and 2: "updateInventory w p 0 0 (- q) s1 = Inr (row, s')"
    using assms(1) by (auto simp: takeSellable_def tx_Inr)
  have "moves w p (displacement 0 0 (- q)) s s1"
    by (rule sellable_moves [of l p "\<lambda>b. q \<le> bal_available b" "- q" s n]) (use 1 n assms in \<open>auto simp: reconciled_def\<close>)
  then show ?thesis using moves_then_aggregate [OF assms(2)] updateInventory_moves [OF 2] by blast
qed

lemma returnSellable_keeps:
  assumes "returnSellable w l p q s = Inr (u, s')" and "reconciled s" and "placed s l w"
  shows "reconciled s'"
proof -
  obtain n s1 row where 1: "updateBalances (isBalanceAt l p) (\<lambda>b. b\<lparr>bal_available := bal_available b + q\<rparr>) s = Inr (n, s1)"
    and n: "n \<noteq> 0" and 2: "updateInventory w p 0 0 q s1 = Inr (row, s')"
    using assms(1) by (auto simp: returnSellable_def tx_Inr)
  have "moves w p (displacement 0 0 q) s s1"
    by (rule sellable_moves [of l p "\<lambda>_. True" q s n]) (use 1 n assms in \<open>auto simp: reconciled_def\<close>)
  then show ?thesis using moves_then_aggregate [OF assms(2)] updateInventory_moves [OF 2] by blast
qed

lemma condition_rows_reconciled:
  assumes "s' = s\<lparr>conditions := c, next_id := n\<rparr>" and "next_id s \<le> n" and "reconciled s"
  shows "reconciled s'"
proof -
  have "stock_wf s'" using assms by (auto simp: reconciled_def stock_wf_def placed_def)
  then have "stays w p s s'" for w p by (intro stays_frame) (simp_all add: assms(1))
  then show ?thesis using stays_reconciled assms(3) by blast
qed

text \<open>The rows a condition change writes besides the sellable levels.\<close>

lemma updateConditions_rows: "updateConditions P f s = Inr (n, s') \<Longrightarrow> \<exists>c. s' = s\<lparr>conditions := c, next_id := next_id s\<rparr>"
  by (auto simp: updateConditions_def stateT_def)

lemma upsertCondition_rows: "upsertCondition w l p c q s = Inr (u, s') \<Longrightarrow> \<exists>c n. s' = s\<lparr>conditions := c, next_id := n\<rparr> \<and> next_id s \<le> n"
proof -
  assume u: "upsertCondition w l p c q s = Inr (u, s')"
  have "s' = s\<lparr>conditions := conditions s', next_id := next_id s'\<rparr> \<and> next_id s \<le> next_id s'"
    using u by (auto simp: upsertCondition_def createCondition_def tx_Inr updateConditions_def freshT_def split: if_splits)
  then show ?thesis by blast
qed

text \<open>Once the location has been checked, the rest keeps the invariant and the location.\<close>

definition reconciledAt :: "ident \<Rightarrow> ident \<Rightarrow> stock \<Rightarrow> bool" where
  "reconciledAt l w s \<longleftrightarrow> reconciled s \<and> placed s l w"

lemma conditions_keep: "keeps (reconciledAt l w) (updateConditions P f)" "keeps (reconciledAt l w) (upsertCondition w' l' p c q)"
proof (rule keepsI)
  fix s n s'
  assume s: "reconciledAt l w s" and u: "updateConditions P f s = Inr (n, s')"
  obtain c where s': "s' = s\<lparr>conditions := c, next_id := next_id s\<rparr>" using updateConditions_rows [OF u] by blast
  then have "reconciled s'" using s by (intro condition_rows_reconciled [OF s']) (auto simp: reconciledAt_def)
  then show "reconciledAt l w s'" using s s' by (simp add: reconciledAt_def placed_def)
next
  show "keeps (reconciledAt l w) (upsertCondition w' l' p c q)"
  proof (rule keepsI)
    fix s u s'
    assume s: "reconciledAt l w s" and u: "upsertCondition w' l' p c q s = Inr (u, s')"
    obtain d n where s': "s' = s\<lparr>conditions := d, next_id := n\<rparr>" "next_id s \<le> n" using upsertCondition_rows [OF u] by blast
    then have "reconciled s'" using s by (intro condition_rows_reconciled [OF s']) (auto simp: reconciledAt_def)
    then show "reconciledAt l w s'" using s s' by (simp add: reconciledAt_def placed_def)
  qed
qed

lemma updateInventory_locations: "updateInventory w p q r a s = Inr (x, s') \<Longrightarrow> locations s' = locations s"
  by (auto simp: updateInventory_def tx_Inr split: option.splits)

lemma sellable_keeps: "keeps (reconciledAt l w) (takeSellable w l p q)" "keeps (reconciledAt l w) (returnSellable w l p q)"
proof (rule keepsI)
  fix s u s'
  assume s: "reconciledAt l w s" and t: "takeSellable w l p q s = Inr (u, s')"
  have "locations s' = locations s"
    using t by (auto simp: takeSellable_def tx_Inr dest!: updateBalances_effect updateInventory_locations)
  then show "reconciledAt l w s'" using s takeSellable_keeps [OF t] by (simp add: reconciledAt_def placed_def)
next
  show "keeps (reconciledAt l w) (returnSellable w l p q)"
  proof (rule keepsI)
    fix s u s'
    assume s: "reconciledAt l w s" and t: "returnSellable w l p q s = Inr (u, s')"
    have "locations s' = locations s"
      using t by (auto simp: returnSellable_def tx_Inr dest!: updateBalances_effect updateInventory_locations)
    then show "reconciledAt l w s'" using s returnSellable_keeps [OF t] by (simp add: reconciledAt_def placed_def)
  qed
qed

lemma keeps_located:
  assumes "\<And>y. keeps (reconciledAt l w) (k y)"
  shows "keeps reconciled (bindT (assertLocation w l) k)"
proof (rule keepsI)
  fix s x s'
  assume s: "reconciled s" and run: "bindT (assertLocation w l) k s = Inr (x, s')"
  obtain y s1 where 1: "assertLocation w l s = Inr (y, s1)" and 2: "k y s1 = Inr (x, s')" using run by (auto simp: bindT_Inr)
  have "reconciledAt l w s1" using s assertLocation_placed [OF 1] by (simp add: reconciledAt_def)
  then show "reconciled s'" using keepsD [OF assms 2] by (simp add: reconciledAt_def)
qed

lemma moveConditionStock_keeps: "keeps reconciled (moveConditionStock dto)"
  unfolding moveConditionStock_def Let_def
  by (rule keeps_bind [OF prepareCondition_keeps], rule keeps_located) (intro keeps_rules conditions_keep sellable_keeps)

lemmas stock_keeps = keeps_stock [OF prepareLocation_keeps] keeps_stock [OF prepareCondition_keeps] keeps_stock [OF relocate_keeps]
  keeps_stock [OF issue_keeps] keeps_stock [OF deposit_keeps] keeps_stock [OF moveConditionStock_keeps]

declare stock_keeps [keeps_rules]

section \<open>The handlers\<close>

text \<open>Tables beside the stock tables.\<close>

context bystander
begin

lemma movementT_keeps [keeps_rules]: "keeps I (movementT w p l k q b t r)"
  unfolding movementT_def by (intro keeps_frame) (simp add: frames)

lemma warehouse_keeps [keeps_rules]: "keeps I (warehouseT user scope i mode a)" "keepsS I (warehouseS user scope i mode a)"
  unfolding warehouseT_def warehouseS_def by (intro keeps_rules)+

lemma products_keeps [keeps_rules]: "keeps I (numberT scope t x)" "keeps I (companyProductsT user scope ids t i)"
    "keepsS I (requestedProducts user scope ids)"
  unfolding numberT_def companyProductsT_def requestedProducts_def by (intro keeps_rules)+

lemma batch_keeps [keeps_rules]: "keeps I (shipBatch w item)" "keeps I (shipSerials w item)"
    "keeps I (receiveBatch w v item q)" "keeps I (receiveSerials w v item input r)" "keeps I (adjustBatch w oitem d)"
  unfolding shipBatch_def shipSerials_def receiveBatch_def receiveSerials_def adjustBatch_def
  by (intro keeps_rules keeps_frame; simp add: frames)+

end

lemma document_keeps [keeps_rules]: "keeps stockKept (transferT user scope i side)" "keepsS stockKept (transferS user scope i side)"
    "keeps stockKept (opnameT user scope i)" "keepsS stockKept (opnameS user scope i)"
  unfolding transferT_def transferS_def opnameT_def opnameS_def by (intro keeps_rules)+

lemma rows_keeps [keeps_rules]: "keeps stockKept (setTransfer i f)" "keeps stockKept (setTransferItem i g)" "keeps stockKept (setOpname i h)"
    "keeps stockKept (addTransferItems i items)" "keeps stockKept (addOpnameItems i rows)" "keeps stockKept (countItem i input)"
  unfolding setTransfer_def setTransferItem_def setOpname_def addTransferItems_def addOpnameItems_def countItem_def
  by (intro keeps_rules keeps_frame; simp)+

lemma issueStock_keeps [keeps_rules]: "keeps stockKept (issueStock w p q k t r)"
  unfolding issueStock_def by (intro keeps_rules)

lemma depositStock_keeps [keeps_rules]: "keeps stockKept (depositStock w p q k t r)"
  unfolding depositStock_def by (intro keeps_rules)

lemma keeps_cases: "(b \<Longrightarrow> keeps I m) \<Longrightarrow> (\<not> b \<Longrightarrow> keeps I k) \<Longrightarrow> keeps I (if b then m else k)"
  by simp

lemma completeItem_keeps [keeps_rules]: "keeps stockKept (completeItem dec products opn w item (gain, loss))"
  unfolding completeItem_def Let_def prod.case
  by (rule keeps_cases, rule keeps_return) (intro keeps_rules keeps_stock adjustStock_keeps; assumption)

lemma transfer_handlers_keep: "keepsS stockKept (createTransfer dto user)" "keepsS stockKept (approveTransfer i user)"
    "keepsS stockKept (shipTransfer dec i user)" "keepsS stockKept (receiveTransfer dec i inputs user)"
  unfolding createTransfer_def createTransferTx_def approveTransfer_def shipTransfer_def shipTransferTx_def shipItem_def finishShipment_def
    receiveTransfer_def receiveTransferTx_def receiveItem_def finishReceipt_def
  by (intro keeps_rules keeps_frame; simp)+

lemma snapshot_keeps [keeps_rules]: "keeps stockKept (snapshotOf w i acc)"
  unfolding snapshotOf_def by (intro keeps_rules)

lemma complete_fold_keeps [keeps_rules]: "keeps stockKept (foldT (completeItem dec products opn w) items acc)"
  by (rule keeps_fold) (metis completeItem_keeps surj_pair)

lemma opname_handlers_keep: "keepsS stockKept (createOpname odto user)" "keepsS stockKept (countOpname i counts user)"
    "keepsS stockKept (submitOpname i user)" "keepsS stockKept (completeOpname dec i user)"
  unfolding createOpname_def createOpnameTx_def countOpname_def submitOpname_def completeOpname_def completeOpnameTx_def
  by (intro keeps_rules keeps_frame; simp)+

lemma location_handlers_keep: "keepsS stockKept (relocateLocation rdto user)" "keepsS stockKept (moveCondition cdto user)"
    "keepsS stockKept (listLocationBalances user w q)" "keepsS stockKept (listConditionBalances user w p)"
  unfolding relocateLocation_def relocateTx_def moveCondition_def moveConditionTx_def listLocationBalances_def listConditionBalances_def
  by (intro keeps_rules keeps_frame; simp)+

end
