(* ===== verification/StockConservation.thy ===== *)
theory StockConservation
  imports StockProperties
begin

text \<open>
  Transfers neither create nor lose units: what leaves a warehouse is in transit until it is received.
\<close>

section \<open>Units on hand and in transit\<close>

definition onHand :: "ident \<Rightarrow> stock \<Rightarrow> int" where
  "onHand p s = sum_where inv_quantity (\<lambda>i. inv_product i = p) (inventories s)"

definition onTheWay :: "ident \<Rightarrow> transfer_item list \<Rightarrow> int" where
  "onTheWay p items = sum_where (\<lambda>t. ti_shipped t - ti_received t) (\<lambda>t. ti_product t = p) items"

definition units :: "ident \<Rightarrow> 'b inventory_db_scheme \<Rightarrow> int" where
  "units p s = onHand p (db_stock s) + onTheWay p (db_transferItems s)"

definition oneRowEach :: "stock \<Rightarrow> bool" where
  "oneRowEach s \<longleftrightarrow> distinct (map (\<lambda>i. (inv_warehouse i, inv_product i)) (inventories s))"

lemma one_inventory:
  assumes "oneRowEach s" and "findInventory w p s = Some i"
  shows "count_where (inventoryOf w p) (inventories s) = 1"
proof (rule count_where_one [of _ i _ "\<lambda>i. (inv_warehouse i, inv_product i)"])
  show "inventoryOf w p i" "i \<in> set (inventories s)"
    using find_first_Some [OF assms(2) [unfolded findInventory_def]] by (simp_all add: inventoryOf_def)
qed (use assms(1) find_first_Some [OF assms(2) [unfolded findInventory_def]] in \<open>auto simp: oneRowEach_def inventoryOf_def\<close>)

lemma onHand_update:
  assumes "oneRowEach s" and "findInventory w p s = Some i"
  shows "onHand p' (s\<lparr>inventories := update_many (inventoryOf w p) (addLevels q r a) (inventories s)\<rparr>) = onHand p' s + (if p' = p then q else 0)"
proof (cases "p' = p")
  case True
  have "sum_where inv_quantity (\<lambda>i. inv_product i = p) (update_many (inventoryOf w p) (addLevels q r a) (inventories s)) =
      onHand p s + q * int (count_where (inventoryOf w p) (inventories s))"
    unfolding onHand_def by (rule sum_where_update_many) (simp add: inventoryOf_def addLevels_def)
  then show ?thesis using True one_inventory [OF assms] by (simp add: onHand_def)
next
  case False
  then have "sum_where inv_quantity (\<lambda>i. inv_product i = p') (update_many (inventoryOf w p) (addLevels q r a) (inventories s)) = onHand p' s"
    unfolding onHand_def by (intro sum_where_update_many_other) (simp add: inventoryOf_def addLevels_def)
  then show ?thesis using False by (simp add: onHand_def)
qed

lemma updateInventory_onHand:
  assumes "updateInventory w p q r a s = Inr (row, s')" and "oneRowEach s"
  shows "onHand p' s' = onHand p' s + (if p' = p then q else 0)"
proof -
  obtain i where i: "findInventory w p s = Some i"
    and s': "s' = s\<lparr>inventories := update_many (inventoryOf w p) (addLevels q r a) (inventories s)\<rparr>"
    using assms by (auto simp: updateInventory_def tx_Inr split: option.splits)
  show ?thesis unfolding s' by (rule onHand_update [OF assms(2) i])
qed

lemma upsertInventory_onHand:
  assumes "upsertInventory w p q a s = Inr (row, s')" and "oneRowEach s"
  shows "onHand p' s' = onHand p' s + (if p' = p then q else 0)"
proof (cases "findInventory w p s")
  case (Some i)
  then have s': "s' = s\<lparr>inventories := update_many (inventoryOf w p) (addLevels q 0 a) (inventories s)\<rparr>"
    using assms(1) by (auto simp: upsertInventory_def tx_Inr)
  show ?thesis unfolding s' by (rule onHand_update [OF assms(2) Some])
next
  case None
  then show ?thesis using assms(1) by (auto simp: upsertInventory_def tx_Inr freshT_def Let_def onHand_def sum_where_def)
qed

section \<open>Frames of the stock tables and the items\<close>

interpretation transfer_frame: bystander "\<lambda>s. J (db_stock s) (db_transferItems s)" for J :: "stock \<Rightarrow> transfer_item list \<Rightarrow> bool"
  by unfold_locales simp_all

lemma frame_eq:
  assumes "\<And>J. keeps (\<lambda>s. J (db_stock s) (db_transferItems s)) m" and "m s = Inr (x, s')"
  shows "db_stock s' = db_stock s \<and> db_transferItems s' = db_transferItems s"
  using keepsD [OF assms(1) [of "\<lambda>a b. a = db_stock s \<and> b = db_transferItems s"] assms(2)] by simp

lemma issueStock_effect:
  assumes "issueStock w p q k t r (s :: 'b inventory_db_scheme) = Inr (u, s')" and "reconciled (db_stock s)"
  shows "reconciled (db_stock s') \<and> db_transferItems s' = db_transferItems s \<and>
    (\<forall>p'. onHand p' (db_stock s') = onHand p' (db_stock s) - (if p' = p then q else 0))"
proof -
  obtain al row st s1 where run: "bindT (consumeAvailableLocationStock w p q) (\<lambda>allocations.
              bindT (updateInventory w p (- q) 0 (- q)) (\<lambda>updated. returnT (allocations, updated))) ((db_stock s)\<lparr>now := db_now s\<rparr>) = Inr ((al, row), st)"
    and s1: "s1 = s\<lparr>db_stock := st\<rparr>"
    and loop: "forT (\<lambda>a. movementT w p (Some (fst a)) k (- snd a) (inv_quantity row) t r) al s1 = Inr (u, s')"
    using assms(1) by (auto simp: issueStock_def tx_Inr onStock_Inr)
  obtain st1 where c: "consumeAvailableLocationStock w p q ((db_stock s)\<lparr>now := db_now s\<rparr>) = Inr (al, st1)"
    and u: "updateInventory w p (- q) 0 (- q) st1 = Inr (row, st)" using run by (auto simp: tx_Inr)
  have r0: "reconciled ((db_stock s)\<lparr>now := db_now s\<rparr>)" using assms(2) by simp
  have inv: "inventories st1 = inventories (db_stock s)"
    using consume_moves [OF c] r0 by (simp add: reconciled_def moves_def)
  then have "oneRowEach st1" using assms(2) by (simp add: reconciled_def oneRowEach_def)
  note total = updateInventory_onHand [OF u this]
  have "reconciled st" using keepsD [OF issue_keeps run r0] .
  moreover have "onHand p' st1 = onHand p' (db_stock s)" for p' by (simp add: onHand_def inv)
  moreover have "db_stock s' = db_stock s1 \<and> db_transferItems s' = db_transferItems s1"
    by (rule frame_eq [where m = "forT (\<lambda>a. movementT w p (Some (fst a)) k (- snd a) (inv_quantity row) t r) al", OF _ loop]) (intro keeps_rules)
  ultimately show ?thesis using total s1 by auto
qed

lemma depositStock_onHand:
  assumes "depositStock w p q k t r (s :: 'b base_db_scheme) = Inr (u, s')" and "reconciled (db_stock s)"
  shows "reconciled (db_stock s') \<and>
    (\<forall>p'. onHand p' (db_stock s') = onHand p' (db_stock s) + (if p' = p then q else 0))"
proof -
  obtain l row st where run: "bindT (depositLocationStock w p q None) (\<lambda>(l, _).
              bindT (upsertInventory w p q q) (\<lambda>row. returnT (l, row))) ((db_stock s)\<lparr>now := db_now s\<rparr>) = Inr ((l, row), st)"
    and s': "movementT w p (Some l) k q (inv_quantity row) t r (s\<lparr>db_stock := st\<rparr>) = Inr (u, s')"
    using assms(1) by (auto simp: depositStock_def tx_Inr onStock_Inr)
  obtain b st1 where c: "depositLocationStock w p q None ((db_stock s)\<lparr>now := db_now s\<rparr>) = Inr ((l, b), st1)"
    and u: "upsertInventory w p q q st1 = Inr (row, st)" using run by (auto simp: tx_Inr)
  have r0: "reconciled ((db_stock s)\<lparr>now := db_now s\<rparr>)" using assms(2) by simp
  have inv: "inventories st1 = inventories (db_stock s)"
    using deposit_moves [OF c] r0 by (simp add: reconciled_def moves_def)
  then have "oneRowEach st1" using assms(2) by (simp add: reconciled_def oneRowEach_def)
  note total = upsertInventory_onHand [OF u this]
  have "reconciled st" using keepsD [OF deposit_keeps run r0] .
  moreover have "onHand p' st1 = onHand p' (db_stock s)" for p' by (simp add: onHand_def inv)
  ultimately show ?thesis using total s' by (auto simp: movementT_def tx_Inr)
qed

lemma depositStock_effect:
  assumes "depositStock w p q k t r (s :: 'b inventory_db_scheme) = Inr (u, s')" and "reconciled (db_stock s)"
  shows "reconciled (db_stock s') \<and> db_transferItems s' = db_transferItems s \<and>
    (\<forall>p'. onHand p' (db_stock s') = onHand p' (db_stock s) + (if p' = p then q else 0))"
  using depositStock_onHand [OF assms] assms(1) by (auto simp: depositStock_def movementT_def tx_Inr onStock_Inr)

section \<open>Items\<close>

definition uniqueItems :: "transfer_item list \<Rightarrow> bool" where
  "uniqueItems rows \<longleftrightarrow> distinct (map ti_id rows)"

lemma onTheWay_update:
  assumes "uniqueItems rows" and "r \<in> set rows"
    and "ti_product (f r) = ti_product r" and "ti_shipped (f r) - ti_received (f r) = ti_shipped r - ti_received r + d"
  shows "onTheWay p (update_many (\<lambda>t. ti_id t = ti_id r) f rows) = onTheWay p rows + (if p = ti_product r then d else 0)"
proof -
  have only: "t = r" if "t \<in> set rows" "ti_id t = ti_id r" for t
    using that assms(1,2) by (auto simp: uniqueItems_def distinct_map inj_on_def)
  have one: "count_where (\<lambda>t. ti_id t = ti_id r) rows = 1"
    by (rule count_where_one [of _ r _ ti_id]) (use assms(1,2) in \<open>auto simp: uniqueItems_def\<close>)
  show ?thesis
  proof (cases "p = ti_product r")
    case True
    have "onTheWay p (update_many (\<lambda>t. ti_id t = ti_id r) f rows) = onTheWay p rows + d * int (count_where (\<lambda>t. ti_id t = ti_id r) rows)"
      unfolding onTheWay_def by (rule sum_where_update_many) (use True only assms(3,4) in auto)
    then show ?thesis using True one by simp
  next
    case False
    then show ?thesis
      unfolding onTheWay_def by (simp, intro sum_where_update_many_other) (use only assms(3,4) in auto)
  qed
qed

lemma setTransferItem_Inr: "setTransferItem i f s = Inr (u, s') \<longleftrightarrow>
    s' = s\<lparr>db_transferItems := update_many (\<lambda>t. ti_id t = i) f (db_transferItems s)\<rparr>"
  by (auto simp: setTransferItem_def modT_Inr)

lemma uniqueItems_update: "(\<And>t. ti_id (f t) = ti_id t) \<Longrightarrow> uniqueItems (update_many P f rows) = uniqueItems rows"
  by (simp add: uniqueItems_def map_update_many)

lemma shipItem_effect:
  assumes "shipItem w item (s :: 'b inventory_db_scheme) = Inr (u, s')" and "reconciled (db_stock s)" and "uniqueItems (db_transferItems s)"
    and "item \<in> set (db_transferItems s)" and "ti_shipped item = 0"
  shows "reconciled (db_stock s') \<and> (\<forall>p. units p s' = units p s) \<and>
    db_transferItems s' = update_many (\<lambda>t. ti_id t = ti_id item) (\<lambda>t. t\<lparr>ti_shipped := ti_quantity item\<rparr>) (db_transferItems s)"
proof -
  obtain s1 s2 s3 where 1: "shipBatch w item s = Inr ((), s1)" and 2: "shipSerials w item s1 = Inr ((), s2)"
    and 3: "issueStock w (ti_product item) (ti_quantity item) ''TRANSFER_OUT'' ''StockTransfer'' (identText (ti_transfer item)) s2 = Inr ((), s3)"
    and 4: "s' = s3\<lparr>db_transferItems := update_many (\<lambda>t. ti_id t = ti_id item) (\<lambda>t. t\<lparr>ti_shipped := ti_quantity item\<rparr>) (db_transferItems s3)\<rparr>"
    using assms(1) by (auto simp: shipItem_def tx_Inr setTransferItem_Inr)
  have f1: "db_stock s1 = db_stock s \<and> db_transferItems s1 = db_transferItems s"
    by (rule frame_eq [where m = "shipBatch w item", OF _ 1]) (intro keeps_rules)
  have f2: "db_stock s2 = db_stock s1 \<and> db_transferItems s2 = db_transferItems s1"
    by (rule frame_eq [where m = "shipSerials w item", OF _ 2]) (intro keeps_rules)
  have "reconciled (db_stock s2)" using assms(2) f1 f2 by simp
  note e = issueStock_effect [OF 3 this]
  have "onTheWay p (db_transferItems s') = onTheWay p (db_transferItems s) + (if p = ti_product item then ti_quantity item else 0)" for p
    unfolding 4 using e f1 f2 assms(3-5) by (simp add: onTheWay_update [of _ item])
  then show ?thesis using e f1 f2 4 by (auto simp: units_def)
qed

lemma shipItems_effect:
  assumes "forT (shipItem w) items (s :: 'b inventory_db_scheme) = Inr (u, s')" and "reconciled (db_stock s)" and "uniqueItems (db_transferItems s)"
    and "\<forall>t \<in> set items. t \<in> set (db_transferItems s) \<and> ti_shipped t = 0" and "uniqueItems items"
  shows "reconciled (db_stock s') \<and> (\<forall>p. units p s' = units p s)"
  using assms
proof (induction items arbitrary: s)
  case Nil
  then show ?case by (simp add: returnT_Inr)
next
  case (Cons item items)
  from Cons.prems(1) obtain s1 where 1: "shipItem w item s = Inr ((), s1)" and 2: "forT (shipItem w) items s1 = Inr (u, s')"
    by (auto simp: thenT_Inr)
  note e = shipItem_effect [OF 1 Cons.prems(2,3)]
  have e1: "reconciled (db_stock s1) \<and> (\<forall>p. units p s1 = units p s)"
    and rows: "db_transferItems s1 = update_many (\<lambda>t. ti_id t = ti_id item) (\<lambda>t. t\<lparr>ti_shipped := ti_quantity item\<rparr>) (db_transferItems s)"
    using e Cons.prems(4) by auto
  have "t \<in> set (db_transferItems s1)" if "t \<in> set items" for t
  proof -
    have "ti_id t \<noteq> ti_id item" using that Cons.prems(5) by (auto simp: uniqueItems_def) (metis imageI)
    then show ?thesis using that Cons.prems(4) unfolding rows in_update_many by (intro bexI [of _ t]) auto
  qed
  then have "reconciled (db_stock s') \<and> (\<forall>p. units p s' = units p s1)"
    using Cons.prems(3-5) e1 rows by (intro Cons.IH [OF 2]) (auto simp: uniqueItems_update uniqueItems_def map_update_many)
  then show ?case using e1 by simp
qed

text \<open>The items read at the beginning stay in the table, with their products.\<close>

definition sameItems :: "transfer_item list \<Rightarrow> transfer_item list \<Rightarrow> bool" where
  "sameItems items rows \<longleftrightarrow> (\<forall>t \<in> set items. \<exists>r \<in> set rows. ti_id r = ti_id t \<and> ti_product r = ti_product t)"

lemma receiveItem_effect:
  assumes "receiveItem i source destination items input (s :: 'b inventory_db_scheme) = Inr (u, s')" and "reconciled (db_stock s)"
    and "uniqueItems (db_transferItems s)" and "sameItems items (db_transferItems s)"
  shows "reconciled (db_stock s') \<and> uniqueItems (db_transferItems s') \<and> sameItems items (db_transferItems s') \<and> (\<forall>p. units p s' = units p s)"
proof -
  obtain item where f: "find_first (\<lambda>t. ti_id t = rid_item input) items = Some item"
    using assms(1) by (auto simp: receiveItem_def tx_Inr split: option.splits)
  show ?thesis
  proof (cases "rid_quantity input = 0")
    case True
    then show ?thesis using assms f by (auto simp: receiveItem_def tx_Inr Let_def)
  next
    case False
    let ?q = "rid_quantity input"
    obtain s1 s2 s3 where 1: "receiveBatch (wh_id source) (wh_id destination) item ?q s = Inr ((), s1)"
      and 2: "receiveSerials (wh_id source) (wh_id destination) item input (ti_shipped item - ti_received item) s1 = Inr ((), s2)"
      and 3: "depositStock (wh_id destination) (ti_product item) ?q ''TRANSFER_IN'' ''StockTransfer'' (identText i) s2 = Inr ((), s3)"
      and 4: "s' = s3\<lparr>db_transferItems := update_many (\<lambda>t. ti_id t = ti_id item) (\<lambda>t. t\<lparr>ti_received := ti_received t + ?q\<rparr>) (db_transferItems s3)\<rparr>"
      using assms(1) f False by (auto simp: receiveItem_def tx_Inr Let_def setTransferItem_Inr)
    have f1: "db_stock s1 = db_stock s \<and> db_transferItems s1 = db_transferItems s"
      by (rule frame_eq [where m = "receiveBatch (wh_id source) (wh_id destination) item (rid_quantity input)", OF _ 1]) (intro keeps_rules)
    have f2: "db_stock s2 = db_stock s1 \<and> db_transferItems s2 = db_transferItems s1"
      by (rule frame_eq [where m = "receiveSerials (wh_id source) (wh_id destination) item input (ti_shipped item - ti_received item)", OF _ 2]) (intro keeps_rules)
    have "reconciled (db_stock s2)" using assms(2) f1 f2 by simp
    note e = depositStock_effect [OF 3 this]
    obtain r where r: "r \<in> set (db_transferItems s)" "ti_id r = ti_id item" "ti_product r = ti_product item"
      using assms(4) find_first_Some [OF f] by (auto simp: sameItems_def)
    have rows: "db_transferItems s' = update_many (\<lambda>t. ti_id t = ti_id r) (\<lambda>t. t\<lparr>ti_received := ti_received t + ?q\<rparr>) (db_transferItems s)"
      using 4 e f1 f2 r(2) by simp
    have "onTheWay p (db_transferItems s') = onTheWay p (db_transferItems s) + (if p = ti_product r then - ?q else 0)" for p
      unfolding rows by (rule onTheWay_update [OF assms(3) r(1)]) simp_all
    then have "\<forall>p. units p s' = units p s" using e f1 f2 4 r(3) by (auto simp: units_def)
    moreover have "uniqueItems (db_transferItems s')" unfolding rows using assms(3) by (simp add: uniqueItems_update)
    moreover have "sameItems items (db_transferItems s')"
      unfolding sameItems_def rows
    proof
      fix t assume "t \<in> set items"
      then obtain r' where r': "r' \<in> set (db_transferItems s)" "ti_id r' = ti_id t \<and> ti_product r' = ti_product t"
        using assms(4) by (auto simp: sameItems_def)
      let ?r = "if ti_id r' = ti_id r then r'\<lparr>ti_received := ti_received r' + ?q\<rparr> else r'"
      have "?r \<in> set (update_many (\<lambda>t. ti_id t = ti_id r) (\<lambda>t. t\<lparr>ti_received := ti_received t + ?q\<rparr>) (db_transferItems s))"
        unfolding in_update_many using r'(1) by blast
      moreover have "ti_id ?r = ti_id t \<and> ti_product ?r = ti_product t" using r'(2) by simp
      ultimately show "\<exists>x \<in> set (update_many (\<lambda>t. ti_id t = ti_id r) (\<lambda>t. t\<lparr>ti_received := ti_received t + ?q\<rparr>) (db_transferItems s)).
          ti_id x = ti_id t \<and> ti_product x = ti_product t" by blast
    qed
    ultimately show ?thesis using e 4 by simp
  qed
qed

lemma receiveItems_effect:
  assumes "forT (receiveItem i source destination items) inputs (s :: 'b inventory_db_scheme) = Inr (u, s')" and "reconciled (db_stock s)"
    and "uniqueItems (db_transferItems s)" and "sameItems items (db_transferItems s)"
  shows "reconciled (db_stock s') \<and> (\<forall>p. units p s' = units p s)"
  using assms
proof (induction inputs arbitrary: s)
  case Nil
  then show ?case by (simp add: returnT_Inr)
next
  case (Cons input inputs)
  from Cons.prems(1) obtain s1 where 1: "receiveItem i source destination items input s = Inr ((), s1)"
    and 2: "forT (receiveItem i source destination items) inputs s1 = Inr (u, s')" by (auto simp: thenT_Inr)
  note e = receiveItem_effect [OF 1 Cons.prems(2-4)]
  then have "reconciled (db_stock s') \<and> (\<forall>p. units p s' = units p s1)" using Cons.IH [OF 2] by blast
  then show ?case using e by simp
qed

section \<open>Transfers\<close>

abbreviation frozen :: "stock \<Rightarrow> transfer_item list \<Rightarrow> 'b inventory_db_scheme \<Rightarrow> bool" where
  "frozen a b \<equiv> (\<lambda>s. (\<lambda>x y. x = a \<and> y = b) (db_stock s) (db_transferItems s))"

lemma setTransfer_keeps [keeps_rules]: "keeps (\<lambda>s. J (db_stock s) (db_transferItems s)) (setTransfer i f)"
  unfolding setTransfer_def by (intro keeps_frame) simp

lemma transferT_effect:
  assumes "transferT user scope i side s = Inr ((t, items, source, destination), s')"
  shows "s' = s \<and> items = itemsOf i s \<and> find_first (\<lambda>t. st_id t = i) (db_transfers s) = Some t"
  using assms by (auto simp: transferT_def warehouseT_def tx_Inr split: option.splits)

lemma itemsOf_unique: "uniqueItems (db_transferItems s) \<Longrightarrow> uniqueItems (itemsOf i s)"
  by (simp add: uniqueItems_def itemsOf_def distinct_map_filter)

lemma finish_keeps: "keeps (\<lambda>s. J (db_stock s) (db_transferItems s)) (finishShipment dec scope i user t items source)"
    "keeps (\<lambda>s. J (db_stock s) (db_transferItems s)) (finishReceipt dec scope i inputs user t items destination)"
  unfolding finishShipment_def finishReceipt_def by (intro keeps_rules)+

lemma shipTransfer_units:
  assumes "shipTransferTx dec scope i user (s :: 'b inventory_db_scheme) = Inr (row, s')" and "reconciled (db_stock s)"
    and "uniqueItems (db_transferItems s)" and "\<forall>t \<in> set (itemsOf i s). ti_shipped t = 0"
  shows "units p s' = units p s"
proof -
  obtain t source destination s0 items s1 where t: "transferT user scope i True s = Inr ((t, items, source, destination), s0)"
    and loop: "forT (shipItem (wh_id source)) items s0 = Inr ((), s1)"
    and rest: "finishShipment dec scope i user t items source s1 = Inr (row, s')"
    using assms(1) by (auto simp: shipTransferTx_def tx_Inr)
  note t' = transferT_effect [OF t]
  have "\<forall>t \<in> set items. t \<in> set (db_transferItems s0) \<and> ti_shipped t = 0" using assms(4) t' by (simp add: itemsOf_def)
  then have "units p s1 = units p s"
    using shipItems_effect [OF loop] assms(2,3) itemsOf_unique [OF assms(3)] t' by blast
  moreover have "frozen (db_stock s1) (db_transferItems s1) s'" by (rule keepsD [OF finish_keeps(1) rest]) simp
  ultimately show ?thesis by (simp add: units_def)
qed

lemma receiveTransfer_units:
  assumes "receiveTransferTx dec scope i inputs user (s :: 'b inventory_db_scheme) = Inr (row, s')" and "reconciled (db_stock s)"
    and "uniqueItems (db_transferItems s)"
  shows "units p s' = units p s"
proof -
  obtain t source destination s0 items s1 where t: "transferT user scope i False s = Inr ((t, items, source, destination), s0)"
    and loop: "forT (receiveItem i source destination items) inputs s0 = Inr ((), s1)"
    and rest: "finishReceipt dec scope i inputs user t items destination s1 = Inr (row, s')"
    using assms(1) by (auto simp: receiveTransferTx_def tx_Inr)
  note t' = transferT_effect [OF t]
  have "sameItems items (db_transferItems s0)" using t' by (auto simp: sameItems_def itemsOf_def)
  then have "units p s1 = units p s" using receiveItems_effect [OF loop] assms(2,3) t' by blast
  moreover have "frozen (db_stock s1) (db_transferItems s1) s'" by (rule keepsD [OF finish_keeps(2) rest]) simp
  ultimately show ?thesis by (simp add: units_def)
qed

end
