(* ===== verification/StockRuns.thy ===== *)
theory StockRuns
  imports StockConservation
begin

text \<open>
  Runs of the stock services: the location ledger reconciles in every state they reach, and transfers conserve
  units.
\<close>

section \<open>Runs\<close>

inductive stock_step :: "decimal_ops \<Rightarrow> inventory_db \<Rightarrow> inventory_db \<Rightarrow> bool" for dec where
  step_create: "createTransfer dto user s = (r, s') \<Longrightarrow> stock_step dec s s'"
| step_approve: "approveTransfer i user s = (r, s') \<Longrightarrow> stock_step dec s s'"
| step_ship: "shipTransfer dec i user s = (r, s') \<Longrightarrow> stock_step dec s s'"
| step_receive: "receiveTransfer dec i inputs user s = (r, s') \<Longrightarrow> stock_step dec s s'"
| step_relocate: "relocateLocation rdto user s = (r, s') \<Longrightarrow> stock_step dec s s'"
| step_condition: "moveCondition cdto user s = (r, s') \<Longrightarrow> stock_step dec s s'"
| step_locations: "listLocationBalances user w q s = (r, s') \<Longrightarrow> stock_step dec s s'"
| step_conditions: "listConditionBalances user w p s = (r, s') \<Longrightarrow> stock_step dec s s'"
| step_createOpname: "createOpname odto user s = (r, s') \<Longrightarrow> stock_step dec s s'"
| step_count: "countOpname i counts user s = (r, s') \<Longrightarrow> stock_step dec s s'"
| step_submit: "submitOpname i user s = (r, s') \<Longrightarrow> stock_step dec s s'"
| step_complete: "completeOpname dec i user s = (r, s') \<Longrightarrow> stock_step dec s s'"
| step_clock: "stock_step dec s (s\<lparr>db_now := t\<rparr>)"

lemma stock_step_keeps: "stock_step dec s s' \<Longrightarrow> reconciled (db_stock s) \<Longrightarrow> reconciled (db_stock s')"
  by (induction rule: stock_step.induct)
    (auto dest: transfer_handlers_keep [THEN keepsSD] opname_handlers_keep [THEN keepsSD] location_handlers_keep [THEN keepsSD])

lemma stock_run_keeps: "(stock_step dec)\<^sup>*\<^sup>* s s' \<Longrightarrow> reconciled (db_stock s) \<Longrightarrow> reconciled (db_stock s')"
  by (induction rule: rtranclp_induct) (auto intro: stock_step_keeps)

lemma levels_sum:
  assumes "reconciled s" and "balancesOf w p s \<noteq> []"
  shows "balanceTotal k w p s = aggregate k w p s"
  using assms unfolding reconciled_def ledger_def by metis

text \<open>
  C6. Whatever requests the stock services serve, in whatever order and with whatever outcome, the balances
  of a product's locations in a warehouse, once there are any, add up to the warehouse's row of that product:
  in quantity, in reserved and in available units. So the drift check that precedes every stock operation
  never fires.
\<close>

theorem stock_reconciles:
  assumes "(stock_step dec)\<^sup>*\<^sup>* s s'" and "reconciled (db_stock s)" and "balancesOf w p (db_stock s') \<noteq> []"
  shows "balanceTotal Quantity w p (db_stock s') = aggregate Quantity w p (db_stock s') \<and>
    balanceTotal Reserved w p (db_stock s') = aggregate Reserved w p (db_stock s') \<and>
    balanceTotal Available w p (db_stock s') = aggregate Available w p (db_stock s') \<and>
    prepareLocationInventory w p (db_stock s') \<noteq> Inl (BadRequest ''LOCATION_INVENTORY_DRIFT'')"
proof -
  let ?s = "db_stock s'"
  have l: "balanceTotal k w p ?s = aggregate k w p ?s" for k
    using levels_sum [OF stock_run_keeps [OF assms(1,2)] assms(3)] .
  have total: "sum_list (map (bal_level k) (balancesOf w p ?s)) = balanceTotal k w p ?s" for k
    by (simp add: balancesOf_def balanceTotal_def sum_where_def)
  have "(sum_list (map bal_quantity (balancesOf w p ?s)), sum_list (map bal_reserved (balancesOf w p ?s)),
      sum_list (map bal_available (balancesOf w p ?s))) =
    (aggregate Quantity w p ?s, aggregate Reserved w p ?s, aggregate Available w p ?s)"
    using total [of Quantity] total [of Reserved] total [of Available] l by (simp cong: map_cong)
  moreover have "(case findInventory w p ?s of None \<Rightarrow> (0, 0, 0) | Some i \<Rightarrow> (inv_quantity i, inv_reserved i, inv_available i)) =
    (aggregate Quantity w p ?s, aggregate Reserved w p ?s, aggregate Available w p ?s)"
    by (simp add: aggregate_def split: option.split)
  moreover have "defaultLocation w ?s \<noteq> Inl (BadRequest ''LOCATION_INVENTORY_DRIFT'')"
    by (simp add: defaultLocation_def bindT_def tx_defs freshT_def Let_def split: option.split)
  ultimately show ?thesis
    using l assms(3) by (auto simp: prepareLocationInventory_def bindT_def tx_defs Let_def split: sum.splits)
qed

text \<open>
  C10. Shipping and receiving conserve units: for every product, the units on hand in all warehouses plus the
  units shipped and not yet received are the same after a committed shipment or receipt, whatever lines the
  receipt names.
\<close>

theorem transfer_conserves_units:
  assumes "shipTransfer dec i user s = (Inr row, s') \<or> receiveTransfer dec i inputs user s = (Inr row, s')"
    and "reconciled (db_stock s)" and "distinct (map ti_id (db_transferItems s))"
    and "\<forall>t \<in> set (db_transfers s). \<forall>x \<in> set (db_transferItems s).
       st_status t = ''APPROVED'' \<longrightarrow> ti_transfer x = st_id t \<longrightarrow> ti_shipped x = 0"
  shows "units p s' = units p s"
proof -
  have u: "uniqueItems (db_transferItems s)" using assms(3) by (simp add: uniqueItems_def)
  obtain scope where scope: "requireTenantScope user = Inr scope"
    using assms(1) by (auto simp: shipTransfer_def receiveTransfer_def svc_Inr liftS_def split: sum.splits)
  from assms(1) consider (ship) "shipTransferTx dec scope i user s = Inr (row, s')"
    | (receive) "receiveTransferTx dec scope i inputs user s = Inr (row, s')"
    using scope by (auto simp: shipTransfer_def receiveTransfer_def svc_Inr liftS_def)
  then show ?thesis
  proof cases
    case ship
    obtain t items source destination s0 where t: "transferT user scope i True s = Inr ((t, items, source, destination), s0)"
      and st: "st_status t = ''APPROVED''"
      using ship by (auto simp: shipTransferTx_def tx_Inr)
    have "t \<in> set (db_transfers s)" "st_id t = i" using transferT_effect [OF t] by (auto dest: find_first_Some)
    then have "\<forall>x \<in> set (itemsOf i s). ti_shipped x = 0" using assms(4) st by (auto simp: itemsOf_def)
    then show ?thesis using shipTransfer_units [OF ship assms(2) u] by blast
  next
    case receive
    then show ?thesis using receiveTransfer_units [OF _ assms(2) u] by blast
  qed
qed

section \<open>A shop with two warehouses\<close>

definition emptyInventory :: inventory_db where
  "emptyInventory = accounting_db.extend emptyAccounting (inventory_db.fields [] [] [] [] [])"

definition exProduct :: product where
  "exProduct = \<lparr>pr_id = 5, pr_company = 1, pr_sku = ''A'', pr_name = ''A'', pr_isActive = True, pr_trackBatch = False, pr_trackExpiry = False,
     pr_trackSerial = False, pr_costPrice = 0, pr_minStock = 0, pr_unit = ''pcs'', pr_purchaseTaxCode = None,
       pr_salesTaxCode = None, pr_salePrice = 20, pr_allowNegative = False\<rparr>"

definition exWarehouse :: "ident \<Rightarrow> warehouse" where
  "exWarehouse i = \<lparr>wh_id = i, wh_branch = 1, wh_company = 1, wh_isActive = True, wh_isDefault = True, wh_code = ''W'', wh_name = ''W'', wh_address = None\<rparr>"

definition exRow :: "ident \<Rightarrow> int \<Rightarrow> inventory" where
  "exRow w q = \<lparr>inv_id = 8 + w, inv_warehouse = w, inv_product = 5, inv_quantity = q, inv_reserved = 0, inv_available = q\<rparr>"

definition exTransfer :: "string \<Rightarrow> stock_transfer" where
  "exTransfer status = \<lparr>st_id = 20, st_number = ''TRF'', st_source = 1, st_destination = 2, st_status = status, st_requestedBy = None,
     st_approvedBy = None, st_shippedAt = None, st_receivedAt = None\<rparr>"

definition exTransferItem :: "int \<Rightarrow> transfer_item" where
  "exTransferItem shipped = \<lparr>ti_id = 21, ti_transfer = 20, ti_product = 5, ti_quantity = 3, ti_shipped = shipped, ti_received = 0,
     ti_batch = None, ti_serials = []\<rparr>"

definition exOpname :: opname where
  "exOpname = \<lparr>on_id = 22, on_number = ''SO'', on_warehouse = 1, on_location = None, on_status = ''WAITING_APPROVAL'', on_createdBy = None,
     on_approvedBy = None, on_completedAt = None\<rparr>"

definition exOpnameItem :: opname_item where
  "exOpnameItem = \<lparr>oi_id = 23, oi_opname = 22, oi_product = 5, oi_batch = None, oi_system = 4, oi_counted = Some 5, oi_difference = Some 1,
     oi_reason = None\<rparr>"

definition twoWarehouses :: "string \<Rightarrow> int \<Rightarrow> inventory_db" where
  "twoWarehouses status shipped = emptyInventory\<lparr>db_nextId := 30, db_warehouses := [exWarehouse 1, exWarehouse 2], db_products := [exProduct],
     db_transfers := [exTransfer status], db_transferItems := [exTransferItem shipped], db_opnames := [exOpname],
     db_opnameItems := [exOpnameItem],
     db_stock := (db_stock emptyInventory)\<lparr>inventories := [exRow 1 4], next_id := 10\<rparr>\<rparr>"

lemma twoWarehouses_rows: "db_transferItems (twoWarehouses st n) = [exTransferItem n]" "db_transfers (twoWarehouses st n) = [exTransfer st]"
    "locations (db_stock (twoWarehouses st n)) = []" "balances (db_stock (twoWarehouses st n)) = []"
    "reservations (db_stock (twoWarehouses st n)) = []" "inventories (db_stock (twoWarehouses st n)) = [exRow 1 4]"
  by (simp_all add: twoWarehouses_def emptyInventory_def accounting_db.extend_def inventory_db.fields_def emptyAccounting_def)

lemma twoWarehouses_reconciled: "reconciled (db_stock (twoWarehouses st n))"
  by (simp add: reconciled_def stock_wf_def twoWarehouses_rows ledger_def balancesOf_def)

definition shipped :: inventory_db where
  "shipped = snd (shipTransfer rationalDecimal 20 exampleUser (twoWarehouses ''APPROVED'' 0))"

lemma shipped_ok: "shipTransfer rationalDecimal 20 exampleUser (twoWarehouses ''APPROVED'' 0) =
    (Inr ((exTransfer ''SHIPPED'')\<lparr>st_shippedAt := Some 0\<rparr>), shipped)"
proof -
  have "fst (shipTransfer rationalDecimal 20 exampleUser (twoWarehouses ''APPROVED'' 0)) = Inr ((exTransfer ''SHIPPED'')\<lparr>st_shippedAt := Some 0\<rparr>)"
    by code_simp
  then show ?thesis unfolding shipped_def by (simp add: prod_eq_iff)
qed

lemma shipped_stock: "map inv_quantity (inventories (db_stock shipped)) = [1] \<and> length (balancesOf 1 5 (db_stock shipped)) = 1"
  by code_simp

theorem stock_reconciles_witness:
  "balanceTotal Quantity 1 5 (db_stock shipped) = aggregate Quantity 1 5 (db_stock shipped) \<and>
   map inv_quantity (inventories (db_stock shipped)) = [1]"
proof -
  have run: "(stock_step rationalDecimal)\<^sup>*\<^sup>* (twoWarehouses ''APPROVED'' 0) shipped"
    using step_ship [OF shipped_ok] by blast
  have "balancesOf 1 5 (db_stock shipped) \<noteq> []" using shipped_stock by auto
  then show ?thesis using stock_reconciles [OF run twoWarehouses_reconciled] shipped_stock by blast
qed

theorem transfer_conserves_units_witness: "units 5 shipped = units 5 (twoWarehouses ''APPROVED'' 0)"
  by (rule transfer_conserves_units [OF disjI1 [OF shipped_ok] twoWarehouses_reconciled])
    (simp_all add: twoWarehouses_rows exTransferItem_def)

end
