(* ===== verification/StockListings.thy ===== *)
theory StockListings
  imports StockMoves
begin

text \<open>
  The read-only listings of \<open>advanced-inventory.service.ts\<close>: transfers, units in transit, products to reorder and
  stock counts. Rows are kept in the order they were created, so \<open>createdAt: 'desc'\<close> is the reverse; \<open>localeCompare\<close>
  is the argument \<open>collate\<close>.
\<close>

section \<open>Transfers and counts\<close>

definition companyWarehouseIds :: "tenant_scope \<Rightarrow> 'b base_db_scheme \<Rightarrow> ident list" where
  "companyWarehouseIds scope s = map wh_id (filter (\<lambda>w. companyOfBranch (wh_branch w) (sc_company scope) s) (db_warehouses s))"

definition branchWarehouseIds :: "tenant_scope \<Rightarrow> 'b base_db_scheme \<Rightarrow> ident list" where
  "branchWarehouseIds scope s = map wh_id (filter (\<lambda>w. wh_branch w = sc_branch scope \<and>
     companyOfBranch (wh_branch w) (sc_company scope) s) (db_warehouses s))"

definition visibleTransfer :: "tenant_scope \<Rightarrow> 'b inventory_db_scheme \<Rightarrow> stock_transfer \<Rightarrow> bool" where
  "visibleTransfer scope s t \<longleftrightarrow> (let ours = companyWarehouseIds scope s; mine = branchWarehouseIds scope s in
     List.member ours (st_source t) \<and> List.member ours (st_destination t) \<and> (List.member mine (st_source t) \<or> List.member mine (st_destination t)))"

definition listTransfers :: "auth_user \<Rightarrow> ('b inventory_db_scheme, (stock_transfer \<times> transfer_item list) list) svc" where
  "listTransfers user = bindS (liftS (requireTenantScope user)) (\<lambda>scope.
     getS (\<lambda>s. map (\<lambda>t. (t, itemsOf (st_id t) s)) (take 500 (rev (filter (visibleTransfer scope s) (db_transfers s))))))"

definition listOpnames :: "auth_user \<Rightarrow> ('b inventory_db_scheme, (opname \<times> opname_item list) list) svc" where
  "listOpnames user = bindS (liftS (requireTenantScope user)) (\<lambda>scope.
     getS (\<lambda>s. map (\<lambda>t. (t, filter (\<lambda>x. oi_opname x = on_id t) (db_opnameItems s)))
       (take 500 (rev (filter (\<lambda>t. List.member (branchWarehouseIds scope s) (on_warehouse t)) (db_opnames s))))))"

section \<open>Units in transit\<close>

record transit_row =
  tr_transfer :: ident
  tr_source :: ident
  tr_destination :: ident
  tr_product :: ident
  tr_quantity :: int
  tr_serialCount :: nat

text \<open>\<open>shippedAt: 'asc'\<close>: PostgreSQL puts a missing date last.\<close>

definition shippedBefore :: "stock_transfer \<Rightarrow> stock_transfer \<Rightarrow> bool" where
  "shippedBefore a b \<longleftrightarrow> (case (st_shippedAt a, st_shippedAt b) of
     (Some x, Some y) \<Rightarrow> x \<le> y | (Some _, None) \<Rightarrow> True | (None, Some _) \<Rightarrow> False | (None, None) \<Rightarrow> True)"

definition transitRow :: "stock_transfer \<Rightarrow> transfer_item \<Rightarrow> transit_row" where
  "transitRow t item = \<lparr>tr_transfer = st_id t, tr_source = st_source t, tr_destination = st_destination t, tr_product = ti_product item,
     tr_quantity = max 0 (ti_shipped item - ti_received item), tr_serialCount = length (ti_serials item)\<rparr>"

definition transitRows :: "tenant_scope \<Rightarrow> 'b inventory_db_scheme \<Rightarrow> transit_row list" where
  "transitRows scope s = filter (\<lambda>r. 0 < tr_quantity r) (concat (map (\<lambda>t. map (transitRow t) (itemsOf (st_id t) s))
     (take 500 (sortBy shippedBefore (filter (\<lambda>t. List.member [''SHIPPED'', ''PARTIALLY_RECEIVED''] (st_status t) \<and> visibleTransfer scope s t)
       (db_transfers s))))))"

definition listTransitBalances :: "auth_user \<Rightarrow> ('b inventory_db_scheme, transit_row list) svc" where
  "listTransitBalances user = bindS (liftS (requireTenantScope user)) (\<lambda>scope. getS (transitRows scope))"

section \<open>Products to reorder\<close>

record reorder_row =
  re_inventory :: inventory
  re_product :: product
  re_inbound :: int
  re_outbound :: int
  re_projected :: int
  re_shortage :: int
  re_lowStock :: bool

definition reorderRow :: "transit_row list \<Rightarrow> inventory \<times> product \<Rightarrow> reorder_row" where
  "reorderRow transit = (\<lambda>(i, p).
     let inbound = sum_where tr_quantity (\<lambda>t. tr_destination t = inv_warehouse i \<and> tr_product t = inv_product i) transit;
         outbound = sum_where tr_quantity (\<lambda>t. tr_source t = inv_warehouse i \<and> tr_product t = inv_product i) transit;
         projected = inv_available i + inbound
     in \<lparr>re_inventory = i, re_product = p, re_inbound = inbound, re_outbound = outbound, re_projected = projected,
         re_shortage = max 0 (pr_minStock p - projected), re_lowStock = (inv_available i \<le> pr_minStock p)\<rparr>)"

text \<open>The comparator \<open>b.shortage - a.shortage || a.product.sku.localeCompare(b.product.sku)\<close>, when it is not positive.\<close>

definition reorderPrecedes :: "(string \<Rightarrow> string \<Rightarrow> int) \<Rightarrow> reorder_row \<Rightarrow> reorder_row \<Rightarrow> bool" where
  "reorderPrecedes collate a b \<longleftrightarrow> re_shortage b < re_shortage a \<or>
     (re_shortage a = re_shortage b \<and> collate (pr_sku (re_product a)) (pr_sku (re_product b)) \<le> 0)"

definition watchedInventories :: "tenant_scope \<Rightarrow> 'b base_db_scheme \<Rightarrow> (inventory \<times> product) list" where
  "watchedInventories scope s = filter (\<lambda>(_, p). pr_isActive p \<and> 0 < pr_minStock p)
     (List.map_filter (\<lambda>i. map_option (Pair i) (find_first (\<lambda>p. pr_id p = inv_product i) (db_products s)))
       (take 5000 (sort_key inv_warehouse (sort_key inv_product
         (filter (\<lambda>i. List.member (branchWarehouseIds scope s) (inv_warehouse i)) (inventories (db_stock s)))))))"

definition listReorderVisibility ::
    "(string \<Rightarrow> string \<Rightarrow> int) \<Rightarrow> auth_user \<Rightarrow> ('b inventory_db_scheme, reorder_row list) svc" where
  "listReorderVisibility collate user = bindS (liftS (requireTenantScope user)) (\<lambda>scope.
     bindS (getS (watchedInventories scope)) (\<lambda>watched.
     bindS (listTransitBalances user) (\<lambda>transit.
     returnS (sortBy (reorderPrecedes collate) (filter (\<lambda>r. re_lowStock r \<or> 0 < re_inbound r) (map (reorderRow transit) watched))))))"

section \<open>What the reorder list shows\<close>

definition collates :: "(string \<Rightarrow> string \<Rightarrow> int) \<Rightarrow> bool" where
  "collates collate \<longleftrightarrow> (\<forall>x y. collate x y \<le> 0 \<or> collate y x \<le> 0) \<and>
     (\<forall>x y z. collate x y \<le> 0 \<longrightarrow> collate y z \<le> 0 \<longrightarrow> collate x z \<le> 0)"

lemma reorder_preorder: "collates collate \<Longrightarrow> totalPreorder (reorderPrecedes collate) A"
  unfolding totalPreorder_def reorderPrecedes_def collates_def
  by (intro conjI ballI impI; (elim disjE conjE)?; smt (verit))

lemma in_map_filter: "x \<in> set (List.map_filter f xs) \<longleftrightarrow> (\<exists>y \<in> set xs. f y = Some x)"
  by (induction xs) (auto simp: List.map_filter_def)

lemma in_watched: "(i, p) \<in> set (watchedInventories scope s) \<Longrightarrow> i \<in> set (inventories (db_stock s)) \<and> p \<in> set (db_products s) \<and>
    pr_id p = inv_product i \<and> pr_isActive p \<and> 0 < pr_minStock p \<and> inv_warehouse i \<in> set (branchWarehouseIds scope s)"
  by (auto simp: watchedInventories_def in_map_filter dest!: in_set_takeD find_first_Some)

text \<open>
  The reorder list is ordered by falling shortage, shows only active products of the branch's warehouses
  that are at or below their minimum or have units on the way, and its shortage is what is missing to the
  minimum once the units in transit have arrived.
\<close>

theorem reorder_rows:
  assumes "listReorderVisibility collate user s = (Inr rows, s')" and "collates collate"
  shows "s' = s \<and> sorted_wrt (\<lambda>a b. re_shortage b \<le> re_shortage a) rows \<and>
    (\<forall>r \<in> set rows. pr_isActive (re_product r) \<and> pr_id (re_product r) = inv_product (re_inventory r) \<and>
       re_inventory r \<in> set (inventories (db_stock s)) \<and>
       (inv_available (re_inventory r) \<le> pr_minStock (re_product r) \<or> 0 < re_inbound r) \<and>
       re_shortage r = max 0 (pr_minStock (re_product r) - (inv_available (re_inventory r) + re_inbound r)))"
proof -
  obtain scope where s': "s' = s" and rows: "rows = sortBy (reorderPrecedes collate)
      (filter (\<lambda>r. re_lowStock r \<or> 0 < re_inbound r) (map (reorderRow (transitRows scope s)) (watchedInventories scope s)))"
    using assms(1) by (auto simp: listReorderVisibility_def listTransitBalances_def svc_Inr liftS_def split: sum.splits)
  have "sorted_wrt (reorderPrecedes collate) rows" unfolding rows by (rule sortBy_sorted [OF reorder_preorder [OF assms(2)]])
  then have "sorted_wrt (\<lambda>a b. re_shortage b \<le> re_shortage a) rows"
    by (rule sorted_wrt_mono_rel [rotated]) (auto simp: reorderPrecedes_def)
  then show ?thesis using s' by (auto simp: rows reorderRow_def Let_def dest!: in_watched)
qed

section \<open>An example\<close>

definition codeOrder :: "string \<Rightarrow> string \<Rightarrow> int" where
  "codeOrder x y = (if x = y then 0 else if x \<le> y then -1 else 1)"

definition reorderShop :: inventory_db where
  "reorderShop = (accounting_db.extend emptyAccounting (inventory_db.fields [] [] [] [] []))\<lparr>
     db_warehouses := [\<lparr>wh_id = 1, wh_branch = 1, wh_company = 1, wh_isActive = True, wh_isDefault = True, wh_code = ''W'', wh_name = ''W'', wh_address = None\<rparr>],
     db_products := [\<lparr>pr_id = 5, pr_company = 1, pr_sku = ''A'', pr_name = ''A'', pr_isActive = True, pr_trackBatch = False,
       pr_trackExpiry = False, pr_trackSerial = False, pr_costPrice = 0, pr_minStock = 6, pr_unit = ''pcs'', pr_purchaseTaxCode = None,
       pr_salesTaxCode = None, pr_salePrice = 20, pr_allowNegative = False\<rparr>],
     db_stock := (db_stock emptyAccounting)\<lparr>inventories := [\<lparr>inv_id = 8, inv_warehouse = 1, inv_product = 5, inv_quantity = 4,
       inv_reserved = 1, inv_available = 3\<rparr>]\<rparr>\<rparr>"

lemma reorderShop_list: "\<exists>rows. listReorderVisibility codeOrder exampleUser reorderShop = (Inr rows, reorderShop) \<and> map re_shortage rows = [3]"
proof -
  have "map re_shortage (projr (fst (listReorderVisibility codeOrder exampleUser reorderShop))) = [3] \<and>
    isl (fst (listReorderVisibility codeOrder exampleUser reorderShop)) = False" by code_simp
  moreover have "snd (listReorderVisibility codeOrder exampleUser reorderShop) = reorderShop"
    by (simp add: listReorderVisibility_def listTransitBalances_def svc_defs liftS_def split: sum.split)
  ultimately show ?thesis by (cases "listReorderVisibility codeOrder exampleUser reorderShop"; cases "fst (listReorderVisibility codeOrder exampleUser reorderShop)") auto
qed

theorem reorder_rows_witness:
  "\<exists>rows. listReorderVisibility codeOrder exampleUser reorderShop = (Inr rows, reorderShop) \<and> map re_shortage rows = [3] \<and>
     sorted_wrt (\<lambda>a b. re_shortage b \<le> re_shortage a) rows"
proof -
  obtain rows where rows: "listReorderVisibility codeOrder exampleUser reorderShop = (Inr rows, reorderShop)" "map re_shortage rows = [3]"
    using reorderShop_list by (elim exE conjE) (rule that)
  have c: "collates codeOrder" unfolding collates_def codeOrder_def by (auto split: if_splits)
  show ?thesis
    using rows conjunct1 [OF conjunct2 [OF reorder_rows [OF rows(1) c]]] by (intro exI [of _ rows] conjI) assumption+
qed

end
