(* ===== verification/Procurement.thy ===== *)
theory Procurement
  imports StockMoves
begin

text \<open>
  Purchasing up to the order: \<open>apps/api/src/suppliers/suppliers.service.ts\<close>,
  \<open>apps/api/src/purchase-orders/purchase-orders.service.ts\<close> and the operation policies of
  \<open>apps/api/src/operations-control/operations-control.service.ts\<close>. The tables are those of purchasing,
  receiving and inspection; the goods receipts are in \<open>GoodsReceipts\<close>.

  A quantity times a unit factor is computed in double precision by the code and rejected unless it is a safe
  integer; the exact product is a safe integer in the same cases, so it is used. The cursor-paged listings are
  left out. \<open>digest\<close> is the hash of a request that its idempotency receipt stores.
\<close>

section \<open>Tables\<close>

record supplier =
  sp_id :: ident
  sp_company :: "ident option"
  sp_code :: string
  sp_name :: string
  sp_phone :: "string option"
  sp_email :: "string option"
  sp_address :: "string option"
  sp_paymentTermDays :: int
  sp_isActive :: bool

record product_variant =
  va_id :: ident
  va_product :: ident
  va_isActive :: bool
  va_salePrice :: "rat option"

record product_unit =
  un_id :: ident
  un_product :: ident
  un_variant :: "ident option"
  un_code :: string
  un_factor :: int
  un_isActive :: bool

record purchase_order =
  or_id :: ident
  or_number :: string
  or_supplier :: ident
  or_warehouse :: ident
  or_status :: string
  or_expectedDate :: "int option"
  or_subtotal :: rat
  or_total :: rat

record order_item =
  oit_id :: ident
  oit_order :: ident
  oit_product :: ident
  oit_variant :: "ident option"
  oit_unit :: "ident option"
  oit_unitCode :: "string option"
  oit_unitQuantity :: "int option"
  oit_factor :: int
  oit_ordered :: int
  oit_received :: int
  oit_unitCost :: rat
  oit_purchaseUnitCost :: "rat option"
  oit_subtotal :: rat

record goods_receipt =
  gr_id :: ident
  gr_number :: string
  gr_order :: ident
  gr_supplier :: ident
  gr_warehouse :: ident
  gr_status :: string
  gr_inspectionRequired :: bool
  gr_inspection :: "ident option"
  gr_confirmedAt :: "int option"
  gr_confirmedBy :: "ident option"
  gr_taxTotal :: rat
  gr_grossTotal :: rat
  gr_accountingEvent :: "ident option"

record receipt_item =
  gi_id :: ident
  gi_receipt :: ident
  gi_orderItem :: ident
  gi_product :: ident
  gi_variant :: "ident option"
  gi_unit :: "ident option"
  gi_unitCode :: string
  gi_unitQuantity :: int
  gi_damagedUnits :: int
  gi_factor :: int
  gi_received :: int
  gi_damaged :: int
  gi_accepted :: int
  gi_unitCost :: rat
  gi_subtotal :: rat
  gi_taxCode :: "ident option"
  gi_tax :: rat
  gi_gross :: rat
  gi_batch :: "string option"
  gi_expiry :: "int option"
  gi_serials :: "string list"

record inspection =
  ins_id :: ident
  ins_company :: ident
  ins_branch :: "ident option"
  ins_number :: string
  ins_type :: string
  ins_sourceType :: string
  ins_source :: ident
  ins_template :: "ident option"
  ins_status :: string
  ins_inspectedBy :: "ident option"
  ins_reviewedBy :: "ident option"
  ins_mismatch :: int
  ins_blocking :: int

record inspection_result =
  ires_inspection :: ident
  ires_templateItem :: "ident option"
  ires_code :: string
  ires_result :: string
  ires_product :: "ident option"
  ires_expected :: "int option"
  ires_scanned :: "int option"
  ires_accepted :: "int option"
  ires_rejected :: "int option"
  ires_damaged :: "int option"

record inspection_template =
  itm_id :: ident
  itm_company :: ident
  itm_code :: string
  itm_version :: int
  itm_status :: string

record template_item =
  iti_id :: ident
  iti_template :: ident
  iti_code :: string
  iti_required :: bool
  iti_severity :: string
  iti_sequence :: int

record confirmation =
  cf_id :: ident
  cf_company :: ident
  cf_branch :: "ident option"
  cf_sourceType :: string
  cf_source :: ident
  cf_type :: string
  cf_status :: string
  cf_requestedBy :: "ident option"
  cf_confirmedBy :: "ident option"
  cf_inspection :: "ident option"

record operation_policy =
  pol_id :: ident
  pol_company :: ident
  pol_branch :: "ident option"
  pol_code :: string
  pol_operationType :: string
  pol_name :: string
  pol_enabled :: bool
  pol_requireInspection :: bool
  pol_requirePhoto :: bool
  pol_requireBarcodeScan :: bool
  pol_requireBatchScan :: bool
  pol_requireSerialScan :: bool
  pol_requireVehicle :: bool
  pol_requireGatePass :: bool
  pol_requireGeofence :: bool
  pol_requiredConfirmations :: int
  pol_blockOnMismatch :: bool
  pol_tolerancePercent :: rat
  pol_autoPostInventory :: bool
  pol_autoPostAccounting :: bool
  pol_autoCalculateTax :: bool
  pol_approvalPolicyCode :: "string option"
  pol_templateCode :: "string option"
  pol_updatedAt :: int

record procurement_db = accounting_db +
  db_suppliers :: "supplier list"
  db_variants :: "product_variant list"
  db_units :: "product_unit list"
  db_orders :: "purchase_order list"
  db_orderItems :: "order_item list"
  db_goodsReceipts :: "goods_receipt list"
  db_receiptItems :: "receipt_item list"
  db_inspections :: "inspection list"
  db_inspectionResults :: "inspection_result list"
  db_templates :: "inspection_template list"
  db_templateItems :: "template_item list"
  db_confirmations :: "confirmation list"
  db_policies :: "operation_policy list"

section \<open>Suppliers\<close>

record supplier_dto =
  spd_code :: string
  spd_name :: string
  spd_phone :: "string option"
  spd_email :: "string option"
  spd_address :: "string option"
  spd_paymentTermDays :: "int option"

record supplier_update_dto =
  spu_name :: "string option"
  spu_phone :: "string option"
  spu_email :: "string option"
  spu_address :: "string option"
  spu_paymentTermDays :: "int option"
  spu_isActive :: "bool option"

definition createSupplier :: "supplier_dto \<Rightarrow> auth_user \<Rightarrow> ('b procurement_db_scheme, supplier) svc" where
  "createSupplier dto user = bindS (liftS (requireTenantScope user)) (\<lambda>scope. runTx (
     bindT (getT (\<lambda>s. find_first (\<lambda>x. sp_code x = spd_code dto) (db_suppliers s))) (\<lambda>taken.
     bindT (requireT (taken = None) (PrismaError ''P2002'')) (\<lambda>_.
     bindT newIdT (\<lambda>i.
     let row = \<lparr>sp_id = i, sp_company = Some (sc_company scope), sp_code = spd_code dto, sp_name = spd_name dto, sp_phone = spd_phone dto,
                sp_email = spd_email dto, sp_address = spd_address dto, sp_paymentTermDays = orElse (spd_paymentTermDays dto) 0,
                sp_isActive = True\<rparr>
     in bindT (modT (\<lambda>s. s\<lparr>db_suppliers := db_suppliers s @ [row]\<rparr>)) (\<lambda>_.
        bindT (auditT scope user ''CREATE_SUPPLIER'' ''Supplier'' (Some i)) (\<lambda>_. returnT row)))))))"

definition companySupplier :: "tenant_scope \<Rightarrow> ident \<Rightarrow> 'b procurement_db_scheme \<Rightarrow> supplier option" where
  "companySupplier scope i s = find_first (\<lambda>x. sp_id x = i \<and> sp_company x = Some (sc_company scope)) (db_suppliers s)"

text \<open>\<open>x !== undefined ? { f: x.trim() || null } : {}\<close>: a field that was not sent stays.\<close>

definition patchText :: "string option \<Rightarrow> string option \<Rightarrow> string option" where
  "patchText sent old = (case sent of None \<Rightarrow> old | Some t \<Rightarrow> cleanText (Some t))"

definition patchSupplier :: "supplier_update_dto \<Rightarrow> supplier \<Rightarrow> supplier" where
  "patchSupplier dto x = x\<lparr>sp_name := (case spu_name dto of None \<Rightarrow> sp_name x | Some t \<Rightarrow> trim t),
     sp_phone := patchText (spu_phone dto) (sp_phone x), sp_email := patchText (spu_email dto) (sp_email x),
     sp_address := patchText (spu_address dto) (sp_address x),
     sp_paymentTermDays := orElse (spu_paymentTermDays dto) (sp_paymentTermDays x),
     sp_isActive := orElse (spu_isActive dto) (sp_isActive x)\<rparr>"

definition updateSupplier :: "ident \<Rightarrow> supplier_update_dto \<Rightarrow> auth_user \<Rightarrow> ('b procurement_db_scheme, supplier) svc" where
  "updateSupplier i dto user = bindS (liftS (requireTenantScope user)) (\<lambda>scope. runTx (
     bindT (getT (companySupplier scope i)) (\<lambda>found. case found of
       None \<Rightarrow> denyT scope user ''Supplier'' (Some i)
     | Some x \<Rightarrow>
         bindT (modT (\<lambda>s. s\<lparr>db_suppliers := update_many (\<lambda>x. sp_id x = i) (patchSupplier dto) (db_suppliers s)\<rparr>)) (\<lambda>_.
         bindT (auditT scope user ''UPDATE_SUPPLIER'' ''Supplier'' (Some i)) (\<lambda>_.
         returnT (patchSupplier dto x))))))"

definition supplierDetail :: "ident \<Rightarrow> auth_user \<Rightarrow> ('b procurement_db_scheme, supplier) svc" where
  "supplierDetail i user = bindS (liftS (requireTenantScope user)) (\<lambda>scope.
     bindS (getS (companySupplier scope i)) (\<lambda>found. case found of
       None \<Rightarrow> denyS scope user ''Supplier'' (Some i) | Some x \<Rightarrow> returnS x))"

section \<open>One answer per key\<close>

text \<open>
  The transaction of a service that takes an optional idempotency key; a stored response is the id of the row it
  describes. \<open>serializableTx\<close> repeats the transaction when the database aborts it, which leaves no trace.
\<close>

definition onceT :: "receipt_opts option \<Rightarrow> ('b base_db_scheme, ident) tx \<Rightarrow> ('b base_db_scheme, ident option) tx" where
  "onceT opts work = (case opts of
     None \<Rightarrow> bindT work (\<lambda>i. returnT (Some i))
   | Some r \<Rightarrow> bindT (onReceiptTable (beginIdempotent [] r)) (\<lambda>gate. case gate of
       Replay response \<Rightarrow> returnT response
     | Proceed \<Rightarrow> bindT work (\<lambda>i. bindT (onReceiptTable (completeIdempotent r (Some i))) (\<lambda>_. returnT (Some i)))))"

definition keyedOpts :: "tenant_scope \<Rightarrow> string \<Rightarrow> string option \<Rightarrow> string \<Rightarrow> receipt_opts option" where
  "keyedOpts scope operation key payloadHash = (if present key
     then Some \<lparr>ro_company = sc_company scope, ro_scope = operation, ro_key = the key, ro_hash = payloadHash\<rparr> else None)"

section \<open>Purchase orders\<close>

record order_item_dto =
  pid_product :: ident
  pid_variant :: "ident option"
  pid_unit :: "ident option"
  pid_quantity :: int
  pid_unitCost :: rat

record order_dto =
  pod_key :: "string option"
  pod_supplier :: ident
  pod_warehouse :: ident
  pod_expectedDate :: "int option"
  pod_items :: "order_item_dto list"

definition itemsOfOrder :: "ident \<Rightarrow> 'b procurement_db_scheme \<Rightarrow> order_item list" where
  "itemsOfOrder i s = filter (\<lambda>t. oit_order t = i) (db_orderItems s)"

definition companyProduct :: "ident \<Rightarrow> ident \<Rightarrow> 'b base_db_scheme \<Rightarrow> bool" where
  "companyProduct c p s \<longleftrightarrow> list_ex (\<lambda>x. pr_id x = p \<and> pr_company x = c) (db_products s)"

text \<open>An order of the branch's warehouse, of a supplier and of products of the company.\<close>

definition visibleOrder :: "tenant_scope \<Rightarrow> ident \<Rightarrow> 'b procurement_db_scheme \<Rightarrow> purchase_order option" where
  "visibleOrder scope i s = find_first (\<lambda>x. or_id x = i \<and> findWarehouse scope (or_warehouse x) ByBranch False s \<noteq> None \<and>
     companySupplier scope (or_supplier x) s \<noteq> None \<and>
     list_all (\<lambda>t. companyProduct (sc_company scope) (oit_product t) s) (itemsOfOrder i s)) (db_orders s)"

definition findOrder :: "ident \<Rightarrow> auth_user \<Rightarrow> ('b procurement_db_scheme, purchase_order) svc" where
  "findOrder i user = bindS (liftS (requireTenantScope user)) (\<lambda>scope.
     bindS (getS (visibleOrder scope i)) (\<lambda>found. case found of
       None \<Rightarrow> denyS scope user ''PurchaseOrder'' (Some i) | Some x \<Rightarrow> returnS x))"

text \<open>The unit of a line: variant, unit, unit code and factor to the base unit.\<close>

definition lineUnit :: "tenant_scope \<Rightarrow> order_item_dto \<Rightarrow> 'b procurement_db_scheme \<Rightarrow>
    exn + ident option \<times> ident option \<times> string option \<times> int" where
  "lineUnit scope item s = (case pid_unit item of
     Some u \<Rightarrow>
       (case find_first (\<lambda>x. un_id x = u \<and> un_product x = pid_product item \<and> un_isActive x \<and>
            companyProduct (sc_company scope) (un_product x) s) (db_units s) of
          None \<Rightarrow> Inl (BadRequest ''ProductUnit pembelian tidak valid/aktif untuk produk yang dipilih.'')
        | Some unit \<Rightarrow>
            bindE (requireE (\<not> (pid_variant item \<noteq> None \<and> un_variant unit \<noteq> pid_variant item))
                     (BadRequest ''Variant pembelian tidak cocok dengan ProductUnit.'')) (\<lambda>_.
            bindE (requireE (case un_variant unit of None \<Rightarrow> True
                     | Some v \<Rightarrow> list_ex (\<lambda>x. va_id x = v \<and> va_isActive x) (db_variants s))
                     (BadRequest ''Variant pembelian sudah tidak aktif.'')) (\<lambda>_.
            Inr (case un_variant unit of None \<Rightarrow> pid_variant item | Some v \<Rightarrow> Some v, Some (un_id unit),
                 Some (toUpperCase (trim (un_code unit))), un_factor unit))))
   | None \<Rightarrow>
       bindE (requireE (case pid_variant item of None \<Rightarrow> True
                | Some v \<Rightarrow> list_ex (\<lambda>x. va_id x = v \<and> va_product x = pid_product item \<and> va_isActive x) (db_variants s))
                (BadRequest ''Variant pembelian tidak valid/aktif.'')) (\<lambda>_.
       Inr (pid_variant item, None, None, 1)))"

text \<open>A line of the order: its quantity in base units, its cost per base unit at six decimals.\<close>

definition prepareLine :: "decimal_ops \<Rightarrow> tenant_scope \<Rightarrow> 'b procurement_db_scheme \<Rightarrow> order_item_dto \<Rightarrow> exn + order_item" where
  "prepareLine dec scope s item = bindE (lineUnit scope item s) (\<lambda>(variant, unit, unitCode, factor).
     bindE (requireE (isSafeInteger factor \<and> 1 \<le> factor) (BadRequest ''Konversi UOM pembelian tidak aman.'')) (\<lambda>_.
     bindE (requireE (isSafeInteger (pid_quantity item * factor) \<and> 1 \<le> pid_quantity item * factor)
              (BadRequest ''Hasil konversi quantity pembelian tidak aman.'')) (\<lambda>_.
     Inr \<lparr>oit_id = 0, oit_order = 0, oit_product = pid_product item, oit_variant = variant, oit_unit = unit, oit_unitCode = unitCode,
          oit_unitQuantity = Some (pid_quantity item), oit_factor = factor, oit_ordered = pid_quantity item * factor, oit_received = 0,
          oit_unitCost = d_places dec 6 (d_div dec (pid_unitCost item) (of_int factor)),
          oit_purchaseUnitCost = Some (pid_unitCost item), oit_subtotal = d_mul dec (pid_unitCost item) (of_int (pid_quantity item))\<rparr>)))"

definition addOrderItems :: "ident \<Rightarrow> order_item list \<Rightarrow> ('b procurement_db_scheme, unit) tx" where
  "addOrderItems i = forT (\<lambda>item. bindT newIdT (\<lambda>n.
     modT (\<lambda>s. s\<lparr>db_orderItems := db_orderItems s @ [item\<lparr>oit_id := n, oit_order := i\<rparr>]\<rparr>)))"

definition createOrderTx ::
    "decimal_ops \<Rightarrow> tenant_scope \<Rightarrow> order_dto \<Rightarrow> ident \<Rightarrow> order_item list \<Rightarrow> auth_user \<Rightarrow> ('b procurement_db_scheme, ident) tx" where
  "createOrderTx dec scope dto warehouseId items user =
     bindT (numberT scope ''PURCHASE_ORDER'' ''PO'') (\<lambda>number.
     bindT (getT (\<lambda>s. find_first (\<lambda>x. or_number x = number) (db_orders s))) (\<lambda>taken.
     bindT (requireT (taken = None) (PrismaError ''P2002'')) (\<lambda>_.
     bindT newIdT (\<lambda>i.
     let subtotal = d_sum dec (map oit_subtotal items);
         row = \<lparr>or_id = i, or_number = number, or_supplier = pod_supplier dto, or_warehouse = warehouseId, or_status = ''APPROVED'',
                or_expectedDate = pod_expectedDate dto, or_subtotal = subtotal, or_total = subtotal\<rparr>
     in bindT (modT (\<lambda>s. s\<lparr>db_orders := db_orders s @ [row]\<rparr>)) (\<lambda>_.
        bindT (addOrderItems i items) (\<lambda>_.
        bindT (auditT scope user ''CREATE_PURCHASE_ORDER'' ''PurchaseOrder'' (Some i)) (\<lambda>_.
        returnT i)))))))"

definition orderSupplier :: "tenant_scope \<Rightarrow> order_dto \<Rightarrow> auth_user \<Rightarrow> ('b procurement_db_scheme, unit) svc" where
  "orderSupplier scope dto user =
     bindS (getS (\<lambda>s. list_ex (\<lambda>x. sp_id x = pod_supplier dto \<and> sp_company x = Some (sc_company scope) \<and> sp_isActive x)
              (db_suppliers s))) (\<lambda>usable.
     if usable then returnS ()
     else bindS (getS (\<lambda>s. list_ex (\<lambda>x. sp_id x = pod_supplier dto) (db_suppliers s))) (\<lambda>exists.
       if exists then denyS scope user ''Supplier'' (Some (pod_supplier dto))
       else throwS (BadRequest ''Supplier tidak ditemukan.'')))"

definition createOrder ::
    "decimal_ops \<Rightarrow> (order_dto \<Rightarrow> string) \<Rightarrow> order_dto \<Rightarrow> auth_user \<Rightarrow> ('b procurement_db_scheme, ident option) svc" where
  "createOrder dec digest dto user =
     bindS (liftS (requireTenantScope user)) (\<lambda>scope.
     bindS (requireS (pod_items dto \<noteq> []) (BadRequest ''Purchase order harus memiliki minimal satu barang.'')) (\<lambda>_.
     bindS (warehouseS user scope (pod_warehouse dto) ByBranch False) (\<lambda>w.
     bindS (orderSupplier scope dto user) (\<lambda>_.
     bindS (requestedProducts user scope (remdups (map pid_product (pod_items dto)))) (\<lambda>_.
     bindS (getS (\<lambda>s. mapE (prepareLine dec scope s) (pod_items dto))) (\<lambda>prepared.
     bindS (liftS prepared) (\<lambda>items.
     runTx (onceT (keyedOpts scope ''purchase-order:create'' (pod_key dto) (digest dto))
       (createOrderTx dec scope dto (wh_id w) items user)))))))))"

section \<open>Operation policies\<close>

record policy_dto =
  pld_company :: "ident option"
  pld_branch :: "ident option"
  pld_code :: string
  pld_operationType :: string
  pld_name :: string
  pld_enabled :: "bool option"
  pld_requireInspection :: "bool option"
  pld_requirePhoto :: "bool option"
  pld_requireBarcodeScan :: "bool option"
  pld_requireBatchScan :: "bool option"
  pld_requireSerialScan :: "bool option"
  pld_requireVehicle :: "bool option"
  pld_requireGatePass :: "bool option"
  pld_requireGeofence :: "bool option"
  pld_requiredConfirmations :: "int option"
  pld_blockOnMismatch :: "bool option"
  pld_tolerancePercent :: "rat option"
  pld_autoPostInventory :: "bool option"
  pld_autoPostAccounting :: "bool option"
  pld_autoCalculateTax :: "bool option"
  pld_approvalPolicyCode :: "string option"
  pld_templateCode :: "string option"

text \<open>
  \<open>orderBy: [{ branchId: 'desc' }, { updatedAt: 'desc' }]\<close>: PostgreSQL puts nulls first in a descending order, so
  the policy of the company precedes the policy of the branch.
\<close>

definition policyPrecedes :: "operation_policy \<Rightarrow> operation_policy \<Rightarrow> bool" where
  "policyPrecedes a b \<longleftrightarrow> (pol_branch a = None \<and> pol_branch b \<noteq> None) \<or>
     (pol_branch a = pol_branch b \<and> pol_updatedAt b \<le> pol_updatedAt a)"

definition policyApplies :: "ident \<Rightarrow> ident \<Rightarrow> string \<Rightarrow> operation_policy \<Rightarrow> bool" where
  "policyApplies c b operationType x \<longleftrightarrow> pol_company x = c \<and> pol_operationType x = operationType \<and> pol_enabled x \<and>
     (pol_branch x = Some b \<or> pol_branch x = None)"

definition resolvePolicy :: "ident \<Rightarrow> ident \<Rightarrow> string \<Rightarrow> 'b procurement_db_scheme \<Rightarrow> operation_policy option" where
  "resolvePolicy c b operationType s = find_ordered policyPrecedes (policyApplies c b operationType) (db_policies s)"

definition policyData :: "tenant_scope \<Rightarrow> policy_dto \<Rightarrow> ident \<Rightarrow> int \<Rightarrow> operation_policy" where
  "policyData scope dto i t = \<lparr>pol_id = i, pol_company = sc_company scope, pol_branch = Some (sc_branch scope), pol_code = pld_code dto,
     pol_operationType = pld_operationType dto, pol_name = pld_name dto, pol_enabled = orElse (pld_enabled dto) True,
     pol_requireInspection = orElse (pld_requireInspection dto) False, pol_requirePhoto = orElse (pld_requirePhoto dto) False,
     pol_requireBarcodeScan = orElse (pld_requireBarcodeScan dto) False, pol_requireBatchScan = orElse (pld_requireBatchScan dto) False,
     pol_requireSerialScan = orElse (pld_requireSerialScan dto) False, pol_requireVehicle = orElse (pld_requireVehicle dto) False,
     pol_requireGatePass = orElse (pld_requireGatePass dto) False, pol_requireGeofence = orElse (pld_requireGeofence dto) False,
     pol_requiredConfirmations = orElse (pld_requiredConfirmations dto) 1, pol_blockOnMismatch = orElse (pld_blockOnMismatch dto) True,
     pol_tolerancePercent = orElse (pld_tolerancePercent dto) 0, pol_autoPostInventory = orElse (pld_autoPostInventory dto) True,
     pol_autoPostAccounting = orElse (pld_autoPostAccounting dto) True, pol_autoCalculateTax = orElse (pld_autoCalculateTax dto) True,
     pol_approvalPolicyCode = pld_approvalPolicyCode dto,
     pol_templateCode = pld_templateCode dto, pol_updatedAt = t\<rparr>"

text \<open>A code that is not sent leaves the stored one. The workflow, a JSON value, is not modelled.\<close>

definition upsertPolicy :: "policy_dto \<Rightarrow> auth_user \<Rightarrow> ('b procurement_db_scheme, operation_policy) svc" where
  "upsertPolicy dto user =
     bindS (liftS (requireTenantScope user)) (\<lambda>scope.
     bindS (assertRequestedScope user scope (pld_company dto) (pld_branch dto) ''OperationPolicy'') (\<lambda>_. runTx (
       bindT (getT (\<lambda>s. find_first (\<lambda>x. pol_company x = sc_company scope \<and> pol_branch x = Some (sc_branch scope) \<and>
                pol_code x = pld_code dto) (db_policies s))) (\<lambda>existing.
       bindT nowT (\<lambda>t.
       bindT (case existing of
                Some x \<Rightarrow>
                  let row = (policyData scope dto (pol_id x) t)
                        \<lparr>pol_approvalPolicyCode := (case pld_approvalPolicyCode dto of None \<Rightarrow> pol_approvalPolicyCode x | Some c \<Rightarrow> Some c),
                         pol_templateCode := (case pld_templateCode dto of None \<Rightarrow> pol_templateCode x | Some c \<Rightarrow> Some c)\<rparr>
                  in bindT (modT (\<lambda>s. s\<lparr>db_policies := update_many (\<lambda>y. pol_id y = pol_id x) (\<lambda>_. row) (db_policies s)\<rparr>)) (\<lambda>_. returnT row)
              | None \<Rightarrow> bindT newIdT (\<lambda>i.
                  let row = policyData scope dto i t
                  in bindT (modT (\<lambda>s. s\<lparr>db_policies := db_policies s @ [row]\<rparr>)) (\<lambda>_. returnT row))) (\<lambda>row.
       bindT (auditT scope user ''UPSERT_OPERATION_POLICY'' ''OperationPolicy'' (Some (pol_id row))) (\<lambda>_.
       returnT row)))))))"

end
