(* ===== verification/GoodsReceipts.thy ===== *)
theory GoodsReceipts
  imports Procurement
begin

text \<open>
  Goods receipts: \<open>apps/api/src/goods-receipts/goods-receipts.service.ts\<close>. A receipt is drafted against the lines of
  a purchase order, waits for its inspection where the policy asks for one, and is confirmed once: the order's
  lines, the stock, the batches, the serial numbers and the books move together.
\<close>

section \<open>Requests\<close>

record receipt_line_dto =
  gid_orderItem :: ident
  gid_received :: int
  gid_damaged :: "int option"
  gid_batch :: "string option"
  gid_expiry :: "int option option"
  gid_serials :: "string list"
  gid_taxCode :: "ident option"

record goods_receipt_dto =
  grd_key :: "string option"
  grd_order :: ident
  grd_autoConfirm :: bool
  grd_items :: "receipt_line_dto list"

record confirm_dto =
  cfd_inspection :: "ident option"

section \<open>Drafting a receipt\<close>

definition productOf :: "ident \<Rightarrow> 'b base_db_scheme \<Rightarrow> product option" where
  "productOf p s = find_first (\<lambda>x. pr_id x = p) (db_products s)"

text \<open>The checks of the batch, the expiry date and the serial numbers of a line.\<close>

definition checkTracking :: "product \<Rightarrow> receipt_line_dto \<Rightarrow> int \<Rightarrow> int \<Rightarrow> exn + unit" where
  "checkTracking p input accepted t =
     (let batchNumber = map_option trim (gid_batch input); serialNumbers = cleanSerials (gid_serials input) in
      bindE (requireE (\<not> (0 < accepted \<and> pr_trackBatch p \<and> \<not> present batchNumber)) (BadRequest ''Nomor batch wajib.'')) (\<lambda>_.
      bindE (requireE (\<not> (0 < accepted \<and> pr_trackExpiry p \<and> \<not> present batchNumber))
               (BadRequest ''Produk dengan tracking expiry wajib memiliki batch.'')) (\<lambda>_.
      bindE (requireE (\<not> (0 < accepted \<and> pr_trackExpiry p \<and> gid_expiry input = None)) (BadRequest ''Tanggal kedaluwarsa wajib.'')) (\<lambda>_.
      bindE (requireE (gid_expiry input \<noteq> Some None) (BadRequest ''Tanggal kedaluwarsa tidak valid.'')) (\<lambda>_.
      bindE (requireE (case gid_expiry input of Some (Some e) \<Rightarrow> t < e | _ \<Rightarrow> True)
               (BadRequest ''Batch sudah kedaluwarsa dan tidak boleh diterima sebagai stok sellable.'')) (\<lambda>_.
      bindE (requireE (distinct serialNumbers) (BadRequest ''Nomor serial tidak boleh duplikat dalam satu penerimaan.'')) (\<lambda>_.
      bindE (requireE (\<not> (pr_trackSerial p \<and> int (length serialNumbers) \<noteq> accepted)) (BadRequest ''Produk wajib memiliki tepat acceptedQty serial.'')) (\<lambda>_.
      requireE (\<not> (\<not> pr_trackSerial p \<and> serialNumbers \<noteq> []))
        (BadRequest ''Produk tidak memakai serial; serialNumbers tidak boleh dikirim.'')))))))))"

text \<open>
  One line: quantities in base units, what earlier lines of the request take from the same order line counted in,
  and the tax of the accepted units. The prepared lines are receipt items without their ids.
\<close>

definition prepareReceiptLine ::
    "decimal_ops \<Rightarrow> tenant_scope \<Rightarrow> order_item list \<Rightarrow> receipt_line_dto \<Rightarrow> receipt_item list \<Rightarrow> ('b procurement_db_scheme, receipt_item list) tx" where
  "prepareReceiptLine dec scope items input prepared = (case find_first (\<lambda>x. oit_id x = gid_orderItem input) items of
     None \<Rightarrow> throwT (BadRequest ''Item PO tidak ditemukan.'')
   | Some item \<Rightarrow>
       bindT (getT (productOf (oit_product item))) (\<lambda>product. case product of None \<Rightarrow> throwT (PlainError ''TypeError'') | Some p \<Rightarrow>
       let factor = oit_factor item; damagedUnits = orElse (gid_damaged input) 0;
           received = gid_received input * factor; damaged = damagedUnits * factor;
           receivedForLine = sum_where gi_received (\<lambda>x. gi_orderItem x = oit_id item) prepared + received;
           accepted = received - damaged; base = d_mul dec (oit_unitCost item) (of_int accepted)
       in bindT (requireT (isSafeInteger factor \<and> 1 \<le> factor) (BadRequest ''Konversi UOM PO tidak valid.'')) (\<lambda>_.
          bindT (requireT (damagedUnits \<le> gid_received input) (BadRequest ''Jumlah rusak melebihi jumlah diterima.'')) (\<lambda>_.
          bindT (requireT (isSafeInteger received \<and> isSafeInteger damaged) (BadRequest ''Konversi penerimaan tidak aman.'')) (\<lambda>_.
          bindT (requireT (receivedForLine \<le> oit_ordered item - oit_received item) (BadRequest ''Penerimaan melebihi sisa PO.'')) (\<lambda>_.
          bindT nowT (\<lambda>t.
          bindT (liftE (checkTracking p input accepted t)) (\<lambda>_.
          bindT (calculateTax dec (case gid_taxCode input of None \<Rightarrow> pr_purchaseTaxCode p | Some c \<Rightarrow> Some c) base
                   (Some (sc_company scope)) t [''PURCHASE'', ''OTHER'']) (\<lambda>tax.
          returnT (prepared @ [\<lparr>gi_id = 0, gi_receipt = 0, gi_orderItem = oit_id item, gi_product = oit_product item,
            gi_variant = oit_variant item, gi_unit = oit_unit item, gi_unitCode = orElse (oit_unitCode item) (pr_unit p),
            gi_unitQuantity = gid_received input, gi_damagedUnits = damagedUnits, gi_factor = factor, gi_received = received, gi_damaged = damaged, gi_accepted = accepted,
            gi_unitCost = oit_unitCost item, gi_subtotal = tr_net tax, gi_taxCode = map_option tx_id (tr_taxCode tax), gi_tax = tr_tax tax,
            gi_gross = tr_gross tax, gi_batch = map_option trim (gid_batch input),
            gi_expiry = (case gid_expiry input of Some e \<Rightarrow> e | None \<Rightarrow> None), gi_serials = cleanSerials (gid_serials input)\<rparr>])))))))))) "

definition addReceiptItems :: "ident \<Rightarrow> receipt_item list \<Rightarrow> ('b procurement_db_scheme, unit) tx" where
  "addReceiptItems i = forT (\<lambda>item. bindT newIdT (\<lambda>n.
     modT (\<lambda>s. s\<lparr>db_receiptItems := db_receiptItems s @ [item\<lparr>gi_id := n, gi_receipt := i\<rparr>]\<rparr>)))"

definition templateResult :: "ident \<Rightarrow> template_item \<Rightarrow> inspection_result" where
  "templateResult i item = \<lparr>ires_inspection = i, ires_templateItem = Some (iti_id item), ires_code = iti_code item,
     ires_result = ''OBSERVATION'', ires_product = None, ires_expected = None, ires_scanned = None, ires_accepted = None,
     ires_rejected = None, ires_damaged = None\<rparr>"

definition productResult :: "ident \<Rightarrow> receipt_item \<Rightarrow> inspection_result" where
  "productResult i item = \<lparr>ires_inspection = i, ires_templateItem = None, ires_code = ''PRODUCT-'' @ identText (gi_product item),
     ires_result = (if 0 < gi_damaged item then ''OBSERVATION'' else ''PASS''), ires_product = Some (gi_product item),
     ires_expected = Some (gi_received item), ires_scanned = Some 0, ires_accepted = Some (gi_accepted item),
     ires_rejected = Some (gi_damaged item), ires_damaged = Some (gi_damaged item)\<rparr>"

definition activeTemplate :: "ident \<Rightarrow> string \<Rightarrow> 'b procurement_db_scheme \<Rightarrow> inspection_template option" where
  "activeTemplate c code s = find_ordered (\<lambda>a b. itm_version b \<le> itm_version a)
     (\<lambda>x. itm_company x = c \<and> itm_code x = code \<and> itm_status x = ''ACTIVE'') (db_templates s)"

definition templateItems :: "inspection_template option \<Rightarrow> 'b procurement_db_scheme \<Rightarrow> template_item list" where
  "templateItems template s = (case template of None \<Rightarrow> []
     | Some x \<Rightarrow> sort_key iti_sequence (filter (\<lambda>i. iti_template i = itm_id x) (db_templateItems s)))"

definition openInspection ::
    "tenant_scope \<Rightarrow> operation_policy option \<Rightarrow> ident \<Rightarrow> receipt_item list \<Rightarrow> auth_user \<Rightarrow> ('b procurement_db_scheme, ident) tx" where
  "openInspection scope policy receiptId prepared user =
     bindT (getT (\<lambda>s. case policy of None \<Rightarrow> None | Some x \<Rightarrow> (case pol_templateCode x of None \<Rightarrow> None
              | Some c \<Rightarrow> if c = '''' then None else activeTemplate (sc_company scope) c s))) (\<lambda>template.
     bindT (getT (templateItems template)) (\<lambda>checklist.
     bindT (numberT scope ''INSPECTION_IN'' ''INSP-IN'') (\<lambda>number.
     bindT (getT (\<lambda>s. find_first (\<lambda>x. ins_company x = sc_company scope \<and> ins_number x = number) (db_inspections s))) (\<lambda>taken.
     bindT (requireT (taken = None) (PrismaError ''P2002'')) (\<lambda>_.
     bindT newIdT (\<lambda>i.
     let row = \<lparr>ins_id = i, ins_company = sc_company scope, ins_branch = Some (sc_branch scope), ins_number = number,
                ins_type = ''PURCHASE_INBOUND'', ins_sourceType = ''GoodsReceipt'', ins_source = receiptId,
                ins_template = map_option itm_id template, ins_status = ''IN_PROGRESS'', ins_inspectedBy = Some (us_sub user),
                ins_reviewedBy = None, ins_mismatch = int (length (filter (\<lambda>x. 0 < gi_damaged x) prepared)), ins_blocking = 0\<rparr>
     in bindT (modT (\<lambda>s. s\<lparr>db_inspections := db_inspections s @ [row],
                db_inspectionResults := db_inspectionResults s @ map (templateResult i) checklist @ map (productResult i) prepared\<rparr>)) (\<lambda>_.
        bindT (modT (\<lambda>s. s\<lparr>db_goodsReceipts := update_many (\<lambda>x. gr_id x = receiptId) (\<lambda>x. x\<lparr>gr_inspection := Some i\<rparr>) (db_goodsReceipts s)\<rparr>)) (\<lambda>_.
        returnT i))))))))"

definition draftReceipt ::
    "decimal_ops \<Rightarrow> tenant_scope \<Rightarrow> operation_policy option \<Rightarrow> purchase_order \<Rightarrow> receipt_item list \<Rightarrow> auth_user \<Rightarrow>
     ('b procurement_db_scheme, ident) tx" where
  "draftReceipt dec scope policy po prepared user =
     (let inspectionRequired = (case policy of None \<Rightarrow> True | Some x \<Rightarrow> pol_requireInspection x) in
      bindT (numberT scope ''GOODS_RECEIPT'' ''GRN'') (\<lambda>number.
      bindT (getT (\<lambda>s. find_first (\<lambda>x. gr_number x = number) (db_goodsReceipts s))) (\<lambda>taken.
      bindT (requireT (taken = None) (PrismaError ''P2002'')) (\<lambda>_.
      bindT newIdT (\<lambda>i.
      let row = \<lparr>gr_id = i, gr_number = number, gr_order = or_id po, gr_supplier = or_supplier po, gr_warehouse = or_warehouse po,
                 gr_status = (if inspectionRequired then ''PENDING_INSPECTION'' else ''READY_TO_CONFIRM''),
                 gr_inspectionRequired = inspectionRequired, gr_inspection = None, gr_confirmedAt = None, gr_confirmedBy = None,
                 gr_taxTotal = d_sum dec (map gi_tax prepared), gr_grossTotal = d_sum dec (map gi_gross prepared),
                 gr_accountingEvent = None\<rparr>
      in bindT (modT (\<lambda>s. s\<lparr>db_goodsReceipts := db_goodsReceipts s @ [row]\<rparr>)) (\<lambda>_.
         bindT (addReceiptItems i prepared) (\<lambda>_.
         bindT (if inspectionRequired then bindT (openInspection scope policy i prepared user) (\<lambda>n. returnT (Some n)) else returnT None) (\<lambda>inspectionId.
         bindT newIdT (\<lambda>n.
         bindT (modT (\<lambda>s. s\<lparr>db_confirmations := db_confirmations s @ [\<lparr>cf_id = n, cf_company = sc_company scope,
                  cf_branch = Some (sc_branch scope), cf_sourceType = ''GoodsReceipt'', cf_source = i, cf_type = ''GOODS_RECEIPT_CONFIRMATION'',
                  cf_status = ''PENDING'', cf_requestedBy = Some (us_sub user), cf_confirmedBy = None, cf_inspection = inspectionId\<rparr>]\<rparr>)) (\<lambda>_.
         bindT (auditT scope user ''CREATE_GOODS_RECEIPT_DRAFT'' ''GoodsReceipt'' (Some i)) (\<lambda>_.
         returnT i)))))))))))"

text \<open>The company and the branch of the order's warehouse are those of the scope, which \<open>visibleOrder\<close> demands.\<close>

definition createReceiptTx ::
    "decimal_ops \<Rightarrow> tenant_scope \<Rightarrow> operation_policy option \<Rightarrow> goods_receipt_dto \<Rightarrow> auth_user \<Rightarrow> ('b procurement_db_scheme, ident) tx" where
  "createReceiptTx dec scope policy dto user =
     bindT (getT (visibleOrder scope (grd_order dto))) (\<lambda>found. case found of
       None \<Rightarrow> throwT (Forbidden ''Purchase order tidak tersedia dalam company dan branch pengguna.'')
     | Some po \<Rightarrow>
         bindT (requireT (\<not> List.member [''CANCELLED'', ''RECEIVED''] (or_status po)) (BadRequest ''PO tidak dapat diterima lagi.'')) (\<lambda>_.
         bindT (getT (itemsOfOrder (or_id po))) (\<lambda>items.
         bindT (foldT (prepareReceiptLine dec scope items) (grd_items dto) []) (\<lambda>prepared.
         draftReceipt dec scope policy po prepared user))))"

section \<open>Confirming a receipt\<close>

definition itemsOfReceipt :: "ident \<Rightarrow> 'b procurement_db_scheme \<Rightarrow> receipt_item list" where
  "itemsOfReceipt i s = filter (\<lambda>t. gi_receipt t = i) (db_receiptItems s)"

definition visibleReceipt :: "tenant_scope \<Rightarrow> ident \<Rightarrow> 'b procurement_db_scheme \<Rightarrow> goods_receipt option" where
  "visibleReceipt scope i s = find_first (\<lambda>x. gr_id x = i \<and> findWarehouse scope (gr_warehouse x) ByBranch False s \<noteq> None \<and>
     companySupplier scope (gr_supplier x) s \<noteq> None \<and>
     list_all (\<lambda>t. companyProduct (sc_company scope) (gi_product t) s) (itemsOfReceipt i s)) (db_goodsReceipts s)"

text \<open>The inspection a receipt needs before it is confirmed.\<close>

definition checkInspection :: "tenant_scope \<Rightarrow> goods_receipt \<Rightarrow> ident option \<Rightarrow> ('b procurement_db_scheme, unit) tx" where
  "checkInspection scope r inspectionId = (if \<not> gr_inspectionRequired r then returnT () else
     case inspectionId of None \<Rightarrow> throwT (BadRequest ''Pemeriksaan barang wajib.'')
   | Some n \<Rightarrow>
       bindT (getT (\<lambda>s. find_first (\<lambda>x. ins_id x = n \<and> ins_company x = sc_company scope \<and> ins_branch x = Some (sc_branch scope) \<and>
                ins_sourceType x = ''GoodsReceipt'' \<and> ins_source x = gr_id r) (db_inspections s))) (\<lambda>found. case found of
         None \<Rightarrow> throwT (BadRequest ''Pemeriksaan tidak sesuai penerimaan.'')
       | Some x \<Rightarrow>
           bindT (requireT (List.member [''PASSED'', ''PARTIAL'', ''APPROVED''] (ins_status x))
                    (BadRequest ''Pemeriksaan belum dapat dikonfirmasi.'')) (\<lambda>_.
           bindT (getT (resolvePolicy (sc_company scope) (sc_branch scope) ''PURCHASE_RECEIPT'')) (\<lambda>policy.
           requireT (\<not> ((case policy of None \<Rightarrow> True | Some y \<Rightarrow> pol_blockOnMismatch y) \<and> ins_status x = ''PARTIAL''))
             (BadRequest ''Penerimaan memiliki mismatch dan harus disetujui terlebih dahulu sebelum stok/jurnal diposting.'')))))"

definition tracksSerial :: "ident \<Rightarrow> 'b base_db_scheme \<Rightarrow> bool" where
  "tracksSerial p s \<longleftrightarrow> list_ex (\<lambda>x. pr_id x = p \<and> pr_trackSerial x) (db_products s)"

text \<open>The serial numbers of the document so far, with those of one more item.\<close>

definition collectSerials :: "'b base_db_scheme \<Rightarrow> string list \<Rightarrow> receipt_item \<Rightarrow> exn + string list" where
  "collectSerials s seen item = (let numbers = cleanSerials (gi_serials item) in
     if tracksSerial (gi_product item) s then
       bindE (requireE (int (length numbers) = gi_accepted item) (BadRequest ''Serial tidak lengkap.'')) (\<lambda>_.
       bindE (requireE (distinct (seen @ numbers)) (BadRequest ''Serial duplikat dalam dokumen penerimaan.'')) (\<lambda>_.
       Inr (seen @ numbers)))
     else bindE (requireE (numbers = []) (BadRequest ''Produk tidak memakai serial tetapi dokumen menyimpan serialNumbers.'')) (\<lambda>_. Inr seen))"

primrec allSerials :: "'b base_db_scheme \<Rightarrow> string list \<Rightarrow> receipt_item list \<Rightarrow> exn + string list" where
  "allSerials s seen [] = Inr seen"
| "allSerials s seen (item # items) = bindE (collectSerials s seen item) (\<lambda>seen'. allSerials s seen' items)"

text \<open>What the receipt takes of each order line must be left of it.\<close>

definition acceptedOf :: "receipt_item list \<Rightarrow> ident \<Rightarrow> int" where
  "acceptedOf items i = sum_where gi_accepted (\<lambda>x. gi_orderItem x = i) items"

definition checkRemaining :: "order_item list \<Rightarrow> receipt_item list \<Rightarrow> ident \<Rightarrow> exn + unit" where
  "checkRemaining orderItems items i = (case find_first (\<lambda>x. oit_id x = i) orderItems of
     None \<Rightarrow> Inl (BadRequest ''Item PO tidak ditemukan saat konfirmasi.'')
   | Some x \<Rightarrow> requireE (acceptedOf items i \<le> oit_ordered x - oit_received x) (BadRequest ''Jumlah diterima melebihi sisa PO.''))"

definition firstOccurrences :: "'a list \<Rightarrow> 'a list" where
  "firstOccurrences xs = rev (remdups (rev xs))"

definition confirmChecks :: "tenant_scope \<Rightarrow> goods_receipt \<Rightarrow> ident option \<Rightarrow> receipt_item list \<Rightarrow> ('b procurement_db_scheme, unit) tx" where
  "confirmChecks scope r inspectionId items =
     bindT (checkInspection scope r inspectionId) (\<lambda>_.
     bindT (getT (\<lambda>s. allSerials s [] items)) (\<lambda>numbers.
     bindT (liftE numbers) (\<lambda>inbound.
     bindT (getT (\<lambda>s. list_ex (\<lambda>x. List.member inbound (sn_number x)) (db_serials s))) (\<lambda>registered.
     bindT (requireT (\<not> registered) (BadRequest ''Serial sudah terdaftar.'')) (\<lambda>_.
     bindT (getT (itemsOfOrder (gr_order r))) (\<lambda>orderItems.
     bindT (liftE (mapE (checkRemaining orderItems items) (firstOccurrences (map gi_orderItem items)))) (\<lambda>_.
     returnT ())))))))"

text \<open>The batch of an accepted item: its expiry date may be filled in, not changed.\<close>

definition acceptBatch :: "ident \<Rightarrow> receipt_item \<Rightarrow> ('b base_db_scheme, unit) tx" where
  "acceptBatch w item = (if \<not> present (gi_batch item) then returnT () else
     let p = gi_product item; n = the (gi_batch item) in
     bindT (getT (findBatch w p n)) (\<lambda>existing. case existing of
       Some b \<Rightarrow>
         bindT (requireT (case (bt_expiry b, gi_expiry item) of (Some x, Some y) \<Rightarrow> x = y | _ \<Rightarrow> True)
                  (BadRequest ''Tanggal kedaluwarsa batch berbeda dari batch yang sudah terdaftar.'')) (\<lambda>_.
         modT (\<lambda>s. s\<lparr>db_batches := update_many (\<lambda>x. bt_warehouse x = w \<and> bt_product x = p \<and> bt_number x = n)
           (\<lambda>x. x\<lparr>bt_expiry := (case bt_expiry b of Some e \<Rightarrow> bt_expiry x
                                | None \<Rightarrow> (case gi_expiry item of Some e \<Rightarrow> Some e | None \<Rightarrow> bt_expiry x)),
                   bt_quantity := bt_quantity x + gi_accepted item\<rparr>) (db_batches s)\<rparr>))
     | None \<Rightarrow> bindT newIdT (\<lambda>i. modT (\<lambda>s. s\<lparr>db_batches := db_batches s @
         [\<lparr>bt_id = i, bt_warehouse = w, bt_product = p, bt_number = n, bt_produced = None, bt_expiry = gi_expiry item,
           bt_quantity = gi_accepted item, bt_reserved = 0\<rparr>]\<rparr>))))"

text \<open>\<open>InventorySerial.serialNumber\<close> is unique.\<close>

definition acceptSerials :: "ident \<Rightarrow> receipt_item \<Rightarrow> ('b base_db_scheme, unit) tx" where
  "acceptSerials w item =
     bindT (getT (tracksSerial (gi_product item))) (\<lambda>tracked.
     if \<not> tracked then returnT ()
     else forT (\<lambda>number.
       bindT (getT (\<lambda>s. list_ex (\<lambda>x. sn_number x = number) (db_serials s))) (\<lambda>taken.
       bindT (requireT (\<not> taken) (PrismaError ''P2002'')) (\<lambda>_.
       bindT newIdT (\<lambda>i. modT (\<lambda>s. s\<lparr>db_serials := db_serials s @
         [\<lparr>sn_id = i, sn_warehouse = w, sn_product = gi_product item, sn_number = number, sn_status = ''AVAILABLE'',
           sn_referenceType = ''GoodsReceiptItem'', sn_referenceId = identText (gi_id item)\<rparr>]\<rparr>)))))
       (cleanSerials (gi_serials item)))"

definition acceptItem :: "ident \<Rightarrow> receipt_item \<Rightarrow> ('b procurement_db_scheme, unit) tx" where
  "acceptItem w item =
     bindT (modT (\<lambda>s. s\<lparr>db_orderItems := update_many (\<lambda>x. oit_id x = gi_orderItem item)
              (\<lambda>x. x\<lparr>oit_received := oit_received x + gi_accepted item\<rparr>) (db_orderItems s)\<rparr>)) (\<lambda>_.
     if gi_accepted item \<le> 0 then returnT ()
     else
       bindT (depositStock w (gi_product item) (gi_accepted item) ''PURCHASE_RECEIPT'' ''GoodsReceipt'' (identText (gi_receipt item))) (\<lambda>_.
       bindT (acceptBatch w item) (\<lambda>_.
       acceptSerials w item)))"

text \<open>Base and tax per tax code, in the order the codes first appear.\<close>

definition taxGroups :: "decimal_ops \<Rightarrow> receipt_item list \<Rightarrow> tax_line list" where
  "taxGroups dec items = (let taxed = filter (\<lambda>x. gi_taxCode x \<noteq> None \<and> 0 < gi_tax x) items in
     map (\<lambda>c. let mine = filter (\<lambda>x. gi_taxCode x = Some c) taxed in
        \<lparr>tl_taxCode = c, tl_direction = ''INPUT'', tl_base = d_sum dec (map gi_subtotal mine), tl_amount = d_sum dec (map gi_tax mine)\<rparr>)
       (firstOccurrences (List.map_filter gi_taxCode taxed)))"

definition receiptEvent :: "decimal_ops \<Rightarrow> tenant_scope \<Rightarrow> goods_receipt \<Rightarrow> receipt_item list \<Rightarrow> post_input" where
  "receiptEvent dec scope r items =
     (let net = d_sum dec (map gi_subtotal items); tax = d_sum dec (map gi_tax items); gross = d_sum dec (map gi_gross items) in
      (stockEvent scope (sc_branch scope) ''PURCHASE_RECEIPT_CREDIT'' ''GoodsReceipt'' (identText (gr_id r))
         (''goods-receipt-confirm:'' @ identText (gr_id r))
         [(''inventory'', net), (''inputTax'', tax), (''payable'', gross), (''gross'', gross), (''net'', net), (''tax'', tax)]
         [(''inventory'', ''1301''), (''inputTax'', ''1205''), (''payable'', ''2101'')])
      \<lparr>pi_lines := map (\<lambda>x. \<lparr>el_itemType = Some ''Product'', el_itemId = Some (gi_product x), el_quantity = of_int (gi_accepted x),
         el_unitAmount = gi_unitCost x, el_netAmount = gi_subtotal x, el_taxAmount = gi_tax x, el_grossAmount = gi_gross x,
         el_taxCode = gi_taxCode x\<rparr>) items,
       pi_taxLines := taxGroups dec items\<rparr>)"

definition confirmed :: "decimal_ops \<Rightarrow> ident option \<Rightarrow> receipt_item list \<Rightarrow> auth_user \<Rightarrow> ident \<Rightarrow> int \<Rightarrow> goods_receipt \<Rightarrow> goods_receipt" where
  "confirmed dec inspectionId items user eventId t x =
     x\<lparr>gr_status := (if list_ex (\<lambda>i. 0 < gi_damaged i) items then ''PARTIALLY_ACCEPTED'' else ''CONFIRMED''),
       gr_inspection := (case inspectionId of None \<Rightarrow> gr_inspection x | Some n \<Rightarrow> Some n), gr_confirmedAt := Some t,
       gr_confirmedBy := Some (us_sub user), gr_taxTotal := d_sum dec (map gi_tax items),
       gr_grossTotal := d_sum dec (map gi_gross items), gr_accountingEvent := Some eventId\<rparr>"

text \<open>After the posting: the confirmation, the event, the audit row, the status.\<close>

definition settleReceipt ::
    "decimal_ops \<Rightarrow> tenant_scope \<Rightarrow> goods_receipt \<Rightarrow> ident option \<Rightarrow> receipt_item list \<Rightarrow> auth_user \<Rightarrow> ident \<Rightarrow>
     ('b procurement_db_scheme, goods_receipt) tx" where
  "settleReceipt dec scope r inspectionId items user eventId =
     bindT (modT (\<lambda>s. s\<lparr>db_confirmations := update_many (\<lambda>x. cf_sourceType x = ''GoodsReceipt'' \<and> cf_source x = gr_id r \<and>
                cf_type x = ''GOODS_RECEIPT_CONFIRMATION'' \<and> cf_status x = ''PENDING'')
              (\<lambda>x. x\<lparr>cf_status := ''APPROVED'', cf_confirmedBy := Some (us_sub user),
                      cf_inspection := (case inspectionId of None \<Rightarrow> cf_inspection x | Some n \<Rightarrow> Some n)\<rparr>) (db_confirmations s)\<rparr>)) (\<lambda>_.
     bindT (outboxT (sc_company scope) ''procurement.goods_receipt.confirmed'' ''GoodsReceipt'' (gr_id r)) (\<lambda>_.
     bindT (auditT scope user ''CONFIRM_GOODS_RECEIPT'' ''GoodsReceipt'' (Some (gr_id r))) (\<lambda>_.
     bindT nowT (\<lambda>t.
     bindT (modT (\<lambda>s. s\<lparr>db_goodsReceipts := update_many (\<lambda>x. gr_id x = gr_id r) (confirmed dec inspectionId items user eventId t)
              (db_goodsReceipts s)\<rparr>)) (\<lambda>_.
     returnT (confirmed dec inspectionId items user eventId t r))))))"

definition finishConfirm ::
    "decimal_ops \<Rightarrow> tenant_scope \<Rightarrow> goods_receipt \<Rightarrow> ident option \<Rightarrow> receipt_item list \<Rightarrow> auth_user \<Rightarrow>
     ('b procurement_db_scheme, goods_receipt) tx" where
  "finishConfirm dec scope r inspectionId items user =
     bindT (getT (itemsOfOrder (gr_order r))) (\<lambda>updatedItems.
     let complete = list_all (\<lambda>x. oit_ordered x \<le> oit_received x) updatedItems in
     bindT (modT (\<lambda>s. s\<lparr>db_orders := update_many (\<lambda>x. or_id x = gr_order r)
              (\<lambda>x. x\<lparr>or_status := (if complete then ''RECEIVED'' else ''PARTIALLY_RECEIVED'')\<rparr>) (db_orders s)\<rparr>)) (\<lambda>_.
     bindT (postOperationalEvent dec (receiptEvent dec scope r items)) (\<lambda>event.
     settleReceipt dec scope r inspectionId items user (ev_id event))))"

definition confirmReceiptTx ::
    "decimal_ops \<Rightarrow> tenant_scope \<Rightarrow> ident \<Rightarrow> confirm_dto \<Rightarrow> auth_user \<Rightarrow> ('b procurement_db_scheme, goods_receipt) tx" where
  "confirmReceiptTx dec scope i dto user =
     bindT (getT (visibleReceipt scope i)) (\<lambda>found. case found of
       None \<Rightarrow> throwT (NotFound ''Penerimaan barang tidak ditemukan.'')
     | Some r \<Rightarrow>
         if gr_status r = ''CONFIRMED'' \<or> gr_status r = ''PARTIALLY_ACCEPTED'' then returnT r
         else
           bindT (requireT (\<not> List.member [''REJECTED'', ''CANCELLED''] (gr_status r)) (BadRequest ''Penerimaan sudah ditutup.'')) (\<lambda>_.
           let inspectionId = (case cfd_inspection dto of None \<Rightarrow> gr_inspection r | Some n \<Rightarrow> Some n) in
           bindT (getT (itemsOfReceipt i)) (\<lambda>items.
           bindT (confirmChecks scope r inspectionId items) (\<lambda>_.
           bindT (forT (acceptItem (gr_warehouse r)) items) (\<lambda>_.
           finishConfirm dec scope r inspectionId items user)))))"

definition confirmReceipt ::
    "decimal_ops \<Rightarrow> ident \<Rightarrow> confirm_dto \<Rightarrow> auth_user \<Rightarrow> ('b procurement_db_scheme, goods_receipt) svc" where
  "confirmReceipt dec i dto user =
     bindS (liftS (requireTenantScope user)) (\<lambda>scope.
     bindS (getS (visibleReceipt scope i)) (\<lambda>found. case found of
       None \<Rightarrow> denyS scope user ''GoodsReceipt'' (Some i)
     | Some _ \<Rightarrow> runTx (confirmReceiptTx dec scope i dto user)))"

text \<open>
  A draft that may be confirmed at once is. Of the answer the model keeps the id of the receipt: a replayed request
  is answered with the row as it was stored then, whose id and \<open>inspectionRequired\<close> are still the row's.
\<close>

definition createReceipt ::
    "decimal_ops \<Rightarrow> (goods_receipt_dto \<Rightarrow> string) \<Rightarrow> goods_receipt_dto \<Rightarrow> auth_user \<Rightarrow> ('b procurement_db_scheme, ident) svc" where
  "createReceipt dec digest dto user =
     bindS (liftS (requireTenantScope user)) (\<lambda>scope.
     bindS (requireS (grd_items dto \<noteq> []) (BadRequest ''Penerimaan harus memiliki minimal satu barang.'')) (\<lambda>_.
     bindS (getS (visibleOrder scope (grd_order dto))) (\<lambda>header. case header of
       None \<Rightarrow> denyS scope user ''PurchaseOrder'' (Some (grd_order dto))
     | Some _ \<Rightarrow>
         bindS (getS (resolvePolicy (sc_company scope) (sc_branch scope) ''PURCHASE_RECEIPT'')) (\<lambda>policy.
         bindS (runTx (onceT (keyedOpts scope ''goods-receipt:create'' (grd_key dto) (digest dto))
                  (createReceiptTx dec scope policy dto user))) (\<lambda>answer.
         bindS (getS (\<lambda>s. case answer of None \<Rightarrow> None | Some i \<Rightarrow> find_first (\<lambda>x. gr_id x = i) (db_goodsReceipts s))) (\<lambda>row. case row of
           None \<Rightarrow> throwS (PlainError ''TypeError'')
         | Some r \<Rightarrow>
             if grd_autoConfirm dto \<and> \<not> gr_inspectionRequired r \<and> (case policy of None \<Rightarrow> True | Some x \<Rightarrow> pol_autoPostInventory x \<and> pol_autoPostAccounting x)
             then bindS (confirmReceipt dec (gr_id r) \<lparr>cfd_inspection = None\<rparr> user) (\<lambda>x. returnS (gr_id x))
             else returnS (gr_id r)))))))"

section \<open>Rejecting a receipt\<close>

definition rejectReceipt :: "ident \<Rightarrow> auth_user \<Rightarrow> ('b procurement_db_scheme, goods_receipt) svc" where
  "rejectReceipt i user =
     bindS (liftS (requireTenantScope user)) (\<lambda>scope.
     bindS (getS (visibleReceipt scope i)) (\<lambda>found. case found of
       None \<Rightarrow> denyS scope user ''GoodsReceipt'' (Some i)
     | Some r \<Rightarrow>
         bindS (requireS (\<not> List.member [''CONFIRMED'', ''PARTIALLY_ACCEPTED''] (gr_status r))
                  (BadRequest ''Penerimaan yang sudah diposting harus diretur/reversal, bukan ditolak.'')) (\<lambda>_.
         let f = (\<lambda>x. x\<lparr>gr_status := ''REJECTED''\<rparr>) in
         runTx (
           bindT (modT (\<lambda>s. s\<lparr>db_confirmations := update_many (\<lambda>x. cf_sourceType x = ''GoodsReceipt'' \<and> cf_source x = i \<and>
                      cf_status x = ''PENDING'') (\<lambda>x. x\<lparr>cf_status := ''REJECTED'', cf_confirmedBy := Some (us_sub user)\<rparr>)
                    (db_confirmations s)\<rparr>)) (\<lambda>_.
           bindT (auditT scope user ''REJECT_GOODS_RECEIPT'' ''GoodsReceipt'' (Some i)) (\<lambda>_.
           bindT (modT (\<lambda>s. s\<lparr>db_goodsReceipts := update_many (\<lambda>x. gr_id x = i) f (db_goodsReceipts s)\<rparr>)) (\<lambda>_.
           returnT (f r))))))))"

end
