(* ===== verification/ProcurementProperties.thy ===== *)
theory ProcurementProperties
  imports GoodsReceipts StockConservation
begin

text \<open>
  Purchasing: an order line never receives more than was ordered, and what it has received is what its confirmed
  receipts accepted; the stock and the books follow a confirmation.
\<close>

section \<open>The order lines and the receipts\<close>

type_synonym purchasing = "order_item list \<times> goods_receipt list \<times> receipt_item list"

definition purchasing :: "'b procurement_db_scheme \<Rightarrow> purchasing" where
  "purchasing s = (db_orderItems s, db_goodsReceipts s, db_receiptItems s)"

definition settled :: "goods_receipt \<Rightarrow> bool" where
  "settled r \<longleftrightarrow> gr_status r = ''CONFIRMED'' \<or> gr_status r = ''PARTIALLY_ACCEPTED''"

definition settledIds :: "goods_receipt list \<Rightarrow> ident list" where
  "settledIds receipts = map gr_id (filter settled receipts)"

text \<open>The units of an order line that its confirmed receipts accepted.\<close>

definition acceptedSoFar :: "goods_receipt list \<Rightarrow> receipt_item list \<Rightarrow> ident \<Rightarrow> int" where
  "acceptedSoFar receipts lines i = sum_where gi_accepted (\<lambda>x. gi_orderItem x = i \<and> gi_receipt x \<in> set (settledIds receipts)) lines"

definition lineOk :: "goods_receipt list \<Rightarrow> receipt_item list \<Rightarrow> ident \<Rightarrow> order_item \<Rightarrow> bool" where
  "lineOk receipts lines n x \<longleftrightarrow> oit_id x < n \<and> oit_received x = acceptedSoFar receipts lines (oit_id x) \<and> oit_received x \<le> oit_ordered x"

definition ordersOk :: "purchasing \<Rightarrow> ident \<Rightarrow> bool" where
  "ordersOk = (\<lambda>(orderItems, receipts, lines) n. distinct (map oit_id orderItems) \<and> distinct (map gr_id receipts) \<and>
     (\<forall>x \<in> set orderItems. lineOk receipts lines n x) \<and> (\<forall>r \<in> set receipts. gr_id r < n) \<and>
     (\<forall>x \<in> set lines. gi_orderItem x < n \<and> 0 \<le> gi_accepted x))"

definition unsettled :: "ident set \<Rightarrow> purchasing \<Rightarrow> bool" where
  "unsettled D = (\<lambda>(_, receipts, _). \<forall>i \<in> D. i \<notin> set (settledIds receipts))"

text \<open>The invariant, with receipts that are drafts and ids that are taken.\<close>

abbreviation ordersKept :: "ident set \<Rightarrow> ident \<Rightarrow> 'b procurement_db_scheme \<Rightarrow> bool" where
  "ordersKept D m \<equiv> (\<lambda>s. ordersOk (purchasing s) (db_nextId s) \<and> unsettled D (purchasing s) \<and> m \<le> db_nextId s)"

lemma ordersOk_mono: "ordersOk p n \<Longrightarrow> n \<le> n' \<Longrightarrow> ordersOk p n'"
  by (cases p) (fastforce simp: ordersOk_def lineOk_def)

interpretation purchasing_frame: bystander "\<lambda>s. J (purchasing s) \<and> n \<le> db_nextId s" for J :: "purchasing \<Rightarrow> bool" and n :: ident
  by unfold_locales (simp_all add: purchasing_def)

interpretation orders_frame: bystander "ordersKept D m" for D :: "ident set" and m :: ident
  by unfold_locales (simp_all add: purchasing_def, metis ordersOk_mono lessI less_imp_le)

lemma purchasing_stock [keeps_rules]:
  "keeps (\<lambda>s. J (purchasing s) \<and> n \<le> db_nextId s) (onStock x)" "keeps (ordersKept D m) (onStock x)"
  by (auto simp: keeps_def onStock_Inr purchasing_def)

lemma purchasing_kept:
  assumes "\<And>J n. keeps (\<lambda>s. J (purchasing s) \<and> n \<le> db_nextId s) m" and "m s = Inr (x, s')"
  shows "purchasing s' = purchasing s \<and> db_nextId s \<le> db_nextId s'"
  using keepsD [OF assms(1) [of "\<lambda>p. p = purchasing s" "db_nextId s"] assms(2)] by simp

text \<open>Operations that only read.\<close>

lemma reads: "(\<And>s0. keeps (\<lambda>s. s = s0) m) \<Longrightarrow> m s = Inr (x, s') \<Longrightarrow> s' = s"
  using keepsD [of "\<lambda>t. t = s" m s x s'] by simp

lemma now_reads [keeps_rules]: "keeps (\<lambda>s. s = s0) nowT"
  by (simp add: keeps_def nowT_Inr)

lemma calculateTax_reads [keeps_rules]: "keeps (\<lambda>s. s = s0) (calculateTax dec t a c d x)"
  unfolding calculateTax_def by (intro keeps_rules)

lemma prepareReceiptLine_reads [keeps_rules]: "keeps (\<lambda>s. s = s0) (prepareReceiptLine dec scope items input prepared)"
  unfolding prepareReceiptLine_def by (intro keeps_rules)

lemma confirmChecks_reads [keeps_rules]: "keeps (\<lambda>s. s = s0) (confirmChecks scope r i items)"
  unfolding confirmChecks_def checkInspection_def by (intro keeps_rules)

section \<open>Drafts\<close>

definition draftLine :: "ident \<Rightarrow> receipt_item \<Rightarrow> bool" where
  "draftLine n x \<longleftrightarrow> gi_orderItem x < n \<and> 0 \<le> gi_accepted x"

lemma prepareReceiptLine_draft:
  assumes "prepareReceiptLine dec scope items input prepared s = Inr (lines, s')"
    and "\<forall>x \<in> set items. oit_id x < n" and "\<forall>x \<in> set prepared. draftLine n x"
  shows "\<forall>x \<in> set lines. draftLine n x"
proof -
  obtain item where item: "find_first (\<lambda>x. oit_id x = gid_orderItem input) items = Some item"
    using assms(1) by (auto simp: prepareReceiptLine_def tx_Inr split: option.splits)
  let ?f = "oit_factor item" and ?d = "orElse (gid_damaged input) 0"
  have g: "1 \<le> ?f" "?d \<le> gid_received input"
    and lines: "\<exists>x. lines = prepared @ [x] \<and> gi_orderItem x = oit_id item \<and> gi_accepted x = gid_received input * ?f - ?d * ?f"
    using assms(1) item by (auto simp: prepareReceiptLine_def tx_Inr Let_def split: option.splits)
  have "0 \<le> gid_received input * ?f - ?d * ?f" using g by (simp add: mult_right_mono)
  moreover have "oit_id item < n" using find_first_Some [OF item] assms(2) by blast
  ultimately show ?thesis using lines assms(3) by (auto simp: draftLine_def)
qed

lemma prepareLines_draft:
  assumes "foldT (prepareReceiptLine dec scope items) inputs prepared s = Inr (lines, s')"
    and "\<forall>x \<in> set items. oit_id x < n" and "\<forall>x \<in> set prepared. draftLine n x"
  shows "(\<forall>x \<in> set lines. draftLine n x) \<and> s' = s"
  using assms
proof (induction inputs arbitrary: prepared s)
  case Nil
  then show ?case by (simp add: tx_Inr)
next
  case (Cons input inputs)
  then obtain mid s1 where 1: "prepareReceiptLine dec scope items input prepared s = Inr (mid, s1)"
    and 2: "foldT (prepareReceiptLine dec scope items) inputs mid s1 = Inr (lines, s')" by (auto simp: tx_Inr)
  have "s1 = s" by (rule reads [OF prepareReceiptLine_reads 1])
  then show ?case using Cons.IH [OF 2 Cons.prems(2) prepareReceiptLine_draft [OF 1 Cons.prems(2,3)]] by simp
qed

lemma settledIds_append: "settledIds (a @ b) = settledIds a @ settledIds b"
  by (simp add: settledIds_def)

lemma newReceipt_keeps:
  assumes "\<And>i. \<not> settled (row i)" and "\<And>i. gr_id (row i) = i" and "\<And>i. keeps (ordersKept {i} m) (k i)"
  shows "keeps (ordersKept {} m) (bindT newIdT (\<lambda>i. bindT (modT (\<lambda>s. s\<lparr>db_goodsReceipts := db_goodsReceipts s @ [row i]\<rparr>)) (\<lambda>_. k i)))"
proof (rule keepsI)
  fix s x s'
  assume s: "ordersKept {} m s"
    and run: "bindT newIdT (\<lambda>i. bindT (modT (\<lambda>s. s\<lparr>db_goodsReceipts := db_goodsReceipts s @ [row i]\<rparr>)) (\<lambda>_. k i)) s = Inr (x, s')"
  let ?i = "db_nextId s"
  let ?t = "s\<lparr>db_nextId := Suc ?i, db_goodsReceipts := db_goodsReceipts s @ [row ?i]\<rparr>"
  have k: "k ?i ?t = Inr (x, s')" using run by (simp add: bindT_Inr newIdT_Inr modT_Inr)
  have "acceptedSoFar (db_goodsReceipts s @ [row ?i]) ls j = acceptedSoFar (db_goodsReceipts s) ls j" for ls j
    using assms(1) by (simp add: acceptedSoFar_def settledIds_def)
  moreover have "?i \<notin> set (settledIds (db_goodsReceipts s @ [row ?i]))"
    using s assms(1) by (auto simp: settledIds_def ordersOk_def purchasing_def)
  ultimately have "ordersKept {?i} m ?t" using s assms(2) by (fastforce simp: ordersOk_def lineOk_def purchasing_def unsettled_def)
  then show "ordersKept {} m s'" using keepsD [OF assms(3) k] by (simp add: unsettled_def split: prod.splits)
qed


lemma newLine_kept:
  assumes "ordersKept {i} m s" and "draftLine m x" and "gi_receipt x = i"
  shows "ordersKept {i} m (s\<lparr>db_nextId := Suc (db_nextId s), db_receiptItems := db_receiptItems s @ [x]\<rparr>)"
proof -
  have "acceptedSoFar (db_goodsReceipts s) (db_receiptItems s @ [x]) = acceptedSoFar (db_goodsReceipts s) (db_receiptItems s)"
    using assms(1,3) by (simp add: fun_eq_iff acceptedSoFar_def unsettled_def purchasing_def sum_where_Cons)
  moreover have "ordersOk (purchasing s) (Suc (db_nextId s))" using assms(1) ordersOk_mono by (meson lessI less_imp_le)
  ultimately show ?thesis using assms by (auto simp: ordersOk_def lineOk_def purchasing_def unsettled_def draftLine_def)
qed

lemma addReceiptItems_keeps:
  assumes "\<forall>x \<in> set items. draftLine m x"
  shows "keeps (ordersKept {i} m) (addReceiptItems i items)"
  using assms
proof (induction items)
  case Nil
  then show ?case by (simp add: addReceiptItems_def keeps_return)
next
  case (Cons item items)
  have "keeps (ordersKept {i} m) (bindT newIdT (\<lambda>n. modT (\<lambda>s. s\<lparr>db_receiptItems := db_receiptItems s @ [item\<lparr>gi_id := n, gi_receipt := i\<rparr>]\<rparr>)))"
  proof (rule keepsI)
    fix s x s'
    assume s: "ordersKept {i} m s"
      and run: "bindT newIdT (\<lambda>n. modT (\<lambda>s. s\<lparr>db_receiptItems := db_receiptItems s @ [item\<lparr>gi_id := n, gi_receipt := i\<rparr>]\<rparr>)) s = Inr (x, s')"
    have "draftLine m (item\<lparr>gi_id := db_nextId s, gi_receipt := i\<rparr>)" using Cons.prems by (simp add: draftLine_def)
    then show "ordersKept {i} m s'" using newLine_kept [OF s] run by (auto simp: bindT_Inr newIdT_Inr modT_Inr)
  qed
  then show ?case using Cons by (auto simp: addReceiptItems_def intro: keeps_then)
qed

text \<open>A changed receipt row, its id and its state of settlement kept.\<close>

lemma settledIds_update:
  assumes "\<And>r. gr_id (f r) = gr_id r \<and> settled (f r) = settled r"
  shows "settledIds (update_many P f receipts) = settledIds receipts"
  using assms by (induction receipts) (auto simp: settledIds_def update_many_Cons)

lemma receiptUpdate_keeps:
  assumes "\<And>r. gr_id (f r) = gr_id r \<and> settled (f r) = settled r"
  shows "keeps (ordersKept D m) (modT (\<lambda>s. s\<lparr>db_goodsReceipts := update_many P f (db_goodsReceipts s)\<rparr>))"
proof (rule keeps_frame)
  fix s :: "'b procurement_db_scheme"
  have "acceptedSoFar (update_many P f (db_goodsReceipts s)) = acceptedSoFar (db_goodsReceipts s)"
    by (simp add: fun_eq_iff acceptedSoFar_def settledIds_update [OF assms])
  moreover have "map gr_id (update_many P f (db_goodsReceipts s)) = map gr_id (db_goodsReceipts s)"
    by (rule map_update_many) (simp add: assms)
  moreover have "(\<forall>r \<in> set (update_many P f (db_goodsReceipts s)). gr_id r < n) = (\<forall>i \<in> set (map gr_id (update_many P f (db_goodsReceipts s))). i < n)" for n
    by simp
  ultimately show "ordersKept D m (s\<lparr>db_goodsReceipts := update_many P f (db_goodsReceipts s)\<rparr>) = ordersKept D m s"
    by (simp add: ordersOk_def lineOk_def purchasing_def unsettled_def settledIds_update [OF assms])
qed

lemma openInspection_keeps: "keeps (ordersKept D m) (openInspection scope policy i prepared user)"
  unfolding openInspection_def Let_def
  by (intro keeps_rules; (rule receiptUpdate_keeps, simp add: settled_def | rule keeps_frame, simp add: purchasing_def))

lemma draftReceipt_keeps:
  assumes "\<forall>x \<in> set prepared. draftLine m x"
  shows "keeps (ordersKept {} m) (draftReceipt dec scope policy po prepared user)"
proof -
  have tail: "keeps (ordersKept {i} m) (bindT (addReceiptItems i prepared) (\<lambda>_.
      bindT (if b then bindT (openInspection scope policy i prepared user) (\<lambda>n. returnT (Some n)) else returnT None) (\<lambda>q.
      bindT newIdT (\<lambda>n. bindT (modT (\<lambda>s. s\<lparr>db_confirmations := db_confirmations s @ [c i q n]\<rparr>)) (\<lambda>_.
      bindT (auditT scope user a t j) (\<lambda>_. returnT i))))))" for i b a t j and c :: "ident \<Rightarrow> ident option \<Rightarrow> ident \<Rightarrow> confirmation"
    by (intro keeps_rules addReceiptItems_keeps [OF assms] openInspection_keeps) (rule keeps_frame, simp add: purchasing_def)
  show ?thesis
    unfolding draftReceipt_def Let_def
    by (rule keeps_bind [OF orders_frame.products_keeps(1)], rule keeps_bind [OF keeps_get], rule keeps_bind [OF keeps_require],
        rule newReceipt_keeps) (simp add: settled_def, simp, rule tail)
qed

text \<open>The lines of an order that is received have ids below the counter.\<close>

lemma createReceiptTx_keeps: "keeps (ordersKept {} 0) (createReceiptTx dec scope policy dto user)"
proof (rule keepsI)
  fix s x s'
  assume s: "ordersKept {} 0 s" and run: "createReceiptTx dec scope policy dto user s = Inr (x, s')"
  obtain po lines where l: "foldT (prepareReceiptLine dec scope (itemsOfOrder (or_id po) s)) (grd_items dto) [] s = Inr (lines, s)"
    and d: "draftReceipt dec scope policy po lines user s = Inr (x, s')"
  proof -
    obtain po lines s1 where l: "foldT (prepareReceiptLine dec scope (itemsOfOrder (or_id po) s)) (grd_items dto) [] s = Inr (lines, s1)"
      and d: "draftReceipt dec scope policy po lines user s1 = Inr (x, s')"
      using run by (auto simp: createReceiptTx_def tx_Inr split: option.splits)
    have k: "keeps (\<lambda>t. t = s0) (foldT (prepareReceiptLine dec scope (itemsOfOrder (or_id po) s)) (grd_items dto) [])" for s0
      by (intro keeps_rules)
    have "s1 = s" by (rule reads [OF k l])
    then show ?thesis using that l d by blast
  qed
  have ids: "\<forall>y \<in> set (itemsOfOrder (or_id po) s). oit_id y < db_nextId s"
    using s by (auto simp: itemsOfOrder_def ordersOk_def lineOk_def purchasing_def)
  have lines: "\<forall>y \<in> set lines. draftLine (db_nextId s) y" using prepareLines_draft [OF l ids] by simp
  have "ordersKept {} (db_nextId s) s'" by (rule keepsD [OF draftReceipt_keeps [OF lines] d]) (use s in simp)
  then show "ordersKept {} 0 s'" by simp
qed

lemma onceT_keeps [keeps_rules]: "keeps (ordersKept D m) work \<Longrightarrow> keeps (ordersKept D m) (onceT opts work)"
  unfolding onceT_def by (intro keeps_rules) (auto split: begin_result.split intro!: keeps_rules)

section \<open>New orders\<close>

lemma prepareLine_fresh: "prepareLine dec scope s item = Inr x \<Longrightarrow> oit_received x = 0 \<and> 0 \<le> oit_ordered x"
  by (auto simp: prepareLine_def bindE_Inr requireE_Inr split: prod.splits)

lemma newOrderItem_kept:
  assumes "ordersKept {} m s" and "oit_received x = 0" and "0 \<le> oit_ordered x" and "oit_id x = db_nextId s"
  shows "ordersKept {} m (s\<lparr>db_nextId := Suc (db_nextId s), db_orderItems := db_orderItems s @ [x]\<rparr>)"
proof -
  have "ordersOk (purchasing s) (Suc (db_nextId s))" using assms(1) ordersOk_mono by (meson lessI less_imp_le)
  moreover have lines: "\<forall>l \<in> set (db_receiptItems s). gi_orderItem l < db_nextId s" and ids: "\<forall>y \<in> set (db_orderItems s). oit_id y < db_nextId s"
    using assms(1) by (auto simp: ordersOk_def lineOk_def purchasing_def)
  moreover have "acceptedSoFar (db_goodsReceipts s) (db_receiptItems s) (db_nextId s) = 0"
  proof -
    have "filter (\<lambda>l. gi_orderItem l = db_nextId s \<and> gi_receipt l \<in> set (settledIds (db_goodsReceipts s))) (db_receiptItems s) = []"
      using lines by (auto simp: filter_empty_conv)
    then show ?thesis by (simp add: acceptedSoFar_def sum_where_def)
  qed
  moreover have "m \<le> Suc (db_nextId s)" using assms(1) by simp
  ultimately show ?thesis using assms(2-4) by (auto simp: ordersOk_def lineOk_def purchasing_def unsettled_def)
qed

lemma addOrderItems_keeps:
  assumes "\<forall>x \<in> set items. oit_received x = 0 \<and> 0 \<le> oit_ordered x"
  shows "keeps (ordersKept {} m) (addOrderItems i items)"
  using assms
proof (induction items)
  case Nil
  then show ?case by (simp add: addOrderItems_def keeps_return)
next
  case (Cons item items)
  have "keeps (ordersKept {} m) (bindT newIdT (\<lambda>n. modT (\<lambda>s. s\<lparr>db_orderItems := db_orderItems s @ [item\<lparr>oit_id := n, oit_order := i\<rparr>]\<rparr>)))"
  proof (rule keepsI)
    fix s x s'
    assume s: "ordersKept {} m s"
      and run: "bindT newIdT (\<lambda>n. modT (\<lambda>s. s\<lparr>db_orderItems := db_orderItems s @ [item\<lparr>oit_id := n, oit_order := i\<rparr>]\<rparr>)) s = Inr (x, s')"
    show "ordersKept {} m s'"
      using newOrderItem_kept [OF s, of "item\<lparr>oit_id := db_nextId s, oit_order := i\<rparr>"] Cons.prems run
      by (auto simp: bindT_Inr newIdT_Inr modT_Inr)
  qed
  then show ?case using Cons by (auto simp: addOrderItems_def intro: keeps_then)
qed

lemma createOrderTx_keeps:
  assumes "mapE (prepareLine dec scope t) inputs = Inr items"
  shows "keeps (ordersKept {} m) (createOrderTx dec scope dto w items user)"
proof -
  have fresh: "\<forall>x \<in> set items. oit_received x = 0 \<and> 0 \<le> oit_ordered x" by (rule mapE_all [OF assms prepareLine_fresh])
  show ?thesis
    unfolding createOrderTx_def Let_def
    by (intro keeps_rules addOrderItems_keeps [OF fresh]) (rule keeps_frame, simp add: purchasing_def)
qed

section \<open>Confirmations\<close>

lemma acceptItem_effect:
  assumes "acceptItem w item s = Inr (u, s')"
  shows "purchasing s' = (update_many (\<lambda>x. oit_id x = gi_orderItem item) (\<lambda>x. x\<lparr>oit_received := oit_received x + gi_accepted item\<rparr>)
      (db_orderItems s), db_goodsReceipts s, db_receiptItems s) \<and> db_nextId s \<le> db_nextId s'"
proof -
  let ?t = "s\<lparr>db_orderItems := update_many (\<lambda>x. oit_id x = gi_orderItem item) (\<lambda>x. x\<lparr>oit_received := oit_received x + gi_accepted item\<rparr>)
      (db_orderItems s)\<rparr>"
  let ?m = "if gi_accepted item \<le> 0 then returnT ()
     else bindT (depositStock w (gi_product item) (gi_accepted item) ''PURCHASE_RECEIPT'' ''GoodsReceipt'' (identText (gi_receipt item))) (\<lambda>_.
       bindT (acceptBatch w item) (\<lambda>_. acceptSerials w item)) :: ('a procurement_db_scheme, unit) tx"
  have k: "keeps (\<lambda>s. J (purchasing s) \<and> n \<le> db_nextId s) ?m" for J n
    unfolding depositStock_def acceptBatch_def acceptSerials_def Let_def
    by (intro keeps_rules; rule keeps_frame; simp add: purchasing_def)
  have "?m ?t = Inr (u, s')" using assms by (simp add: acceptItem_def bindT_Inr modT_Inr)
  from purchasing_kept [OF k this] show ?thesis by (simp add: purchasing_def)
qed

text \<open>After all items every order line has received what they take of it.\<close>

lemma acceptItems_effect:
  assumes "forT (acceptItem w) items s = Inr (u, s')"
  shows "purchasing s' = (map (\<lambda>x. x\<lparr>oit_received := oit_received x + acceptedOf items (oit_id x)\<rparr>) (db_orderItems s),
      db_goodsReceipts s, db_receiptItems s) \<and> db_nextId s \<le> db_nextId s'"
  using assms
proof (induction items arbitrary: s)
  case Nil
  then show ?case by (simp add: tx_Inr purchasing_def acceptedOf_def)
next
  case (Cons item items)
  then obtain v s1 where 1: "acceptItem w item s = Inr (v, s1)" and 2: "forT (acceptItem w) items s1 = Inr (u, s')"
    by (auto simp: thenT_Inr)
  have "map (\<lambda>x. x\<lparr>oit_received := oit_received x + acceptedOf items (oit_id x)\<rparr>)
      (update_many (\<lambda>x. oit_id x = gi_orderItem item) (\<lambda>x. x\<lparr>oit_received := oit_received x + gi_accepted item\<rparr>) (db_orderItems s)) =
    map (\<lambda>x. x\<lparr>oit_received := oit_received x + acceptedOf (item # items) (oit_id x)\<rparr>) (db_orderItems s)"
    by (auto simp: update_many_def acceptedOf_def sum_where_Cons)
  then show ?case using acceptItem_effect [OF 1] Cons.IH [OF 2] by (auto simp: purchasing_def)
qed

lemma confirmed_settled [simp]: "gr_id (confirmed dec i items user e t x) = gr_id x" "settled (confirmed dec i items user e t x)"
  by (simp_all add: confirmed_def settled_def)

lemma settleReceipt_effect:
  assumes "settleReceipt dec scope r i items user e s = Inr (row, s')"
  shows "purchasing s' = (db_orderItems s, update_many (\<lambda>x. gr_id x = gr_id r) (confirmed dec i items user e (db_now s)) (db_goodsReceipts s),
      db_receiptItems s) \<and> db_nextId s' = db_nextId s \<and> row = confirmed dec i items user e (db_now s) r"
  using assms by (auto simp: settleReceipt_def tx_Inr db_Inr purchasing_def)

lemma finishConfirm_effect:
  assumes "finishConfirm dec scope r inspectionId items user s = Inr (row, s')"
  obtains e t where "row = confirmed dec inspectionId items user e t r" and "db_nextId s \<le> db_nextId s'"
    and "purchasing s' = (db_orderItems s, update_many (\<lambda>x. gr_id x = gr_id r) (confirmed dec inspectionId items user e t) (db_goodsReceipts s),
      db_receiptItems s)"
proof -
  obtain o1 event s1 where post: "postOperationalEvent dec (receiptEvent dec scope r items) (s\<lparr>db_orders := o1\<rparr>) = Inr (event, s1)"
    and settle: "settleReceipt dec scope r inspectionId items user (ev_id event) s1 = Inr (row, s')"
    using assms by (auto simp: finishConfirm_def Let_def bindT_Inr getT_Inr modT_Inr)
  show ?thesis
    using purchasing_kept [OF purchasing_frame.postOperationalEvent_keeps post] settleReceipt_effect [OF settle]
    by (intro that) (auto simp: purchasing_def)
qed

lemma sum_where_disj: "(\<And>x. P x \<Longrightarrow> \<not> Q x) \<Longrightarrow> sum_where m (\<lambda>x. P x \<or> Q x) t = sum_where m P t + sum_where m Q t"
  by (induction t) (auto simp: sum_where_Cons)

lemma settledIds_confirm:
  assumes "r \<in> set receipts" and "\<And>x. gr_id (f x) = gr_id x \<and> settled (f x)"
  shows "set (settledIds (update_many (\<lambda>x. gr_id x = gr_id r) f receipts)) = insert (gr_id r) (set (settledIds receipts))"
proof -
  have "set (settledIds (update_many P f receipts)) = gr_id ` {x \<in> set receipts. P x \<or> settled x}" for P
    using assms(2) by (induction receipts) (auto simp: settledIds_def update_many_Cons)
  then show ?thesis using assms(1) by (auto simp: settledIds_def)
qed

text \<open>A confirmation moves the units its items accepted from the draft to the order lines.\<close>

lemma confirm_ordersOk:
  assumes ok: "ordersOk (orderItems, receipts, lines) n" and r: "r \<in> set receipts" "\<not> settled r"
    and items: "items = filter (\<lambda>x. gi_receipt x = gr_id r) lines"
    and left: "\<And>i. i \<in> set (map gi_orderItem items) \<Longrightarrow> \<exists>x \<in> set orderItems. oit_id x = i \<and> acceptedOf items i \<le> oit_ordered x - oit_received x"
    and f: "\<And>x. gr_id (f x) = gr_id x \<and> settled (f x)"
  shows "ordersOk (map (\<lambda>x. x\<lparr>oit_received := oit_received x + acceptedOf items (oit_id x)\<rparr>) orderItems,
    update_many (\<lambda>x. gr_id x = gr_id r) f receipts, lines) n"
proof -
  let ?rs = "update_many (\<lambda>x. gr_id x = gr_id r) f receipts"
  have d: "distinct (map oit_id orderItems)" "distinct (map gr_id receipts)" using ok by (simp_all add: ordersOk_def)
  have fresh: "gr_id r \<notin> set (settledIds receipts)"
    using r d(2) by (auto simp: settledIds_def distinct_map dest: inj_onD)
  have so: "acceptedSoFar ?rs lines i = acceptedSoFar receipts lines i + acceptedOf items i" for i
  proof -
    have "acceptedSoFar ?rs lines i = sum_where gi_accepted (\<lambda>x. (gi_orderItem x = i \<and> gi_receipt x \<in> set (settledIds receipts)) \<or>
        (gi_orderItem x = i \<and> gi_receipt x = gr_id r)) lines"
      unfolding acceptedSoFar_def settledIds_confirm [OF r(1) f] by (rule sum_where_cong) auto
    also have "\<dots> = acceptedSoFar receipts lines i + sum_where gi_accepted (\<lambda>x. gi_orderItem x = i \<and> gi_receipt x = gr_id r) lines"
      unfolding acceptedSoFar_def by (rule sum_where_disj) (use fresh in auto)
    also have "sum_where gi_accepted (\<lambda>x. gi_orderItem x = i \<and> gi_receipt x = gr_id r) lines = acceptedOf items i"
      by (simp add: acceptedOf_def items sum_where_def conj_commute)
    finally show ?thesis .
  qed
  have "lineOk ?rs lines n (x\<lparr>oit_received := oit_received x + acceptedOf items (oit_id x)\<rparr>)" if x: "x \<in> set orderItems" for x
  proof -
    have old: "lineOk receipts lines n x" using ok x by (auto simp: ordersOk_def)
    have "oit_received x + acceptedOf items (oit_id x) \<le> oit_ordered x"
    proof (cases "oit_id x \<in> set (map gi_orderItem items)")
      case True
      from left [OF this] obtain y where y: "y \<in> set orderItems" "oit_id y = oit_id x" "acceptedOf items (oit_id x) \<le> oit_ordered y - oit_received y"
        by blast
      then have "y = x" using x d(1) by (auto simp: distinct_map dest: inj_onD)
      then show ?thesis using y(3) by simp
    next
      case False
      then have "filter (\<lambda>l. gi_orderItem l = oit_id x) items = []" by (force simp: filter_empty_conv)
      then have "acceptedOf items (oit_id x) = 0" by (simp add: acceptedOf_def sum_where_def)
      then show ?thesis using old by (simp add: lineOk_def)
    qed
    then show ?thesis using old by (simp add: lineOk_def so)
  qed
  moreover have same: "map gr_id ?rs = map gr_id receipts" by (rule map_update_many) (simp add: f)
  moreover have "gr_id x < n" if "x \<in> set ?rs" for x
  proof -
    have "gr_id x \<in> set (map gr_id ?rs)" using that by simp
    then show ?thesis unfolding same using ok by (auto simp: ordersOk_def)
  qed
  ultimately show ?thesis using ok by (simp add: ordersOk_def o_def)
qed

lemma checkRemaining_left:
  assumes "checkRemaining (itemsOfOrder o1 s) items i = Inr u"
  shows "\<exists>x \<in> set (db_orderItems s). oit_id x = i \<and> acceptedOf items i \<le> oit_ordered x - oit_received x"
  using assms by (auto simp: checkRemaining_def requireE_Inr itemsOfOrder_def dest!: find_first_Some split: option.splits)

lemma mapE_each: "mapE f xs = Inr ys \<Longrightarrow> x \<in> set xs \<Longrightarrow> \<exists>y. f x = Inr y"
  by (induction xs arbitrary: ys) (auto simp: bindE_Inr)

lemma checkInspection_reads [keeps_rules]: "keeps (\<lambda>s. s = s0) (checkInspection scope r i)"
  unfolding checkInspection_def by (intro keeps_rules)

lemma confirmChecks_left:
  assumes "confirmChecks scope r q items s = Inr (u, s')" and "i \<in> set (map gi_orderItem items)"
  shows "\<exists>x \<in> set (db_orderItems s). oit_id x = i \<and> acceptedOf items i \<le> oit_ordered x - oit_received x"
proof -
  obtain s1 us where c: "checkInspection scope r q s = Inr ((), s1)"
    and us: "mapE (checkRemaining (itemsOfOrder (gr_order r) s1) items) (firstOccurrences (map gi_orderItem items)) = Inr us"
    using assms(1) by (auto simp: confirmChecks_def tx_Inr liftE_Inr)
  have "i \<in> set (firstOccurrences (map gi_orderItem items))" using assms(2) by (simp add: firstOccurrences_def)
  then obtain v where "checkRemaining (itemsOfOrder (gr_order r) s1) items i = Inr v" using mapE_each [OF us] by blast
  then show ?thesis using checkRemaining_left reads [OF checkInspection_reads c] by blast
qed

lemma visibleReceipt_row: "visibleReceipt scope i s = Some r \<Longrightarrow> r \<in> set (db_goodsReceipts s) \<and> gr_id r = i"
  by (auto simp: visibleReceipt_def dest: find_first_Some)

text \<open>What a confirmation that does something does.\<close>

lemma confirm_stages:
  assumes "confirmReceiptTx dec scope i dto user s = Inr (row, s')" and "visibleReceipt scope i s = Some r" and "\<not> settled r"
  obtains inspectionId u s1 where "confirmChecks scope r inspectionId (itemsOfReceipt i s) s = Inr (u, s)"
    and "forT (acceptItem (gr_warehouse r)) (itemsOfReceipt i s) s = Inr (u, s1)"
    and "finishConfirm dec scope r inspectionId (itemsOfReceipt i s) user s1 = Inr (row, s')"
proof -
  obtain inspectionId s0 s1 where c: "confirmChecks scope r inspectionId (itemsOfReceipt i s) s = Inr ((), s0)"
    and rest: "forT (acceptItem (gr_warehouse r)) (itemsOfReceipt i s) s0 = Inr ((), s1)"
      "finishConfirm dec scope r inspectionId (itemsOfReceipt i s) user s1 = Inr (row, s')"
    using assms by (auto simp: confirmReceiptTx_def tx_Inr Let_def settled_def)
  have "s0 = s" by (rule reads [OF confirmChecks_reads c])
  then show ?thesis using that c rest by blast
qed

lemma confirmReceiptTx_keeps: "keeps (ordersKept {} m) (confirmReceiptTx dec scope i dto user)"
proof (rule keepsI)
  fix s x s'
  assume s: "ordersKept {} m s" and run: "confirmReceiptTx dec scope i dto user s = Inr (x, s')"
  obtain r where r: "visibleReceipt scope i s = Some r"
    using run by (auto simp: confirmReceiptTx_def tx_Inr split: option.splits)
  show "ordersKept {} m s'"
  proof (cases "settled r")
    case True
    then have "s' = s" using run r by (auto simp: confirmReceiptTx_def tx_Inr settled_def)
    then show ?thesis using s by simp
  next
    case False
    obtain q u s1 where c: "confirmChecks scope r q (itemsOfReceipt i s) s = Inr (u, s)"
      and l: "forT (acceptItem (gr_warehouse r)) (itemsOfReceipt i s) s = Inr (u, s1)"
      and e: "finishConfirm dec scope r q (itemsOfReceipt i s) user s1 = Inr (x, s')"
      by (rule confirm_stages [OF run r False])
    obtain ev t where f: "db_nextId s1 \<le> db_nextId s'"
      "purchasing s' = (db_orderItems s1, update_many (\<lambda>x. gr_id x = gr_id r) (confirmed dec q (itemsOfReceipt i s) user ev t) (db_goodsReceipts s1),
        db_receiptItems s1)" using finishConfirm_effect [OF e] by metis
    note left = confirmChecks_left [OF c]
    have "ordersOk (purchasing s') (db_nextId s)"
      using confirm_ordersOk [of "db_orderItems s" "db_goodsReceipts s" "db_receiptItems s" "db_nextId s" r "itemsOfReceipt i s"
          "confirmed dec q (itemsOfReceipt i s) user ev t"] s left False visibleReceipt_row [OF r] acceptItems_effect [OF l]
      unfolding f(2) by (auto simp: purchasing_def itemsOfReceipt_def)
    then show ?thesis using s f(1) acceptItems_effect [OF l] ordersOk_mono by (auto simp: unsettled_def split: prod.splits)
  qed
qed

section \<open>Runs\<close>

lemma orders_services:
  "keepsS (ordersKept {} m) (createSupplier sdto user)" "keepsS (ordersKept {} m) (updateSupplier i udto user)"
  "keepsS (ordersKept {} m) (upsertPolicy pdto user)"
  unfolding createSupplier_def updateSupplier_def upsertPolicy_def
  by (intro keeps_rules; rule keeps_frame; simp add: purchasing_def)+

lemma createOrder_keeps: "keepsS (ordersKept {} m) (createOrder dec digest dto user)"
proof -
  have lines: "keepsS (ordersKept {} m) (bindS (getS (\<lambda>s. mapE (prepareLine dec scope s) inputs)) (\<lambda>prepared. bindS (liftS prepared) (\<lambda>items.
      runTx (onceT opts (createOrderTx dec scope dto w items user)))))" for scope inputs opts w
    unfolding keepsS_def
  proof (intro allI impI)
    fix s r s'
    assume s: "ordersKept {} m s" and run: "bindS (getS (\<lambda>s. mapE (prepareLine dec scope s) inputs)) (\<lambda>prepared. bindS (liftS prepared) (\<lambda>items.
      runTx (onceT opts (createOrderTx dec scope dto w items user)))) s = (r, s')"
    show "ordersKept {} m s'"
    proof (cases "mapE (prepareLine dec scope s) inputs")
      case Inl
      then show ?thesis using run s by (simp add: bindS_def getS_def liftS_def)
    next
      case (Inr items)
      then have "runTx (onceT opts (createOrderTx dec scope dto w items user)) s = (r, s')"
        using run by (simp add: bindS_def getS_def liftS_def)
      then show ?thesis
        using keepsSD [OF keepsS_run [OF onceT_keeps [OF createOrderTx_keeps [OF Inr]]]] s by blast
    qed
  qed
  show ?thesis unfolding createOrder_def orderSupplier_def by (intro keeps_rules lines)
qed

lemma confirmReceipt_keeps [keeps_rules]: "keepsS (ordersKept {} m) (confirmReceipt dec i dto user)"
  unfolding confirmReceipt_def by (intro keeps_rules confirmReceiptTx_keeps)

lemma createReceipt_keeps: "keepsS (ordersKept {} 0) (createReceipt dec digest dto user)"
  unfolding createReceipt_def by (intro keeps_rules createReceiptTx_keeps)

text \<open>Only a receipt that is not settled is rejected.\<close>

lemma settledIds_reject:
  assumes "distinct (map gr_id receipts)" and "r \<in> set receipts" and "\<not> settled r" and "\<And>x. gr_id (f x) = gr_id x \<and> \<not> settled (f x)"
  shows "settledIds (update_many (\<lambda>x. gr_id x = gr_id r) f receipts) = settledIds receipts"
proof -
  have "x = r" if "x \<in> set receipts" "gr_id x = gr_id r" for x using assms(1,2) that by (auto simp: distinct_map dest: inj_onD)
  then have "settledIds (update_many (\<lambda>x. gr_id x = gr_id r) f rs) = settledIds rs" if "set rs \<subseteq> set receipts" for rs
    using that assms(3,4) by (induction rs) (auto simp: settledIds_def update_many_Cons)
  then show ?thesis by simp
qed

lemma rejectReceipt_keeps: "keepsS (ordersKept {} m) (rejectReceipt i user)"
  unfolding keepsS_def
proof (intro allI impI)
  fix s r s'
  assume s: "ordersKept {} m s" and run: "rejectReceipt i user s = (r, s')"
  show "ordersKept {} m s'"
  proof (cases r)
    case (Inl e)
    then have "purchasing s' = purchasing s \<and> db_nextId s' = db_nextId s"
      using run by (auto simp: rejectReceipt_def svc_defs liftS_def denyS_def auditS_def auditT_def tx_defs Let_def purchasing_def bindT_def
          split: sum.splits option.splits if_splits)
    then show ?thesis using s by simp
  next
    case (Inr row)
    obtain scope g where g: "visibleReceipt scope i s = Some g" "\<not> settled g"
      and s': "purchasing s' = (db_orderItems s, update_many (\<lambda>x. gr_id x = i) (\<lambda>x. x\<lparr>gr_status := ''REJECTED''\<rparr>) (db_goodsReceipts s),
        db_receiptItems s)" "db_nextId s' = db_nextId s"
      using run unfolding Inr
      by (auto simp: rejectReceipt_def svc_Inr liftS_def denyS_def auditS_def Let_def tx_Inr auditT_Inr purchasing_def settled_def
          split: sum.splits option.splits)
    let ?rs = "update_many (\<lambda>x. gr_id x = i) (\<lambda>x. x\<lparr>gr_status := ''REJECTED''\<rparr>) (db_goodsReceipts s)"
    have g': "g \<in> set (db_goodsReceipts s)" "gr_id g = i" using visibleReceipt_row [OF g(1)] by auto
    have d: "distinct (map gr_id (db_goodsReceipts s))" using s by (simp add: ordersOk_def purchasing_def)
    have ids: "settledIds ?rs = settledIds (db_goodsReceipts s)"
      using settledIds_reject [OF d g'(1) g(2), of "\<lambda>x. x\<lparr>gr_status := ''REJECTED''\<rparr>"] g'(2) by (simp add: settled_def)
    have same: "map gr_id ?rs = map gr_id (db_goodsReceipts s)" by (rule map_update_many) simp
    have "gr_id x < db_nextId s" if "x \<in> set ?rs" for x
    proof -
      have "gr_id x \<in> set (map gr_id ?rs)" using that by simp
      then show ?thesis unfolding same using s by (auto simp: ordersOk_def purchasing_def)
    qed
    then show ?thesis using s unfolding s'(1) s'(2)
      by (auto simp: ordersOk_def lineOk_def purchasing_def unsettled_def acceptedSoFar_def ids same)
  qed
qed

end
