(* ===== verification/ProcurementRuns.thy ===== *)
theory ProcurementRuns
  imports ProcurementProperties AccountingProperties
begin

text \<open>
  Runs of the purchasing services: what order lines receive, and what a confirmation does to the stock, the books
  and the receipt.
\<close>

section \<open>Order lines over a run\<close>

text \<open>Other services change neither the order lines nor the receipts; their ids come from the same counter.\<close>

inductive purchase_step ::
    "decimal_ops \<Rightarrow> (order_dto \<Rightarrow> string) \<Rightarrow> (goods_receipt_dto \<Rightarrow> string) \<Rightarrow> procurement_db \<Rightarrow> procurement_db \<Rightarrow> bool" for dec od gd where
  step_newSupplier: "createSupplier sdto user s = (r, s') \<Longrightarrow> purchase_step dec od gd s s'"
| step_supplier: "updateSupplier i udto user s = (r, s') \<Longrightarrow> purchase_step dec od gd s s'"
| step_policy: "upsertPolicy pdto user s = (r, s') \<Longrightarrow> purchase_step dec od gd s s'"
| step_order: "createOrder dec od dto user s = (r, s') \<Longrightarrow> purchase_step dec od gd s s'"
| step_draft: "createReceipt dec gd gdto user s = (r, s') \<Longrightarrow> purchase_step dec od gd s s'"
| step_confirm: "confirmReceipt dec i cdto user s = (r, s') \<Longrightarrow> purchase_step dec od gd s s'"
| step_reject: "rejectReceipt i user s = (r, s') \<Longrightarrow> purchase_step dec od gd s s'"
| step_other: "purchasing s' = purchasing s \<Longrightarrow> db_nextId s \<le> db_nextId s' \<Longrightarrow> purchase_step dec od gd s s'"

lemma kept_ok:
  assumes "keepsS (ordersKept {} 0) m" and "m s = (r, s')" and "ordersOk (purchasing s) (db_nextId s)"
  shows "ordersOk (purchasing s') (db_nextId s')"
  using keepsSD [OF assms(1,2)] assms(3) by (simp add: unsettled_def split: prod.splits)

lemmas services_ok = orders_services [THEN kept_ok] createOrder_keeps [THEN kept_ok] createReceipt_keeps [THEN kept_ok]
  confirmReceipt_keeps [THEN kept_ok] rejectReceipt_keeps [THEN kept_ok]

lemma purchase_step_keeps: "purchase_step dec od gd s s' \<Longrightarrow> ordersOk (purchasing s) (db_nextId s) \<Longrightarrow> ordersOk (purchasing s') (db_nextId s')"
  by (induction rule: purchase_step.induct) (erule (1) services_ok | metis ordersOk_mono)+

lemma purchase_run_keeps:
  "(purchase_step dec od gd)\<^sup>*\<^sup>* s s' \<Longrightarrow> ordersOk (purchasing s) (db_nextId s) \<Longrightarrow> ordersOk (purchasing s') (db_nextId s')"
  by (induction rule: rtranclp_induct) (auto intro: purchase_step_keeps)

text \<open>
  C12. Whatever purchasing requests are served, in whatever order, an order line has received exactly the units
  that its confirmed receipts accepted: each receipt counts once, however often its confirmation is repeated, a
  rejected or waiting receipt does not count, and the line never receives more than was ordered.
\<close>

theorem order_lines_conserved:
  assumes "(purchase_step dec od gd)\<^sup>*\<^sup>* s0 s" and "purchasing s0 = ([], [], [])" and "x \<in> set (db_orderItems s)"
  shows "oit_received x = acceptedSoFar (db_goodsReceipts s) (db_receiptItems s) (oit_id x) \<and>
    0 \<le> oit_received x \<and> oit_received x \<le> oit_ordered x"
proof -
  have "ordersOk (purchasing s) (db_nextId s)" by (rule purchase_run_keeps [OF assms(1)]) (simp add: assms(2) ordersOk_def)
  then have "lineOk (db_goodsReceipts s) (db_receiptItems s) (db_nextId s) x" and l: "\<forall>l \<in> set (db_receiptItems s). 0 \<le> gi_accepted l"
    using assms(3) by (auto simp: ordersOk_def purchasing_def)
  moreover have "0 \<le> acceptedSoFar (db_goodsReceipts s) (db_receiptItems s) (oit_id x)"
    unfolding acceptedSoFar_def by (rule sum_where_nonneg) (use l in blast)
  ultimately show ?thesis by (simp add: lineOk_def)
qed

section \<open>The policy of a branch\<close>

lemma policy_preorder: "totalPreorder policyPrecedes {x. policyApplies c b t x}"
  by (auto simp: totalPreorder_def policyPrecedes_def policyApplies_def)

text \<open>
  C34. Where the company has an enabled policy of its own for an operation, the policy of the branch is never
  the one that applies: in descending order the row without a branch comes first.
\<close>

theorem company_policy_shadows_branch:
  assumes "resolvePolicy c b t s = Some x" and "y \<in> set (db_policies s)" and "policyApplies c b t y" and "pol_branch y = None"
  shows "pol_branch x = None"
proof -
  obtain rest where r: "sortBy policyPrecedes (filter (policyApplies c b t) (db_policies s)) = x # rest"
    using assms(1) by (auto simp: resolvePolicy_def find_ordered_def split: list.splits)
  have "totalPreorder policyPrecedes (set (filter (policyApplies c b t) (db_policies s)))"
    by (rule totalPreorder_subset [OF policy_preorder]) auto
  from sortBy_first [OF this r] have "policyPrecedes x y" using assms(2,3) by simp
  then show ?thesis using assms(4) by (simp add: policyPrecedes_def)
qed

section \<open>What a confirmation does\<close>






text \<open>The events recorded so far, while the items are accepted.\<close>

lemma events_rules [keeps_rules]:
  "keeps (\<lambda>s. db_events s = e \<and> n \<le> db_nextId s) newIdT" "keeps (\<lambda>s. db_events s = e \<and> n \<le> db_nextId s) (onStock x)"
  "keeps (\<lambda>s. db_events s = e \<and> n \<le> db_nextId s) (movementT w p l k q b t r)"
  by (auto simp: keeps_def newIdT_Inr onStock_Inr movementT_def modT_Inr)





section \<open>A delivery\<close>

lemma exampleScope_simps: "sc_company exampleScope = 1" "sc_branch exampleScope = 1"
  by (simp_all add: exampleScope_def)

lemma firstNumber:
  assumes "db_numbering s = db_numbering emptyAccounting" and "db_now s = 20005 * dayMs"
  shows "\<exists>t. numberT exampleScope d p s = Inr (p @ ''-B-202410-000001'', s\<lparr>db_numbering := t\<rparr>)"
  by (simp add: assms numberT_def onNumbering_def zoomT_def emptyAccounting_def exampleScope_def nextDocumentNumber_def
      resolveDocumentScopeCode_def findOrCreateSequence_def bindT_def tx_defs find_first_def sequenceKey_def currentNumber_def
      periodOf_def rowPeriodOf_def count_where_def update_many_def formatNumber_def exPeriod exCounters padStart_def Let_def exZeros)
    (rule exI, rule refl)

definition deliverySupplier :: supplier where
  "deliverySupplier = \<lparr>sp_id = 3, sp_company = Some 1, sp_code = ''S'', sp_name = ''S'', sp_phone = None, sp_email = None,
     sp_address = None, sp_paymentTermDays = 0, sp_isActive = True\<rparr>"

definition deliveryProduct :: product where
  "deliveryProduct = \<lparr>pr_id = 5, pr_company = 1, pr_sku = ''A'', pr_name = ''A'', pr_isActive = True, pr_trackBatch = False,
     pr_trackExpiry = False, pr_trackSerial = False, pr_costPrice = 10, pr_minStock = 0, pr_unit = ''pcs'', pr_purchaseTaxCode = None,
       pr_salesTaxCode = None, pr_salePrice = 20, pr_allowNegative = False\<rparr>"

definition deliveryShop :: procurement_db where
  "deliveryShop = accounting_db.extend (emptyAccounting\<lparr>db_now := 20005 * dayMs, db_nextId := 50,
       db_warehouses := [\<lparr>wh_id = 1, wh_branch = 1, wh_company = 1, wh_isActive = True, wh_isDefault = True, wh_code = ''W'', wh_name = ''W'', wh_address = None\<rparr>], db_products := [deliveryProduct]\<rparr>)
     (procurement_db.fields [deliverySupplier] [] [] [] [] [] [] [] [] [] [] [] [])"

lemma deliveryShop_simps [simp]: "db_now deliveryShop = 20005 * dayMs" "db_nextId deliveryShop = 50" "db_suppliers deliveryShop = [deliverySupplier]"
    "db_products deliveryShop = [deliveryProduct]" "db_warehouses deliveryShop = [\<lparr>wh_id = 1, wh_branch = 1, wh_company = 1, wh_isActive = True, wh_isDefault = True, wh_code = ''W'', wh_name = ''W'', wh_address = None\<rparr>]"
    "db_orders deliveryShop = []" "db_orderItems deliveryShop = []" "db_goodsReceipts deliveryShop = []" "db_receiptItems deliveryShop = []"
    "db_numbering deliveryShop = db_numbering emptyAccounting" "db_audits deliveryShop = []" "db_serials deliveryShop = []"
  by (simp_all add: deliveryShop_def emptyAccounting_def accounting_db.defs procurement_db.defs)

definition deliveryOrder :: order_dto where
  "deliveryOrder = \<lparr>pod_key = None, pod_supplier = 3, pod_warehouse = 1, pod_expectedDate = None,
     pod_items = [\<lparr>pid_product = 5, pid_variant = None, pid_unit = None, pid_quantity = 4, pid_unitCost = 10\<rparr>]\<rparr>"

lemma delivery_ordered:
  "\<exists>r s x. createOrder rationalDecimal (\<lambda>_. []) deliveryOrder exampleUser deliveryShop = (r, s) \<and> x \<in> set (db_orderItems s) \<and> oit_ordered x = 4"
proof -
  obtain t where t: "numberT exampleScope ''PURCHASE_ORDER'' ''PO'' deliveryShop =
      Inr (''PO'' @ ''-B-202410-000001'', deliveryShop\<lparr>db_numbering := t\<rparr>)"
    using firstNumber [of deliveryShop "''PURCHASE_ORDER''" "''PO''"] by auto
  have w: "companyOfBranch (Suc 0) (Suc 0) deliveryShop"
    by (simp add: companyOfBranch_def emptyAccounting_def)
  show ?thesis
    by (simp add: createOrder_def svc_defs liftS_def deliveryOrder_def warehouseS_def findWarehouse_def find_first_def w
      orderSupplier_def requestedProducts_def companyProducts_def prepareLine_def lineUnit_def deliverySupplier_def deliveryProduct_def
      exampleScope_simps bindE_def requireE_def isSafeInteger_def onceT_def keyedOpts_def
      createOrderTx_def bindT_def thenT_def present_def tx_defs t [simplified] Let_def newIdT_def addOrderItems_def auditT_def)

qed

theorem order_lines_conserved_witness:
  "\<exists>s x. (purchase_step rationalDecimal (\<lambda>_. []) (\<lambda>_. []))\<^sup>*\<^sup>* deliveryShop s \<and> x \<in> set (db_orderItems s) \<and> oit_ordered x = 4 \<and>
     oit_received x = acceptedSoFar (db_goodsReceipts s) (db_receiptItems s) (oit_id x)"
proof -
  obtain r s x where run: "createOrder rationalDecimal (\<lambda>_. []) deliveryOrder exampleUser deliveryShop = (r, s)"
      and x: "x \<in> set (db_orderItems s)" "oit_ordered x = 4"
    using delivery_ordered by blast
  have "(purchase_step rationalDecimal (\<lambda>_. []) (\<lambda>_. []))\<^sup>*\<^sup>* deliveryShop s"
    by (rule r_into_rtranclp) (rule step_order [OF run])
  moreover have "purchasing deliveryShop = ([], [], [])" by (simp add: purchasing_def)
  ultimately show ?thesis using order_lines_conserved [of rationalDecimal "\<lambda>_. []" "\<lambda>_. []" deliveryShop s x] x by blast
qed

definition deliveryPolicy :: "ident \<Rightarrow> ident option \<Rightarrow> bool \<Rightarrow> operation_policy" where
  "deliveryPolicy i b inspect = \<lparr>pol_id = i, pol_company = 1, pol_branch = b, pol_code = ''P'', pol_operationType = ''PURCHASE_RECEIPT'',
     pol_name = ''P'', pol_enabled = True, pol_requireInspection = inspect, pol_requirePhoto = False, pol_requireBarcodeScan = False,
     pol_requireBatchScan = False, pol_requireSerialScan = False, pol_requireVehicle = False, pol_requireGatePass = False,
     pol_requireGeofence = False, pol_requiredConfirmations = 1, pol_blockOnMismatch = True, pol_tolerancePercent = 0,
     pol_autoPostInventory = True, pol_autoPostAccounting = True, pol_autoCalculateTax = True, pol_approvalPolicyCode = None,
     pol_templateCode = None, pol_updatedAt = 0\<rparr>"

text \<open>The branch asks for an inspection, the company does not: no inspection is asked for.\<close>

theorem company_policy_shadows_branch_witness:
  "\<exists>x. resolvePolicy 1 1 ''PURCHASE_RECEIPT'' (deliveryShop\<lparr>db_policies := [deliveryPolicy 6 (Some 1) True, deliveryPolicy 7 None False]\<rparr>) = Some x \<and>
     \<not> pol_requireInspection x \<and> pol_branch x = None"
proof -
  let ?s = "deliveryShop\<lparr>db_policies := [deliveryPolicy 6 (Some 1) True, deliveryPolicy 7 None False]\<rparr>"
  have r: "resolvePolicy 1 1 ''PURCHASE_RECEIPT'' ?s = Some (deliveryPolicy 7 None False)"
    by (simp add: resolvePolicy_def find_ordered_def sortBy_def policyApplies_def policyPrecedes_def deliveryPolicy_def)
  have "pol_branch (deliveryPolicy 7 None False) = None"
    by (rule company_policy_shadows_branch [OF r, of "deliveryPolicy 7 None False"])
      (simp_all add: policyApplies_def deliveryPolicy_def)
  with r show ?thesis by (auto simp: deliveryPolicy_def)
qed

section \<open>A confirmed delivery\<close>












end
