(* ===== verification/Approvals.thy ===== *)
theory Approvals
  imports Procurement JsConvert "HOL-Library.AList"
begin

text \<open>
  Approvals: \<open>apps/api/src/platform/platform.service.ts\<close> (policies, requests, decisions, delegation), and in the worker
  (\<open>apps/worker/src/index.ts\<close>) \<open>processApprovalExpiries\<close> and the automation action that opens a request. The steps of a policy and the context of a request are JSON
  values; notes and audit payloads are left out.
\<close>

section \<open>Users with roles, and the tables\<close>

record approver =
  ap_user :: auth_user
  ap_roles :: "string list"
  ap_permissions :: "string list"

record app_user =
  u_id :: ident
  u_branch :: "ident option"
  u_isActive :: bool
  u_roles :: "(string \<times> string list) list"

datatype approval_status = DRAFT | PENDING | APPROVED | REJECTED | CANCELLED | EXPIRED

record approval_policy =
  apo_id :: ident
  apo_company :: ident
  apo_code :: string
  apo_name :: string
  apo_entityType :: string
  apo_conditions :: "json option"
  apo_steps :: json
  apo_isActive :: bool

record approval_request =
  aq_id :: ident
  aq_policy :: "ident option"
  aq_company :: ident
  aq_branch :: "ident option"
  aq_entityType :: string
  aq_entity :: string
  aq_requester :: "ident option"
  aq_amount :: "rat option"
  aq_status :: approval_status
  aq_currentStep :: int
  aq_context :: "json option"
  aq_requestedAt :: int
  aq_expiresAt :: "int option"
  aq_escalatedAt :: "int option"
  aq_delegatedTo :: "ident option"
  aq_delegatedBy :: "ident option"
  aq_delegatedAt :: "int option"
  aq_decidedAt :: "int option"

record approval_decision =
  dn_id :: ident
  dn_request :: ident
  dn_step :: int
  dn_approver :: ident
  dn_status :: approval_status
  dn_decidedAt :: int

record notification =
  no_id :: ident
  no_company :: ident
  no_channel :: string
  no_recipient :: string
  no_subject :: "string option"
  no_template :: "string option"

record purchase_request =
  pq_id :: ident
  pq_number :: string
  pq_company :: ident
  pq_branch :: ident
  pq_warehouse :: ident
  pq_supplier :: "ident option"
  pq_requestedBy :: "ident option"
  pq_approvedBy :: "ident option"
  pq_approvalRequest :: "ident option"
  pq_status :: string
  pq_neededBy :: "int option"
  pq_requestedAt :: "int option"
  pq_approvedAt :: "int option"
  pq_convertedAt :: "int option"
  pq_order :: "ident option"

record request_item =
  rqi_request :: ident
  rqi_product :: ident
  rqi_quantity :: int
  rqi_cost :: rat

record approvals_db = procurement_db +
  db_users :: "app_user list"
  db_approvalPolicies :: "approval_policy list"
  db_approvals :: "approval_request list"
  db_decisions :: "approval_decision list"
  db_notifications :: "notification list"
  db_requests :: "purchase_request list"
  db_requestItems :: "request_item list"

section \<open>The steps of a policy\<close>

definition objectOrEmpty :: "json \<Rightarrow> json" where
  "objectOrEmpty v = (case v of JObject fs \<Rightarrow> JObject fs | _ \<Rightarrow> JObject [])"

definition approvalSteps :: "approval_policy option \<Rightarrow> json list" where
  "approvalSteps policy = (case policy of None \<Rightarrow> [JObject []]
     | Some p \<Rightarrow> (case apo_steps p of JArray steps \<Rightarrow> map objectOrEmpty steps | _ \<Rightarrow> [JObject []]))"

text \<open>\<open>steps[i] ?? {}\<close>.\<close>

definition stepAt :: "json list \<Rightarrow> int \<Rightarrow> json" where
  "stepAt steps i = (if 0 \<le> i \<and> i < int (length steps) then steps ! nat i else JObject [])"

text \<open>\<open>Number(undefined)\<close> is not a number.\<close>

definition numberOf :: "json option \<Rightarrow> js_number" where
  "numberOf v = (case v of None \<Rightarrow> NaN | Some x \<Rightarrow> toNumber x)"

definition minuteMs :: int where
  "minuteMs = 60000"

definition approvalExpiry :: "json \<Rightarrow> int \<Rightarrow> int option" where
  "approvalExpiry step from = (case numberOf (jsonField ''expiresInMinutes'' step) of
     Fin m \<Rightarrow> if m \<le> 0 then None else Some (from + min \<lfloor>m\<rfloor> (30 * 24 * 60) * minuteMs)
   | _ \<Rightarrow> None)"

text \<open>The strings among the elements of a field that is an array.\<close>

definition stringsOf :: "string \<Rightarrow> json \<Rightarrow> string list" where
  "stringsOf name v = (case jsonField name v of
     Some (JArray xs) \<Rightarrow> List.map_filter (\<lambda>x. case x of JString t \<Rightarrow> Some t | _ \<Rightarrow> None) xs
   | _ \<Rightarrow> [])"

section \<open>Policies and requests\<close>

record approval_policy_dto =
  apd_company :: "ident option"
  apd_code :: string
  apd_name :: string
  apd_entityType :: string
  apd_conditions :: "json option"
  apd_steps :: json

definition textArray :: "json option \<Rightarrow> bool" where
  "textArray v \<longleftrightarrow> (case v of None \<Rightarrow> True
     | Some (JArray xs) \<Rightarrow> list_all (\<lambda>x. case x of JString _ \<Rightarrow> True | _ \<Rightarrow> False) xs | _ \<Rightarrow> False)"

definition checkStep :: "json \<Rightarrow> exn + unit" where
  "checkStep step = (case step of
     JObject fs \<Rightarrow>
       bindE (requireE (textArray (jsonField ''roles'' step)) (BadRequest ''roles pada approval step tidak valid.'')) (\<lambda>_.
       requireE (textArray (jsonField ''permissions'' step)) (BadRequest ''permissions pada approval step tidak valid.''))
   | _ \<Rightarrow> Inl (BadRequest ''Approval step tidak valid.''))"

definition checkSteps :: "json \<Rightarrow> exn + unit" where
  "checkSteps v = (case v of
     JArray (x # xs) \<Rightarrow> bindE (mapE checkStep (x # xs)) (\<lambda>_. Inr ())
   | _ \<Rightarrow> Inl (BadRequest ''Approval policy wajib memiliki minimal satu langkah.''))"

definition createApprovalPolicy :: "approval_policy_dto \<Rightarrow> auth_user \<Rightarrow> ('b approvals_db_scheme, approval_policy) svc" where
  "createApprovalPolicy dto user =
     bindS (liftS (requireTenantScope user)) (\<lambda>scope.
     bindS (assertRequestedScope user scope (apd_company dto) None ''ApprovalPolicy'') (\<lambda>_.
     bindS (liftS (checkSteps (apd_steps dto))) (\<lambda>_. runTx (
       bindT (getT (\<lambda>s. find_first (\<lambda>x. apo_company x = sc_company scope \<and> apo_code x = apd_code dto) (db_approvalPolicies s))) (\<lambda>taken.
       bindT (requireT (taken = None) (PrismaError ''P2002'')) (\<lambda>_.
       bindT newIdT (\<lambda>i.
       let row = \<lparr>apo_id = i, apo_company = sc_company scope, apo_code = apd_code dto, apo_name = apd_name dto,
                  apo_entityType = apd_entityType dto, apo_conditions = apd_conditions dto, apo_steps = apd_steps dto, apo_isActive = True\<rparr>
       in bindT (modT (\<lambda>s. s\<lparr>db_approvalPolicies := db_approvalPolicies s @ [row]\<rparr>)) (\<lambda>_.
          bindT (auditT scope user ''CREATE_APPROVAL_POLICY'' ''ApprovalPolicy'' (Some i)) (\<lambda>_.
          returnT row))))))))) "

record approval_request_dto =
  aqd_company :: "ident option"
  aqd_policy :: "ident option"
  aqd_entityType :: string
  aqd_entity :: string
  aqd_amount :: "rat option"
  aqd_context :: "json option"

text \<open>\<open>{ ...value, branchId }\<close> on objects; other values are wrapped.\<close>

definition branchContext :: "json option \<Rightarrow> ident \<Rightarrow> json" where
  "branchContext value b = (case value of
     Some (JObject fs) \<Rightarrow> JObject (AList.update ''branchId'' (JString (identText b)) fs)
   | Some v \<Rightarrow> JObject [(''branchId'', JString (identText b)), (''value'', v)]
   | None \<Rightarrow> JObject [(''branchId'', JString (identText b))])"

definition activePolicy :: "tenant_scope \<Rightarrow> ident \<Rightarrow> 'b approvals_db_scheme \<Rightarrow> approval_policy option" where
  "activePolicy scope i s =
     find_first (\<lambda>x. apo_id x = i \<and> apo_company x = sc_company scope \<and> apo_isActive x) (db_approvalPolicies s)"

definition policyOf :: "tenant_scope \<Rightarrow> ident option \<Rightarrow> 'b approvals_db_scheme \<Rightarrow> approval_policy option" where
  "policyOf scope p s = (case p of None \<Rightarrow> None | Some i \<Rightarrow> activePolicy scope i s)"

definition newApproval :: "tenant_scope \<Rightarrow> approval_request_dto \<Rightarrow> approval_policy option \<Rightarrow> auth_user \<Rightarrow> ident \<Rightarrow> int \<Rightarrow> approval_request" where
  "newApproval scope dto policy user i t = \<lparr>aq_id = i, aq_policy = aqd_policy dto, aq_company = sc_company scope,
     aq_branch = Some (sc_branch scope), aq_entityType = aqd_entityType dto, aq_entity = aqd_entity dto, aq_requester = Some (us_sub user),
     aq_amount = aqd_amount dto, aq_status = PENDING, aq_currentStep = 1, aq_context = Some (branchContext (aqd_context dto) (sc_branch scope)),
     aq_requestedAt = t, aq_expiresAt = approvalExpiry (stepAt (approvalSteps policy) 0) t, aq_escalatedAt = None,
     aq_delegatedTo = None, aq_delegatedBy = None, aq_delegatedAt = None, aq_decidedAt = None\<rparr>"

definition createApprovalTx ::
    "tenant_scope \<Rightarrow> approval_request_dto \<Rightarrow> approval_policy option \<Rightarrow> auth_user \<Rightarrow> ('b approvals_db_scheme, approval_request) tx" where
  "createApprovalTx scope dto policy user =
     bindT newIdT (\<lambda>i. bindT nowT (\<lambda>t.
     let row = newApproval scope dto policy user i t
     in bindT (modT (\<lambda>s. s\<lparr>db_approvals := db_approvals s @ [row]\<rparr>)) (\<lambda>_.
        bindT (auditT scope user ''CREATE_APPROVAL_REQUEST'' ''ApprovalRequest'' (Some i)) (\<lambda>_.
        returnT row))))"

definition createApprovalRequest :: "approval_request_dto \<Rightarrow> auth_user \<Rightarrow> ('b approvals_db_scheme, approval_request) svc" where
  "createApprovalRequest dto user =
     bindS (liftS (requireTenantScope user)) (\<lambda>scope.
     bindS (assertRequestedScope user scope (aqd_company dto) None ''ApprovalRequest'') (\<lambda>_.
     bindS (getS (policyOf scope (aqd_policy dto))) (\<lambda>policy.
     if aqd_policy dto \<noteq> None \<and> policy = None then denyS scope user ''ApprovalPolicy'' (aqd_policy dto)
     else
       bindS (requireS (case policy of None \<Rightarrow> True | Some p \<Rightarrow> apo_entityType p = aqd_entityType dto)
                (BadRequest ''Jenis entitas tidak sesuai dengan approval policy.'')) (\<lambda>_.
       runTx (createApprovalTx scope dto policy user)))))"

section \<open>Decisions\<close>

text \<open>The users of the branch, whose requests without a branch are visible to it.\<close>

definition branchRequesterIds :: "tenant_scope \<Rightarrow> 'b approvals_db_scheme \<Rightarrow> ident list" where
  "branchRequesterIds scope s = map u_id (filter (\<lambda>u. u_branch u = Some (sc_branch scope) \<and> branchInCompany scope s) (db_users s))"

definition visibleApproval :: "tenant_scope \<Rightarrow> ident list \<Rightarrow> ident \<Rightarrow> 'b approvals_db_scheme \<Rightarrow> approval_request option" where
  "visibleApproval scope requesters i s = find_first (\<lambda>x. aq_id x = i \<and> aq_company x = sc_company scope \<and>
     (aq_branch x = Some (sc_branch scope) \<or>
      aq_branch x = None \<and> (case aq_requester x of None \<Rightarrow> False | Some u \<Rightarrow> List.member requesters u))) (db_approvals s)"

definition stepOf :: "approval_policy option \<Rightarrow> approval_request \<Rightarrow> json" where
  "stepOf policy q = stepAt (approvalSteps policy) (max 0 (aq_currentStep q - 1))"

definition escalationRoles :: "approval_request \<Rightarrow> string list" where
  "escalationRoles q = (if aq_escalatedAt q = None then []
     else case aq_context q of None \<Rightarrow> [] | Some c \<Rightarrow> stringsOf ''escalationRoles'' c)"

text \<open>Who may decide the step: a delegate, or a user with one of its roles and all of its permissions.\<close>

definition checkRole :: "json \<Rightarrow> approval_request \<Rightarrow> approver \<Rightarrow> exn + unit" where
  "checkRole step q user =
     (let roles = stringsOf ''roles'' step @ escalationRoles q; permissions = stringsOf ''permissions'' step in
      bindE (requireE (\<not> (aq_delegatedTo q = None \<and> roles \<noteq> [] \<and> \<not> list_ex (\<lambda>r. List.member (ap_roles user) r) roles))
               (Forbidden ''Role pengguna tidak berhak memutuskan langkah approval ini.'')) (\<lambda>_.
      requireE (\<not> (aq_delegatedTo q = None \<and> permissions \<noteq> [] \<and> \<not> list_all (\<lambda>p. List.member (ap_permissions user) p) permissions))
        (Forbidden ''Permission pengguna tidak memenuhi langkah approval ini.'')))"

definition checkDecidable :: "approval_request \<Rightarrow> ident \<Rightarrow> int \<Rightarrow> exn + unit" where
  "checkDecidable q u t =
     bindE (requireE (aq_status q = PENDING) (BadRequest ''Permintaan approval sudah diputuskan.'')) (\<lambda>_.
     bindE (requireE (case aq_expiresAt q of None \<Rightarrow> True | Some e \<Rightarrow> t < e) (BadRequest ''Masa berlaku approval sudah habis.'')) (\<lambda>_.
     bindE (requireE (aq_requester q \<noteq> Some u) (Forbidden ''Pembuat permintaan tidak boleh menyetujui permintaannya sendiri.'')) (\<lambda>_.
     requireE (case aq_delegatedTo q of None \<Rightarrow> True | Some d \<Rightarrow> d = u)
       (Forbidden ''Langkah approval ini sedang didelegasikan kepada pengguna lain.''))))"

text \<open>The row after the decision; \<open>next\<close> is the step that follows.\<close>

definition decided :: "json list \<Rightarrow> approval_status \<Rightarrow> int \<Rightarrow> approval_request \<Rightarrow> approval_request" where
  "decided steps status t q =
     (let q' = q\<lparr>aq_expiresAt := None, aq_delegatedTo := None, aq_delegatedBy := None, aq_delegatedAt := None\<rparr> in
      if status = REJECTED then q'\<lparr>aq_status := REJECTED, aq_decidedAt := Some t\<rparr>
      else if status = APPROVED \<and> int (length steps) \<le> aq_currentStep q then q'\<lparr>aq_status := APPROVED, aq_decidedAt := Some t\<rparr>
      else q'\<lparr>aq_status := PENDING, aq_currentStep := aq_currentStep q + 1, aq_decidedAt := None,
              aq_expiresAt := approvalExpiry (stepAt steps (aq_currentStep q)) t, aq_escalatedAt := None\<rparr>)"

definition settleDecision ::
    "tenant_scope \<Rightarrow> ident \<Rightarrow> approval_request \<Rightarrow> json list \<Rightarrow> approval_status \<Rightarrow> auth_user \<Rightarrow> ('b approvals_db_scheme, approval_request) tx" where
  "settleDecision scope i q steps status user =
     bindT newIdT (\<lambda>n. bindT nowT (\<lambda>t.
     bindT (modT (\<lambda>s. s\<lparr>db_decisions := db_decisions s @ [\<lparr>dn_id = n, dn_request = i, dn_step = aq_currentStep q,
              dn_approver = us_sub user, dn_status = status, dn_decidedAt = t\<rparr>]\<rparr>)) (\<lambda>_.
     let open = (\<lambda>x. aq_id x = i \<and> aq_status x = PENDING \<and> aq_currentStep x = aq_currentStep q) in
     bindT (getT (\<lambda>s. count_where open (db_approvals s))) (\<lambda>claimed.
     bindT (modT (\<lambda>s. s\<lparr>db_approvals := update_many open (decided steps status t) (db_approvals s)\<rparr>)) (\<lambda>_.
     bindT (requireT (claimed = 1) (BadRequest ''Approval berubah oleh proses lain. Muat ulang dan coba lagi.'')) (\<lambda>_.
     bindT (getT (\<lambda>s. find_first (\<lambda>x. aq_id x = i) (db_approvals s))) (\<lambda>found. case found of
       None \<Rightarrow> throwT (PrismaError ''P2025'')
     | Some row \<Rightarrow>
         bindT (auditT scope user ''DECIDE_APPROVAL_REQUEST'' ''ApprovalRequest'' (Some i)) (\<lambda>_.
         returnT row))))))))"

definition decideApprovalTx ::
    "tenant_scope \<Rightarrow> ident list \<Rightarrow> ident \<Rightarrow> approval_status \<Rightarrow> approver \<Rightarrow> ('b approvals_db_scheme, approval_request) tx" where
  "decideApprovalTx scope requesters i status user =
     bindT (getT (visibleApproval scope requesters i)) (\<lambda>found. case found of
       None \<Rightarrow> denyT scope (ap_user user) ''ApprovalRequest'' (Some i)
     | Some q \<Rightarrow>
         bindT nowT (\<lambda>t.
         bindT (liftE (checkDecidable q (us_sub (ap_user user)) t)) (\<lambda>_.
         bindT (getT (policyOf scope (aq_policy q))) (\<lambda>policy.
         bindT (liftE (checkRole (stepOf policy q) q user)) (\<lambda>_.
         bindT (getT (\<lambda>s. list_ex (\<lambda>d. dn_request d = i \<and> dn_step d = aq_currentStep q \<and> dn_approver d = us_sub (ap_user user))
                  (db_decisions s))) (\<lambda>already.
         bindT (requireT (\<not> already) (BadRequest ''Pengguna sudah memberikan keputusan pada langkah approval ini.'')) (\<lambda>_.
         settleDecision scope i q (approvalSteps policy) status (ap_user user))))))))"

definition decideApproval :: "ident \<Rightarrow> approval_status \<Rightarrow> approver \<Rightarrow> ('b approvals_db_scheme, approval_request) svc" where
  "decideApproval i status user =
     bindS (liftS (requireTenantScope (ap_user user))) (\<lambda>scope.
     bindS (getS (branchRequesterIds scope)) (\<lambda>requesters.
     runTx (decideApprovalTx scope requesters i status user)))"

section \<open>Delegation\<close>

definition delegationTarget :: "tenant_scope \<Rightarrow> ident \<Rightarrow> 'b approvals_db_scheme \<Rightarrow> app_user option" where
  "delegationTarget scope u s = find_first (\<lambda>x. u_id x = u \<and> u_branch x = Some (sc_branch scope) \<and> u_isActive x \<and>
     list_ex (\<lambda>b. br_id b = sc_branch scope \<and> br_company b = sc_company scope \<and> br_isActive b) (branches (db_numbering s))) (db_users s)"

definition holdsRole :: "string list \<Rightarrow> string list \<Rightarrow> bool" where
  "holdsRole roles held \<longleftrightarrow> roles = [] \<or> list_ex (\<lambda>r. List.member held r) roles"

definition holdsAll :: "string list \<Rightarrow> string list \<Rightarrow> bool" where
  "holdsAll permissions held \<longleftrightarrow> list_all (\<lambda>p. List.member held p) permissions"

definition targetPermissions :: "app_user \<Rightarrow> string list" where
  "targetPermissions u = concat (map snd (u_roles u))"

definition checkDelegation :: "json \<Rightarrow> approval_request \<Rightarrow> app_user \<Rightarrow> approver \<Rightarrow> exn + unit" where
  "checkDelegation step q target user =
     (let roles = stringsOf ''roles'' step; permissions = stringsOf ''permissions'' step;
          privileged = list_ex (\<lambda>r. List.member [''SUPER_ADMIN'', ''OWNER'', ''ADMIN''] r) (ap_roles user) in
      bindE (requireE (holdsRole roles (map fst (u_roles target))) (BadRequest ''Target delegasi tidak memenuhi role langkah approval.'')) (\<lambda>_.
      bindE (requireE (holdsAll permissions (targetPermissions target))
               (BadRequest ''Target delegasi tidak memenuhi permission langkah approval.'')) (\<lambda>_.
      if privileged then Inr ()
      else
        bindE (requireE (case aq_delegatedTo q of None \<Rightarrow> True | Some d \<Rightarrow> d = us_sub (ap_user user))
                 (Forbidden ''Approval ini sudah didelegasikan kepada pengguna lain.'')) (\<lambda>_.
        bindE (requireE (holdsRole roles (ap_roles user)) (Forbidden ''Role pengguna tidak berhak mendelegasikan langkah approval ini.'')) (\<lambda>_.
        requireE (holdsAll permissions (ap_permissions user)) (Forbidden ''Permission pengguna tidak memenuhi langkah approval ini.''))))))"

definition delegateApprovalTx ::
    "tenant_scope \<Rightarrow> ident \<Rightarrow> ident \<Rightarrow> approver \<Rightarrow> ('b approvals_db_scheme, approval_request) tx" where
  "delegateApprovalTx scope i targetId user =
     bindT (getT (\<lambda>s. find_first (\<lambda>x. aq_id x = i \<and> aq_company x = sc_company scope \<and> aq_branch x = Some (sc_branch scope) \<and>
              aq_status x = PENDING) (db_approvals s))) (\<lambda>found. case found of
       None \<Rightarrow> denyT scope (ap_user user) ''ApprovalRequest'' (Some i)
     | Some q \<Rightarrow>
         bindT (requireT (aq_requester q \<noteq> Some targetId) (BadRequest ''Approval tidak boleh didelegasikan kembali kepada requester.'')) (\<lambda>_.
         bindT (getT (delegationTarget scope targetId)) (\<lambda>target. case target of
           None \<Rightarrow> throwT (BadRequest ''Target delegasi tidak aktif pada branch yang sama.'')
         | Some u \<Rightarrow>
             bindT (getT (policyOf scope (aq_policy q))) (\<lambda>policy.
             bindT (liftE (checkDelegation (stepOf policy q) q u user)) (\<lambda>_.
             bindT nowT (\<lambda>t.
             let f = (\<lambda>x. x\<lparr>aq_delegatedTo := Some (u_id u), aq_delegatedBy := Some (us_sub (ap_user user)), aq_delegatedAt := Some t\<rparr>) in
             bindT (modT (\<lambda>s. s\<lparr>db_approvals := update_many (\<lambda>x. aq_id x = i) f (db_approvals s)\<rparr>)) (\<lambda>_.
             bindT (auditT scope (ap_user user) ''DELEGATE_APPROVAL_REQUEST'' ''ApprovalRequest'' (Some i)) (\<lambda>_.
             returnT (f q)))))))))"

definition delegateApproval :: "ident \<Rightarrow> ident \<Rightarrow> approver \<Rightarrow> ('b approvals_db_scheme, approval_request) svc" where
  "delegateApproval i targetId user =
     bindS (liftS (requireTenantScope (ap_user user))) (\<lambda>scope. runTx (delegateApprovalTx scope i targetId user))"

section \<open>Expiry\<close>

text \<open>
  \<open>Number(step.escalationMinutes ?? step.expiresInMinutes ?? 60) || 60\<close>, between a minute and thirty days; the date is
  the number of milliseconds, its fraction cut off.
\<close>

definition orNull :: "json option \<Rightarrow> json option \<Rightarrow> json option" where
  "orNull v w = (case v of None \<Rightarrow> w | Some JNull \<Rightarrow> w | Some x \<Rightarrow> Some x)"

definition orNumber :: "js_number \<Rightarrow> js_number \<Rightarrow> js_number" where
  "orNumber x y = (if x = NaN \<or> x = Fin 0 then y else x)"

definition extensionMinutes :: "json \<Rightarrow> js_number" where
  "extensionMinutes step = mathMax (Fin 1) (mathMin (orNumber (numberOf
     (orNull (jsonField ''escalationMinutes'' step) (orNull (jsonField ''expiresInMinutes'' step) (Some (JNumber (Fin 60)))))) (Fin 60))
     (Fin (30 * 24 * 60)))"

definition dateOf :: "js_number \<Rightarrow> int" where
  "dateOf x = (case x of Fin v \<Rightarrow> if v < 0 then - \<lfloor>- v\<rfloor> else \<lfloor>v\<rfloor> | _ \<Rightarrow> 0)"

definition extendedExpiry :: "json \<Rightarrow> int \<Rightarrow> int" where
  "extendedExpiry step t = dateOf (jadd (Fin (of_int t)) (jmul (extensionMinutes step) (Fin (of_int minuteMs))))"

definition withRoles :: "string list \<Rightarrow> json option \<Rightarrow> json" where
  "withRoles roles context = JObject (AList.update ''escalationRoles'' (JArray (map JString roles))
     (case context of Some (JObject fs) \<Rightarrow> fs | _ \<Rightarrow> []))"

definition rawStep :: "approval_policy option \<Rightarrow> approval_request \<Rightarrow> json" where
  "rawStep policy q = (case policy of None \<Rightarrow> JObject []
     | Some p \<Rightarrow> (case apo_steps p of JArray steps \<Rightarrow> objectOrEmpty (stepAt steps (max 0 (aq_currentStep q - 1))) | _ \<Rightarrow> JObject []))"

primrec joinComma :: "string list \<Rightarrow> string" where
  "joinComma [] = ''''"
| "joinComma (x # xs) = (if xs = [] then x else x @ '','' @ joinComma xs)"

definition overdue :: "int \<Rightarrow> approval_request \<Rightarrow> bool" where
  "overdue t q \<longleftrightarrow> aq_status q = PENDING \<and> (case aq_expiresAt q of None \<Rightarrow> False | Some e \<Rightarrow> e \<le> t)"

text \<open>The worker's audit rows, which name no user, are left out.\<close>

definition expireOneTx :: "ident \<Rightarrow> ('b approvals_db_scheme, unit) tx" where
  "expireOneTx i =
     bindT nowT (\<lambda>t.
     bindT (getT (\<lambda>s. find_first (\<lambda>x. aq_id x = i) (db_approvals s))) (\<lambda>found. case found of
       None \<Rightarrow> returnT ()
     | Some q \<Rightarrow>
         if \<not> overdue t q then returnT ()
         else
           bindT (getT (\<lambda>s. case aq_policy q of None \<Rightarrow> None | Some p \<Rightarrow> find_first (\<lambda>x. apo_id x = p) (db_approvalPolicies s))) (\<lambda>policy.
           let step = rawStep policy q; roles = stringsOf ''escalationRoles'' step in
           if aq_escalatedAt q = None \<and> roles \<noteq> [] then
             bindT (modT (\<lambda>s. s\<lparr>db_approvals := update_many (\<lambda>x. aq_id x = i)
                      (\<lambda>x. x\<lparr>aq_escalatedAt := Some t, aq_expiresAt := Some (extendedExpiry step t),
                              aq_context := Some (withRoles roles (aq_context q))\<rparr>) (db_approvals s)\<rparr>)) (\<lambda>_.
             bindT newIdT (\<lambda>n.
             modT (\<lambda>s. s\<lparr>db_notifications := db_notifications s @ [\<lparr>no_id = n, no_company = aq_company q, no_channel = ''IN_APP'',
               no_recipient = joinComma roles, no_subject = Some ''Approval membutuhkan eskalasi'', no_template = None\<rparr>]\<rparr>)))
           else
             modT (\<lambda>s. s\<lparr>db_approvals := update_many (\<lambda>x. aq_id x = i \<and> aq_status x = PENDING \<and> aq_currentStep x = aq_currentStep q)
               (\<lambda>x. x\<lparr>aq_status := EXPIRED, aq_decidedAt := Some t\<rparr>) (db_approvals s)\<rparr>))))"

text \<open>A sweep takes the fifty requests that are overdue longest.\<close>

definition sweepBatch :: "'b approvals_db_scheme \<Rightarrow> ident list" where
  "sweepBatch s = map aq_id (take 50 (sort_key (\<lambda>q. the (aq_expiresAt q)) (filter (overdue (db_now s)) (db_approvals s))))"

primrec expireAll :: "ident list \<Rightarrow> ('b approvals_db_scheme, unit) svc" where
  "expireAll [] = returnS ()"
| "expireAll (i # is) = (\<lambda>s. expireAll is (snd (runTx (expireOneTx i) s)))"

definition processApprovalExpiries :: "('b approvals_db_scheme, unit) svc" where
  "processApprovalExpiries = bindS (getS sweepBatch) expireAll"

section \<open>Automation\<close>

text \<open>
  The job of an automation rule whose action is \<open>CREATE_APPROVAL_REQUEST\<close>: the worker's transaction on the tables
  of approvals. Its other actions, and the rows of the jobs themselves, are not modelled.
\<close>

record automation_job =
  aj_company :: ident
  aj_branch :: "ident option"
  aj_sourceType :: string
  aj_sourceId :: string
  aj_payload :: json

definition payloadText :: "string \<Rightarrow> json \<Rightarrow> string option" where
  "payloadText name payload = (case jsonField name payload of Some (JString t) \<Rightarrow> Some t | _ \<Rightarrow> None)"

text \<open>The id that a text renders; a text that renders none is nobody's id.\<close>

definition identOf :: "string \<Rightarrow> ident option" where
  "identOf t = (if identText (decimalValue t) = t then Some (decimalValue t) else None)"

definition payloadAmount :: "decimal_ops \<Rightarrow> json \<Rightarrow> rat option" where
  "payloadAmount dec payload = (case jsonField ''amount'' payload of Some (JNumber x) \<Rightarrow> Some (d_ofNumber dec x) | _ \<Rightarrow> None)"

definition automationPolicy :: "automation_job \<Rightarrow> string option \<Rightarrow> 'b approvals_db_scheme \<Rightarrow> approval_policy option" where
  "automationPolicy job code s = (case code of None \<Rightarrow> None
     | Some c \<Rightarrow> find_first (\<lambda>p. apo_company p = aj_company job \<and> apo_code p = c \<and> apo_isActive p) (db_approvalPolicies s))"

text \<open>A request that still waits for the same entity, under the policy if the job names one.\<close>

definition waitingApproval :: "automation_job \<Rightarrow> approval_policy option \<Rightarrow> 'b approvals_db_scheme \<Rightarrow> approval_request option" where
  "waitingApproval job policy s = find_first (\<lambda>q. aq_company q = aj_company job \<and> aq_branch q = aj_branch job \<and>
     aq_entityType q = aj_sourceType job \<and> aq_entity q = aj_sourceId job \<and>
     (case policy of None \<Rightarrow> True | Some p \<Rightarrow> aq_policy q = Some (apo_id p)) \<and> aq_status q = PENDING) (db_approvals s)"

definition automatedApproval :: "decimal_ops \<Rightarrow> automation_job \<Rightarrow> approval_policy option \<Rightarrow> json \<Rightarrow> ident \<Rightarrow> int \<Rightarrow> approval_request" where
  "automatedApproval dec job policy payload i t = \<lparr>aq_id = i, aq_policy = map_option apo_id policy, aq_company = aj_company job,
     aq_branch = aj_branch job, aq_entityType = aj_sourceType job, aq_entity = aj_sourceId job,
     aq_requester = Option.bind (payloadText ''requesterId'' payload) identOf, aq_amount = payloadAmount dec payload,
     aq_status = PENDING, aq_currentStep = 1,
     aq_context = Some (case aj_branch job of None \<Rightarrow> payload | Some b \<Rightarrow> branchContext (Some payload) b),
     aq_requestedAt = t, aq_expiresAt = None, aq_escalatedAt = None,
     aq_delegatedTo = None, aq_delegatedBy = None, aq_delegatedAt = None, aq_decidedAt = None\<rparr>"

definition automationTx :: "decimal_ops \<Rightarrow> automation_job \<Rightarrow> ('b approvals_db_scheme, unit) tx" where
  "automationTx dec job =
     (let payload = objectOrEmpty (aj_payload job);
          code = (case payloadText ''policyCode'' payload of Some t \<Rightarrow> if t = [] then None else Some t | None \<Rightarrow> None) in
      bindT (getT (automationPolicy job code)) (\<lambda>policy.
      bindT (requireT (code = None \<or> policy \<noteq> None) (PlainError ''Approval policy tidak ditemukan/aktif.'')) (\<lambda>_.
      bindT (getT (waitingApproval job policy)) (\<lambda>waiting.
      if waiting \<noteq> None then returnT ()
      else
        bindT newIdT (\<lambda>i. bindT nowT (\<lambda>t.
        modT (\<lambda>s. s\<lparr>db_approvals := db_approvals s @ [automatedApproval dec job policy payload i t]\<rparr>)))))))"

definition runAutomation :: "decimal_ops \<Rightarrow> automation_job \<Rightarrow> ('b approvals_db_scheme, unit) svc" where
  "runAutomation dec job = runTx (automationTx dec job)"

end
