(* ===== verification/PurchaseRequests.thy ===== *)
theory PurchaseRequests
  imports Approvals
begin

text \<open>
  Purchase requests: \<open>apps/api/src/purchase-orders/purchase-requests.service.ts\<close>. A draft is submitted to an approval,
  decided through it, and an approved request becomes one purchase order. The service has no transaction around its
  calls to the approvals and the orders, so an error leaves what the calls before it wrote.
\<close>

section \<open>Requests\<close>

record request_item_dto =
  rid_product :: ident
  rid_quantity :: int
  rid_cost :: rat

record request_dto =
  rqd_warehouse :: ident
  rqd_supplier :: "ident option"
  rqd_neededBy :: "int option"
  rqd_items :: "request_item_dto list"

record convert_dto =
  cvd_supplier :: "ident option"
  cvd_expectedDate :: "int option"

definition findRequest :: "tenant_scope \<Rightarrow> ident \<Rightarrow> 'b approvals_db_scheme \<Rightarrow> purchase_request option" where
  "findRequest scope i s =
     find_first (\<lambda>x. pq_id x = i \<and> pq_company x = sc_company scope \<and> pq_branch x = sc_branch scope) (db_requests s)"

definition requestS :: "tenant_scope \<Rightarrow> auth_user \<Rightarrow> ident \<Rightarrow> ('b approvals_db_scheme, purchase_request) svc" where
  "requestS scope user i = bindS (getS (findRequest scope i)) (\<lambda>found. case found of
     None \<Rightarrow> denyS scope user ''PurchaseRequest'' (Some i) | Some x \<Rightarrow> returnS x)"

definition findOneRequest :: "ident \<Rightarrow> auth_user \<Rightarrow> ('b approvals_db_scheme, purchase_request) svc" where
  "findOneRequest i user = bindS (liftS (requireTenantScope user)) (\<lambda>scope. requestS scope user i)"

definition itemsOfRequest :: "ident \<Rightarrow> 'b approvals_db_scheme \<Rightarrow> request_item list" where
  "itemsOfRequest i s = filter (\<lambda>x. rqi_request x = i) (db_requestItems s)"

definition activeSupplier :: "tenant_scope \<Rightarrow> ident \<Rightarrow> 'b procurement_db_scheme \<Rightarrow> bool" where
  "activeSupplier scope i s \<longleftrightarrow> list_ex (\<lambda>x. sp_id x = i \<and> sp_company x = Some (sc_company scope) \<and> sp_isActive x) (db_suppliers s)"

text \<open>\<open>updateMany\<close> on the requests, with the count it reports.\<close>

definition updateRequests :: "(purchase_request \<Rightarrow> bool) \<Rightarrow> (purchase_request \<Rightarrow> purchase_request) \<Rightarrow> ('b approvals_db_scheme, nat) svc" where
  "updateRequests P f = bindS (getS (\<lambda>s. count_where P (db_requests s))) (\<lambda>n.
     bindS (modS (\<lambda>s. s\<lparr>db_requests := update_many P f (db_requests s)\<rparr>)) (\<lambda>_. returnS n))"

section \<open>Drafting\<close>

definition createRequestTx :: "tenant_scope \<Rightarrow> request_dto \<Rightarrow> ident \<Rightarrow> auth_user \<Rightarrow> ('b approvals_db_scheme, purchase_request) tx" where
  "createRequestTx scope dto warehouseId user =
     bindT (numberT scope ''PURCHASE_REQUEST'' ''PR'') (\<lambda>number.
     bindT (getT (\<lambda>s. find_first (\<lambda>x. pq_number x = number) (db_requests s))) (\<lambda>taken.
     bindT (requireT (taken = None) (PrismaError ''P2002'')) (\<lambda>_.
     bindT newIdT (\<lambda>i.
     let row = \<lparr>pq_id = i, pq_number = number, pq_company = sc_company scope, pq_branch = sc_branch scope, pq_warehouse = warehouseId,
                pq_supplier = rqd_supplier dto, pq_requestedBy = Some (us_sub user), pq_approvedBy = None, pq_approvalRequest = None,
                pq_status = ''DRAFT'', pq_neededBy = rqd_neededBy dto, pq_requestedAt = None, pq_approvedAt = None, pq_convertedAt = None,
                pq_order = None\<rparr>
     in bindT (modT (\<lambda>s. s\<lparr>db_requests := db_requests s @ [row],
                 db_requestItems := db_requestItems s @ map (\<lambda>x. \<lparr>rqi_request = i, rqi_product = rid_product x,
                   rqi_quantity = rid_quantity x, rqi_cost = rid_cost x\<rparr>) (rqd_items dto)\<rparr>)) (\<lambda>_.
        bindT (auditT scope user ''CREATE_PURCHASE_REQUEST'' ''PurchaseRequest'' (Some i)) (\<lambda>_.
        returnT row))))))"

definition createRequest :: "request_dto \<Rightarrow> auth_user \<Rightarrow> ('b approvals_db_scheme, purchase_request) svc" where
  "createRequest dto user =
     bindS (liftS (requireTenantScope user)) (\<lambda>scope.
     bindS (requireS (rqd_items dto \<noteq> []) (BadRequest ''Purchase request harus memiliki minimal satu barang.'')) (\<lambda>_.
     bindS (getS (findWarehouse scope (rqd_warehouse dto) ByBranch False)) (\<lambda>w. case w of
       None \<Rightarrow> throwS (BadRequest ''Gudang tidak ditemukan pada branch aktif.'')
     | Some x \<Rightarrow>
         bindS (getS (\<lambda>s. case rqd_supplier dto of None \<Rightarrow> True | Some p \<Rightarrow> activeSupplier scope p s)) (\<lambda>ok.
         bindS (requireS ok (BadRequest ''Supplier tidak ditemukan pada company aktif.'')) (\<lambda>_.
         let productIds = remdups (map rid_product (rqd_items dto)) in
         bindS (getS (\<lambda>s. length (companyProducts (sc_company scope) True productIds s) = length productIds)) (\<lambda>found.
         bindS (requireS found (BadRequest ''Satu atau lebih produk tidak ditemukan pada company aktif.'')) (\<lambda>_.
         runTx (createRequestTx scope dto (wh_id x) user))))))))"

section \<open>Submission\<close>

definition requestAmount :: "decimal_ops \<Rightarrow> request_item list \<Rightarrow> rat" where
  "requestAmount dec items = d_sum dec (map (\<lambda>x. d_mul dec (rqi_cost x) (of_int (rqi_quantity x))) items)"

text \<open>The approval that waits for the request, the one asked for last first.\<close>

definition pendingApproval :: "tenant_scope \<Rightarrow> ident \<Rightarrow> 'b approvals_db_scheme \<Rightarrow> approval_request option" where
  "pendingApproval scope i s = find_ordered (\<lambda>a b. aq_requestedAt b \<le> aq_requestedAt a)
     (\<lambda>x. aq_company x = sc_company scope \<and> aq_branch x = Some (sc_branch scope) \<and> aq_entityType x = ''PurchaseRequest'' \<and>
        aq_entity x = identText i \<and> aq_status x = PENDING) (db_approvals s)"

text \<open>The context of the approval, as the JSON value the service passes.\<close>

definition requestContext :: "purchase_request \<Rightarrow> json" where
  "requestContext r = JObject [(''purchaseRequestNumber'', JString (pq_number r)), (''warehouseId'', JString (identText (pq_warehouse r))),
     (''supplierId'', case pq_supplier r of None \<Rightarrow> JNull | Some p \<Rightarrow> JString (identText p))]"

definition requestApproval :: "purchase_request \<Rightarrow> ident option \<Rightarrow> rat \<Rightarrow> approval_request_dto" where
  "requestApproval r policyId amount = \<lparr>aqd_company = None, aqd_policy = policyId, aqd_entityType = ''PurchaseRequest'',
     aqd_entity = identText (pq_id r), aqd_amount = (case double amount of Fin x \<Rightarrow> Some x | _ \<Rightarrow> None),
     aqd_context = Some (requestContext r)\<rparr>"

text \<open>\<open>try { .. } catch { release; throw }\<close>: a failed creation puts the request back.\<close>

definition askApproval :: "ident \<Rightarrow> purchase_request \<Rightarrow> ident option \<Rightarrow> rat \<Rightarrow> auth_user \<Rightarrow> ('b approvals_db_scheme, approval_request) svc" where
  "askApproval i r policyId amount user s = (case createApprovalRequest (requestApproval r policyId amount) user s of
     (Inr q, s') \<Rightarrow> (Inr q, s')
   | (Inl e, s') \<Rightarrow> bindS (updateRequests (\<lambda>x. pq_id x = i \<and> pq_status x = ''SUBMITTING'' \<and> pq_approvalRequest x = None)
        (\<lambda>x. x\<lparr>pq_status := ''DRAFT''\<rparr>)) (\<lambda>_. throwS e) s')"

definition submitted :: "approval_request \<Rightarrow> purchase_request \<Rightarrow> int \<Rightarrow> purchase_request \<Rightarrow> purchase_request" where
  "submitted q r t x = x\<lparr>pq_status := ''PENDING_APPROVAL'', pq_approvalRequest := Some (aq_id q),
     pq_requestedAt := Some (orElse (pq_requestedAt r) t)\<rparr>"

text \<open>\<open>approvalRequestId\<close> and \<open>purchaseOrderId\<close> are unique over the purchase requests.\<close>

definition linkApproval :: "ident \<Rightarrow> approval_request \<Rightarrow> purchase_request \<Rightarrow> ('b approvals_db_scheme, unit) svc" where
  "linkApproval i q r =
     bindS (getS (\<lambda>s. find_first (\<lambda>x. pq_id x \<noteq> i \<and> pq_approvalRequest x = Some (aq_id q)) (db_requests s))) (\<lambda>taken.
     bindS (requireS (taken = None) (PrismaError ''P2002'')) (\<lambda>_.
     bindS (getS db_now) (\<lambda>t.
     bindS (updateRequests (\<lambda>x. pq_id x = i) (submitted q r t)) (\<lambda>_. returnS ()))))"

definition submitRequest :: "decimal_ops \<Rightarrow> ident \<Rightarrow> ident option \<Rightarrow> auth_user \<Rightarrow> ('b approvals_db_scheme, purchase_request) svc" where
  "submitRequest dec i policyId user =
     bindS (liftS (requireTenantScope user)) (\<lambda>scope.
     bindS (requestS scope user i) (\<lambda>r.
     bindS (requireS (pq_status r = ''DRAFT'' \<or> pq_status r = ''SUBMITTING'') (BadRequest ''Hanya purchase request DRAFT yang dapat diajukan.'')) (\<lambda>_.
     bindS (getS (itemsOfRequest i)) (\<lambda>items.
     bindS (requireS (items \<noteq> []) (BadRequest ''Purchase request tidak memiliki item.'')) (\<lambda>_.
     bindS (if pq_status r = ''DRAFT''
            then bindS (updateRequests (\<lambda>x. pq_id x = i \<and> pq_status x = ''DRAFT'' \<and> pq_approvalRequest x = None)
                   (\<lambda>x. x\<lparr>pq_status := ''SUBMITTING''\<rparr>)) (\<lambda>n.
                 requireS (n = 1) (BadRequest ''Purchase request berubah oleh proses lain. Muat ulang status.''))
            else returnS ()) (\<lambda>_.
     bindS (getS (pendingApproval scope i)) (\<lambda>pending.
     bindS (case pending of Some q \<Rightarrow> returnS q | None \<Rightarrow> askApproval i r policyId (requestAmount dec items) user) (\<lambda>q.
     bindS (linkApproval i q r) (\<lambda>_.
     bindS (auditS scope user ''SUBMIT_PURCHASE_REQUEST'' ''PurchaseRequest'' (Some i)) (\<lambda>_.
     bindS (getS (findRequest scope i)) (\<lambda>row. case row of None \<Rightarrow> throwS (PrismaError ''P2025'') | Some x \<Rightarrow> returnS x)))))))))))"

section \<open>Decision, cancellation\<close>

definition requestDecided :: "approval_status \<Rightarrow> auth_user \<Rightarrow> int \<Rightarrow> purchase_request \<Rightarrow> purchase_request" where
  "requestDecided status user t x =
     (if status = APPROVED then x\<lparr>pq_status := ''APPROVED'', pq_approvedBy := Some (us_sub user), pq_approvedAt := Some t\<rparr>
      else if status = REJECTED then x\<lparr>pq_status := ''REJECTED''\<rparr>
      else x\<lparr>pq_status := ''PENDING_APPROVAL''\<rparr>)"

definition decideRequest :: "ident \<Rightarrow> approval_status \<Rightarrow> approver \<Rightarrow> ('b approvals_db_scheme, purchase_request) svc" where
  "decideRequest i status user =
     bindS (liftS (requireTenantScope (ap_user user))) (\<lambda>scope.
     bindS (requestS scope (ap_user user) i) (\<lambda>r.
     bindS (requireS (pq_status r = ''PENDING_APPROVAL'' \<and> pq_approvalRequest r \<noteq> None)
              (BadRequest ''Purchase request belum menunggu approval.'')) (\<lambda>_.
     bindS (decideApproval (the (pq_approvalRequest r)) status user) (\<lambda>q.
     bindS (getS db_now) (\<lambda>t.
     bindS (updateRequests (\<lambda>x. pq_id x = i) (requestDecided (aq_status q) (ap_user user) t)) (\<lambda>_.
     bindS (auditS scope (ap_user user) ''DECIDE_PURCHASE_REQUEST'' ''PurchaseRequest'' (Some i)) (\<lambda>_.
     returnS (requestDecided (aq_status q) (ap_user user) t r))))))))"

definition cancelRequest :: "ident \<Rightarrow> auth_user \<Rightarrow> ('b approvals_db_scheme, purchase_request) svc" where
  "cancelRequest i user =
     bindS (liftS (requireTenantScope user)) (\<lambda>scope.
     bindS (requestS scope user i) (\<lambda>r.
     bindS (requireS (List.member [''DRAFT'', ''PENDING_APPROVAL'', ''APPROVED''] (pq_status r))
              (BadRequest ''Purchase request pada status ini tidak dapat dibatalkan.'')) (\<lambda>_.
     bindS (requireS (pq_status r \<noteq> ''PENDING_APPROVAL'')
              (BadRequest ''Purchase request yang sedang approval harus ditolak melalui workflow approval.'')) (\<lambda>_.
     bindS (updateRequests (\<lambda>x. pq_id x = i) (\<lambda>x. x\<lparr>pq_status := ''CANCELLED''\<rparr>)) (\<lambda>_.
     bindS (auditS scope user ''CANCEL_PURCHASE_REQUEST'' ''PurchaseRequest'' (Some i)) (\<lambda>_.
     returnS (r\<lparr>pq_status := ''CANCELLED''\<rparr>)))))))"

section \<open>Conversion\<close>

text \<open>\<open>Number(item.estimatedUnitCost)\<close>, which the order turns into a \<open>Decimal\<close> again.\<close>

definition unitCost :: "decimal_ops \<Rightarrow> rat \<Rightarrow> rat" where
  "unitCost dec x = d_ofNumber dec (double x)"

definition conversionOrder :: "decimal_ops \<Rightarrow> purchase_request \<Rightarrow> request_item list \<Rightarrow> ident \<Rightarrow> convert_dto \<Rightarrow> order_dto" where
  "conversionOrder dec r items supplier dto = \<lparr>pod_key = Some (''purchase-request:'' @ identText (pq_id r)), pod_supplier = supplier,
     pod_warehouse = pq_warehouse r, pod_expectedDate = (case cvd_expectedDate dto of Some d \<Rightarrow> Some d | None \<Rightarrow> pq_neededBy r),
     pod_items = map (\<lambda>x. \<lparr>pid_product = rqi_product x, pid_variant = None, pid_unit = None, pid_quantity = rqi_quantity x,
       pid_unitCost = unitCost dec (rqi_cost x)\<rparr>) items\<rparr>"

definition claimConversion :: "ident \<Rightarrow> ident \<Rightarrow> ident \<Rightarrow> ('b approvals_db_scheme, unit) svc" where
  "claimConversion i supplier orderId =
     (let open = (\<lambda>x. pq_id x = i \<and> pq_status x = ''APPROVED'' \<and> pq_order x = None) in
     bindS (getS (\<lambda>s. list_ex open (db_requests s) \<and> list_ex (\<lambda>x. pq_id x \<noteq> i \<and> pq_order x = Some orderId) (db_requests s))) (\<lambda>taken.
     bindS (requireS (\<not> taken) (PrismaError ''P2002'')) (\<lambda>_.
     bindS (getS db_now) (\<lambda>t.
     bindS (updateRequests open
       (\<lambda>x. x\<lparr>pq_status := ''CONVERTED'', pq_supplier := Some supplier, pq_order := Some orderId, pq_convertedAt := Some t\<rparr>)) (\<lambda>n.
     bindS (getS (\<lambda>s. find_first (\<lambda>x. pq_id x = i) (db_requests s))) (\<lambda>current.
     requireS (n \<noteq> 0 \<or> (case current of None \<Rightarrow> False | Some x \<Rightarrow> pq_status x = ''CONVERTED'' \<and> pq_order x = Some orderId))
       (BadRequest ''Purchase request berubah saat konversi. Muat ulang status.'')))))))"

text \<open>The answer is the id of the order; \<open>None\<close> is a stored response without one.\<close>

definition convertRequest ::
    "decimal_ops \<Rightarrow> (order_dto \<Rightarrow> string) \<Rightarrow> ident \<Rightarrow> convert_dto \<Rightarrow> auth_user \<Rightarrow> ('b approvals_db_scheme, ident) svc" where
  "convertRequest dec digest i dto user =
     bindS (liftS (requireTenantScope user)) (\<lambda>scope.
     bindS (requestS scope user i) (\<lambda>r.
     if pq_status r = ''CONVERTED'' \<and> pq_order r \<noteq> None
     then bindS (findOrder (the (pq_order r)) user) (\<lambda>x. returnS (or_id x))
     else
       bindS (requireS (pq_status r = ''APPROVED'') (BadRequest ''Hanya purchase request APPROVED yang dapat dikonversi menjadi PO.'')) (\<lambda>_.
       case (case cvd_supplier dto of Some p \<Rightarrow> Some p | None \<Rightarrow> pq_supplier r) of
         None \<Rightarrow> throwS (BadRequest ''Supplier wajib ditentukan sebelum purchase request dikonversi menjadi PO.'')
       | Some supplier \<Rightarrow>
           bindS (getS (activeSupplier scope supplier)) (\<lambda>ok.
           bindS (requireS ok (BadRequest ''Supplier tidak aktif atau tidak tersedia pada company aktif.'')) (\<lambda>_.
           bindS (getS (itemsOfRequest i)) (\<lambda>items.
           bindS (createOrder dec digest (conversionOrder dec r items supplier dto) user) (\<lambda>answer. case answer of
             None \<Rightarrow> throwS (PlainError ''TypeError'')
           | Some orderId \<Rightarrow>
               bindS (claimConversion i supplier orderId) (\<lambda>_.
               bindS (auditS scope user ''CONVERT_PURCHASE_REQUEST'' ''PurchaseRequest'' (Some i)) (\<lambda>_.
               returnS orderId)))))))))"

end
