(* ===== verification/HumanResources.thy ===== *)
theory HumanResources
  imports Approvals
begin

text \<open>
  Employees, departments, positions and assignments: \<open>apps/api/src/hr/hr.service.ts\<close>. Contact data, names and grades
  are texts that are only copied. A field of an update that is \<open>undefined\<close> is \<open>None\<close>, one that is \<open>null\<close> is
  \<open>Some None\<close>.
\<close>

section \<open>Tables\<close>

record employee =
  em_id :: ident
  em_company :: ident
  em_branch :: "ident option"
  em_user :: "ident option"
  em_department :: "ident option"
  em_position :: "ident option"
  em_manager :: "ident option"
  em_number :: string
  em_fullName :: string
  em_email :: "string option"
  em_phone :: "string option"
  em_employment :: string
  em_hireDate :: int
  em_contractEnd :: "int option"
  em_timezone :: string
  em_isActive :: bool

record department =
  dp_id :: ident
  dp_company :: ident
  dp_code :: string
  dp_name :: string
  dp_parent :: "ident option"
  dp_isActive :: bool

record job_position =
  jp_id :: ident
  jp_company :: ident
  jp_department :: "ident option"
  jp_code :: string
  jp_name :: string
  jp_grade :: "string option"
  jp_isActive :: bool

record leave_type =
  lt_id :: ident
  lt_company :: ident
  lt_code :: string
  lt_name :: string
  lt_paid :: bool
  lt_annualQuota :: "rat option"
  lt_requiresDocument :: bool
  lt_isActive :: bool

record leave =
  lv_id :: ident
  lv_company :: ident
  lv_employee :: ident
  lv_type :: ident
  lv_start :: int
  lv_end :: int
  lv_days :: int
  lv_status :: string
  lv_approval :: "ident option"

record overtime =
  ot_id :: ident
  ot_company :: ident
  ot_employee :: ident
  ot_branch :: "ident option"
  ot_start :: int
  ot_end :: int
  ot_approvedMinutes :: "int option"
  ot_status :: string
  ot_approval :: "ident option"

record assignment =
  asg_id :: ident
  asg_employee :: ident
  asg_branch :: "ident option"
  asg_department :: "ident option"
  asg_position :: "ident option"
  asg_manager :: "ident option"
  asg_from :: int
  asg_to :: "int option"
  asg_isPrimary :: bool

record hr_db = approvals_db +
  db_employees :: "employee list"
  db_departments :: "department list"
  db_positions :: "job_position list"
  db_leaveTypes :: "leave_type list"
  db_leaves :: "leave list"
  db_overtimes :: "overtime list"
  db_assignments :: "assignment list"

section \<open>Checks\<close>

definition assertDepartment :: "auth_user \<Rightarrow> tenant_scope \<Rightarrow> ident option \<Rightarrow> ('b hr_db_scheme, unit) tx" where
  "assertDepartment user scope d = (case d of None \<Rightarrow> returnT ()
   | Some i \<Rightarrow> bindT (getT (\<lambda>s. list_ex (\<lambda>x. dp_id x = i \<and> dp_company x = sc_company scope \<and> dp_isActive x) (db_departments s))) (\<lambda>found.
       if found then returnT () else denyT scope user ''Department'' (Some i)))"

definition assertPosition :: "auth_user \<Rightarrow> tenant_scope \<Rightarrow> ident option \<Rightarrow> ('b hr_db_scheme, unit) tx" where
  "assertPosition user scope p = (case p of None \<Rightarrow> returnT ()
   | Some i \<Rightarrow> bindT (getT (\<lambda>s. list_ex (\<lambda>x. jp_id x = i \<and> jp_company x = sc_company scope \<and> jp_isActive x) (db_positions s))) (\<lambda>found.
       if found then returnT () else denyT scope user ''Position'' (Some i)))"

definition assertUserBranch :: "auth_user \<Rightarrow> tenant_scope \<Rightarrow> ident option \<Rightarrow> ('b hr_db_scheme, unit) tx" where
  "assertUserBranch user scope u = (case u of None \<Rightarrow> returnT ()
   | Some i \<Rightarrow> bindT (getT (\<lambda>s. list_ex (\<lambda>x. u_id x = i \<and> u_branch x = Some (sc_branch scope) \<and> u_isActive x) (db_users s))) (\<lambda>found.
       if found then returnT () else denyT scope user ''User'' (Some i)))"

text \<open>\<open>@@unique([companyId, userId])\<close>, in which an employee without an account is unlike every other.\<close>

definition accountTaken :: "ident \<Rightarrow> ident \<Rightarrow> ident option \<Rightarrow> 'b hr_db_scheme \<Rightarrow> bool" where
  "accountTaken i c u s \<longleftrightarrow> u \<noteq> None \<and> list_ex (\<lambda>x. em_id x \<noteq> i \<and> em_company x = c \<and> em_user x = u) (db_employees s)"

section \<open>Employees\<close>

record employee_dto =
  emd_company :: "ident option"
  emd_branch :: "ident option"
  emd_user :: "ident option"
  emd_department :: "ident option"
  emd_position :: "ident option"
  emd_number :: string
  emd_fullName :: string
  emd_email :: "string option"
  emd_phone :: "string option"
  emd_employment :: string
  emd_hireDate :: int
  emd_contractEnd :: "int option"
  emd_timezone :: "string option"

record employee_update_dto =
  emu_branch :: "ident option"
  emu_user :: "ident option option"
  emu_department :: "ident option option"
  emu_position :: "ident option option"
  emu_fullName :: "string option"
  emu_email :: "string option"
  emu_phone :: "string option"
  emu_employment :: "string option"
  emu_isActive :: "bool option"

definition createEmployee :: "employee_dto \<Rightarrow> auth_user \<Rightarrow> ('b hr_db_scheme, employee) svc" where
  "createEmployee dto user =
     bindS (liftS (requireTenantScope user)) (\<lambda>scope.
     bindS (assertRequestedScope user scope (emd_company dto) (emd_branch dto) ''Employee'') (\<lambda>_. runTx (
       bindT (assertDepartment user scope (emd_department dto)) (\<lambda>_.
       bindT (assertPosition user scope (emd_position dto)) (\<lambda>_.
       bindT (assertUserBranch user scope (emd_user dto)) (\<lambda>_.
       bindT newIdT (\<lambda>i.
       bindT (getT (\<lambda>s. list_ex (\<lambda>x. em_company x = sc_company scope \<and> em_number x = emd_number dto) (db_employees s) \<or>
                accountTaken i (sc_company scope) (emd_user dto) s)) (\<lambda>taken.
       bindT (requireT (\<not> taken) (PrismaError ''P2002'')) (\<lambda>_.
       let row = \<lparr>em_id = i, em_company = sc_company scope, em_branch = Some (sc_branch scope), em_user = emd_user dto,
                  em_department = emd_department dto, em_position = emd_position dto, em_manager = None, em_number = emd_number dto,
                  em_fullName = emd_fullName dto, em_email = emd_email dto, em_phone = emd_phone dto, em_employment = emd_employment dto,
                  em_hireDate = emd_hireDate dto, em_contractEnd = emd_contractEnd dto,
                  em_timezone = orElse (emd_timezone dto) ''Asia/Makassar'', em_isActive = True\<rparr>
       in bindT (modT (\<lambda>s. s\<lparr>db_employees := db_employees s @ [row]\<rparr>)) (\<lambda>_.
          bindT (auditT scope user ''CREATE_EMPLOYEE'' ''Employee'' (Some i)) (\<lambda>_.
          returnT row)))))))))))"

definition patchEmployee :: "employee_update_dto \<Rightarrow> employee \<Rightarrow> employee" where
  "patchEmployee dto x = x\<lparr>em_user := orElse (emu_user dto) (em_user x), em_department := orElse (emu_department dto) (em_department x),
     em_position := orElse (emu_position dto) (em_position x), em_fullName := orElse (emu_fullName dto) (em_fullName x),
     em_email := (case emu_email dto of None \<Rightarrow> em_email x | Some t \<Rightarrow> Some t),
     em_phone := (case emu_phone dto of None \<Rightarrow> em_phone x | Some t \<Rightarrow> Some t),
     em_employment := orElse (emu_employment dto) (em_employment x), em_isActive := orElse (emu_isActive dto) (em_isActive x)\<rparr>"

definition updateEmployee :: "ident \<Rightarrow> employee_update_dto \<Rightarrow> auth_user \<Rightarrow> ('b hr_db_scheme, employee) svc" where
  "updateEmployee i dto user =
     bindS (liftS (requireTenantScope user)) (\<lambda>scope.
     bindS (assertRequestedScope user scope None (emu_branch dto) ''Employee'') (\<lambda>_. runTx (
       bindT (getT (\<lambda>s. find_first (\<lambda>x. em_id x = i \<and> em_company x = sc_company scope \<and> em_branch x = Some (sc_branch scope))
                (db_employees s))) (\<lambda>found. case found of
         None \<Rightarrow>
           bindT (getT (\<lambda>s. list_ex (\<lambda>x. em_id x = i) (db_employees s))) (\<lambda>exists.
           if exists then denyT scope user ''Employee'' (Some i) else throwT (NotFound ''Karyawan tidak ditemukan.''))
       | Some x \<Rightarrow>
           bindT (assertDepartment user scope (orElse (emu_department dto) None)) (\<lambda>_.
           bindT (assertPosition user scope (orElse (emu_position dto) None)) (\<lambda>_.
           bindT (assertUserBranch user scope (orElse (emu_user dto) None)) (\<lambda>_.
           bindT (getT (accountTaken i (em_company x) (em_user (patchEmployee dto x)))) (\<lambda>taken.
           bindT (requireT (\<not> taken) (PrismaError ''P2002'')) (\<lambda>_.
           bindT (modT (\<lambda>s. s\<lparr>db_employees := update_many (\<lambda>y. em_id y = i) (patchEmployee dto) (db_employees s)\<rparr>)) (\<lambda>_.
           bindT (auditT scope user ''UPDATE_EMPLOYEE'' ''Employee'' (Some i)) (\<lambda>_.
           returnT (patchEmployee dto x)))))))))))) "

section \<open>Departments, positions, leave types\<close>

record department_dto =
  dpd_company :: "ident option"
  dpd_code :: string
  dpd_name :: string
  dpd_parent :: "ident option"

record position_dto =
  jpd_company :: "ident option"
  jpd_department :: "ident option"
  jpd_code :: string
  jpd_name :: string
  jpd_grade :: "string option"

record leave_type_dto =
  ltd_code :: string
  ltd_name :: string
  ltd_paid :: "bool option"
  ltd_annualQuota :: "rat option"
  ltd_requiresDocument :: "bool option"

definition createDepartment :: "department_dto \<Rightarrow> auth_user \<Rightarrow> ('b hr_db_scheme, department) svc" where
  "createDepartment dto user =
     bindS (liftS (requireTenantScope user)) (\<lambda>scope.
     bindS (assertRequestedScope user scope (dpd_company dto) None ''Department'') (\<lambda>_. runTx (
       bindT (assertDepartment user scope (dpd_parent dto)) (\<lambda>_.
       bindT (getT (\<lambda>s. list_ex (\<lambda>x. dp_company x = sc_company scope \<and> dp_code x = dpd_code dto) (db_departments s))) (\<lambda>taken.
       bindT (requireT (\<not> taken) (PrismaError ''P2002'')) (\<lambda>_.
       bindT newIdT (\<lambda>i.
       let row = \<lparr>dp_id = i, dp_company = sc_company scope, dp_code = dpd_code dto, dp_name = dpd_name dto, dp_parent = dpd_parent dto,
                  dp_isActive = True\<rparr>
       in bindT (modT (\<lambda>s. s\<lparr>db_departments := db_departments s @ [row]\<rparr>)) (\<lambda>_.
          bindT (auditT scope user ''CREATE_DEPARTMENT'' ''Department'' (Some i)) (\<lambda>_.
          returnT row)))))))))"

definition createPosition :: "position_dto \<Rightarrow> auth_user \<Rightarrow> ('b hr_db_scheme, job_position) svc" where
  "createPosition dto user =
     bindS (liftS (requireTenantScope user)) (\<lambda>scope.
     bindS (assertRequestedScope user scope (jpd_company dto) None ''Position'') (\<lambda>_. runTx (
       bindT (assertDepartment user scope (jpd_department dto)) (\<lambda>_.
       bindT (getT (\<lambda>s. list_ex (\<lambda>x. jp_company x = sc_company scope \<and> jp_code x = jpd_code dto) (db_positions s))) (\<lambda>taken.
       bindT (requireT (\<not> taken) (PrismaError ''P2002'')) (\<lambda>_.
       bindT newIdT (\<lambda>i.
       let row = \<lparr>jp_id = i, jp_company = sc_company scope, jp_department = jpd_department dto, jp_code = jpd_code dto,
                  jp_name = jpd_name dto, jp_grade = jpd_grade dto, jp_isActive = True\<rparr>
       in bindT (modT (\<lambda>s. s\<lparr>db_positions := db_positions s @ [row]\<rparr>)) (\<lambda>_.
          bindT (auditT scope user ''CREATE_POSITION'' ''Position'' (Some i)) (\<lambda>_.
          returnT row)))))))))"

definition createLeaveType :: "leave_type_dto \<Rightarrow> auth_user \<Rightarrow> ('b hr_db_scheme, leave_type) svc" where
  "createLeaveType dto user =
     bindS (liftS (requireTenantScope user)) (\<lambda>scope. runTx (
       let code = toUpperCase (trim (ltd_code dto)) in
       bindT (getT (\<lambda>s. list_ex (\<lambda>x. lt_company x = sc_company scope \<and> lt_code x = code) (db_leaveTypes s))) (\<lambda>taken.
       bindT (requireT (\<not> taken) (PrismaError ''P2002'')) (\<lambda>_.
       bindT newIdT (\<lambda>i.
       let row = \<lparr>lt_id = i, lt_company = sc_company scope, lt_code = code, lt_name = trim (ltd_name dto), lt_paid = orElse (ltd_paid dto) True,
                  lt_annualQuota = ltd_annualQuota dto, lt_requiresDocument = orElse (ltd_requiresDocument dto) False, lt_isActive = True\<rparr>
       in bindT (modT (\<lambda>s. s\<lparr>db_leaveTypes := db_leaveTypes s @ [row]\<rparr>)) (\<lambda>_.
          bindT (auditT scope user ''CREATE_LEAVE_TYPE'' ''LeaveType'' (Some i)) (\<lambda>_.
          returnT row)))))))"

section \<open>Assignments\<close>

text \<open>A date of a request that does not parse is \<open>None\<close>.\<close>

definition parseBusinessDate :: "int option \<Rightarrow> exn + int" where
  "parseBusinessDate value = (case value of None \<Rightarrow> Inl (BadRequest ''Tanggal tidak valid.'') | Some t \<Rightarrow> Inr t)"

record assignment_dto =
  asd_employee :: ident
  asd_department :: "ident option"
  asd_position :: "ident option"
  asd_manager :: "ident option"
  asd_from :: "int option"
  asd_to :: "int option option"
  asd_isPrimary :: "bool option"

definition employeeOfBranch :: "tenant_scope \<Rightarrow> ident \<Rightarrow> 'b hr_db_scheme \<Rightarrow> employee option" where
  "employeeOfBranch scope i s = find_first (\<lambda>x. em_id x = i \<and> em_company x = sc_company scope \<and> em_branch x = Some (sc_branch scope) \<and>
     em_isActive x) (db_employees s)"

definition assertManager :: "auth_user \<Rightarrow> tenant_scope \<Rightarrow> employee \<Rightarrow> ident option \<Rightarrow> ('b hr_db_scheme, unit) tx" where
  "assertManager user scope x manager = (case manager of None \<Rightarrow> returnT ()
   | Some i \<Rightarrow> bindT (getT (employeeOfBranch scope i)) (\<lambda>found. case found of
       None \<Rightarrow> denyT scope user ''Employee'' (Some i)
     | Some y \<Rightarrow> requireT (em_id y \<noteq> em_id x) (BadRequest ''Karyawan tidak dapat menjadi manajer untuk dirinya sendiri.'')))"

text \<open>\<open>new Date('9999-12-31T00:00:00.000Z')\<close>.\<close>

definition farFuture :: int where
  "farFuture = 2932896 * dayMs"

text \<open>The row of the employee that \<open>findFirst\<close> finds in the way of a new primary assignment.\<close>

definition assignmentClash :: "ident \<Rightarrow> int \<Rightarrow> int option \<Rightarrow> assignment \<Rightarrow> bool" where
  "assignmentClash e from till x \<longleftrightarrow> asg_employee x = e \<and> asg_isPrimary x \<and> asg_from x \<le> orElse till farFuture \<and>
     (case asg_to x of None \<Rightarrow> True | Some t \<Rightarrow> from \<le> t)"

definition inForce :: "int \<Rightarrow> assignment \<Rightarrow> bool" where
  "inForce t x \<longleftrightarrow> asg_isPrimary x \<and> asg_from x \<le> t \<and> (case asg_to x of None \<Rightarrow> True | Some e \<Rightarrow> t \<le> e)"

definition assigned :: "tenant_scope \<Rightarrow> assignment \<Rightarrow> employee \<Rightarrow> employee" where
  "assigned scope a x = x\<lparr>em_branch := Some (sc_branch scope), em_department := asg_department a, em_position := asg_position a,
     em_manager := asg_manager a\<rparr>"

definition createAssignmentTx ::
    "tenant_scope \<Rightarrow> assignment_dto \<Rightarrow> int \<Rightarrow> int option \<Rightarrow> auth_user \<Rightarrow> ('b hr_db_scheme, assignment) tx" where
  "createAssignmentTx scope dto from till user =
     bindT (getT (employeeOfBranch scope (asd_employee dto))) (\<lambda>found. case found of
       None \<Rightarrow> denyT scope user ''Employee'' (Some (asd_employee dto))
     | Some x \<Rightarrow>
         let primary = orElse (asd_isPrimary dto) True in
         bindT (assertDepartment user scope (asd_department dto)) (\<lambda>_.
         bindT (assertPosition user scope (asd_position dto)) (\<lambda>_.
         bindT (assertManager user scope x (asd_manager dto)) (\<lambda>_.
         bindT (getT (\<lambda>s. primary \<and> list_ex (assignmentClash (em_id x) from till) (db_assignments s))) (\<lambda>overlap.
         bindT (requireT (\<not> overlap) (Conflict ''Rentang primary EmployeeAssignment bertumpang tindih.'')) (\<lambda>_.
         bindT newIdT (\<lambda>i.
         let row = \<lparr>asg_id = i, asg_employee = em_id x, asg_branch = Some (sc_branch scope), asg_department = asd_department dto,
                    asg_position = asd_position dto, asg_manager = asd_manager dto, asg_from = from, asg_to = till, asg_isPrimary = primary\<rparr>
         in bindT (modT (\<lambda>s. s\<lparr>db_assignments := db_assignments s @ [row]\<rparr>)) (\<lambda>_.
            bindT nowT (\<lambda>t.
            bindT (if inForce t row
                   then modT (\<lambda>s. s\<lparr>db_employees := update_many (\<lambda>y. em_id y = em_id x) (assigned scope row) (db_employees s)\<rparr>)
                   else returnT ()) (\<lambda>_.
            bindT (auditT scope user ''CREATE_EMPLOYEE_ASSIGNMENT'' ''EmployeeAssignment'' (Some i)) (\<lambda>_.
            returnT row)))))))))))"

definition createAssignment :: "assignment_dto \<Rightarrow> auth_user \<Rightarrow> ('b hr_db_scheme, assignment) svc" where
  "createAssignment dto user =
     bindS (liftS (requireTenantScope user)) (\<lambda>scope.
     bindS (liftS (parseBusinessDate (asd_from dto))) (\<lambda>from.
     bindS (liftS (case asd_to dto of None \<Rightarrow> Inr None | Some t \<Rightarrow> bindE (parseBusinessDate t) (\<lambda>e. Inr (Some e)))) (\<lambda>till.
     bindS (requireS (case till of None \<Rightarrow> True | Some e \<Rightarrow> from \<le> e)
              (BadRequest ''Tanggal akhir assignment tidak boleh sebelum tanggal mulai.'')) (\<lambda>_.
     runTx (createAssignmentTx scope dto from till user)))))"

end
