(* ===== verification/LeaveRequests.thy ===== *)
theory LeaveRequests
  imports HumanResources
begin

text \<open>
  Leave and overtime: \<open>apps/api/src/hr/hr.service.ts\<close>. An employee asks for days or minutes, an approval request is
  opened beside the row, and a reviewer decides the row and, if it still waits, the approval with it.
\<close>

section \<open>Asking for leave\<close>

record leave_dto =
  lvd_type :: ident
  lvd_start :: "int option"
  lvd_end :: "int option"
  lvd_document :: "string option"

record overtime_dto =
  otd_start :: "int option"
  otd_end :: "int option"

record review_dto =
  rvd_status :: approval_status
  rvd_approvedMinutes :: "int option"

definition byUserId :: "auth_user \<Rightarrow> ('b hr_db_scheme, employee) svc" where
  "byUserId user = bindS (liftS (requireTenantScope user)) (\<lambda>scope.
     bindS (getS (\<lambda>s. find_first (\<lambda>x. em_user x = Some (us_sub user) \<and> em_company x = sc_company scope \<and>
              em_branch x = Some (sc_branch scope) \<and> em_isActive x) (db_employees s))) (\<lambda>found. case found of
       None \<Rightarrow> throwS (NotFound ''Akun belum terhubung ke data karyawan pada tenant aktif.'')
     | Some x \<Rightarrow> returnS x))"

definition inclusiveCalendarDays :: "int \<Rightarrow> int \<Rightarrow> int" where
  "inclusiveCalendarDays start till = utcDayNumber till - utcDayNumber start + 1"

definition activeRequest :: "string \<Rightarrow> bool" where
  "activeRequest status \<longleftrightarrow> status = ''SUBMITTED'' \<or> status = ''APPROVED''"

definition leaveClash :: "employee \<Rightarrow> int \<Rightarrow> int \<Rightarrow> leave \<Rightarrow> bool" where
  "leaveClash e start till x \<longleftrightarrow> lv_company x = em_company e \<and> lv_employee x = em_id e \<and> activeRequest (lv_status x) \<and>
     lv_start x \<le> till \<and> start \<le> lv_end x"

text \<open>The days of a leave type an employee has had approved in the year of a date.\<close>

definition inYearOf :: "int \<Rightarrow> int \<Rightarrow> bool" where
  "inYearOf t x \<longleftrightarrow> civilDay (utcYear t) 1 1 * dayMs \<le> x \<and> x < civilDay (utcYear t + 1) 1 1 * dayMs"

definition usedDays :: "employee \<Rightarrow> ident \<Rightarrow> int \<Rightarrow> 'b hr_db_scheme \<Rightarrow> int" where
  "usedDays e leaveType start s = sum_where lv_days (\<lambda>x. lv_company x = em_company e \<and> lv_employee x = em_id e \<and>
     lv_type x = leaveType \<and> lv_status x = ''APPROVED'' \<and> inYearOf start (lv_start x)) (db_leaves s)"

definition exceedsQuota :: "int \<Rightarrow> rat option \<Rightarrow> bool" where
  "exceedsQuota days quota \<longleftrightarrow> (case quota of None \<Rightarrow> False | Some q \<Rightarrow> jless (double q) (double (of_int days)))"

definition policyOfCode :: "ident \<Rightarrow> string \<Rightarrow> 'b approvals_db_scheme \<Rightarrow> approval_policy option" where
  "policyOfCode c code s = find_first (\<lambda>x. apo_company x = c \<and> apo_code x = code \<and> apo_isActive x) (db_approvalPolicies s)"

text \<open>The approval beside the row; no expiry is set. The context is an object of the row's data, of which the texts of the dates are left out.\<close>

definition openApproval ::
    "employee \<Rightarrow> string \<Rightarrow> string \<Rightarrow> ident \<Rightarrow> (string \<times> json) list \<Rightarrow> auth_user \<Rightarrow> ('b approvals_db_scheme, ident) tx" where
  "openApproval e code entityType entity context user =
     bindT (getT (policyOfCode (em_company e) code)) (\<lambda>policy.
     bindT newIdT (\<lambda>i. bindT nowT (\<lambda>t.
     bindT (modT (\<lambda>s. s\<lparr>db_approvals := db_approvals s @ [\<lparr>aq_id = i, aq_policy = map_option apo_id policy, aq_company = em_company e,
       aq_branch = em_branch e, aq_entityType = entityType, aq_entity = identText entity, aq_requester = Some (us_sub user),
       aq_amount = None, aq_status = PENDING, aq_currentStep = 1, aq_context = Some (JObject context), aq_requestedAt = t,
       aq_expiresAt = None, aq_escalatedAt = None, aq_delegatedTo = None, aq_delegatedBy = None, aq_delegatedAt = None,
       aq_decidedAt = None\<rparr>]\<rparr>)) (\<lambda>_. returnT i))))"

definition employeeScope :: "employee \<Rightarrow> tenant_scope" where
  "employeeScope e = \<lparr>sc_company = em_company e, sc_branch = (case em_branch e of Some b \<Rightarrow> b | None \<Rightarrow> 0)\<rparr>"

definition recordLeave :: "employee \<Rightarrow> leave_dto \<Rightarrow> int \<Rightarrow> int \<Rightarrow> int \<Rightarrow> auth_user \<Rightarrow> ('b hr_db_scheme, leave) tx" where
  "recordLeave e dto start till days user =
     bindT newIdT (\<lambda>i.
     let row = \<lparr>lv_id = i, lv_company = em_company e, lv_employee = em_id e, lv_type = lvd_type dto, lv_start = start, lv_end = till,
                lv_days = days, lv_status = ''SUBMITTED'', lv_approval = None\<rparr>
     in bindT (modT (\<lambda>s. s\<lparr>db_leaves := db_leaves s @ [row]\<rparr>)) (\<lambda>_.
        bindT (openApproval e ''LEAVE_REQUEST'' ''LeaveRequest'' i [(''employeeId'', JString (identText (em_id e))),
          (''leaveTypeId'', JString (identText (lvd_type dto))), (''totalDays'', JNumber (double (of_int days)))] user) (\<lambda>a.
        bindT (modT (\<lambda>s. s\<lparr>db_leaves := update_many (\<lambda>x. lv_id x = i) (\<lambda>x. x\<lparr>lv_approval := Some a\<rparr>) (db_leaves s)\<rparr>)) (\<lambda>_.
        bindT (auditT (employeeScope e) user ''SUBMIT_LEAVE_REQUEST'' ''LeaveRequest'' (Some i)) (\<lambda>_.
        returnT (row\<lparr>lv_approval := Some a\<rparr>))))))"

definition submitLeaveTx :: "employee \<Rightarrow> leave_dto \<Rightarrow> int \<Rightarrow> int \<Rightarrow> int \<Rightarrow> auth_user \<Rightarrow> ('b hr_db_scheme, leave) tx" where
  "submitLeaveTx e dto start till days user =
     bindT (getT (\<lambda>s. find_first (\<lambda>x. lt_id x = lvd_type dto \<and> lt_company x = em_company e \<and> lt_isActive x) (db_leaveTypes s))) (\<lambda>found.
     case found of None \<Rightarrow> throwT (BadRequest ''Jenis cuti tidak tersedia.'')
   | Some lt \<Rightarrow>
       bindT (requireT (\<not> (lt_requiresDocument lt \<and> \<not> present (map_option trim (lvd_document dto))))
                (BadRequest ''Jenis cuti ini mewajibkan dokumen pendukung.'')) (\<lambda>_.
       bindT (getT (\<lambda>s. list_ex (leaveClash e start till) (db_leaves s))) (\<lambda>overlap.
       bindT (requireT (\<not> overlap) (Conflict ''Rentang cuti bertumpang tindih dengan pengajuan aktif lain.'')) (\<lambda>_.
       bindT (getT (usedDays e (lt_id lt) start)) (\<lambda>used.
       bindT (requireT (\<not> exceedsQuota (used + days) (lt_annualQuota lt)) (BadRequest ''Kuota tidak mencukupi.'')) (\<lambda>_.
       recordLeave e dto start till days user))))))"

definition submitLeave :: "leave_dto \<Rightarrow> auth_user \<Rightarrow> ('b hr_db_scheme, leave) svc" where
  "submitLeave dto user =
     bindS (byUserId user) (\<lambda>e.
     bindS (liftS (parseBusinessDate (lvd_start dto))) (\<lambda>start.
     bindS (liftS (parseBusinessDate (lvd_end dto))) (\<lambda>till.
     bindS (requireS (start \<le> till) (BadRequest ''Tanggal akhir cuti tidak boleh sebelum tanggal mulai.'')) (\<lambda>_.
     let days = inclusiveCalendarDays start till in
     bindS (requireS (0 < days \<and> days \<le> 366) (BadRequest ''Durasi cuti tidak valid.'')) (\<lambda>_.
     runTx (submitLeaveTx e dto start till days user))))))"

section \<open>Asking for overtime\<close>

definition overtimeClash :: "employee \<Rightarrow> int \<Rightarrow> int \<Rightarrow> overtime \<Rightarrow> bool" where
  "overtimeClash e start till x \<longleftrightarrow> ot_company x = em_company e \<and> ot_employee x = em_id e \<and> activeRequest (ot_status x) \<and>
     ot_start x < till \<and> start < ot_end x"

text \<open>\<open>Math.round\<close> of the minutes between two times: halves go up.\<close>

definition minutesBetween :: "int \<Rightarrow> int \<Rightarrow> int" where
  "minutesBetween start till = (2 * (till - start) + minuteMs) div (2 * minuteMs)"

definition submitOvertimeTx :: "employee \<Rightarrow> int \<Rightarrow> int \<Rightarrow> int \<Rightarrow> auth_user \<Rightarrow> ('b hr_db_scheme, overtime) tx" where
  "submitOvertimeTx e start till minutes user =
     bindT (getT (\<lambda>s. list_ex (overtimeClash e start till) (db_overtimes s))) (\<lambda>overlap.
     bindT (requireT (\<not> overlap) (Conflict ''Rentang lembur bertumpang tindih dengan pengajuan aktif lain.'')) (\<lambda>_.
     bindT newIdT (\<lambda>i.
     let row = \<lparr>ot_id = i, ot_company = em_company e, ot_employee = em_id e, ot_branch = em_branch e, ot_start = start, ot_end = till,
                ot_approvedMinutes = None, ot_status = ''SUBMITTED'', ot_approval = None\<rparr>
     in bindT (modT (\<lambda>s. s\<lparr>db_overtimes := db_overtimes s @ [row]\<rparr>)) (\<lambda>_.
        bindT (openApproval e ''OVERTIME_REQUEST'' ''OvertimeRequest'' i [(''employeeId'', JString (identText (em_id e))),
          (''requestedMinutes'', JNumber (double (of_int minutes)))] user) (\<lambda>a.
        bindT (modT (\<lambda>s. s\<lparr>db_overtimes := update_many (\<lambda>x. ot_id x = i) (\<lambda>x. x\<lparr>ot_approval := Some a\<rparr>) (db_overtimes s)\<rparr>)) (\<lambda>_.
        bindT (auditT (employeeScope e) user ''SUBMIT_OVERTIME_REQUEST'' ''OvertimeRequest'' (Some i)) (\<lambda>_.
        returnT (row\<lparr>ot_approval := Some a\<rparr>))))))))"

definition submitOvertime :: "overtime_dto \<Rightarrow> auth_user \<Rightarrow> ('b hr_db_scheme, overtime) svc" where
  "submitOvertime dto user =
     bindS (byUserId user) (\<lambda>e.
     bindS (liftS (parseBusinessDate (otd_start dto))) (\<lambda>start.
     bindS (liftS (parseBusinessDate (otd_end dto))) (\<lambda>till.
     let minutes = minutesBetween start till in
     bindS (requireS (0 < minutes \<and> minutes \<le> 1440) (BadRequest ''Durasi lembur harus lebih dari 0 dan maksimal 24 jam.'')) (\<lambda>_.
     runTx (submitOvertimeTx e start till minutes user)))))"

section \<open>Reviews\<close>

definition branchEmployeeIds :: "tenant_scope \<Rightarrow> 'b hr_db_scheme \<Rightarrow> ident list" where
  "branchEmployeeIds scope s =
     map em_id (filter (\<lambda>x. em_company x = sc_company scope \<and> em_branch x = Some (sc_branch scope)) (db_employees s))"

definition statusText :: "approval_status \<Rightarrow> string" where
  "statusText status = (case status of DRAFT \<Rightarrow> ''DRAFT'' | PENDING \<Rightarrow> ''PENDING'' | APPROVED \<Rightarrow> ''APPROVED''
     | REJECTED \<Rightarrow> ''REJECTED'' | CANCELLED \<Rightarrow> ''CANCELLED'' | EXPIRED \<Rightarrow> ''EXPIRED'')"

text \<open>The approval beside a reviewed row takes the reviewer's decision, whatever its policy asks for.\<close>

definition reviewApproval ::
    "tenant_scope \<Rightarrow> ident option \<Rightarrow> approval_status \<Rightarrow> auth_user \<Rightarrow> ('b approvals_db_scheme, unit) tx" where
  "reviewApproval scope approval status user = (case approval of None \<Rightarrow> returnT ()
   | Some a \<Rightarrow>
       bindT (getT (\<lambda>s. find_first (\<lambda>x. aq_id x = a \<and> aq_company x = sc_company scope \<and> aq_branch x = Some (sc_branch scope) \<and>
                aq_status x = PENDING) (db_approvals s))) (\<lambda>found. case found of
         None \<Rightarrow> returnT ()
       | Some q \<Rightarrow>
           bindT newIdT (\<lambda>n. bindT nowT (\<lambda>t.
           bindT (modT (\<lambda>s. s\<lparr>db_decisions := db_decisions s @ [\<lparr>dn_id = n, dn_request = aq_id q, dn_step = aq_currentStep q,
                    dn_approver = us_sub user, dn_status = status, dn_decidedAt = t\<rparr>]\<rparr>)) (\<lambda>_.
           modT (\<lambda>s. s\<lparr>db_approvals := update_many (\<lambda>x. aq_id x = aq_id q)
             (\<lambda>x. x\<lparr>aq_status := status, aq_decidedAt := Some t\<rparr>) (db_approvals s)\<rparr>))))))"

definition reviewLeaveTx :: "tenant_scope \<Rightarrow> ident \<Rightarrow> review_dto \<Rightarrow> auth_user \<Rightarrow> ('b hr_db_scheme, leave) tx" where
  "reviewLeaveTx scope i dto user =
     bindT (getT (branchEmployeeIds scope)) (\<lambda>employees.
     bindT (getT (\<lambda>s. find_first (\<lambda>x. lv_id x = i \<and> lv_company x = sc_company scope \<and> List.member employees (lv_employee x))
              (db_leaves s))) (\<lambda>found. case found of
       None \<Rightarrow> denyT scope user ''LeaveRequest'' (Some i)
     | Some r \<Rightarrow>
         let f = (\<lambda>x. x\<lparr>lv_status := statusText (rvd_status dto)\<rparr>) in
         bindT (requireT (lv_status r = ''SUBMITTED'') (BadRequest ''Pengajuan cuti sudah diputuskan.'')) (\<lambda>_.
         bindT (modT (\<lambda>s. s\<lparr>db_leaves := update_many (\<lambda>x. lv_id x = i) f (db_leaves s)\<rparr>)) (\<lambda>_.
         bindT (reviewApproval scope (lv_approval r) (rvd_status dto) user) (\<lambda>_.
         bindT (auditT scope user (if rvd_status dto = APPROVED then ''APPROVE_LEAVE_REQUEST'' else ''REJECT_LEAVE_REQUEST'')
                  ''LeaveRequest'' (Some i)) (\<lambda>_.
         returnT (f r)))))))"

definition reviewLeave :: "ident \<Rightarrow> review_dto \<Rightarrow> auth_user \<Rightarrow> ('b hr_db_scheme, leave) svc" where
  "reviewLeave i dto user =
     bindS (liftS (requireTenantScope user)) (\<lambda>scope. runTx (reviewLeaveTx scope i dto user))"

definition reviewOvertimeTx :: "tenant_scope \<Rightarrow> ident \<Rightarrow> review_dto \<Rightarrow> auth_user \<Rightarrow> ('b hr_db_scheme, overtime) tx" where
  "reviewOvertimeTx scope i dto user =
     bindT (getT (\<lambda>s. find_first (\<lambda>x. ot_id x = i \<and> ot_company x = sc_company scope \<and> ot_branch x = Some (sc_branch scope))
              (db_overtimes s))) (\<lambda>found. case found of
       None \<Rightarrow> denyT scope user ''OvertimeRequest'' (Some i)
     | Some r \<Rightarrow>
         let requested = minutesBetween (ot_start r) (ot_end r);
             approved = (if rvd_status dto = APPROVED then Some (orElse (rvd_approvedMinutes dto) requested) else None);
             f = (\<lambda>x. x\<lparr>ot_status := statusText (rvd_status dto), ot_approvedMinutes := approved\<rparr>) in
         bindT (requireT (ot_status r = ''SUBMITTED'') (BadRequest ''Pengajuan lembur sudah diputuskan.'')) (\<lambda>_.
         bindT (requireT (case approved of None \<Rightarrow> True | Some n \<Rightarrow> 0 \<le> n \<and> n \<le> requested)
                  (BadRequest ''Menit lembur yang disetujui tidak boleh melebihi durasi pengajuan.'')) (\<lambda>_.
         bindT (modT (\<lambda>s. s\<lparr>db_overtimes := update_many (\<lambda>x. ot_id x = i) f (db_overtimes s)\<rparr>)) (\<lambda>_.
         bindT (reviewApproval scope (ot_approval r) (rvd_status dto) user) (\<lambda>_.
         bindT (auditT scope user (if rvd_status dto = APPROVED then ''APPROVE_OVERTIME_REQUEST'' else ''REJECT_OVERTIME_REQUEST'')
                  ''OvertimeRequest'' (Some i)) (\<lambda>_.
         returnT (f r)))))))"

definition reviewOvertime :: "ident \<Rightarrow> review_dto \<Rightarrow> auth_user \<Rightarrow> ('b hr_db_scheme, overtime) svc" where
  "reviewOvertime i dto user =
     bindS (liftS (requireTenantScope user)) (\<lambda>scope. runTx (reviewOvertimeTx scope i dto user))"

end
