(* ===== verification/ApprovalProperties.thy ===== *)
theory ApprovalProperties
  imports PurchaseRequests LeaveRequests ProcurementProperties
begin

text \<open>
  The invariant of approvals and of the purchase requests that wait for them, kept by every service that writes
  them: an approved request was approved at every step of its policy by somebody other than its requester, and an
  approved or converted purchase request has an approved approval of its own.
\<close>

section \<open>The invariant\<close>

type_synonym approvals = "approval_policy list \<times> approval_request list \<times> approval_decision list \<times> ident list \<times> purchase_request list"

text \<open>The approvals that leave and overtime requests point to.\<close>

definition links :: "'b hr_db_scheme \<Rightarrow> ident list" where
  "links s = List.map_filter lv_approval (db_leaves s) @ List.map_filter ot_approval (db_overtimes s)"

definition board :: "'b hr_db_scheme \<Rightarrow> approvals" where
  "board s = (db_approvalPolicies s, db_approvals s, db_decisions s, links s, db_requests s)"

definition ofLeave :: "approval_request \<Rightarrow> bool" where
  "ofLeave q \<longleftrightarrow> aq_entityType q = ''LeaveRequest'' \<or> aq_entityType q = ''OvertimeRequest''"

definition policyRow :: "approval_policy list \<Rightarrow> approval_request \<Rightarrow> approval_policy option" where
  "policyRow policies q = (case aq_policy q of None \<Rightarrow> None
     | Some p \<Rightarrow> find_first (\<lambda>x. apo_id x = p \<and> apo_company x = aq_company q \<and> apo_isActive x) policies)"

text \<open>Somebody else has approved the step.\<close>

definition approvedAt :: "approval_decision list \<Rightarrow> approval_request \<Rightarrow> int \<Rightarrow> bool" where
  "approvedAt ds q k \<longleftrightarrow> (\<exists>d \<in> set ds. dn_request d = aq_id q \<and> dn_step d = k \<and> dn_status d = APPROVED \<and>
     aq_requester q \<noteq> Some (dn_approver d))"

definition approvalOk :: "approval_policy list \<Rightarrow> approval_decision list \<Rightarrow> ident \<Rightarrow> approval_request \<Rightarrow> bool" where
  "approvalOk ps ds n q \<longleftrightarrow> aq_id q < n \<and> 1 \<le> aq_currentStep q \<and> (\<forall>p. aq_policy q = Some p \<longrightarrow> p < n) \<and>
     (\<not> ofLeave q \<longrightarrow> (\<forall>k. 1 \<le> k \<and> k < aq_currentStep q \<longrightarrow> approvedAt ds q k) \<and>
        (aq_status q = APPROVED \<longrightarrow> approvedAt ds q (aq_currentStep q) \<and>
           int (length (approvalSteps (policyRow ps q))) \<le> aq_currentStep q))"

definition requestStatuses :: "string list" where
  "requestStatuses = [''DRAFT'', ''SUBMITTING'', ''PENDING_APPROVAL'', ''APPROVED'', ''REJECTED'', ''CANCELLED'', ''CONVERTED'']"

definition approvalOf :: "approval_request list \<Rightarrow> purchase_request \<Rightarrow> approval_request \<Rightarrow> bool" where
  "approvalOf qs x q \<longleftrightarrow> q \<in> set qs \<and> pq_approvalRequest x = Some (aq_id q) \<and> aq_entityType q = ''PurchaseRequest'' \<and>
     aq_entity q = identText (pq_id x)"

definition requestOk :: "approval_request list \<Rightarrow> purchase_request \<Rightarrow> bool" where
  "requestOk qs x \<longleftrightarrow> pq_status x \<in> set requestStatuses \<and>
     (pq_approvalRequest x \<noteq> None \<longrightarrow> (\<exists>q. approvalOf qs x q)) \<and>
     (pq_status x \<in> {''PENDING_APPROVAL'', ''REJECTED''} \<longrightarrow> pq_approvalRequest x \<noteq> None) \<and>
     (pq_status x \<in> {''APPROVED'', ''CONVERTED''} \<longrightarrow> (\<exists>q. approvalOf qs x q \<and> aq_status q = APPROVED)) \<and>
     (pq_status x = ''CONVERTED'' \<longleftrightarrow> pq_order x \<noteq> None)"

definition ordersUnique :: "purchase_request list \<Rightarrow> bool" where
  "ordersUnique xs \<longleftrightarrow> (\<forall>x \<in> set xs. \<forall>y \<in> set xs. pq_order x \<noteq> None \<and> pq_order x = pq_order y \<longrightarrow> pq_id x = pq_id y)"

definition boardOk :: "approvals \<Rightarrow> ident \<Rightarrow> bool" where
  "boardOk = (\<lambda>(ps, qs, ds, ls, xs) n.
     (\<forall>p \<in> set ps. apo_id p < n) \<and> distinct (map aq_id qs) \<and> (\<forall>q \<in> set qs. approvalOk ps ds n q) \<and>
     (\<forall>a \<in> set ls. a < n \<and> (\<forall>q \<in> set qs. aq_id q = a \<longrightarrow> ofLeave q)) \<and>
     distinct (map pq_id xs) \<and> (\<forall>x \<in> set xs. pq_id x < n \<and> requestOk qs x) \<and> ordersUnique xs)"

abbreviation boardKept :: "ident \<Rightarrow> 'b hr_db_scheme \<Rightarrow> bool" where
  "boardKept m \<equiv> (\<lambda>s. boardOk (board s) (db_nextId s) \<and> m \<le> db_nextId s)"

section \<open>Changes of the tables\<close>

lemma boardOkI:
  assumes "\<forall>p \<in> set ps. apo_id p < n" and "distinct (map aq_id qs)" and "\<And>q. q \<in> set qs \<Longrightarrow> approvalOk ps ds n q"
    and "\<And>a q. a \<in> set ls \<Longrightarrow> a < n" and "\<And>q. q \<in> set qs \<Longrightarrow> aq_id q \<in> set ls \<Longrightarrow> ofLeave q"
    and "distinct (map pq_id xs)" and "\<And>x. x \<in> set xs \<Longrightarrow> pq_id x < n \<and> requestOk qs x" and "ordersUnique xs"
  shows "boardOk (ps, qs, ds, ls, xs) n"
  using assms by (auto simp: boardOk_def)

lemma approvalOk_mono: "approvalOk ps ds n q \<Longrightarrow> n \<le> n' \<Longrightarrow> approvalOk ps ds n' q"
  by (auto simp: approvalOk_def)

lemma boardOk_mono: "boardOk b n \<Longrightarrow> n \<le> n' \<Longrightarrow> boardOk b n'"
  by (cases b) (fastforce simp: boardOk_def intro: approvalOk_mono)

text \<open>The approvals grow, and a decided one stays as it is.\<close>

definition evolves :: "approval_request list \<Rightarrow> approval_request list \<Rightarrow> bool" where
  "evolves qs qs' \<longleftrightarrow> (\<forall>q \<in> set qs. \<exists>q' \<in> set qs'. aq_id q' = aq_id q \<and> aq_entityType q' = aq_entityType q \<and>
     aq_entity q' = aq_entity q \<and> (aq_status q \<noteq> PENDING \<longrightarrow> aq_status q' = aq_status q))"

lemma approvalOf_evolves: "evolves qs qs' \<Longrightarrow> approvalOf qs x q \<Longrightarrow>
    \<exists>q'. approvalOf qs' x q' \<and> (aq_status q \<noteq> PENDING \<longrightarrow> aq_status q' = aq_status q)"
  by (fastforce simp: evolves_def approvalOf_def)

lemma requestOk_evolves: "evolves qs qs' \<Longrightarrow> requestOk qs x \<Longrightarrow> requestOk qs' x"
proof -
  assume e: "evolves qs qs'" and ok: "requestOk qs x"
  have "pq_approvalRequest x \<noteq> None \<longrightarrow> (\<exists>q. approvalOf qs' x q)"
    using ok approvalOf_evolves [OF e] unfolding requestOk_def by blast
  moreover have "\<exists>q. approvalOf qs' x q \<and> aq_status q = APPROVED" if "approvalOf qs x q" "aq_status q = APPROVED" for q
    using approvalOf_evolves [OF e that(1)] that(2) by auto
  ultimately show ?thesis using ok unfolding requestOk_def by blast
qed

lemma evolves_append: "evolves qs (qs @ rows)"
  by (auto simp: evolves_def)

lemma evolves_update:
  assumes "\<And>q. q \<in> set qs \<Longrightarrow> P q \<Longrightarrow> aq_id (f q) = aq_id q \<and> aq_entityType (f q) = aq_entityType q \<and> aq_entity (f q) = aq_entity q \<and>
    (aq_status q \<noteq> PENDING \<longrightarrow> aq_status (f q) = aq_status q)"
  shows "evolves qs (update_many P f qs)"
  unfolding evolves_def
proof
  fix q
  assume "q \<in> set qs"
  then show "\<exists>q' \<in> set (update_many P f qs). aq_id q' = aq_id q \<and> aq_entityType q' = aq_entityType q \<and>
      aq_entity q' = aq_entity q \<and> (aq_status q \<noteq> PENDING \<longrightarrow> aq_status q' = aq_status q)"
    using assms [of q] by (intro bexI [of _ "if P q then f q else q"]) (auto simp: in_update_many)
qed

lemma newApproval_kept:
  assumes "boardOk (ps, qs, ds, ls, xs) n" and "aq_id q = n" and "aq_currentStep q = 1" and "aq_status q = PENDING"
    and "\<And>p. aq_policy q = Some p \<Longrightarrow> p < n"
  shows "boardOk (ps, qs @ [q], ds, ls, xs) (Suc n)"
proof -
  have b: "boardOk (ps, qs, ds, ls, xs) (Suc n)" by (rule boardOk_mono [OF assms(1)]) simp
  show ?thesis
  proof (rule boardOkI)
    show "distinct (map aq_id (qs @ [q]))" using assms(1,2) by (auto simp: boardOk_def approvalOk_def)
    show "approvalOk ps ds (Suc n) r" if "r \<in> set (qs @ [q])" for r
    proof (cases "r = q")
      case True
      then show ?thesis using assms(2-5) by (auto simp: approvalOk_def intro: less_SucI)
    next
      case False
      then show ?thesis using b that by (auto simp: boardOk_def)
    qed
    show "ofLeave r" if "r \<in> set (qs @ [q])" "aq_id r \<in> set ls" for r
      using assms(1,2) that by (auto simp: boardOk_def)
    show "pq_id x < Suc n \<and> requestOk (qs @ [q]) x" if "x \<in> set xs" for x
      using b that requestOk_evolves [OF evolves_append] by (auto simp: boardOk_def)
  qed (use b in \<open>auto simp: boardOk_def\<close>)
qed

text \<open>A change of approval rows that keeps what a row is about, and of decisions that only adds to them.\<close>

lemma changedApprovals_kept:
  assumes "boardOk (ps, qs, ds, ls, xs) n"
    and same: "\<And>q. q \<in> set qs \<Longrightarrow> P q \<Longrightarrow> aq_id (f q) = aq_id q \<and> aq_entityType (f q) = aq_entityType q \<and> aq_entity (f q) = aq_entity q \<and>
      (aq_status q \<noteq> PENDING \<longrightarrow> aq_status (f q) = aq_status q)"
    and row: "\<And>q. q \<in> set qs \<Longrightarrow> P q \<Longrightarrow> approvalOk ps (ds @ new) n q \<Longrightarrow> approvalOk ps (ds @ new) n (f q)"
  shows "boardOk (ps, update_many P f qs, ds @ new, ls, xs) n"
proof (rule boardOkI)
  have "map aq_id (update_many P f qs) = map aq_id qs" using same by (auto simp: update_many_def)
  then show "distinct (map aq_id (update_many P f qs))" using assms(1) by (simp add: boardOk_def)
  have more: "approvalOk ps ds n q \<Longrightarrow> approvalOk ps (ds @ new) n q" for q
    by (auto simp: approvalOk_def approvedAt_def)
  show "approvalOk ps (ds @ new) n q" if "q \<in> set (update_many P f qs)" for q
    using that assms(1) more row by (auto simp: in_update_many boardOk_def split: if_splits)
  show "ofLeave q" if "q \<in> set (update_many P f qs)" "aq_id q \<in> set ls" for q
    using that assms(1) same by (force simp: in_update_many boardOk_def ofLeave_def split: if_splits)
  show "pq_id x < n \<and> requestOk (update_many P f qs) x" if "x \<in> set xs" for x
    using that assms(1) requestOk_evolves [OF evolves_update [OF same]] by (auto simp: boardOk_def)
qed (use assms(1) in \<open>auto simp: boardOk_def\<close>)

lemma find_first_append_other: "\<not> P x \<Longrightarrow> find_first P (xs @ [x]) = find_first P xs"
  by (induction xs) (auto simp: find_first_def)

lemma newPolicy_kept:
  assumes "boardOk (ps, qs, ds, ls, xs) n" and "apo_id p = n"
  shows "boardOk (ps @ [p], qs, ds, ls, xs) (Suc n)"
proof -
  have b: "boardOk (ps, qs, ds, ls, xs) (Suc n)" by (rule boardOk_mono [OF assms(1)]) simp
  have "policyRow (ps @ [p]) q = policyRow ps q" if "q \<in> set qs" for q
  proof (cases "aq_policy q")
    case (Some i)
    then have "apo_id p \<noteq> i" using assms that by (auto simp: boardOk_def approvalOk_def)
    then show ?thesis using Some by (simp add: policyRow_def find_first_append_other)
  qed (simp add: policyRow_def)
  then have "approvalOk (ps @ [p]) ds (Suc n) q = approvalOk ps ds (Suc n) q" if "q \<in> set qs" for q
    using that by (simp add: approvalOk_def)
  then show ?thesis using b assms by (auto simp: boardOk_def)
qed

lemma newLink_kept:
  assumes "boardOk (ps, qs, ds, ls, xs) n" and "\<forall>a \<in> set ls'. a \<in> set ls \<or> (a < n \<and> (\<forall>q \<in> set qs. aq_id q = a \<longrightarrow> ofLeave q))"
  shows "boardOk (ps, qs, ds, ls', xs) n"
  using assms by (fastforce simp: boardOk_def)

lemma newRequest_kept:
  assumes "boardOk (ps, qs, ds, ls, xs) n" and "pq_id x = n" and "pq_status x = ''DRAFT''" and "pq_approvalRequest x = None" and "pq_order x = None"
  shows "boardOk (ps, qs, ds, ls, xs @ [x]) (Suc n)"
proof (rule boardOkI)
  have b: "boardOk (ps, qs, ds, ls, xs) (Suc n)" by (rule boardOk_mono [OF assms(1)]) simp
  note parts = b [unfolded boardOk_def prod.case]
  show "\<forall>p \<in> set ps. apo_id p < Suc n" "distinct (map aq_id qs)" using parts by blast+
  show "approvalOk ps ds (Suc n) q" if "q \<in> set qs" for q using parts that by blast
  show "a < Suc n" if "a \<in> set ls" for a using parts that by blast
  show "ofLeave q" if "q \<in> set qs" "aq_id q \<in> set ls" for q using parts that by blast
  have "pq_id x \<notin> pq_id ` set xs" using assms(1,2) by (auto simp: boardOk_def)
  then show "distinct (map pq_id (xs @ [x]))" using parts by simp
  have new: "requestOk qs x" using assms(3-5) by (simp add: requestOk_def requestStatuses_def)
  have "\<forall>y \<in> set xs. pq_id y < Suc n \<and> requestOk qs y" using parts by blast
  then show "pq_id y < Suc n \<and> requestOk qs y" if "y \<in> set (xs @ [x])" for y
    using that new assms(2) by auto
  have "ordersUnique xs" using parts by blast
  then show "ordersUnique (xs @ [x])" using assms(5) unfolding ordersUnique_def set_append by (metis UnE empty_iff insert_iff list.set(1) list.set(2))
qed

lemma changedRequests_kept:
  assumes "boardOk (ps, qs, ds, ls, xs) n"
    and same: "\<And>x. x \<in> set xs \<Longrightarrow> P x \<Longrightarrow> pq_id (f x) = pq_id x"
    and row: "\<And>x. x \<in> set xs \<Longrightarrow> P x \<Longrightarrow> requestOk qs x \<Longrightarrow> requestOk qs (f x)"
    and orders: "ordersUnique (update_many P f xs)"
  shows "boardOk (ps, qs, ds, ls, update_many P f xs) n"
proof (rule boardOkI)
  have "map pq_id (update_many P f xs) = map pq_id xs" using same by (auto simp: update_many_def)
  then show "distinct (map pq_id (update_many P f xs))" using assms(1) by (simp add: boardOk_def)
  show "pq_id x < n \<and> requestOk qs x" if "x \<in> set (update_many P f xs)" for x
    using that assms(1) same row by (auto simp: in_update_many boardOk_def split: if_splits)
qed (use assms(1) orders in \<open>auto simp: boardOk_def\<close>)

lemma ordersUnique_update:
  assumes "ordersUnique xs" and "\<And>x. P x \<Longrightarrow> pq_id (f x) = pq_id x \<and> pq_order (f x) = pq_order x"
  shows "ordersUnique (update_many P f xs)"
proof -
  have "map (\<lambda>x. (pq_id x, pq_order x)) (update_many P f xs) = map (\<lambda>x. (pq_id x, pq_order x)) xs"
    using assms(2) by (auto simp: update_many_def)
  then have img: "(\<lambda>x. (pq_id x, pq_order x)) ` set (update_many P f xs) = (\<lambda>x. (pq_id x, pq_order x)) ` set xs"
    by (metis list.set_map)
  have old: "\<exists>y \<in> set xs. pq_id y = pq_id x \<and> pq_order y = pq_order x" if "x \<in> set (update_many P f xs)" for x
  proof -
    have "(pq_id x, pq_order x) \<in> (\<lambda>x. (pq_id x, pq_order x)) ` set xs"
      unfolding img [symmetric] using that by (rule imageI)
    then show ?thesis by auto
  qed
  show ?thesis
    unfolding ordersUnique_def
  proof (intro ballI impI)
    fix x y
    assume xy: "x \<in> set (update_many P f xs)" "y \<in> set (update_many P f xs)" "pq_order x \<noteq> None \<and> pq_order x = pq_order y"
    obtain x' y' where "x' \<in> set xs" "pq_id x' = pq_id x" "pq_order x' = pq_order x" "y' \<in> set xs" "pq_id y' = pq_id y" "pq_order y' = pq_order y"
      using old [OF xy(1)] old [OF xy(2)] by blast
    then show "pq_id x = pq_id y" using assms(1) xy(3) by (metis ordersUnique_def)
  qed
qed


section \<open>What the other parts leave alone\<close>

lemma board_frames [simp]: "board (s\<lparr>db_nextId := a1\<rparr>) = board s" "board (s\<lparr>db_numbering := a2\<rparr>) = board s"
    "board (s\<lparr>db_receipts := a3\<rparr>) = board s" "board (s\<lparr>db_audits := a4\<rparr>) = board s" "board (s\<lparr>db_outbox := a5\<rparr>) = board s"
    "board (s\<lparr>db_movements := a6\<rparr>) = board s" "board (s\<lparr>db_batches := a7\<rparr>) = board s" "board (s\<lparr>db_serials := a8\<rparr>) = board s"
    "board (s\<lparr>db_events := a9\<rparr>) = board s" "board (s\<lparr>db_journals := b1\<rparr>) = board s" "board (s\<lparr>db_postings := b2\<rparr>) = board s"
    "board (s\<lparr>db_taxTransactions := b3\<rparr>) = board s" "board (s\<lparr>db_orders := b4\<rparr>) = board s" "board (s\<lparr>db_orderItems := b5\<rparr>) = board s"
    "board (s\<lparr>db_notifications := b6\<rparr>) = board s" "board (s\<lparr>db_requestItems := b7\<rparr>) = board s"
  by (simp_all add: board_def links_def)

interpretation board_frame: bystander "\<lambda>s. J (board s) \<and> n \<le> db_nextId s" for J :: "approvals \<Rightarrow> bool" and n :: ident
  by unfold_locales simp_all

interpretation kept_frame: bystander "boardKept m" for m :: ident
  by unfold_locales (simp_all, metis boardOk_mono lessI less_imp_le)

lemma newRow_keeps:
  assumes "\<And>s. boardKept m s \<Longrightarrow> boardKept m (f (db_nextId s) (s\<lparr>db_nextId := Suc (db_nextId s)\<rparr>))"
    and "\<And>i. keeps (boardKept m) (k i)"
  shows "keeps (boardKept m) (bindT newIdT (\<lambda>i. bindT (modT (f i)) (\<lambda>_. k i)))"
proof (rule keepsI)
  fix s x s'
  assume s: "boardKept m s" and run: "bindT newIdT (\<lambda>i. bindT (modT (f i)) (\<lambda>_. k i)) s = Inr (x, s')"
  then have "k (db_nextId s) (f (db_nextId s) (s\<lparr>db_nextId := Suc (db_nextId s)\<rparr>)) = Inr (x, s')"
    by (simp add: bindT_Inr newIdT_Inr modT_Inr)
  then show "boardKept m s'" by (rule keepsD [OF assms(2)]) (rule assms(1) [OF s])
qed

text \<open>Ordering leaves the board as it is.\<close>

lemma once_board [keeps_rules]: "keeps (\<lambda>s. J (board s) \<and> n \<le> db_nextId s) work \<Longrightarrow> keeps (\<lambda>s. J (board s) \<and> n \<le> db_nextId s) (onceT opts work)"
  unfolding onceT_def by (intro keeps_rules) (auto split: begin_result.split intro!: keeps_rules)

lemma createOrder_board: "keepsS (\<lambda>s. J (board s) \<and> n \<le> db_nextId s) (createOrder dec digest dto user)"
  unfolding createOrder_def orderSupplier_def createOrderTx_def addOrderItems_def Let_def
  by (intro keeps_rules; rule keeps_frame; simp)

section \<open>Policies and new approvals\<close>

lemma newPolicyRow:
  "boardKept m s \<Longrightarrow> apo_id p = db_nextId s \<Longrightarrow> boardKept m (s\<lparr>db_nextId := Suc (db_nextId s), db_approvalPolicies := db_approvalPolicies s @ [p]\<rparr>)"
  using newPolicy_kept [of _ _ _ _ _ "db_nextId s" p] by (simp add: board_def links_def)

lemma createApprovalPolicy_keeps: "keepsS (boardKept m) (createApprovalPolicy dto user)"
proof -
  have "keeps (boardKept m) (bindT newIdT (\<lambda>i. bindT (modT (\<lambda>s. s\<lparr>db_approvalPolicies := db_approvalPolicies s @ [p i]\<rparr>)) (\<lambda>_. k i)))"
    if "\<And>i. apo_id (p i) = i" "\<And>i. keeps (boardKept m) (k i)" for p :: "ident \<Rightarrow> approval_policy" and k :: "ident \<Rightarrow> ('b hr_db_scheme, approval_policy) tx"
    by (rule newRow_keeps) (use newPolicyRow that in auto)
  note new = this
  show ?thesis unfolding createApprovalPolicy_def Let_def
    by (intro keepsS_bind keepsS_lift keepsS_run keeps_bind [OF keeps_get] keeps_bind [OF keeps_require] keeps_rules new) simp_all
qed

lemma createApprovalTx_effect:
  assumes "createApprovalTx scope dto policy user s = Inr (q, s')"
  shows "board s' = (db_approvalPolicies s, db_approvals s @ [q], db_decisions s, links s, db_requests s) \<and>
    db_nextId s' = Suc (db_nextId s) \<and> q = newApproval scope dto policy user (db_nextId s) (db_now s)"
  using assms by (auto simp: createApprovalTx_def tx_Inr db_Inr Let_def board_def links_def)

lemma boardOk_board: "boardOk (board s) n = boardOk (db_approvalPolicies s, db_approvals s, db_decisions s, links s, db_requests s) n"
  by (simp add: board_def)

text \<open>A successful request is on the board and asks for what it was asked to.\<close>

definition asked :: "string \<Rightarrow> string \<Rightarrow> approval_request \<Rightarrow> 'b hr_db_scheme \<Rightarrow> bool" where
  "asked t e q s \<longleftrightarrow> q \<in> set (db_approvals s) \<and> aq_entityType q = t \<and> aq_entity q = e"

lemma createApprovalRequest_result:
  assumes "createApprovalRequest dto user s = (r, s')" and "boardKept m s"
  shows "boardKept m s' \<and> db_requests s' = db_requests s \<and>
    (\<forall>q. r = Inr q \<longrightarrow> asked (aqd_entityType dto) (aqd_entity dto) q s' \<and> aq_requester q = Some (us_sub user) \<and> aq_policy q = aqd_policy dto)"
proof (cases r)
  case (Inl e)
  have "db_approvals s' = db_approvals s \<and> board s' = board s \<and> db_nextId s' = db_nextId s"
    using assms(1) Inl by (auto simp: createApprovalRequest_def svc_defs liftS_def assertRequestedScope_def denyS_def auditS_def
        auditT_def tx_defs createApprovalTx_def bindT_def newIdT_def nowT_def Let_def split: sum.splits option.splits if_splits)
  then show ?thesis using assms(2) Inl by (simp add: board_def)
next
  case (Inr q)
  then obtain scope where scope: "requireTenantScope user = Inr scope"
    using assms(1) by (auto simp: createApprovalRequest_def svc_Inr liftS_def split: sum.splits)
  have c: "createApprovalTx scope dto (policyOf scope (aqd_policy dto) s) user s = Inr (q, s')"
    and p: "aqd_policy dto = None \<or> policyOf scope (aqd_policy dto) s \<noteq> None"
    using assms(1) Inr scope by (auto simp: createApprovalRequest_def svc_Inr liftS_def assertRequestedScope_def denyS_def
        split: option.splits if_splits)
  have "i < db_nextId s" if "aqd_policy dto = Some i" for i
  proof -
    have "\<exists>x. activePolicy scope i s = Some x" using p that by (auto simp: policyOf_def)
    then obtain x where "x \<in> set (db_approvalPolicies s)" "apo_id x = i" using find_first_Some by (fastforce simp: activePolicy_def)
    then show ?thesis using assms(2) by (auto simp: boardOk_def board_def)
  qed
  then have "boardOk (board s') (Suc (db_nextId s))"
    using createApprovalTx_effect [OF c] newApproval_kept [of _ _ _ _ _ "db_nextId s" q] assms(2)
    by (simp add: newApproval_def board_def)
  then show ?thesis using createApprovalTx_effect [OF c] assms(2) Inr by (auto simp: asked_def newApproval_def board_def)
qed

lemma createApprovalRequest_keeps: "keepsS (boardKept m) (createApprovalRequest dto user)"
  unfolding keepsS_def using createApprovalRequest_result by blast

text \<open>The requests that automation rules open, too.\<close>

lemma runAutomation_keeps: "keepsS (boardKept m) (runAutomation dec job)"
  unfolding runAutomation_def
proof (rule keepsS_run, rule keepsI)
  fix s x s'
  assume s: "boardKept m s" and run: "automationTx dec job s = Inr (x, s')"
  define payload where "payload = objectOrEmpty (aj_payload job)"
  show "boardKept m s'"
  proof (cases "s' = s")
    case False
    with run obtain code where s': "s' = s\<lparr>db_nextId := Suc (db_nextId s), db_approvals := db_approvals s @
        [automatedApproval dec job (automationPolicy job code s) payload (db_nextId s) (db_now s)]\<rparr>"
      unfolding payload_def by (auto simp: automationTx_def tx_Inr db_Inr Let_def split: if_splits)
    let ?q = "automatedApproval dec job (automationPolicy job code s) payload (db_nextId s) (db_now s)"
    have "p < db_nextId s" if p: "aq_policy ?q = Some p" for p
    proof -
      obtain row where "automationPolicy job code s = Some row" "apo_id row = p" using p by (auto simp: automatedApproval_def)
      then have "row \<in> set (db_approvalPolicies s)" using find_first_Some by (fastforce simp: automationPolicy_def split: option.splits)
      then show ?thesis using s \<open>apo_id row = p\<close> by (auto simp: boardOk_def board_def)
    qed
    then have "boardOk (board s') (Suc (db_nextId s))"
      using newApproval_kept [of "db_approvalPolicies s" "db_approvals s" "db_decisions s" "links s" "db_requests s" "db_nextId s" ?q] s
      by (simp add: s' board_def links_def automatedApproval_def)
    then show ?thesis using s by (simp add: s')
  qed (use s in simp)
qed


section \<open>Decisions\<close>

lemma settleDecision_effect:
  assumes "settleDecision scope i q steps status user s = Inr (row, s')"
  shows "\<exists>d. dn_request d = i \<and> dn_step d = aq_currentStep q \<and> dn_approver d = us_sub user \<and> dn_status d = status \<and>
    board s' = (db_approvalPolicies s, update_many (\<lambda>x. aq_id x = i \<and> aq_status x = PENDING \<and> aq_currentStep x = aq_currentStep q)
       (decided steps status (db_now s)) (db_approvals s), db_decisions s @ [d], links s, db_requests s) \<and>
    db_nextId s' = Suc (db_nextId s) \<and> row \<in> set (db_approvals s') \<and> aq_id row = i"
proof -
  have "row \<in> set (db_approvals s') \<and> aq_id row = i"
    using assms find_first_Some [of "\<lambda>x. aq_id x = i"]
    by (auto simp: settleDecision_def tx_Inr db_Inr Let_def split: option.splits)
  then show ?thesis
    using assms by (auto simp: settleDecision_def tx_Inr db_Inr Let_def board_def links_def split: option.splits)
qed

lemma decided_same: "aq_id (decided steps st t q) = aq_id q \<and> aq_entityType (decided steps st t q) = aq_entityType q \<and>
    aq_entity (decided steps st t q) = aq_entity q \<and> aq_requester (decided steps st t q) = aq_requester q \<and>
    aq_policy (decided steps st t q) = aq_policy q \<and> aq_company (decided steps st t q) = aq_company q"
  by (simp add: decided_def Let_def)

lemma policyRow_same: "aq_policy q' = aq_policy q \<Longrightarrow> aq_company q' = aq_company q \<Longrightarrow> policyRow ps q' = policyRow ps q"
  by (simp add: policyRow_def split: option.split)

lemma approvedAt_same: "aq_id q' = aq_id q \<Longrightarrow> aq_requester q' = aq_requester q \<Longrightarrow> approvedAt ds q' k = approvedAt ds q k"
  by (simp add: approvedAt_def)

lemma decided_ok:
  assumes "approvalOk ps (ds @ [d]) n q" and "dn_request d = aq_id q" and "dn_step d = aq_currentStep q" and "dn_status d = st"
    and "aq_requester q \<noteq> Some (dn_approver d)" and "st = APPROVED \<or> st = REJECTED" and "steps = approvalSteps (policyRow ps q)"
    and "aq_status q = PENDING"
  shows "approvalOk ps (ds @ [d]) n (decided steps st t q)"
proof -
  let ?q = "decided steps st t q"
  note same = decided_same [of steps st t q]
  have at: "approvedAt (ds @ [d]) ?q k = approvedAt (ds @ [d]) q k" for k by (rule approvedAt_same) (simp_all add: same)
  have row: "policyRow ps ?q = policyRow ps q" by (rule policyRow_same) (simp_all add: same)
  have leave: "ofLeave ?q = ofLeave q" by (simp add: ofLeave_def same)
  have new: "approvedAt (ds @ [d]) q (aq_currentStep q)" if "st = APPROVED"
    using assms(2-5) that by (auto simp: approvedAt_def)
  consider "st = REJECTED" | "st = APPROVED" "int (length steps) \<le> aq_currentStep q" | "st = APPROVED" "\<not> int (length steps) \<le> aq_currentStep q"
    using assms(6) by blast
  then show ?thesis
  proof cases
    case 1
    then have "aq_status ?q = REJECTED" "aq_currentStep ?q = aq_currentStep q" by (simp_all add: decided_def Let_def)
    then show ?thesis using assms(1) same at leave by (simp add: approvalOk_def)
  next
    case 2
    then have "aq_status ?q = APPROVED" "aq_currentStep ?q = aq_currentStep q" by (simp_all add: decided_def Let_def)
    then show ?thesis using assms(1,7) same at leave row new 2 by (simp add: approvalOk_def)
  next
    case 3
    then have r: "aq_status ?q = PENDING" "aq_currentStep ?q = aq_currentStep q + 1" by (simp_all add: decided_def Let_def)
    have "approvedAt (ds @ [d]) q k" if "1 \<le> k" "k < aq_currentStep q + 1" "\<not> ofLeave q" for k
      using assms(1) new 3 that by (cases "k = aq_currentStep q") (auto simp: approvalOk_def)
    then show ?thesis using assms(1) r same at leave by (simp add: approvalOk_def)
  qed
qed

text \<open>What a committed decision has checked.\<close>

lemma decideApprovalTx_checked:
  assumes "decideApprovalTx scope requesters i status user s = Inr (row, s')"
  shows "\<exists>q. visibleApproval scope requesters i s = Some q \<and> checkDecidable q (us_sub (ap_user user)) (db_now s) = Inr () \<and>
    checkRole (stepOf (policyOf scope (aq_policy q) s) q) q user = Inr () \<and>
    \<not> list_ex (\<lambda>d. dn_request d = i \<and> dn_step d = aq_currentStep q \<and> dn_approver d = us_sub (ap_user user)) (db_decisions s) \<and>
    settleDecision scope i q (approvalSteps (policyOf scope (aq_policy q) s)) status (ap_user user) s = Inr (row, s')"
  using assms by (auto simp: decideApprovalTx_def tx_Inr db_Inr split: option.splits)

lemma visibleApproval_row: "visibleApproval scope requesters i s = Some q \<Longrightarrow> q \<in> set (db_approvals s) \<and> aq_id q = i \<and> aq_company q = sc_company scope"
  using find_first_Some by (fastforce simp: visibleApproval_def)

lemma row_of_id: "distinct (map f xs) \<Longrightarrow> x \<in> set xs \<Longrightarrow> y \<in> set xs \<Longrightarrow> f x = f y \<Longrightarrow> x = y"
  by (metis distinct_map inj_onD)

lemma decideApprovalTx_result:
  assumes "decideApprovalTx scope requesters i status user s = Inr (row, s')" and "boardKept m s"
    and "status = APPROVED \<or> status = REJECTED"
  shows "boardKept m s' \<and> db_requests s' = db_requests s \<and> row \<in> set (db_approvals s') \<and> aq_id row = i"
proof -
  obtain q where v: "visibleApproval scope requesters i s = Some q"
    and c: "checkDecidable q (us_sub (ap_user user)) (db_now s) = Inr ()"
    and e: "settleDecision scope i q (approvalSteps (policyOf scope (aq_policy q) s)) status (ap_user user) s = Inr (row, s')"
    using decideApprovalTx_checked [OF assms(1)] by blast
  let ?steps = "approvalSteps (policyOf scope (aq_policy q) s)"
  let ?open = "\<lambda>x. aq_id x = i \<and> aq_status x = PENDING \<and> aq_currentStep x = aq_currentStep q"
  obtain d where d: "dn_request d = i" "dn_step d = aq_currentStep q" "dn_approver d = us_sub (ap_user user)" "dn_status d = status"
    and b: "board s' = (db_approvalPolicies s, update_many ?open (decided ?steps status (db_now s)) (db_approvals s),
       db_decisions s @ [d], links s, db_requests s)" and n: "db_nextId s' = Suc (db_nextId s)"
    and row: "row \<in> set (db_approvals s')" "aq_id row = i"
    using settleDecision_effect [OF e] by blast
  have pending: "aq_status q = PENDING" and other: "aq_requester q \<noteq> Some (us_sub (ap_user user))"
    using c by (auto simp: checkDecidable_def bindE_Inr requireE_Inr)
  have ok: "boardOk (board s) (db_nextId s')" by (rule boardOk_mono [of _ "db_nextId s"]) (use assms(2) n in auto)
  have only: "x = q" if "x \<in> set (db_approvals s)" "?open x" for x
    using row_of_id [of aq_id "db_approvals s" x q] visibleApproval_row [OF v] ok that by (simp add: boardOk_def board_def)
  have steps: "?steps = approvalSteps (policyRow (db_approvalPolicies s) q)"
    using visibleApproval_row [OF v] by (simp add: policyOf_def policyRow_def activePolicy_def cong: option.case_cong)
  have "boardOk (board s') (db_nextId s')"
    unfolding b
  proof (rule changedApprovals_kept [OF ok [unfolded boardOk_board]])
    fix x
    assume x: "x \<in> set (db_approvals s)" "?open x"
    then show "aq_id (decided ?steps status (db_now s) x) = aq_id x \<and> aq_entityType (decided ?steps status (db_now s) x) = aq_entityType x \<and>
        aq_entity (decided ?steps status (db_now s) x) = aq_entity x \<and>
        (aq_status x \<noteq> PENDING \<longrightarrow> aq_status (decided ?steps status (db_now s) x) = aq_status x)"
      by (simp add: decided_same)
    assume "approvalOk (db_approvalPolicies s) (db_decisions s @ [d]) (db_nextId s') x"
    then show "approvalOk (db_approvalPolicies s) (db_decisions s @ [d]) (db_nextId s') (decided ?steps status (db_now s) x)"
      using only [OF x] x d other assms(3) steps pending by (intro decided_ok) simp_all
  qed
  then show ?thesis using row b n assms(2) by (simp add: board_def)
qed

lemma decideApproval_result:
  assumes "decideApproval i status user s = (r, s')" and "boardKept m s" and "status = APPROVED \<or> status = REJECTED"
  shows "boardKept m s' \<and> db_requests s' = db_requests s \<and> (\<forall>row. r = Inr row \<longrightarrow> row \<in> set (db_approvals s') \<and> aq_id row = i)"
proof (cases r)
  case (Inl e)
  then have "s' = s" using assms(1) by (auto simp: decideApproval_def svc_defs liftS_def split: sum.splits)
  then show ?thesis using assms(2) Inl by simp
next
  case (Inr row)
  then obtain scope requesters where "decideApprovalTx scope requesters i status user s = Inr (row, s')"
    using assms(1) by (auto simp: decideApproval_def svc_Inr liftS_def split: sum.splits)
  from decideApprovalTx_result [OF this assms(2,3)] show ?thesis using Inr by simp
qed

section \<open>Delegation and expiry\<close>

lemma unchangedRow_kept:
  assumes "boardKept m s" and "\<And>q. aq_id (f q) = aq_id q \<and> aq_entityType (f q) = aq_entityType q \<and> aq_entity (f q) = aq_entity q \<and>
      aq_requester (f q) = aq_requester q \<and> aq_policy (f q) = aq_policy q \<and> aq_company (f q) = aq_company q \<and> aq_currentStep (f q) = aq_currentStep q"
    and "\<And>q. P q \<Longrightarrow> aq_status (f q) = aq_status q \<or> (aq_status q = PENDING \<and> aq_status (f q) \<noteq> APPROVED)"
  shows "boardKept m (s\<lparr>db_approvals := update_many P f (db_approvals s)\<rparr>)"
proof -
  have "approvalOk ps ds n (f q)" if "approvalOk ps ds n q" "P q" for ps ds n q
  proof -
    have "approvedAt ds (f q) k = approvedAt ds q k" for k by (rule approvedAt_same) (simp_all add: assms(2))
    moreover have "policyRow ps (f q) = policyRow ps q" by (rule policyRow_same) (simp_all add: assms(2))
    moreover have "ofLeave (f q) = ofLeave q" by (simp add: ofLeave_def assms(2))
    ultimately show ?thesis using that(1) assms(2) assms(3) [OF that(2)] by (auto simp: approvalOk_def)
  qed
  moreover have "boardOk (db_approvalPolicies s, db_approvals s, db_decisions s, links s, db_requests s) (db_nextId s)"
    using assms(1) by (simp add: board_def)
  ultimately have "boardOk (db_approvalPolicies s, update_many P f (db_approvals s), db_decisions s @ [], links s, db_requests s) (db_nextId s)"
    using assms(2) by (intro changedApprovals_kept) (auto dest: assms(3))
  then show ?thesis using assms(1) by (simp add: board_def links_def)
qed

lemma delegateApproval_keeps: "keepsS (boardKept m) (delegateApproval i u user)"
  unfolding delegateApproval_def delegateApprovalTx_def Let_def
  by (intro keeps_rules keeps_mod) (rule unchangedRow_kept, simp_all)

lemma expireOneTx_keeps [keeps_rules]: "keeps (boardKept m) (expireOneTx i)"
proof -
  have notify: "keeps (boardKept m) (modT (\<lambda>s. s\<lparr>db_notifications := db_notifications s @ [x]\<rparr>))" for x
    by (rule keeps_frame) simp
  show ?thesis
    unfolding expireOneTx_def Let_def
    by (intro keeps_rules notify keeps_mod) (rule unchangedRow_kept; simp)+
qed

lemma expireAll_keeps [keeps_rules]: "keepsS (boardKept m) (expireAll is)"
proof (induction "is")
  case Nil
  then show ?case by (simp add: keepsS_return)
next
  case (Cons i js)
  show ?case
    unfolding keepsS_def
  proof (intro allI impI)
    fix s s' :: "'a hr_db_scheme" and r
    assume s: "boardKept m s" and run: "expireAll (i # js) s = (r, s')"
    have mid: "boardKept m (snd (runTx (expireOneTx i) s))"
      by (rule keepsSD [OF keepsS_run [OF expireOneTx_keeps] prod.collapse [symmetric] s])
    show "boardKept m s'" by (rule keepsSD [OF Cons _ mid]) (use run in simp)
  qed
qed

lemma sweep_keeps: "keepsS (boardKept m) processApprovalExpiries"
  unfolding processApprovalExpiries_def by (intro keeps_rules)

end
