(* ===== verification/RequestProperties.thy ===== *)
theory RequestProperties
  imports ApprovalProperties
begin

text \<open>
  Leave, overtime and purchase requests keep the invariant of the approvals.
\<close>

section \<open>Leave and overtime\<close>

lemma openApproval_effect:
  assumes "openApproval e code t entity context user s = Inr (a, s')"
  shows "\<exists>q. board s' = (db_approvalPolicies s, db_approvals s @ [q], db_decisions s, links s, db_requests s) \<and> aq_id q = a \<and>
    a = db_nextId s \<and> db_nextId s' = Suc (db_nextId s) \<and> aq_entityType q = t \<and> aq_currentStep q = 1 \<and> aq_status q = PENDING \<and>
    aq_requester q = Some (us_sub user) \<and> (\<forall>p. aq_policy q = Some p \<longrightarrow> p \<in> apo_id ` set (db_approvalPolicies s)) \<and>
    db_leaves s' = db_leaves s \<and> db_overtimes s' = db_overtimes s"
proof -
  have "p \<in> apo_id ` set (db_approvalPolicies s)" if "map_option apo_id (policyOfCode c code s) = Some p" for p c
    using that find_first_Some by (fastforce simp: policyOfCode_def)
  then show ?thesis using assms by (auto simp: openApproval_def tx_Inr db_Inr board_def links_def)
qed

lemma openApproval_kept:
  assumes "openApproval e code t entity context user s = Inr (a, s')" and "boardKept m s" and "t = ''LeaveRequest'' \<or> t = ''OvertimeRequest''"
  shows "boardKept m s' \<and> a < db_nextId s' \<and> (\<forall>q \<in> set (db_approvals s'). aq_id q = a \<longrightarrow> ofLeave q)"
proof -
  obtain q where q: "board s' = (db_approvalPolicies s, db_approvals s @ [q], db_decisions s, links s, db_requests s)" "aq_id q = a"
      "a = db_nextId s" "db_nextId s' = Suc (db_nextId s)" "aq_entityType q = t" "aq_currentStep q = 1" "aq_status q = PENDING"
      "\<And>p. aq_policy q = Some p \<Longrightarrow> p \<in> apo_id ` set (db_approvalPolicies s)"
    using openApproval_effect [OF assms(1)] by blast
  have b: "boardOk (db_approvalPolicies s, db_approvals s, db_decisions s, links s, db_requests s) (db_nextId s)"
    using assms(2) by (simp add: board_def)
  have "p < db_nextId s" if "aq_policy q = Some p" for p using q(8) [OF that] b by (auto simp: boardOk_def)
  then have "boardOk (board s') (db_nextId s')" unfolding q(1,4) using q by (intro newApproval_kept [OF b]) simp_all
  moreover have "\<forall>x \<in> set (db_approvals s). aq_id x < db_nextId s" using b by (auto simp: boardOk_def approvalOk_def)
  ultimately show ?thesis using q assms(2,3) by (auto simp: board_def ofLeave_def)
qed

lemma map_filter_links: "x \<in> set (List.map_filter f xs) \<longleftrightarrow> (\<exists>y \<in> set xs. f y = Some x)"
  by (induction xs) (auto simp: List.map_filter_simps split: option.splits)

lemma linked_subset:
  assumes "\<And>x. g (h x) = Some a"
  shows "set (List.map_filter g (update_many P h xs)) \<subseteq> insert a (set (List.map_filter g xs))"
proof
  fix i
  assume "i \<in> set (List.map_filter g (update_many P h xs))"
  then obtain x where "x \<in> set xs" "g (if P x then h x else x) = Some i" by (auto simp: map_filter_links in_update_many)
  then show "i \<in> insert a (set (List.map_filter g xs))" using assms [of x] by (auto simp: map_filter_links split: if_splits)
qed

lemma links_linked:
  "(\<And>x. lv_approval (h x) = Some a) \<Longrightarrow>
     set (links (s\<lparr>db_leaves := update_many P h (db_leaves s), db_audits := l\<rparr>)) \<subseteq> insert a (set (links s))"
  "(\<And>x. ot_approval (g x) = Some a) \<Longrightarrow>
     set (links (s\<lparr>db_overtimes := update_many Q g (db_overtimes s), db_audits := l\<rparr>)) \<subseteq> insert a (set (links s))"
  using linked_subset [of lv_approval h a P "db_leaves s"] linked_subset [of ot_approval g a Q "db_overtimes s"]
  by (simp_all add: links_def) blast+

lemma link_kept:
  assumes "boardKept m s" and "a < db_nextId s" and "\<forall>q \<in> set (db_approvals s). aq_id q = a \<longrightarrow> ofLeave q"
    and "board s' = (db_approvalPolicies s, db_approvals s, db_decisions s, links s', db_requests s)" and "db_nextId s' = db_nextId s"
    and "set (links s') \<subseteq> insert a (set (links s))"
  shows "boardKept m s'"
proof -
  have "boardOk (db_approvalPolicies s, db_approvals s, db_decisions s, links s, db_requests s) (db_nextId s)"
    using assms(1) by (simp add: board_def)
  then have "boardOk (board s') (db_nextId s')"
    unfolding assms(4,5) by (rule newLink_kept) (use assms(2,3,6) in blast)
  then show ?thesis using assms(1,5) by simp
qed

lemma recordLeave_keeps [keeps_rules]: "keeps (boardKept m) (recordLeave e dto start till days user)"
proof (rule keepsI)
  fix s x s'
  assume s: "boardKept m s" and run: "recordLeave e dto start till days user s = Inr (x, s')"
  let ?i = "db_nextId s"
  obtain row ctx a s1 audits where o: "openApproval e ''LEAVE_REQUEST'' ''LeaveRequest'' ?i ctx user (s\<lparr>db_nextId := Suc ?i, db_leaves := db_leaves s @ [row]\<rparr>) = Inr (a, s1)"
    and e: "s' = s1\<lparr>db_leaves := update_many (\<lambda>x. lv_id x = ?i) (\<lambda>x. x\<lparr>lv_approval := Some a\<rparr>) (db_leaves s1), db_audits := audits\<rparr>"
    and row: "lv_approval row = None"
    using run by (simp add: recordLeave_def tx_Inr db_Inr Let_def) (elim exE conjE, rule that, assumption, simp, simp)
  have "boardKept m (s\<lparr>db_nextId := Suc ?i, db_leaves := db_leaves s @ [row]\<rparr>)"
    using boardOk_mono [of "board s" "db_nextId s" "Suc ?i"] s row by (simp add: board_def links_def List.map_filter_def)
  note k = openApproval_kept [OF o this]
  show "boardKept m s'"
  proof (rule link_kept [where s = s1 and a = a])
    show "set (links s') \<subseteq> insert a (set (links s1))"
      unfolding e by (rule links_linked) simp
  qed (use k e in \<open>auto simp: board_def\<close>)
qed

lemma submitLeave_keeps: "keepsS (boardKept m) (submitLeave dto user)"
  unfolding submitLeave_def byUserId_def submitLeaveTx_def Let_def by (intro keeps_rules)

lemma submitOvertimeTx_keeps [keeps_rules]: "keeps (boardKept m) (submitOvertimeTx e start till minutes user)"
proof (rule keepsI)
  fix s x s'
  assume s: "boardKept m s" and run: "submitOvertimeTx e start till minutes user s = Inr (x, s')"
  let ?i = "db_nextId s"
  obtain row ctx a s1 audits where o: "openApproval e ''OVERTIME_REQUEST'' ''OvertimeRequest'' ?i ctx user (s\<lparr>db_nextId := Suc ?i, db_overtimes := db_overtimes s @ [row]\<rparr>) = Inr (a, s1)"
    and e: "s' = s1\<lparr>db_overtimes := update_many (\<lambda>x. ot_id x = ?i) (\<lambda>x. x\<lparr>ot_approval := Some a\<rparr>) (db_overtimes s1), db_audits := audits\<rparr>"
    and row: "ot_approval row = None"
    using run by (simp add: submitOvertimeTx_def tx_Inr db_Inr Let_def) (elim exE conjE, rule that, assumption, simp, simp)
  have "boardKept m (s\<lparr>db_nextId := Suc ?i, db_overtimes := db_overtimes s @ [row]\<rparr>)"
    using boardOk_mono [of "board s" "db_nextId s" "Suc ?i"] s row by (simp add: board_def links_def List.map_filter_def)
  note k = openApproval_kept [OF o this]
  show "boardKept m s'"
  proof (rule link_kept [where s = s1 and a = a])
    show "set (links s') \<subseteq> insert a (set (links s1))"
      unfolding e by (rule links_linked) simp
  qed (use k e in \<open>auto simp: board_def\<close>)
qed

lemma submitOvertime_keeps: "keepsS (boardKept m) (submitOvertime dto user)"
  unfolding submitOvertime_def byUserId_def Let_def by (intro keeps_rules)

text \<open>A review decides an approval of a leave or overtime request only.\<close>

lemma reviewApproval_kept:
  assumes "reviewApproval scope approval status user s = Inr (u, s')" and "boardKept m s" and "\<forall>a. approval = Some a \<longrightarrow> a \<in> set (links s)"
  shows "boardKept m s'"
proof (cases "s' = s")
  case False
  then obtain a q where a: "approval = Some a"
    and q: "find_first (\<lambda>x. aq_id x = a \<and> aq_company x = sc_company scope \<and> aq_branch x = Some (sc_branch scope) \<and> aq_status x = PENDING)
      (db_approvals s) = Some q"
    using assms(1) by (auto simp: reviewApproval_def tx_Inr split: option.splits)
  let ?f = "\<lambda>x. x\<lparr>aq_status := status, aq_decidedAt := Some (db_now s)\<rparr>"
  obtain d where b: "board s' = (db_approvalPolicies s, update_many (\<lambda>x. aq_id x = a) ?f (db_approvals s), db_decisions s @ [d], links s, db_requests s)"
    and n: "db_nextId s' = Suc (db_nextId s)"
    using assms(1) a q find_first_Some [OF q] by (auto simp: reviewApproval_def tx_Inr db_Inr board_def links_def)
  have ok: "boardOk (db_approvalPolicies s, db_approvals s, db_decisions s, links s, db_requests s) (Suc (db_nextId s))"
    by (rule boardOk_mono [of _ "db_nextId s"]) (use assms(2) in \<open>simp_all add: board_def\<close>)
  have leave: "ofLeave x \<and> x = q" if "x \<in> set (db_approvals s)" "aq_id x = a" for x
    using ok assms(3) a that find_first_Some [OF q] row_of_id [of aq_id "db_approvals s" x q] by (auto simp: boardOk_def)
  have "boardOk (board s') (db_nextId s')"
    unfolding b n
  proof (rule changedApprovals_kept [OF ok])
    fix x
    assume x: "x \<in> set (db_approvals s)" "aq_id x = a"
    then show "aq_id (?f x) = aq_id x \<and> aq_entityType (?f x) = aq_entityType x \<and> aq_entity (?f x) = aq_entity x \<and>
        (aq_status x \<noteq> PENDING \<longrightarrow> aq_status (?f x) = aq_status x)"
      using leave [OF x] find_first_Some [OF q] by simp
    assume "approvalOk (db_approvalPolicies s) (db_decisions s @ [d]) (Suc (db_nextId s)) x"
    then show "approvalOk (db_approvalPolicies s) (db_decisions s @ [d]) (Suc (db_nextId s)) (?f x)"
      using leave [OF x] by (auto simp: approvalOk_def ofLeave_def)
  qed
  then show ?thesis using assms(2) n by simp
qed (use assms(2) in simp)

lemma links_review: "(\<And>x. lv_approval (f x) = lv_approval x) \<Longrightarrow> links (s\<lparr>db_leaves := update_many P f (db_leaves s)\<rparr>) = links s"
    "(\<And>x. ot_approval (g x) = ot_approval x) \<Longrightarrow> links (s\<lparr>db_overtimes := update_many Q g (db_overtimes s)\<rparr>) = links s"
  by (simp_all add: links_def update_many_def List.map_filter_def comp_def filter_map)

lemma reviewLeave_keeps: "keepsS (boardKept m) (reviewLeave i dto user)"
proof -
  have "keeps (boardKept m) (reviewLeaveTx scope i dto user)" for scope
  proof (rule keepsI)
    fix s x s'
    assume s: "boardKept m s" and run: "reviewLeaveTx scope i dto user s = Inr (x, s')"
    let ?s = "s\<lparr>db_leaves := update_many (\<lambda>x. lv_id x = i) (\<lambda>x. x\<lparr>lv_status := statusText (rvd_status dto)\<rparr>) (db_leaves s)\<rparr>"
    obtain r s1 audits where r: "r \<in> set (db_leaves s)" and e: "reviewApproval scope (lv_approval r) (rvd_status dto) user ?s = Inr ((), s1)"
      and s': "s' = s1\<lparr>db_audits := audits\<rparr>"
      using run by (auto simp: reviewLeaveTx_def tx_Inr db_Inr Let_def split: option.splits dest!: find_first_Some)
    have l: "links ?s = links s" by (rule links_review) simp
    have "boardKept m s1"
    proof (rule reviewApproval_kept [OF e])
      show "boardKept m ?s" using s l by (simp add: board_def)
      show "\<forall>a. lv_approval r = Some a \<longrightarrow> a \<in> set (links ?s)" unfolding l using r by (auto simp: links_def map_filter_links)
    qed
    then show "boardKept m s'" by (simp add: s')
  qed
  then show ?thesis unfolding reviewLeave_def by (intro keeps_rules)
qed

lemma reviewOvertime_keeps: "keepsS (boardKept m) (reviewOvertime i dto user)"
proof -
  have "keeps (boardKept m) (reviewOvertimeTx scope i dto user)" for scope
  proof (rule keepsI)
    fix s x s'
    assume s: "boardKept m s" and run: "reviewOvertimeTx scope i dto user s = Inr (x, s')"
    obtain r approved where r: "r \<in> set (db_overtimes s)" and e: "\<exists>s1 audits. reviewApproval scope (ot_approval r) (rvd_status dto) user
        (s\<lparr>db_overtimes := update_many (\<lambda>x. ot_id x = i) (\<lambda>x. x\<lparr>ot_status := statusText (rvd_status dto), ot_approvedMinutes := approved\<rparr>)
          (db_overtimes s)\<rparr>) = Inr ((), s1) \<and> s' = s1\<lparr>db_audits := audits\<rparr>"
      using run by (auto simp: reviewOvertimeTx_def tx_Inr db_Inr Let_def split: option.splits dest!: find_first_Some)
    let ?s = "s\<lparr>db_overtimes := update_many (\<lambda>x. ot_id x = i) (\<lambda>x. x\<lparr>ot_status := statusText (rvd_status dto), ot_approvedMinutes := approved\<rparr>)
      (db_overtimes s)\<rparr>"
    obtain s1 audits where e: "reviewApproval scope (ot_approval r) (rvd_status dto) user ?s = Inr ((), s1)" and s': "s' = s1\<lparr>db_audits := audits\<rparr>"
      using e by blast
    have l: "links ?s = links s" by (rule links_review) simp
    have "boardKept m s1"
    proof (rule reviewApproval_kept [OF e])
      show "boardKept m ?s" using s l by (simp add: board_def)
      show "\<forall>a. ot_approval r = Some a \<longrightarrow> a \<in> set (links ?s)" unfolding l using r by (auto simp: links_def map_filter_links)
    qed
    then show "boardKept m s'" by (simp add: s')
  qed
  then show ?thesis unfolding reviewOvertime_def by (intro keeps_rules)
qed

section \<open>Purchase requests\<close>

lemma newRequestRow:
  "boardKept m s \<Longrightarrow> pq_id x = db_nextId s \<Longrightarrow> pq_status x = ''DRAFT'' \<Longrightarrow> pq_approvalRequest x = None \<Longrightarrow> pq_order x = None \<Longrightarrow>
   boardKept m (s\<lparr>db_nextId := Suc (db_nextId s), db_requests := db_requests s @ [x], db_requestItems := l\<rparr>)"
  using newRequest_kept [of _ _ _ _ _ "db_nextId s" x] by (simp add: board_def links_def)

lemma createRequest_keeps: "keepsS (boardKept m) (createRequest dto user)"
proof -
  have new: "keeps (boardKept m) (bindT newIdT (\<lambda>i. bindT (modT (\<lambda>s. s\<lparr>db_requests := db_requests s @ [x i], db_requestItems := db_requestItems s @ l i\<rparr>)) (\<lambda>_. k i)))"
    if "\<And>i. pq_id (x i) = i \<and> pq_status (x i) = ''DRAFT'' \<and> pq_approvalRequest (x i) = None \<and> pq_order (x i) = None" "\<And>i. keeps (boardKept m) (k i)"
    for x l and k :: "ident \<Rightarrow> ('b hr_db_scheme, purchase_request) tx"
  proof (rule newRow_keeps)
    show "boardKept m (s\<lparr>db_nextId := Suc (db_nextId s), db_requests := db_requests (s\<lparr>db_nextId := Suc (db_nextId s)\<rparr>) @ [x (db_nextId s)],
        db_requestItems := db_requestItems (s\<lparr>db_nextId := Suc (db_nextId s)\<rparr>) @ l (db_nextId s)\<rparr>)"
      if "boardKept m s" for s :: "'b hr_db_scheme"
      using newRequestRow [OF that, of "x (db_nextId s)"] \<open>\<And>i. pq_id (x i) = i \<and> _\<close> by simp
  qed (rule that(2))
  have "keeps (boardKept m) (createRequestTx scope dto w user :: ('b hr_db_scheme, purchase_request) tx)" for scope w
    unfolding createRequestTx_def Let_def
    by (intro keeps_bind [OF kept_frame.products_keeps(1)] keeps_bind [OF keeps_get] keeps_bind [OF keeps_require] new keeps_rules) simp_all
  then show ?thesis unfolding createRequest_def Let_def by (intro keeps_rules)
qed

text \<open>Updates of the requests and audit rows, run.\<close>

lemma updateRequests_run: "updateRequests P f s = (Inr (count_where P (db_requests s)), s\<lparr>db_requests := update_many P f (db_requests s)\<rparr>)"
  by (simp add: updateRequests_def svc_defs)

lemma auditS_run: "\<exists>l. auditS scope user a t i s = (Inr (), s\<lparr>db_audits := l\<rparr>)"
  by (auto simp: auditS_def svc_defs auditT_def tx_defs)

lemma requestsUpdate_kept:
  assumes "boardKept m s" and same: "\<And>x. pq_id (f x) = pq_id x"
    and row: "\<And>x. x \<in> set (db_requests s) \<Longrightarrow> P x \<Longrightarrow> requestOk (db_approvals s) x \<Longrightarrow> requestOk (db_approvals s) (f x)"
    and orders: "ordersUnique (db_requests s) \<Longrightarrow> ordersUnique (update_many P f (db_requests s))"
  shows "boardKept m (s\<lparr>db_requests := update_many P f (db_requests s)\<rparr>)"
proof -
  have ok: "boardOk (db_approvalPolicies s, db_approvals s, db_decisions s, links s, db_requests s) (db_nextId s)"
    using assms(1) by (simp add: board_def)
  then have "ordersUnique (db_requests s)" by (simp add: boardOk_def)
  then have "boardOk (db_approvalPolicies s, db_approvals s, db_decisions s, links s, update_many P f (db_requests s)) (db_nextId s)"
    using same row orders by (intro changedRequests_kept [OF ok]) auto
  then show ?thesis using assms(1) by (simp add: board_def links_def)
qed

text \<open>A request of the scope, or nothing happens to the board.\<close>

lemma scoped_request:
  assumes "bindS (liftS (requireTenantScope user)) (\<lambda>scope. bindS (requestS scope user i) (k scope)) s = (r, s')"
  shows "(board s' = board s \<and> db_nextId s' = db_nextId s) \<or>
    (\<exists>scope x. findRequest scope i s = Some x \<and> x \<in> set (db_requests s) \<and> pq_id x = i \<and> k scope x s = (r, s'))"
proof (cases "requireTenantScope user")
  case (Inr scope)
  show ?thesis
  proof (cases "findRequest scope i s")
    case None
    then show ?thesis using assms Inr by (auto simp: liftS_def requestS_def svc_defs denyS_def auditS_def auditT_def tx_defs)
  next
    case (Some x)
    then have "x \<in> set (db_requests s) \<and> pq_id x = i" using find_first_Some by (fastforce simp: findRequest_def)
    then show ?thesis using assms Some Inr by (auto simp: liftS_def requestS_def svc_defs)
  qed
qed (use assms in \<open>auto simp: liftS_def svc_defs\<close>)

lemma requestOk_of: "boardKept m s \<Longrightarrow> x \<in> set (db_requests s) \<Longrightarrow> requestOk (db_approvals s) x"
  by (simp add: boardOk_def board_def)

lemma request_row: "boardKept m s \<Longrightarrow> x \<in> set (db_requests s) \<Longrightarrow> y \<in> set (db_requests s) \<Longrightarrow> pq_id x = pq_id y \<Longrightarrow> x = y"
  using row_of_id [of pq_id "db_requests s" x y] by (simp add: boardOk_def board_def)

lemma cancelRequest_keeps: "keepsS (boardKept m) (cancelRequest i user)"
  unfolding keepsS_def
proof (intro allI impI)
  fix s s' :: "'a hr_db_scheme" and r
  assume s: "boardKept m s" and run: "cancelRequest i user s = (r, s')"
  let ?f = "\<lambda>x. x\<lparr>pq_status := ''CANCELLED''\<rparr>"
  from scoped_request [OF run [unfolded cancelRequest_def]] show "boardKept m s'"
  proof (elim disjE exE conjE)
    fix scope x
    assume x: "x \<in> set (db_requests s)" "pq_id x = i"
      and k: "bindS (requireS (List.member [''DRAFT'', ''PENDING_APPROVAL'', ''APPROVED''] (pq_status x))
              (BadRequest ''Purchase request pada status ini tidak dapat dibatalkan.'')) (\<lambda>_.
     bindS (requireS (pq_status x \<noteq> ''PENDING_APPROVAL'')
              (BadRequest ''Purchase request yang sedang approval harus ditolak melalui workflow approval.'')) (\<lambda>_.
     bindS (updateRequests (\<lambda>x. pq_id x = i) ?f) (\<lambda>_.
     bindS (auditS scope user ''CANCEL_PURCHASE_REQUEST'' ''PurchaseRequest'' (Some i)) (\<lambda>_.
     returnS (?f x))))) s = (r, s')"
    show ?thesis
    proof (cases "pq_status x = ''DRAFT'' \<or> pq_status x = ''APPROVED''")
      case True
      let ?t = "s\<lparr>db_requests := update_many (\<lambda>x. pq_id x = i) ?f (db_requests s)\<rparr>"
      have "boardKept m ?t"
      proof (rule requestsUpdate_kept [OF s])
        fix y
        assume y: "y \<in> set (db_requests s)" "pq_id y = i" "requestOk (db_approvals s) y"
        then have "y = x" using request_row [OF s] x by simp
        then have "pq_order y = None" using y(3) True by (auto simp: requestOk_def)
        then show "requestOk (db_approvals s) (?f y)"
          using y(3) by (simp add: requestOk_def requestStatuses_def approvalOf_def)
      qed (simp, rule ordersUnique_update, simp_all)
      moreover obtain l where "auditS scope user ''CANCEL_PURCHASE_REQUEST'' ''PurchaseRequest'' (Some i) ?t = (Inr (), ?t\<lparr>db_audits := l\<rparr>)"
        using auditS_run by blast
      ultimately show ?thesis using k True by (auto simp: bindS_def requireS_def updateRequests_run returnS_def)
    next
      case False
      then have "s' = s" using k by (auto simp: svc_defs split: if_splits)
      then show ?thesis using s by simp
    qed
  qed (use s in simp)
qed


lemma approval_row: "boardKept m s \<Longrightarrow> x \<in> set (db_approvals s) \<Longrightarrow> y \<in> set (db_approvals s) \<Longrightarrow> aq_id x = aq_id y \<Longrightarrow> x = y"
  using row_of_id [of aq_id "db_approvals s" x y] by (simp add: boardOk_def board_def)

lemma decideRequest_keeps:
  assumes "status = APPROVED \<or> status = REJECTED"
  shows "keepsS (boardKept m) (decideRequest i status user)"
  unfolding keepsS_def
proof (intro allI impI)
  fix s s' :: "'a hr_db_scheme" and r
  assume s: "boardKept m s" and run: "decideRequest i status user s = (r, s')"
  from scoped_request [OF run [unfolded decideRequest_def]] show "boardKept m s'"
  proof (elim disjE exE conjE)
    fix scope x
    assume x: "x \<in> set (db_requests s)" "pq_id x = i"
      and k: "bindS (requireS (pq_status x = ''PENDING_APPROVAL'' \<and> pq_approvalRequest x \<noteq> None)
              (BadRequest ''Purchase request belum menunggu approval.'')) (\<lambda>_.
     bindS (decideApproval (the (pq_approvalRequest x)) status user) (\<lambda>q.
     bindS (getS db_now) (\<lambda>t.
     bindS (updateRequests (\<lambda>x. pq_id x = i) (requestDecided (aq_status q) (ap_user user) t)) (\<lambda>_.
     bindS (auditS scope (ap_user user) ''DECIDE_PURCHASE_REQUEST'' ''PurchaseRequest'' (Some i)) (\<lambda>_.
     returnS (requestDecided (aq_status q) (ap_user user) t x)))))) s = (r, s')"
    show ?thesis
    proof (cases "pq_status x = ''PENDING_APPROVAL'' \<and> pq_approvalRequest x \<noteq> None")
      case True
      then obtain a where a: "pq_approvalRequest x = Some a" by blast
      obtain v s1 where d: "decideApproval a status user s = (v, s1)" by (rule prod.exhaust)
      note eff = decideApproval_result [OF d s assms]
      then have s1: "boardKept m s1" and same: "db_requests s1 = db_requests s" by simp_all
      show ?thesis
      proof (cases v)
        case (Inl e)
        then have "s' = s1" using k True a d by (auto simp: svc_defs)
        then show ?thesis using s1 by simp
      next
        case (Inr q)
        then have q: "q \<in> set (db_approvals s1)" "aq_id q = a" using eff by simp_all
        let ?f = "requestDecided (aq_status q) (ap_user user) (db_now s1)"
        let ?t = "s1\<lparr>db_requests := update_many (\<lambda>x. pq_id x = i) ?f (db_requests s1)\<rparr>"
        have "boardKept m ?t"
        proof (rule requestsUpdate_kept [OF s1])
          fix y
          assume y: "y \<in> set (db_requests s1)" "pq_id y = i" "requestOk (db_approvals s1) y"
          then have "y = x" using request_row [OF s] x same by simp
          then have o: "pq_order y = None" and ay: "pq_approvalRequest y = Some a" using y(3) True a by (auto simp: requestOk_def)
          then obtain q' where q': "approvalOf (db_approvals s1) y q'" using y(3) by (auto simp: requestOk_def)
          then have "q' = q" using approval_row [OF s1, of q' q] q ay by (simp add: approvalOf_def)
          then have "approvalOf (db_approvals s1) (?f y) q" using q' by (simp add: approvalOf_def requestDecided_def)
          then show "requestOk (db_approvals s1) (?f y)"
            using o ay by (auto simp: requestOk_def requestStatuses_def requestDecided_def)
        qed (simp add: requestDecided_def, rule ordersUnique_update, simp_all add: requestDecided_def)
        moreover obtain l where "auditS scope (ap_user user) ''DECIDE_PURCHASE_REQUEST'' ''PurchaseRequest'' (Some i) ?t = (Inr (), ?t\<lparr>db_audits := l\<rparr>)"
          using auditS_run by blast
        ultimately show ?thesis using k True a d Inr by (auto simp: bindS_def requireS_def updateRequests_run returnS_def getS_def)
      qed
    next
      case False
      then have "s' = s" using k by (auto simp: svc_defs split: if_splits)
      then show ?thesis using s by simp
    qed
  qed (use s in simp)
qed


text \<open>A request being submitted: no order and one of the two first states.\<close>

definition submitting :: "ident \<Rightarrow> purchase_request list \<Rightarrow> bool" where
  "submitting i xs \<longleftrightarrow> (\<forall>x \<in> set xs. pq_id x = i \<longrightarrow> pq_status x \<in> {''DRAFT'', ''SUBMITTING''})"

lemma requestStatus_kept:
  assumes "boardKept m s" and "\<And>x. P x \<Longrightarrow> pq_status x \<in> {''DRAFT'', ''SUBMITTING''}" and "st \<in> {''DRAFT'', ''SUBMITTING''}"
  shows "boardKept m (s\<lparr>db_requests := update_many P (\<lambda>x. x\<lparr>pq_status := st\<rparr>) (db_requests s)\<rparr>)"
proof (rule requestsUpdate_kept [OF assms(1)])
  fix x
  assume "P x" "requestOk (db_approvals s) x"
  moreover from \<open>P x\<close> have "pq_status x = ''DRAFT'' \<or> pq_status x = ''SUBMITTING''" using assms(2) by simp
  ultimately show "requestOk (db_approvals s) (x\<lparr>pq_status := st\<rparr>)"
    using assms(3) by (elim disjE insertE emptyE) (simp_all add: requestOk_def requestStatuses_def approvalOf_def)
qed (simp, rule ordersUnique_update, simp_all)

lemma askApproval_result:
  assumes "askApproval i x policyId amount user s = (r, s')" and "boardKept m s" and "pq_id x = i"
  shows "boardKept m s' \<and> (\<forall>q. r = Inr q \<longrightarrow> db_requests s' = db_requests s \<and> asked ''PurchaseRequest'' (identText i) q s')"
proof -
  obtain v s1 where c: "createApprovalRequest (requestApproval x policyId amount) user s = (v, s1)" by (rule prod.exhaust)
  note eff = createApprovalRequest_result [OF c assms(2)]
  show ?thesis
  proof (cases v)
    case (Inl e)
    then have "r = Inl e" and s': "s' = s1\<lparr>db_requests := update_many
        (\<lambda>x. pq_id x = i \<and> pq_status x = ''SUBMITTING'' \<and> pq_approvalRequest x = None) (\<lambda>x. x\<lparr>pq_status := ''DRAFT''\<rparr>) (db_requests s1)\<rparr>"
      using assms(1) c by (simp_all add: askApproval_def bindS_def updateRequests_run throwS_def)
    have "boardKept m s'" unfolding s' by (rule requestStatus_kept) (use eff in auto)
    then show ?thesis using \<open>r = Inl e\<close> by simp
  next
    case (Inr q)
    then have "r = Inr q" "s' = s1" using assms(1) c by (simp_all add: askApproval_def)
    then show ?thesis using eff Inr assms(3) by (simp add: requestApproval_def)
  qed
qed

lemma linkApproval_kept:
  assumes "linkApproval i q x s = (r, s')" and "boardKept m s" and "submitting i (db_requests s)"
    and q: "asked ''PurchaseRequest'' (identText i) q s"
  shows "boardKept m s'"
proof -
  let ?t = "s\<lparr>db_requests := update_many (\<lambda>x. pq_id x = i) (submitted q x (db_now s)) (db_requests s)\<rparr>"
  have "boardKept m ?t"
  proof (rule requestsUpdate_kept [OF assms(2)])
    fix y
    assume y: "y \<in> set (db_requests s)" "pq_id y = i" "requestOk (db_approvals s) y"
    then have "pq_order y = None" using assms(3) by (auto simp: submitting_def requestOk_def)
    then show "requestOk (db_approvals s) (submitted q x (db_now s) y)"
      using q y(2) by (auto simp: requestOk_def requestStatuses_def submitted_def approvalOf_def asked_def)
  qed (simp add: submitted_def, rule ordersUnique_update, simp_all add: submitted_def)
  moreover have "s' = s \<or> s' = ?t" using assms(1) by (auto simp: linkApproval_def svc_defs updateRequests_def split: if_splits)
  ultimately show ?thesis using assms(2) by metis
qed

lemma submitRequest_keeps: "keepsS (boardKept m) (submitRequest dec i policyId user)"
  unfolding keepsS_def
proof (intro allI impI)
  fix s s' :: "'a hr_db_scheme" and r
  assume s: "boardKept m s" and run: "submitRequest dec i policyId user s = (r, s')"
  from scoped_request [OF run [unfolded submitRequest_def]] show "boardKept m s'"
  proof (elim disjE exE conjE, goal_cases)
    case (2 scope x)
    note x = 2(2,3) and k = 2(4)
    let ?items = "itemsOfRequest i s"
    let ?open = "\<lambda>x. pq_id x = i \<and> pq_status x = ''DRAFT'' \<and> pq_approvalRequest x = None"
    define s1 where "s1 = (if pq_status x = ''DRAFT'' then s\<lparr>db_requests := update_many ?open (\<lambda>x. x\<lparr>pq_status := ''SUBMITTING''\<rparr>) (db_requests s)\<rparr> else s)"
    have "boardKept m (s\<lparr>db_requests := update_many ?open (\<lambda>x. x\<lparr>pq_status := ''SUBMITTING''\<rparr>) (db_requests s)\<rparr>)"
      by (rule requestStatus_kept [OF s]) simp_all
    then have s1: "boardKept m s1" using s by (simp add: s1_def)
    have same: "\<And>P. pendingApproval scope i (s\<lparr>db_requests := P\<rparr>) = pendingApproval scope i s" by (simp add: pendingApproval_def)
    show ?case
    proof (cases "s' = s \<or> s' = s1")
      case False
      then have st: "pq_status x = ''DRAFT'' \<or> pq_status x = ''SUBMITTING''"
        and go: "bindS (case pendingApproval scope i s1 of Some q \<Rightarrow> returnS q | None \<Rightarrow> askApproval i x policyId (requestAmount dec ?items) user) (\<lambda>q.
          bindS (linkApproval i q x) (\<lambda>_.
          bindS (auditS scope user ''SUBMIT_PURCHASE_REQUEST'' ''PurchaseRequest'' (Some i)) (\<lambda>_.
          bindS (getS (findRequest scope i)) (\<lambda>row. case row of None \<Rightarrow> throwS (PrismaError ''P2025'') | Some x \<Rightarrow> returnS x)))) s1 = (r, s')"
        using k by (auto simp: s1_def bindS_def requireS_def getS_def updateRequests_run returnS_def same split: if_splits)
      have sub: "submitting i (db_requests s1)"
        using st request_row [OF s] x by (fastforce simp: submitting_def s1_def in_update_many split: if_splits)
      obtain v s2 where v: "(case pendingApproval scope i s1 of Some q \<Rightarrow> returnS q
          | None \<Rightarrow> askApproval i x policyId (requestAmount dec ?items) user) s1 = (v, s2)" by (rule prod.exhaust)
      have s2: "boardKept m s2 \<and> (\<forall>q. v = Inr q \<longrightarrow> db_requests s2 = db_requests s1 \<and> asked ''PurchaseRequest'' (identText i) q s2)"
      proof (cases "pendingApproval scope i s1")
        case None
        then show ?thesis using askApproval_result [OF _ s1 x(2)] v by simp
      next
        case (Some q)
        then have "v = Inr q" "s2 = s1" using v by (simp_all add: returnS_def)
        then show ?thesis using s1 find_ordered_Some [OF Some [unfolded pendingApproval_def]] by (simp add: asked_def)
      qed
      show ?thesis
      proof (cases v)
        case (Inl e)
        then have "s' = s2" using go v by (simp add: bindS_def)
        then show ?thesis using s2 by simp
      next
        case (Inr q)
        obtain w s3 where w: "linkApproval i q x s2 = (w, s3)" by (rule prod.exhaust)
        have s3: "boardKept m s3" by (rule linkApproval_kept [OF w]) (use s2 Inr sub in simp_all)
        obtain l where l: "auditS scope user ''SUBMIT_PURCHASE_REQUEST'' ''PurchaseRequest'' (Some i) s3 = (Inr (), s3\<lparr>db_audits := l\<rparr>)"
          using auditS_run by blast
        have "s' = s3 \<or> s' = s3\<lparr>db_audits := l\<rparr>"
          using go v Inr w l by (cases w) (auto simp: bindS_def getS_def returnS_def throwS_def split: option.splits)
        then show ?thesis using s3 by auto
      qed
    qed (use s s1 in auto)
  qed (use s in simp)
qed


section \<open>Conversion\<close>

lemma ordersUnique_claim:
  assumes "ordersUnique xs" and f: "\<And>x. P x \<Longrightarrow> pq_id (f x) = i \<and> pq_order (f x) = Some n"
    and "\<forall>x \<in> set xs. pq_order x = Some n \<longrightarrow> pq_id x = i"
  shows "ordersUnique (update_many P f xs)"
proof -
  have row: "(pq_id y = i \<and> pq_order y = Some n) \<or> y \<in> set xs" if "y \<in> set (update_many P f xs)" for y
    using that f by (auto simp: in_update_many split: if_splits)
  show ?thesis
    unfolding ordersUnique_def
  proof (intro ballI impI)
    fix y z
    assume "y \<in> set (update_many P f xs)" "z \<in> set (update_many P f xs)" "pq_order y \<noteq> None \<and> pq_order y = pq_order z"
    then show "pq_id y = pq_id z" using row [of y] row [of z] assms(1,3) by (metis ordersUnique_def)
  qed
qed

lemma claimConversion_kept:
  assumes "claimConversion i supplier orderId s = (r, s')" and s: "boardKept m s"
  shows "boardKept m s'"
proof (cases "s' = s")
  case False
  let ?open = "\<lambda>x. pq_id x = i \<and> pq_status x = ''APPROVED'' \<and> pq_order x = None"
  let ?f = "\<lambda>x. x\<lparr>pq_status := ''CONVERTED'', pq_supplier := Some supplier, pq_order := Some orderId, pq_convertedAt := Some (db_now s)\<rparr>"
  have s': "s' = s\<lparr>db_requests := update_many ?open ?f (db_requests s)\<rparr>"
    and free: "\<not> (list_ex ?open (db_requests s) \<and> list_ex (\<lambda>x. pq_id x \<noteq> i \<and> pq_order x = Some orderId) (db_requests s))"
    using assms(1) False by (auto simp: claimConversion_def Let_def svc_defs updateRequests_def split: if_splits)
  show ?thesis
    unfolding s'
  proof (rule requestsUpdate_kept [OF s])
    fix x
    assume x: "?open x" "requestOk (db_approvals s) x"
    then show "requestOk (db_approvals s) (?f x)" by (simp add: requestOk_def requestStatuses_def approvalOf_def)
  next
    assume u: "ordersUnique (db_requests s)"
    show "ordersUnique (update_many ?open ?f (db_requests s))"
    proof (cases "list_ex ?open (db_requests s)")
      case True
      then show ?thesis by (rule_tac ordersUnique_claim [OF u, where i = i and n = orderId]) (use free in \<open>auto simp: list_ex_iff\<close>)
    next
      case False
      then have "update_many ?open ?f (db_requests s) = db_requests s" by (rule_tac update_many_none) (auto simp: count_where_def list_ex_iff filter_empty_conv)
      then show ?thesis using u by simp
    qed
  qed simp
qed (use s in simp)

lemma createOrder_boardKept [keeps_rules]: "keepsS (boardKept m) (createOrder dec digest dto user)"
proof -
  have "keepsS (\<lambda>s. board s = b \<and> n \<le> db_nextId s) (createOrder dec digest dto user)" for b and n :: ident
    by (rule createOrder_board [of "\<lambda>x. x = b" n])
  then show ?thesis unfolding keepsS_def by (metis boardOk_mono le_refl le_trans)
qed

lemma convertRequest_keeps: "keepsS (boardKept m) (convertRequest dec digest i dto user)"
proof -
  have claim: "keepsS (boardKept m) (claimConversion i supplier orderId)" for supplier orderId
    unfolding keepsS_def using claimConversion_kept by blast
  have audit: "keepsS (boardKept m) (auditS scope u a t j)" for scope u a t j
    by (auto simp: keepsS_def auditS_def svc_defs auditT_def tx_defs)
  have order: "keepsS (boardKept m) (findOrder j u)" for j u
    by (auto simp: keepsS_def findOrder_def svc_defs liftS_def denyS_def auditS_def auditT_def tx_defs split: sum.splits option.splits)
  have deny: "keepsS (boardKept m) (requestS scope u j)" for scope u j
    by (auto simp: keepsS_def requestS_def svc_defs denyS_def auditS_def auditT_def tx_defs split: option.splits)
  show ?thesis
    unfolding convertRequest_def by (intro keeps_rules claim audit deny order)
qed

end
