(* ===== verification/ApprovalRuns.thy ===== *)
theory ApprovalRuns
  imports RequestProperties ProcurementRuns
begin

text \<open>
  Runs of the services that read and write approvals: who approved what is approved, what an approved purchase
  request rests on, what a committed decision has checked, and where a purchase request can get stuck.
\<close>

section \<open>Runs\<close>

text \<open>The two outcomes that the validated bodies of decisions and reviews allow.\<close>

definition verdict :: "approval_status \<Rightarrow> bool" where
  "verdict st \<longleftrightarrow> st = APPROVED \<or> st = REJECTED"

text \<open>
  One request served, one sweep of the worker or one job of an automation rule that opens a request, whatever its
  outcome. No other code of the API or the worker writes the tables of the board; the other services take their ids
  from the same counter.
\<close>

inductive approval_step :: "decimal_ops \<Rightarrow> (order_dto \<Rightarrow> string) \<Rightarrow> hr_db \<Rightarrow> hr_db \<Rightarrow> bool" for dec od where
  step_policy: "createApprovalPolicy pdto user s = (r, s') \<Longrightarrow> approval_step dec od s s'"
| step_ask: "createApprovalRequest adto user s = (q, s') \<Longrightarrow> approval_step dec od s s'"
| step_decide: "verdict st \<Longrightarrow> decideApproval i st approver s = (q, s') \<Longrightarrow> approval_step dec od s s'"
| step_delegate: "delegateApproval i u approver s = (q, s') \<Longrightarrow> approval_step dec od s s'"
| step_sweep: "processApprovalExpiries s = (v, s') \<Longrightarrow> approval_step dec od s s'"
| step_automation: "runAutomation dec job s = (v, s') \<Longrightarrow> approval_step dec od s s'"
| step_draft: "createRequest rdto user s = (x, s') \<Longrightarrow> approval_step dec od s s'"
| step_submit: "submitRequest dec i policyId user s = (x, s') \<Longrightarrow> approval_step dec od s s'"
| step_decideRequest: "verdict st \<Longrightarrow> decideRequest i st approver s = (x, s') \<Longrightarrow> approval_step dec od s s'"
| step_cancel: "cancelRequest i user s = (x, s') \<Longrightarrow> approval_step dec od s s'"
| step_convert: "convertRequest dec od i cdto user s = (n, s') \<Longrightarrow> approval_step dec od s s'"
| step_leave: "submitLeave ldto user s = (l, s') \<Longrightarrow> approval_step dec od s s'"
| step_overtime: "submitOvertime odto user s = (ov, s') \<Longrightarrow> approval_step dec od s s'"
| step_reviewLeave: "verdict (rvd_status vdto) \<Longrightarrow> reviewLeave i vdto user s = (l, s') \<Longrightarrow> approval_step dec od s s'"
| step_reviewOvertime: "verdict (rvd_status vdto) \<Longrightarrow> reviewOvertime i vdto user s = (ov, s') \<Longrightarrow> approval_step dec od s s'"
| step_elsewhere: "board s' = board s \<Longrightarrow> db_nextId s \<le> db_nextId s' \<Longrightarrow> approval_step dec od s s'"

lemma board_served:
  assumes "keepsS (boardKept 0) m" and "m s = (r, s')" and "boardOk (board s) (db_nextId s)"
  shows "boardOk (board s') (db_nextId s')"
  using keepsSD [OF assms(1,2)] assms(3) by simp

lemma decideApproval_keeps: "verdict st \<Longrightarrow> keepsS (boardKept m) (decideApproval i st user)"
  unfolding keepsS_def verdict_def using decideApproval_result by blast

lemmas board_services = createApprovalPolicy_keeps [THEN board_served] createApprovalRequest_keeps [THEN board_served]
  decideApproval_keeps [THEN board_served] delegateApproval_keeps [THEN board_served] sweep_keeps [THEN board_served]
  runAutomation_keeps [THEN board_served]
  createRequest_keeps [THEN board_served] submitRequest_keeps [THEN board_served]
  decideRequest_keeps [folded verdict_def, THEN board_served] cancelRequest_keeps [THEN board_served]
  convertRequest_keeps [THEN board_served] submitLeave_keeps [THEN board_served] submitOvertime_keeps [THEN board_served]
  reviewLeave_keeps [THEN board_served] reviewOvertime_keeps [THEN board_served]

lemma approval_step_keeps: "approval_step dec od s s' \<Longrightarrow> boardOk (board s) (db_nextId s) \<Longrightarrow> boardOk (board s') (db_nextId s')"
proof (induction rule: approval_step.induct)
  case (step_elsewhere s' s)
  then show ?case using boardOk_mono by metis
qed (erule (2) board_services | erule (1) board_services)+

lemma approval_run_keeps:
  "(approval_step dec od)\<^sup>*\<^sup>* s0 s \<Longrightarrow> boardOk (board s0) (db_nextId s0) \<Longrightarrow> boardOk (board s) (db_nextId s)"
  by (induction rule: rtranclp_induct) (auto intro: approval_step_keeps)

lemma boardOk_empty: "board s = ([], [], [], [], []) \<Longrightarrow> boardOk (board s) n"
  by (simp add: boardOk_def ordersUnique_def)

lemma approval_run_row:
  assumes "(approval_step dec od)\<^sup>*\<^sup>* s0 s" and "board s0 = ([], [], [], [], [])"
  shows "boardOk (board s) (db_nextId s)" "q \<in> set (db_approvals s) \<Longrightarrow> approvalOk (db_approvalPolicies s) (db_decisions s) (db_nextId s) q"
    "x \<in> set (db_requests s) \<Longrightarrow> requestOk (db_approvals s) x"
proof -
  show ok: "boardOk (board s) (db_nextId s)" by (rule approval_run_keeps [OF assms(1) boardOk_empty [OF assms(2)]])
  then show "q \<in> set (db_approvals s) \<Longrightarrow> approvalOk (db_approvalPolicies s) (db_decisions s) (db_nextId s) q"
    and "x \<in> set (db_requests s) \<Longrightarrow> requestOk (db_approvals s) x"
    by (simp_all add: boardOk_def board_def)
qed

lemma approved_steps:
  assumes "approvalOk ps ds n q" and "\<not> ofLeave q" and "aq_status q = APPROVED" and "1 \<le> k" and "k \<le> int (length (approvalSteps (policyRow ps q)))"
  shows "approvedAt ds q k"
proof (cases "k = aq_currentStep q")
  case False
  then have "k < aq_currentStep q" using assms(1-3,5) by (simp add: approvalOk_def)
  then show ?thesis using assms(1,2,4) by (simp add: approvalOk_def)
qed (use assms in \<open>simp add: approvalOk_def\<close>)

text \<open>
  C3. Whatever requests, sweeps and automation jobs are served, an approval of any entity other than a leave or an
  overtime request that ended approved was approved at every step of its policy by somebody other than the user
  it names as its requester. (The reviews of the HR service decide the approvals of leave and overtime, and do
  not keep to this.)
\<close>

theorem approved_by_others:
  assumes "(approval_step dec od)\<^sup>*\<^sup>* s0 s" and "board s0 = ([], [], [], [], [])" and "q \<in> set (db_approvals s)" and "aq_status q = APPROVED"
    and "aq_entityType q \<noteq> ''LeaveRequest''" and "aq_entityType q \<noteq> ''OvertimeRequest''"
    and "1 \<le> k" and "k \<le> int (length (approvalSteps (policyRow (db_approvalPolicies s) q)))"
  shows "\<exists>d \<in> set (db_decisions s). dn_request d = aq_id q \<and> dn_step d = k \<and> dn_status d = APPROVED \<and> aq_requester q \<noteq> Some (dn_approver d)"
  using approved_steps [OF approval_run_row(2) [OF assms(1-3)] _ assms(4,7,8)] assms(5,6) by (auto simp: ofLeave_def approvedAt_def)


text \<open>
  C23. The rows of purchase requests stay well typed: the status is one of the seven of the schema, a request waits
  or is rejected only with an approval row that is about it, it is converted exactly when it names an order, and no
  two requests name the same order.
\<close>

theorem purchase_requests_typed:
  assumes "(approval_step dec od)\<^sup>*\<^sup>* s0 s" and "board s0 = ([], [], [], [], [])" and "x \<in> set (db_requests s)"
  shows "pq_status x \<in> set requestStatuses \<and> (pq_status x = ''CONVERTED'' \<longleftrightarrow> pq_order x \<noteq> None) \<and>
    (pq_status x \<in> {''PENDING_APPROVAL'', ''REJECTED''} \<longrightarrow> (\<exists>q \<in> set (db_approvals s). pq_approvalRequest x = Some (aq_id q) \<and>
       aq_entityType q = ''PurchaseRequest'' \<and> aq_entity q = identText (pq_id x))) \<and>
    (\<forall>y \<in> set (db_requests s). pq_order x \<noteq> None \<and> pq_order x = pq_order y \<longrightarrow> y = x)"
proof -
  have ok: "requestOk (db_approvals s) x" by (rule approval_run_row(3) [OF assms])
  have b: "boardKept 0 s" using approval_run_row(1) [OF assms(1,2)] by simp
  have "y = x" if "y \<in> set (db_requests s)" "pq_order x \<noteq> None" "pq_order x = pq_order y" for y
  proof -
    have "ordersUnique (db_requests s)" using b by (simp add: boardOk_def board_def)
    then have "pq_id y = pq_id x" using that assms(3) unfolding ordersUnique_def by metis
    then show ?thesis by (rule request_row [OF b that(1) assms(3)])
  qed
  moreover have "\<exists>q \<in> set (db_approvals s). pq_approvalRequest x = Some (aq_id q) \<and> aq_entityType q = ''PurchaseRequest'' \<and>
      aq_entity q = identText (pq_id x)" if "pq_status x \<in> {''PENDING_APPROVAL'', ''REJECTED''}"
    using ok that unfolding requestOk_def approvalOf_def by blast
  moreover have "pq_status x \<in> set requestStatuses" "pq_status x = ''CONVERTED'' \<longleftrightarrow> pq_order x \<noteq> None"
    using ok by (simp_all add: requestOk_def)
  ultimately show ?thesis by blast
qed


section \<open>What a committed decision has checked\<close>

lemma visible_only:
  assumes "visibleApproval scope requesters i s = Some q" and "distinct (map aq_id (db_approvals s))"
  shows "find_first (\<lambda>x. aq_id x = i) (db_approvals s) = Some q"
proof -
  have q: "q \<in> set (db_approvals s)" "aq_id q = i" using visibleApproval_row [OF assms(1)] by simp_all
  then have "find_first (\<lambda>x. aq_id x = i) (db_approvals s) \<noteq> None" by (auto simp: find_first_None)
  then obtain p where p: "find_first (\<lambda>x. aq_id x = i) (db_approvals s) = Some p" by blast
  have "p \<in> set (db_approvals s)" "aq_id p = i" using find_first_Some [OF p] by simp_all
  then have "p = q" using q row_of_id [OF assms(2), of p q] by simp
  then show ?thesis using p by simp
qed

lemma find_updated:
  "find_first P xs = Some x \<Longrightarrow> (\<And>y. P (f y) = P y) \<Longrightarrow> Q x \<Longrightarrow> find_first P (update_many Q f xs) = Some (f x)"
  by (induction xs) (auto simp: find_first_def update_many_def split: if_splits)

text \<open>
  C20. A decision is committed only on a waiting approval that has not expired, by a user who did not ask for it, to
  whom it is delegated if it is delegated, who holds one of the roles and all of the permissions of the current step
  if it is not, and who has not decided this step before. It records one decision and moves the row as the steps
  of the policy say.
\<close>

theorem decide_authorised:
  fixes s s' :: hr_db
  assumes "decideApproval i status user s = (Inr row, s')" and "distinct (map aq_id (db_approvals s))"
  shows "\<exists>q \<in> set (db_approvals s). \<exists>steps step d. aq_id q = i \<and> aq_status q = PENDING \<and> aq_requester q \<noteq> Some (us_sub (ap_user user)) \<and>
    (case aq_expiresAt q of None \<Rightarrow> True | Some e \<Rightarrow> db_now s < e) \<and>
    steps = approvalSteps (policyRow (db_approvalPolicies s) q) \<and> step = stepAt steps (max 0 (aq_currentStep q - 1)) \<and>
    (case aq_delegatedTo q of Some u \<Rightarrow> u = us_sub (ap_user user)
     | None \<Rightarrow> holdsRole (stringsOf ''roles'' step @ escalationRoles q) (ap_roles user) \<and>
         holdsAll (stringsOf ''permissions'' step) (ap_permissions user)) \<and>
    \<not> list_ex (\<lambda>d. dn_request d = i \<and> dn_step d = aq_currentStep q \<and> dn_approver d = us_sub (ap_user user)) (db_decisions s) \<and>
    db_decisions s' = db_decisions s @ [d] \<and> dn_request d = i \<and> dn_step d = aq_currentStep q \<and>
    dn_approver d = us_sub (ap_user user) \<and> dn_status d = status \<and> row = decided steps status (db_now s) q"
proof -
  obtain scope requesters where run: "decideApprovalTx scope requesters i status user s = Inr (row, s')"
    using assms(1) by (auto simp: decideApproval_def svc_Inr liftS_def split: sum.splits)
  then obtain q where v: "visibleApproval scope requesters i s = Some q"
    and c: "checkDecidable q (us_sub (ap_user user)) (db_now s) = Inr ()"
    and role: "checkRole (stepOf (policyOf scope (aq_policy q) s) q) q user = Inr ()"
    and once: "\<not> list_ex (\<lambda>d. dn_request d = i \<and> dn_step d = aq_currentStep q \<and> dn_approver d = us_sub (ap_user user)) (db_decisions s)"
    and e: "settleDecision scope i q (approvalSteps (policyOf scope (aq_policy q) s)) status (ap_user user) s = Inr (row, s')"
    using decideApprovalTx_checked [OF run] by blast
  have policy: "policyOf scope (aq_policy q) s = policyRow (db_approvalPolicies s) q"
    using visibleApproval_row [OF v] by (simp add: policyOf_def policyRow_def activePolicy_def cong: option.case_cong)
  let ?steps = "approvalSteps (policyRow (db_approvalPolicies s) q)"
  let ?step = "stepAt ?steps (max 0 (aq_currentStep q - 1))"
  have pending: "aq_status q = PENDING" "aq_requester q \<noteq> Some (us_sub (ap_user user))"
      "case aq_expiresAt q of None \<Rightarrow> True | Some t \<Rightarrow> db_now s < t"
      "case aq_delegatedTo q of None \<Rightarrow> True | Some u \<Rightarrow> u = us_sub (ap_user user)"
    using c by (auto simp: checkDecidable_def bindE_Inr requireE_Inr)
  have holds: "case aq_delegatedTo q of Some u \<Rightarrow> u = us_sub (ap_user user)
     | None \<Rightarrow> holdsRole (stringsOf ''roles'' ?step @ escalationRoles q) (ap_roles user) \<and>
         holdsAll (stringsOf ''permissions'' ?step) (ap_permissions user)"
    using role pending(4) unfolding policy
    by (auto simp: checkRole_def stepOf_def holdsRole_def holdsAll_def bindE_Inr requireE_Inr Let_def split: option.splits)
  obtain d where d: "db_decisions s' = db_decisions s @ [d]" "dn_request d = i" "dn_step d = aq_currentStep q"
      "dn_approver d = us_sub (ap_user user)" "dn_status d = status"
    using settleDecision_effect [OF e] by (auto simp: board_def)
  have "find_first (\<lambda>x. aq_id x = i) (db_approvals s') = Some row"
    and a: "db_approvals s' = update_many (\<lambda>x. aq_id x = i \<and> aq_status x = PENDING \<and> aq_currentStep x = aq_currentStep q)
       (decided ?steps status (db_now s)) (db_approvals s)"
    using e unfolding policy by (auto simp: settleDecision_def tx_Inr db_Inr Let_def split: option.splits)
  moreover have "find_first (\<lambda>x. aq_id x = i) (update_many (\<lambda>x. aq_id x = i \<and> aq_status x = PENDING \<and> aq_currentStep x = aq_currentStep q)
       (decided ?steps status (db_now s)) (db_approvals s)) = Some (decided ?steps status (db_now s) q)"
    by (rule find_updated [OF visible_only [OF v assms(2)]]) (use visibleApproval_row [OF v] pending in \<open>simp_all add: decided_same\<close>)
  ultimately have "row = decided ?steps status (db_now s) q" by simp
  then show ?thesis using visibleApproval_row [OF v] pending holds once d by blast
qed

section \<open>Stuck requests\<close>

definition refused :: "(hr_db, 'a) svc \<Rightarrow> hr_db \<Rightarrow> bool" where
  "refused m s \<longleftrightarrow> (\<exists>e. fst (m s) = Inl e) \<and> db_requests (snd (m s)) = db_requests s"

lemma refusedI:
  assumes "\<And>r s'. m s = (r, s') \<Longrightarrow> (\<exists>e. r = Inl e) \<and> db_requests s' = db_requests s"
  shows "refused m s"
  using assms [of "fst (m s)" "snd (m s)"] by (simp add: refused_def)

lemma scoped_refused:
  assumes "\<And>scope x. x \<in> set (db_requests s) \<Longrightarrow> pq_id x = i \<Longrightarrow> refused (k scope x) s"
  shows "refused (bindS (liftS (requireTenantScope user)) (\<lambda>scope. bindS (requestS scope user i) (k scope))) s"
proof (cases "requireTenantScope user")
  case (Inr scope)
  show ?thesis
  proof (cases "findRequest scope i s")
    case None
    then show ?thesis using Inr by (auto simp: refused_def liftS_def requestS_def svc_defs denyS_def auditS_def auditT_def tx_defs)
  next
    case (Some x)
    then have "x \<in> set (db_requests s) \<and> pq_id x = i" using find_first_Some by (fastforce simp: findRequest_def)
    then show ?thesis using assms [of x scope] Some Inr by (simp add: refused_def liftS_def requestS_def svc_defs)
  qed
qed (simp add: refused_def liftS_def svc_defs)

lemma decideApproval_refused:
  assumes "\<And>q. q \<in> set (db_approvals s) \<Longrightarrow> aq_id q = a \<Longrightarrow> aq_status q \<noteq> PENDING"
  shows "refused (decideApproval a st user) s"
proof (rule refusedI)
  fix r s'
  assume run: "decideApproval a st user s = (r, s')"
  show "(\<exists>e. r = Inl e) \<and> db_requests s' = db_requests s"
  proof (cases r)
    case (Inl e)
    then show ?thesis using run by (auto simp: decideApproval_def svc_defs liftS_def split: sum.splits)
  next
    case (Inr row)
    then obtain scope requesters where t: "decideApprovalTx scope requesters a st user s = Inr (row, s')"
      using run by (auto simp: decideApproval_def svc_Inr liftS_def split: sum.splits)
    obtain q where v: "visibleApproval scope requesters a s = Some q" and c: "checkDecidable q (us_sub (ap_user user)) (db_now s) = Inr ()"
      using decideApprovalTx_checked [OF t] by blast
    then have "aq_status q = PENDING" by (auto simp: checkDecidable_def bindE_Inr requireE_Inr)
    then show ?thesis using assms visibleApproval_row [OF v] by blast
  qed
qed

text \<open>
  C31. A purchase request that waits for an approval which is no longer pending (it expired, or was decided in the
  approval inbox) can neither be decided nor cancelled, submitted again or converted: each service refuses it and
  leaves the requests as they are.
\<close>

theorem stuck_request:
  assumes "x \<in> set (db_requests s)" and "distinct (map pq_id (db_requests s))" and "pq_status x = ''PENDING_APPROVAL''"
    and "pq_approvalRequest x = Some a" and "\<forall>q \<in> set (db_approvals s). aq_id q = a \<longrightarrow> aq_status q \<noteq> PENDING"
  shows "refused (decideRequest (pq_id x) st approver) s \<and> refused (cancelRequest (pq_id x) user) s \<and>
    refused (submitRequest dec (pq_id x) policyId user) s \<and> refused (convertRequest dec od (pq_id x) cdto user) s"
proof (intro conjI)
  have only: "y = x" if "y \<in> set (db_requests s)" "pq_id y = pq_id x" for y by (rule row_of_id [OF assms(2) that(1) assms(1) that(2)])
  show "refused (decideRequest (pq_id x) st approver) s"
    unfolding decideRequest_def
  proof (rule scoped_refused)
    fix scope y
    assume "y \<in> set (db_requests s)" "pq_id y = pq_id x"
    then have "y = x" by (rule only)
    have r: "refused (decideApproval a st approver) s" by (rule decideApproval_refused) (use assms(5) in blast)
    then obtain e where "fst (decideApproval a st approver s) = Inl e" by (auto simp: refused_def)
    then have "decideApproval a st approver s = (Inl e, snd (decideApproval a st approver s))" by (metis prod.collapse)
    then show "refused (bindS (requireS (pq_status y = ''PENDING_APPROVAL'' \<and> pq_approvalRequest y \<noteq> None)
              (BadRequest ''Purchase request belum menunggu approval.'')) (\<lambda>_.
     bindS (decideApproval (the (pq_approvalRequest y)) st approver) (\<lambda>q.
     bindS (getS db_now) (\<lambda>t.
     bindS (updateRequests (\<lambda>z. pq_id z = pq_id x) (requestDecided (aq_status q) (ap_user approver) t)) (\<lambda>_.
     bindS (auditS scope (ap_user approver) ''DECIDE_PURCHASE_REQUEST'' ''PurchaseRequest'' (Some (pq_id x))) (\<lambda>_.
     returnS (requestDecided (aq_status q) (ap_user approver) t y))))))) s"
      using r assms(3,4) \<open>y = x\<close> by (cases "decideApproval a st approver s") (simp add: refused_def bindS_def requireS_def)
  qed
  show "refused (cancelRequest (pq_id x) user) s"
    unfolding cancelRequest_def
    by (rule scoped_refused, drule (1) only) (simp add: assms(3) refused_def svc_defs)
  show "refused (submitRequest dec (pq_id x) policyId user) s"
    unfolding submitRequest_def
    by (rule scoped_refused, drule (1) only) (simp add: assms(3) refused_def svc_defs)
  show "refused (convertRequest dec od (pq_id x) cdto user) s"
    unfolding convertRequest_def
    by (rule scoped_refused, drule (1) only) (simp add: assms(3) refused_def svc_defs)
qed

section \<open>Reviews of leave\<close>

text \<open>
  C32. The review of a leave request decides the approval beside it at once: whoever reviews it, the requester
  included, an approved review turns the waiting approval into an approved one at its first step, whatever the steps
  of its policy are.
\<close>

theorem leave_review_skips_policy:
  assumes "reviewLeave i dto user s = (Inr l, s')" and "rvd_status dto = APPROVED" and "requireTenantScope user = Inr scope"
    and "lv_approval l = Some a" and "q \<in> set (db_approvals s)" and "aq_id q = a" and "aq_company q = sc_company scope"
    and "aq_branch q = Some (sc_branch scope)" and "aq_status q = PENDING" and "distinct (map aq_id (db_approvals s))"
  shows "\<exists>q' \<in> set (db_approvals s'). q' = q\<lparr>aq_status := APPROVED, aq_decidedAt := Some (db_now s)\<rparr>"
proof -
  let ?s = "s\<lparr>db_leaves := update_many (\<lambda>x. lv_id x = i) (\<lambda>x. x\<lparr>lv_status := ''APPROVED''\<rparr>) (db_leaves s)\<rparr>"
  let ?P = "\<lambda>x. aq_id x = a \<and> aq_company x = sc_company scope \<and> aq_branch x = Some (sc_branch scope) \<and> aq_status x = PENDING"
  have "reviewLeaveTx scope i dto user s = Inr (l, s')"
    using assms(1,3) by (auto simp: reviewLeave_def svc_Inr liftS_def)
  then obtain s1 audits where r: "reviewApproval scope (Some a) APPROVED user ?s = Inr ((), s1)" and s': "s' = s1\<lparr>db_audits := audits\<rparr>"
    using assms(2,4) by (auto simp: reviewLeaveTx_def tx_Inr db_Inr Let_def statusText_def split: option.splits)
  have "find_first ?P (db_approvals s) \<noteq> None" using assms(5-9) by (auto simp: find_first_None)
  then obtain p where p: "find_first ?P (db_approvals s) = Some p" by blast
  have "p = q" using find_first_Some [OF p] assms(5,6) row_of_id [OF assms(10), of p q] by simp
  then have "db_approvals s1 = update_many (\<lambda>x. aq_id x = a) (\<lambda>x. x\<lparr>aq_status := APPROVED, aq_decidedAt := Some (db_now s)\<rparr>) (db_approvals s)"
    using r p assms(6) by (auto simp: reviewApproval_def tx_Inr db_Inr)
  then show ?thesis using assms(5,6) by (auto simp: s' in_update_many)
qed


section \<open>An office\<close>

definition office :: hr_db where
  "office = approvals_db.extend (procurement_db.extend deliveryShop (approvals_db.fields [] [] [] [] [] [] [])) (hr_db.fields [] [] [] [] [] [] [])"

lemma office_simps [simp]: "db_now office = 20005 * dayMs" "db_nextId office = 50" "db_products office = [deliveryProduct]"
    "db_warehouses office = [\<lparr>wh_id = 1, wh_branch = 1, wh_company = 1, wh_isActive = True, wh_isDefault = True, wh_code = ''W'', wh_name = ''W'', wh_address = None\<rparr>]"
    "db_numbering office = db_numbering emptyAccounting" "db_audits office = []" "db_users office = []" "db_approvalPolicies office = []"
    "db_approvals office = []" "db_decisions office = []" "db_notifications office = []" "db_requests office = []" "db_requestItems office = []"
    "db_employees office = []" "db_leaveTypes office = []" "db_leaves office = []" "db_overtimes office = []"
  by (simp_all add: office_def deliveryShop_def emptyAccounting_def accounting_db.defs procurement_db.defs approvals_db.defs hr_db.defs)

lemma office_board: "board office = ([], [], [], [], [])"
  by (simp add: board_def links_def List.map_filter_simps)

definition manager :: approver where
  "manager = \<lparr>ap_user = exampleUser\<lparr>us_sub := 8\<rparr>, ap_roles = [''MANAGER''], ap_permissions = []\<rparr>"

lemma manager_scope [simp]: "requireTenantScope (ap_user manager) = Inr exampleScope" "us_sub (ap_user manager) = 8" "ap_roles manager = [''MANAGER'']"
  by (simp_all add: manager_def exampleUser_def requireTenantScope_def exampleScope_def)

text \<open>An approval that user 7 asked for and that a manager has to decide.\<close>

definition question :: approval_request_dto where
  "question = \<lparr>aqd_company = None, aqd_policy = None, aqd_entityType = ''Expense'', aqd_entity = ''E1'', aqd_amount = None, aqd_context = None\<rparr>"

definition questionRow :: approval_request where
  "questionRow = newApproval exampleScope question None exampleUser 50 (20005 * dayMs)"

lemma questionRow_simps: "aq_id questionRow = 50" "aq_company questionRow = 1" "aq_branch questionRow = Some 1" "aq_status questionRow = PENDING"
    "aq_requester questionRow = Some 7" "aq_expiresAt questionRow = None" "aq_policy questionRow = None" "aq_currentStep questionRow = 1"
    "aq_delegatedTo questionRow = None" "aq_escalatedAt questionRow = None" "aq_entityType questionRow = ''Expense''"
  by (simp_all add: questionRow_def newApproval_def question_def exampleScope_def exampleUser_def approvalSteps_def stepAt_def
      approvalExpiry_def numberOf_def)

lemma question_asked: "\<exists>l. createApprovalRequest question exampleUser office =
    (Inr questionRow, office\<lparr>db_nextId := 51, db_approvals := [questionRow], db_audits := l\<rparr>)"
  by (simp add: createApprovalRequest_def svc_defs liftS_def assertRequestedScope_def question_def policyOf_def createApprovalTx_def
      bindT_def newIdT_def nowT_def tx_defs Let_def auditT_def questionRow_def)
    (rule exI, rule refl)

lemma question_decided: "\<exists>s'. decideApproval 50 APPROVED manager (office\<lparr>db_nextId := 51, db_approvals := [questionRow], db_audits := l\<rparr>) =
    (Inr (decided [JObject []] APPROVED (20005 * dayMs) questionRow), s') \<and>
    db_approvals s' = [decided [JObject []] APPROVED (20005 * dayMs) questionRow] \<and> db_approvalPolicies s' = []"
  by (simp add: decideApproval_def svc_defs liftS_def decideApprovalTx_def bindT_def nowT_def tx_defs visibleApproval_def find_first_def
      questionRow_simps exampleScope_def checkDecidable_def bindE_def requireE_def liftE_def policyOf_def checkRole_def stepOf_def stepAt_def
      approvalSteps_def stringsOf_def escalationRoles_def settleDecision_def newIdT_def Let_def count_where_def
      update_many_def auditT_def decided_same Let_def)

theorem approved_by_others_witness:
  "\<exists>s q. (approval_step rationalDecimal (\<lambda>_. []))\<^sup>*\<^sup>* office s \<and> q \<in> set (db_approvals s) \<and> aq_status q = APPROVED \<and> aq_requester q = Some 7 \<and>
     (\<exists>d \<in> set (db_decisions s). dn_request d = aq_id q \<and> dn_step d = 1 \<and> dn_status d = APPROVED \<and> aq_requester q \<noteq> Some (dn_approver d))"
proof -
  obtain l where 1: "createApprovalRequest question exampleUser office =
    (Inr questionRow, office\<lparr>db_nextId := 51, db_approvals := [questionRow], db_audits := l\<rparr>)" using question_asked by blast
  let ?q = "decided [JObject []] APPROVED (20005 * dayMs) questionRow"
  obtain s' where 2: "decideApproval 50 APPROVED manager (office\<lparr>db_nextId := 51, db_approvals := [questionRow], db_audits := l\<rparr>) = (Inr ?q, s')"
      and s': "db_approvals s' = [?q]" "db_approvalPolicies s' = []"
    using question_decided by blast
  have run: "(approval_step rationalDecimal (\<lambda>_. []))\<^sup>*\<^sup>* office s'"
    by (rule rtranclp.rtrancl_into_rtrancl [OF r_into_rtranclp])
      (rule step_ask [OF 1], rule step_decide [OF _ 2], simp add: verdict_def)
  have q: "aq_status ?q = APPROVED" "aq_requester ?q = Some 7" "aq_entityType ?q = ''Expense''" "aq_policy ?q = None"
    by (simp_all add: decided_def Let_def questionRow_simps)
  have "int (length (approvalSteps (policyRow [] ?q))) = 1" by (simp add: policyRow_def q approvalSteps_def)
  then have "\<exists>d \<in> set (db_decisions s'). dn_request d = aq_id ?q \<and> dn_step d = 1 \<and> dn_status d = APPROVED \<and> aq_requester ?q \<noteq> Some (dn_approver d)"
    using approved_by_others [OF run office_board, of ?q 1] s' q by simp
  with run s'(1) q show ?thesis by (intro exI [of _ s'] exI [of _ ?q]) simp
qed

theorem decide_authorised_witness:
  "\<exists>(s :: hr_db) row s' q d. decideApproval 50 APPROVED manager s = (Inr row, s') \<and> q \<in> set (db_approvals s) \<and> aq_requester q = Some 7 \<and>
     db_decisions s' = [d] \<and> dn_approver d = 8 \<and> dn_status d = APPROVED \<and> aq_status row = APPROVED"
proof -
  let ?s = "office\<lparr>db_nextId := 51, db_approvals := [questionRow], db_audits := []\<rparr>"
  obtain s' where 2: "decideApproval 50 APPROVED manager ?s = (Inr (decided [JObject []] APPROVED (20005 * dayMs) questionRow), s')"
    using question_decided by blast
  from decide_authorised [OF 2] obtain d where "db_decisions s' = [d]" "dn_approver d = 8" "dn_status d = APPROVED" by auto
  moreover have "aq_status (decided [JObject []] APPROVED (20005 * dayMs) questionRow) = APPROVED" "aq_requester questionRow = Some 7"
    by (simp_all add: decided_def Let_def questionRow_simps)
  ultimately show ?thesis using 2
    by (rule_tac exI [of _ ?s], rule_tac exI, rule_tac exI [of _ s'], rule_tac exI [of _ questionRow], rule_tac exI [of _ d]) simp
qed

text \<open>A purchase request, drafted, submitted and approved.\<close>

definition wanted :: request_dto where
  "wanted = \<lparr>rqd_warehouse = 1, rqd_supplier = None, rqd_neededBy = None, rqd_items = [\<lparr>rid_product = 5, rid_quantity = 4, rid_cost = 10\<rparr>]\<rparr>"

definition draftRow :: purchase_request where
  "draftRow = \<lparr>pq_id = 50, pq_number = ''PR-B-202410-000001'', pq_company = 1, pq_branch = 1, pq_warehouse = 1, pq_supplier = None,
     pq_requestedBy = Some 7, pq_approvedBy = None, pq_approvalRequest = None, pq_status = ''DRAFT'', pq_neededBy = None,
     pq_requestedAt = None, pq_approvedAt = None, pq_convertedAt = None, pq_order = None\<rparr>"

lemma user_sub: "us_sub exampleUser = 7"
  by (simp add: exampleUser_def)

lemma request_drafted: "\<exists>t l. createRequest wanted exampleUser office = (Inr draftRow,
    office\<lparr>db_numbering := t, db_nextId := 51, db_requests := [draftRow],
      db_requestItems := [\<lparr>rqi_request = 50, rqi_product = 5, rqi_quantity = 4, rqi_cost = 10\<rparr>], db_audits := l\<rparr>)"
proof -
  obtain t where t: "numberT exampleScope ''PURCHASE_REQUEST'' ''PR'' office = Inr (''PR'' @ ''-B-202410-000001'', office\<lparr>db_numbering := t\<rparr>)"
    using firstNumber [of office "''PURCHASE_REQUEST''" "''PR''"] by auto
  have w: "companyOfBranch (Suc 0) (Suc 0) office"
    by (simp add: companyOfBranch_def emptyAccounting_def)
  show ?thesis
    by (simp add: createRequest_def svc_defs liftS_def wanted_def findWarehouse_def find_first_def w companyProducts_def exampleScope_simps
        deliveryProduct_def createRequestTx_def bindT_def tx_defs t [simplified] newIdT_def Let_def auditT_def draftRow_def user_sub)
      (intro exI, rule refl)
qed

definition waiting :: "hr_db \<Rightarrow> bool" where
  "waiting s \<longleftrightarrow> db_approvals s = [newApproval exampleScope (requestApproval draftRow None 40) None exampleUser 51 (20005 * dayMs)] \<and>
     db_requests s = [draftRow\<lparr>pq_status := ''PENDING_APPROVAL'', pq_approvalRequest := Some 51, pq_requestedAt := Some (20005 * dayMs)\<rparr>] \<and>
     db_approvalPolicies s = [] \<and> db_decisions s = [] \<and> db_now s = 20005 * dayMs"

lemma request_submitted: "\<exists>x s'. submitRequest rationalDecimal 50 None exampleUser (office\<lparr>db_numbering := t, db_nextId := 51,
     db_requests := [draftRow], db_requestItems := [\<lparr>rqi_request = 50, rqi_product = 5, rqi_quantity = 4, rqi_cost = 10\<rparr>],
     db_audits := l\<rparr>) = (Inr x, s') \<and> waiting s'"
proof -
  have a: "requestAmount rationalDecimal [\<lparr>rqi_request = 50, rqi_product = 5, rqi_quantity = 4, rqi_cost = 10\<rparr>] = 40"
    by code_simp
  show ?thesis
    by (simp add: submitRequest_def svc_defs liftS_def requestS_def findRequest_def find_first_def draftRow_def exampleScope_simps
        itemsOfRequest_def updateRequests_def count_where_def update_many_def pendingApproval_def find_ordered_def sortBy_def a
        askApproval_def createApprovalRequest_def assertRequestedScope_def requestApproval_def policyOf_def createApprovalTx_def
        bindT_def newIdT_def nowT_def tx_defs Let_def auditT_def linkApproval_def submitted_def auditS_def waiting_def orElse_def newApproval_def)
qed

lemma request_decided:
  assumes "waiting s"
  shows "\<exists>x s'. decideRequest 50 APPROVED manager s = (Inr x, s') \<and> (\<exists>y. db_requests s' = [y] \<and> pq_status y = ''APPROVED'')"
proof -
  obtain q where a: "db_approvals s = [q]" "aq_id q = 51" "aq_company q = 1" "aq_branch q = Some 1" "aq_status q = PENDING" "aq_requester q = Some 7"
      "aq_expiresAt q = None" "aq_policy q = None" "aq_currentStep q = 1" "aq_delegatedTo q = None" "aq_escalatedAt q = None"
    using assms by (simp add: waiting_def newApproval_def requestApproval_def exampleScope_simps user_sub approvalSteps_def stepAt_def
        approvalExpiry_def numberOf_def)
  obtain y where r: "db_requests s = [y]" "pq_id y = 50" "pq_company y = 1" "pq_branch y = 1" "pq_status y = ''PENDING_APPROVAL''"
      "pq_approvalRequest y = Some 51"
    using assms by (simp add: waiting_def draftRow_def)
  have s: "db_approvalPolicies s = []" "db_decisions s = []" "db_now s = 20005 * dayMs" using assms by (simp_all add: waiting_def)
  obtain s1 where d: "decideApproval 51 APPROVED manager s = (Inr (decided [JObject []] APPROVED (20005 * dayMs) q), s1)"
      and s1: "db_requests s1 = [y]"
    by (simp add: decideApproval_def svc_defs liftS_def decideApprovalTx_def bindT_def nowT_def tx_defs visibleApproval_def find_first_def
      a r s exampleScope_def checkDecidable_def bindE_def requireE_def liftE_def policyOf_def checkRole_def stepOf_def stepAt_def
      approvalSteps_def stringsOf_def escalationRoles_def settleDecision_def newIdT_def Let_def count_where_def
      update_many_def auditT_def decided_same)
  have "aq_status (decided [JObject []] APPROVED (20005 * dayMs) q) = APPROVED" by (simp add: decided_def Let_def a)
  then show ?thesis
    by (simp add: decideRequest_def svc_defs liftS_def requestS_def findRequest_def find_first_def r d s1 exampleScope_simps
        updateRequests_def count_where_def update_many_def requestDecided_def auditS_def auditT_def tx_defs bindT_def)
qed

lemma request_run: "\<exists>s x. (approval_step rationalDecimal (\<lambda>_. []))\<^sup>*\<^sup>* office s \<and> db_requests s = [x] \<and> pq_status x = ''APPROVED''"
proof -
  obtain x1 s1 where 1: "createRequest wanted exampleUser office = (x1, s1)"
      and s1: "\<exists>x s'. submitRequest rationalDecimal 50 None exampleUser s1 = (Inr x, s') \<and> waiting s'"
    using request_drafted request_submitted by metis
  then obtain x2 s2 where 2: "submitRequest rationalDecimal 50 None exampleUser s1 = (x2, s2)" and w: "waiting s2" by blast
  obtain x3 s3 y where 3: "decideRequest 50 APPROVED manager s2 = (x3, s3)" and s3: "db_requests s3 = [y]" "pq_status y = ''APPROVED''"
    using request_decided [OF w] by blast
  have "(approval_step rationalDecimal (\<lambda>_. []))\<^sup>*\<^sup>* office s3"
    by (rule rtranclp.rtrancl_into_rtrancl [OF rtranclp.rtrancl_into_rtrancl [OF r_into_rtranclp]])
      (rule step_draft [OF 1], rule step_submit [OF 2], rule step_decideRequest [OF _ 3], simp add: verdict_def)
  then show ?thesis using s3 by blast
qed


theorem purchase_requests_typed_witness:
  "\<exists>s x. (approval_step rationalDecimal (\<lambda>_. []))\<^sup>*\<^sup>* office s \<and> db_requests s = [x] \<and> pq_status x = ''APPROVED'' \<and> pq_order x = None"
proof -
  obtain s x where run: "(approval_step rationalDecimal (\<lambda>_. []))\<^sup>*\<^sup>* office s" and x: "db_requests s = [x]" "pq_status x = ''APPROVED''"
    using request_run by blast
  from purchase_requests_typed [OF run office_board, of x] x show ?thesis using run by auto
qed

text \<open>The approval of a waiting request was decided in the inbox.\<close>

definition decidedElsewhere :: hr_db where
  "decidedElsewhere = office\<lparr>db_requests := [draftRow\<lparr>pq_status := ''PENDING_APPROVAL'', pq_approvalRequest := Some 51\<rparr>],
     db_approvals := [decided [JObject []] APPROVED (20005 * dayMs) (newApproval exampleScope (requestApproval draftRow None 40) None exampleUser 51 (20005 * dayMs))]\<rparr>"

theorem stuck_request_witness:
  "refused (decideRequest 50 REJECTED manager) decidedElsewhere \<and> refused (cancelRequest 50 exampleUser) decidedElsewhere"
proof -
  let ?x = "draftRow\<lparr>pq_status := ''PENDING_APPROVAL'', pq_approvalRequest := Some 51\<rparr>"
  have "\<forall>q \<in> set (db_approvals decidedElsewhere). aq_id q = 51 \<longrightarrow> aq_status q \<noteq> PENDING"
    by (simp add: decidedElsewhere_def decided_def Let_def newApproval_def)
  from stuck_request [OF _ _ _ _ this, of ?x REJECTED manager exampleUser] show ?thesis
    by (simp add: decidedElsewhere_def draftRow_def)
qed

section \<open>A leave request that its requester reviews\<close>

definition onLeave :: hr_db where
  "onLeave = office\<lparr>db_employees := [\<lparr>em_id = 3, em_company = 1, em_branch = Some 1, em_user = Some 7, em_department = None, em_position = None,
       em_manager = None, em_number = ''E'', em_fullName = ''E'', em_email = None, em_phone = None, em_employment = ''PERMANENT'', em_hireDate = 0,
       em_contractEnd = None, em_timezone = ''UTC'', em_isActive = True\<rparr>],
     db_leaves := [\<lparr>lv_id = 4, lv_company = 1, lv_employee = 3, lv_type = 5, lv_start = 0, lv_end = 0, lv_days = 1, lv_status = ''SUBMITTED'',
       lv_approval = Some 50\<rparr>],
     db_approvalPolicies := [\<lparr>apo_id = 6, apo_company = 1, apo_code = ''LEAVE_REQUEST'', apo_name = ''L'', apo_entityType = ''LeaveRequest'',
       apo_conditions = None, apo_steps = JArray [JObject [], JObject []], apo_isActive = True\<rparr>],
     db_approvals := [questionRow\<lparr>aq_entityType := ''LeaveRequest'', aq_entity := identText 4, aq_policy := Some 6\<rparr>]\<rparr>"

lemma onLeave_found: "branchEmployeeIds exampleScope onLeave = [3]"
    "find_first (\<lambda>x. lv_id x = 4 \<and> lv_company x = 1 \<and> lv_employee x = 3) (db_leaves onLeave) =
       Some \<lparr>lv_id = 4, lv_company = 1, lv_employee = 3, lv_type = 5, lv_start = 0, lv_end = 0, lv_days = 1, lv_status = ''SUBMITTED'',
         lv_approval = Some 50\<rparr>"
    "find_first (\<lambda>x. aq_id x = 50 \<and> aq_company x = 1 \<and> aq_branch x = Some 1 \<and> aq_status x = PENDING) (db_approvals onLeave) =
       Some (questionRow\<lparr>aq_entityType := ''LeaveRequest'', aq_entity := identText 4, aq_policy := Some 6\<rparr>)"
  by (simp_all add: onLeave_def branchEmployeeIds_def exampleScope_simps find_first_def questionRow_simps)

text \<open>User 7 asked; user 7 approves, at the first of the two steps of the policy.\<close>

theorem leave_review_skips_policy_witness:
  "\<exists>l s q. reviewLeave 4 \<lparr>rvd_status = APPROVED, rvd_approvedMinutes = None\<rparr> exampleUser onLeave = (Inr l, s) \<and> q \<in> set (db_approvals s) \<and>
     aq_requester q = Some (us_sub exampleUser) \<and> aq_status q = APPROVED \<and> aq_currentStep q = 1 \<and>
     length (approvalSteps (policyRow (db_approvalPolicies onLeave) q)) = 2"
proof -
  let ?v = "\<lparr>rvd_status = APPROVED, rvd_approvedMinutes = None\<rparr>"
  let ?q = "questionRow\<lparr>aq_entityType := ''LeaveRequest'', aq_entity := identText 4, aq_policy := Some 6\<rparr>"
  have "\<exists>l s. reviewLeave 4 ?v exampleUser onLeave = (Inr l, s) \<and> lv_approval l = Some 50"
    by (simp add: reviewLeave_def svc_defs liftS_def reviewLeaveTx_def bindT_def tx_defs onLeave_found [simplified]
        exampleScope_simps Let_def update_many_def reviewApproval_def questionRow_simps newIdT_def nowT_def auditT_def statusText_def)
  then obtain l s where run: "reviewLeave 4 ?v exampleUser onLeave = (Inr l, s)" and l: "lv_approval l = Some 50" by blast
  have "\<exists>q' \<in> set (db_approvals s). q' = ?q\<lparr>aq_status := APPROVED, aq_decidedAt := Some (db_now onLeave)\<rparr>"
    by (rule leave_review_skips_policy [OF run _ exampleScope_of_user l]) (simp_all add: onLeave_def questionRow_simps exampleScope_simps)
  then show ?thesis using run
    by (intro exI [of _ l] exI [of _ s] exI [of _ "?q\<lparr>aq_status := APPROVED, aq_decidedAt := Some (db_now onLeave)\<rparr>"])
      (simp add: questionRow_simps user_sub policyRow_def find_first_def onLeave_def approvalSteps_def)
qed

end
