(* ===== verification/ApprovalSweeps.thy ===== *)
theory ApprovalSweeps
  imports ApprovalRuns "HOL-Library.Multiset"
begin

text \<open>
  The worker's sweep over overdue approvals: each one it takes is escalated once, with a new deadline in the future,
  or expires; fifty a sweep, so that enough sweeps leave none overdue.
\<close>

section \<open>Deadlines of an escalation\<close>

text \<open>Up to 2^50, rounding moves a number by at most a quarter.\<close>

lemma double_near:
  assumes "0 < x" and "x \<le> 2 ^ 50"
  shows "\<exists>y. double x = Fin y \<and> \<bar>y - x\<bar> \<le> 1 / 4"
proof -
  let ?e = "max (binaryExponent x - 52) (- 1074)"
  have "pow2 (binaryExponent x) \<le> 2 ^ 51" using binaryExponent_upper [OF assms(1)] assms(2) by simp
  then have "(2 :: rat) powi binaryExponent x \<le> 2 powi 51" by (simp add: pow2_powi)
  then have "binaryExponent x \<le> 51" using power_int_strict_increasing [of 51 "binaryExponent x" "2 :: rat"] by force
  then have "(2 :: rat) powi ?e \<le> 2 powi (- 1)" by (intro power_int_increasing) simp_all
  then have e: "pow2 ?e \<le> 1 / 2" by (simp add: pow2_powi)
  have p: "0 < pow2 ?e" by simp
  have "\<bar>r * d - x\<bar> = \<bar>r - x / d\<bar> * d" if "0 < d" for r d :: rat
  proof -
    have "r * d - x = (r - x / d) * d" using that by (simp add: left_diff_distrib)
    then show ?thesis using that by (simp only: abs_mult abs_of_pos)
  qed
  from this [OF p, of "of_int (roundHalfEven (x / pow2 ?e))"]
  have "\<bar>roundPositive x - x\<bar> = \<bar>of_int (roundHalfEven (x / pow2 ?e)) - x / pow2 ?e\<bar> * pow2 ?e"
    by (simp only: roundPositive_def Let_def)
  also have "\<dots> \<le> 1 / 2 * (1 / 2)"
    by (intro mult_mono) (use e roundHalfEven_near in \<open>simp_all add: less_imp_le [OF pow2_pos]\<close>)
  finally have near: "\<bar>roundPositive x - x\<bar> \<le> 1 / 4" by simp
  have "roundPositive x < 2 powi 51" using near assms(2) unfolding abs_le_iff by simp
  also have "\<dots> < 2 powi 1024" by (rule power_int_strict_increasing) simp_all
  finally have "roundPositive x < pow2 1024" by (simp only: pow2_powi)
  then have "double x = Fin (roundPositive x)" using assms(1) by (simp add: double_def Let_def)
  then show ?thesis using near by blast
qed

lemma extensionMinutes_range: "\<exists>m. extensionMinutes step = Fin m \<and> 1 \<le> m \<and> m \<le> 43200"
proof -
  have "\<exists>m. mathMax (Fin 1) (mathMin x (Fin (30 * 24 * 60))) = Fin m \<and> 1 \<le> m \<and> m \<le> 43200" if "x \<noteq> NaN" for x
    using that by (cases x) (auto simp: mathMax_def mathMin_def)
  then show ?thesis unfolding extensionMinutes_def by (auto simp: orNumber_def)
qed

lemma extendedExpiry_later:
  assumes "0 \<le> t" and "t < 2 ^ 49"
  shows "t < extendedExpiry step t"
proof -
  obtain m where m: "extensionMinutes step = Fin m" "1 \<le> m" "m \<le> 43200" using extensionMinutes_range by blast
  have "0 < m * of_int minuteMs" "m * of_int minuteMs \<le> 2 ^ 50" using m by (simp_all add: minuteMs_def)
  from double_near [OF this] obtain y where y: "double (m * of_int minuteMs) = Fin y" "\<bar>y - m * of_int minuteMs\<bar> \<le> 1 / 4"
    by blast
  have "(of_int t :: rat) \<le> of_int (2 ^ 49)" using assms(2) by (simp only: of_int_le_iff)
  then have t: "(0 :: rat) \<le> of_int t" "(of_int t :: rat) \<le> 2 ^ 49" using assms(1) by simp_all
  have b: "59999 \<le> y" "y \<le> 2592000001" using y(2) m unfolding minuteMs_def abs_le_iff by simp_all
  then have "0 < of_int t + y" "of_int t + y \<le> 2 ^ 50" using t by simp_all
  from double_near [OF this] obtain z where z: "double (of_int t + y) = Fin z" "\<bar>z - (of_int t + y)\<bar> \<le> 1 / 4" by blast
  then have "of_int t + 1 \<le> z" using b unfolding abs_le_iff by linarith
  then have "of_int (t + 1) \<le> z" "0 \<le> z" using t(1) by simp_all
  then have "t + 1 \<le> \<lfloor>z\<rfloor>" by (simp only: le_floor_iff)
  moreover have "extendedExpiry step t = \<lfloor>z\<rfloor>" using \<open>0 \<le> z\<close> by (simp add: extendedExpiry_def m y z dateOf_def)
  ultimately show ?thesis by simp
qed

section \<open>One request of a sweep\<close>

text \<open>What a sweep makes of a row that is overdue at its time.\<close>

definition changed :: "int \<Rightarrow> approval_request \<Rightarrow> approval_request \<Rightarrow> bool" where
  "changed t q q' \<longleftrightarrow> q' = q\<lparr>aq_status := EXPIRED, aq_decidedAt := Some t\<rparr> \<or>
     (aq_escalatedAt q = None \<and> (\<exists>e c. t < e \<and> q' = q\<lparr>aq_escalatedAt := Some t, aq_expiresAt := Some e, aq_context := Some c\<rparr>))"

definition swept :: "ident set \<Rightarrow> int \<Rightarrow> approval_request \<Rightarrow> approval_request \<Rightarrow> bool" where
  "swept A t q q' \<longleftrightarrow> (if aq_id q \<in> A \<and> overdue t q then changed t q q' else q' = q)"

lemma changed_done: "changed t q q' \<Longrightarrow> \<not> overdue t q' \<and> aq_id q' = aq_id q"
  by (auto simp: changed_def overdue_def)

lemma swept_done: "swept A t q q' \<Longrightarrow> aq_id q' = aq_id q \<and> (overdue t q' \<longleftrightarrow> overdue t q \<and> aq_id q \<notin> A)"
  using changed_done by (auto simp: swept_def split: if_splits)

lemma swept_empty: "swept {} t q q' \<longleftrightarrow> q' = q"
  by (simp add: swept_def)

lemma swept_trans: "swept A t q q' \<Longrightarrow> swept B t q' q'' \<Longrightarrow> swept (A \<union> B) t q q''"
  using swept_done [of A t q q'] by (auto simp: swept_def split: if_splits)

lemma swept_update:
  assumes "\<And>q. q \<in> set qs \<Longrightarrow> aq_id q = i \<Longrightarrow> overdue t q \<and> P q \<and> changed t q (f q)" and "\<And>q. P q \<Longrightarrow> aq_id q = i"
  shows "list_all2 (swept {i} t) qs (update_many P f qs)"
  using assms by (auto simp: update_many_def list_all2_map2 swept_def intro!: list.rel_refl_strong)

lemma expireOne_swept:
  assumes "distinct (map aq_id (db_approvals s))" and "0 \<le> db_now s" and "db_now s < 2 ^ 49"
  shows "\<exists>s'. runTx (expireOneTx i) s = (Inr (), s') \<and> db_now s' = db_now s \<and>
    list_all2 (swept {i} (db_now s)) (db_approvals s) (db_approvals s')"
proof (cases "find_first (\<lambda>x. aq_id x = i) (db_approvals s)")
  case None
  then have "list_all2 (swept {i} (db_now s)) (db_approvals s) (db_approvals s)"
    by (auto simp: find_first_None swept_def intro!: list.rel_refl_strong)
  then show ?thesis using None by (simp add: expireOneTx_def runTx_def bindT_def tx_defs nowT_def)
next
  case (Some q)
  have only: "x = q" if "x \<in> set (db_approvals s)" "aq_id x = i" for x
    using row_of_id [OF assms(1), of x q] that find_first_Some [OF Some] by simp
  show ?thesis
  proof (cases "overdue (db_now s) q")
    case False
    then have "list_all2 (swept {i} (db_now s)) (db_approvals s) (db_approvals s)"
      using only by (auto simp: swept_def intro!: list.rel_refl_strong)
    then show ?thesis using Some False by (simp add: expireOneTx_def runTx_def bindT_def tx_defs nowT_def)
  next
    case True
    let ?step = "rawStep (case aq_policy q of None \<Rightarrow> None | Some p \<Rightarrow> find_first (\<lambda>x. apo_id x = p) (db_approvalPolicies s)) q"
    let ?roles = "stringsOf ''escalationRoles'' ?step"
    show ?thesis
    proof (cases "aq_escalatedAt q = None \<and> ?roles \<noteq> []")
      case esc: True
      have "list_all2 (swept {i} (db_now s)) (db_approvals s) (update_many (\<lambda>x. aq_id x = i)
         (\<lambda>x. x\<lparr>aq_escalatedAt := Some (db_now s), aq_expiresAt := Some (extendedExpiry ?step (db_now s)),
             aq_context := Some (withRoles ?roles (aq_context q))\<rparr>) (db_approvals s))"
        by (rule swept_update) (use only True esc extendedExpiry_later [OF assms(2,3)] in \<open>auto simp: changed_def\<close>)
      then show ?thesis using Some True esc by (simp add: expireOneTx_def runTx_def bindT_def tx_defs nowT_def newIdT_def Let_def)
    next
      case esc: False
      have "list_all2 (swept {i} (db_now s)) (db_approvals s)
         (update_many (\<lambda>x. aq_id x = i \<and> aq_status x = PENDING \<and> aq_currentStep x = aq_currentStep q)
         (\<lambda>x. x\<lparr>aq_status := EXPIRED, aq_decidedAt := Some (db_now s)\<rparr>) (db_approvals s))"
        by (rule swept_update) (use only True in \<open>auto simp: changed_def overdue_def\<close>)
      then show ?thesis using Some True esc by (auto simp: expireOneTx_def runTx_def bindT_def tx_defs nowT_def Let_def)
    qed
  qed
qed

section \<open>Sweeps\<close>

lemma swept_all_trans: "list_all2 (swept A t) qs rs \<Longrightarrow> list_all2 (swept B t) rs us \<Longrightarrow> list_all2 (swept (A \<union> B) t) qs us"
  by (rule list_all2_trans) (rule swept_trans)

lemma swept_ids: "list_all2 (swept A t) qs rs \<Longrightarrow> map aq_id rs = map aq_id qs"
  by (induction rule: list_all2_induct) (auto dest: swept_done)

lemma swept_overdue: "list_all2 (swept A t) qs rs \<Longrightarrow>
    length (filter (overdue t) rs) = length (filter (\<lambda>q. aq_id q \<notin> A) (filter (overdue t) qs))"
  by (induction rule: list_all2_induct) (auto dest: swept_done)

lemma expireAll_swept:
  assumes "distinct (map aq_id (db_approvals s))" and "0 \<le> db_now s" and "db_now s < 2 ^ 49"
  shows "\<exists>s'. expireAll js s = (Inr (), s') \<and> db_now s' = db_now s \<and> list_all2 (swept (set js) (db_now s)) (db_approvals s) (db_approvals s')"
  using assms
proof (induction js arbitrary: s)
  case Nil
  have "list_all2 (swept {} t) qs qs" for t qs by (auto simp: swept_empty intro: list.rel_refl_strong)
  then show ?case by (simp add: returnS_def)
next
  case (Cons i js)
  obtain s1 where 1: "runTx (expireOneTx i) s = (Inr (), s1)" "db_now s1 = db_now s"
      "list_all2 (swept {i} (db_now s)) (db_approvals s) (db_approvals s1)"
    using expireOne_swept [OF Cons.prems] by blast
  have "distinct (map aq_id (db_approvals s1))" using Cons.prems(1) swept_ids [OF 1(3)] by simp
  then obtain s2 where 2: "expireAll js s1 = (Inr (), s2)" "db_now s2 = db_now s1"
      "list_all2 (swept (set js) (db_now s)) (db_approvals s1) (db_approvals s2)"
    using Cons.IH [of s1] Cons.prems 1(2) by auto
  have "list_all2 (swept (set (i # js)) (db_now s)) (db_approvals s) (db_approvals s2)"
    using swept_all_trans [OF 1(3) 2(3)] by simp
  then show ?case using 1 2 by simp
qed

text \<open>The part of the overdue rows a sweep leaves.\<close>

lemma batch_rest:
  assumes "distinct (map aq_id xs)"
  shows "length (filter (\<lambda>q. aq_id q \<notin> set (map aq_id (take n (sort_key k xs)))) xs) = length xs - n"
proof -
  let ?L = "sort_key k xs" and ?P = "\<lambda>q. aq_id q \<notin> set (map aq_id (take n (sort_key k xs)))"
  have "mset (map aq_id ?L) = mset (map aq_id xs)" by (simp only: mset_map mset_sort)
  then have d: "distinct (map aq_id (take n ?L @ drop n ?L))" using assms mset_eq_imp_distinct_iff [of "map aq_id ?L" "map aq_id xs"] by simp
  have "mset (filter ?P ?L) = mset (filter ?P xs)" by (simp only: mset_filter mset_sort)
  then have "length (filter ?P xs) = length (filter ?P ?L)" by (rule mset_eq_length [symmetric])
  also have "filter ?P ?L = filter ?P (take n ?L) @ filter ?P (drop n ?L)" by (simp only: filter_append [symmetric] append_take_drop_id)
  also have "filter ?P (take n ?L) = []" by (simp add: filter_empty_conv)
  also have "filter ?P (drop n ?L) = drop n ?L" using d unfolding map_append distinct_append by (auto simp: filter_id_conv)
  finally show ?thesis by simp
qed

definition sweep :: "hr_db \<Rightarrow> hr_db" where
  "sweep s = snd (processApprovalExpiries s)"

lemma sweep_effect:
  assumes "distinct (map aq_id (db_approvals s))" and "0 \<le> db_now s" and "db_now s < 2 ^ 49"
  shows "db_now (sweep s) = db_now s \<and> list_all2 (swept (set (sweepBatch s)) (db_now s)) (db_approvals s) (db_approvals (sweep s)) \<and>
    length (filter (overdue (db_now s)) (db_approvals (sweep s))) = length (filter (overdue (db_now s)) (db_approvals s)) - 50"
proof -
  obtain s' where s': "expireAll (sweepBatch s) s = (Inr (), s')" "db_now s' = db_now s"
      "list_all2 (swept (set (sweepBatch s)) (db_now s)) (db_approvals s) (db_approvals s')"
    using expireAll_swept [OF assms] by blast
  have e: "sweep s = s'" by (simp add: sweep_def processApprovalExpiries_def svc_defs s'(1))
  have "distinct (map aq_id (filter (overdue (db_now s)) (db_approvals s)))" by (rule distinct_map_filter [OF assms(1)])
  from batch_rest [OF this, of 50 "\<lambda>q. the (aq_expiresAt q)"] swept_overdue [OF s'(3)] show ?thesis
    using s' e by (simp add: sweepBatch_def)
qed

text \<open>
  C17. Sweeps leave no approval overdue: after enough sweeps for the overdue ones, fifty each, there is none, and
  every row is either as it was, or was overdue and has expired, or was overdue and not yet escalated and has now
  been escalated with a deadline in the future.
\<close>

theorem sweeps_clear_overdue:
  assumes "distinct (map aq_id (db_approvals s))" and "0 \<le> db_now s" and "db_now s < 2 ^ 49"
    and "length (filter (overdue (db_now s)) (db_approvals s)) \<le> 50 * k"
  shows "filter (overdue (db_now s)) (db_approvals ((sweep ^^ k) s)) = [] \<and>
    list_all2 (\<lambda>q q'. if overdue (db_now s) q then changed (db_now s) q q' else q' = q) (db_approvals s) (db_approvals ((sweep ^^ k) s))"
  using assms
proof (induction k arbitrary: s)
  case 0
  then show ?case by (auto simp: filter_empty_conv intro!: list.rel_refl_strong)
next
  case (Suc k)
  note e = sweep_effect [OF Suc.prems(1-3)]
  then have "distinct (map aq_id (db_approvals (sweep s)))" using Suc.prems(1) swept_ids by metis
  note IH = Suc.IH [OF this, unfolded conjunct1 [OF e]]
  let ?t = "db_now s"
  have f: "filter (overdue ?t) (db_approvals ((sweep ^^ k) (sweep s))) = []"
    and l: "list_all2 (\<lambda>q q'. if overdue ?t q then changed ?t q q' else q' = q) (db_approvals (sweep s)) (db_approvals ((sweep ^^ k) (sweep s)))"
    using IH e Suc.prems by simp_all
  have "list_all2 (\<lambda>q q'. if overdue ?t q then changed ?t q q' else q' = q) (db_approvals s) (db_approvals ((sweep ^^ k) (sweep s)))"
    by (rule list_all2_trans [OF _ conjunct1 [OF conjunct2 [OF e]] l])
      (auto simp: swept_def split: if_splits dest: changed_done)
  then show ?case using f by (simp add: funpow_swap1)
qed

section \<open>Two overdue requests\<close>

definition lateRow :: "ident \<Rightarrow> ident option \<Rightarrow> approval_request" where
  "lateRow i p = questionRow\<lparr>aq_id := i, aq_policy := p, aq_expiresAt := Some 1000\<rparr>"

definition lateOffice :: hr_db where
  "lateOffice = office\<lparr>db_approvalPolicies := [\<lparr>apo_id = 6, apo_company = 1, apo_code = ''P'', apo_name = ''P'', apo_entityType = ''Expense'',
       apo_conditions = None, apo_steps = JArray [JObject [(''escalationRoles'', JArray [JString ''OWNER''])]], apo_isActive = True\<rparr>],
     db_approvals := [lateRow 50 None, lateRow 51 (Some 6)]\<rparr>"

text \<open>One sweep: the first expires, the second has a role to be escalated to or expires too; neither is overdue any more.\<close>

theorem sweeps_clear_overdue_witness:
  "length (filter (overdue (db_now lateOffice)) (db_approvals lateOffice)) = 2 \<and>
   filter (overdue (db_now lateOffice)) (db_approvals (sweep lateOffice)) = [] \<and>
   (\<exists>q q'. db_approvals (sweep lateOffice) = [q, q'] \<and> changed (db_now lateOffice) (lateRow 50 None) q \<and>
      changed (db_now lateOffice) (lateRow 51 (Some 6)) q')"
proof -
  have o: "overdue (db_now lateOffice) (lateRow 50 None)" "overdue (db_now lateOffice) (lateRow 51 (Some 6))"
    by (simp_all add: overdue_def lateRow_def lateOffice_def questionRow_simps dayMs_def)
  have n: "length (filter (overdue (db_now lateOffice)) (db_approvals lateOffice)) = 2" using o by (simp add: lateOffice_def)
  have "filter (overdue (db_now lateOffice)) (db_approvals ((sweep ^^ 1) lateOffice)) = [] \<and>
    list_all2 (\<lambda>q q'. if overdue (db_now lateOffice) q then changed (db_now lateOffice) q q' else q' = q)
      (db_approvals lateOffice) (db_approvals ((sweep ^^ 1) lateOffice))"
    by (rule sweeps_clear_overdue) (simp_all add: n, simp_all add: lateOffice_def lateRow_def dayMs_def)
  moreover have "db_approvals lateOffice = [lateRow 50 None, lateRow 51 (Some 6)]" by (simp add: lateOffice_def)
  ultimately show ?thesis using n o by (auto simp: list_all2_Cons1)
qed

end
