(* ===== verification/SaleTables.thy ===== *)
theory SaleTables
  imports Approvals
begin

text \<open>
  The tables of the selling side: prices and barcodes, customers, promotions, loyalty, cashier shifts, sales with
  their items, payments and tax documents, and the devices and receipts of the offline replay. A sale has the
  branch and the shift it was made in; a sale return is a row the shift summary reads, the returns service being
  outside the model. Decimal columns are rationals, timestamps integers in milliseconds.
\<close>

record product_price =
  pp_product :: ident
  pp_variant :: "ident option"
  pp_branch :: "ident option"
  pp_segment :: string
  pp_unitCode :: "string option"
  pp_minQty :: rat
  pp_price :: rat
  pp_from :: "int option"
  pp_to :: "int option"
  pp_isActive :: bool
  pp_createdAt :: int

record product_barcode =
  bc_product :: ident
  bc_variant :: "ident option"
  bc_unit :: "ident option"
  bc_code :: string
  bc_unitCode :: "string option"
  bc_factor :: rat

record customer =
  cu_id :: ident
  cu_company :: "ident option"
  cu_name :: string
  cu_type :: string
  cu_taxId :: "string option"
  cu_email :: "string option"
  cu_phone :: "string option"
  cu_address :: "string option"
  cu_emailVerifiedAt :: "int option"
  cu_phoneVerifiedAt :: "int option"

record promo_rule =
  pm_id :: ident
  pm_company :: ident
  pm_branch :: ident
  pm_name :: string
  pm_code :: string
  pm_type :: string
  pm_value :: rat
  pm_minSubtotal :: rat
  pm_maxDiscount :: "rat option"
  pm_memberTier :: "string option"
  pm_channel :: string
  pm_productIds :: "json option"
  pm_minQuantity :: "int option"
  pm_buyQuantity :: "int option"
  pm_getQuantity :: "int option"
  pm_usageLimit :: "int option"
  pm_perCustomerLimit :: "int option"
  pm_startsAt :: int
  pm_endsAt :: "int option"
  pm_isActive :: bool
  pm_createdBy :: "ident option"
  pm_createdAt :: int

record redemption =
  rd_id :: ident
  rd_company :: ident
  rd_branch :: ident
  rd_rule :: ident
  rd_customer :: "ident option"
  rd_referenceType :: string
  rd_reference :: ident
  rd_discount :: rat

record loyalty_program =
  lp_id :: ident
  lp_company :: ident
  lp_earnRate :: rat
  lp_redemptionRate :: rat
  lp_minimumRedeem :: int
  lp_tiers :: json
  lp_isActive :: bool
  lp_pointsExpireDays :: "int option"
  lp_createdAt :: int

record loyalty_account =
  la_id :: ident
  la_program :: ident
  la_customer :: ident
  la_points :: int
  la_lifetime :: int
  la_tier :: string

record loyalty_transaction =
  lt_account :: ident
  lt_type :: string
  lt_points :: int
  lt_balanceAfter :: int
  lt_referenceType :: string
  lt_reference :: ident
  lt_expiresAt :: "int option"

record cashier_shift =
  sh_id :: ident
  sh_user :: ident
  sh_openedAt :: int
  sh_closedAt :: "int option"
  sh_openingCash :: rat
  sh_closingCash :: "rat option"
  sh_expectedCash :: "rat option"
  sh_difference :: "rat option"
  sh_status :: string

record cash_movement =
  cm_id :: ident
  cm_shift :: ident
  cm_type :: string
  cm_amount :: rat
  cm_reason :: string
  cm_createdBy :: ident
  cm_createdAt :: int

record sale =
  sl_id :: ident
  sl_number :: string
  sl_branch :: ident
  sl_warehouse :: ident
  sl_customer :: "ident option"
  sl_shift :: "ident option"
  sl_status :: string
  sl_subtotal :: rat
  sl_discount :: rat
  sl_tax :: rat
  sl_total :: rat
  sl_costTotal :: rat
  sl_createdAt :: int
  sl_event :: "ident option"
  sl_taxDocument :: "ident option"

record sale_item =
  sit_sale :: ident
  sit_product :: ident
  sit_variant :: "ident option"
  sit_unit :: "ident option"
  sit_quantity :: int
  sit_unitPrice :: rat
  sit_unitCost :: rat
  sit_unitCode :: string
  sit_unitQuantity :: int
  sit_factor :: int
  sit_barcode :: "string option"
  sit_subtotal :: rat
  sit_net :: rat
  sit_tax :: rat
  sit_gross :: rat
  sit_taxCode :: "ident option"

record payment =
  py_id :: ident
  py_number :: string
  py_sale :: "ident option"
  py_order :: "ident option"
  py_method :: string
  py_provider :: "string option"
  py_externalRef :: "string option"
  py_amount :: rat
  py_status :: string
  py_paidAt :: "int option"
  py_event :: "ident option"

record tax_document =
  td_id :: ident
  td_company :: ident
  td_branch :: "ident option"
  td_number :: string
  td_type :: string
  td_status :: string
  td_sourceType :: string
  td_source :: ident
  td_issueDate :: int
  td_period :: string
  td_counterpartyName :: "string option"
  td_counterpartyTaxId :: "string option"
  td_net :: rat
  td_tax :: rat
  td_gross :: rat

record sale_return =
  sr_sale :: ident
  sr_warehouse :: ident
  sr_status :: string
  sr_refundMethod :: "string option"
  sr_refundAmount :: rat
  sr_approvedBy :: "ident option"
  sr_postedAt :: "int option"

record device =
  de_id :: ident
  de_company :: ident
  de_branch :: "ident option"
  de_code :: string
  de_name :: string
  de_platform :: string
  de_appVersion :: "string option"
  de_lastSeenAt :: "int option"
  de_isActive :: bool

record offline_transaction =
  ot_id :: ident
  ot_device :: ident
  ot_localId :: string
  ot_sequence :: int
  ot_type :: string
  ot_payload :: json
  ot_status :: string
  ot_entity :: "ident option"
  ot_conflict :: "string option"
  ot_error :: "string option"
  ot_attempts :: nat
  ot_nextRetryAt :: "int option"
  ot_deadLetteredAt :: "int option"
  ot_processedAt :: "int option"

record system_setting =
  ss_company :: "ident option"
  ss_namespace :: string
  ss_key :: string
  ss_value :: json

record sales_db = approvals_db +
  db_settings :: "system_setting list"
  db_prices :: "product_price list"
  db_barcodes :: "product_barcode list"
  db_customers :: "customer list"
  db_promos :: "promo_rule list"
  db_redemptions :: "redemption list"
  db_programs :: "loyalty_program list"
  db_accountsOfLoyalty :: "loyalty_account list"
  db_loyaltyLog :: "loyalty_transaction list"
  db_shifts :: "cashier_shift list"
  db_cash :: "cash_movement list"
  db_sales :: "sale list"
  db_saleItems :: "sale_item list"
  db_payments :: "payment list"
  db_taxDocuments :: "tax_document list"
  db_saleReturns :: "sale_return list"
  db_devices :: "device list"
  db_offline :: "offline_transaction list"

end
