(* ===== verification/SellingPrice.thy ===== *)
theory SellingPrice
  imports SaleTables
begin

text \<open>
  The price of a line: \<open>apps/api/src/common/product-pricing.ts\<close> ranks the price rows of a product,
  \<open>apps/api/src/common/transaction-uom.ts\<close> resolves what the line sells (unit, variant, barcode), how many base units
  that is, and asks for the price of the unit. Both only read.
\<close>

section \<open>Price rows\<close>

record price_query =
  q_company :: ident
  q_branch :: ident
  q_product :: ident
  q_quantity :: int
  q_segment :: "string option"
  q_unitCode :: "string option"
  q_factor :: int
  q_variant :: "ident option"
  q_fallback :: rat
  q_at :: int

text \<open>\<open>(segmentCode?.trim() || 'RETAIL').toUpperCase()\<close>; \<open>unitCode?.trim().toUpperCase() || null\<close>.\<close>

definition segmentOf :: "string option \<Rightarrow> string" where
  "segmentOf x = toUpperCase (orElse (cleanText x) ''RETAIL'')"

definition unitOf :: "string option \<Rightarrow> string option" where
  "unitOf x = map_option toUpperCase (cleanText x)"

definition unitCandidates :: "string option \<Rightarrow> string list" where
  "unitCandidates x = (case unitOf x of None \<Rightarrow> [] | Some u \<Rightarrow> [u, toLowerCase u, trim (the x)])"

definition priceApplies :: "price_query \<Rightarrow> 'b sales_db_scheme \<Rightarrow> product_price \<Rightarrow> bool" where
  "priceApplies q s r \<longleftrightarrow> pp_product r = q_product q \<and> pp_isActive r \<and> pp_minQty r \<le> of_int (q_quantity q) \<and>
     (let segment = segmentOf (q_segment q) in
      if segment = ''RETAIL'' then pp_segment r = ''RETAIL'' else List.member [segment, ''RETAIL''] (pp_segment r)) \<and>
     (case q_variant q of None \<Rightarrow> pp_variant r = None | Some v \<Rightarrow> pp_variant r = Some v \<or> pp_variant r = None) \<and>
     (pp_branch r = Some (q_branch q) \<or> pp_branch r = None) \<and>
     (case pp_from r of None \<Rightarrow> True | Some f \<Rightarrow> f \<le> q_at q) \<and> (case pp_to r of None \<Rightarrow> True | Some u \<Rightarrow> q_at q \<le> u) \<and>
     (unitOf (q_unitCode q) \<noteq> None \<longrightarrow> (case pp_unitCode r of None \<Rightarrow> True | Some u \<Rightarrow> List.member (unitCandidates (q_unitCode q)) u)) \<and>
     companyProduct (q_company q) (pp_product r) s"

text \<open>\<open>Number(p(b)) - Number(p(a))\<close>: rows with the feature come first.\<close>

definition featureScore :: "(product_price \<Rightarrow> bool) \<Rightarrow> product_price \<Rightarrow> product_price \<Rightarrow> int" where
  "featureScore p a b = of_bool (p b) - of_bool (p a)"

definition variantMatches :: "price_query \<Rightarrow> product_price \<Rightarrow> bool" where
  "variantMatches q r \<longleftrightarrow> q_variant q \<noteq> None \<and> pp_variant r = q_variant q"

definition unitMatches :: "price_query \<Rightarrow> product_price \<Rightarrow> bool" where
  "unitMatches q r \<longleftrightarrow> unitOf (q_unitCode q) \<noteq> None \<and> map_option toUpperCase (pp_unitCode r) = unitOf (q_unitCode q)"

definition comparePrices :: "price_query \<Rightarrow> product_price \<Rightarrow> product_price \<Rightarrow> int" where
  "comparePrices q a b =
     (let variantScore = featureScore (variantMatches q) a b;
          branchScore = featureScore (\<lambda>r. pp_branch r = Some (q_branch q)) a b;
          segmentScore = featureScore (\<lambda>r. pp_segment r = segmentOf (q_segment q)) a b;
          unitScore = featureScore (unitMatches q) a b;
          qtyScore = (if pp_minQty a < pp_minQty b then 1 else if pp_minQty b < pp_minQty a then - 1 else 0)
      in if variantScore \<noteq> 0 then variantScore
         else if branchScore \<noteq> 0 then branchScore
         else if segmentScore \<noteq> 0 then segmentScore
         else if unitScore \<noteq> 0 then unitScore
         else if qtyScore \<noteq> 0 then qtyScore
         else pp_createdAt b - pp_createdAt a)"

text \<open>
  The query takes at most 100 rows before they are ranked. A \<open>Decimal\<close> is truthy whatever it denotes. Every caller
  passes its fallback in both \<open>variantSalePrice\<close> and \<open>product.salePrice\<close>.
\<close>

definition candidatePrices :: "price_query \<Rightarrow> 'b sales_db_scheme \<Rightarrow> product_price list" where
  "candidatePrices q s = take 100 (filter (priceApplies q s) (db_prices s))"

definition resolveProductUnitPrice :: "decimal_ops \<Rightarrow> price_query \<Rightarrow> 'b sales_db_scheme \<Rightarrow> rat" where
  "resolveProductUnitPrice dec q s = (case sortBy (\<lambda>a b. comparePrices q a b \<le> 0) (candidatePrices q s) of
     [] \<Rightarrow> q_fallback q
   | r # _ \<Rightarrow>
       if \<not> present (pp_unitCode r) \<and> unitOf (q_unitCode q) \<noteq> None \<and> isSafeInteger (q_factor q) \<and> 1 < q_factor q
       then d_mul dec (pp_price r) (of_int (q_factor q)) else pp_price r)"

section \<open>The selling unit of a line\<close>

record uom_input =
  ui_quantity :: int
  ui_barcode :: "string option"
  ui_unit :: "ident option"
  ui_variant :: "ident option"

record uom_snapshot =
  us_variant :: "ident option"
  us_unit :: "ident option"
  us_unitCode :: string
  us_unitQuantity :: int
  us_factor :: int
  us_baseQuantity :: int
  us_barcode :: "string option"
  us_sellingPrice :: rat
  us_basePrice :: rat

text \<open>What the line sells, while it is being resolved; the factor is a number until it is checked.\<close>

record unit_choice =
  uc_variant :: "ident option"
  uc_unit :: "ident option"
  uc_code :: string
  uc_factor :: js_number
  uc_salePrice :: "rat option"

definition baseUnitOf :: "product \<Rightarrow> string" where
  "baseUnitOf p = toUpperCase (trim (if pr_unit p = '''' then ''PCS'' else pr_unit p))"

definition variantOf :: "ident option \<Rightarrow> 'b procurement_db_scheme \<Rightarrow> product_variant option" where
  "variantOf v s = (case v of None \<Rightarrow> None | Some i \<Rightarrow> find_first (\<lambda>x. va_id x = i) (db_variants s))"

text \<open>\<open>x.variant?.isActive\<close> and \<open>x.variant?.salePrice ? ... : keep\<close>.\<close>

definition variantActive :: "ident option \<Rightarrow> 'b procurement_db_scheme \<Rightarrow> bool" where
  "variantActive v s \<longleftrightarrow> (case variantOf v s of None \<Rightarrow> False | Some x \<Rightarrow> va_isActive x)"

definition variantPrice :: "ident option \<Rightarrow> 'b procurement_db_scheme \<Rightarrow> rat option" where
  "variantPrice v s = (case variantOf v s of None \<Rightarrow> None | Some x \<Rightarrow> va_salePrice x)"

definition orOption :: "'a option \<Rightarrow> 'a option \<Rightarrow> 'a option" where
  "orOption x y = (case x of None \<Rightarrow> y | Some v \<Rightarrow> Some v)"

definition chooseUnit :: "product \<Rightarrow> uom_input \<Rightarrow> 'b procurement_db_scheme \<Rightarrow> exn + unit_choice" where
  "chooseUnit p input s = (case ui_unit input of
     None \<Rightarrow> Inr \<lparr>uc_variant = ui_variant input, uc_unit = None, uc_code = baseUnitOf p, uc_factor = Fin 1, uc_salePrice = None\<rparr>
   | Some u \<Rightarrow>
       (case find_first (\<lambda>x. un_id x = u \<and> un_product x = pr_id p \<and> un_isActive x) (db_units s) of
          None \<Rightarrow> Inl (BadRequest ''ProductUnit tidak valid/aktif untuk produk yang dipilih.'')
        | Some unit \<Rightarrow>
            bindE (requireE (\<not> (ui_variant input \<noteq> None \<and> un_variant unit \<noteq> ui_variant input))
                     (BadRequest ''Variant tidak cocok dengan ProductUnit yang dipilih.'')) (\<lambda>_.
            bindE (requireE (\<not> (un_variant unit \<noteq> None \<and> \<not> variantActive (un_variant unit) s))
                     (BadRequest ''Variant ProductUnit sudah tidak aktif.'')) (\<lambda>_.
            Inr \<lparr>uc_variant = orOption (un_variant unit) (ui_variant input), uc_unit = Some (un_id unit),
                 uc_code = toUpperCase (trim (un_code unit)), uc_factor = Fin (of_int (un_factor unit)),
                 uc_salePrice = variantPrice (un_variant unit) s\<rparr>))))"

text \<open>A barcode on a unit.\<close>

definition unitByBarcode :: "product_barcode \<Rightarrow> unit_choice \<Rightarrow> 'b procurement_db_scheme \<Rightarrow> exn + unit_choice" where
  "unitByBarcode barcode c s = (case find_first (\<lambda>x. Some (un_id x) = bc_unit barcode \<and> un_isActive x) (db_units s) of
     None \<Rightarrow> Inl (BadRequest ''ProductUnit untuk barcode sudah tidak aktif.'')
   | Some unit \<Rightarrow>
       bindE (requireE (\<not> (uc_unit c \<noteq> None \<and> uc_unit c \<noteq> Some (un_id unit)))
                (BadRequest ''Barcode tidak cocok dengan ProductUnit yang dipilih.'')) (\<lambda>_.
       bindE (requireE (\<not> (un_variant unit \<noteq> None \<and> \<not> variantActive (un_variant unit) s))
                (BadRequest ''Variant ProductUnit untuk barcode sudah tidak aktif.'')) (\<lambda>_.
       Inr \<lparr>uc_variant = orOption (un_variant unit) (orOption (bc_variant barcode) (uc_variant c)), uc_unit = Some (un_id unit),
            uc_code = toUpperCase (trim (un_code unit)), uc_factor = Fin (of_int (un_factor unit)),
            uc_salePrice = orOption (variantPrice (un_variant unit) s) (uc_salePrice c)\<rparr>)))"

definition chooseByBarcode :: "product \<Rightarrow> string \<Rightarrow> unit_choice \<Rightarrow> 'b sales_db_scheme \<Rightarrow> exn + unit_choice" where
  "chooseByBarcode p code c s = (case find_first (\<lambda>x. bc_code x = code) (db_barcodes s) of
     None \<Rightarrow> Inl (BadRequest ''Barcode tidak valid untuk produk yang dipilih.'')
   | Some barcode \<Rightarrow>
       bindE (requireE (bc_product barcode = pr_id p) (BadRequest ''Barcode tidak valid untuk produk yang dipilih.'')) (\<lambda>_.
       bindE (if bc_unit barcode \<noteq> None then unitByBarcode barcode c s
              else Inr (c\<lparr>uc_factor := double (bc_factor barcode),
                          uc_code := (case map_option toUpperCase (cleanText (bc_unitCode barcode)) of None \<Rightarrow> baseUnitOf p | Some u \<Rightarrow> u),
                          uc_variant := orOption (bc_variant barcode) (uc_variant c)\<rparr>)) (\<lambda>d.
       bindE (requireE (\<not> (bc_variant barcode \<noteq> None \<and> uc_variant d \<noteq> None \<and> bc_variant barcode \<noteq> uc_variant d))
                (BadRequest ''Barcode tidak cocok dengan variant yang dipilih.'')) (\<lambda>_.
       bindE (requireE (\<not> (bc_variant barcode \<noteq> None \<and> \<not> variantActive (bc_variant barcode) s))
                (BadRequest ''Variant barcode sudah tidak aktif.'')) (\<lambda>_.
       Inr (d\<lparr>uc_salePrice := orOption (variantPrice (bc_variant barcode) s) (uc_salePrice d)\<rparr>))))))"

definition chooseByVariant :: "product \<Rightarrow> unit_choice \<Rightarrow> 'b procurement_db_scheme \<Rightarrow> exn + unit_choice" where
  "chooseByVariant p c s = (case uc_variant c of
     None \<Rightarrow> Inr c
   | Some v \<Rightarrow>
       (case find_first (\<lambda>x. va_id x = v \<and> va_product x = pr_id p \<and> va_isActive x) (db_variants s) of
          None \<Rightarrow> Inl (BadRequest ''Variant tidak valid/aktif untuk produk yang dipilih.'')
        | Some x \<Rightarrow> Inr (c\<lparr>uc_salePrice := orOption (va_salePrice x) (uc_salePrice c)\<rparr>)))"

text \<open>\<open>Number.isSafeInteger\<close> on a number.\<close>

definition safeInteger :: "js_number \<Rightarrow> int option" where
  "safeInteger n = (case n of Fin x \<Rightarrow> if of_int \<lfloor>x\<rfloor> = x \<and> isSafeInteger \<lfloor>x\<rfloor> then Some \<lfloor>x\<rfloor> else None | _ \<Rightarrow> None)"

text \<open>
  The conversion and the price. A product of the quantity and the factor that is no safe integer is rejected,
  whether it is computed exactly or in double precision.
\<close>

definition priceUnit ::
    "decimal_ops \<Rightarrow> tenant_scope \<Rightarrow> product \<Rightarrow> uom_input \<Rightarrow> string option \<Rightarrow> int \<Rightarrow> unit_choice \<Rightarrow> 'b sales_db_scheme \<Rightarrow> exn + uom_snapshot" where
  "priceUnit dec scope p input segment t c s =
     (let factor = orElse (safeInteger (uc_factor c)) 0; base = ui_quantity input * factor;
          fallback = d_mul dec (orElse (uc_salePrice c) (pr_salePrice p)) (of_int factor);
          price = resolveProductUnitPrice dec \<lparr>q_company = sc_company scope, q_branch = sc_branch scope, q_product = pr_id p,
            q_quantity = ui_quantity input, q_segment = segment, q_unitCode = Some (uc_code c), q_factor = factor,
            q_variant = uc_variant c, q_fallback = fallback, q_at = t\<rparr> s
      in bindE (requireE (1 \<le> factor) (BadRequest ''Konversi unit tidak aman untuk stok integer.'')) (\<lambda>_.
         bindE (requireE (\<not> (1 < factor \<and> uc_code c = baseUnitOf p)) (BadRequest ''Unit dengan factor > 1 wajib berbeda dari base unit.'')) (\<lambda>_.
         bindE (requireE (isSafeInteger (ui_quantity input) \<and> 1 \<le> ui_quantity input \<and> isSafeInteger base \<and> 1 \<le> base)
                  (BadRequest ''Hasil konversi unit melebihi batas quantity integer yang aman.'')) (\<lambda>_.
         Inr \<lparr>us_variant = uc_variant c, us_unit = uc_unit c, us_unitCode = uc_code c, us_unitQuantity = ui_quantity input,
              us_factor = factor, us_baseQuantity = base, us_barcode = cleanText (ui_barcode input), us_sellingPrice = price,
              us_basePrice = d_places dec 6 (d_div dec price (of_int factor))\<rparr>))))"

definition resolveSellingUnitLine ::
    "decimal_ops \<Rightarrow> tenant_scope \<Rightarrow> product \<Rightarrow> uom_input \<Rightarrow> string option \<Rightarrow> int \<Rightarrow> 'b sales_db_scheme \<Rightarrow> exn + uom_snapshot" where
  "resolveSellingUnitLine dec scope p input segment t s =
     bindE (chooseUnit p input s) (\<lambda>c.
     bindE (case cleanText (ui_barcode input) of Some code \<Rightarrow> chooseByBarcode p code c s | None \<Rightarrow> chooseByVariant p c s) (\<lambda>d.
     priceUnit dec scope p input segment t d s))"

end
