(* ===== verification/Promotions.thy ===== *)
theory Promotions
  imports SellingPrice LoyaltyTier GoodsReceipts
begin

text \<open>
  Promotions: \<open>apps/api/src/promotions/promotions.service.ts\<close>. A rule has a type, a window, a channel, perhaps a member
  tier, products and quotas; a sale asks for the discount of a code and records the redemption. Product ids in the
  JSON list of a rule are texts, compared with the text of an id.
\<close>

section \<open>Discounts\<close>

record promo_line =
  pl_product :: ident
  pl_quantity :: int
  pl_unitPrice :: rat

text \<open>\<open>productIdsOf\<close>: the texts of the list, trimmed, each once.\<close>

definition productIdsOf :: "json option \<Rightarrow> string list" where
  "productIdsOf value = (case value of
     Some (JArray xs) \<Rightarrow> firstOccurrences (List.map_filter (\<lambda>x. case x of JString t \<Rightarrow> cleanText (Some t) | _ \<Rightarrow> None) xs)
   | _ \<Rightarrow> [])"

text \<open>The preview's helper, in double precision.\<close>

definition computeDiscount :: "promo_rule \<Rightarrow> js_number \<Rightarrow> js_number" where
  "computeDiscount rule subtotal =
     (if jless subtotal (double (pm_minSubtotal rule)) then Fin 0
      else let raw = (if pm_type rule = ''PERCENT'' then jdiv (jmul subtotal (double (pm_value rule))) (Fin 100)
                      else if pm_type rule = ''AMOUNT'' then double (pm_value rule) else Fin 0);
               capped = (case pm_maxDiscount rule of None \<Rightarrow> raw | Some m \<Rightarrow> mathMin raw (double m))
           in mathMax (Fin 0) (mathMin capped subtotal))"

text \<open>\<open>Math.max(1, n ?? 1)\<close>; whole units of a line.\<close>

definition atLeastOne :: "int option \<Rightarrow> int" where
  "atLeastOne n = max 1 (orElse n 1)"

definition unitsOf :: "promo_line \<Rightarrow> int" where
  "unitsOf l = max 0 (pl_quantity l)"

text \<open>The cheapest units are free: the loop over the lines sorted by price.\<close>

primrec freeDiscount :: "decimal_ops \<Rightarrow> int \<Rightarrow> promo_line list \<Rightarrow> rat \<Rightarrow> rat" where
  "freeDiscount dec remaining [] discount = discount"
| "freeDiscount dec remaining (l # ls) discount = (if remaining \<le> 0 then discount
     else let free = min remaining (unitsOf l)
          in freeDiscount dec (remaining - free) ls (d_add dec discount (d_mul dec (pl_unitPrice l) (of_int free))))"

definition cheaperFirst :: "promo_line \<Rightarrow> promo_line \<Rightarrow> bool" where
  "cheaperFirst a b \<longleftrightarrow> \<not> jless (Fin 0) (jsub (double (pl_unitPrice a)) (double (pl_unitPrice b)))"

definition eligibleLines :: "promo_rule \<Rightarrow> promo_line list \<Rightarrow> promo_line list" where
  "eligibleLines rule = (let ids = productIdsOf (pm_productIds rule) in
     filter (\<lambda>l. ids = [] \<or> List.member ids (identText (pl_product l))))"

definition linesSubtotal :: "decimal_ops \<Rightarrow> promo_line list \<Rightarrow> rat" where
  "linesSubtotal dec ls = d_sum dec (map (\<lambda>l. d_mul dec (pl_unitPrice l) (of_int (pl_quantity l))) ls)"

definition rawDiscount :: "decimal_ops \<Rightarrow> promo_rule \<Rightarrow> rat \<Rightarrow> promo_line list \<Rightarrow> exn + rat" where
  "rawDiscount dec rule base eligible =
     (let percent = (\<lambda>x. d_div dec (d_mul dec x (d_ofNumber dec (double (pm_value rule)))) 100);
          units = sum_list (map unitsOf eligible) in
      if pm_type rule = ''PERCENT'' then Inr (percent base)
      else if pm_type rule = ''AMOUNT'' then Inr (pm_value rule)
      else if pm_type rule = ''QUANTITY_BREAK'' then
        Inr (if atLeastOne (pm_minQuantity rule) \<le> units then percent (linesSubtotal dec eligible) else 0)
      else if pm_type rule = ''BOGO'' then
        let buy = atLeastOne (pm_buyQuantity rule); get = atLeastOne (pm_getQuantity rule)
        in Inr (freeDiscount dec (units div (buy + get) * get) (sortBy cheaperFirst eligible) 0)
      else if pm_type rule = ''BUNDLE'' then
        Inr (d_mul dec (pm_value rule) (of_int (units div atLeastOne (pm_minQuantity rule))))
      else Inl (BadRequest ''Tipe promo belum didukung.''))"

text \<open>The caps, one after the other, and the rounding.\<close>

definition capDiscount :: "decimal_ops \<Rightarrow> promo_rule \<Rightarrow> rat \<Rightarrow> rat \<Rightarrow> rat \<Rightarrow> rat" where
  "capDiscount dec rule subtotal base discount =
     (let d1 = (case pm_maxDiscount rule of None \<Rightarrow> discount | Some c \<Rightarrow> if c < discount then c else discount);
          eligibleCap = (if base = 0 then subtotal else base);
          d2 = (if subtotal < d1 then subtotal else d1);
          d3 = (if eligibleCap < d2 then eligibleCap else d2);
          d4 = (if d3 < 0 then 0 else d3)
      in d_places dec 2 d4)"

definition computeLineAwareDiscount :: "decimal_ops \<Rightarrow> promo_rule \<Rightarrow> rat \<Rightarrow> promo_line list \<Rightarrow> exn + rat" where
  "computeLineAwareDiscount dec rule subtotal ls =
     (if subtotal < d_ofNumber dec (double (pm_minSubtotal rule)) then Inr 0
      else let eligible = eligibleLines rule ls; base = (if ls \<noteq> [] then linesSubtotal dec eligible else subtotal)
           in bindE (rawDiscount dec rule base eligible) (\<lambda>d. Inr (capDiscount dec rule subtotal base d)))"

section \<open>Rules\<close>

text \<open>A sent date is what parsing it gives, \<open>None\<close> when that is not a date.\<close>

record promo_dto =
  pcd_name :: string
  pcd_code :: string
  pcd_type :: string
  pcd_value :: rat
  pcd_minSubtotal :: "rat option"
  pcd_maxDiscount :: "rat option"
  pcd_memberTier :: "string option"
  pcd_channel :: "string option"
  pcd_productIds :: "string list option"
  pcd_minQuantity :: "int option"
  pcd_buyQuantity :: "int option"
  pcd_getQuantity :: "int option"
  pcd_usageLimit :: "int option"
  pcd_perCustomerLimit :: "int option"
  pcd_startsAt :: "int option"
  pcd_endsAt :: "int option option"

record promo_update_dto =
  pud_name :: "string option"
  pud_type :: "string option"
  pud_value :: "rat option"
  pud_minSubtotal :: "rat option"
  pud_maxDiscount :: "rat option"
  pud_memberTier :: "string option"
  pud_channel :: "string option"
  pud_productIds :: "string list option"
  pud_minQuantity :: "int option"
  pud_buyQuantity :: "int option"
  pud_getQuantity :: "int option"
  pud_usageLimit :: "int option"
  pud_perCustomerLimit :: "int option"
  pud_startsAt :: "int option option"
  pud_endsAt :: "int option option"
  pud_isActive :: "bool option"

definition parseDate :: "int option option \<Rightarrow> int \<Rightarrow> exn + int" where
  "parseDate value fallback = (case value of None \<Rightarrow> Inr fallback
     | Some None \<Rightarrow> Inl (BadRequest ''Format tanggal tidak valid.'') | Some (Some t) \<Rightarrow> Inr t)"

definition truthyInt :: "int option \<Rightarrow> bool" where
  "truthyInt x \<longleftrightarrow> x \<noteq> None \<and> x \<noteq> Some 0"

definition validateShape :: "string \<Rightarrow> js_number \<Rightarrow> int option \<Rightarrow> int option \<Rightarrow> int option \<Rightarrow> int option \<Rightarrow> int option \<Rightarrow> exn + unit" where
  "validateShape type value minQuantity buy get usageLimit perCustomer =
     bindE (requireE (\<not> (List.member [''PERCENT'', ''QUANTITY_BREAK''] type \<and> (jless value (Fin 0) \<or> jless (Fin 100) value)))
              (BadRequest ''Nilai promo persen harus antara 0 dan 100.'')) (\<lambda>_.
     bindE (requireE (\<not> (type = ''QUANTITY_BREAK'' \<and> \<not> truthyInt minQuantity)) (BadRequest ''QUANTITY_BREAK membutuhkan minQuantity.'')) (\<lambda>_.
     bindE (requireE (\<not> (type = ''BUNDLE'' \<and> \<not> truthyInt minQuantity)) (BadRequest ''BUNDLE membutuhkan minQuantity.'')) (\<lambda>_.
     bindE (requireE (\<not> (type = ''BOGO'' \<and> (\<not> truthyInt buy \<or> \<not> truthyInt get))) (BadRequest ''BOGO membutuhkan buyQuantity dan getQuantity.'')) (\<lambda>_.
     requireE (\<not> (truthyInt usageLimit \<and> truthyInt perCustomer \<and> the usageLimit < the perCustomer))
       (BadRequest ''Batas per pelanggan tidak boleh melebihi quota global.'')))))"

definition validateProducts :: "tenant_scope \<Rightarrow> string list option \<Rightarrow> 'b base_db_scheme \<Rightarrow> exn + string list" where
  "validateProducts scope ids s =
     (let productIds = firstOccurrences (cleanSerials (orElse ids []));
          count = count_where (\<lambda>p. List.member productIds (identText (pr_id p)) \<and> pr_company p = sc_company scope \<and> pr_isActive p) (db_products s)
      in if productIds = [] then Inr []
         else bindE (requireE (count = length productIds) (BadRequest ''Satu atau lebih produk promo tidak tersedia pada company ini.'')) (\<lambda>_.
              Inr productIds))"

definition jsonIds :: "string list \<Rightarrow> json option" where
  "jsonIds ids = (if ids = [] then None else Some (JArray (map JString ids)))"

definition createPromo :: "promo_dto \<Rightarrow> auth_user \<Rightarrow> ('b sales_db_scheme, promo_rule) svc" where
  "createPromo dto user =
     bindS (liftS (requireTenantScope user)) (\<lambda>scope.
     bindS (getS db_now) (\<lambda>t.
     bindS (liftS (parseDate (Some (pcd_startsAt dto)) t)) (\<lambda>startsAt.
     bindS (liftS (case pcd_endsAt dto of None \<Rightarrow> Inr None | Some e \<Rightarrow> bindE (parseDate (Some e) startsAt) (\<lambda>x. Inr (Some x)))) (\<lambda>endsAt.
     bindS (requireS (case endsAt of None \<Rightarrow> True | Some e \<Rightarrow> startsAt \<le> e) (BadRequest ''Tanggal akhir tidak boleh sebelum tanggal mulai.'')) (\<lambda>_.
     bindS (liftS (validateShape (pcd_type dto) (double (pcd_value dto)) (pcd_minQuantity dto) (pcd_buyQuantity dto) (pcd_getQuantity dto)
              (pcd_usageLimit dto) (pcd_perCustomerLimit dto))) (\<lambda>_.
     runTx (
       bindT (getT (\<lambda>s. find_first (\<lambda>x. pm_company x = sc_company scope \<and> pm_code x = toUpperCase (pcd_code dto)) (db_promos s))) (\<lambda>duplicated.
       bindT (requireT (duplicated = None) (BadRequest ''Kode promo sudah dipakai.'')) (\<lambda>_.
       bindT (getT (validateProducts scope (pcd_productIds dto))) (\<lambda>checked.
       bindT (liftE checked) (\<lambda>productIds.
       let code = toUpperCase (trim (pcd_code dto)) in
       bindT (getT (\<lambda>s. find_first (\<lambda>x. pm_company x = sc_company scope \<and> pm_code x = code) (db_promos s))) (\<lambda>taken.
       bindT (requireT (taken = None) (PrismaError ''P2002'')) (\<lambda>_.
       bindT newIdT (\<lambda>i.
       let row = \<lparr>pm_id = i, pm_company = sc_company scope, pm_branch = sc_branch scope, pm_name = trim (pcd_name dto), pm_code = code,
                  pm_type = pcd_type dto, pm_value = pcd_value dto, pm_minSubtotal = orElse (pcd_minSubtotal dto) 0,
                  pm_maxDiscount = pcd_maxDiscount dto, pm_memberTier = map_option toUpperCase (cleanText (pcd_memberTier dto)),
                  pm_channel = orElse (pcd_channel dto) ''ALL'', pm_productIds = jsonIds productIds,
                  pm_minQuantity = pcd_minQuantity dto, pm_buyQuantity = pcd_buyQuantity dto, pm_getQuantity = pcd_getQuantity dto,
                  pm_usageLimit = pcd_usageLimit dto, pm_perCustomerLimit = pcd_perCustomerLimit dto, pm_startsAt = startsAt,
                  pm_endsAt = endsAt, pm_isActive = True, pm_createdBy = Some (us_sub user), pm_createdAt = t\<rparr>
       in bindT (modT (\<lambda>s. s\<lparr>db_promos := db_promos s @ [row]\<rparr>)) (\<lambda>_.
          bindT (auditT scope user ''CREATE_PROMO_RULE'' ''PromoRule'' (Some i)) (\<lambda>_.
          returnT row))))))))))))))))"

definition patchPromo :: "promo_update_dto \<Rightarrow> string list \<Rightarrow> int \<Rightarrow> int option \<Rightarrow> promo_rule \<Rightarrow> promo_rule" where
  "patchPromo dto productIds startsAt endsAt x =
     x\<lparr>pm_name := (case pud_name dto of None \<Rightarrow> pm_name x | Some n \<Rightarrow> trim n), pm_type := orElse (pud_type dto) (pm_type x),
       pm_value := orElse (pud_value dto) (pm_value x), pm_minSubtotal := orElse (pud_minSubtotal dto) (pm_minSubtotal x),
       pm_maxDiscount := orOption (pud_maxDiscount dto) (pm_maxDiscount x),
       pm_memberTier := (case pud_memberTier dto of None \<Rightarrow> pm_memberTier x | Some t \<Rightarrow> map_option toUpperCase (cleanText (Some t))),
       pm_channel := orElse (pud_channel dto) (pm_channel x),
       pm_productIds := (if pud_productIds dto = None then pm_productIds x else jsonIds productIds),
       pm_minQuantity := orOption (pud_minQuantity dto) (pm_minQuantity x), pm_buyQuantity := orOption (pud_buyQuantity dto) (pm_buyQuantity x),
       pm_getQuantity := orOption (pud_getQuantity dto) (pm_getQuantity x), pm_usageLimit := orOption (pud_usageLimit dto) (pm_usageLimit x),
       pm_perCustomerLimit := orOption (pud_perCustomerLimit dto) (pm_perCustomerLimit x), pm_startsAt := startsAt, pm_endsAt := endsAt,
       pm_isActive := orElse (pud_isActive dto) (pm_isActive x)\<rparr>"

definition updatePromo :: "ident \<Rightarrow> promo_update_dto \<Rightarrow> auth_user \<Rightarrow> ('b sales_db_scheme, promo_rule) svc" where
  "updatePromo i dto user = bindS (liftS (requireTenantScope user)) (\<lambda>scope. runTx (
     bindT (getT (\<lambda>s. find_first (\<lambda>x. pm_id x = i \<and> pm_company x = sc_company scope \<and> pm_branch x = sc_branch scope) (db_promos s))) (\<lambda>found.
     case found of None \<Rightarrow> denyT scope user ''PromoRule'' (Some i) | Some x \<Rightarrow>
       bindT (liftE (parseDate (pud_startsAt dto) (pm_startsAt x))) (\<lambda>startsAt.
       bindT (liftE (case pud_endsAt dto of None \<Rightarrow> Inr (pm_endsAt x)
                | Some e \<Rightarrow> bindE (parseDate (Some e) (orElse (pm_endsAt x) (pm_startsAt x))) (\<lambda>y. Inr (Some y)))) (\<lambda>endsAt.
       bindT (requireT (case endsAt of None \<Rightarrow> True | Some e \<Rightarrow> startsAt \<le> e) (BadRequest ''Tanggal akhir tidak boleh sebelum tanggal mulai.'')) (\<lambda>_.
       bindT (liftE (validateShape (orElse (pud_type dto) (pm_type x)) (double (orElse (pud_value dto) (pm_value x)))
                (orOption (pud_minQuantity dto) (pm_minQuantity x)) (orOption (pud_buyQuantity dto) (pm_buyQuantity x))
                (orOption (pud_getQuantity dto) (pm_getQuantity x)) (orOption (pud_usageLimit dto) (pm_usageLimit x))
                (orOption (pud_perCustomerLimit dto) (pm_perCustomerLimit x)))) (\<lambda>_.
       bindT (getT (\<lambda>s. if pud_productIds dto = None then Inr (productIdsOf (pm_productIds x)) else validateProducts scope (pud_productIds dto) s)) (\<lambda>checked.
       bindT (liftE checked) (\<lambda>productIds.
       let f = patchPromo dto productIds startsAt endsAt in
       bindT (modT (\<lambda>s. s\<lparr>db_promos := update_many (\<lambda>y. pm_id y = i) f (db_promos s)\<rparr>)) (\<lambda>_.
       bindT (auditT scope user ''UPDATE_PROMO_RULE'' ''PromoRule'' (Some i)) (\<lambda>_.
       returnT (f x))))))))))))"

section \<open>A promotion on a sale\<close>

definition activeProgram :: "ident \<Rightarrow> 'b sales_db_scheme \<Rightarrow> loyalty_program option" where
  "activeProgram c s = find_by lp_createdAt (\<lambda>x. lp_company x = c \<and> lp_isActive x) (db_programs s)"

definition accountOf :: "ident \<Rightarrow> ident \<Rightarrow> 'b sales_db_scheme \<Rightarrow> loyalty_account option" where
  "accountOf program customerId s = find_first (\<lambda>x. la_program x = program \<and> la_customer x = customerId) (db_accountsOfLoyalty s)"

definition customerTier :: "(string \<Rightarrow> string \<Rightarrow> int) \<Rightarrow> tenant_scope \<Rightarrow> ident option \<Rightarrow> 'b sales_db_scheme \<Rightarrow> exn + string option" where
  "customerTier collate scope customerId s = (case customerId of
     None \<Rightarrow> Inr None
   | Some i \<Rightarrow>
       bindE (requireE (list_ex (\<lambda>c. cu_id c = i \<and> cu_company c = Some (sc_company scope)) (db_customers s))
                (BadRequest ''Pelanggan promo tidak ditemukan pada perusahaan ini.'')) (\<lambda>_.
       Inr (Some (case activeProgram (sc_company scope) s of None \<Rightarrow> ''MEMBER''
         | Some program \<Rightarrow> tr_code (resolveLoyaltyTier collate (lp_tiers program)
             (Fin (of_int (case accountOf (lp_id program) i s of None \<Rightarrow> 0 | Some a \<Rightarrow> la_lifetime a))))))))"

definition assertQuota :: "promo_rule \<Rightarrow> ident option \<Rightarrow> 'b sales_db_scheme \<Rightarrow> exn + unit" where
  "assertQuota rule customerId s =
     bindE (case pm_usageLimit rule of None \<Rightarrow> Inr ()
            | Some n \<Rightarrow> requireE (int (count_where (\<lambda>r. rd_rule r = pm_id rule) (db_redemptions s)) < n) (BadRequest ''Quota promo sudah habis.'')) (\<lambda>_.
     case pm_perCustomerLimit rule of None \<Rightarrow> Inr ()
     | Some n \<Rightarrow>
         bindE (requireE (customerId \<noteq> None) (BadRequest ''Promo membutuhkan pelanggan untuk batas pemakaian.'')) (\<lambda>_.
         requireE (int (count_where (\<lambda>r. rd_rule r = pm_id rule \<and> rd_customer r = customerId) (db_redemptions s)) < n)
           (BadRequest ''Batas pemakaian promo untuk pelanggan ini sudah tercapai.'')))"

definition promoInForce :: "tenant_scope \<Rightarrow> int \<Rightarrow> promo_rule \<Rightarrow> bool" where
  "promoInForce scope t x \<longleftrightarrow> pm_company x = sc_company scope \<and> pm_branch x = sc_branch scope \<and> pm_isActive x \<and> pm_startsAt x \<le> t \<and>
     (case pm_endsAt x of None \<Rightarrow> True | Some e \<Rightarrow> t \<le> e)"

definition checkTier :: "(string \<Rightarrow> string \<Rightarrow> int) \<Rightarrow> tenant_scope \<Rightarrow> promo_rule \<Rightarrow> ident option \<Rightarrow> 'b sales_db_scheme \<Rightarrow> exn + unit" where
  "checkTier collate scope rule customerId s = (if \<not> present (pm_memberTier rule) then Inr ()
     else bindE (customerTier collate scope customerId s) (\<lambda>tier.
          bindE (requireE (present tier) (BadRequest ''Promo khusus tier dan membutuhkan pelanggan.'')) (\<lambda>_.
          requireE (map_option toUpperCase tier = map_option toUpperCase (pm_memberTier rule))
            (BadRequest ''Promo khusus tier; tier pelanggan berbeda.''))))"

definition resolveSalePromotion ::
    "decimal_ops \<Rightarrow> (string \<Rightarrow> string \<Rightarrow> int) \<Rightarrow> tenant_scope \<Rightarrow> rat \<Rightarrow> string option \<Rightarrow> int \<Rightarrow> ident option \<Rightarrow> string option \<Rightarrow>
     promo_line list \<Rightarrow> 'b sales_db_scheme \<Rightarrow> exn + rat \<times> promo_rule option" where
  "resolveSalePromotion dec collate scope subtotal code t customerId channel ls s = (case cleanText code of
     None \<Rightarrow> Inr (0, None)
   | Some c \<Rightarrow>
       bindE (requireE (0 \<le> subtotal) (BadRequest ''Subtotal promo tidak valid.'')) (\<lambda>_.
       case find_first (\<lambda>x. promoInForce scope t x \<and> pm_code x = toUpperCase c) (db_promos s) of
         None \<Rightarrow> Inl (BadRequest ''Promo tidak aktif atau tidak tersedia di cabang ini.'')
       | Some rule \<Rightarrow>
           bindE (requireE (\<not> (pm_channel rule \<noteq> ''ALL'' \<and> channel \<noteq> Some (pm_channel rule))) (BadRequest ''Promo hanya berlaku untuk channel.'')) (\<lambda>_.
           bindE (checkTier collate scope rule customerId s) (\<lambda>_.
           bindE (assertQuota rule customerId s) (\<lambda>_.
           let scoped = productIdsOf (pm_productIds rule) in
           bindE (requireE (scoped = [] \<or> list_ex (\<lambda>l. List.member scoped (identText (pl_product l))) ls)
                    (BadRequest ''Promo tidak berlaku untuk produk pada transaksi ini.'')) (\<lambda>_.
           bindE (computeLineAwareDiscount dec rule subtotal ls) (\<lambda>discount.
           bindE (requireE (0 < discount) (BadRequest ''Promo belum memenuhi syarat transaksi.'')) (\<lambda>_.
           Inr (discount, Some rule)))))))))"

definition recordRedemption ::
    "tenant_scope \<Rightarrow> ident \<Rightarrow> ident option \<Rightarrow> string \<Rightarrow> ident \<Rightarrow> rat \<Rightarrow> ('b sales_db_scheme, redemption) tx" where
  "recordRedemption scope ruleId customerId referenceType referenceId discount =
     bindT (getT (\<lambda>s. find_first (\<lambda>r. rd_rule r = ruleId \<and> rd_referenceType r = referenceType \<and> rd_reference r = referenceId) (db_redemptions s))) (\<lambda>existing.
     case existing of Some r \<Rightarrow> returnT r | None \<Rightarrow>
       bindT (getT (\<lambda>s. find_first (\<lambda>x. pm_id x = ruleId \<and> pm_company x = sc_company scope \<and> pm_branch x = sc_branch scope \<and> pm_isActive x) (db_promos s))) (\<lambda>found.
       case found of None \<Rightarrow> throwT (BadRequest ''Promo tidak lagi tersedia saat transaksi diposting.'') | Some rule \<Rightarrow>
         bindT (getT (assertQuota rule customerId)) (\<lambda>quota.
         bindT (liftE quota) (\<lambda>_.
         bindT newIdT (\<lambda>i.
         let row = \<lparr>rd_id = i, rd_company = sc_company scope, rd_branch = sc_branch scope, rd_rule = pm_id rule, rd_customer = customerId,
                    rd_referenceType = referenceType, rd_reference = referenceId, rd_discount = discount\<rparr>
         in bindT (modT (\<lambda>s. s\<lparr>db_redemptions := db_redemptions s @ [row]\<rparr>)) (\<lambda>_. returnT row))))))"

section \<open>Preview\<close>

definition simplePromo :: "string option \<Rightarrow> promo_rule \<Rightarrow> bool" where
  "simplePromo tierCode x \<longleftrightarrow> (\<not> present (pm_memberTier x) \<or> pm_memberTier x = tierCode) \<and> List.member [''PERCENT'', ''AMOUNT''] (pm_type x) \<and>
     productIdsOf (pm_productIds x) = [] \<and> pm_channel x = ''ALL''"

definition previewPromo :: "auth_user \<Rightarrow> js_number \<Rightarrow> string option \<Rightarrow> string option \<Rightarrow> ('b sales_db_scheme, js_number \<times> ident option) svc" where
  "previewPromo user subtotal code tierCode =
     bindS (liftS (requireTenantScope user)) (\<lambda>scope.
     bindS (requireS (isFinite subtotal \<and> \<not> jless subtotal (Fin 0)) (BadRequest ''Subtotal tidak valid.'')) (\<lambda>_.
     bindS (getS db_now) (\<lambda>t.
     bindS (getS (\<lambda>s. take 20 (sortBy (\<lambda>a b. pm_createdAt b < pm_createdAt a \<or> (pm_createdAt a = pm_createdAt b \<and> pm_id a \<le> pm_id b))
              (filter (\<lambda>x. promoInForce scope t x \<and> (\<not> present code \<or> pm_code x = toUpperCase (the code))) (db_promos s))))) (\<lambda>rules.
     returnS (case sortBy (\<lambda>a b. \<not> jless (Fin 0) (jsub (snd b) (snd a))) (map (\<lambda>x. (x, computeDiscount x subtotal)) (filter (simplePromo tierCode) rules)) of
       [] \<Rightarrow> (Fin 0, None) | (x, d) # _ \<Rightarrow> (d, Some (pm_id x)))))))"

end
