(* ===== verification/CashierShifts.thy ===== *)
theory CashierShifts
  imports Promotions
begin

text \<open>
  Cashier shifts in \<open>apps/api/src/sales/sales.service.ts\<close>: a cashier opens a shift with a float, records cash in and
  out, and closes it against the cash the books expect. The sums over a shift are made in double precision, as the
  code makes them.
\<close>

section \<open>The shift of a cashier\<close>

text \<open>\<open>user: { branchId, branch: { companyId } }\<close>: the stored user of the shift, not the one that signed in.\<close>

definition cashierInScope :: "tenant_scope \<Rightarrow> ident \<Rightarrow> 'b sales_db_scheme \<Rightarrow> bool" where
  "cashierInScope scope u s \<longleftrightarrow> list_ex (\<lambda>x. u_id x = u \<and> u_branch x = Some (sc_branch scope)) (db_users s) \<and> branchInCompany scope s"

definition openShiftOf :: "tenant_scope \<Rightarrow> auth_user \<Rightarrow> 'b sales_db_scheme \<Rightarrow> cashier_shift \<Rightarrow> bool" where
  "openShiftOf scope user s x \<longleftrightarrow> sh_user x = us_sub user \<and> sh_status x = ''OPEN'' \<and> cashierInScope scope (sh_user x) s"

definition latestShift :: "tenant_scope \<Rightarrow> auth_user \<Rightarrow> 'b sales_db_scheme \<Rightarrow> cashier_shift option" where
  "latestShift scope user s = find_ordered (\<lambda>a b. sh_openedAt b \<le> sh_openedAt a) (openShiftOf scope user s) (db_shifts s)"

definition currentShift :: "auth_user \<Rightarrow> ('b sales_db_scheme, cashier_shift option) svc" where
  "currentShift user = bindS (liftS (requireTenantScope user)) (\<lambda>scope. getS (latestShift scope user))"

definition currentCashMovements :: "auth_user \<Rightarrow> ('b sales_db_scheme, cash_movement list) svc" where
  "currentCashMovements user = bindS (liftS (requireTenantScope user)) (\<lambda>scope.
     bindS (getS (latestShift scope user)) (\<lambda>found. case found of
       None \<Rightarrow> returnS []
     | Some x \<Rightarrow> getS (\<lambda>s. take 100 (sortBy (\<lambda>a b. cm_createdAt b < cm_createdAt a \<or> (cm_createdAt a = cm_createdAt b \<and> cm_id b \<le> cm_id a))
         (filter (\<lambda>m. cm_shift m = sh_id x) (db_cash s))))))"

record cash_dto =
  ccd_type :: string
  ccd_amount :: rat
  ccd_reason :: string

definition recordCashMovement :: "cash_dto \<Rightarrow> auth_user \<Rightarrow> ('b sales_db_scheme, cash_movement) svc" where
  "recordCashMovement dto user =
     bindS (liftS (requireTenantScope user)) (\<lambda>scope.
     bindS (requireS (0 < ccd_amount dto) (BadRequest ''Nominal kas harus lebih besar dari nol.'')) (\<lambda>_.
     bindS (requireS (trim (ccd_reason dto) \<noteq> '''') (BadRequest ''Alasan kas masuk/keluar wajib diisi.'')) (\<lambda>_.
     runTx (
       bindT (getT (latestShift scope user)) (\<lambda>found. case found of
         None \<Rightarrow> throwT (BadRequest ''Buka shift kasir sebelum mencatat kas masuk/keluar.'')
       | Some x \<Rightarrow>
           bindT newIdT (\<lambda>i.
           bindT nowT (\<lambda>t.
           let row = \<lparr>cm_id = i, cm_shift = sh_id x, cm_type = ccd_type dto, cm_amount = ccd_amount dto, cm_reason = trim (ccd_reason dto),
                      cm_createdBy = us_sub user, cm_createdAt = t\<rparr>
           in bindT (modT (\<lambda>s. s\<lparr>db_cash := db_cash s @ [row]\<rparr>)) (\<lambda>_.
              bindT (auditT scope user (ccd_type dto) ''CashierCashMovement'' (Some i)) (\<lambda>_.
              returnT row)))))))))"

definition openShift :: "rat \<Rightarrow> auth_user \<Rightarrow> ('b sales_db_scheme, cashier_shift) svc" where
  "openShift openingCash user =
     bindS (liftS (requireTenantScope user)) (\<lambda>scope.
     bindS (requireS (0 \<le> openingCash) (BadRequest ''Saldo awal kas tidak valid.'')) (\<lambda>_.
     runTx (
       bindT (getT (\<lambda>s. find_first (openShiftOf scope user s) (db_shifts s))) (\<lambda>existing.
       bindT (requireT (existing = None) (BadRequest ''Shift kasir sudah terbuka.'')) (\<lambda>_.
       bindT newIdT (\<lambda>i.
       bindT nowT (\<lambda>t.
       let row = \<lparr>sh_id = i, sh_user = us_sub user, sh_openedAt = t, sh_closedAt = None, sh_openingCash = openingCash,
                  sh_closingCash = None, sh_expectedCash = Some openingCash, sh_difference = None, sh_status = ''OPEN''\<rparr>
       in bindT (modT (\<lambda>s. s\<lparr>db_shifts := db_shifts s @ [row]\<rparr>)) (\<lambda>_.
          bindT (auditT scope user ''OPEN_CASHIER_SHIFT'' ''CashierShift'' (Some i)) (\<lambda>_.
          returnT row)))))))))"

section \<open>The cash of a shift\<close>

record cash_summary =
  cs_paymentTotals :: "(string \<times> js_number) list"
  cs_cashSales :: js_number
  cs_cashRefunds :: js_number
  cs_refundCount :: nat
  cs_cashIn :: js_number
  cs_cashOut :: js_number

definition shiftPayments :: "tenant_scope \<Rightarrow> cashier_shift \<Rightarrow> 'b sales_db_scheme \<Rightarrow> payment list" where
  "shiftPayments scope x s = filter (\<lambda>p. py_status p = ''PAID'' \<and>
     list_ex (\<lambda>l. py_sale p = Some (sl_id l) \<and> sl_shift l = Some (sh_id x) \<and> sl_branch l = sc_branch scope \<and> branchInCompany scope s \<and>
       sl_status l = ''COMPLETED'') (db_sales s)) (db_payments s)"

text \<open>The map from method to total, in the order the methods first appear.\<close>

definition addPayment :: "(string \<times> js_number) list \<Rightarrow> payment \<Rightarrow> (string \<times> js_number) list" where
  "addPayment totals p = (let method = (if py_method p = '''' then ''UNKNOWN'' else py_method p) in
     AList.update method (jadd (orElse (map_of totals method) (Fin 0)) (double (py_amount p))) totals)"

definition sumOfType :: "string \<Rightarrow> cash_movement list \<Rightarrow> js_number" where
  "sumOfType kind ms = foldl (\<lambda>sum m. jadd sum (double (cm_amount m))) (Fin 0) (filter (\<lambda>m. cm_type m = kind) ms)"

text \<open>\<open>_sum\<close> of a \<open>Decimal\<close> column is computed by the database, exactly.\<close>

definition shiftRefunds :: "tenant_scope \<Rightarrow> cashier_shift \<Rightarrow> int \<Rightarrow> 'b sales_db_scheme \<Rightarrow> sale_return list" where
  "shiftRefunds scope x till s = filter (\<lambda>r. list_ex (\<lambda>w. wh_id w = sr_warehouse r \<and> wh_branch w = sc_branch scope \<and>
       companyOfBranch (wh_branch w) (sc_company scope) s) (db_warehouses s) \<and>
     sr_status r = ''COMPLETED'' \<and> sr_refundMethod r = Some ''CASH'' \<and> sr_approvedBy r = Some (sh_user x) \<and>
     (case sr_postedAt r of None \<Rightarrow> False | Some t \<Rightarrow> sh_openedAt x \<le> t \<and> t \<le> till)) (db_saleReturns s)"

definition shiftCashSummary :: "tenant_scope \<Rightarrow> cashier_shift \<Rightarrow> 'b sales_db_scheme \<Rightarrow> cash_summary" where
  "shiftCashSummary scope x s =
     (let till = orElse (sh_closedAt x) (db_now s);
          totals = foldl addPayment [] (shiftPayments scope x s);
          moved = filter (\<lambda>m. cm_shift m = sh_id x \<and> sh_openedAt x \<le> cm_createdAt m \<and> cm_createdAt m \<le> till) (db_cash s);
          refunds = shiftRefunds scope x till s
      in \<lparr>cs_paymentTotals = totals, cs_cashSales = orElse (map_of totals ''CASH'') (Fin 0),
          cs_cashRefunds = double (sum_list (map sr_refundAmount refunds)), cs_refundCount = length refunds,
          cs_cashIn = sumOfType ''CASH_IN'' moved, cs_cashOut = sumOfType ''CASH_OUT'' moved\<rparr>)"

definition expectedCash :: "cashier_shift \<Rightarrow> cash_summary \<Rightarrow> js_number" where
  "expectedCash x m = jsub (jsub (jadd (jadd (double (sh_openingCash x)) (cs_cashSales m)) (cs_cashIn m)) (cs_cashOut m)) (cs_cashRefunds m)"

definition closed :: "decimal_ops \<Rightarrow> rat \<Rightarrow> js_number \<Rightarrow> int \<Rightarrow> cashier_shift \<Rightarrow> cashier_shift" where
  "closed dec closingCash expected t x = x\<lparr>sh_closingCash := Some closingCash, sh_expectedCash := Some (d_ofNumber dec expected),
     sh_difference := Some (d_ofNumber dec (jsub (double closingCash) expected)), sh_closedAt := Some t, sh_status := ''CLOSED''\<rparr>"

definition closeShift :: "decimal_ops \<Rightarrow> rat \<Rightarrow> auth_user \<Rightarrow> ('b sales_db_scheme, cashier_shift) svc" where
  "closeShift dec closingCash user =
     bindS (liftS (requireTenantScope user)) (\<lambda>scope.
     bindS (requireS (0 \<le> closingCash) (BadRequest ''Saldo akhir kas tidak valid.'')) (\<lambda>_.
     runTx (
       bindT (getT (\<lambda>s. find_first (openShiftOf scope user s) (db_shifts s))) (\<lambda>found. case found of
         None \<Rightarrow> throwT (BadRequest ''Tidak ada shift kasir yang terbuka.'')
       | Some x \<Rightarrow>
           bindT (getT (shiftCashSummary scope x)) (\<lambda>summary.
           bindT nowT (\<lambda>t.
           let f = closed dec closingCash (expectedCash x summary) t in
           bindT (modT (\<lambda>s. s\<lparr>db_shifts := update_many (\<lambda>y. sh_id y = sh_id x) f (db_shifts s)\<rparr>)) (\<lambda>_.
           bindT (auditT scope user ''CLOSE_CASHIER_SHIFT'' ''CashierShift'' (Some (sh_id x))) (\<lambda>_.
           returnT (f x)))))))))"

text \<open>The recap: the shift, its summary, and the totals of its sales (count, total, tax, cost).\<close>

definition shiftRecap :: "ident \<Rightarrow> auth_user \<Rightarrow> ('b sales_db_scheme, cashier_shift \<times> cash_summary \<times> nat \<times> js_number \<times> js_number \<times> js_number) svc" where
  "shiftRecap i user =
     bindS (liftS (requireTenantScope user)) (\<lambda>scope.
     bindS (getS (\<lambda>s. find_first (\<lambda>x. sh_id x = i \<and> cashierInScope scope (sh_user x) s) (db_shifts s))) (\<lambda>found. case found of
       None \<Rightarrow> denyS scope user ''CashierShift'' (Some i)
     | Some x \<Rightarrow>
         bindS (getS (\<lambda>s. filter (\<lambda>l. sl_shift l = Some (sh_id x) \<and> sl_branch l = sc_branch scope \<and> sl_status l = ''COMPLETED'') (db_sales s))) (\<lambda>ls.
         bindS (getS (shiftCashSummary scope x)) (\<lambda>summary.
         returnS (x, summary, length ls, double (sum_list (map sl_total ls)), double (sum_list (map sl_tax ls)),
           double (sum_list (map sl_costTotal ls)))))))"

end
