(* ===== verification/Sales.thy ===== *)
theory Sales
  imports CashierShifts
begin

text \<open>
  Point-of-sale sales in \<open>apps/api/src/sales/sales.service.ts\<close> (\<open>quote\<close>, \<open>create\<close>) and the low-stock alert after one
  (\<open>stock-alert.service.ts\<close>). A sale prices its lines, spreads its discounts over them, taxes each, checks stock and
  payments, and then writes the sale, the redemption, the stock, the payments, the journal, the tax document and the
  loyalty points in one transaction.
\<close>

section \<open>Requests\<close>

record sale_item_dto =
  sid_product :: ident
  sid_quantity :: int
  sid_variant :: "ident option"
  sid_unit :: "ident option"
  sid_barcode :: "string option"
  sid_taxCode :: "ident option"

record payment_dto =
  pmd_method :: string
  pmd_amount :: rat
  pmd_provider :: "string option"
  pmd_externalRef :: "string option"

record sale_dto =
  sld_key :: "string option"
  sld_warehouse :: ident
  sld_customer :: "ident option"
  sld_shift :: "ident option"
  sld_method :: "string option"
  sld_payments :: "payment_dto list"
  sld_promo :: "string option"
  sld_discount :: "rat option"
  sld_redeem :: "int option"
  sld_items :: "sale_item_dto list"

section \<open>Pricing the lines\<close>

record raw_line =
  rwl_product :: product
  rwl_taxCode :: "ident option"
  rwl_line :: rat
  rwl_unit :: uom_snapshot

definition priceLine ::
    "decimal_ops \<Rightarrow> tenant_scope \<Rightarrow> product list \<Rightarrow> string option \<Rightarrow> int \<Rightarrow> 'b sales_db_scheme \<Rightarrow> sale_item_dto \<Rightarrow> exn + raw_line" where
  "priceLine dec scope products segment t s input = (case find_first (\<lambda>p. pr_id p = sid_product input) products of
     None \<Rightarrow> Inl (PlainError ''TypeError'')
   | Some p \<Rightarrow>
       bindE (resolveSellingUnitLine dec scope p \<lparr>ui_quantity = sid_quantity input, ui_barcode = sid_barcode input, ui_unit = sid_unit input,
                ui_variant = sid_variant input\<rparr> segment t s) (\<lambda>u.
       Inr \<lparr>rwl_product = p, rwl_taxCode = orOption (sid_taxCode input) (pr_salesTaxCode p),
            rwl_line = d_mul dec (us_sellingPrice u) (of_int (us_unitQuantity u)), rwl_unit = u\<rparr>))"

definition promoLine :: "raw_line \<Rightarrow> promo_line" where
  "promoLine x = \<lparr>pl_product = pr_id (rwl_product x), pl_quantity = us_unitQuantity (rwl_unit x), pl_unitPrice = us_sellingPrice (rwl_unit x)\<rparr>"

definition lineCost :: "decimal_ops \<Rightarrow> raw_line \<Rightarrow> rat" where
  "lineCost dec x = d_mul dec (pr_costPrice (rwl_product x)) (of_int (us_baseQuantity (rwl_unit x)))"

text \<open>The share of the discount each line bears; the last one bears what is left.\<close>

primrec discountShares :: "decimal_ops \<Rightarrow> rat \<Rightarrow> rat \<Rightarrow> rat \<Rightarrow> rat list \<Rightarrow> rat list" where
  "discountShares dec amount subtotal allocated [] = []"
| "discountShares dec amount subtotal allocated (x # xs) =
     (let share = (if subtotal = 0 then 0 else if xs = [] then d_sub dec amount allocated
                   else d_places dec 2 (d_div dec (d_mul dec amount x) subtotal))
      in share # discountShares dec amount subtotal (d_add dec allocated share) xs)"

text \<open>One line taxed; the sale it belongs to is not known yet.\<close>

definition taxLine :: "decimal_ops \<Rightarrow> tenant_scope \<Rightarrow> int \<Rightarrow> raw_line \<times> rat \<Rightarrow> sale_item list \<Rightarrow> ('b accounting_db_scheme, sale_item list) tx" where
  "taxLine dec scope t = (\<lambda>(x, share) prepared.
     bindT (calculateTax dec (rwl_taxCode x) (d_sub dec (rwl_line x) share) (Some (sc_company scope)) t [''SALE'', ''OTHER'']) (\<lambda>calc.
     let u = rwl_unit x in
     returnT (prepared @ [\<lparr>sit_sale = 0, sit_product = pr_id (rwl_product x), sit_variant = us_variant u, sit_unit = us_unit u,
       sit_quantity = us_baseQuantity u, sit_unitPrice = us_basePrice u, sit_unitCost = pr_costPrice (rwl_product x),
       sit_unitCode = us_unitCode u, sit_unitQuantity = us_unitQuantity u, sit_factor = us_factor u, sit_barcode = us_barcode u,
       sit_subtotal = tr_gross calc, sit_net = tr_net calc, sit_tax = tr_tax calc, sit_gross = tr_gross calc,
       sit_taxCode = map_option tx_id (tr_taxCode calc)\<rparr>])))"

text \<open>Stock is checked line by line, not per product.\<close>

definition stockSuffices :: "ident \<Rightarrow> product \<Rightarrow> int \<Rightarrow> 'b base_db_scheme \<Rightarrow> bool" where
  "stockSuffices w p quantity s \<longleftrightarrow> pr_allowNegative p \<or>
     (case findInventory w (pr_id p) (db_stock s) of None \<Rightarrow> False | Some i \<Rightarrow> quantity \<le> inv_available i)"

section \<open>Loyalty\<close>

text \<open>Dividing by a rate of zero gives an infinite discount, which exceeds any subtotal.\<close>

definition pointsDiscount :: "decimal_ops \<Rightarrow> loyalty_program \<Rightarrow> loyalty_account option \<Rightarrow> int \<Rightarrow> exn + rat" where
  "pointsDiscount dec program account redeem =
     bindE (requireE (case account of None \<Rightarrow> False | Some a \<Rightarrow> redeem \<le> la_points a) (BadRequest ''Poin tidak mencukupi.'')) (\<lambda>_.
     bindE (requireE (lp_minimumRedeem program \<le> redeem) (BadRequest ''Penukaran minimal poin.'')) (\<lambda>_.
     bindE (requireE (lp_redemptionRate program \<noteq> 0) (BadRequest ''Diskon melebihi subtotal.'')) (\<lambda>_.
     Inr (d_places dec 2 (d_div dec (of_int redeem) (lp_redemptionRate program))))))"

text \<open>The program, the account when points are redeemed, and the discount they give.\<close>

definition saleLoyalty ::
    "decimal_ops \<Rightarrow> tenant_scope \<Rightarrow> ident option \<Rightarrow> int \<Rightarrow> 'b sales_db_scheme \<Rightarrow> exn + loyalty_program option \<times> loyalty_account option \<times> rat" where
  "saleLoyalty dec scope customerId redeem s =
     bindE (requireE (\<not> (0 < redeem \<and> customerId = None)) (BadRequest ''Penukaran poin membutuhkan pelanggan.'')) (\<lambda>_.
     case customerId of None \<Rightarrow> Inr (None, None, 0)
     | Some i \<Rightarrow>
         (case activeProgram (sc_company scope) s of
            None \<Rightarrow> Inr (None, None, 0)
          | Some program \<Rightarrow>
              if 0 < redeem then
                let account = accountOf (lp_id program) i s
                in bindE (pointsDiscount dec program account redeem) (\<lambda>d. Inr (Some program, account, d))
              else Inr (Some program, None, 0)))"

text \<open>In the quote a redemption without a program is refused.\<close>

definition quoteLoyalty :: "decimal_ops \<Rightarrow> tenant_scope \<Rightarrow> ident option \<Rightarrow> int \<Rightarrow> 'b sales_db_scheme \<Rightarrow> exn + rat" where
  "quoteLoyalty dec scope customerId redeem s =
     bindE (requireE (\<not> (0 < redeem \<and> customerId = None)) (BadRequest ''Penukaran poin membutuhkan pelanggan.'')) (\<lambda>_.
     case customerId of None \<Rightarrow> Inr 0
     | Some i \<Rightarrow>
         if 0 < redeem then
           (case activeProgram (sc_company scope) s of
              None \<Rightarrow> Inl (BadRequest ''Program loyalitas aktif tidak ditemukan.'')
            | Some program \<Rightarrow> pointsDiscount dec program (accountOf (lp_id program) i s) redeem)
         else Inr 0)"

text \<open>\<open>Math.floor(Number(total) * Number(earnRate))\<close>; the database refuses a number that is no integer.\<close>

definition earnedPoints :: "rat \<Rightarrow> rat \<Rightarrow> exn + int" where
  "earnedPoints amount rate = (case mathFloor (jmul (double amount) (double rate)) of
     Fin x \<Rightarrow> Inr \<lfloor>x\<rfloor> | PosInf \<Rightarrow> Inl (PrismaError ''P2033'') | _ \<Rightarrow> Inr 0)"

definition addPoints :: "ident \<Rightarrow> int \<Rightarrow> int \<Rightarrow> ('b sales_db_scheme, unit) tx" where
  "addPoints i points lifetime = modT (\<lambda>s. s\<lparr>db_accountsOfLoyalty := update_many (\<lambda>a. la_id a = i)
     (\<lambda>a. a\<lparr>la_points := la_points a + points, la_lifetime := la_lifetime a + lifetime\<rparr>) (db_accountsOfLoyalty s)\<rparr>)"

definition logPoints :: "ident \<Rightarrow> string \<Rightarrow> int \<Rightarrow> int \<Rightarrow> ident \<Rightarrow> ('b sales_db_scheme, unit) tx" where
  "logPoints i kind points balanceAfter saleId = modT (\<lambda>s. s\<lparr>db_loyaltyLog := db_loyaltyLog s @
     [\<lparr>lt_account = i, lt_type = kind, lt_points = points, lt_balanceAfter = balanceAfter, lt_referenceType = ''Sale'', lt_reference = saleId, lt_expiresAt = None\<rparr>]\<rparr>)"

definition upsertAccount :: "ident \<Rightarrow> ident \<Rightarrow> ('b sales_db_scheme, ident) tx" where
  "upsertAccount program customerId = bindT (getT (accountOf program customerId)) (\<lambda>found. case found of
     Some a \<Rightarrow> returnT (la_id a)
   | None \<Rightarrow> bindT newIdT (\<lambda>i.
       bindT (modT (\<lambda>s. s\<lparr>db_accountsOfLoyalty := db_accountsOfLoyalty s @
         [\<lparr>la_id = i, la_program = program, la_customer = customerId, la_points = 0, la_lifetime = 0, la_tier = ''MEMBER''\<rparr>]\<rparr>)) (\<lambda>_. returnT i)))"

definition syncLoyalty ::
    "tenant_scope \<Rightarrow> auth_user \<Rightarrow> loyalty_program \<Rightarrow> loyalty_account option \<Rightarrow> ident \<Rightarrow> int \<Rightarrow> rat \<Rightarrow> ident \<Rightarrow> ('b sales_db_scheme, unit) tx" where
  "syncLoyalty scope user program account customerId redeem amount saleId =
     (let balance = (case account of None \<Rightarrow> 0 | Some a \<Rightarrow> la_points a);
          redeems = (0 < redeem \<and> account \<noteq> None);
          running = (if redeems then balance - redeem else balance) in
      bindT (liftE (earnedPoints amount (lp_earnRate program))) (\<lambda>earned.
      bindT (if redeems then bindT (addPoints (la_id (the account)) (- redeem) 0) (\<lambda>_.
               logPoints (la_id (the account)) ''REDEEM'' (- redeem) running saleId)
             else returnT ()) (\<lambda>_.
      bindT (if 0 < earned then bindT (upsertAccount (lp_id program) customerId) (\<lambda>i.
               bindT (addPoints i earned earned) (\<lambda>_.
               logPoints i ''EARN'' earned (running + earned) saleId))
             else returnT ()) (\<lambda>_.
      auditT scope user ''LOYALTY_SALE_SYNC'' ''Sale'' (Some saleId)))))"

section \<open>Settling a sale\<close>

text \<open>The amounts of a sale before tax: its lines, the discounts, the promotion and the loyalty program behind them.\<close>

record checkout =
  ck_lines :: "raw_line list"
  ck_subtotal :: rat
  ck_discount :: rat
  ck_promo :: "promo_rule option"
  ck_promoDiscount :: rat
  ck_pointsDiscount :: rat
  ck_program :: "loyalty_program option"
  ck_account :: "loyalty_account option"
  ck_redeem :: int

definition priceSale ::
    "decimal_ops \<Rightarrow> (string \<Rightarrow> string \<Rightarrow> int) \<Rightarrow> tenant_scope \<Rightarrow> sale_dto \<Rightarrow> bool \<Rightarrow> customer option \<Rightarrow> product list \<Rightarrow> int \<Rightarrow>
     'b sales_db_scheme \<Rightarrow> exn + checkout" where
  "priceSale dec collate scope dto offline customer products t s =
     bindE (mapE (priceLine dec scope products (map_option cu_type customer) t s) (sld_items dto)) (\<lambda>raw.
     let subtotal = d_sum dec (map rwl_line raw); discount = orElse (sld_discount dto) 0; redeem = orElse (sld_redeem dto) 0 in
     bindE (requireE (discount \<le> subtotal) (BadRequest ''Diskon melebihi subtotal.'')) (\<lambda>_.
     bindE (requireE (\<not> (offline \<and> cleanText (sld_promo dto) \<noteq> None)) (BadRequest ''Promo tidak boleh diterapkan dari transaksi offline.'')) (\<lambda>_.
     bindE (resolveSalePromotion dec collate scope subtotal (sld_promo dto) t (sld_customer dto) (Some ''POS'') (map promoLine raw) s)
       (\<lambda>(promoDiscount, rule).
     bindE (saleLoyalty dec scope (sld_customer dto) redeem s) (\<lambda>(program, account, points).
     let whole = d_add dec (d_add dec discount promoDiscount) points in
     bindE (requireE (whole \<le> subtotal) (BadRequest ''Diskon melebihi subtotal.'')) (\<lambda>_.
     Inr \<lparr>ck_lines = raw, ck_subtotal = subtotal, ck_discount = whole, ck_promo = rule, ck_promoDiscount = promoDiscount,
          ck_pointsDiscount = points, ck_program = program, ck_account = account, ck_redeem = redeem\<rparr>))))))"

definition sharesOf :: "decimal_ops \<Rightarrow> checkout \<Rightarrow> rat list" where
  "sharesOf dec c = discountShares dec (ck_discount c) (ck_subtotal c) 0 (map rwl_line (ck_lines c))"

definition taxLines :: "decimal_ops \<Rightarrow> tenant_scope \<Rightarrow> int \<Rightarrow> checkout \<Rightarrow> ('b accounting_db_scheme, sale_item list) tx" where
  "taxLines dec scope t c = foldT (taxLine dec scope t) (zip (ck_lines c) (sharesOf dec c)) []"

definition saleNet :: "decimal_ops \<Rightarrow> sale_item list \<Rightarrow> rat" where
  "saleNet dec items = d_sum dec (map sit_net items)"

definition saleTax :: "decimal_ops \<Rightarrow> sale_item list \<Rightarrow> rat" where
  "saleTax dec items = d_sum dec (map sit_tax items)"

definition saleTotal :: "decimal_ops \<Rightarrow> sale_item list \<Rightarrow> rat" where
  "saleTotal dec items = d_sum dec (map sit_gross items)"

definition saleCost :: "decimal_ops \<Rightarrow> checkout \<Rightarrow> rat" where
  "saleCost dec c = d_sum dec (map (lineCost dec) (ck_lines c))"

definition requestedPayments :: "decimal_ops \<Rightarrow> sale_dto \<Rightarrow> rat \<Rightarrow> payment_dto list" where
  "requestedPayments dec dto amount = (if sld_payments dto \<noteq> []
     then map (\<lambda>x. x\<lparr>pmd_method := toUpperCase (pmd_method x), pmd_amount := d_places dec 2 (pmd_amount x)\<rparr>) (sld_payments dto)
     else [\<lparr>pmd_method = toUpperCase (orElse (sld_method dto) ''CASH''), pmd_amount = d_places dec 2 amount, pmd_provider = None,
            pmd_externalRef = None\<rparr>])"

definition checkPayments :: "decimal_ops \<Rightarrow> sale_dto \<Rightarrow> bool \<Rightarrow> rat \<Rightarrow> exn + payment_dto list" where
  "checkPayments dec dto offline amount =
     (let requested = requestedPayments dec dto amount in
      bindE (requireE (\<not> (sld_payments dto \<noteq> [] \<and> present (sld_method dto))) (BadRequest ''Gunakan paymentMethod atau payments, jangan keduanya.'')) (\<lambda>_.
      bindE (requireE (d_sum dec (map pmd_amount requested) = d_places dec 2 amount) (BadRequest ''Total pembayaran tidak sama dengan total transaksi.'')) (\<lambda>_.
      bindE (requireE (\<not> (offline \<and> (length requested \<noteq> 1 \<or> pmd_method (hd requested) \<noteq> ''CASH'')))
               (BadRequest ''Transaksi offline hanya boleh satu pembayaran tunai.'')) (\<lambda>_.
      Inr requested))))"

definition settlementOf :: "decimal_ops \<Rightarrow> bool \<Rightarrow> payment_dto list \<Rightarrow> rat" where
  "settlementOf dec cash requested = d_sum dec (map pmd_amount (filter (\<lambda>x. (pmd_method x = ''CASH'') = cash) requested))"

definition saleEventType :: "rat \<Rightarrow> rat \<Rightarrow> string" where
  "saleEventType cash bank = (if cash \<noteq> 0 \<and> bank \<noteq> 0 then ''SALE_SPLIT'' else if cash = 0 then ''SALE_BANK'' else ''SALE_CASH'')"

text \<open>Base and tax per tax code, in the order the codes first appear.\<close>

definition outputTaxes :: "decimal_ops \<Rightarrow> sale_item list \<Rightarrow> tax_line list" where
  "outputTaxes dec items = (let taxed = filter (\<lambda>x. sit_taxCode x \<noteq> None \<and> 0 < sit_tax x) items in
     map (\<lambda>c. let mine = filter (\<lambda>x. sit_taxCode x = Some c) taxed in
        \<lparr>tl_taxCode = c, tl_direction = ''OUTPUT'', tl_base = d_sum dec (map sit_net mine), tl_amount = d_sum dec (map sit_tax mine)\<rparr>)
       (firstOccurrences (List.map_filter sit_taxCode taxed)))"

definition saleEvent :: "decimal_ops \<Rightarrow> tenant_scope \<Rightarrow> ident \<Rightarrow> int \<Rightarrow> checkout \<Rightarrow> sale_item list \<Rightarrow> payment_dto list \<Rightarrow> post_input" where
  "saleEvent dec scope saleId t c items requested =
     (let cash = settlementOf dec True requested; bank = settlementOf dec False requested; cost = saleCost dec c;
          net = saleNet dec items; tax = saleTax dec items; gross = saleTotal dec items in
      (stockEvent scope (sc_branch scope) (saleEventType cash bank) ''Sale'' (identText saleId) (''sale:'' @ identText saleId)
         [(''settlement'', gross), (''cashSettlement'', cash), (''bankSettlement'', bank), (''revenue'', net), (''outputTax'', tax),
          (''cogs'', cost), (''inventory'', cost), (''gross'', gross), (''net'', net), (''tax'', tax)]
         [(''settlement'', if cash = 0 then ''1102'' else ''1101''), (''cashSettlement'', ''1101''), (''bankSettlement'', ''1102''),
          (''revenue'', ''4101''), (''outputTax'', ''2201''), (''cogs'', ''5101''), (''inventory'', ''1301'')])
      \<lparr>pi_businessDate := Some t,
       pi_lines := map (\<lambda>x. \<lparr>el_itemType = Some ''Product'', el_itemId = Some (sit_product x), el_quantity = of_int (sit_quantity x),
         el_unitAmount = sit_unitPrice x, el_netAmount = sit_net x, el_taxAmount = sit_tax x, el_grossAmount = sit_gross x,
         el_taxCode = sit_taxCode x\<rparr>) items,
       pi_taxLines := outputTaxes dec items\<rparr>)"

section \<open>Writing a sale\<close>

text \<open>\<open>Sale.number\<close>, \<open>Payment.number\<close> and a company's \<open>TaxDocument.number\<close> are unique.\<close>

definition createSaleRow ::
    "decimal_ops \<Rightarrow> tenant_scope \<Rightarrow> sale_dto \<Rightarrow> ident \<Rightarrow> ident option \<Rightarrow> int \<Rightarrow> checkout \<Rightarrow> sale_item list \<Rightarrow> ('b sales_db_scheme, ident) tx" where
  "createSaleRow dec scope dto w shift t c items =
     bindT (numberT scope ''SALE'' ''POS'') (\<lambda>number.
     bindT (getT (\<lambda>s. find_first (\<lambda>x. sl_number x = number) (db_sales s))) (\<lambda>taken.
     bindT (requireT (taken = None) (PrismaError ''P2002'')) (\<lambda>_.
     bindT newIdT (\<lambda>i.
     let row = \<lparr>sl_id = i, sl_number = number, sl_branch = sc_branch scope, sl_warehouse = w, sl_customer = sld_customer dto, sl_shift = shift,
                sl_status = ''COMPLETED'', sl_subtotal = ck_subtotal c, sl_discount = ck_discount c, sl_tax = saleTax dec items,
                sl_total = saleTotal dec items, sl_costTotal = saleCost dec c, sl_createdAt = t, sl_event = None, sl_taxDocument = None\<rparr>
     in bindT (modT (\<lambda>s. s\<lparr>db_sales := db_sales s @ [row], db_saleItems := db_saleItems s @ map (\<lambda>x. x\<lparr>sit_sale := i\<rparr>) items\<rparr>)) (\<lambda>_.
        returnT i)))))"

definition payT :: "tenant_scope \<Rightarrow> ident \<Rightarrow> int \<Rightarrow> payment_dto \<Rightarrow> ('b sales_db_scheme, unit) tx" where
  "payT scope saleId t x =
     bindT (numberT scope ''PAYMENT'' ''PAY'') (\<lambda>number.
     bindT (getT (\<lambda>s. find_first (\<lambda>y. py_number y = number) (db_payments s))) (\<lambda>taken.
     bindT (requireT (taken = None) (PrismaError ''P2002'')) (\<lambda>_.
     bindT newIdT (\<lambda>i.
     modT (\<lambda>s. s\<lparr>db_payments := db_payments s @ [\<lparr>py_id = i, py_number = number, py_sale = Some saleId, py_order = None, py_method = pmd_method x,
       py_provider = pmd_provider x, py_externalRef = pmd_externalRef x, py_amount = pmd_amount x, py_status = ''PAID'',
       py_paidAt = Some t, py_event = None\<rparr>]\<rparr>)))))"

text \<open>\<open>toISOString().slice(0, 7)\<close> of the business date is the tax period.\<close>

definition issueTaxDocument ::
    "decimal_ops \<Rightarrow> tenant_scope \<Rightarrow> customer option \<Rightarrow> int \<Rightarrow> sale_item list \<Rightarrow> ident \<Rightarrow> ('b sales_db_scheme, ident option) tx" where
  "issueTaxDocument dec scope customer t items saleId = (if saleTax dec items \<le> 0 then returnT None else
     bindT (numberT scope ''TAX_SALE'' ''TAX-SALE'') (\<lambda>number.
     bindT (getT (\<lambda>s. find_first (\<lambda>x. td_company x = sc_company scope \<and> td_number x = number) (db_taxDocuments s))) (\<lambda>taken.
     bindT (requireT (taken = None) (PrismaError ''P2002'')) (\<lambda>_.
     bindT newIdT (\<lambda>i.
     bindT (modT (\<lambda>s. s\<lparr>db_taxDocuments := db_taxDocuments s @ [\<lparr>td_id = i, td_company = sc_company scope, td_branch = Some (sc_branch scope),
       td_number = number, td_type = ''SALES_TAX_DOCUMENT'', td_status = ''ISSUED'', td_sourceType = ''Sale'', td_source = saleId,
       td_issueDate = t, td_period = yearText t @ ''-'' @ monthText t, td_counterpartyName = map_option cu_name customer,
       td_counterpartyTaxId = (case customer of None \<Rightarrow> None | Some c \<Rightarrow> cu_taxId c), td_net = saleNet dec items,
       td_tax = saleTax dec items, td_gross = saleTotal dec items\<rparr>]\<rparr>)) (\<lambda>_.
     returnT (Some i)))))))"

definition postSale ::
    "decimal_ops \<Rightarrow> tenant_scope \<Rightarrow> approver \<Rightarrow> customer option \<Rightarrow> int \<Rightarrow> checkout \<Rightarrow> sale_item list \<Rightarrow> payment_dto list \<Rightarrow> ident \<Rightarrow>
     ('b sales_db_scheme, unit) tx" where
  "postSale dec scope user customer t c items requested saleId =
     bindT (postOperationalEvent dec (saleEvent dec scope saleId t c items requested)) (\<lambda>event.
     bindT (issueTaxDocument dec scope customer t items saleId) (\<lambda>taxDocument.
     bindT (modT (\<lambda>s. s\<lparr>db_payments := update_many (\<lambda>p. py_sale p = Some saleId) (\<lambda>p. p\<lparr>py_event := Some (ev_id event)\<rparr>) (db_payments s)\<rparr>)) (\<lambda>_.
     bindT (outboxT (sc_company scope) ''commerce.sale.completed'' ''Sale'' saleId) (\<lambda>_.
     bindT (auditT scope (ap_user user) ''CREATE_SALE'' ''Sale'' (Some saleId)) (\<lambda>_.
     modT (\<lambda>s. s\<lparr>db_sales := update_many (\<lambda>x. sl_id x = saleId)
       (\<lambda>x. x\<lparr>sl_event := Some (ev_id event), sl_taxDocument := taxDocument\<rparr>) (db_sales s)\<rparr>))))))"

definition writeSale ::
    "decimal_ops \<Rightarrow> tenant_scope \<Rightarrow> approver \<Rightarrow> sale_dto \<Rightarrow> ident \<Rightarrow> ident option \<Rightarrow> customer option \<Rightarrow> int \<Rightarrow> checkout \<Rightarrow> sale_item list \<Rightarrow>
     payment_dto list \<Rightarrow> ('b sales_db_scheme, ident) tx" where
  "writeSale dec scope user dto w shift customer t c items requested =
     bindT (createSaleRow dec scope dto w shift t c items) (\<lambda>saleId.
     bindT (case ck_promo c of
              Some rule \<Rightarrow> if 0 < ck_promoDiscount c
                then bindT (recordRedemption scope (pm_id rule) (sld_customer dto) ''Sale'' saleId (ck_promoDiscount c)) (\<lambda>_. returnT ())
                else returnT ()
            | None \<Rightarrow> returnT ()) (\<lambda>_.
     bindT (forT (\<lambda>x. issueStock w (sit_product x) (sit_quantity x) ''SALE'' ''Sale'' (identText saleId)) items) (\<lambda>_.
     bindT (forT (payT scope saleId t) requested) (\<lambda>_.
     bindT (postSale dec scope user customer t c items requested saleId) (\<lambda>_.
     bindT (case (ck_program c, sld_customer dto) of
              (Some program, Some i) \<Rightarrow> syncLoyalty scope (ap_user user) program (ck_account c) i (ck_redeem c) (saleTotal dec items) saleId
            | _ \<Rightarrow> returnT ()) (\<lambda>_.
     returnT saleId))))))"

section \<open>Creating a sale\<close>

definition saleShift :: "tenant_scope \<Rightarrow> approver \<Rightarrow> ident option \<Rightarrow> ('b sales_db_scheme, ident option) tx" where
  "saleShift scope user shift = (case shift of
     Some i \<Rightarrow>
       bindT (getT (\<lambda>s. list_ex (\<lambda>x. sh_id x = i \<and> openShiftOf scope (ap_user user) s x) (db_shifts s))) (\<lambda>ok.
       bindT (requireT ok (Forbidden ''Shift kasir tidak aktif atau bukan milik pengguna pada cabang ini.'')) (\<lambda>_. returnT (Some i)))
   | None \<Rightarrow>
       bindT (getT (latestShift scope (ap_user user))) (\<lambda>found.
       bindT (requireT (\<not> (List.member (ap_roles user) ''CASHIER'' \<and> found = None)) (BadRequest ''Kasir wajib membuka shift sebelum membuat penjualan.'')) (\<lambda>_.
       returnT (map_option sh_id found))))"

definition soldIds :: "sale_dto \<Rightarrow> ident list" where
  "soldIds dto = firstOccurrences (map sid_product (sld_items dto))"

text \<open>A product that was asked for, is not an active one of the company, but exists.\<close>

definition deniedProduct :: "tenant_scope \<Rightarrow> sale_dto \<Rightarrow> 'b base_db_scheme \<Rightarrow> product option" where
  "deniedProduct scope dto s =
     (let products = companyProducts (sc_company scope) True (soldIds dto) s;
          missing = filter (\<lambda>i. \<not> list_ex (\<lambda>p. pr_id p = i) products) (soldIds dto)
      in find_first (\<lambda>p. List.member missing (pr_id p)) (db_products s))"

definition saleProducts :: "tenant_scope \<Rightarrow> sale_dto \<Rightarrow> ('b base_db_scheme, product list) tx" where
  "saleProducts scope dto =
     bindT (getT (companyProducts (sc_company scope) True (soldIds dto))) (\<lambda>products.
     if length products = length (soldIds dto) then returnT products
     else bindT (getT (deniedProduct scope dto)) (\<lambda>foreign. case foreign of
            Some _ \<Rightarrow> throwT deniedError
          | None \<Rightarrow> throwT (BadRequest ''Satu atau lebih produk tidak ditemukan.'')))"

definition saleCustomer :: "tenant_scope \<Rightarrow> ident option \<Rightarrow> 'b sales_db_scheme \<Rightarrow> exn + customer option" where
  "saleCustomer scope customerId s = (case customerId of None \<Rightarrow> Inr None
     | Some i \<Rightarrow> (case find_first (\<lambda>c. cu_id c = i \<and> cu_company c = Some (sc_company scope)) (db_customers s) of
         None \<Rightarrow> Inl (BadRequest ''Pelanggan tidak ditemukan.'') | Some c \<Rightarrow> Inr (Some c)))"

definition checkStock :: "ident \<Rightarrow> product list \<Rightarrow> sale_item \<Rightarrow> ('b base_db_scheme, unit) tx" where
  "checkStock w products x = (case find_first (\<lambda>p. pr_id p = sit_product x) products of
     None \<Rightarrow> throwT (PlainError ''TypeError'')
   | Some p \<Rightarrow> bindT (getT (stockSuffices w p (sit_quantity x))) (\<lambda>ok. requireT ok (BadRequest ''Stok tidak mencukupi.'')))"

definition createSaleTx ::
    "decimal_ops \<Rightarrow> (string \<Rightarrow> string \<Rightarrow> int) \<Rightarrow> tenant_scope \<Rightarrow> sale_dto \<Rightarrow> bool \<Rightarrow> int \<Rightarrow> ident \<Rightarrow> approver \<Rightarrow> ('b sales_db_scheme, ident) tx" where
  "createSaleTx dec collate scope dto offline t w user =
     bindT (saleShift scope user (sld_shift dto)) (\<lambda>shift.
     bindT (saleProducts scope dto) (\<lambda>products.
     bindT (getT (saleCustomer scope (sld_customer dto))) (\<lambda>found.
     bindT (liftE found) (\<lambda>customer.
     bindT (getT (priceSale dec collate scope dto offline customer products t)) (\<lambda>priced.
     bindT (liftE priced) (\<lambda>c.
     bindT (taxLines dec scope t c) (\<lambda>items.
     bindT (forT (checkStock w products) items) (\<lambda>_.
     bindT (liftE (checkPayments dec dto offline (saleTotal dec items))) (\<lambda>requested.
     writeSale dec scope user dto w shift customer t c items requested)))))))))"

text \<open>
  The refusal of a product is audited with the plain client, so the row outlives the transaction. The answer is the
  id of the sale; \<open>None\<close> is a stored response without one.
\<close>

definition postingSale ::
    "decimal_ops \<Rightarrow> (string \<Rightarrow> string \<Rightarrow> int) \<Rightarrow> (sale_dto \<Rightarrow> string) \<Rightarrow> tenant_scope \<Rightarrow> sale_dto \<Rightarrow> bool \<Rightarrow> int \<Rightarrow> ident \<Rightarrow> approver \<Rightarrow>
     ('b sales_db_scheme, ident option) svc" where
  "postingSale dec collate digest scope dto offline t w user s =
     (case runTx (onceT (keyedOpts scope ''sale:create'' (sld_key dto) (digest dto)) (createSaleTx dec collate scope dto offline t w user)) s of
        (Inl e, s') \<Rightarrow>
          if e = deniedError then denyS scope (ap_user user) ''Product'' (map_option pr_id (deniedProduct scope dto s)) s' else (Inl e, s')
      | (Inr answer, s') \<Rightarrow> (Inr answer, s'))"

section \<open>The low-stock alert\<close>

text \<open>\<open>parse\<close> is \<open>JSON.parse\<close> of a setting stored as text, \<open>None\<close> where it throws.\<close>

definition digestRecipients :: "(string \<Rightarrow> json option) \<Rightarrow> ident \<Rightarrow> 'b sales_db_scheme \<Rightarrow> string list" where
  "digestRecipients parse c s = (case find_first (\<lambda>x. ss_company x = Some c \<and> ss_namespace x = ''reports'' \<and> ss_key x = ''daily_digest'') (db_settings s) of
     None \<Rightarrow> []
   | Some x \<Rightarrow> (case (case ss_value x of JString t \<Rightarrow> parse t | v \<Rightarrow> Some v) of
       None \<Rightarrow> []
     | Some v \<Rightarrow> (case jsonField ''recipients'' v of
         Some (JArray rs) \<Rightarrow> List.map_filter (\<lambda>r. case r of JString t \<Rightarrow> Some t | _ \<Rightarrow> None) rs | _ \<Rightarrow> [])))"

definition dedupeKey :: "ident \<Rightarrow> ident \<Rightarrow> ident \<Rightarrow> int \<Rightarrow> string" where
  "dedupeKey c w p t = ''low-stock-alert:'' @ identText c @ '':'' @ identText w @ '':'' @ identText p @ '':'' @
     yearText t @ ''-'' @ monthText t @ ''-'' @ padStart 2 CHR ''0'' (natText (nat (utcDate t)))"

definition alertOne :: "ident \<Rightarrow> ident \<Rightarrow> int \<Rightarrow> inventory \<times> string \<Rightarrow> ('b sales_db_scheme, unit) tx" where
  "alertOne c w t = (\<lambda>(i, recipient).
     let key = dedupeKey c w (inv_product i) t in
     bindT (getT (\<lambda>s. list_ex (\<lambda>n. no_company n = c \<and> no_channel n = ''TELEGRAM'' \<and> no_recipient n = recipient \<and> no_template n = Some key) (db_notifications s))) (\<lambda>duplicate.
     if duplicate then returnT ()
     else bindT newIdT (\<lambda>n. modT (\<lambda>s. s\<lparr>db_notifications := db_notifications s @
       [\<lparr>no_id = n, no_company = c, no_channel = ''TELEGRAM'', no_recipient = recipient, no_subject = Some ''Stok menipis'', no_template = Some key\<rparr>]\<rparr>))))"

definition alertLowStock :: "(string \<Rightarrow> json option) \<Rightarrow> ident \<Rightarrow> ident list \<Rightarrow> ident \<Rightarrow> ('b sales_db_scheme, unit) tx" where
  "alertLowStock parse c productIds w =
     bindT (getT (digestRecipients parse c)) (\<lambda>recipients.
     bindT nowT (\<lambda>t.
     bindT (getT (\<lambda>s. filter (\<lambda>i. inv_warehouse i = w \<and> List.member productIds (inv_product i) \<and>
              (case productOf (inv_product i) s of None \<Rightarrow> False | Some p \<Rightarrow> inv_available i \<le> pr_minStock p)) (inventories (db_stock s)))) (\<lambda>breached.
     forT (alertOne c w t) (List.product breached recipients))))"

definition createSale ::
    "decimal_ops \<Rightarrow> (string \<Rightarrow> string \<Rightarrow> int) \<Rightarrow> (sale_dto \<Rightarrow> string) \<Rightarrow> (string \<Rightarrow> json option) \<Rightarrow> sale_dto \<Rightarrow> approver \<Rightarrow> bool \<Rightarrow> int option \<Rightarrow>
     ('b sales_db_scheme, ident option) svc" where
  "createSale dec collate digest parse dto user offline occurredAt =
     bindS (liftS (requireTenantScope (ap_user user))) (\<lambda>scope.
     bindS (requireS (sld_items dto \<noteq> []) (BadRequest ''Penjualan harus memiliki barang.'')) (\<lambda>_.
     bindS (getS db_now) (\<lambda>t.
     bindS (warehouseS (ap_user user) scope (sld_warehouse dto) ByBranch False) (\<lambda>w.
     bindS (postingSale dec collate digest scope dto offline (orElse occurredAt t) (wh_id w) user) (\<lambda>answer.
     bindS (runTx (alertLowStock parse (sc_company scope) (soldIds dto) (wh_id w))) (\<lambda>_.
     returnS answer))))))"

section \<open>Quoting a sale\<close>

text \<open>
  The quote of the same request with the plain client; it reads the clock anew where \<open>create\<close> uses the business
  date. It writes nothing but the refusal of a foreign warehouse.
\<close>

record sale_quote =
  qt_subtotal :: rat
  qt_discount :: rat
  qt_promoDiscount :: rat
  qt_pointsDiscount :: rat
  qt_totalDiscount :: rat
  qt_net :: rat
  qt_tax :: rat
  qt_total :: rat

definition quoteLine ::
    "decimal_ops \<Rightarrow> tenant_scope \<Rightarrow> int \<Rightarrow> ident \<Rightarrow> raw_line \<times> rat \<Rightarrow> sale_item list \<Rightarrow> ('b accounting_db_scheme, sale_item list) tx" where
  "quoteLine dec scope t w x prepared =
     bindT (taxLine dec scope t x prepared) (\<lambda>items.
     bindT (getT (stockSuffices w (rwl_product (fst x)) (us_baseQuantity (rwl_unit (fst x))))) (\<lambda>ok.
     bindT (requireT ok (BadRequest ''Stok tidak mencukupi.'')) (\<lambda>_.
     returnT items)))"

definition quotePrice ::
    "decimal_ops \<Rightarrow> (string \<Rightarrow> string \<Rightarrow> int) \<Rightarrow> tenant_scope \<Rightarrow> sale_dto \<Rightarrow> customer option \<Rightarrow> product list \<Rightarrow> int \<Rightarrow> 'b sales_db_scheme \<Rightarrow> exn + checkout" where
  "quotePrice dec collate scope dto customer products t s =
     bindE (mapE (priceLine dec scope products (map_option cu_type customer) t s) (sld_items dto)) (\<lambda>raw.
     let subtotal = d_sum dec (map rwl_line raw); discount = orElse (sld_discount dto) 0; redeem = orElse (sld_redeem dto) 0 in
     bindE (requireE (discount \<le> subtotal) (BadRequest ''Diskon melebihi subtotal.'')) (\<lambda>_.
     bindE (resolveSalePromotion dec collate scope subtotal (sld_promo dto) t (sld_customer dto) (Some ''POS'') (map promoLine raw) s)
       (\<lambda>(promoDiscount, rule).
     bindE (quoteLoyalty dec scope (sld_customer dto) redeem s) (\<lambda>points.
     let whole = d_add dec (d_add dec discount promoDiscount) points in
     bindE (requireE (whole \<le> subtotal) (BadRequest ''Diskon melebihi subtotal.'')) (\<lambda>_.
     Inr \<lparr>ck_lines = raw, ck_subtotal = subtotal, ck_discount = whole, ck_promo = rule, ck_promoDiscount = promoDiscount,
          ck_pointsDiscount = points, ck_program = None, ck_account = None, ck_redeem = redeem\<rparr>)))))"

definition quoteSale ::
    "decimal_ops \<Rightarrow> (string \<Rightarrow> string \<Rightarrow> int) \<Rightarrow> sale_dto \<Rightarrow> auth_user \<Rightarrow> ('b sales_db_scheme, sale_quote) svc" where
  "quoteSale dec collate dto user =
     bindS (liftS (requireTenantScope user)) (\<lambda>scope.
     bindS (requireS (sld_items dto \<noteq> []) (BadRequest ''Penjualan harus memiliki barang.'')) (\<lambda>_.
     bindS (warehouseS user scope (sld_warehouse dto) ByBranch False) (\<lambda>w.
     bindS (getS (companyProducts (sc_company scope) True (soldIds dto))) (\<lambda>products.
     bindS (requireS (length products = length (soldIds dto)) (BadRequest ''Satu atau lebih produk tidak ditemukan.'')) (\<lambda>_.
     bindS (getS (saleCustomer scope (sld_customer dto))) (\<lambda>found.
     bindS (liftS found) (\<lambda>customer.
     bindS (getS db_now) (\<lambda>t.
     bindS (getS (quotePrice dec collate scope dto customer products t)) (\<lambda>priced.
     bindS (liftS priced) (\<lambda>c.
     bindS (runTx (foldT (quoteLine dec scope t (wh_id w)) (zip (ck_lines c) (sharesOf dec c)) [])) (\<lambda>items.
     returnS \<lparr>qt_subtotal = ck_subtotal c, qt_discount = orElse (sld_discount dto) 0, qt_promoDiscount = ck_promoDiscount c,
              qt_pointsDiscount = ck_pointsDiscount c, qt_totalDiscount = ck_discount c, qt_net = saleNet dec items,
              qt_tax = saleTax dec items, qt_total = saleTotal dec items\<rparr>)))))))))))"

end
