(* ===== verification/SalePricing.thy ===== *)
theory SalePricing
  imports Sales "HOL-Library.Product_Lexorder"
begin

text \<open>
  What the prices and discounts of a sale satisfy: the price row that is used, the bounds of a promotion, the
  allocation of the discount over the lines.
\<close>

section \<open>The price row that is used\<close>

text \<open>The order of preference, as a tuple: variant, branch, segment, unit, quantity step, newest.\<close>

definition priceRank :: "price_query \<Rightarrow> product_price \<Rightarrow> bool \<times> bool \<times> bool \<times> bool \<times> rat \<times> int" where
  "priceRank q r = (variantMatches q r, pp_branch r = Some (q_branch q), pp_segment r = segmentOf (q_segment q), unitMatches q r,
     pp_minQty r, pp_createdAt r)"

lemma comparePrices_rank: "comparePrices q a b \<le> 0 \<longleftrightarrow> priceRank q b \<le> priceRank q a"
  by (auto simp: comparePrices_def priceRank_def featureScore_def Let_def)

lemma priceOrder: "totalPreorder (\<lambda>a b. comparePrices q a b \<le> 0) A"
  unfolding totalPreorder_def comparePrices_rank by (meson linear order_trans)

definition unitPriceOf :: "decimal_ops \<Rightarrow> price_query \<Rightarrow> product_price \<Rightarrow> rat" where
  "unitPriceOf dec q r = (if \<not> present (pp_unitCode r) \<and> unitOf (q_unitCode q) \<noteq> None \<and> isSafeInteger (q_factor q) \<and> 1 < q_factor q
     then d_mul dec (pp_price r) (of_int (q_factor q)) else pp_price r)"

text \<open>
  A product is sold at the price row that ranks highest among those that apply: the one of the variant, then
  of the branch, then of the customer segment, then of the unit, then with the largest quantity step, then the
  newest; a row without a unit is priced per base unit and multiplied by the factor. Without a row the fallback is
  used. This holds as long as at most a hundred rows apply, the number the query takes.
\<close>

lemma price_highest_rank:
  assumes "length (filter (priceApplies q s) (db_prices s)) \<le> 100"
  shows "let rows = filter (priceApplies q s) (db_prices s); price = resolveProductUnitPrice dec q s in
    if rows = [] then price = q_fallback q
    else \<exists>r. r \<in> set rows \<and> (\<forall>r'. r' \<in> set rows \<longrightarrow> priceRank q r' \<le> priceRank q r) \<and>
         price = (if \<not> present (pp_unitCode r) \<and> unitOf (q_unitCode q) \<noteq> None \<and> isSafeInteger (q_factor q) \<and> 1 < q_factor q
                  then d_mul dec (pp_price r) (of_int (q_factor q)) else pp_price r)"
proof -
  let ?rows = "filter (priceApplies q s) (db_prices s)"
  have rows: "candidatePrices q s = ?rows" using assms by (simp add: candidatePrices_def)
  show ?thesis
  proof (cases "sortBy (\<lambda>a b. comparePrices q a b \<le> 0) ?rows")
    case Nil
    then have "?rows = []" using set_sortBy [of "\<lambda>a b. comparePrices q a b \<le> 0" ?rows] by (metis set_empty)
    then show ?thesis using Nil rows by (simp add: resolveProductUnitPrice_def)
  next
    case (Cons r rest)
    from sortBy_first [OF priceOrder Cons] have r: "r \<in> set ?rows" "\<forall>r' \<in> set ?rows. priceRank q r' \<le> priceRank q r"
      by (simp_all add: comparePrices_rank)
    then have "?rows \<noteq> []" by (metis empty_iff empty_set)
    with r Cons rows show ?thesis unfolding Let_def resolveProductUnitPrice_def by auto
  qed
qed

text \<open>A member price for every branch and a retail price of the branch: the branch's retail price is used.\<close>

definition examplePrice :: "ident option \<Rightarrow> string \<Rightarrow> rat \<Rightarrow> product_price" where
  "examplePrice branch segment price = \<lparr>pp_product = 5, pp_variant = None, pp_branch = branch, pp_segment = segment, pp_unitCode = None,
     pp_minQty = 1, pp_price = price, pp_from = None, pp_to = None, pp_isActive = True, pp_createdAt = 0\<rparr>"

definition exampleQuery :: price_query where
  "exampleQuery = \<lparr>q_company = 1, q_branch = 1, q_product = 5, q_quantity = 2, q_segment = Some ''member'', q_unitCode = Some ''PCS'',
     q_factor = 1, q_variant = None, q_fallback = 20, q_at = 0\<rparr>"

section \<open>Bounds of a promotion\<close>

text \<open>What decimal.js promises of rounding to a number of places: it is monotone and keeps zero.\<close>

definition orderlyPlaces :: "decimal_ops \<Rightarrow> bool" where
  "orderlyPlaces dec \<longleftrightarrow> (\<forall>k x y. x \<le> y \<longrightarrow> d_places dec k x \<le> d_places dec k y) \<and> (\<forall>k. d_places dec k 0 = 0)"

lemma rationalDecimal_orderly: "orderlyPlaces rationalDecimal"
proof -
  have "of_int \<lfloor>x * 10 ^ k + 1 / 2\<rfloor> / 10 ^ k \<le> (of_int \<lfloor>y * 10 ^ k + 1 / 2\<rfloor> / 10 ^ k :: rat)" if "x \<le> y" for x y :: rat and k
  proof -
    have "\<lfloor>x * 10 ^ k + 1 / 2\<rfloor> \<le> \<lfloor>y * 10 ^ k + 1 / 2\<rfloor>" using that by (intro floor_mono) (simp add: mult_right_mono)
    then show ?thesis by (intro divide_right_mono) simp_all
  qed
  moreover have "\<lfloor>1 / 2 :: rat\<rfloor> = 0" by (rule floor_unique) simp_all
  ultimately show ?thesis by (simp add: orderlyPlaces_def rationalDecimal_def)
qed

lemma places_mono: "orderlyPlaces dec \<Longrightarrow> x \<le> y \<Longrightarrow> d_places dec k x \<le> d_places dec k y"
  and places_zero: "orderlyPlaces dec \<Longrightarrow> d_places dec k 0 = 0"
  by (simp_all add: orderlyPlaces_def)

lemma places_nonneg: "orderlyPlaces dec \<Longrightarrow> 0 \<le> x \<Longrightarrow> 0 \<le> d_places dec k x"
  using places_mono [of dec 0 x k] by (simp add: places_zero)

lemma capDiscount_value: "\<exists>d. capDiscount dec rule subtotal base raw = d_places dec 2 d \<and> 0 \<le> d \<and> d \<le> max 0 subtotal \<and>
    (case pm_maxDiscount rule of None \<Rightarrow> True | Some c \<Rightarrow> d \<le> max 0 c)"
  unfolding capDiscount_def Let_def by (rule exI, intro conjI, rule refl) (auto split: option.split)

text \<open>
  C16. The discount of a promotion is never negative and never more than the subtotal it is given on, nor than the
  maximum of its rule, each rounded to cents: the caps are applied before the rounding.
\<close>

theorem promo_discount_bounds:
  assumes "orderlyPlaces dec" and "computeLineAwareDiscount dec rule subtotal ls = Inr d"
  shows "0 \<le> d \<and> d \<le> d_places dec 2 (max 0 subtotal) \<and>
    (case pm_maxDiscount rule of None \<Rightarrow> True | Some c \<Rightarrow> d \<le> d_places dec 2 (max 0 c))"
proof (cases "subtotal < d_ofNumber dec (double (pm_minSubtotal rule))")
  case True
  then have "d = 0" using assms(2) by (simp add: computeLineAwareDiscount_def)
  then show ?thesis using places_nonneg [OF assms(1), of "max 0 _" 2] by (auto split: option.split)
next
  case False
  then obtain base raw where d: "d = capDiscount dec rule subtotal base raw"
    using assms(2) unfolding computeLineAwareDiscount_def Let_def by (auto simp: bindE_Inr)
  from capDiscount_value [of dec rule subtotal base raw] obtain x where x: "d = d_places dec 2 x" "0 \<le> x" "x \<le> max 0 subtotal"
    "case pm_maxDiscount rule of None \<Rightarrow> True | Some c \<Rightarrow> x \<le> max 0 c" unfolding d by blast
  then show ?thesis using places_mono [OF assms(1)] places_nonneg [OF assms(1)] by (auto split: option.splits)
qed

definition bogo :: promo_rule where
  "bogo = \<lparr>pm_id = 9, pm_company = 1, pm_branch = 1, pm_name = ''2+1'', pm_code = ''BOGO'', pm_type = ''BOGO'', pm_value = 0, pm_minSubtotal = 0,
     pm_maxDiscount = Some 15, pm_memberTier = None, pm_channel = ''ALL'', pm_productIds = None, pm_minQuantity = None,
     pm_buyQuantity = Some 2, pm_getQuantity = Some 1, pm_usageLimit = Some 100, pm_perCustomerLimit = None, pm_startsAt = 0,
     pm_endsAt = None, pm_isActive = True, pm_createdBy = None, pm_createdAt = 0\<rparr>"

section \<open>Allocating the discount\<close>

lemma length_shares [simp]: "length (discountShares dec amount subtotal allocated xs) = length xs"
  by (induction xs arbitrary: allocated) (simp_all add: Let_def)

end
