(* ===== verification/OfflineReplay.thy ===== *)
theory OfflineReplay
  imports Sales
begin

text \<open>
  Replay of sales made offline: \<open>replayOfflineSales\<close> in \<open>apps/api/src/sales/sales.service.ts\<close>. A terminal sends a batch of
  captured sales; each has a receipt per device, claimed before it is worked on, and the batch stops at the first
  one that is not applied.

  \<open>stringify\<close> is \<open>JSON.stringify\<close> of a text, a number, a boolean or null; \<open>collate\<close> is \<open>localeCompare\<close>. The sale of an item
  is given twice, as the request the validation pipe makes of it and as the JSON object it came from, which the
  receipt stores.
\<close>

section \<open>JSON texts\<close>

definition bracketed :: "string \<Rightarrow> string list \<Rightarrow> string \<Rightarrow> string" where
  "bracketed l xs r = l @ joinComma xs @ r"

fun stableJson :: "(string \<Rightarrow> string \<Rightarrow> int) \<Rightarrow> (json \<Rightarrow> string) \<Rightarrow> json \<Rightarrow> string" where
  "stableJson collate stringify (JArray xs) = bracketed ''['' (map (stableJson collate stringify) xs) '']''"
| "stableJson collate stringify (JObject fs) = bracketed ''{''
     (map (\<lambda>(k, t). stringify (JString k) @ '':'' @ t)
       (sortBy (\<lambda>a b. collate (fst a) (fst b) \<le> 0) (map (\<lambda>(k, v). (k, stableJson collate stringify v)) fs))) ''}''"
| "stableJson collate stringify v = stringify v"

definition timeField :: "nat \<Rightarrow> int \<Rightarrow> string" where
  "timeField width n = padStart width CHR ''0'' (natText (nat n))"

text \<open>\<open>Date.prototype.toISOString\<close>, for the years 0 to 9999.\<close>

definition isoText :: "int \<Rightarrow> string" where
  "isoText t = timeField 4 (utcYear t) @ ''-'' @ monthText t @ ''-'' @ timeField 2 (utcDate t) @ ''T'' @ timeField 2 (t mod dayMs div 3600000) @
     '':'' @ timeField 2 (t mod 3600000 div 60000) @ '':'' @ timeField 2 (t mod 60000 div 1000) @ ''.'' @ timeField 3 (t mod 1000) @ ''Z''"

section \<open>Requests and results\<close>

record offline_item =
  oi_localId :: string
  oi_sequence :: int
  oi_capturedAt :: "int option"
  oi_configSyncedAt :: "int option"
  oi_configText :: string
  oi_expectedTotal :: rat
  oi_sale :: sale_dto
  oi_fields :: "(string \<times> json) list"

record replay_dto =
  rpd_deviceCode :: string
  rpd_deviceName :: "string option"
  rpd_appVersion :: "string option"
  rpd_items :: "offline_item list"

record replay_result =
  rr_localId :: string
  rr_sequence :: int
  rr_status :: string
  rr_sale :: "ident option"

record replay_counts =
  rc_applied :: nat
  rc_conflicts :: nat
  rc_failed :: nat
  rc_deadLetters :: nat
  rc_remaining :: nat

text \<open>The first repeated sequence or local id of a batch, whichever the loop meets first.\<close>

primrec batchUnique :: "int list \<Rightarrow> string list \<Rightarrow> offline_item list \<Rightarrow> exn + unit" where
  "batchUnique ns ls [] = Inr ()"
| "batchUnique ns ls (x # xs) =
     bindE (requireE (\<not> List.member ns (oi_sequence x)) (BadRequest ''Sequence offline duplikat dalam batch.'')) (\<lambda>_.
     bindE (requireE (\<not> List.member ls (oi_localId x)) (BadRequest ''Local ID offline duplikat dalam batch.'')) (\<lambda>_.
     batchUnique (oi_sequence x # ns) (oi_localId x # ls) xs))"

definition idemKey :: "ident \<Rightarrow> offline_item \<Rightarrow> string" where
  "idemKey deviceId x = orElse (cleanText (sld_key (oi_sale x))) (''offline-sale:'' @ identText deviceId @ '':'' @ oi_localId x)"

definition normalizedSale :: "ident \<Rightarrow> offline_item \<Rightarrow> sale_dto" where
  "normalizedSale deviceId x = (oi_sale x)\<lparr>sld_key := Some (idemKey deviceId x)\<rparr>"

definition receiptPayload :: "ident \<Rightarrow> offline_item \<Rightarrow> int \<Rightarrow> json" where
  "receiptPayload deviceId x occurredAt = JObject [(''capturedAt'', JString (isoText occurredAt)), (''configSyncedAt'', JString (oi_configText x)),
     (''expectedTotal'', JNumber (double (oi_expectedTotal x))),
     (''payload'', JObject (AList.update ''idempotencyKey'' (JString (idemKey deviceId x)) (oi_fields x)))]"

section \<open>The device\<close>

definition registerDevice :: "tenant_scope \<Rightarrow> replay_dto \<Rightarrow> ('b sales_db_scheme, ident) tx" where
  "registerDevice scope dto =
     (let mine = (\<lambda>d. de_company d = sc_company scope \<and> de_code d = rpd_deviceCode dto);
          name = orElse (cleanText (rpd_deviceName dto)) (''POS '' @ drop (length (rpd_deviceCode dto) - 8) (rpd_deviceCode dto)) in
      bindT (getT (\<lambda>s. find_first mine (db_devices s))) (\<lambda>existing.
      bindT (requireT (case existing of None \<Rightarrow> True | Some d \<Rightarrow> de_branch d = None \<or> de_branch d = Some (sc_branch scope))
               (Forbidden ''Device POS sudah terikat ke cabang lain.'')) (\<lambda>_.
      bindT nowT (\<lambda>t.
      let f = (\<lambda>d. d\<lparr>de_branch := Some (sc_branch scope), de_name := name, de_platform := ''WEB_POS'',
                     de_appVersion := orOption (rpd_appVersion dto) (de_appVersion d), de_lastSeenAt := Some t, de_isActive := True\<rparr>) in
      case existing of
        Some d \<Rightarrow> bindT (modT (\<lambda>s. s\<lparr>db_devices := update_many (\<lambda>x. de_id x = de_id d) f (db_devices s)\<rparr>)) (\<lambda>_. returnT (de_id d))
      | None \<Rightarrow> bindT newIdT (\<lambda>i.
          bindT (modT (\<lambda>s. s\<lparr>db_devices := db_devices s @ [f \<lparr>de_id = i, de_company = sc_company scope, de_branch = None, de_code = rpd_deviceCode dto,
            de_name = '''', de_platform = '''', de_appVersion = None, de_lastSeenAt = None, de_isActive = True\<rparr>]\<rparr>)) (\<lambda>_. returnT i))))))"

section \<open>Claiming a receipt\<close>

record claim =
  cl_receipt :: offline_transaction
  cl_claimed :: bool
  cl_deadLetter :: bool

definition leaseMs :: int where
  "leaseMs = 10 * 60 * 1000"

definition claimable :: "int \<Rightarrow> offline_transaction \<Rightarrow> bool" where
  "claimable t x \<longleftrightarrow> List.member [''PENDING'', ''FAILED'', ''CONFLICT''] (ot_status x) \<or>
     (ot_status x = ''PROCESSING'' \<and> (case ot_processedAt x of None \<Rightarrow> True | Some p \<Rightarrow> p \<le> t - leaseMs))"

definition reclaimed :: "int \<Rightarrow> offline_transaction \<Rightarrow> offline_transaction" where
  "reclaimed t x = x\<lparr>ot_status := ''PROCESSING'', ot_conflict := None, ot_error := None, ot_processedAt := Some t,
     ot_attempts := Suc (ot_attempts x), ot_nextRetryAt := None, ot_deadLetteredAt := None\<rparr>"

definition newReceipt :: "ident \<Rightarrow> offline_item \<Rightarrow> json \<Rightarrow> int \<Rightarrow> ident \<Rightarrow> offline_transaction" where
  "newReceipt deviceId x payload t i = \<lparr>ot_id = i, ot_device = deviceId, ot_localId = oi_localId x, ot_sequence = oi_sequence x, ot_type = ''SALE'',
     ot_payload = payload, ot_status = ''PROCESSING'', ot_entity = None, ot_conflict = None, ot_error = None, ot_attempts = 1,
     ot_nextRetryAt = None, ot_deadLetteredAt = None, ot_processedAt = Some t\<rparr>"

definition sameReceipt :: "(json \<Rightarrow> string) \<Rightarrow> offline_item \<Rightarrow> json \<Rightarrow> offline_transaction \<Rightarrow> bool" where
  "sameReceipt text x payload e \<longleftrightarrow> ot_localId e = oi_localId x \<and> ot_sequence e = oi_sequence x \<and> ot_type e = ''SALE'' \<and>
     text (ot_payload e) = text payload"

definition updateReceipts :: "(offline_transaction \<Rightarrow> bool) \<Rightarrow> (offline_transaction \<Rightarrow> offline_transaction) \<Rightarrow> ('b sales_db_scheme, nat) tx" where
  "updateReceipts P f = stateT (\<lambda>s. (count_where P (db_offline s), s\<lparr>db_offline := update_many P f (db_offline s)\<rparr>))"

text \<open>Between the lookup and the update, the transaction sees no other.\<close>

definition claimReceipt :: "(json \<Rightarrow> string) \<Rightarrow> ident \<Rightarrow> offline_item \<Rightarrow> json \<Rightarrow> ('b sales_db_scheme, claim) tx" where
  "claimReceipt text deviceId x payload =
     bindT (getT (\<lambda>s. find_first (\<lambda>e. ot_device e = deviceId \<and> (ot_localId e = oi_localId x \<or> ot_sequence e = oi_sequence x)) (db_offline s))) (\<lambda>existing.
     bindT nowT (\<lambda>t. case existing of
       None \<Rightarrow>
         bindT newIdT (\<lambda>i.
         bindT (modT (\<lambda>s. s\<lparr>db_offline := db_offline s @ [newReceipt deviceId x payload t i]\<rparr>)) (\<lambda>_.
         returnT \<lparr>cl_receipt = newReceipt deviceId x payload t i, cl_claimed = True, cl_deadLetter = False\<rparr>))
     | Some e \<Rightarrow>
         bindT (requireT (sameReceipt text x payload e) (BadRequest ''Replay offline memakai localId/sequence yang sama dengan payload berbeda.'')) (\<lambda>_.
         if ot_status e = ''APPLIED'' then returnT \<lparr>cl_receipt = e, cl_claimed = False, cl_deadLetter = False\<rparr>
         else if ot_status e = ''DEAD_LETTER'' then returnT \<lparr>cl_receipt = e, cl_claimed = False, cl_deadLetter = True\<rparr>
         else if ot_status e = ''PROCESSING'' \<and> (case ot_processedAt e of None \<Rightarrow> False | Some p \<Rightarrow> t - leaseMs < p)
         then returnT \<lparr>cl_receipt = e, cl_claimed = False, cl_deadLetter = False\<rparr>
         else
           bindT (updateReceipts (\<lambda>y. ot_id y = ot_id e \<and> claimable t y) (reclaimed t)) (\<lambda>n.
           bindT (getT (\<lambda>s. find_first (\<lambda>y. ot_id y = ot_id e) (db_offline s))) (\<lambda>current.
           returnT \<lparr>cl_receipt = orElse current e, cl_claimed = (n \<noteq> 0),
             cl_deadLetter = (n = 0 \<and> (case current of None \<Rightarrow> False | Some y \<Rightarrow> ot_status y = ''DEAD_LETTER''))\<rparr>)))))"

section \<open>Working on a claimed receipt\<close>

definition maxOfflineMinutes :: "js_number \<Rightarrow> js_number" where
  "maxOfflineMinutes configured = (if isFinite configured then mathMin (mathMax (mathFloor configured) (Fin 30)) (Fin 10080) else Fin 1440)"

text \<open>
  The rules a captured sale must meet before it is priced: the age of its configuration, cash only, no promotion,
  no points, a shift. \<open>Inl\<close> is the code of the conflict.
\<close>

definition replayRules :: "js_number \<Rightarrow> int \<Rightarrow> offline_item \<Rightarrow> sale_dto \<Rightarrow> string + ident" where
  "replayRules configured occurredAt x dto =
     bindE (requireE (case oi_configSyncedAt x of None \<Rightarrow> False
              | Some c \<Rightarrow> - (5 * 60 * 1000) \<le> occurredAt - c \<and>
                  \<not> jless (jmul (jmul (maxOfflineMinutes configured) (Fin 60)) (Fin 1000)) (Fin (of_int (occurredAt - c))))
              ''OFFLINE_CONFIG_STALE'') (\<lambda>_.
     bindE (requireE (sld_payments dto = [] \<and> orElse (sld_method dto) ''CASH'' = ''CASH'') ''OFFLINE_PAYMENT_NOT_ALLOWED'') (\<lambda>_.
     bindE (requireE (cleanText (sld_promo dto) = None) ''OFFLINE_PROMO_NOT_ALLOWED'') (\<lambda>_.
     bindE (requireE (orElse (sld_redeem dto) 0 \<le> 0) ''OFFLINE_LOYALTY_REDEEM_NOT_ALLOWED'') (\<lambda>_.
     case sld_shift dto of None \<Rightarrow> Inl ''OFFLINE_SHIFT_REQUIRED'' | Some i \<Rightarrow> Inr i))))"

text \<open>The instant the sale is booked at: a small skew of the terminal's clock is corrected to the opening of the shift.\<close>

definition bookedAt :: "tenant_scope \<Rightarrow> auth_user \<Rightarrow> int \<Rightarrow> ident \<Rightarrow> 'b sales_db_scheme \<Rightarrow> string + int" where
  "bookedAt scope user occurredAt shift s = (case find_first (\<lambda>x. sh_id x = shift \<and> openShiftOf scope user s x) (db_shifts s) of
     None \<Rightarrow> Inl ''OFFLINE_SHIFT_INVALID''
   | Some x \<Rightarrow>
       let before = sh_openedAt x - occurredAt in
       if 2 * 60 * 1000 < before then Inl ''OFFLINE_CAPTURE_BEFORE_SHIFT'' else Inr (if 0 < before then sh_openedAt x else occurredAt))"

definition setReceipt :: "ident \<Rightarrow> (offline_transaction \<Rightarrow> offline_transaction) \<Rightarrow> ('b sales_db_scheme, unit) svc" where
  "setReceipt i f = modS (\<lambda>s. s\<lparr>db_offline := update_many (\<lambda>y. ot_id y = i \<and> ot_status y = ''PROCESSING'') f (db_offline s)\<rparr>)"

definition registerConflict :: "ident \<Rightarrow> string \<Rightarrow> ('b sales_db_scheme, unit) svc" where
  "registerConflict i code = bindS (getS db_now) (\<lambda>t.
     setReceipt i (\<lambda>y. y\<lparr>ot_status := ''CONFLICT'', ot_conflict := Some code, ot_error := Some code, ot_processedAt := Some t\<rparr>))"

fun errorText :: "exn \<Rightarrow> string" where
  "errorText (BadRequest m) = take 1000 m"
| "errorText (Unauthorized m) = take 1000 m"
| "errorText (Forbidden m) = take 1000 m"
| "errorText (NotFound m) = take 1000 m"
| "errorText (Conflict m) = take 1000 m"
| "errorText (TooManyRequests m) = take 1000 m"
| "errorText (PlainError m) = take 1000 m"
| "errorText (PrismaError m) = take 1000 m"

fun businessError :: "exn \<Rightarrow> bool" where
  "businessError (BadRequest _) = True"
| "businessError (Forbidden _) = True"
| "businessError _ = False"

definition maxAttempts :: nat where
  "maxAttempts = 5"

definition retryMinutes :: "nat \<Rightarrow> int" where
  "retryMinutes attempts = min 60 (max 1 (2 ^ (attempts - 1)))"

definition failureStatus :: "exn \<Rightarrow> nat \<Rightarrow> string" where
  "failureStatus e attempts = (if businessError e then ''CONFLICT'' else if maxAttempts \<le> attempts then ''DEAD_LETTER'' else ''FAILED'')"

definition failReceipt :: "offline_transaction \<Rightarrow> exn \<Rightarrow> ('b sales_db_scheme, unit) svc" where
  "failReceipt r e = bindS (getS db_now) (\<lambda>t.
     let status = failureStatus e (ot_attempts r) in
     setReceipt (ot_id r) (\<lambda>y. y\<lparr>ot_status := status,
       ot_conflict := (if businessError e then Some ''OFFLINE_REPLAY_REJECTED'' else None), ot_error := Some (errorText e),
       ot_nextRetryAt := (if status = ''FAILED'' then Some (t + retryMinutes (ot_attempts r) * 60000) else None),
       ot_deadLetteredAt := (if status = ''DEAD_LETTER'' then Some t else None), ot_processedAt := Some t\<rparr>))"

definition applyReceipt :: "offline_transaction \<Rightarrow> ident \<Rightarrow> ('b sales_db_scheme, unit) svc" where
  "applyReceipt r saleId = bindS (getS db_now) (\<lambda>t. setReceipt (ot_id r) (\<lambda>y. y\<lparr>ot_status := ''APPLIED'', ot_entity := Some saleId,
     ot_conflict := None, ot_error := None, ot_processedAt := Some t\<rparr>))"

text \<open>The total the terminal took, against the total of the server.\<close>

definition totalChanged :: "rat \<Rightarrow> rat \<Rightarrow> bool" where
  "totalChanged serverTotal expected \<longleftrightarrow> \<not> isFinite (double serverTotal) \<or>
     jless (double (1 / 100)) (jabs (jsub (double serverTotal) (double expected)))"

text \<open>
  The code of a claimed receipt: the rules, then the quote and the sale. What the last two throw is caught and
  recorded; the answer is the status of the receipt and the sale.
\<close>

definition settleReplay ::
    "decimal_ops \<Rightarrow> (string \<Rightarrow> string \<Rightarrow> int) \<Rightarrow> (sale_dto \<Rightarrow> string) \<Rightarrow> (string \<Rightarrow> json option) \<Rightarrow> approver \<Rightarrow> offline_transaction \<Rightarrow> rat \<Rightarrow>
     sale_dto \<Rightarrow> int \<Rightarrow> ('b sales_db_scheme, string \<times> ident option) svc" where
  "settleReplay dec collate digest parse user r expected dto booked s =
     (let fail = (\<lambda>e. bindS (failReceipt r e) (\<lambda>_. returnS (failureStatus e (ot_attempts r), None))) in
      case quoteSale dec collate dto (ap_user user) s of
        (Inl e, s1) \<Rightarrow> fail e s1
      | (Inr q, s1) \<Rightarrow>
          if totalChanged (qt_total q) expected
          then bindS (registerConflict (ot_id r) ''OFFLINE_TOTAL_CHANGED'') (\<lambda>_. returnS (''CONFLICT'', None)) s1
          else (case createSale dec collate digest parse dto user True (Some booked) s1 of
              (Inl e, s2) \<Rightarrow> fail e s2
            | (Inr None, s2) \<Rightarrow> fail (PlainError ''TypeError'') s2
            | (Inr (Some i), s2) \<Rightarrow> bindS (applyReceipt r i) (\<lambda>_. returnS (''APPLIED'', Some i)) s2))"

definition workReceipt ::
    "decimal_ops \<Rightarrow> (string \<Rightarrow> string \<Rightarrow> int) \<Rightarrow> (sale_dto \<Rightarrow> string) \<Rightarrow> (string \<Rightarrow> json option) \<Rightarrow> js_number \<Rightarrow> tenant_scope \<Rightarrow> approver \<Rightarrow>
     offline_item \<Rightarrow> sale_dto \<Rightarrow> int \<Rightarrow> offline_transaction \<Rightarrow> ('b sales_db_scheme, string \<times> ident option) svc" where
  "workReceipt dec collate digest parse configured scope user x dto occurredAt r =
     (let conflict = (\<lambda>code. bindS (registerConflict (ot_id r) code) (\<lambda>_. returnS (''CONFLICT'', None))) in
      case replayRules configured occurredAt x dto of
        Inl code \<Rightarrow> conflict code
      | Inr shift \<Rightarrow> bindS (getS (bookedAt scope (ap_user user) occurredAt shift)) (\<lambda>booked. case booked of
          Inl code \<Rightarrow> conflict code
        | Inr t \<Rightarrow> settleReplay dec collate digest parse user r (oi_expectedTotal x) dto t))"

text \<open>An instant that is no date, or more than five minutes ahead, ends the whole request.\<close>

definition replayItem ::
    "decimal_ops \<Rightarrow> (string \<Rightarrow> string \<Rightarrow> int) \<Rightarrow> (sale_dto \<Rightarrow> string) \<Rightarrow> (string \<Rightarrow> json option) \<Rightarrow> (json \<Rightarrow> string) \<Rightarrow> js_number \<Rightarrow>
     tenant_scope \<Rightarrow> approver \<Rightarrow> ident \<Rightarrow> offline_item \<Rightarrow> ('b sales_db_scheme, replay_result) svc" where
  "replayItem dec collate digest parse stringify configured scope user deviceId x =
     (let answer = (\<lambda>(status, saleId). returnS \<lparr>rr_localId = oi_localId x, rr_sequence = oi_sequence x, rr_status = status, rr_sale = saleId\<rparr>) in
      bindS (getS db_now) (\<lambda>t.
      bindS (requireS (case oi_capturedAt x of None \<Rightarrow> False | Some c \<Rightarrow> c \<le> t + 5 * 60 * 1000)
               (BadRequest ''Waktu transaksi offline tidak valid.'')) (\<lambda>_.
      let occurredAt = the (oi_capturedAt x); dto = normalizedSale deviceId x in
      bindS (runTx (claimReceipt (stableJson collate stringify) deviceId x (receiptPayload deviceId x occurredAt))) (\<lambda>c.
      let r = cl_receipt c in
      if ot_status r = ''APPLIED'' then answer (''APPLIED'', ot_entity r)
      else if cl_deadLetter c \<or> ot_status r = ''DEAD_LETTER'' then answer (''DEAD_LETTER'', None)
      else if \<not> cl_claimed c then answer (''PENDING'', None)
      else bindS (workReceipt dec collate digest parse configured scope user x dto occurredAt r) answer))))"

text \<open>The loop: after the first item that is not applied, the rest are left pending.\<close>

definition pendingResult :: "offline_item \<Rightarrow> replay_result" where
  "pendingResult x = \<lparr>rr_localId = oi_localId x, rr_sequence = oi_sequence x, rr_status = ''PENDING'', rr_sale = None\<rparr>"

primrec replayItems ::
    "(offline_item \<Rightarrow> ('b sales_db_scheme, replay_result) svc) \<Rightarrow> offline_item list \<Rightarrow> bool \<Rightarrow> replay_result list \<Rightarrow>
     ('b sales_db_scheme, replay_result list) svc" where
  "replayItems work [] blocked results = returnS results"
| "replayItems work (x # xs) blocked results = (if blocked then replayItems work xs blocked (results @ [pendingResult x])
     else bindS (work x) (\<lambda>r. replayItems work xs (rr_status r \<noteq> ''APPLIED'') (results @ [r])))"

definition countsOf :: "replay_result list \<Rightarrow> replay_counts" where
  "countsOf rs = (let n = (\<lambda>status. count_where (\<lambda>r. rr_status r = status) rs) in
     \<lparr>rc_applied = n ''APPLIED'', rc_conflicts = n ''CONFLICT'', rc_failed = n ''FAILED'', rc_deadLetters = n ''DEAD_LETTER'',
      rc_remaining = n ''PENDING'' + n ''CONFLICT'' + n ''FAILED'' + n ''DEAD_LETTER''\<rparr>)"

definition replayOfflineSales ::
    "decimal_ops \<Rightarrow> (string \<Rightarrow> string \<Rightarrow> int) \<Rightarrow> (sale_dto \<Rightarrow> string) \<Rightarrow> (string \<Rightarrow> json option) \<Rightarrow> (json \<Rightarrow> string) \<Rightarrow> js_number \<Rightarrow>
     replay_dto \<Rightarrow> approver \<Rightarrow> ('b sales_db_scheme, replay_counts \<times> replay_result list) svc" where
  "replayOfflineSales dec collate digest parse stringify configured dto user =
     bindS (liftS (requireTenantScope (ap_user user))) (\<lambda>scope.
     if rpd_items dto = [] then returnS (countsOf [], [])
     else
       bindS (liftS (batchUnique [] [] (rpd_items dto))) (\<lambda>_.
       bindS (runTx (registerDevice scope dto)) (\<lambda>deviceId.
       bindS (replayItems (replayItem dec collate digest parse stringify configured scope user deviceId)
                (sort_key oi_sequence (rpd_items dto)) False []) (\<lambda>results.
       bindS (getS db_now) (\<lambda>t.
       bindS (modS (\<lambda>s. s\<lparr>db_devices := update_many (\<lambda>d. de_id d = deviceId) (\<lambda>d. d\<lparr>de_lastSeenAt := Some t\<rparr>) (db_devices s)\<rparr>)) (\<lambda>_.
       returnS (countsOf results, results)))))))"

end
