(* ===== verification/SaleExamples.thy ===== *)
theory SaleExamples
  imports SalePricing OfflineReplay ProcurementRuns
begin

text \<open>
  The shop the witnesses of the selling side start from: one branch with a warehouse holding ten pieces of one
  product, the accounts and the rule of a cash sale, a member with loyalty points, an open shift.
\<close>

definition shopAccount :: "ident \<Rightarrow> string \<Rightarrow> account" where
  "shopAccount i code = \<lparr>ac_id = i, ac_branch = 1, ac_code = code, ac_name = code, ac_type = ASSET, ac_isActive = True\<rparr>"

definition keyedLine :: "string \<Rightarrow> string \<Rightarrow> rule_line" where
  "keyedLine side key = \<lparr>rl_accountCode = None, rl_accountCodeKey = Some key, rl_side = side, rl_amountKey = key, rl_skipIfZero = None\<rparr>"

definition cashRule :: posting_rule where
  "cashRule = \<lparr>ru_id = 40, ru_company = 1, ru_code = ''S'', ru_version = 1, ru_name = ''S'', ru_eventType = ''SALE_CASH'', ru_priority = 100,
     ru_status = ''ACTIVE'', ru_effectiveFrom = None, ru_effectiveTo = None,
     ru_lines = [keyedLine ''DEBIT'' ''settlement'', keyedLine ''CREDIT'' ''revenue'', keyedLine ''DEBIT'' ''cogs'', keyedLine ''CREDIT'' ''inventory'']\<rparr>"

definition shopProduct :: product where
  "shopProduct = deliveryProduct\<lparr>pr_allowNegative := True\<rparr>"

definition shopStock :: stock where
  "shopStock = \<lparr>locations = [\<lparr>loc_id = 10, loc_warehouse = 1, loc_code = ''A'', loc_type = ''BIN'', loc_isDefault = True, loc_isActive = True\<rparr>],
     inventories = [\<lparr>inv_id = 3, inv_warehouse = 1, inv_product = 5, inv_quantity = 10, inv_reserved = 0, inv_available = 10\<rparr>],
     balances = [\<lparr>bal_id = 20, bal_warehouse = 1, bal_location = 10, bal_product = 5, bal_quantity = 10, bal_reserved = 0, bal_available = 10,
       bal_updatedAt = 0\<rparr>],
     conditions = [\<lparr>cb_id = 21, cb_warehouse = 1, cb_location = 10, cb_product = 5, cb_condition = AVAILABLE, cb_quantity = 10\<rparr>],
     reservations = [], now = 0, next_id = 50\<rparr>"

definition openTill :: cashier_shift where
  "openTill = \<lparr>sh_id = 30, sh_user = 7, sh_openedAt = 0, sh_closedAt = None, sh_openingCash = 100, sh_closingCash = None,
     sh_expectedCash = Some 100, sh_difference = None, sh_status = ''OPEN''\<rparr>"

definition memberProgram :: loyalty_program where
  "memberProgram = \<lparr>lp_id = 6, lp_company = 1, lp_earnRate = 1, lp_redemptionRate = 1, lp_minimumRedeem = 5, lp_tiers = JNull, lp_isActive = True,
     lp_pointsExpireDays = None, lp_createdAt = 0\<rparr>"

definition memberAccount :: loyalty_account where
  "memberAccount = \<lparr>la_id = 8, la_program = 6, la_customer = 4, la_points = 50, la_lifetime = 50, la_tier = ''MEMBER''\<rparr>"

definition shopMember :: customer where
  "shopMember = \<lparr>cu_id = 4, cu_company = Some 1, cu_name = ''C'', cu_type = ''member'', cu_taxId = None, cu_email = None, cu_phone = None, cu_address = None, cu_emailVerifiedAt = None, cu_phoneVerifiedAt = None\<rparr>"

definition shop :: sales_db where
  "shop = approvals_db.extend
     (procurement_db.extend
       (deliveryShop\<lparr>db_stock := shopStock, db_products := [shopProduct], db_accounts := map (\<lambda>(i, c). shopAccount i c)
          [(31, ''1101''), (32, ''4101''), (33, ''5101''), (34, ''1301'')], db_rules := [cashRule]\<rparr>)
       (approvals_db.fields [\<lparr>u_id = 7, u_branch = Some 1, u_isActive = True, u_roles = []\<rparr>] [] [] [] [] [] []))
     (sales_db.fields [] [examplePrice (Some 1) ''RETAIL'' 20, examplePrice None ''MEMBER'' 15] [] [shopMember] [bogo] [] [memberProgram]
        [memberAccount] [\<lparr>lt_account = 8, lt_type = ''EARN'', lt_points = 50, lt_balanceAfter = 50, lt_referenceType = ''Sale'', lt_reference = 1, lt_expiresAt = None\<rparr>]
        [openTill] [] [] [] [] [] [] [] [])"

definition cashier :: approver where
  "cashier = \<lparr>ap_user = exampleUser, ap_roles = [''CASHIER''], ap_permissions = []\<rparr>"

definition saleOf :: "int \<Rightarrow> ident option \<Rightarrow> int option \<Rightarrow> sale_dto" where
  "saleOf quantity customerId redeem = \<lparr>sld_key = None, sld_warehouse = 1, sld_customer = customerId, sld_shift = Some 30, sld_method = None,
     sld_payments = [], sld_promo = None, sld_discount = None, sld_redeem = redeem,
     sld_items = [\<lparr>sid_product = 5, sid_quantity = quantity, sid_variant = None, sid_unit = None, sid_barcode = None, sid_taxCode = None\<rparr>]\<rparr>"

end
