(* ===== verification/SaleFrames.thy ===== *)
theory SaleFrames
  imports SaleExamples ProcurementProperties
begin

text \<open>
  The tables the selling side owns, as one value, and what each operation does to them: most leave them alone and
  only take ids, the rest change one table each. The invariants of \<open>SaleRuns\<close> are predicates of this value and of
  the next free id.
\<close>

record till =
  t_promos :: "promo_rule list"
  t_redemptions :: "redemption list"
  t_accounts :: "loyalty_account list"
  t_log :: "loyalty_transaction list"
  t_shifts :: "cashier_shift list"
  t_users :: "app_user list"
  t_sales :: "sale list"
  t_items :: "sale_item list"
  t_payments :: "payment list"
  t_offline :: "offline_transaction list"

definition tills :: "'b sales_db_scheme \<Rightarrow> till" where
  "tills s = \<lparr>t_promos = db_promos s, t_redemptions = db_redemptions s, t_accounts = db_accountsOfLoyalty s, t_log = db_loyaltyLog s,
     t_shifts = db_shifts s, t_users = db_users s, t_sales = db_sales s, t_items = db_saleItems s, t_payments = db_payments s,
     t_offline = db_offline s\<rparr>"

lemma tills_simps [simp]: "t_promos (tills s) = db_promos s" "t_redemptions (tills s) = db_redemptions s"
    "t_accounts (tills s) = db_accountsOfLoyalty s" "t_log (tills s) = db_loyaltyLog s" "t_shifts (tills s) = db_shifts s"
    "t_users (tills s) = db_users s" "t_sales (tills s) = db_sales s" "t_items (tills s) = db_saleItems s"
    "t_payments (tills s) = db_payments s" "t_offline (tills s) = db_offline s"
  by (simp_all add: tills_def)

section \<open>Invariants of the tables and of the next id\<close>

abbreviation kept :: "(till \<Rightarrow> ident \<Rightarrow> bool) \<Rightarrow> 'b sales_db_scheme \<Rightarrow> bool" where
  "kept P \<equiv> (\<lambda>s. P (tills s) (db_nextId s))"

text \<open>The frame: the tables are what they were, the next id at least what it was.\<close>

abbreviation asBefore :: "till \<Rightarrow> ident \<Rightarrow> till \<Rightarrow> ident \<Rightarrow> bool" where
  "asBefore t n \<equiv> (\<lambda>t' n'. t' = t \<and> n \<le> n')"

locale till_invariant =
  fixes P :: "till \<Rightarrow> ident \<Rightarrow> bool"
  assumes growing: "P t n \<Longrightarrow> P t (Suc n)"
begin

lemma growing_le: "n \<le> m \<Longrightarrow> P t n \<Longrightarrow> P t m"
  by (induction m rule: dec_induct) (auto intro: growing)

end

sublocale till_invariant < bystander "kept P"
  by unfold_locales (simp_all add: tills_def growing)

context till_invariant
begin

lemma onStock_till [keeps_rules]: "keeps (kept P) (onStock m)"
  by (auto simp: keeps_def onStock_Inr tills_def)

lemma numberT_till [keeps_rules]: "keeps (kept P) (numberT scope d p)"
  unfolding numberT_def by (intro keeps_rules)

lemma movementT_till [keeps_rules]: "keeps (kept P) (movementT w p l k q b t r)"
  unfolding movementT_def by (rule keeps_frame) (simp add: tills_def)

lemma issueStock_till [keeps_rules]: "keeps (kept P) (issueStock w p q k t r)"
  unfolding issueStock_def by (intro keeps_rules)

lemma taxLine_till [keeps_rules]: "keeps (kept P) (taxLine dec scope t x items)"
  unfolding taxLine_def by (cases x; simp only: prod.case; intro keeps_rules)

lemma quoteLine_till [keeps_rules]: "keeps (kept P) (quoteLine dec scope t w x items)"
  unfolding quoteLine_def by (intro keeps_rules)

lemma taxLines_till [keeps_rules]: "keeps (kept P) (taxLines dec scope t c)"
  unfolding taxLines_def by (intro keeps_rules)

lemma checkStock_till [keeps_rules]: "keeps (kept P) (checkStock w products x)"
  unfolding checkStock_def by (intro keeps_rules)

lemma saleShift_till [keeps_rules]: "keeps (kept P) (saleShift scope user shift)"
  unfolding saleShift_def by (intro keeps_rules)

lemma saleProducts_till [keeps_rules]: "keeps (kept P) (saleProducts scope dto)"
  unfolding saleProducts_def by (intro keeps_rules)

lemma issueTaxDocument_till [keeps_rules]: "keeps (kept P) (issueTaxDocument dec scope customer t items i)"
  unfolding issueTaxDocument_def by (intro keeps_rules keeps_frame) (simp add: tills_def)

lemma alertLowStock_till [keeps_rules]: "keeps (kept P) (alertLowStock parse c ids w)"
  unfolding alertLowStock_def alertOne_def Let_def by (intro keeps_rules keeps_frame) (simp add: tills_def)

lemma registerDevice_till [keeps_rules]: "keeps (kept P) (registerDevice scope dto)"
  unfolding registerDevice_def Let_def by (intro keeps_rules keeps_frame) (simp_all add: tills_def)

lemma warehouseS_till [keeps_rules]: "keepsS (kept P) (warehouseS user scope w m a)"
  unfolding warehouseS_def by (intro keeps_rules)

lemma quoteSale_till [keeps_rules]: "keepsS (kept P) (quoteSale dec collate dto user)"
  unfolding quoteSale_def by (intro keeps_rules)

lemma onceT_till [keeps_rules]: "keeps (kept P) work \<Longrightarrow> keeps (kept P) (onceT opts work)"
  unfolding onceT_def by (intro keeps_rules) (auto split: begin_result.split intro!: keeps_rules)

text \<open>A service keeps an invariant when the transaction in it does.\<close>

lemma postingSale_till:
  assumes "\<And>t. keeps (kept P) (createSaleTx dec collate scope dto offline t w user :: ('b sales_db_scheme, ident) tx)"
  shows "keepsS (kept P) (postingSale dec collate digest scope dto offline t w user :: ('b sales_db_scheme, ident option) svc)"
  unfolding keepsS_def
proof (intro allI impI)
  fix s s' :: "'b sales_db_scheme" and r
  let ?run = "runTx (onceT (keyedOpts scope ''sale:create'' (sld_key dto) (digest dto)) (createSaleTx dec collate scope dto offline t w user))"
  assume s: "kept P s" and run: "postingSale dec collate digest scope dto offline t w user s = (r, s')"
  obtain v s1 where v: "?run s = (v, s1)" by (rule prod.exhaust)
  have s1: "kept P s1" by (rule keepsSD [OF keepsS_run [OF onceT_till [OF assms]] v s])
  show "kept P s'"
  proof (cases v)
    case (Inl e)
    then show ?thesis using run v s1 keepsSD [OF denyS_keeps] by (auto simp: postingSale_def split: if_splits)
  qed (use run v s1 in \<open>auto simp: postingSale_def\<close>)
qed

lemma createSale_till:
  assumes "\<And>scope t w. keeps (kept P) (createSaleTx dec collate scope dto offline t w user :: ('b sales_db_scheme, ident) tx)"
  shows "keepsS (kept P) (createSale dec collate digest parse dto user offline occurredAt :: ('b sales_db_scheme, ident option) svc)"
  unfolding createSale_def by (intro keeps_rules postingSale_till assms)

end

interpretation frame_invariant: till_invariant "asBefore t n" for t :: till and n :: ident
  by unfold_locales simp

text \<open>What the frame rules give of one committed operation.\<close>

lemma tills_kept:
  assumes "\<And>t n. keeps (kept (asBefore t n)) m" and "m s = Inr (x, s')"
  shows "tills s' = tills s \<and> db_nextId s \<le> db_nextId s'"
  using keepsD [OF assms(1) [of "tills s" "db_nextId s"] assms(2)] by simp

section \<open>What a sale writes\<close>

lemma createSaleRow_effect:
  assumes "createSaleRow dec scope dto w shift t c items s = Inr (i, s')"
  shows "i = db_nextId s \<and> db_nextId s' = Suc (db_nextId s) \<and> db_stock s' = db_stock s \<and>
    (\<exists>row. sl_id row = i \<and> sl_total row = saleTotal dec items \<and> sl_tax row = saleTax dec items \<and> sl_discount row = ck_discount c \<and>
       sl_subtotal row = ck_subtotal c \<and> sl_status row = ''COMPLETED'' \<and> sl_warehouse row = w \<and> sl_customer row = sld_customer dto \<and>
       tills s' = (tills s)\<lparr>t_sales := db_sales s @ [row], t_items := db_saleItems s @ map (\<lambda>x. x\<lparr>sit_sale := i\<rparr>) items\<rparr>)"
  using assms by (auto simp: createSaleRow_def numberT_def tx_Inr db_Inr Let_def tills_def)

lemma payT_effect:
  assumes "payT scope i t x s = Inr (u, s')"
  shows "db_nextId s \<le> db_nextId s' \<and> (\<exists>p. py_amount p = pmd_amount x \<and> py_sale p = Some i \<and> py_status p = ''PAID'' \<and>
    py_method p = pmd_method x \<and> tills s' = (tills s)\<lparr>t_payments := db_payments s @ [p]\<rparr>)"
  using assms by (auto simp: payT_def numberT_def tx_Inr db_Inr tills_def)

lemma payments_effect:
  assumes "forT (payT scope i t) xs s = Inr (u, s')"
  shows "db_nextId s \<le> db_nextId s' \<and> (\<exists>ps. map py_amount ps = map pmd_amount xs \<and> (\<forall>p \<in> set ps. py_sale p = Some i \<and> py_status p = ''PAID'') \<and>
    tills s' = (tills s)\<lparr>t_payments := db_payments s @ ps\<rparr>)"
  using assms
proof (induction xs arbitrary: s)
  case Nil
  then show ?case by (auto simp: tx_Inr intro!: exI [of _ "[]"] simp: tills_def)
next
  case (Cons x xs)
  then obtain s1 v where 1: "payT scope i t x s = Inr (v, s1)" and 2: "forT (payT scope i t) xs s1 = Inr (u, s')" by (auto simp: tx_Inr)
  from payT_effect [OF 1] obtain p where p: "py_amount p = pmd_amount x" "py_sale p = Some i" "py_status p = ''PAID''" "db_nextId s \<le> db_nextId s1"
    "tills s1 = (tills s)\<lparr>t_payments := db_payments s @ [p]\<rparr>" by blast
  from Cons.IH [OF 2] obtain ps where ps: "map py_amount ps = map pmd_amount xs" "\<forall>p \<in> set ps. py_sale p = Some i \<and> py_status p = ''PAID''"
    "db_nextId s1 \<le> db_nextId s'" "tills s' = (tills s1)\<lparr>t_payments := db_payments s1 @ ps\<rparr>" by blast
  have "db_payments s1 = db_payments s @ [p]" using arg_cong [OF p(5), of t_payments] by simp
  then have "tills s' = (tills s)\<lparr>t_payments := db_payments s @ p # ps\<rparr>" using ps(4) p(5) by simp
  with p ps show ?case by (intro conjI exI [of _ "p # ps"]) auto
qed

text \<open>The event of a sale is linked to its payments and its row.\<close>

lemma postSale_effect:
  assumes "postSale dec scope user customer t c items requested i s = Inr (u, s')"
  shows "db_nextId s \<le> db_nextId s' \<and> (\<exists>e d. tills s' = (tills s)\<lparr>
      t_payments := update_many (\<lambda>p. py_sale p = Some i) (\<lambda>p. p\<lparr>py_event := Some e\<rparr>) (db_payments s),
      t_sales := update_many (\<lambda>x. sl_id x = i) (\<lambda>x. x\<lparr>sl_event := Some e, sl_taxDocument := d\<rparr>) (db_sales s)\<rparr>)"
proof -
  from assms obtain event s1 d s2 where e: "postOperationalEvent dec (saleEvent dec scope i t c items requested) s = Inr (event, s1)"
    and d: "issueTaxDocument dec scope customer t items i s1 = Inr (d, s2)"
    and s': "tills s' = (tills s2)\<lparr>
      t_payments := update_many (\<lambda>p. py_sale p = Some i) (\<lambda>p. p\<lparr>py_event := Some (ev_id event)\<rparr>) (db_payments s2),
      t_sales := update_many (\<lambda>x. sl_id x = i) (\<lambda>x. x\<lparr>sl_event := Some (ev_id event), sl_taxDocument := d\<rparr>) (db_sales s2)\<rparr>"
      "db_nextId s' = db_nextId s2"
    unfolding postSale_def by (auto simp: tx_Inr db_Inr tills_def)
  have 1: "tills s1 = tills s \<and> db_nextId s \<le> db_nextId s1" by (rule tills_kept [OF frame_invariant.postOperationalEvent_keeps e])
  have 2: "tills s2 = tills s1 \<and> db_nextId s1 \<le> db_nextId s2" by (rule tills_kept [OF frame_invariant.issueTaxDocument_till d])
  from 1 2 have t: "tills s2 = tills s" "db_nextId s \<le> db_nextId s2" by simp_all
  have "db_payments s2 = db_payments s" "db_sales s2 = db_sales s" using arg_cong [OF t(1), of t_payments] arg_cong [OF t(1), of t_sales] by simp_all
  then show ?thesis using s' t by auto
qed

text \<open>The frame of operations that change the redemptions, or the loyalty tables.\<close>

abbreviation agrees :: "(till \<Rightarrow> 'k) \<Rightarrow> till \<Rightarrow> ident \<Rightarrow> till \<Rightarrow> ident \<Rightarrow> bool" where
  "agrees f t n \<equiv> (\<lambda>t' n'. f t' = f t \<and> n \<le> n')"

interpretation agrees_invariant: till_invariant "agrees f t n" for f :: "till \<Rightarrow> 'k" and t :: till and n :: ident
  by unfold_locales simp

definition noRedemptions :: "till \<Rightarrow> till" where
  "noRedemptions t = t\<lparr>t_redemptions := []\<rparr>"

definition noLoyalty :: "till \<Rightarrow> till" where
  "noLoyalty t = t\<lparr>t_accounts := [], t_log := []\<rparr>"

lemma recordRedemption_frame: "keeps (kept (agrees noRedemptions t n)) (recordRedemption scope r c k i d)"
  unfolding recordRedemption_def Let_def by (intro keeps_rules keeps_frame) (simp add: tills_def noRedemptions_def)

lemma syncLoyalty_frame: "keeps (kept (agrees noLoyalty t n)) (syncLoyalty scope user program account c redeem amount i)"
  unfolding syncLoyalty_def addPoints_def logPoints_def upsertAccount_def Let_def
  by (intro keeps_rules keeps_frame) (simp_all add: tills_def noLoyalty_def)

lemma agrees_kept:
  assumes "\<And>t n. keeps (kept (agrees f t n)) m" and "m s = Inr (x, s')"
  shows "f (tills s') = f (tills s) \<and> db_nextId s \<le> db_nextId s'"
  using keepsD [OF assms(1) [of "tills s" "db_nextId s"] assms(2)] by simp

definition redeemPromo :: "tenant_scope \<Rightarrow> sale_dto \<Rightarrow> checkout \<Rightarrow> ident \<Rightarrow> ('b sales_db_scheme, unit) tx" where
  "redeemPromo scope dto c i = (case ck_promo c of
     Some rule \<Rightarrow> if 0 < ck_promoDiscount c
       then bindT (recordRedemption scope (pm_id rule) (sld_customer dto) ''Sale'' i (ck_promoDiscount c)) (\<lambda>_. returnT ())
       else returnT ()
   | None \<Rightarrow> returnT ())"

definition earnAndRedeem :: "decimal_ops \<Rightarrow> tenant_scope \<Rightarrow> approver \<Rightarrow> sale_dto \<Rightarrow> checkout \<Rightarrow> sale_item list \<Rightarrow> ident \<Rightarrow> ('b sales_db_scheme, unit) tx" where
  "earnAndRedeem dec scope user dto c items i = (case (ck_program c, sld_customer dto) of
     (Some program, Some customerId) \<Rightarrow> syncLoyalty scope (ap_user user) program (ck_account c) customerId (ck_redeem c) (saleTotal dec items) i
   | _ \<Rightarrow> returnT ())"

lemma redeemPromo_frame: "keeps (kept (agrees noRedemptions t n)) (redeemPromo scope dto c i)"
  unfolding redeemPromo_def by (intro keeps_rules recordRedemption_frame)

lemma earnAndRedeem_frame: "keeps (kept (agrees noLoyalty t n)) (earnAndRedeem dec scope user dto c items i)"
  unfolding earnAndRedeem_def by (intro keeps_rules syncLoyalty_frame)

lemma writeSale_Inr: "writeSale dec scope user dto w shift customer t c items requested s = Inr (i, s') \<longleftrightarrow>
    (\<exists>s1 s2 s3 s4 s5. createSaleRow dec scope dto w shift t c items s = Inr (i, s1) \<and> redeemPromo scope dto c i s1 = Inr ((), s2) \<and>
       forT (\<lambda>x. issueStock w (sit_product x) (sit_quantity x) ''SALE'' ''Sale'' (identText i)) items s2 = Inr ((), s3) \<and>
       forT (payT scope i t) requested s3 = Inr ((), s4) \<and> postSale dec scope user customer t c items requested i s4 = Inr ((), s5) \<and>
       earnAndRedeem dec scope user dto c items i s5 = Inr ((), s'))"
  unfolding writeSale_def redeemPromo_def earnAndRedeem_def bindT_Inr returnT_Inr by auto

definition saleCore :: "till \<Rightarrow> sale list \<times> sale_item list \<times> payment list" where
  "saleCore t = (t_sales t, t_items t, t_payments t)"

text \<open>The sale, its items and its payments after the transaction.\<close>

lemma writeSale_effect:
  assumes "writeSale dec scope user dto w shift customer t c items requested s = Inr (i, s')"
  shows "i = db_nextId s \<and> i < db_nextId s' \<and> (\<exists>row ps e d. sl_id row = i \<and> sl_total row = saleTotal dec items \<and> sl_tax row = saleTax dec items \<and>
    sl_discount row = ck_discount c \<and> sl_subtotal row = ck_subtotal c \<and> map py_amount ps = map pmd_amount requested \<and>
    (\<forall>p \<in> set ps. py_sale p = Some i \<and> py_status p = ''PAID'') \<and>
    saleCore (tills s') = (update_many (\<lambda>x. sl_id x = i) (\<lambda>x. x\<lparr>sl_event := Some e, sl_taxDocument := d\<rparr>) (db_sales s @ [row]),
      db_saleItems s @ map (\<lambda>x. x\<lparr>sit_sale := i\<rparr>) items,
      update_many (\<lambda>p. py_sale p = Some i) (\<lambda>p. p\<lparr>py_event := Some e\<rparr>) (db_payments s @ ps)))"
proof -
  from assms obtain s1 s2 s3 s4 s5 where 1: "createSaleRow dec scope dto w shift t c items s = Inr (i, s1)"
    and 2: "redeemPromo scope dto c i s1 = Inr ((), s2)"
    and 3: "forT (\<lambda>x. issueStock w (sit_product x) (sit_quantity x) ''SALE'' ''Sale'' (identText i)) items s2 = Inr ((), s3)"
    and 4: "forT (payT scope i t) requested s3 = Inr ((), s4)"
    and 5: "postSale dec scope user customer t c items requested i s4 = Inr ((), s5)"
    and 6: "earnAndRedeem dec scope user dto c items i s5 = Inr ((), s')" unfolding writeSale_Inr by blast
  from createSaleRow_effect [OF 1] obtain row where i: "i = db_nextId s" "db_nextId s1 = Suc (db_nextId s)" and row: "sl_id row = i"
      "sl_total row = saleTotal dec items" "sl_tax row = saleTax dec items" "sl_discount row = ck_discount c" "sl_subtotal row = ck_subtotal c"
    and t1: "tills s1 = (tills s)\<lparr>t_sales := db_sales s @ [row], t_items := db_saleItems s @ map (\<lambda>x. x\<lparr>sit_sale := i\<rparr>) items\<rparr>" by blast
  have t2: "noRedemptions (tills s2) = noRedemptions (tills s1) \<and> db_nextId s1 \<le> db_nextId s2" by (rule agrees_kept [OF redeemPromo_frame 2])
  have k3: "keeps (kept (asBefore tl n)) (forT (\<lambda>x. issueStock w (sit_product x) (sit_quantity x) ''SALE'' ''Sale'' (identText i)) items)" for tl n
    by (intro keeps_rules)
  have t3: "tills s3 = tills s2 \<and> db_nextId s2 \<le> db_nextId s3" by (rule tills_kept [OF k3 3])
  from payments_effect [OF 4] obtain ps where ps: "map py_amount ps = map pmd_amount requested" "\<forall>p \<in> set ps. py_sale p = Some i \<and> py_status p = ''PAID''"
    and t4: "tills s4 = (tills s3)\<lparr>t_payments := db_payments s3 @ ps\<rparr>" "db_nextId s3 \<le> db_nextId s4" by blast
  from postSale_effect [OF 5] obtain e d where t5: "db_nextId s4 \<le> db_nextId s5" "tills s5 = (tills s4)\<lparr>
      t_payments := update_many (\<lambda>p. py_sale p = Some i) (\<lambda>p. p\<lparr>py_event := Some e\<rparr>) (db_payments s4),
      t_sales := update_many (\<lambda>x. sl_id x = i) (\<lambda>x. x\<lparr>sl_event := Some e, sl_taxDocument := d\<rparr>) (db_sales s4)\<rparr>" by blast
  have t6: "noLoyalty (tills s') = noLoyalty (tills s5) \<and> db_nextId s5 \<le> db_nextId s'" by (rule agrees_kept [OF earnAndRedeem_frame 6])
  have c1: "saleCore (tills s1) = (db_sales s @ [row], db_saleItems s @ map (\<lambda>x. x\<lparr>sit_sale := i\<rparr>) items, db_payments s)"
    using t1 by (simp add: saleCore_def del: tills_simps) (simp add: tills_def)
  have c3: "saleCore (tills s3) = saleCore (tills s1)"
    using conjunct1 [OF t2] conjunct1 [OF t3] by (cases "tills s2", cases "tills s1") (simp add: saleCore_def noRedemptions_def del: tills_simps)
  have "saleCore (tills s4) = (db_sales s @ [row], db_saleItems s @ map (\<lambda>x. x\<lparr>sit_sale := i\<rparr>) items, db_payments s @ ps)"
    using c1 c3 unfolding t4 by (simp add: saleCore_def)
  then have "saleCore (tills s5) = (update_many (\<lambda>x. sl_id x = i) (\<lambda>x. x\<lparr>sl_event := Some e, sl_taxDocument := d\<rparr>) (db_sales s @ [row]),
      db_saleItems s @ map (\<lambda>x. x\<lparr>sit_sale := i\<rparr>) items, update_many (\<lambda>p. py_sale p = Some i) (\<lambda>p. p\<lparr>py_event := Some e\<rparr>) (db_payments s @ ps))"
    unfolding t5 by (simp add: saleCore_def)
  moreover have "saleCore (tills s') = saleCore (tills s5)"
    using conjunct1 [OF t6] by (cases "tills s'", cases "tills s5") (simp add: saleCore_def noLoyalty_def del: tills_simps)
  ultimately show ?thesis using i row ps t2 t3 t4 t5 t6 by (intro conjI exI [of _ row] exI [of _ ps] exI [of _ e] exI [of _ d]) simp_all
qed

end
