(* ===== verification/SaleProperties.thy ===== *)
theory SaleProperties
  imports SaleFrames
begin

text \<open>
  What a committed sale is: how the checks before it compose, what the quote of the same request says, and the
  invariants of the sale, loyalty and promotion tables that it keeps.
\<close>

section \<open>The reading half of a sale\<close>

lemma saleShift_reads [keeps_rules]: "keeps (\<lambda>s. s = s0) (saleShift scope user shift)"
  unfolding saleShift_def by (intro keeps_rules)

lemma saleProducts_reads [keeps_rules]: "keeps (\<lambda>s. s = s0) (saleProducts scope dto)"
  unfolding saleProducts_def by (intro keeps_rules)

lemma taxLine_reads [keeps_rules]: "keeps (\<lambda>s. s = s0) (taxLine dec scope t x items)"
  unfolding taxLine_def by (cases x; simp only: prod.case; intro keeps_rules)

lemma taxLines_reads [keeps_rules]: "keeps (\<lambda>s. s = s0) (taxLines dec scope t c)"
  unfolding taxLines_def by (intro keeps_rules)

lemma checkStock_reads [keeps_rules]: "keeps (\<lambda>s. s = s0) (checkStock w products x)"
  unfolding checkStock_def by (intro keeps_rules)

text \<open>A sale that commits was priced, taxed and paid for in the state it starts from, and then written.\<close>

lemma createSaleTx_parts:
  assumes "createSaleTx dec collate scope dto offline t w user s = Inr (i, s')"
  shows "\<exists>shift products customer c items requested. saleCustomer scope (sld_customer dto) s = Inr customer \<and>
    products = companyProducts (sc_company scope) True (soldIds dto) s \<and> length products = length (soldIds dto) \<and>
    priceSale dec collate scope dto offline customer products t s = Inr c \<and> taxLines dec scope t c s = Inr (items, s) \<and>
    (\<forall>x \<in> set items. \<exists>v. checkStock w products x s = Inr (v, s)) \<and>
    checkPayments dec dto offline (saleTotal dec items) = Inr requested \<and>
    writeSale dec scope user dto w shift customer t c items requested s = Inr (i, s')"
proof -
  from assms obtain shift s1 products s2 customer c items s3 s4 requested u where 1: "saleShift scope user (sld_shift dto) s = Inr (shift, s1)"
    and 2: "saleProducts scope dto s1 = Inr (products, s2)" and 3: "saleCustomer scope (sld_customer dto) s2 = Inr customer"
    and 4: "priceSale dec collate scope dto offline customer products t s2 = Inr c" and 5: "taxLines dec scope t c s2 = Inr (items, s3)"
    and 6: "forT (checkStock w products) items s3 = Inr (u, s4)" and 7: "checkPayments dec dto offline (saleTotal dec items) = Inr requested"
    and 8: "writeSale dec scope user dto w shift customer t c items requested s4 = Inr (i, s')"
    unfolding createSaleTx_def by (auto simp: tx_Inr liftE_Inr)
  have k6: "keeps (\<lambda>s. s = s0) (forT (checkStock w products) items)" for s0 :: "'a sales_db_scheme" by (intro keeps_rules)
  have s: "s1 = s" "s2 = s1" "s3 = s2" "s4 = s3"
    by (rule reads [OF saleShift_reads 1], rule reads [OF saleProducts_reads 2], rule reads [OF taxLines_reads 5], rule reads [OF k6 6])
  have p: "products = companyProducts (sc_company scope) True (soldIds dto) s \<and> length products = length (soldIds dto)"
    using 2 s by (auto simp: saleProducts_def tx_Inr split: if_splits option.splits)
  have stock: "\<forall>x \<in> set items. \<exists>v. checkStock w products x s = Inr (v, s)"
    using 6 unfolding s
  proof (induction items)
    case (Cons x xs)
    then obtain v s5 where v: "checkStock w products x s = Inr (v, s5)" and rest: "forT (checkStock w products) xs s5 = Inr (u, s)" by (auto simp: tx_Inr)
    have "s5 = s" by (rule reads [OF checkStock_reads v])
    with v rest Cons show ?case by auto
  qed simp
  show ?thesis using 3 4 5 7 8 p stock unfolding s by blast
qed

section \<open>Sales are settled\<close>

definition settledSale :: "decimal_ops \<Rightarrow> sale_item list \<Rightarrow> payment list \<Rightarrow> sale \<Rightarrow> bool" where
  "settledSale dec items pays x \<longleftrightarrow>
     (let mine = filter (\<lambda>y. sit_sale y = sl_id x) items; paid = filter (\<lambda>p. py_sale p = Some (sl_id x)) pays in
      d_sum dec (map py_amount paid) = d_places dec 2 (sl_total x) \<and> sl_total x = d_sum dec (map sit_gross mine) \<and>
      sl_tax x = d_sum dec (map sit_tax mine) \<and> sl_event x \<noteq> None \<and> (\<forall>p \<in> set paid. py_status p = ''PAID'' \<and> py_event p = sl_event x))"

definition salesOk :: "decimal_ops \<Rightarrow> till \<Rightarrow> ident \<Rightarrow> bool" where
  "salesOk dec t n \<longleftrightarrow> distinct (map sl_id (t_sales t)) \<and>
     (\<forall>x \<in> set (t_sales t). sl_id x < n \<and> settledSale dec (t_items t) (t_payments t) x) \<and>
     (\<forall>p \<in> set (t_payments t). \<forall>j. py_sale p = Some j \<longrightarrow> j < n) \<and> (\<forall>y \<in> set (t_items t). sit_sale y < n)"

interpretation sales_invariant: till_invariant "salesOk dec" for dec :: decimal_ops
  by unfold_locales (auto simp: salesOk_def)

lemma checkPayments_total: "checkPayments dec dto offline amount = Inr requested \<Longrightarrow>
    d_sum dec (map pmd_amount requested) = d_places dec 2 amount"
  by (auto simp: checkPayments_def Let_def bindE_Inr requireE_Inr)

text \<open>Adding the sale \<open>i\<close>, where nothing refers to it yet.\<close>

lemma salesOk_new:
  assumes ok: "salesOk dec (tills s) i" and core: "saleCore t' = (update_many (\<lambda>x. sl_id x = i) (\<lambda>x. x\<lparr>sl_event := Some e, sl_taxDocument := d\<rparr>) (db_sales s @ [row]),
      db_saleItems s @ map (\<lambda>x. x\<lparr>sit_sale := i\<rparr>) items, update_many (\<lambda>p. py_sale p = Some i) (\<lambda>p. p\<lparr>py_event := Some e\<rparr>) (db_payments s @ ps))"
    and row: "sl_id row = i" "sl_total row = saleTotal dec items" "sl_tax row = saleTax dec items"
    and ps: "d_sum dec (map py_amount ps) = d_places dec 2 (saleTotal dec items)" "\<forall>p \<in> set ps. py_sale p = Some i \<and> py_status p = ''PAID''" and "i < n"
  shows "salesOk dec t' n"
proof -
  let ?new = "row\<lparr>sl_event := Some e, sl_taxDocument := d\<rparr>" and ?paid = "map (\<lambda>p. p\<lparr>py_event := Some e\<rparr>) ps"
  have ids: "\<forall>x \<in> set (db_sales s). sl_id x < i" "\<forall>p \<in> set (db_payments s). \<forall>j. py_sale p = Some j \<longrightarrow> j < i" "\<forall>y \<in> set (db_saleItems s). sit_sale y < i"
    using ok by (simp_all add: salesOk_def)
  have sales: "update_many (\<lambda>x. sl_id x = i) (\<lambda>x. x\<lparr>sl_event := Some e, sl_taxDocument := d\<rparr>) (db_sales s @ [row]) = db_sales s @ [?new]"
    using ids(1) row(1) by (auto simp: update_many_def intro!: map_idI)
  have pays: "update_many (\<lambda>p. py_sale p = Some i) (\<lambda>p. p\<lparr>py_event := Some e\<rparr>) (db_payments s @ ps) = db_payments s @ ?paid"
    using ids(2) ps(2) by (fastforce simp: update_many_def intro!: map_idI)
  from core have t': "t_sales t' = db_sales s @ [?new]" "t_items t' = db_saleItems s @ map (\<lambda>x. x\<lparr>sit_sale := i\<rparr>) items" "t_payments t' = db_payments s @ ?paid"
    unfolding sales pays by (simp_all add: saleCore_def)
  have old: "settledSale dec (t_items t') (t_payments t') x" if x: "x \<in> set (db_sales s)" for x
  proof -
    have j: "sl_id x \<noteq> i" using ids(1) x by auto
    have "filter (\<lambda>y. sit_sale y = sl_id x) (t_items t') = filter (\<lambda>y. sit_sale y = sl_id x) (db_saleItems s)" unfolding t' using j by (simp add: filter_empty_conv)
    moreover have "filter (\<lambda>p. py_sale p = Some (sl_id x)) (t_payments t') = filter (\<lambda>p. py_sale p = Some (sl_id x)) (db_payments s)"
      unfolding t' using j ps(2) by (simp add: filter_empty_conv)
    moreover have "settledSale dec (db_saleItems s) (db_payments s) x" using ok x by (simp add: salesOk_def)
    ultimately show ?thesis by (simp add: settledSale_def)
  qed
  have "filter (\<lambda>y. sit_sale y = i) (t_items t') = map (\<lambda>x. x\<lparr>sit_sale := i\<rparr>) items" unfolding t' using ids(3) by (auto simp: filter_empty_conv filter_map o_def)
  moreover have "filter (\<lambda>p. py_sale p = Some i) (t_payments t') = ?paid" unfolding t' using ids(2) ps(2) by (auto simp: filter_empty_conv filter_map o_def)
  ultimately have "settledSale dec (t_items t') (t_payments t') ?new"
    using row ps by (simp add: settledSale_def Let_def o_def saleTotal_def saleTax_def)
  then show ?thesis using ok old ids \<open>i < n\<close> row(1) ps(2) unfolding salesOk_def t' by (auto intro: less_trans)
qed

lemma createSaleTx_sales [keeps_rules]: "keeps (kept (salesOk dec)) (createSaleTx dec collate scope dto offline t w user)"
proof (rule keepsI)
  fix s :: "'a sales_db_scheme" and i s'
  assume ok: "kept (salesOk dec) s" and run: "createSaleTx dec collate scope dto offline t w user s = Inr (i, s')"
  from createSaleTx_parts [OF run] obtain shift customer c items requested where
    pay: "checkPayments dec dto offline (saleTotal dec items) = Inr requested"
    and wr: "writeSale dec scope user dto w shift customer t c items requested s = Inr (i, s')" by blast
  from writeSale_effect [OF wr] obtain row ps e d where i: "i = db_nextId s" "i < db_nextId s'"
    and row: "sl_id row = i" "sl_total row = saleTotal dec items" "sl_tax row = saleTax dec items" "map py_amount ps = map pmd_amount requested"
      "\<forall>p \<in> set ps. py_sale p = Some i \<and> py_status p = ''PAID''"
    and core: "saleCore (tills s') = (update_many (\<lambda>x. sl_id x = i) (\<lambda>x. x\<lparr>sl_event := Some e, sl_taxDocument := d\<rparr>) (db_sales s @ [row]),
      db_saleItems s @ map (\<lambda>x. x\<lparr>sit_sale := i\<rparr>) items, update_many (\<lambda>p. py_sale p = Some i) (\<lambda>p. p\<lparr>py_event := Some e\<rparr>) (db_payments s @ ps))" by blast
  have "d_sum dec (map py_amount ps) = d_places dec 2 (saleTotal dec items)" using checkPayments_total [OF pay] row(4) by simp
  then show "kept (salesOk dec) s'" using salesOk_new [OF _ core row(1-3) _ row(5) i(2)] ok i(1) by simp
qed

section \<open>Loyalty points\<close>

text \<open>The points of an account are the sum of its logged movements, and never negative.\<close>

definition accountOk :: "loyalty_transaction list \<Rightarrow> ident \<Rightarrow> loyalty_account \<Rightarrow> bool" where
  "accountOk entries n a \<longleftrightarrow> la_id a < n \<and> 0 \<le> la_points a \<and> la_points a = sum_where lt_points (\<lambda>l. lt_account l = la_id a) entries"

definition pointsOk :: "till \<Rightarrow> ident \<Rightarrow> bool" where
  "pointsOk t n \<longleftrightarrow> distinct (map la_id (t_accounts t)) \<and> (\<forall>a \<in> set (t_accounts t). accountOk (t_log t) n a) \<and>
     (\<forall>l \<in> set (t_log t). lt_account l < n)"

interpretation points_invariant: till_invariant pointsOk
  by unfold_locales (auto simp: pointsOk_def accountOk_def)

lemma points_moved:
  assumes ok: "pointsOk t n" and a: "a \<in> set (t_accounts t)" "la_id a = j" "0 \<le> la_points a + k" and l: "lt_account l = j" "lt_points l = k"
    and t': "t_accounts t' = update_many (\<lambda>a. la_id a = j) (\<lambda>a. a\<lparr>la_points := la_points a + k, la_lifetime := la_lifetime a + m\<rparr>) (t_accounts t)"
      "t_log t' = t_log t @ [l]"
  shows "pointsOk t' n"
proof -
  have "accountOk (t_log t') n (if la_id b = j then b\<lparr>la_points := la_points b + k, la_lifetime := la_lifetime b + m\<rparr> else b)"
    if b: "b \<in> set (t_accounts t)" for b
  proof (cases "la_id b = j")
    case True
    then have "b = a" using ok a b by (auto simp: pointsOk_def dest: inj_onD [OF distinct_map [THEN iffD1, THEN conjunct2]])
    then show ?thesis using ok a l b by (auto simp: pointsOk_def accountOk_def t' sum_where_append sum_where_def)
  next
    case False
    then show ?thesis using ok b l by (auto simp: pointsOk_def accountOk_def t' sum_where_append sum_where_def)
  qed
  then have "\<forall>b \<in> set (t_accounts t'). accountOk (t_log t') n b" unfolding t'(1) update_many_def set_map by blast
  moreover have "map la_id (t_accounts t') = map la_id (t_accounts t)" unfolding t' by (simp add: update_many_def o_def)
  moreover have "lt_account l < n" using ok a l by (auto simp: pointsOk_def accountOk_def)
  ultimately show ?thesis using ok by (auto simp: pointsOk_def t'(2))
qed

lemma points_opened:
  assumes ok: "pointsOk t n" and t': "t_accounts t' = t_accounts t @ [a]" "t_log t' = t_log t" and a: "la_id a = n" "la_points a = 0"
  shows "pointsOk t' (Suc n)"
proof -
  have none: "filter (\<lambda>l. lt_account l = n) (t_log t) = []" using ok by (auto simp: pointsOk_def filter_empty_conv)
  have "n \<notin> set (map la_id (t_accounts t))" using ok by (auto simp: pointsOk_def accountOk_def)
  then show ?thesis using ok a none by (auto simp: pointsOk_def accountOk_def t' sum_where_def less_Suc_eq)
qed

lemma upsertAccount_points:
  assumes run: "upsertAccount program c s = Inr (i, s')" and ok: "kept pointsOk s"
  shows "kept pointsOk s' \<and> (\<exists>a \<in> set (db_accountsOfLoyalty s'). la_id a = i)"
proof (cases "accountOf program c s")
  case None
  then have i: "i = db_nextId s" and s': "s' = s\<lparr>db_nextId := Suc (db_nextId s), db_accountsOfLoyalty := db_accountsOfLoyalty s @
      [\<lparr>la_id = i, la_program = program, la_customer = c, la_points = 0, la_lifetime = 0, la_tier = ''MEMBER''\<rparr>]\<rparr>"
    using run by (auto simp: upsertAccount_def tx_Inr newIdT_Inr)
  have "pointsOk (tills s') (Suc (db_nextId s))" by (rule points_opened [OF ok, where a = "\<lparr>la_id = i, la_program = program, la_customer = c, la_points = 0, la_lifetime = 0, la_tier = ''MEMBER''\<rparr>"]) (simp_all add: s' i)
  then show ?thesis unfolding s' by simp
next
  case (Some a)
  then show ?thesis using run ok find_first_Some [OF Some [unfolded accountOf_def]] by (auto simp: upsertAccount_def tx_Inr)
qed

lemma moved_and_logged:
  assumes run: "bindT (addPoints j k m) (\<lambda>_. logPoints j kind k b i) s = Inr (u, s')" and ok: "kept pointsOk s"
    and a: "a \<in> set (db_accountsOfLoyalty s)" "la_id a = j" "0 \<le> la_points a + k"
  shows "kept pointsOk s'"
proof -
  from run have s': "db_accountsOfLoyalty s' = update_many (\<lambda>a. la_id a = j) (\<lambda>a. a\<lparr>la_points := la_points a + k, la_lifetime := la_lifetime a + m\<rparr>) (db_accountsOfLoyalty s)"
      "db_loyaltyLog s' = db_loyaltyLog s @ [\<lparr>lt_account = j, lt_type = kind, lt_points = k, lt_balanceAfter = b, lt_referenceType = ''Sale'', lt_reference = i, lt_expiresAt = None\<rparr>]"
      "db_nextId s' = db_nextId s"
    by (auto simp: addPoints_def logPoints_def tx_Inr)
  have "pointsOk (tills s') (db_nextId s)" by (rule points_moved [OF ok _ a(2,3)]) (use a s' in simp_all)
  then show ?thesis by (simp add: s'(3))
qed

lemma syncLoyalty_points:
  assumes run: "syncLoyalty scope user program account c redeem amount i s = Inr (u, s')" and ok: "kept pointsOk s"
    and a: "\<forall>a. account = Some a \<longrightarrow> 0 < redeem \<longrightarrow> a \<in> set (db_accountsOfLoyalty s) \<and> redeem \<le> la_points a"
  shows "kept pointsOk s'"
proof -
  let ?redeems = "0 < redeem \<and> account \<noteq> None" and ?balance = "case account of None \<Rightarrow> 0 | Some a \<Rightarrow> la_points a"
  let ?running = "if ?redeems then ?balance - redeem else ?balance"
  from run obtain earned s1 s2 where
    1: "(if ?redeems then bindT (addPoints (la_id (the account)) (- redeem) 0) (\<lambda>_. logPoints (la_id (the account)) ''REDEEM'' (- redeem) ?running i)
         else returnT ()) s = Inr ((), s1)"
    and 2: "(if 0 < earned then bindT (upsertAccount (lp_id program) c) (\<lambda>j. bindT (addPoints j earned earned) (\<lambda>_. logPoints j ''EARN'' earned (?running + earned) i))
         else returnT ()) s1 = Inr ((), s2)"
    and 3: "auditT scope user ''LOYALTY_SALE_SYNC'' ''Sale'' (Some i) s2 = Inr ((), s')"
    unfolding syncLoyalty_def Let_def by (auto simp: bindT_Inr liftE_Inr)
  have s1: "kept pointsOk s1"
  proof (cases ?redeems)
    case True
    then obtain x where x: "account = Some x" "x \<in> set (db_accountsOfLoyalty s)" "redeem \<le> la_points x" using a by auto
    show ?thesis using moved_and_logged [OF _ ok x(2), of "la_id x" "- redeem" 0 "''REDEEM''" "?running" i "()" s1] 1 True x by simp
  qed (use 1 ok in \<open>auto simp: returnT_Inr\<close>)
  have s2: "kept pointsOk s2"
  proof (cases "0 < earned")
    case True
    then obtain j s3 where u: "upsertAccount (lp_id program) c s1 = Inr (j, s3)"
      and m: "bindT (addPoints j earned earned) (\<lambda>_. logPoints j ''EARN'' earned (?running + earned) i) s3 = Inr ((), s2)" using 2 by (auto simp: bindT_Inr)
    from upsertAccount_points [OF u s1] obtain x where x: "kept pointsOk s3" "x \<in> set (db_accountsOfLoyalty s3)" "la_id x = j" by blast
    then have "0 \<le> la_points x" by (auto simp add: pointsOk_def accountOk_def)
    then show ?thesis using moved_and_logged [OF m x] True by simp
  qed (use 2 s1 in \<open>auto simp: returnT_Inr\<close>)
  show ?thesis by (rule keepsD [OF points_invariant.audit_keeps 3 s2])
qed

definition loyaltyOf :: "till \<Rightarrow> loyalty_account list \<times> loyalty_transaction list" where
  "loyaltyOf t = (t_accounts t, t_log t)"

lemma loyalty_frames:
  "keeps (kept (agrees loyaltyOf t n)) (createSaleRow dec scope dto w shift d c items)"
  "keeps (kept (agrees loyaltyOf t n)) (redeemPromo scope dto c i)"
  "keeps (kept (agrees loyaltyOf t n)) (forT (\<lambda>x. issueStock w (sit_product x) (sit_quantity x) k r j) items)"
  "keeps (kept (agrees loyaltyOf t n)) (forT (payT scope i d) requested)"
  "keeps (kept (agrees loyaltyOf t n)) (postSale dec scope user customer d c items requested i)"
  unfolding createSaleRow_def redeemPromo_def recordRedemption_def payT_def postSale_def Let_def
  by (intro keeps_rules keeps_frame; simp add: tills_def loyaltyOf_def)+

lemma priceSale_account:
  assumes "priceSale dec collate scope dto offline customer products t s = Inr c" and "ck_account c = Some a"
  shows "a \<in> set (db_accountsOfLoyalty s) \<and> ck_redeem c \<le> la_points a"
proof -
  from assms obtain program d where "saleLoyalty dec scope (sld_customer dto) (ck_redeem c) s = Inr (program, Some a, d)"
    by (auto simp: priceSale_def bindE_Inr Let_def split: prod.splits)
  then obtain q p i where "accountOf p i s = Some a" "pointsDiscount dec q (Some a) (ck_redeem c) = Inr d"
    by (auto simp: saleLoyalty_def bindE_Inr Let_def split: option.splits if_splits)
  then show ?thesis using find_first_Some [of _ "db_accountsOfLoyalty s" a] by (auto simp: accountOf_def pointsDiscount_def bindE_Inr requireE_Inr)
qed

lemma createSaleTx_points [keeps_rules]: "keeps (kept pointsOk) (createSaleTx dec collate scope dto offline t w user)"
proof (rule keepsI)
  fix s :: "'a sales_db_scheme" and i s'
  assume ok: "kept pointsOk s" and run: "createSaleTx dec collate scope dto offline t w user s = Inr (i, s')"
  from createSaleTx_parts [OF run] obtain shift products customer c items requested where
    c: "priceSale dec collate scope dto offline customer products t s = Inr c"
    and wr: "writeSale dec scope user dto w shift customer t c items requested s = Inr (i, s')" by blast
  from wr obtain s1 s2 s3 s4 s5 where 1: "createSaleRow dec scope dto w shift t c items s = Inr (i, s1)"
    and 2: "redeemPromo scope dto c i s1 = Inr ((), s2)"
    and 3: "forT (\<lambda>x. issueStock w (sit_product x) (sit_quantity x) ''SALE'' ''Sale'' (identText i)) items s2 = Inr ((), s3)"
    and 4: "forT (payT scope i t) requested s3 = Inr ((), s4)"
    and 5: "postSale dec scope user customer t c items requested i s4 = Inr ((), s5)"
    and 6: "earnAndRedeem dec scope user dto c items i s5 = Inr ((), s')" unfolding writeSale_Inr by blast
  have same: "loyaltyOf (tills s5) = loyaltyOf (tills s) \<and> db_nextId s \<le> db_nextId s5"
    using agrees_kept [OF loyalty_frames(1) 1] agrees_kept [OF loyalty_frames(2) 2] agrees_kept [OF loyalty_frames(3) 3]
      agrees_kept [OF loyalty_frames(4) 4] agrees_kept [OF loyalty_frames(5) 5] by simp
  then have a: "db_accountsOfLoyalty s5 = db_accountsOfLoyalty s" "db_loyaltyLog s5 = db_loyaltyLog s" by (simp_all add: loyaltyOf_def)
  have "pointsOk (tills s) (db_nextId s5)" by (rule points_invariant.growing_le [OF conjunct2 [OF same] ok])
  then have ok5: "kept pointsOk s5" using a by (simp add: pointsOk_def)
  show "kept pointsOk s'"
  proof (cases "ck_program c")
    case (Some program)
    show ?thesis
    proof (cases "sld_customer dto")
      case (Some j)
      with 6 \<open>ck_program c = Some program\<close> have "syncLoyalty scope (ap_user user) program (ck_account c) j (ck_redeem c) (saleTotal dec items) i s5 = Inr ((), s')"
        by (simp add: earnAndRedeem_def)
      from syncLoyalty_points [OF this ok5] priceSale_account [OF c] a show ?thesis by simp
    qed (use 6 ok5 Some in \<open>auto simp: earnAndRedeem_def returnT_Inr\<close>)
  qed (use 6 ok5 in \<open>auto simp: earnAndRedeem_def returnT_Inr\<close>)
qed

text \<open>A purchase without a redemption logs the points it earns as the new balance, whatever the account held.\<close>

lemma earn_logged:
  assumes "syncLoyalty scope user program None c redeem amount i s = Inr (u, s')" and "accountOf (lp_id program) c s = Some a"
    and "distinct (map la_id (db_accountsOfLoyalty s))" and "earnedPoints amount (lp_earnRate program) = Inr k" and "0 < k"
  shows "\<exists>l. db_loyaltyLog s' = db_loyaltyLog s @ [l] \<and> lt_account l = la_id a \<and> lt_balanceAfter l = k \<and>
    (\<forall>b \<in> set (db_accountsOfLoyalty s'). la_id b = la_id a \<longrightarrow> la_points b = la_points a + k)"
proof -
  have a: "a \<in> set (db_accountsOfLoyalty s)" using find_first_Some [OF assms(2) [unfolded accountOf_def]] by simp
  have one: "b = a" if "b \<in> set (db_accountsOfLoyalty s)" "la_id b = la_id a" for b
    using that a assms(3) by (auto dest: inj_onD [OF distinct_map [THEN iffD1, THEN conjunct2]])
  from assms have s': "db_loyaltyLog s' = db_loyaltyLog s @ [\<lparr>lt_account = la_id a, lt_type = ''EARN'', lt_points = k, lt_balanceAfter = k,
      lt_referenceType = ''Sale'', lt_reference = i, lt_expiresAt = None\<rparr>]"
      "db_accountsOfLoyalty s' = update_many (\<lambda>b. la_id b = la_id a) (\<lambda>b. b\<lparr>la_points := la_points b + k, la_lifetime := la_lifetime b + k\<rparr>) (db_accountsOfLoyalty s)"
    by (auto simp: syncLoyalty_def Let_def tx_Inr db_Inr upsertAccount_def addPoints_def logPoints_def)
  then show ?thesis using one by (auto simp: update_many_def dest: one)
qed

end
