(* ===== verification/SaleRuns.thy ===== *)
theory SaleRuns
  imports SaleProperties
begin

text \<open>
  Runs of the selling side: sales, quotes, replays of offline batches, cashier shifts and promotions, in any order,
  by any users, at any times. An invariant of the sale or loyalty tables that a sale keeps is kept by every run.
\<close>

section \<open>Steps\<close>

text \<open>
  \<open>dec\<close> and \<open>collate\<close> as in the services; the digest of a request, the parser of a setting, the JSON text of a value
  and the configured age may be any.
\<close>

inductive selling_step :: "decimal_ops \<Rightarrow> (string \<Rightarrow> string \<Rightarrow> int) \<Rightarrow> sales_db \<Rightarrow> sales_db \<Rightarrow> bool" for dec collate where
  step_sale: "createSale dec collate digest parse dto user False None s = (r, s') \<Longrightarrow> selling_step dec collate s s'"
| step_quote: "quoteSale dec collate dto usr s = (q, s') \<Longrightarrow> selling_step dec collate s s'"
| step_replay: "replayOfflineSales dec collate digest parse stringify configured batch user s = (a, s') \<Longrightarrow> selling_step dec collate s s'"
| step_open: "openShift amount usr s = (h, s') \<Longrightarrow> selling_step dec collate s s'"
| step_cash: "recordCashMovement moved usr s = (m, s') \<Longrightarrow> selling_step dec collate s s'"
| step_close: "closeShift dec amount usr s = (h, s') \<Longrightarrow> selling_step dec collate s s'"
| step_promo: "createPromo promo usr s = (p, s') \<Longrightarrow> selling_step dec collate s s'"
| step_patch: "updatePromo i patch usr s = (p, s') \<Longrightarrow> selling_step dec collate s s'"
| step_time: "db_now s \<le> t \<Longrightarrow> selling_step dec collate s (s\<lparr>db_now := t\<rparr>)"

inductive_cases selling_stepE: "selling_step dec collate s s'"

section \<open>Invariants of the sale and loyalty tables\<close>

text \<open>
  \<open>restOf\<close>: the tables but the shifts and the promotions. Receipts are added and changed, but none that is applied.
\<close>

definition restOf :: "till \<Rightarrow> till" where
  "restOf t = t\<lparr>t_shifts := [], t_promos := []\<rparr>"

lemma claimable_open: "claimable t r \<Longrightarrow> ot_status r \<noteq> ''APPLIED''"
  by (auto simp: claimable_def)

lemma modS_keeps: "(\<And>s. I s \<Longrightarrow> I (f s)) \<Longrightarrow> keepsS I (modS f)"
  by (auto simp: keepsS_def modS_def)

locale sale_invariant = till_invariant P for P :: "till \<Rightarrow> ident \<Rightarrow> bool" +
  fixes dec :: decimal_ops
  assumes rest: "restOf t' = restOf t \<Longrightarrow> P t' n = P t n"
    and receipts: "P t n \<Longrightarrow> (\<forall>r \<in> set (t_offline t). ot_status r = ''APPLIED'' \<longrightarrow> f r = r) \<Longrightarrow> P (t\<lparr>t_offline := map f (t_offline t) @ rs\<rparr>) n"
    and sale: "keeps (\<lambda>s :: sales_db. P (tills s) (db_nextId s)) (createSaleTx dec collate scope dto b d w user)"
begin

lemma rest_kept: "restOf (tills s') = restOf (tills s) \<Longrightarrow> db_nextId s' = db_nextId s \<Longrightarrow> kept P s' = kept P s"
  using rest [of "tills s'" "tills s" "db_nextId s"] by simp

lemma rest_I: "kept P s \<Longrightarrow> restOf (tills s') = restOf (tills s) \<Longrightarrow> db_nextId s' = db_nextId s \<Longrightarrow> kept P s'"
  using rest_kept by blast

lemma receipts_update:
  assumes "kept P s" and "\<And>r. Q r \<Longrightarrow> ot_status r \<noteq> ''APPLIED''"
  shows "kept P (s\<lparr>db_offline := update_many Q f (db_offline s)\<rparr>)"
  using receipts [OF assms(1), of "\<lambda>r. if Q r then f r else r" "[]"] assms(2) by (simp add: update_many_def tills_def)

lemma receipts_new: "kept P s \<Longrightarrow> kept P (s\<lparr>db_offline := db_offline s @ [r]\<rparr>)"
  using receipts [of "tills s" _ "\<lambda>r. r" "[r]"] by (simp add: tills_def)

lemma updateReceipts_keeps: "(\<And>r. Q r \<Longrightarrow> ot_status r \<noteq> ''APPLIED'') \<Longrightarrow> keeps (kept P) (updateReceipts Q f)"
  unfolding updateReceipts_def by (rule keeps_state, simp only: snd_conv, erule receipts_update) blast

lemma claimReceipt_keeps [keeps_rules]: "keeps (kept P) (claimReceipt text i x payload)"
  unfolding claimReceipt_def by (intro keeps_rules keeps_mod updateReceipts_keeps receipts_new) (auto dest: claimable_open)

lemma setReceipt_keeps [keeps_rules]: "keepsS (kept P) (setReceipt i f)"
  unfolding setReceipt_def by (rule modS_keeps, erule receipts_update) simp

lemma registerConflict_keeps [keeps_rules]: "keepsS (kept P) (registerConflict i code)"
  unfolding registerConflict_def by (intro keeps_rules)

lemma failReceipt_keeps [keeps_rules]: "keepsS (kept P) (failReceipt r e)"
  unfolding failReceipt_def Let_def by (intro keeps_rules)

lemma applyReceipt_keeps [keeps_rules]: "keepsS (kept P) (applyReceipt r i)"
  unfolding applyReceipt_def by (intro keeps_rules)

lemma createSale_keeps [keeps_rules]:
  "keepsS (kept P) (createSale dec collate digest parse dto user offline occurredAt :: (sales_db, ident option) svc)"
  by (rule createSale_till) (rule sale)

lemma settleReplay_keeps [keeps_rules]:
  "keepsS (kept P) (settleReplay dec collate digest parse user r expected dto booked :: (sales_db, string \<times> ident option) svc)"
  unfolding keepsS_def
proof (intro allI impI)
  fix s s' :: sales_db and a
  let ?fail = "\<lambda>e. bindS (failReceipt r e) (\<lambda>_. returnS (failureStatus e (ot_attempts r), None :: ident option))"
    and ?conflict = "bindS (registerConflict (ot_id r) ''OFFLINE_TOTAL_CHANGED'') (\<lambda>_. returnS (''CONFLICT'', None :: ident option))"
  assume s: "kept P s" and run: "settleReplay dec collate digest parse user r expected dto booked s = (a, s')"
  have fail: "keepsS (kept P) (?fail e)" for e by (intro keeps_rules)
  have conflict: "keepsS (kept P) ?conflict" by (intro keeps_rules)
  obtain q s1 where q: "quoteSale dec collate dto (ap_user user) s = (q, s1)" by (rule prod.exhaust)
  have s1: "kept P s1" by (rule keepsSD [OF quoteSale_till q s])
  show "kept P s'"
  proof (cases q)
    case (Inl e)
    then have "?fail e s1 = (a, s')" using run q by (simp add: settleReplay_def Let_def)
    then show ?thesis by (rule keepsSD [OF fail _ s1])
  next
    case quoted: (Inr v)
    show ?thesis
    proof (cases "totalChanged (qt_total v) expected")
      case True
      then have moved: "?conflict s1 = (a, s')" using run q quoted by (simp add: settleReplay_def Let_def)
      show ?thesis by (rule keepsSD [OF conflict moved s1])
    next
      case False
      obtain c s2 where c: "createSale dec collate digest parse dto user True (Some booked) s1 = (c, s2)" by (rule prod.exhaust)
      have s2: "kept P s2" by (rule keepsSD [OF createSale_keeps c s1])
      have applied: "keepsS (kept P) (bindS (applyReceipt r i) (\<lambda>_. returnS (''APPLIED'', Some i)))" for i by (intro keeps_rules)
      show ?thesis
        using run q quoted False c s2 keepsSD [OF fail _ s2] keepsSD [OF applied _ s2]
        by (auto simp: settleReplay_def Let_def split: sum.splits option.splits)
    qed
  qed
qed

lemma workReceipt_keeps [keeps_rules]:
  "keepsS (kept P) (workReceipt dec collate digest parse configured scope user x dto occurredAt r :: (sales_db, string \<times> ident option) svc)"
  unfolding workReceipt_def Let_def by (auto split: sum.split intro!: keeps_rules)

lemma replayItem_keeps [keeps_rules]:
  "keepsS (kept P) (replayItem dec collate digest parse stringify configured scope user deviceId x :: (sales_db, replay_result) svc)"
  unfolding replayItem_def Let_def by (intro keeps_rules)

lemma replayItems_keeps [keeps_rules]: "(\<And>x. keepsS I (work x)) \<Longrightarrow> keepsS I (replayItems work xs blocked results)"
  by (induction xs arbitrary: blocked results) (auto intro!: keeps_rules)

lemma replayOfflineSales_keeps:
  "keepsS (kept P) (replayOfflineSales dec collate digest parse stringify configured batch user :: (sales_db, replay_counts \<times> replay_result list) svc)"
  unfolding replayOfflineSales_def Let_def by (intro keeps_rules modS_keeps, erule rest_I) (simp_all add: restOf_def tills_def)

lemma openShift_keeps: "keepsS (kept P) (openShift amount usr)"
  unfolding openShift_def Let_def by (intro keeps_rules keeps_frame rest_kept) (simp_all add: restOf_def tills_def)

lemma recordCashMovement_keeps: "keepsS (kept P) (recordCashMovement moved usr)"
  unfolding recordCashMovement_def Let_def by (intro keeps_rules keeps_frame rest_kept) (simp_all add: restOf_def tills_def)

lemma closeShift_keeps: "keepsS (kept P) (closeShift dec amount usr)"
  unfolding closeShift_def Let_def by (intro keeps_rules keeps_frame rest_kept) (simp_all add: restOf_def tills_def)

lemma createPromo_keeps: "keepsS (kept P) (createPromo promo usr)"
  unfolding createPromo_def Let_def by (intro keeps_rules keeps_frame rest_kept) (simp_all add: restOf_def tills_def)

lemma updatePromo_keeps: "keepsS (kept P) (updatePromo i patch usr)"
  unfolding updatePromo_def Let_def by (intro keeps_rules keeps_frame rest_kept) (simp_all add: restOf_def tills_def)

theorem step_keeps: "selling_step dec collate s s' \<Longrightarrow> kept P s \<Longrightarrow> kept P s'"
proof (induction rule: selling_step.induct)
  case (step_time s t)
  then show ?case by (simp add: tills_def)
qed (blast dest: keepsSD [OF createSale_keeps] keepsSD [OF quoteSale_till] keepsSD [OF replayOfflineSales_keeps] keepsSD [OF openShift_keeps]
      keepsSD [OF recordCashMovement_keeps] keepsSD [OF closeShift_keeps] keepsSD [OF createPromo_keeps] keepsSD [OF updatePromo_keeps])+

theorem run_keeps: "(selling_step dec collate)\<^sup>*\<^sup>* s s' \<Longrightarrow> kept P s \<Longrightarrow> kept P s'"
  by (induction rule: rtranclp_induct) (blast dest: step_keeps)+

end

end
