(* ===== verification/ShopRun.thy ===== *)
theory ShopRun
  imports SaleRuns
begin

text \<open>
  A sale in the shop, evaluated stage by stage: the run the witnesses of the selling side use.
\<close>

section \<open>First numbers of a document type\<close>

definition numbered :: "string set \<Rightarrow> numbering \<Rightarrow> bool" where
  "numbered ds t \<longleftrightarrow> branches t = branches (db_numbering emptyAccounting) \<and>
     (\<forall>r \<in> set (sequences t). seq_documentType r \<in> ds \<and> seq_id r < num_nextId t)"

lemma freshNumber:
  assumes "numbered ds t" and "d \<notin> ds" and "num_now t = 20005 * dayMs"
  shows "\<exists>t'. nextDocumentNumber \<lparr>op_company = 1, op_branch = Some 1, op_documentType = d, op_prefix = p, op_padding = None, op_resetPolicy = None\<rparr> t =
    Inr (p @ ''-B-202410-000001'', t') \<and> numbered (insert d ds) t'"
proof -
  have rows: "\<forall>r \<in> set (sequences t). seq_documentType r \<noteq> d \<and> seq_id r \<noteq> num_nextId t" and b: "branches t = branches (db_numbering emptyAccounting)"
    using assms by (auto simp: numbered_def)
  then have old: "find_first (sequenceKey \<lparr>op_company = 1, op_branch = Some 1, op_documentType = d, op_prefix = p, op_padding = None, op_resetPolicy = None\<rparr>)
      (sequences t) = None" and none: "filter (\<lambda>r. seq_id r = num_nextId t \<and> seq_nextNumber r = Suc 0) (sequences t) = []"
    by (auto simp: find_first_None sequenceKey_def filter_empty_conv)
  have "\<forall>r \<in> set (sequences t). seq_id r < num_nextId t" using assms by (simp add: numbered_def)
  then show ?thesis
    using assms(1,3) b old none
    by (auto simp: nextDocumentNumber_def resolveDocumentScopeCode_def findOrCreateSequence_def bindT_def tx_defs
        emptyAccounting_def find_first_def currentNumber_def periodOf_def rowPeriodOf_def count_where_def formatNumber_def exPeriod exCounters
        padStart_def Let_def exZeros numbered_def in_update_many less_Suc_eq)
qed

lemma freshNumberT:
  assumes "numbered ds (db_numbering s)" and "d \<notin> ds" and "db_now s = 20005 * dayMs"
  shows "\<exists>t. numberT exampleScope d p s = Inr (p @ ''-B-202410-000001'', s\<lparr>db_numbering := t\<rparr>) \<and> numbered (insert d ds) t"
proof -
  have n: "numbered ds ((db_numbering s)\<lparr>num_now := db_now s\<rparr>)" using assms(1) by (simp add: numbered_def)
  from freshNumber [OF n assms(2), of p] assms(3) show ?thesis
    by (auto simp: numberT_def onNumbering_def zoomT_def exampleScope_simps)
qed

section \<open>Before the sale is written\<close>

definition opened :: sales_db where
  "opened = shop\<lparr>db_accountsOfLoyalty := [], db_loyaltyLog := []\<rparr>"

abbreviation firstSale :: sale_dto where
  "firstSale \<equiv> saleOf 2 (Some 4) None"

definition firstUnit :: uom_snapshot where
  "firstUnit = \<lparr>us_variant = None, us_unit = None, us_unitCode = ''PCS'', us_unitQuantity = 2, us_factor = 1, us_baseQuantity = 2, us_barcode = None,
     us_sellingPrice = 20, us_basePrice = 20\<rparr>"

definition firstCheckout :: checkout where
  "firstCheckout = \<lparr>ck_lines = [\<lparr>rwl_product = shopProduct, rwl_taxCode = None, rwl_line = 40, rwl_unit = firstUnit\<rparr>], ck_subtotal = 40,
     ck_discount = 0, ck_promo = None, ck_promoDiscount = 0, ck_pointsDiscount = 0, ck_program = Some memberProgram, ck_account = None, ck_redeem = 0\<rparr>"

definition firstItem :: sale_item where
  "firstItem = \<lparr>sit_sale = 0, sit_product = 5, sit_variant = None, sit_unit = None, sit_quantity = 2, sit_unitPrice = 20, sit_unitCost = 10,
     sit_unitCode = ''PCS'', sit_unitQuantity = 2, sit_factor = 1, sit_barcode = None, sit_subtotal = 40, sit_net = 40, sit_tax = 0, sit_gross = 40,
     sit_taxCode = None\<rparr>"

definition firstPayment :: payment_dto where
  "firstPayment = \<lparr>pmd_method = ''CASH'', pmd_amount = 40, pmd_provider = None, pmd_externalRef = None\<rparr>"

lemma shopStock_reconciled: "reconciled shopStock"
proof -
  have "ledger k w p shopStock = aggregate k w p shopStock" for k w p
    by (cases k) (auto simp: ledger_def aggregate_def balancesOf_def balanceTotal_def findInventory_def find_first_def sum_where_def shopStock_def)
  then show ?thesis by (simp add: reconciled_def stock_wf_def placed_def shopStock_def)
qed

lemma first_shift: "saleShift exampleScope cashier (Some 30) opened = Inr (Some 30, opened)"
  by code_simp

lemma first_products: "saleProducts exampleScope firstSale opened = Inr ([shopProduct], opened)"
  by code_simp

lemma first_customer: "saleCustomer exampleScope (Some 4) opened = Inr (Some shopMember)"
  by code_simp

lemma first_priced: "priceSale rationalDecimal (\<lambda>_ _. 0) exampleScope firstSale False (Some shopMember) [shopProduct] (20005 * dayMs) opened = Inr firstCheckout"
  by code_simp

lemma first_taxed: "taxLines rationalDecimal exampleScope (20005 * dayMs) firstCheckout opened = Inr ([firstItem], opened)"
  by code_simp

lemma first_stock: "checkStock 1 [shopProduct] firstItem opened = Inr ((), opened)"
  by code_simp

lemma first_paid: "checkPayments rationalDecimal firstSale False (saleTotal rationalDecimal [firstItem]) = Inr [firstPayment]"
  by code_simp

section \<open>Writing it\<close>

lemma first_consumed: "case bindT (consumeAvailableLocationStock 1 5 2) (\<lambda>al. bindT (updateInventory 1 5 (- 2) 0 (- 2)) (\<lambda>u. returnT (al, u)))
    (shopStock\<lparr>now := 20005 * dayMs\<rparr>) of Inl e \<Rightarrow> False | Inr ((al, u), t) \<Rightarrow> al = [(10, 2)]"
  by code_simp

lemma first_issued:
  assumes "db_stock s = shopStock" and "db_now s = 20005 * dayMs"
  shows "\<exists>t m. forT (\<lambda>x. issueStock 1 (sit_product x) (sit_quantity x) k r j) [firstItem] s =
    Inr ((), s\<lparr>db_stock := t, db_movements := m\<rparr>)"
proof -
  obtain u t where "bindT (consumeAvailableLocationStock 1 5 2) (\<lambda>al. bindT (updateInventory 1 5 (- 2) 0 (- 2)) (\<lambda>u. returnT (al, u)))
      ((db_stock s)\<lparr>now := db_now s\<rparr>) = Inr (([(10, 2)], u), t)" using first_consumed assms by (auto split: sum.splits)
  then show ?thesis
    by (simp add: issueStock_def firstItem_def onStock_def zoomT_def bindT_def thenT_def returnT_def movementT_def modT_def)
      (intro exI, rule refl)
qed

lemma first_journal: "\<exists>js. buildJournal rationalDecimal (saleEvent rationalDecimal exampleScope 50 (20005 * dayMs) firstCheckout [firstItem] [firstPayment])
    (db_accounts opened) cashRule = Inr js"
proof -
  have "case buildJournal rationalDecimal (saleEvent rationalDecimal exampleScope 0 (20005 * dayMs) firstCheckout [firstItem] [firstPayment])
    (db_accounts opened) cashRule of Inl e \<Rightarrow> False | Inr js \<Rightarrow> True" by code_simp
  moreover have "buildJournal rationalDecimal (saleEvent rationalDecimal exampleScope 50 t c xs ps) as r =
      buildJournal rationalDecimal (saleEvent rationalDecimal exampleScope 0 t c xs ps) as r" for t c xs ps as r
    by (simp add: buildJournal_def saleEvent_def stockEvent_def Let_def)
  ultimately show ?thesis by (cases "buildJournal rationalDecimal (saleEvent rationalDecimal exampleScope 50 (20005 * dayMs) firstCheckout [firstItem] [firstPayment])
    (db_accounts opened) cashRule") simp_all
qed

lemma posts_first:
  assumes "numbered ds (db_numbering s)" and "''JOURNAL'' \<notin> ds" and "db_now s = 20005 * dayMs" and "db_journals s = []" and "db_events s = []"
    and "pi_company input = 1" and "pi_branch input = 1" and "orElse (pi_businessDate input) (20005 * dayMs) = t"
    and "postingGuards input t s = Inr (rule, s)" and "buildJournal dec input (db_accounts s) rule = Inr js"
  shows "\<exists>ev s'. postOperationalEvent dec input s = Inr (ev, s')"
proof -
  have n: "numbered ds ((db_numbering s)\<lparr>num_now := db_now s\<rparr>)" using assms(1) by (simp add: numbered_def)
  from freshNumber [OF n assms(2), of "''JRN''"] assms(3) obtain tt where
    "nextDocumentNumber (journalNumberOpts input) ((db_numbering s)\<lparr>num_now := 20005 * dayMs\<rparr>) = Inr (''JRN-B-202410-000001'', tt)"
    using assms(6,7) by (auto simp: journalNumberOpts_def)
  then show ?thesis
    using assms
    by (simp add: postOperationalEvent_def bindT_def tx_defs eventOfKey_def find_first_def nowT_def orElse_def postNewEvent_def
        newIdT_def Let_def liftE_def createJournal_def onNumbering_def zoomT_def)
qed

lemma opened_simps [simp]: "db_now opened = 20005 * dayMs" "db_nextId opened = 50" "db_stock opened = shopStock" "db_sales opened = []"
    "db_saleItems opened = []" "db_payments opened = []" "db_accountsOfLoyalty opened = []" "db_loyaltyLog opened = []"
    "db_numbering opened = db_numbering emptyAccounting" "db_journals opened = []" "db_events opened = []" "db_rules opened = [cashRule]"
    "db_closeControls opened = []" "db_fiscalPeriods opened = []" "db_settings opened = []" "db_programs opened = [memberProgram]"
  by (simp_all add: opened_def shop_def deliveryShop_def emptyAccounting_def accounting_db.defs procurement_db.defs approvals_db.defs sales_db.defs)

lemma first_posted:
  assumes "numbered ds (db_numbering s)" and "''JOURNAL'' \<notin> ds" and "db_now s = 20005 * dayMs" and "db_journals s = []" and "db_events s = []"
    and "db_rules s = [cashRule]" and "db_closeControls s = []" and "db_fiscalPeriods s = []" and "db_accounts s = db_accounts opened"
  shows "\<exists>s'. postSale rationalDecimal exampleScope cashier (Some shopMember) (20005 * dayMs) firstCheckout [firstItem] [firstPayment] 50 s = Inr ((), s')"
proof -
  let ?input = "saleEvent rationalDecimal exampleScope 50 (20005 * dayMs) firstCheckout [firstItem] [firstPayment]"
  have cash: "settlementOf rationalDecimal True [firstPayment] = 40" "settlementOf rationalDecimal False [firstPayment] = 0"
    "outputTaxes rationalDecimal [firstItem] = []" "saleTax rationalDecimal [firstItem] = 0" by code_simp+
  have i: "pi_company ?input = 1" "pi_branch ?input = 1" "orElse (pi_businessDate ?input) (20005 * dayMs) = 20005 * dayMs" "pi_taxLines ?input = []"
      "pi_eventType ?input = ''SALE_CASH''"
    by (simp_all add: saleEvent_def stockEvent_def Let_def exampleScope_simps cash saleEventType_def orElse_def)
  have g: "postingGuards ?input (20005 * dayMs) s = Inr (cashRule, s)"
    using assms i by (simp add: postingGuards_def bindT_def tx_defs activeRule_def find_ordered_def sortBy_def cashRule_def
        inRange_def closingControl_def find_first_def periodAt_def)
  from first_journal obtain js where "buildJournal rationalDecimal ?input (db_accounts s) cashRule = Inr js" using assms(9) by auto
  from posts_first [OF assms(1-5) i(1-3) g this] obtain ev s1 where "postOperationalEvent rationalDecimal ?input s = Inr (ev, s1)" by blast
  then show ?thesis
    by (simp add: postSale_def issueTaxDocument_def cash bindT_def tx_defs outboxT_def auditT_def nowT_def)
qed

lemma first_loyalty:
  assumes "db_accountsOfLoyalty s = []"
  shows "\<exists>s' a. syncLoyalty scope user memberProgram None c 0 (saleTotal rationalDecimal [firstItem]) i s = Inr ((), s') \<and>
    a \<in> set (db_accountsOfLoyalty s') \<and> la_points a = 40"
proof -
  have "earnedPoints (saleTotal rationalDecimal [firstItem]) (lp_earnRate memberProgram) = Inr 40" by code_simp
  then show ?thesis
    using assms by (simp add: syncLoyalty_def Let_def bindT_def tx_defs liftE_def upsertAccount_def accountOf_def find_first_def
        addPoints_def logPoints_def newIdT_def auditT_def nowT_def update_many_def)
qed

lemma first_written: "\<exists>s'. writeSale rationalDecimal exampleScope cashier firstSale 1 (Some 30) (Some shopMember) (20005 * dayMs) firstCheckout [firstItem] [firstPayment]
    opened = Inr (50, s') \<and> (\<exists>a \<in> set (db_accountsOfLoyalty s'). la_points a = 40)"
proof -
  let ?w = "createSaleRow rationalDecimal exampleScope firstSale 1 (Some 30) (20005 * dayMs) firstCheckout [firstItem]"
  have "numbered {} (db_numbering opened)" by (simp add: numbered_def emptyAccounting_def)
  from freshNumberT [OF this, of "''SALE''" "''POS''"] obtain t where t: "numberT exampleScope ''SALE'' ''POS'' opened = Inr (''POS'' @ ''-B-202410-000001'', opened\<lparr>db_numbering := t\<rparr>)"
    "numbered {''SALE''} t" by auto
  obtain row where 1: "?w opened = Inr (50, opened\<lparr>db_numbering := t, db_nextId := 51, db_sales := [row], db_saleItems := [firstItem\<lparr>sit_sale := 50\<rparr>]\<rparr>)"
      (is "_ = Inr (_, ?s1)")
    by (simp add: createSaleRow_def bindT_def tx_defs t(1) [simplified] find_first_def newIdT_def Let_def)
  have 2: "redeemPromo exampleScope firstSale firstCheckout 50 ?s1 = Inr ((), ?s1)"
    by (simp add: redeemPromo_def firstCheckout_def tx_defs)
  from first_issued [of ?s1 "''SALE''" "''Sale''" "identText 50"] obtain st m where 3: "forT (\<lambda>x. issueStock 1 (sit_product x) (sit_quantity x) ''SALE'' ''Sale'' (identText 50)) [firstItem] ?s1 =
      Inr ((), ?s1\<lparr>db_stock := st, db_movements := m\<rparr>)" (is "_ = Inr (_, ?s3)") by auto
  have "numbered {''SALE''} (db_numbering ?s3)" using t(2) by simp
  from freshNumberT [OF this, of "''PAYMENT''" "''PAY''"] obtain u where u: "numberT exampleScope ''PAYMENT'' ''PAY'' ?s3 = Inr (''PAY'' @ ''-B-202410-000001'', ?s3\<lparr>db_numbering := u\<rparr>)"
    "numbered {''PAYMENT'', ''SALE''} u" by auto
  obtain ps where 4: "forT (payT exampleScope 50 (20005 * dayMs)) [firstPayment] ?s3 = Inr ((), ?s3\<lparr>db_numbering := u, db_nextId := 52, db_payments := ps\<rparr>)"
      (is "_ = Inr (_, ?s4)")
    by (simp add: payT_def bindT_def thenT_def tx_defs u(1) [simplified] find_first_def newIdT_def)
  from first_posted [of "{''PAYMENT'', ''SALE''}" ?s4] u(2) obtain s5 where
    5: "postSale rationalDecimal exampleScope cashier (Some shopMember) (20005 * dayMs) firstCheckout [firstItem] [firstPayment] 50 ?s4 = Inr ((), s5)" by auto
  have "db_accountsOfLoyalty s5 = []" using agrees_kept [OF loyalty_frames(5) 5] by (simp add: loyaltyOf_def)
  from first_loyalty [OF this, of exampleScope "ap_user cashier" 4 50] obtain s6 where
    6: "earnAndRedeem rationalDecimal exampleScope cashier firstSale firstCheckout [firstItem] 50 s5 = Inr ((), s6)"
      "\<exists>a \<in> set (db_accountsOfLoyalty s6). la_points a = 40"
    by (auto simp: earnAndRedeem_def firstCheckout_def saleOf_def)
  from 1 2 3 4 5 6 show ?thesis unfolding writeSale_Inr by blast
qed

text \<open>The first sale commits, as the row with id 50.\<close>

lemma first_sale: "\<exists>s'. createSaleTx rationalDecimal (\<lambda>_ _. 0) exampleScope firstSale False (20005 * dayMs) 1 cashier opened = Inr (50, s') \<and>
    (\<exists>a \<in> set (db_accountsOfLoyalty s'). la_points a = 40)"
proof -
  have "sld_shift firstSale = Some 30" "sld_customer firstSale = Some 4" by (simp_all add: saleOf_def)
  moreover have "forT (checkStock 1 [shopProduct]) [firstItem] opened = Inr ((), opened)" using first_stock by (simp add: thenT_def bindT_def returnT_def)
  ultimately show ?thesis
    using first_written by (simp add: createSaleTx_def bindT_def getT_def liftE_def first_shift first_products first_customer first_priced first_taxed first_paid)
qed

lemma forT_total: "(\<And>x s. \<exists>s'. f x s = Inr ((), s')) \<Longrightarrow> \<exists>s'. forT f xs s = Inr ((), s')"
proof (induction xs arbitrary: s)
  case (Cons x xs)
  obtain s1 where "f x s = Inr ((), s1)" using Cons.prems by blast
  moreover obtain s2 where "forT f xs s1 = Inr ((), s2)" using Cons.IH [OF Cons.prems] by blast
  ultimately show ?case by (auto simp: thenT_def bindT_def)
qed (simp add: returnT_def)

lemma alert_total: "\<exists>s'. alertLowStock parse c ids w s = Inr ((), s')"
proof -
  have "\<exists>s'. alertOne c w t x s = Inr ((), s')" for t x and s :: "'a sales_db_scheme"
    by (cases x) (simp add: alertOne_def Let_def bindT_def tx_defs newIdT_def)
  then show ?thesis by (simp add: alertLowStock_def bindT_def tx_defs nowT_def forT_total)
qed

lemma first_created: "\<exists>s'. createSale rationalDecimal (\<lambda>_ _. 0) digest parse firstSale cashier False None opened = (Inr (Some 50), s') \<and>
    (\<exists>a \<in> set (db_accountsOfLoyalty s'). la_points a = 40)"
proof -
  obtain s1 where s1: "createSaleTx rationalDecimal (\<lambda>_ _. 0) exampleScope firstSale False (20005 * dayMs) 1 cashier opened = Inr (50, s1)"
      and points: "\<exists>a \<in> set (db_accountsOfLoyalty s1). la_points a = 40"
    using first_sale by blast
  have w: "warehouseS exampleUser exampleScope 1 ByBranch False opened = (Inr \<lparr>wh_id = 1, wh_branch = 1, wh_company = 1, wh_isActive = True, wh_isDefault = True, wh_code = ''W'', wh_name = ''W'', wh_address = None\<rparr>, opened)"
    by code_simp
  have user: "ap_user cashier = exampleUser" by (simp add: cashier_def)
  have sale: "sld_items firstSale \<noteq> []" "sld_warehouse firstSale = 1" by (simp_all add: saleOf_def)
  obtain s2 where alert: "alertLowStock parse 1 (soldIds firstSale) 1 s1 = Inr ((), s2)" using alert_total by blast
  have "loyaltyOf (tills s2) = loyaltyOf (tills s1)"
    using agrees_kept [where f = loyaltyOf, OF agrees_invariant.alertLowStock_till alert] by simp
  then have points: "\<exists>a \<in> set (db_accountsOfLoyalty s2). la_points a = 40" using points by (simp add: loyaltyOf_def)
  have "postingSale rationalDecimal (\<lambda>_ _. 0) digest exampleScope firstSale False (20005 * dayMs) 1 cashier opened = (Inr (Some 50), s1)"
    using s1 by (simp add: postingSale_def onceT_def keyedOpts_def present_def bindT_def returnT_def runTx_def saleOf_def)
  then show ?thesis
    using w alert points by (simp add: createSale_def svc_defs liftS_def user sale orElse_def runTx_def exampleScope_simps)
qed

end
