(* ===== verification/SaleClaims.thy ===== *)
theory SaleClaims
  imports ShopRun
begin

text \<open>
  The properties of the selling side: what every run of it keeps, what one sale does to the stock, what its quote
  says, and how a batch of offline sales ends.
\<close>

section \<open>Invariants of runs\<close>

interpretation settled_sales: sale_invariant "salesOk dec" dec for dec :: decimal_ops
proof unfold_locales
  show "salesOk dec t' n = salesOk dec t n" if "restOf t' = restOf t" for t t' n
    using that by (cases t; cases t') (simp add: restOf_def salesOk_def)
qed (rule createSaleTx_sales | simp add: salesOk_def)+

interpretation point_ledger: sale_invariant pointsOk dec for dec :: decimal_ops
proof unfold_locales
  show "pointsOk t' n = pointsOk t n" if "restOf t' = restOf t" for t t' n
    using that by (cases t; cases t') (simp add: restOf_def pointsOk_def)
qed (rule createSaleTx_points | simp add: pointsOk_def)+

definition heldReceipt :: "offline_transaction \<Rightarrow> till \<Rightarrow> ident \<Rightarrow> bool" where
  "heldReceipt r t n \<longleftrightarrow> ot_status r = ''APPLIED'' \<and> r \<in> set (t_offline t)"

interpretation receipt_invariant: till_invariant "heldReceipt r" for r :: offline_transaction
  by unfold_locales (simp add: heldReceipt_def)

lemma writeSale_receipts: "keeps (kept (heldReceipt r)) (writeSale dec scope user dto w shift customer t c items requested)"
  unfolding writeSale_def createSaleRow_def recordRedemption_def payT_def postSale_def syncLoyalty_def addPoints_def logPoints_def upsertAccount_def Let_def
  by (intro keeps_rules keeps_frame; simp add: heldReceipt_def)

interpretation applied_receipts: sale_invariant "heldReceipt r" dec for r :: offline_transaction and dec :: decimal_ops
proof unfold_locales
  show "heldReceipt r t' n = heldReceipt r t n" if "restOf t' = restOf t" for t t' n
    using that by (cases t; cases t') (simp add: restOf_def heldReceipt_def)
  show "heldReceipt r (t\<lparr>t_offline := map f (t_offline t) @ rs\<rparr>) n"
    if "heldReceipt r t n" and "\<forall>r \<in> set (t_offline t). ot_status r = ''APPLIED'' \<longrightarrow> f r = r" for t n f rs
  proof -
    have "f r = r" "r \<in> set (t_offline t)" using that by (simp_all add: heldReceipt_def)
    then have "r \<in> set (map f (t_offline t))" by (metis image_eqI list.set_map)
    then show ?thesis using that by (simp add: heldReceipt_def)
  qed
  show "keeps (kept (heldReceipt r)) (createSaleTx dec collate scope dto b d w user :: (sales_db, ident) tx)" for collate scope dto b d w user
    unfolding createSaleTx_def by (intro keeps_rules writeSale_receipts)
qed

section \<open>Stock\<close>

interpretation stock_frame: bystander "\<lambda>s :: 'b sales_db_scheme. J (db_stock s)" for J :: "stock \<Rightarrow> bool"
  by unfold_locales simp_all

lemma movements_stock: "keeps (\<lambda>s. J (db_stock s)) (forT (\<lambda>a. movementT w p (l a) k (q a) (b a) t r) xs)"
  unfolding movementT_def by (intro keeps_rules keeps_frame) simp

lemma issueStock_levels:
  assumes "issueStock w p q k t r s = Inr (u, s')" and "reconciled (db_stock s)"
  shows "reconciled (db_stock s') \<and> 0 < q \<and> (\<forall>l w' p'. aggregate l w' p' (db_stock s') = aggregate l w' p' (db_stock s) +
    (if w' = w \<and> p' = p then displacement (- q) 0 (- q) l else 0))"
proof -
  obtain al row st where run: "bindT (consumeAvailableLocationStock w p q) (\<lambda>al. bindT (updateInventory w p (- q) 0 (- q)) (\<lambda>u. returnT (al, u)))
        ((db_stock s)\<lparr>now := db_now s\<rparr>) = Inr ((al, row), st)"
    and loop: "forT (\<lambda>a. movementT w p (Some (fst a)) k (- snd a) (inv_quantity row) t r) al (s\<lparr>db_stock := st\<rparr>) = Inr (u, s')"
    using assms(1) by (auto simp: issueStock_def tx_Inr onStock_Inr)
  have same: "db_stock s' = st" by (rule keepsD [OF movements_stock loop]) simp
  obtain st1 where c: "consumeAvailableLocationStock w p q ((db_stock s)\<lparr>now := db_now s\<rparr>) = Inr (al, st1)"
    and a: "updateInventory w p (- q) 0 (- q) st1 = Inr (row, st)" using run by (auto simp: tx_Inr)
  have wf: "stock_wf ((db_stock s)\<lparr>now := db_now s\<rparr>)" using assms(2) by (simp add: reconciled_def)
  have "aggregate l w' p' st1 = aggregate l w' p' (db_stock s)" for l w' p'
    using consume_moves [OF c wf] aggregate_cong [of st1 "db_stock s"] by (simp add: moves_def)
  moreover have "reconciled st" using keepsD [OF issue_keeps run] assms(2) by simp
  ultimately show ?thesis using updateInventory_moves [OF a] consume_moves [OF c wf] unfolding same by (auto simp: aggregateMoves_def)
qed

lemma issued_levels:
  assumes "forT (\<lambda>x. issueStock w (sit_product x) (sit_quantity x) k r j) items s = Inr (u, s')" and "reconciled (db_stock s)"
  shows "reconciled (db_stock s') \<and> (\<forall>x \<in> set items. 0 < sit_quantity x) \<and> (\<forall>l w' p. aggregate l w' p (db_stock s') = aggregate l w' p (db_stock s) -
    (if w' = w \<and> l \<noteq> Reserved then sum_where sit_quantity (\<lambda>x. sit_product x = p) items else 0))"
  using assms
proof (induction items arbitrary: s)
  case Nil
  then show ?case by (auto simp: tx_Inr)
next
  case (Cons x xs)
  then obtain s1 v where 1: "issueStock w (sit_product x) (sit_quantity x) k r j s = Inr (v, s1)"
    and 2: "forT (\<lambda>x. issueStock w (sit_product x) (sit_quantity x) k r j) xs s1 = Inr (u, s')" by (auto simp: tx_Inr)
  note one = issueStock_levels [OF 1 Cons.prems(2)]
  note rest = Cons.IH [OF 2 conjunct1 [OF one]]
  have "displacement (- q) 0 (- q) l = (if l \<noteq> Reserved then - q else 0)" for q l by (cases l) simp_all
  moreover have "sum_where sit_quantity (\<lambda>x. sit_product x = p) (x # xs) =
      (if p = sit_product x then sit_quantity x else 0) + sum_where sit_quantity (\<lambda>x. sit_product x = p) xs" for p
    by (auto simp: sum_where_def)
  ultimately show ?case using one rest by simp
qed

lemma stock_kept:
  assumes "\<And>J. keeps (\<lambda>s. J (db_stock s)) m" and "m s = Inr (x, s')"
  shows "db_stock s' = db_stock s"
  using keepsD [OF assms(1) [of "\<lambda>t. t = db_stock s"] assms(2)] by simp

lemma stock_frames:
  "keeps (\<lambda>s. J (db_stock s)) (createSaleRow dec scope dto w shift d c items)"
  "keeps (\<lambda>s. J (db_stock s)) (redeemPromo scope dto c i)"
  "keeps (\<lambda>s. J (db_stock s)) (forT (payT scope i d) requested)"
  "keeps (\<lambda>s. J (db_stock s)) (postSale dec scope user customer d c items requested i)"
  "keeps (\<lambda>s. J (db_stock s)) (earnAndRedeem dec scope user dto c items i)"
  unfolding createSaleRow_def redeemPromo_def recordRedemption_def payT_def postSale_def issueTaxDocument_def earnAndRedeem_def syncLoyalty_def
    addPoints_def logPoints_def upsertAccount_def Let_def
  by (intro keeps_rules keeps_frame; simp)+

section \<open>A quote and the sale of the same request\<close>

text \<open>Pricing for the quote is pricing for the sale, when no points are redeemed without a program.\<close>

lemma quoted_price:
  assumes "priceSale dec collate scope dto False customer products t s = Inr c"
    and "orElse (sld_redeem dto) 0 \<le> 0 \<or> activeProgram (sc_company scope) s \<noteq> None"
  shows "quotePrice dec collate scope dto customer products t s = Inr (c\<lparr>ck_program := None, ck_account := None\<rparr>)"
proof -
  have "quoteLoyalty dec scope k r s = Inr p" if "saleLoyalty dec scope k r s = Inr (g, a, p)" and "r \<le> 0 \<or> activeProgram (sc_company scope) s \<noteq> None" for k r g a p
    using that by (auto simp: quoteLoyalty_def saleLoyalty_def bindE_Inr requireE_Inr Let_def split: option.splits if_splits)
  then show ?thesis
    using assms by (auto simp: priceSale_def quotePrice_def bindE_Inr requireE_Inr Let_def split: prod.splits)
qed

text \<open>The product of a priced line is the first one of its id.\<close>

lemma priced_products:
  assumes "priceSale dec collate scope dto offline customer products t s = Inr c" and "x \<in> set (ck_lines c)"
  shows "find_first (\<lambda>p. pr_id p = pr_id (rwl_product x)) products = Some (rwl_product x)"
proof -
  obtain raw where raw: "mapE (priceLine dec scope products (map_option cu_type customer) t s) (sld_items dto) = Inr raw" "ck_lines c = raw"
    using assms(1) by (auto simp: priceSale_def bindE_Inr Let_def split: prod.splits)
  with assms(2) obtain input where "priceLine dec scope products (map_option cu_type customer) t s input = Inr x"
    using mapE_image [OF raw(1), of x] by blast
  then have p: "find_first (\<lambda>p. pr_id p = sid_product input) products = Some (rwl_product x)"
    by (auto simp: priceLine_def bindE_Inr split: option.splits)
  then have "pr_id (rwl_product x) = sid_product input" using find_first_Some [OF p] by simp
  with p show ?thesis by simp
qed

text \<open>Checking the stock line by line while taxing, or item by item afterwards.\<close>

lemma quoted_lines:
  assumes "foldT (taxLine dec scope t) zs prepared s = Inr (items, s)" and "\<forall>x \<in> set items. \<exists>v. checkStock w products x s = Inr (v, s)"
    and "\<forall>z \<in> set zs. find_first (\<lambda>p. pr_id p = pr_id (rwl_product (fst z))) products = Some (rwl_product (fst z))"
  shows "foldT (quoteLine dec scope t w) zs prepared s = Inr (items, s) \<and> set prepared \<subseteq> set items"
  using assms(1,3)
proof (induction zs arbitrary: prepared)
  case Nil
  then show ?case by (auto simp: returnT_Inr)
next
  case (Cons z zs)
  from Cons.prems(1) obtain acc s1 where one: "taxLine dec scope t z prepared s = Inr (acc, s1)" and more: "foldT (taxLine dec scope t) zs acc s1 = Inr (items, s)"
    by (auto simp: tx_Inr)
  have s1: "s1 = s" by (rule reads [OF taxLine_reads one])
  from Cons.IH [OF more [unfolded s1]] Cons.prems(2)
  have rest: "foldT (quoteLine dec scope t w) zs acc s = Inr (items, s)" "set acc \<subseteq> set items" by simp_all
  from one obtain item where item: "acc = prepared @ [item]" "sit_product item = pr_id (rwl_product (fst z))" "sit_quantity item = us_baseQuantity (rwl_unit (fst z))"
    by (cases z) (auto simp: taxLine_def tx_Inr Let_def)
  from item(1) rest(2) assms(2) obtain v where "checkStock w products item s = Inr (v, s)" by auto
  then have "stockSuffices w (rwl_product (fst z)) (us_baseQuantity (rwl_unit (fst z))) s"
    using Cons.prems(2) item by (auto simp: checkStock_def tx_Inr)
  then have "quoteLine dec scope t w z prepared s = Inr (acc, s)" using one s1 by (auto simp: quoteLine_def tx_Inr)
  then show ?case using rest item(1) by (auto simp: tx_Inr)
qed

lemma denied_never [simp]: "denyS scope user k i s \<noteq> (Inr x, s')"
  by (simp add: denyS_def svc_defs split: prod.splits sum.splits)

lemma found_warehouse: "warehouseS user scope i m a s = (Inr w, s') \<Longrightarrow> s' = s"
  by (auto simp: warehouseS_def svc_Inr split: option.splits)

lemma posted_once_without_key:
  assumes "postingSale dec collate digest scope dto offline t w user s = (Inr (Some i), s')" and "\<not> present (sld_key dto)"
  shows "createSaleTx dec collate scope dto offline t w user s = Inr (i, s')"
proof -
  have "\<And>v s1. createSaleTx dec collate scope dto offline t w user s = Inr (v, s1) \<Longrightarrow> v = i \<and> s1 = s'"
    and "\<And>e. createSaleTx dec collate scope dto offline t w user s = Inl e \<Longrightarrow> False"
    using assms by (auto simp: postingSale_def onceT_def keyedOpts_def bindT_def runTx_def returnT_def split: if_splits)
  then show ?thesis by (cases "createSaleTx dec collate scope dto offline t w user s") auto
qed

lemma createSale_parts:
  assumes "createSale dec collate digest parse dto user False None s = (Inr (Some i), s')" and "\<not> present (sld_key dto)"
  shows "\<exists>scope w s1. requireTenantScope (ap_user user) = Inr scope \<and> warehouseS (ap_user user) scope (sld_warehouse dto) ByBranch False s = (Inr w, s) \<and>
    sld_items dto \<noteq> [] \<and> createSaleTx dec collate scope dto False (db_now s) (wh_id w) user s = Inr (i, s1) \<and>
    alertLowStock parse (sc_company scope) (soldIds dto) (wh_id w) s1 = Inr ((), s')"
proof -
  from assms(1) obtain scope w s0 s1 where "requireTenantScope (ap_user user) = Inr scope" "sld_items dto \<noteq> []"
    and w: "warehouseS (ap_user user) scope (sld_warehouse dto) ByBranch False s = (Inr w, s0)"
    and p: "postingSale dec collate digest scope dto False (db_now s) (wh_id w) user s0 = (Inr (Some i), s1)"
    and "alertLowStock parse (sc_company scope) (soldIds dto) (wh_id w) s1 = Inr ((), s')"
    by (auto simp: createSale_def svc_Inr liftS_def orElse_def split: sum.splits)
  moreover have "s0 = s" by (rule found_warehouse [OF w])
  ultimately show ?thesis using posted_once_without_key [OF _ assms(2)] by blast
qed

text \<open>The row of a sale, once it is written.\<close>

lemma written_row:
  assumes "writeSale dec scope user dto w shift customer t c items requested s = Inr (i, s')"
  shows "\<exists>row. row \<in> set (db_sales s') \<and> sl_id row = i \<and> sl_total row = saleTotal dec items \<and> sl_tax row = saleTax dec items \<and>
    sl_discount row = ck_discount c \<and> sl_subtotal row = ck_subtotal c"
proof -
  from writeSale_effect [OF assms] obtain row ps e d where row: "sl_id row = i" "sl_total row = saleTotal dec items" "sl_tax row = saleTax dec items"
      "sl_discount row = ck_discount c" "sl_subtotal row = ck_subtotal c"
    and core: "saleCore (tills s') = (update_many (\<lambda>x. sl_id x = i) (\<lambda>x. x\<lparr>sl_event := Some e, sl_taxDocument := d\<rparr>) (db_sales s @ [row]),
      db_saleItems s @ map (\<lambda>x. x\<lparr>sit_sale := i\<rparr>) items, update_many (\<lambda>p. py_sale p = Some i) (\<lambda>p. p\<lparr>py_event := Some e\<rparr>) (db_payments s @ ps))" by blast
  let ?row = "row\<lparr>sl_event := Some e, sl_taxDocument := d\<rparr>"
  have "?row \<in> set (db_sales s')" using core row(1) by (simp add: saleCore_def update_many_def)
  with row show ?thesis by (intro exI [of _ ?row]) simp
qed

lemma alert_sales:
  assumes "alertLowStock parse c ids w s = Inr (u, s')"
  shows "db_sales s' = db_sales s"
proof -
  have t: "tills s' = tills s \<and> db_nextId s \<le> db_nextId s'" by (rule tills_kept [OF frame_invariant.alertLowStock_till assms])
  show ?thesis using arg_cong [OF conjunct1 [OF t], of t_sales] by simp
qed

section \<open>Properties of sales\<close>

text \<open>
  C4. Sales are settled: over any run of sales, quotes, replayed offline batches, shifts and promotions that starts
  without sales, every sale has a row of its own; the payments of a sale add up to its total, rounded to cents, all
  of them paid and linked to the accounting event of the sale; its total and tax are the sums of its items'.
\<close>

theorem sales_settled:
  assumes "(selling_step dec collate)\<^sup>*\<^sup>* s s'" and "db_sales s = []" and "db_saleItems s = []" and "db_payments s = []"
  shows "distinct (map sl_id (db_sales s')) \<and> (\<forall>x \<in> set (db_sales s').
    let items = filter (\<lambda>y. sit_sale y = sl_id x) (db_saleItems s'); paid = filter (\<lambda>p. py_sale p = Some (sl_id x)) (db_payments s') in
    d_sum dec (map py_amount paid) = d_places dec 2 (sl_total x) \<and> sl_total x = d_sum dec (map sit_gross items) \<and>
    sl_tax x = d_sum dec (map sit_tax items) \<and> sl_event x \<noteq> None \<and> (\<forall>p \<in> set paid. py_status p = ''PAID'' \<and> py_event p = sl_event x))"
proof -
  have "salesOk dec (tills s) (db_nextId s)" using assms(2-4) by (simp add: salesOk_def)
  from settled_sales.run_keeps [OF assms(1) this] show ?thesis by (simp add: salesOk_def settledSale_def Let_def)
qed

lemma first_row:
  assumes "createSale rationalDecimal (\<lambda>_ _. 0) digest parse firstSale cashier False None opened = (Inr (Some 50), s')"
  shows "\<exists>x. x \<in> set (db_sales s') \<and> sl_id x = 50"
proof -
  have key: "\<not> present (sld_key firstSale)" by (simp add: saleOf_def present_def)
  obtain scope and w :: warehouse and s1 where run: "createSaleTx rationalDecimal (\<lambda>_ _. 0) scope firstSale False (db_now opened) (wh_id w) cashier opened = Inr (50, s1)"
    and alert: "alertLowStock parse (sc_company scope) (soldIds firstSale) (wh_id w) s1 = Inr ((), s')"
    using createSale_parts [OF assms key] by (elim exE conjE) (rule that, assumption+)
  from createSaleTx_parts [OF run] obtain shift customer c items requested where
    "writeSale rationalDecimal scope cashier firstSale (wh_id w) shift customer (db_now opened) c items requested opened = Inr (50, s1)" by blast
  from written_row [OF this] alert_sales [OF alert] show ?thesis by auto
qed

theorem sales_settled_witness:
  "\<exists>s' x. selling_step rationalDecimal (\<lambda>_ _. 0) opened s' \<and> x \<in> set (db_sales s') \<and> sl_event x \<noteq> None \<and>
     d_sum rationalDecimal (map py_amount (filter (\<lambda>p. py_sale p = Some (sl_id x)) (db_payments s'))) = d_places rationalDecimal 2 (sl_total x)"
proof -
  obtain s' where run: "createSale rationalDecimal (\<lambda>_ _. 0) (\<lambda>_. []) (\<lambda>_. None) firstSale cashier False None opened = (Inr (Some 50), s')"
    using first_created [of "\<lambda>_. []" "\<lambda>_. None"] by blast
  have step: "selling_step rationalDecimal (\<lambda>_ _. 0) opened s'" by (rule step_sale [OF run])
  then have steps: "(selling_step rationalDecimal (\<lambda>_ _. 0))\<^sup>*\<^sup>* opened s'" by (rule r_into_rtranclp)
  from first_row [OF run] obtain x where "x \<in> set (db_sales s')" by blast
  with sales_settled [OF steps] step show ?thesis by (intro exI [of _ s'] exI [of _ x]) (simp add: Let_def)
qed

text \<open>
  C11. The points of a loyalty account are, over any such run that starts without accounts, the sum of its logged
  movements, and never negative.
\<close>

theorem points_are_logged:
  assumes "(selling_step dec collate)\<^sup>*\<^sup>* s s'" and "db_accountsOfLoyalty s = []" and "db_loyaltyLog s = []" and "a \<in> set (db_accountsOfLoyalty s')"
  shows "0 \<le> la_points a \<and> la_points a = sum_list (map lt_points (filter (\<lambda>l. lt_account l = la_id a) (db_loyaltyLog s')))"
proof -
  have "pointsOk (tills s) (db_nextId s)" using assms(2,3) by (simp add: pointsOk_def)
  from point_ledger.run_keeps [OF assms(1) this] assms(4) have "accountOk (db_loyaltyLog s') (db_nextId s') a" by (simp add: pointsOk_def)
  then show ?thesis unfolding accountOk_def sum_where_def by blast
qed

theorem points_are_logged_witness:
  "\<exists>s' a. selling_step rationalDecimal (\<lambda>_ _. 0) opened s' \<and> a \<in> set (db_accountsOfLoyalty s') \<and> la_points a = 40 \<and>
     sum_list (map lt_points (filter (\<lambda>l. lt_account l = la_id a) (db_loyaltyLog s'))) = 40"
proof -
  obtain s' a where run: "createSale rationalDecimal (\<lambda>_ _. 0) (\<lambda>_. []) (\<lambda>_. None) firstSale cashier False None opened = (Inr (Some 50), s')"
    and a: "a \<in> set (db_accountsOfLoyalty s')" "la_points a = 40" using first_created [of "\<lambda>_. []" "\<lambda>_. None"] by blast
  have step: "selling_step rationalDecimal (\<lambda>_ _. 0) opened s'" by (rule step_sale [OF run])
  then have "(selling_step rationalDecimal (\<lambda>_ _. 0))\<^sup>*\<^sup>* opened s'" by (rule r_into_rtranclp)
  from points_are_logged [OF this _ _ a(1)] step a show ?thesis by (intro exI [of _ s'] exI [of _ a]) simp
qed

text \<open>
  C22. A receipt of an offline sale that is applied stays as it is: no later sale, replay or other step of the
  selling side changes or removes it.
\<close>

theorem applied_receipts_final:
  assumes "(selling_step dec collate)\<^sup>*\<^sup>* s s'" and "r \<in> set (db_offline s)" and "ot_status r = ''APPLIED''"
  shows "r \<in> set (db_offline s')"
  using applied_receipts.run_keeps [OF assms(1), of r] assms(2,3) by (simp add: heldReceipt_def)

text \<open>
  C8. A committed sale takes exactly the units of its items out of its warehouse: the quantity and the available
  units of every product fall by what was sold of it there, the reserved units and every other warehouse stay, and
  the stock stays reconciled.
\<close>

theorem sale_takes_stock:
  assumes "createSaleTx dec collate scope dto offline t w user s = Inr (i, s')" and "reconciled (db_stock s)"
  shows "reconciled (db_stock s') \<and> (\<exists>items. db_saleItems s' = db_saleItems s @ items \<and> (\<forall>x \<in> set items. sit_sale x = i \<and> 0 < sit_quantity x) \<and>
    (\<forall>l w' p. aggregate l w' p (db_stock s') = aggregate l w' p (db_stock s) -
      (if w' = w \<and> l \<noteq> Reserved then sum_list (map sit_quantity (filter (\<lambda>x. sit_product x = p) items)) else 0)))"
proof -
  obtain shift customer c items requested where wr: "writeSale dec scope user dto w shift customer t c items requested s = Inr (i, s')"
    using createSaleTx_parts [OF assms(1)] by blast
  from wr obtain s1 s2 s3 s4 s5 where 1: "createSaleRow dec scope dto w shift t c items s = Inr (i, s1)"
    and 2: "redeemPromo scope dto c i s1 = Inr ((), s2)"
    and 3: "forT (\<lambda>x. issueStock w (sit_product x) (sit_quantity x) ''SALE'' ''Sale'' (identText i)) items s2 = Inr ((), s3)"
    and 4: "forT (payT scope i t) requested s3 = Inr ((), s4)"
    and 5: "postSale dec scope user customer t c items requested i s4 = Inr ((), s5)"
    and 6: "earnAndRedeem dec scope user dto c items i s5 = Inr ((), s')" unfolding writeSale_Inr by blast
  have same: "db_stock s1 = db_stock s" "db_stock s2 = db_stock s1" "db_stock s4 = db_stock s3" "db_stock s5 = db_stock s4" "db_stock s' = db_stock s5"
    by (rule stock_kept [OF stock_frames(1) 1], rule stock_kept [OF stock_frames(2) 2], rule stock_kept [OF stock_frames(3) 4],
        rule stock_kept [OF stock_frames(4) 5], rule stock_kept [OF stock_frames(5) 6])
  have levels: "reconciled (db_stock s') \<and> (\<forall>x \<in> set items. 0 < sit_quantity x) \<and> (\<forall>l w' p. aggregate l w' p (db_stock s') = aggregate l w' p (db_stock s) -
      (if w' = w \<and> l \<noteq> Reserved then sum_where sit_quantity (\<lambda>x. sit_product x = p) items else 0))"
    using issued_levels [OF 3] assms(2) same by simp
  from writeSale_effect [OF wr] have rows: "db_saleItems s' = db_saleItems s @ map (\<lambda>x. x\<lparr>sit_sale := i\<rparr>) items" by (auto simp: saleCore_def)
  show ?thesis
    by (intro conjI exI [of _ "map (\<lambda>x. x\<lparr>sit_sale := i\<rparr>) items"]) (use levels rows in \<open>auto simp: sum_where_def filter_map o_def\<close>)
qed

text \<open>
  C13. What is quoted is what is charged: when a sale without an idempotency key commits, the quote of the same
  request in the same state succeeds, changes nothing, and names the subtotal, the discount, the tax and the total
  of the sale's row. The exception is a redemption of points at a company without a loyalty program, which the quote
  refuses and the sale ignores.
\<close>

theorem quote_is_charge:
  assumes "createSale dec collate digest parse dto user False None s = (Inr (Some i), s')" and "\<not> present (sld_key dto)"
    and "orElse (sld_redeem dto) 0 \<le> 0 \<or> (\<forall>c. us_company (ap_user user) = Some c \<longrightarrow> activeProgram c s \<noteq> None)"
  shows "\<exists>q row. quoteSale dec collate dto (ap_user user) s = (Inr q, s) \<and> row \<in> set (db_sales s') \<and> sl_id row = i \<and>
    sl_subtotal row = qt_subtotal q \<and> sl_discount row = qt_totalDiscount q \<and> sl_tax row = qt_tax q \<and> sl_total row = qt_total q"
proof -
  obtain scope w s1 where scope: "requireTenantScope (ap_user user) = Inr scope" and w: "warehouseS (ap_user user) scope (sld_warehouse dto) ByBranch False s = (Inr w, s)"
    and ne: "sld_items dto \<noteq> []" and run: "createSaleTx dec collate scope dto False (db_now s) (wh_id w) user s = Inr (i, s1)"
    and alert: "alertLowStock parse (sc_company scope) (soldIds dto) (wh_id w) s1 = Inr ((), s')"
    using createSale_parts [OF assms(1,2)] by blast
  from createSaleTx_parts [OF run] obtain shift products customer c items requested where cu: "saleCustomer scope (sld_customer dto) s = Inr customer"
    and p: "products = companyProducts (sc_company scope) True (soldIds dto) s" "length products = length (soldIds dto)"
    and c: "priceSale dec collate scope dto False customer products (db_now s) s = Inr c" and tx: "taxLines dec scope (db_now s) c s = Inr (items, s)"
    and st: "\<forall>x \<in> set items. \<exists>v. checkStock (wh_id w) products x s = Inr (v, s)"
    and wr: "writeSale dec scope user dto (wh_id w) shift customer (db_now s) c items requested s = Inr (i, s1)" by blast
  have program: "orElse (sld_redeem dto) 0 \<le> 0 \<or> activeProgram (sc_company scope) s \<noteq> None"
    using assms(3) scope by (auto simp: requireTenantScope_def split: option.splits)
  let ?c = "c\<lparr>ck_program := None, ck_account := None\<rparr>"
  have "\<forall>z \<in> set (zip (ck_lines c) (sharesOf dec c)). find_first (\<lambda>p. pr_id p = pr_id (rwl_product (fst z))) products = Some (rwl_product (fst z))"
    using priced_products [OF c] by (auto dest: set_zip_leftD)
  from quoted_lines [OF tx [unfolded taxLines_def] st this]
  have ls: "foldT (quoteLine dec scope (db_now s) (wh_id w)) (zip (ck_lines ?c) (sharesOf dec ?c)) [] s = Inr (items, s)" by (simp add: sharesOf_def)
  let ?q = "\<lparr>qt_subtotal = ck_subtotal ?c, qt_discount = orElse (sld_discount dto) 0, qt_promoDiscount = ck_promoDiscount ?c,
    qt_pointsDiscount = ck_pointsDiscount ?c, qt_totalDiscount = ck_discount ?c, qt_net = saleNet dec items, qt_tax = saleTax dec items, qt_total = saleTotal dec items\<rparr>"
  have q: "quoteSale dec collate dto (ap_user user) s = (Inr ?q, s)"
    using scope w ne cu p quoted_price [OF c program] ls by (simp add: quoteSale_def svc_defs liftS_def)
  from written_row [OF wr] obtain row where "row \<in> set (db_sales s1)" "sl_id row = i" "sl_total row = saleTotal dec items" "sl_tax row = saleTax dec items"
      "sl_discount row = ck_discount c" "sl_subtotal row = ck_subtotal c" by blast
  with q alert_sales [OF alert] show ?thesis by (intro exI [of _ ?q] exI [of _ row]) simp
qed

theorem quote_is_charge_witness:
  "\<exists>q. quoteSale rationalDecimal (\<lambda>_ _. 0) firstSale exampleUser opened = (Inr q, opened)"
proof -
  obtain s' where run: "createSale rationalDecimal (\<lambda>_ _. 0) (\<lambda>_. []) (\<lambda>_. None) firstSale cashier False None opened = (Inr (Some 50), s')"
    using first_created [of "\<lambda>_. []" "\<lambda>_. None"] by blast
  have "\<not> present (sld_key firstSale)" "orElse (sld_redeem firstSale) 0 \<le> 0" by (simp_all add: saleOf_def present_def orElse_def)
  with quote_is_charge [OF run] show ?thesis by (auto simp: cashier_def)
qed

theorem sale_takes_stock_witness:
  "\<exists>s' items. createSaleTx rationalDecimal (\<lambda>_ _. 0) exampleScope firstSale False (20005 * dayMs) 1 cashier opened = Inr (50, s') \<and>
     db_saleItems s' = items \<and> aggregate Quantity 1 5 (db_stock s') = 10 - sum_list (map sit_quantity (filter (\<lambda>x. sit_product x = 5) items))"
proof -
  obtain s' where run: "createSaleTx rationalDecimal (\<lambda>_ _. 0) exampleScope firstSale False (20005 * dayMs) 1 cashier opened = Inr (50, s')"
    using first_sale by blast
  have ok: "reconciled (db_stock opened)" by (simp add: shopStock_reconciled)
  have ten: "aggregate Quantity 1 5 (db_stock opened) = 10" by (simp add: aggregate_def findInventory_def find_first_def shopStock_def)
  from sale_takes_stock [OF run ok] obtain items where items: "db_saleItems s' = db_saleItems opened @ items"
    and levels: "\<forall>l w' p. aggregate l w' p (db_stock s') = aggregate l w' p (db_stock opened) -
      (if w' = 1 \<and> l \<noteq> Reserved then sum_list (map sit_quantity (filter (\<lambda>x. sit_product x = p) items)) else 0)" by blast
  have "aggregate Quantity 1 5 (db_stock s') = 10 - sum_list (map sit_quantity (filter (\<lambda>x. sit_product x = 5) items))"
    using levels [rule_format, of Quantity 1 5] ten by simp
  with run items show ?thesis by auto
qed

text \<open>
  C33. The running balance in the loyalty log of a sale that redeems nothing ignores the account: the movement says
  that the balance afterwards is what was earned, while the account's points grow from what they were.
\<close>

theorem earn_balance_ignores_account:
  assumes "saleLoyalty dec scope (Some customerId) redeem s = Inr (Some program, account, d)" and "redeem \<le> 0"
    and "syncLoyalty scope user program account customerId redeem amount i s1 = Inr (u, s')"
    and "accountOf (lp_id program) customerId s1 = Some a" and "distinct (map la_id (db_accountsOfLoyalty s1))"
    and "earnedPoints amount (lp_earnRate program) = Inr k" and "0 < k"
  shows "\<exists>l. db_loyaltyLog s' = db_loyaltyLog s1 @ [l] \<and> lt_account l = la_id a \<and> lt_balanceAfter l = k \<and>
    (\<forall>b \<in> set (db_accountsOfLoyalty s'). la_id b = la_id a \<longrightarrow> la_points b = la_points a + k)"
proof -
  have "account = None" using assms(1,2) by (auto simp: saleLoyalty_def bindE_Inr requireE_Inr split: option.splits if_splits)
  with assms show ?thesis by (intro earn_logged) simp_all
qed

theorem earn_balance_ignores_account_witness:
  "\<exists>s' l. syncLoyalty exampleScope exampleUser memberProgram None 4 0 40 60 shop = Inr ((), s') \<and>
     db_loyaltyLog s' = db_loyaltyLog shop @ [l] \<and> lt_balanceAfter l = 40 \<and> la_points memberAccount = 50"
proof -
  have l: "saleLoyalty rationalDecimal exampleScope (Some 4) 0 shop = Inr (Some memberProgram, None, 0)" by code_simp
  have a: "accountOf (lp_id memberProgram) 4 shop = Some memberAccount" by code_simp
  have d: "distinct (map la_id (db_accountsOfLoyalty shop))" by code_simp
  have e: "earnedPoints 40 (lp_earnRate memberProgram) = Inr 40" by code_simp
  obtain s' where run: "syncLoyalty exampleScope exampleUser memberProgram None 4 0 40 60 shop = Inr ((), s')"
    using a e by (simp add: syncLoyalty_def Let_def bindT_def tx_defs liftE_def upsertAccount_def addPoints_def logPoints_def auditT_def nowT_def)
  from earn_balance_ignores_account [OF l _ run a d e] run show ?thesis by (auto simp: memberAccount_def)
qed

section \<open>Prices\<close>

theorem promo_discount_bounds_witness:
  "\<exists>d. computeLineAwareDiscount rationalDecimal bogo 60 [\<lparr>pl_product = 5, pl_quantity = 3, pl_unitPrice = 20\<rparr>] = Inr d \<and> 0 \<le> d \<and>
     d \<le> d_places rationalDecimal 2 15"
proof -
  have run: "computeLineAwareDiscount rationalDecimal bogo 60 [\<lparr>pl_product = 5, pl_quantity = 3, pl_unitPrice = 20\<rparr>] = Inr 15" by code_simp
  from promo_discount_bounds [OF rationalDecimal_orderly run] show ?thesis unfolding run by (auto simp: bogo_def)
qed

section \<open>Offline batches\<close>

lemma replayItem_names:
  "replayItem dec collate digest parse stringify configured scope user deviceId x s = (Inr r, s') \<Longrightarrow>
   rr_localId r = oi_localId x \<and> rr_sequence r = oi_sequence x"
  by (auto simp: replayItem_def Let_def svc_Inr split: if_splits)

text \<open>The items up to the first one that is not applied are worked on, the rest are left pending.\<close>

lemma replayItems_stop:
  assumes "replayItems work xs blocked rs s = (Inr out, s')"
    and "\<And>x s r s'. work x s = (Inr r, s') \<Longrightarrow> rr_localId r = oi_localId x \<and> rr_sequence r = oi_sequence x"
  shows "\<exists>ds. out = rs @ ds \<and> map rr_localId ds = map oi_localId xs \<and> map rr_sequence ds = map oi_sequence xs \<and>
    (if blocked then ds = map pendingResult xs
     else \<exists>front stop. ds = front @ stop \<and> (\<forall>r \<in> set front. rr_status r = ''APPLIED'') \<and>
       (stop = [] \<or> rr_status (hd stop) \<noteq> ''APPLIED'' \<and> tl stop = map pendingResult (drop (Suc (length front)) xs)))"
  using assms(1)
proof (induction xs arbitrary: blocked rs s)
  case Nil
  then show ?case by (auto simp: svc_Inr)
next
  case (Cons x xs)
  show ?case
  proof (cases blocked)
    case True
    with Cons.prems have "replayItems work xs True (rs @ [pendingResult x]) s = (Inr out, s')" by simp
    from Cons.IH [OF this] True show ?thesis by (auto simp: pendingResult_def)
  next
    case False
    with Cons.prems obtain r s1 where r: "work x s = (Inr r, s1)" and more: "replayItems work xs (rr_status r \<noteq> ''APPLIED'') (rs @ [r]) s1 = (Inr out, s')"
      by (auto simp: svc_Inr)
    note names = assms(2) [OF r]
    from Cons.IH [OF more] obtain ds where ds: "out = (rs @ [r]) @ ds" "map rr_localId ds = map oi_localId xs" "map rr_sequence ds = map oi_sequence xs"
      and rest: "if rr_status r \<noteq> ''APPLIED'' then ds = map pendingResult xs
        else \<exists>front stop. ds = front @ stop \<and> (\<forall>r \<in> set front. rr_status r = ''APPLIED'') \<and>
          (stop = [] \<or> rr_status (hd stop) \<noteq> ''APPLIED'' \<and> tl stop = map pendingResult (drop (Suc (length front)) xs))" by blast
    have "\<exists>front stop. r # ds = front @ stop \<and> (\<forall>r \<in> set front. rr_status r = ''APPLIED'') \<and>
       (stop = [] \<or> rr_status (hd stop) \<noteq> ''APPLIED'' \<and> tl stop = map pendingResult (drop (Suc (length front)) (x # xs)))"
    proof (cases "rr_status r = ''APPLIED''")
      case True
      with rest obtain front stop where "ds = front @ stop" "\<forall>r \<in> set front. rr_status r = ''APPLIED''"
        "stop = [] \<or> rr_status (hd stop) \<noteq> ''APPLIED'' \<and> tl stop = map pendingResult (drop (Suc (length front)) xs)" by auto
      then show ?thesis using True by (intro exI [of _ "r # front"] exI [of _ stop]) simp
    next
      case False
      then show ?thesis using rest by (intro exI [of _ "[]"] exI [of _ "r # ds"]) simp
    qed
    with False ds names show ?thesis by (intro exI [of _ "r # ds"]) simp
  qed
qed

lemma batch_distinct: "batchUnique ns ls xs = Inr () \<Longrightarrow> distinct (map oi_sequence xs) \<and> set ns \<inter> set (map oi_sequence xs) = {}"
  by (induction xs arbitrary: ns ls) (fastforce simp: bindE_Inr requireE_Inr)+

lemma applied_count:
  assumes "\<forall>r \<in> set front. rr_status r = ''APPLIED''" and "stop = [] \<or> rr_status (hd stop) \<noteq> ''APPLIED'' \<and> tl stop = map pendingResult ys"
  shows "count_where (\<lambda>r. rr_status r = ''APPLIED'') (front @ stop) = length front"
proof -
  have "filter (\<lambda>r. rr_status r = ''APPLIED'') stop = []" using assms(2) by (cases stop) (auto simp: pendingResult_def filter_empty_conv)
  then show ?thesis using assms(1) by (simp add: count_where_def)
qed

text \<open>
  C18. A batch of offline sales is worked on in the order of its sequence numbers, which must be distinct, and stops
  at the first item that is not applied: the results name the items in that order; those before it are applied,
  those after it are pending; the count of applied sales is the length of that prefix.
\<close>

theorem replay_stops_at_first:
  assumes "replayOfflineSales dec collate digest parse stringify configured batch user (s :: 'b sales_db_scheme) = (Inr (counts, results), s')"
  shows "let items = sort_key oi_sequence (rpd_items batch) in
    map rr_localId results = map oi_localId items \<and> map rr_sequence results = map oi_sequence items \<and>
    sorted_wrt (<) (map oi_sequence items) \<and>
    (\<exists>front stop. results = front @ stop \<and> rc_applied counts = length front \<and> (\<forall>r \<in> set front. rr_status r = ''APPLIED'') \<and>
       (stop = [] \<or> rr_status (hd stop) \<noteq> ''APPLIED'' \<and> tl stop = map pendingResult (drop (Suc (length front)) items)))"
proof (cases "rpd_items batch = []")
  case True
  with assms show ?thesis by (auto simp: replayOfflineSales_def svc_Inr countsOf_def Let_def count_where_def)
next
  case False
  let ?items = "sort_key oi_sequence (rpd_items batch)"
  from assms False obtain scope :: tenant_scope and deviceId and s1 s2 :: "'b sales_db_scheme" where u: "batchUnique [] [] (rpd_items batch) = Inr ()"
    and run: "replayItems (replayItem dec collate digest parse stringify configured scope user deviceId) ?items False [] s1 = (Inr results, s2)"
    and counts: "counts = countsOf results"
    by (auto simp: replayOfflineSales_def svc_Inr liftS_def split: sum.splits)
  have "distinct (map oi_sequence ?items)" using batch_distinct [OF u] by (simp add: distinct_map inj_on_def)
  then have order: "sorted_wrt (<) (map oi_sequence ?items)" by (simp add: strict_sorted_iff)
  have "\<exists>ds. results = [] @ ds \<and> map rr_localId ds = map oi_localId ?items \<and> map rr_sequence ds = map oi_sequence ?items \<and>
      (if False then ds = map pendingResult ?items
       else \<exists>front stop. ds = front @ stop \<and> (\<forall>r \<in> set front. rr_status r = ''APPLIED'') \<and>
         (stop = [] \<or> rr_status (hd stop) \<noteq> ''APPLIED'' \<and> tl stop = map pendingResult (drop (Suc (length front)) ?items)))"
    by (rule replayItems_stop [OF run]) (rule replayItem_names)
  then obtain front stop where names: "map rr_localId results = map oi_localId ?items" "map rr_sequence results = map oi_sequence ?items"
    and r: "results = front @ stop" "\<forall>r \<in> set front. rr_status r = ''APPLIED''"
    "stop = [] \<or> rr_status (hd stop) \<noteq> ''APPLIED'' \<and> tl stop = map pendingResult (drop (Suc (length front)) ?items)"
    unfolding append_Nil if_False by blast
  moreover have "rc_applied counts = length front" using applied_count [OF r(2,3)] by (simp add: counts r(1) countsOf_def Let_def)
  ultimately show ?thesis using order names r unfolding Let_def by blast
qed

text \<open>A batch of two sales whose configuration has no date: a conflict, then a pending one; an earlier receipt is applied.\<close>

definition offlineItem :: "string \<Rightarrow> int \<Rightarrow> offline_item" where
  "offlineItem localId sequence = \<lparr>oi_localId = localId, oi_sequence = sequence, oi_capturedAt = Some (20005 * dayMs), oi_configSyncedAt = None,
     oi_configText = '''', oi_expectedTotal = 40, oi_sale = firstSale, oi_fields = []\<rparr>"

definition offlineBatch :: replay_dto where
  "offlineBatch = \<lparr>rpd_deviceCode = ''POS-1'', rpd_deviceName = None, rpd_appVersion = None, rpd_items = [offlineItem ''b'' 2, offlineItem ''a'' 1]\<rparr>"

definition oldReceipt :: offline_transaction where
  "oldReceipt = \<lparr>ot_id = 44, ot_device = 43, ot_localId = ''z'', ot_sequence = 1, ot_type = ''SALE'', ot_payload = JNull, ot_status = ''APPLIED'',
     ot_entity = Some 42, ot_conflict = None, ot_error = None, ot_attempts = 1, ot_nextRetryAt = None, ot_deadLetteredAt = None, ot_processedAt = Some 0\<rparr>"

lemma batch_replayed:
  "\<exists>counts s'. replayOfflineSales dec collate digest parse stringify configured offlineBatch cashier (opened\<lparr>db_offline := [oldReceipt]\<rparr>) =
    (Inr (counts, [\<lparr>rr_localId = ''a'', rr_sequence = 1, rr_status = ''CONFLICT'', rr_sale = None\<rparr>, pendingResult (offlineItem ''b'' 2)]), s')"
proof -
  have user: "ap_user cashier = exampleUser" by (simp add: cashier_def)
  have d: "db_devices opened = []" by (simp add: opened_def shop_def approvals_db.defs procurement_db.defs sales_db.defs accounting_db.defs)
  have order: "sort_key oi_sequence (rpd_items offlineBatch) = [offlineItem ''a'' 1, offlineItem ''b'' 2]" by (simp add: offlineBatch_def offlineItem_def)
  have rules: "replayRules configured t (offlineItem ''a'' 1) dto = Inl ''OFFLINE_CONFIG_STALE''" for t dto
    by (simp add: replayRules_def offlineItem_def bindE_def requireE_def)
  have unique: "batchUnique [] [] (rpd_items offlineBatch) = Inr ()" "rpd_items offlineBatch \<noteq> []"
    by (simp_all add: offlineBatch_def offlineItem_def bindE_def requireE_def)
  have item: "oi_capturedAt (offlineItem l n) = Some (20005 * dayMs)" "oi_localId (offlineItem l n) = l" "oi_sequence (offlineItem l n) = n" for l n
    by (simp_all add: offlineItem_def)
  show ?thesis
    by (simp add: replayOfflineSales_def svc_defs liftS_def user unique order registerDevice_def bindT_def tx_defs d find_first_def nowT_def newIdT_def Let_def
        exampleScope_simps replayItem_def claimReceipt_def newReceipt_def workReceipt_def rules registerConflict_def setReceipt_def item oldReceipt_def)
qed

theorem replay_stops_at_first_witness:
  "\<exists>counts results s'. replayOfflineSales rationalDecimal (\<lambda>_ _. 0) (\<lambda>_. []) (\<lambda>_. None) (\<lambda>_. []) NaN offlineBatch cashier
     (opened\<lparr>db_offline := [oldReceipt]\<rparr>) = (Inr (counts, results), s') \<and> rc_applied counts = 0 \<and> map rr_sequence results = [1, 2]"
proof -
  let ?results = "[\<lparr>rr_localId = ''a'', rr_sequence = 1, rr_status = ''CONFLICT'', rr_sale = None\<rparr>, pendingResult (offlineItem ''b'' 2)]"
  obtain counts s' where run: "replayOfflineSales rationalDecimal (\<lambda>_ _. 0) (\<lambda>_. []) (\<lambda>_. None) (\<lambda>_. []) NaN offlineBatch cashier
     (opened\<lparr>db_offline := [oldReceipt]\<rparr>) = (Inr (counts, ?results), s')" using batch_replayed by blast
  from replay_stops_at_first [OF run] obtain front stop where f: "?results = front @ stop" "rc_applied counts = length front"
    "\<forall>r \<in> set front. rr_status r = ''APPLIED''" unfolding Let_def by blast
  then have "front = []" by (cases front) auto
  with run f(2) show ?thesis by (auto simp: pendingResult_def offlineItem_def)
qed

theorem applied_receipts_final_witness:
  "\<exists>s'. selling_step rationalDecimal (\<lambda>_ _. 0) (opened\<lparr>db_offline := [oldReceipt]\<rparr>) s' \<and> oldReceipt \<in> set (db_offline s')"
proof -
  obtain a s' where "replayOfflineSales rationalDecimal (\<lambda>_ _. 0) (\<lambda>_. []) (\<lambda>_. None) (\<lambda>_. []) NaN offlineBatch cashier (opened\<lparr>db_offline := [oldReceipt]\<rparr>) =
     (Inr a, s')" using batch_replayed by blast
  then have step: "selling_step rationalDecimal (\<lambda>_ _. 0) (opened\<lparr>db_offline := [oldReceipt]\<rparr>) s'" by (rule step_replay)
  then have "(selling_step rationalDecimal (\<lambda>_ _. 0))\<^sup>*\<^sup>* (opened\<lparr>db_offline := [oldReceipt]\<rparr>) s'" by (rule r_into_rtranclp)
  from applied_receipts_final [OF this] step show ?thesis by (auto simp: oldReceipt_def)
qed

end
