(* ===== verification/SaleListing.thy ===== *)
theory SaleListing
  imports SaleExamples Pagination
begin

text \<open>
  The listing of sales, \<open>list\<close> of \<open>apps/api/src/sales/sales.service.ts\<close>, in cursor pages. The text of a cursor (Base64
  of JSON) and of a date (ISO 8601) are the record \<open>cursor_texts\<close>, with what the standard library promises of them:
  reading gives back what was written. The related rows that the query includes are left out.
\<close>

section \<open>The listing\<close>

text \<open>\<open>new Date(x)\<close> of a cursor's field is \<open>None\<close> when the date is invalid; the query then fails.\<close>

record cursor_texts =
  ct_write :: "json \<Rightarrow> string"
  ct_read :: "string \<Rightarrow> json option"
  ct_iso :: "int \<Rightarrow> string"
  ct_date :: "json option \<Rightarrow> int option"

definition saleCursor :: "cursor_texts \<Rightarrow> sale \<Rightarrow> json" where
  "saleCursor ct r = JObject [(''createdAt'', JString (ct_iso ct (sl_createdAt r))), (''id'', JString (identText (sl_id r)))]"

definition cursorTexts :: "cursor_texts \<Rightarrow> bool" where
  "cursorTexts ct \<longleftrightarrow> (\<forall>r. ct_read ct (ct_write ct (saleCursor ct r)) = Some (saleCursor ct r) \<and> ct_write ct (saleCursor ct r) \<noteq> []) \<and>
     (\<forall>t. ct_date ct (Some (JString (ct_iso ct t))) = Some t)"

text \<open>\<open>createdAt\<close> before the cursor's, or the same and a smaller id; an id that is missing is no condition.\<close>

definition beforeCursor :: "cursor_texts \<Rightarrow> json \<Rightarrow> exn + (sale \<Rightarrow> bool)" where
  "beforeCursor ct c = (case ct_date ct (jsonField ''createdAt'' c) of
     None \<Rightarrow> Inl (PrismaError ''validation'')
   | Some t \<Rightarrow> (case jsonField ''id'' c of
        None \<Rightarrow> Inr (\<lambda>r. sl_createdAt r < t \<or> sl_createdAt r = t)
      | Some (JString i) \<Rightarrow> Inr (\<lambda>r. sl_createdAt r < t \<or> sl_createdAt r = t \<and> identText (sl_id r) < i)
      | _ \<Rightarrow> Inl (PrismaError ''validation'')))"

definition visibleSale :: "tenant_scope \<Rightarrow> 'b sales_db_scheme \<Rightarrow> sale \<Rightarrow> bool" where
  "visibleSale scope s r \<longleftrightarrow> sl_branch r = sc_branch scope \<and> companyOfBranch (sl_branch r) (sc_company scope) s \<and>
     list_all (\<lambda>x. sit_sale x = sl_id r \<longrightarrow> list_ex (\<lambda>p. pr_id p = sit_product x \<and> pr_company p = sc_company scope) (db_products s))
       (db_saleItems s)"

text \<open>\<open>[{ createdAt: 'desc' }, { id: 'desc' }]\<close>.\<close>

definition newestFirst :: "sale \<Rightarrow> sale \<Rightarrow> bool" where
  "newestFirst a b \<longleftrightarrow> sl_createdAt b < sl_createdAt a \<or> sl_createdAt b = sl_createdAt a \<and> identText (sl_id b) \<le> identText (sl_id a)"

definition listSales ::
    "cursor_texts \<Rightarrow> auth_user \<Rightarrow> string option \<Rightarrow> string option \<Rightarrow> ('b sales_db_scheme, (sale, string) cursor_page) svc" where
  "listSales ct user limitValue cursorValue =
     bindS (liftS (requireTenantScope user)) (\<lambda>scope.
     bindS (liftS (parsePageLimit limitValue MAX_PUBLIC_PAGE_LIMIT)) (\<lambda>limit.
     bindS (liftS (decodeCursor (ct_read ct) cursorValue)) (\<lambda>cursor.
     bindS (liftS (case cursor of None \<Rightarrow> Inr (\<lambda>_. True) | Some c \<Rightarrow> beforeCursor ct c)) (\<lambda>earlier.
     bindS (getS (\<lambda>s. take (nat limit + 1) (sortBy newestFirst (filter (\<lambda>r. visibleSale scope s r \<and> earlier r) (db_sales s))))) (\<lambda>rows.
     returnS (toCursorPage (ct_write ct) rows (nat limit) (saleCursor ct)))))))"

section \<open>Following the cursors\<close>

definition followsSale :: "sale \<Rightarrow> sale \<Rightarrow> bool" where
  "followsSale a b \<longleftrightarrow> sl_createdAt b < sl_createdAt a \<or> sl_createdAt b = sl_createdAt a \<and> identText (sl_id b) < identText (sl_id a)"

lemma newestFirst_preorder: "totalPreorder newestFirst A"
  unfolding totalPreorder_def newestFirst_def by (intro conjI ballI impI) auto

lemma distinct_insertBy: "distinct (map f (insertBy precedes x xs)) \<longleftrightarrow> distinct (map f (x # xs))"
  by (induction xs) auto

lemma distinct_sortBy: "distinct (map f (sortBy precedes xs)) \<longleftrightarrow> distinct (map f xs)"
  by (induction xs) (auto simp: sortBy_Cons distinct_insertBy sortBy_def [of _ "[]"])

lemma newestFirst_follows: "newestFirst a b \<Longrightarrow> sl_id a \<noteq> sl_id b \<Longrightarrow> followsSale a b"
  using identText_inject [of "sl_id b" "sl_id a"] unfolding newestFirst_def followsSale_def order_le_less by metis

lemma newestFirst_strict:
  assumes "distinct (map sl_id rows)"
  shows "sorted_wrt followsSale (sortBy newestFirst rows)"
proof -
  have "sorted_wrt followsSale xs" if "sorted_wrt newestFirst xs" "distinct (map sl_id xs)" for xs
    using that
  proof (induction xs)
    case (Cons x xs)
    have "followsSale x y" if "y \<in> set xs" for y
      using Cons.prems that by (intro newestFirst_follows) auto
    with Cons show ?case by simp
  qed simp
  then show ?thesis using assms sortBy_sorted [OF newestFirst_preorder] by (simp add: distinct_sortBy)
qed

text \<open>A filter commutes with the sorting: what is left keeps its order.\<close>

lemma insertBy_filter:
  assumes "sorted_wrt precedes xs" and "totalPreorder precedes (insert x (set xs))" and "P x"
  shows "filter P (insertBy precedes x xs) = insertBy precedes x (filter P xs)"
  using assms
proof (induction xs)
  case (Cons y ys)
  have "insertBy precedes x (filter P ys) = x # filter P ys" if "precedes x y"
  proof (cases "filter P ys")
    case (Cons z zs)
    then have "z \<in> set ys" by (metis filter_is_subset list.set_intros(1) subsetD)
    then have "precedes x z"
      using that Cons.prems totalPreorder_trans [OF Cons.prems(2), of x y z] by auto
    then show ?thesis using Cons by simp
  qed simp
  moreover have "totalPreorder precedes (insert x (set ys))" using Cons.prems(2) by (rule totalPreorder_subset) auto
  ultimately show ?case using Cons by auto
qed simp

lemma insertBy_filter_out: "\<not> P x \<Longrightarrow> filter P (insertBy precedes x xs) = filter P xs"
  by (induction xs) auto

lemma sortBy_filter: "totalPreorder precedes (set xs) \<Longrightarrow> sortBy precedes (filter P xs) = filter P (sortBy precedes xs)"
proof (induction xs)
  case (Cons x xs)
  have p: "totalPreorder precedes (set xs)" using Cons.prems by (rule totalPreorder_subset) auto
  have "filter P (insertBy precedes x (sortBy precedes xs)) = insertBy precedes x (filter P (sortBy precedes xs))" if "P x"
    using insertBy_filter [where P = P, OF sortBy_sorted [OF p], of x] that Cons.prems by simp
  then show ?case using Cons.IH [OF p] by (auto simp: sortBy_Cons insertBy_filter_out)
qed (simp add: sortBy_def)

text \<open>One request of the client.\<close>

definition salePage :: "cursor_texts \<Rightarrow> auth_user \<Rightarrow> string option \<Rightarrow> 'b sales_db_scheme \<Rightarrow> string option \<Rightarrow> exn + (sale, string) cursor_page" where
  "salePage ct user limitValue s cursorValue = fst (listSales ct user limitValue cursorValue s)"

definition salesListed :: "tenant_scope \<Rightarrow> 'b sales_db_scheme \<Rightarrow> sale list" where
  "salesListed scope s = sortBy newestFirst (filter (visibleSale scope s) (db_sales s))"

lemma toCursorPage_texts: "toCursorPage write rows limit f = toCursorPage (\<lambda>c. c) rows limit (\<lambda>x. write (f x))"
  by (simp add: toCursorPage_def)

lemma salePage_first:
  assumes "requireTenantScope user = Inr scope" and "parsePageLimit limitValue MAX_PUBLIC_PAGE_LIMIT = Inr limit"
  shows "salePage ct user limitValue s None =
    Inr (toCursorPage (\<lambda>c. c) (take (nat limit + 1) (salesListed scope s)) (nat limit) (\<lambda>r. ct_write ct (saleCursor ct r)))"
  using assms by (simp add: salePage_def listSales_def svc_defs liftS_def decodeCursor_def salesListed_def toCursorPage_texts [of "ct_write ct"])

lemma salePage_next:
  assumes "requireTenantScope user = Inr scope" and "parsePageLimit limitValue MAX_PUBLIC_PAGE_LIMIT = Inr limit" and "cursorTexts ct"
  shows "salePage ct user limitValue s (Some (ct_write ct (saleCursor ct r))) =
    Inr (toCursorPage (\<lambda>c. c) (take (nat limit + 1) (filter (followsSale r) (salesListed scope s))) (nat limit) (\<lambda>r. ct_write ct (saleCursor ct r)))"
proof -
  have w: "ct_write ct (saleCursor ct r) \<noteq> []" "ct_read ct (ct_write ct (saleCursor ct r)) = Some (saleCursor ct r)"
    using assms(3) by (simp_all add: cursorTexts_def)
  have "beforeCursor ct (saleCursor ct r) = Inr (followsSale r)"
    using assms(3) by (simp add: beforeCursor_def saleCursor_def cursorTexts_def fun_eq_iff followsSale_def)
  moreover have "decodeCursor (ct_read ct) (Some (ct_write ct (saleCursor ct r))) = Inr (Some (saleCursor ct r))"
    using w by (cases "ct_write ct (saleCursor ct r)") (simp_all add: decodeCursor_def saleCursor_def)
  moreover have "filter (\<lambda>x. visibleSale scope s x \<and> followsSale r x) (db_sales s) = filter (followsSale r) (filter (visibleSale scope s) (db_sales s))"
    by (simp add: conj_commute)
  ultimately show ?thesis
    using assms(1,2) by (simp add: salePage_def listSales_def svc_defs liftS_def salesListed_def toCursorPage_texts [of "ct_write ct"]
        sortBy_filter [OF newestFirst_preorder])
qed

lemma parsePageLimit_positive: "parsePageLimit v MAX_PUBLIC_PAGE_LIMIT = Inr limit \<Longrightarrow> 1 \<le> limit"
  by (auto simp: parsePageLimit_def DEFAULT_PAGE_LIMIT_def MAX_PUBLIC_PAGE_LIMIT_def Let_def split: if_splits js_number.splits)

lemma listSales_reads: "snd (listSales ct user limitValue cursorValue s) = s"
  by (simp add: listSales_def svc_defs liftS_def split: sum.splits)

text \<open>
  C30. The pages of the sales listing show every sale of the branch exactly once, newest first. For any limit that the
  API accepts, a client that starts without a cursor and asks again with the cursor it was given is given
  none after as many requests as the sales need pages (one if there are none), never sooner or later; every page
  but the last is full, and no request changes anything. The sales stay the same during the walk, and the texts
  of dates and cursors are read back as they were written.
\<close>

theorem sale_pages_cover:
  assumes "requireTenantScope user = Inr scope" and "parsePageLimit limitValue MAX_PUBLIC_PAGE_LIMIT = Inr limit"
    and "cursorTexts ct" and "distinct (map sl_id (db_sales s))"
  shows "\<exists>pages. (\<forall>n. walkPages n (salePage ct user limitValue s) None = (if length pages \<le> n then Some pages else None)) \<and>
    length pages = Suc ((length (concat pages) - 1) div nat limit) \<and> (\<forall>page \<in> set (butlast pages). length page = nat limit) \<and>
    sorted_wrt followsSale (concat pages) \<and> distinct (map sl_id (concat pages)) \<and>
    set (concat pages) = {r \<in> set (db_sales s). visibleSale scope s r} \<and>
    (\<forall>cursorValue. snd (listSales ct user limitValue cursorValue s) = s)"
proof (intro exI [of _ "pagesOf (nat limit) (salesListed scope s)"] conjI allI)
  let ?rows = "salesListed scope s"
  have limit: "1 \<le> nat limit" using parsePageLimit_positive [OF assms(2)] by simp
  have ids: "distinct (map sl_id (filter (visibleSale scope s) (db_sales s)))" using assms(4) by (rule distinct_map_filter)
  have ordered: "sorted_wrt followsSale ?rows" unfolding salesListed_def by (rule newestFirst_strict [OF ids])
  show "walkPages n (salePage ct user limitValue s) None =
      (if length (pagesOf (nat limit) ?rows) \<le> n then Some (pagesOf (nat limit) ?rows) else None)" for n
    by (rule walkPages_exact [OF salePage_first [OF assms(1,2)] salePage_next [OF assms(1-3)] ordered _ limit]) (auto simp: followsSale_def)
  show "length (pagesOf (nat limit) ?rows) = Suc ((length (concat (pagesOf (nat limit) ?rows)) - 1) div nat limit)"
    by (simp add: length_pagesOf [OF limit] concat_pagesOf)
  show "\<forall>page \<in> set (butlast (pagesOf (nat limit) ?rows)). length page = nat limit" using pagesOf_full by blast
  show "sorted_wrt followsSale (concat (pagesOf (nat limit) ?rows))" using ordered by (simp add: concat_pagesOf)
  show "distinct (map sl_id (concat (pagesOf (nat limit) ?rows)))" using ids by (simp add: concat_pagesOf salesListed_def distinct_sortBy)
  show "set (concat (pagesOf (nat limit) ?rows)) = {r \<in> set (db_sales s). visibleSale scope s r}"
    by (simp add: concat_pagesOf salesListed_def)
qed (rule listSales_reads)

section \<open>An example\<close>

text \<open>Dates in decimal, a cursor's two texts separated by a bar.\<close>

definition plainTexts :: cursor_texts where
  "plainTexts = \<lparr>ct_write = (\<lambda>c. case c of JObject [(_, JString a), (_, JString b)] \<Rightarrow> a @ ''|'' @ b | _ \<Rightarrow> []),
     ct_read = (\<lambda>t. Some (JObject [(''createdAt'', JString (takeWhile (\<lambda>c. c \<noteq> CHR ''|'') t)),
       (''id'', JString (tl (dropWhile (\<lambda>c. c \<noteq> CHR ''|'') t)))])),
     ct_iso = intText,
     ct_date = (\<lambda>x. case x of Some (JString (c # cs)) \<Rightarrow>
       Some (if c = CHR ''-'' then - int (decimalValue cs) else int (decimalValue (c # cs))) | _ \<Rightarrow> None)\<rparr>"

lemma natText_chars: "natText n \<noteq> [] \<and> hd (natText n) \<noteq> CHR ''-'' \<and> CHR ''|'' \<notin> set (natText n)"
proof -
  have n: "natText n \<noteq> []" by (subst natText.simps) simp
  have bar: "\<not> isDigit (CHR ''|'')" by (simp add: isDigit_def)
  moreover have "isDigit (hd (natText n))" using natText_digits [of n] hd_in_set [OF n] by blast
  ultimately show ?thesis using natText_digits [of n] isDigit_not_dash [of "hd (natText n)"] bar n by blast
qed

lemma plainTexts_date: "ct_date plainTexts (Some (JString (ct_iso plainTexts t))) = Some t"
proof (cases "t < 0")
  case True
  then show ?thesis by (simp add: plainTexts_def intText_def decimalValue_natText)
next
  case False
  obtain c cs where c: "natText (nat t) = c # cs" using natText_chars [of "nat t"] by (cases "natText (nat t)") auto
  then have "c \<noteq> CHR ''-''" and "decimalValue (c # cs) = nat t" using natText_chars [of "nat t"] decimalValue_natText [of "nat t"] by auto
  with False c show ?thesis by (simp add: plainTexts_def intText_def)
qed

lemma plainTexts_read: "cursorTexts plainTexts"
proof -
  have "takeWhile (\<lambda>c. c \<noteq> CHR ''|'') (a @ CHR ''|'' # b) = a \<and> dropWhile (\<lambda>c. c \<noteq> CHR ''|'') (a @ CHR ''|'' # b) = CHR ''|'' # b"
    if "CHR ''|'' \<notin> set a" for a b :: string
    using that by (induction a) auto
  moreover have "CHR ''|'' \<notin> set (intText t)" for t using natText_chars by (simp add: intText_def)
  ultimately show ?thesis using plainTexts_date by (simp add: cursorTexts_def) (simp add: plainTexts_def saleCursor_def)
qed

definition soldAt :: "ident \<Rightarrow> int \<Rightarrow> sale" where
  "soldAt i t = \<lparr>sl_id = i, sl_number = ''S'', sl_branch = 1, sl_warehouse = 1, sl_customer = None, sl_shift = None, sl_status = ''COMPLETED'',
     sl_subtotal = 0, sl_discount = 0, sl_tax = 0, sl_total = 0, sl_costTotal = 0, sl_createdAt = t, sl_event = None, sl_taxDocument = None\<rparr>"

definition soldShop :: sales_db where
  "soldShop = shop\<lparr>db_sales := [soldAt 60 5, soldAt 61 9, soldAt 62 5]\<rparr>"

theorem sale_pages_cover_witness:
  "\<exists>pages. walkPages 2 (salePage plainTexts exampleUser (Some ''2'') soldShop) None = Some pages \<and> length (concat pages) = 3"
proof -
  have l: "parsePageLimit (Some ''2'') MAX_PUBLIC_PAGE_LIMIT = Inr 2" by code_simp
  have v: "list_all (visibleSale exampleScope soldShop) (db_sales soldShop)" by code_simp
  have rows: "db_sales soldShop = [soldAt 60 5, soldAt 61 9, soldAt 62 5]" by (simp add: soldShop_def)
  have "distinct (map sl_id (db_sales soldShop))" by (simp add: rows soldAt_def)
  from sale_pages_cover [OF exampleScope_of_user l plainTexts_read this] obtain pages where
    p: "\<forall>n. walkPages n (salePage plainTexts exampleUser (Some ''2'') soldShop) None = (if length pages \<le> n then Some pages else None)"
      "length pages = Suc ((length (concat pages) - 1) div nat 2)" "distinct (map sl_id (concat pages))"
      "set (concat pages) = {r \<in> set (db_sales soldShop). visibleSale exampleScope soldShop r}" by (elim exE conjE) (rule that)
  have "set (concat pages) = set (db_sales soldShop)" using v unfolding p(4) by (auto simp: list_all_iff)
  then have "set (map sl_id (concat pages)) = {60, 61, 62}" by (simp add: rows soldAt_def)
  then have "length (concat pages) = 3" using distinct_card [OF p(3)] by (simp del: set_map)
  then show ?thesis using p(1,2) by auto
qed

end
