(* ===== verification/Spec2Isabelle.thy ===== *)
theory Spec2Isabelle
  imports LocationProperties PayrollFormula PayrollMethods SerializableTx Pagination LoyaltyTier Totp RateLimit AccountingProperties StockRuns StockListings ProcurementRuns ApprovalSweeps SaleClaims SaleListing
begin

text \<open>
  A verification development for Mayatoko, a retail platform: an API of NestJS services over PostgreSQL through
  Prisma (\<open>apps/api/src\<close>), a worker (\<open>apps/worker/src\<close>), and clients. The development models the services
  that keep stock, books, purchasing, approvals and sales, and the libraries they share; it translates the TypeScript
  definitions one by one and proves what they keep true over any sequence of requests.

  \<^bold>\<open>How the code is modelled.\<close>

  \<^item> A table is a list of records in the order of insertion, a row of \<open>apps/api/prisma/schema.prisma\<close> one record with the
    columns the modelled code reads or writes. Generated ids come from one counter, \<open>db_nextId\<close>; the clock is
    \<open>db_now\<close>, milliseconds since the epoch. \<open>findFirst\<close>, \<open>findUnique\<close>, \<open>updateMany\<close>, \<open>create\<close> are \<open>find_first\<close>,
    \<open>update_many\<close> and appends; unique keys of the schema are checks that throw \<open>PrismaError ''P2002''\<close>.
  \<^item> An interactive transaction is a function \<open>'s \<Rightarrow> exn + 'a \<times> 's\<close> (\<open>('s, 'a) tx\<close>, theory Prelude): an exception
    leaves no state, which is the rollback. A service method is \<open>('s, 'a) svc\<close>, \<open>'s \<Rightarrow> (exn + 'a) \<times> 's\<close>: what it wrote
    before an exception stays. \<open>runTx\<close> embeds the first in the second. Every \<open>throw\<close> is a value of \<open>exn\<close>, one constructor
    per exception class.
  \<^item> A handler is one step: the services run their transactions serializably, and \<open>SerializableTx\<close> models the retry
    of aborted attempts. Interleavings of the calls a handler makes outside a transaction are not modelled.
  \<^item> Numbers of the language are doubles with their rounding (\<open>JsNumber\<close>) where the code computes with them, integers
    where it counts, rationals under the operations of decimal.js (\<open>decimal_ops\<close>, an argument) where it uses
    \<open>Prisma.Decimal\<close>. What is relied on of them is \<open>decimalLaws p\<close>: every result is the exact one rounded to \<open>p\<close>
    significant digits, so that sums whose digits fit are exact and products are within one unit of the last digit. Texts are ASCII. JSON is the datatype \<open>json\<close> of \<open>JsConvert\<close>.
  \<^item> Third-party code is an argument: SHA-256 and HMAC, the digest of a payload, \<open>localeCompare\<close>, decimal.js, the aborts
    of the database, random draws. PostgreSQL sorts nulls last in ascending and first in descending order; the model of
    an \<open>orderBy\<close> on a nullable column follows that.

  \<^bold>\<open>Shared theories.\<close> \<open>Prelude\<close> (exceptions, transactions, tables, and the lemmas \<open>tx_Inr\<close>, \<open>svc_Inr\<close> that invert a run),
  \<open>JsNumber\<close>, \<open>JsText\<close>, \<open>JsConvert\<close> (numbers, text and calendar, conversions), \<open>Database\<close> (users, tenant scope, base tables,
  denial of foreign tenants, sorting), \<open>Keeps\<close> (invariants of transactions and services, with introduction rules
  \<open>keeps_rules\<close> that follow the structure of a handler), \<open>Frames\<close> (the locale \<open>bystander\<close>: an invariant that does not
  read the common tables is kept by ids, numbers, audit rows, stock and postings; one interpretation per
  invariant), \<open>EffectiveRows\<close> (the locale \<open>effective_rows\<close>: versioned rows of a key that are only activated after an overlap
  check never overlap in time).

  \<^bold>\<open>Libraries of the API\<close> (\<open>apps/api/src/common\<close>, \<open>auth\<close>, \<open>payroll\<close>).

  \<^item> \<open>LocationInventory\<close>, \<open>LocationLedger\<close>, \<open>LocationProperties\<close>: \<open>location-inventory.ts\<close>. The abstraction \<open>ledger\<close> adds the
    balances of the locations of a product up; each operation refines one move of that abstract ledger or throws.
    The loops over locations share the locales \<open>allocation_loop\<close> and \<open>settlement_loop\<close>, interpreted per operation.
  \<^item> \<open>Numbering\<close>: \<open>numbering.ts\<close>; issued numbers are distinct, and the period rollover that never recovers.
  \<^item> \<open>Idempotency\<close>: \<open>idempotency.ts\<close>; replay. \<open>SerializableTx\<close>: \<open>serializable-tx.ts\<close>; at most \<open>maxRetry + 1\<close> attempts.
    \<open>Pagination\<close>: \<open>pagination.ts\<close>, and a client that follows the cursors (its fuel is the number of requests it may
    make, and too little of it is the value \<open>None\<close>); \<open>SaleListing\<close> is the listing of sales on it, whose pages show every sale once. \<open>LoyaltyTier\<close>: \<open>loyalty-tier.ts\<close>.
  \<^item> \<open>Totp\<close>: \<open>totp.ts\<close>; \<open>RateLimit\<close>: \<open>distributed-rate-limit.service.ts\<close>.
  \<^item> \<open>PayrollFormula\<close>: \<open>payroll-formula.ts\<close>; the parser against the meaning of a formula tree; its recursion carries
    the remaining tokens as its measure, and the bounds on text and tokens are those of the source.
    \<open>PayrollMethods\<close>: \<open>payroll-method-engine.ts\<close>; proration and the gross-up loop, whose fuel is the 100
    iterations of the source.

  \<^bold>\<open>Accounting core\<close> (\<open>accounting-core.service.ts\<close>): \<open>Accounting\<close> (tables, accounts), \<open>AccountingConfig\<close> (tax codes,
  posting rules, closing controls), \<open>AccountingPosting\<close> (\<open>calculateTax\<close>, \<open>postOperationalEvent\<close>), \<open>AccountingProperties\<close>
  (balanced journals in open periods, idempotent posting, tax splits, one configuration in force).

  \<^bold>\<open>Stock\<close> (\<open>advanced-inventory.service.ts\<close>): \<open>StockOps\<close>, \<open>StockMoves\<close> (transfers, counts, condition changes), \<open>StockListings\<close>,
  \<open>StockProperties\<close>, \<open>StockConservation\<close>, \<open>StockRuns\<close> (runs of the services: locations reconcile with the aggregates,
  shipping and receiving conserve units).

  \<^bold>\<open>Purchasing\<close>: \<open>Procurement\<close> (\<open>suppliers.service.ts\<close>, \<open>purchase-orders.service.ts\<close>, and the operation policies of
  \<open>operations-control.service.ts\<close>), \<open>GoodsReceipts\<close> (\<open>goods-receipts.service.ts\<close>), \<open>ProcurementProperties\<close> and \<open>ProcurementRuns\<close> (an order
  line has received what its confirmed receipts accepted; the effect of a confirmation on stock and books).

  \<^bold>\<open>Approvals\<close>: \<open>Approvals\<close> (\<open>platform.service.ts\<close>: policies, requests, decisions, delegation; of the worker
  \<open>processApprovalExpiries\<close> and the automation action \<open>CREATE_APPROVAL_REQUEST\<close>), \<open>PurchaseRequests\<close> (\<open>purchase-requests.service.ts\<close>), \<open>HumanResources\<close> and \<open>LeaveRequests\<close> (\<open>hr.service.ts\<close>). Together
  they write one board of tables; \<open>ApprovalProperties\<close> and \<open>RequestProperties\<close> prove that each handler
  keeps \<open>boardOk\<close> whatever its outcome, \<open>ApprovalRuns\<close> draws the properties of any run from it, \<open>ApprovalSweeps\<close> shows that
  the worker's sweeps, fifty rows each, leave nothing overdue (for clocks below 2^49 milliseconds, so that a deadline
  of doubles lies after its time).

  \<^bold>\<open>Selling\<close>: \<open>SaleTables\<close> (the tables), \<open>SellingPrice\<close> (\<open>transaction-uom.ts\<close>, \<open>product-pricing.ts\<close>), \<open>Promotions\<close>
  (\<open>promotions.service.ts\<close>), \<open>CashierShifts\<close>, \<open>Sales\<close>, \<open>OfflineReplay\<close> (\<open>sales.service.ts\<close>, \<open>stock-alert.service.ts\<close>). A sale prices its
  lines, allocates its discounts, taxes the lines, checks stock and payments, and then writes; the replay of a batch quotes
  and creates sales under receipts. \<open>SalePricing\<close> proves what holds of prices and discounts. \<open>SaleFrames\<close> gathers the
  tables of the selling side in one value, \<open>till\<close>: the locale \<open>till_invariant\<close> (an extension of \<open>bystander\<close>) proves once that the
  operations that only take ids keep any predicate of it, and the interpretations give the frames of the rest.
  \<open>SaleProperties\<close> shows that a sale keeps \<open>salesOk\<close> and \<open>pointsOk\<close>; \<open>SaleRuns\<close> carries such an invariant over every run (locale
  \<open>sale_invariant\<close>); \<open>SaleClaims\<close> interprets it and states the properties; \<open>SaleExamples\<close> and \<open>ShopRun\<close> evaluate one sale, stage by
  stage, for the witnesses.

  \<^bold>\<open>How the parts interact.\<close> Service states extend each other as records: \<open>base_db\<close>, \<open>accounting_db\<close>, \<open>procurement_db\<close>,
  \<open>approvals_db\<close>, \<open>hr_db\<close>,
  \<open>sales_db\<close>. A purchase request asks for an approval, becomes a purchase order under an idempotency
  key, whose receipts raise the stock ledger and post an accounting event; each of these calls is the definition of
  the part it belongs to. A sale takes stock from the ledger, numbers from the numbering, its journal from the postings, its tier from
  \<open>loyalty-tier.ts\<close>, and its repetition is the receipt of \<open>idempotency.ts\<close>.

  \<^bold>\<open>Step relations.\<close> \<open>config_step\<close>, \<open>purchase_step\<close>, \<open>approval_step\<close>, \<open>selling_step\<close> and the runs of the stock services have one rule per handler,
  for every input and every outcome, and one for the clock or the steps of other services, which leave the tables of the invariant
  alone. The properties start from empty tables, or name what they assume of the start.

  \<^bold>\<open>Not modelled.\<close> Free text that is only copied (notes, descriptions, reasons), audit payloads, the worker's audit rows (they
  name no user), listings that are plain filters. Orders, the payments of orders, returns, payroll runs, attendance, finance
  documents, assets, fleet, extensions, reports, master data, sessions and the user interfaces are not reached yet or
  rest on third-party code; the reason for each is in the manifest's list of components. Of the
  operations control service only the policies are modelled, of the worker only the expiry of approvals and the automation action that opens one.
\<close>

end
